(* ===== verification/TB_Prelude.thy ===== *)
theory TB_Prelude
  imports Main "HOL-Library.Word" "HOL-Library.AList" "HOL-Library.Multiset"
begin

unbundle bit_operations_syntax

text \<open>
  Shared vocabulary of the development: the Rust types the sources use, results with an
  explicit panic outcome, the big-endian byte buffers of the \<open>bytes\<close> crate's
  \<open>Buf\<close>/\<open>BufMut\<close> traits, hash maps as association lists, and the two generic interfaces
  (finite maps, transition systems with an invariant) that several components rely on.
\<close>

named_theorems codec_simps \<open>rewriting rules for byte readers and writers\<close>
named_theorems hm_simps \<open>rewriting rules for hash maps\<close>

section \<open>Machine types\<close>

type_synonym byte = "8 word"
type_synonym u16 = "16 word"
type_synonym u32 = "32 word"
type_synonym u64 = "64 word"
type_synonym u128 = "128 word"

text \<open>A signed 32-bit integer is kept as its bit pattern; \<^term>\<open>sint\<close> reads its value.\<close>

type_synonym i32 = "32 word"

text \<open>
  Sizes and lengths (\<open>usize\<close>, 64-bit targets) are natural numbers, with the machine's
  largest value written out where an operation checks or saturates.  Instants and durations
  are nanoseconds, and \<open>Instant::duration_since\<close> saturates at zero, which is what
  subtraction of natural numbers does.
\<close>

type_synonym usize = nat
type_synonym instant = nat
type_synonym duration = nat

definition usize_max :: usize where
  "usize_max = 2 ^ 64 - 1"

definition secs :: "nat \<Rightarrow> duration" where
  "secs n = n * 1000000000"

definition millis :: "nat \<Rightarrow> duration" where
  "millis n = n * 1000000"

definition duration_since :: "instant \<Rightarrow> instant \<Rightarrow> duration" where
  "duration_since now earlier = now - earlier"

definition usize_checked_add :: "usize \<Rightarrow> usize \<Rightarrow> usize option" where
  "usize_checked_add a b = (if a + b \<le> usize_max then Some (a + b) else None)"

definition usize_saturating_add :: "usize \<Rightarrow> usize \<Rightarrow> usize" where
  "usize_saturating_add a b = min (a + b) usize_max"

definition saturating_add :: "'a::len word \<Rightarrow> 'a word \<Rightarrow> 'a word" where
  "saturating_add a b = (if a + b < a then - 1 else a + b)"

lemma unat_max_word: "unat (- 1 :: 'a::len word) = 2 ^ LENGTH('a) - 1"
  by (simp add: unsigned_minus_1_eq_mask mask_eq_exp_minus_1)

lemma unat_saturating_add:
  fixes a b :: "'a::len word"
  shows "unat (saturating_add a b) = min (unat a + unat b) (2 ^ LENGTH('a) - 1)"
proof (cases "unat a + unat b < 2 ^ LENGTH('a)")
  case True
  then have "unat (a + b) = unat a + unat b" by (simp add: unat_word_ariths)
  moreover from this have "\<not> a + b < a" by (simp add: word_less_nat_alt)
  ultimately show ?thesis using True by (simp add: saturating_add_def)
next
  case False
  then have le: "2 ^ LENGTH('a) \<le> unat a + unat b" by simp
  have a: "unat a < 2 ^ LENGTH('a)" and b: "unat b < 2 ^ LENGTH('a)" by simp_all
  have "(unat a + unat b) mod 2 ^ LENGTH('a) = unat a + unat b - 2 ^ LENGTH('a)"
    using le a b by (metis le_mod_geq mod_less add_less_mono less_diff_conv2 nat_add_left_cancel_less)
  then have "unat (a + b) = unat a + unat b - 2 ^ LENGTH('a)" by (simp add: unat_word_ariths)
  then have "a + b < a" using le b unfolding word_less_nat_alt by linarith
  then show ?thesis using le by (simp add: saturating_add_def unat_max_word)
qed

section \<open>Results\<close>

text \<open>
  A fallible Rust function returns \<open>Ok\<close> or \<open>Err\<close>; a slice or buffer access out of range
  panics, which is a third outcome, so that the absence of panics is a theorem.
\<close>

datatype ('e, 'a) res = Ok (the_ok: 'a) | Err (the_err: 'e) | Panic

fun rbind :: "('e, 'a) res \<Rightarrow> ('a \<Rightarrow> ('e, 'b) res) \<Rightarrow> ('e, 'b) res" where
  "rbind (Ok x) f = f x"
| "rbind (Err e) f = Err e"
| "rbind Panic f = Panic"

fun map_err :: "('e \<Rightarrow> 'f) \<Rightarrow> ('e, 'a) res \<Rightarrow> ('f, 'a) res" where
  "map_err g (Ok x) = Ok x"
| "map_err g (Err e) = Err (g e)"
| "map_err g Panic = Panic"

fun is_ok :: "('e, 'a) res \<Rightarrow> bool" where
  "is_ok (Ok x) = True"
| "is_ok (Err e) = False"
| "is_ok Panic = False"

definition ok_or :: "'a option \<Rightarrow> 'e \<Rightarrow> ('e, 'a) res" where
  "ok_or v e = (case v of None \<Rightarrow> Err e | Some x \<Rightarrow> Ok x)"

text \<open>\<open>ensure c e\<close> is the early return \<open>if !c { return Err(e) }\<close>.\<close>

definition ensure :: "bool \<Rightarrow> 'e \<Rightarrow> ('e, unit) res" where
  "ensure c e = (if c then Ok () else Err e)"

lemma rbind_eq_Ok [simp]: "rbind m f = Ok y \<longleftrightarrow> (\<exists>x. m = Ok x \<and> f x = Ok y)"
  by (cases m) auto

lemma rbind_eq_Panic: "rbind m f = Panic \<longleftrightarrow> m = Panic \<or> (\<exists>x. m = Ok x \<and> f x = Panic)"
  by (cases m) auto

lemma map_err_eq_Ok [simp]: "map_err g m = Ok y \<longleftrightarrow> m = Ok y"
  by (cases m) auto

lemma map_err_eq_Panic [simp]: "map_err g m = Panic \<longleftrightarrow> m = Panic"
  by (cases m) auto

lemma is_ok_iff: "is_ok m \<longleftrightarrow> (\<exists>x. m = Ok x)"
  by (cases m) auto

lemma ok_or_simps [simp]: "ok_or None e = Err e" "ok_or (Some x) e = Ok x"
  by (simp_all add: ok_or_def)

lemma ok_or_eq_Ok [simp]: "ok_or v e = Ok x \<longleftrightarrow> v = Some x"
  by (cases v) auto

lemma ok_or_no_Panic [simp]: "ok_or v e \<noteq> Panic"
  by (cases v) auto

lemma ensure_eq_Ok [simp]: "ensure c e = Ok u \<longleftrightarrow> c"
  by (simp add: ensure_def)

lemma ensure_no_Panic [simp]: "ensure c e \<noteq> Panic"
  by (simp add: ensure_def)

lemma ensure_eq_Err [simp]: "ensure c e = Err f \<longleftrightarrow> \<not> c \<and> e = f"
  by (auto simp add: ensure_def)

lemma ensure_simps [simp]: "ensure True e = Ok ()" "ensure False e = Err e"
  by (simp_all add: ensure_def)

section \<open>Big-endian buffers\<close>

text \<open>
  \<open>be_enc n v\<close> is the \<open>n\<close>-byte big-endian representation \<open>to_be_bytes\<close> of \<open>v\<close> and
  \<open>be_dec\<close> its inverse \<open>from_be_bytes\<close>.
\<close>

fun be_enc :: "nat \<Rightarrow> nat \<Rightarrow> byte list" where
  "be_enc 0 v = []"
| "be_enc (Suc n) v = be_enc n (v div 256) @ [of_nat v]"

definition be_dec :: "byte list \<Rightarrow> nat" where
  "be_dec bs = foldl (\<lambda>acc b. acc * 256 + unat b) 0 bs"

lemma length_be_enc [simp]: "length (be_enc n v) = n"
  by (induction n arbitrary: v) auto

lemma be_enc_4:
  "be_enc 4 v = [of_nat (v div 16777216), of_nat (v div 65536), of_nat (v div 256), of_nat v]"
proof -
  have "(4::nat) = Suc (Suc (Suc (Suc 0)))" by simp
  then show ?thesis by (simp only: be_enc.simps append.simps) (simp flip: div_mult2_eq)
qed

lemma be_dec_Nil [simp]: "be_dec [] = 0"
  by (simp add: be_dec_def)

lemma be_dec_snoc [simp]: "be_dec (bs @ [b]) = be_dec bs * 256 + unat b"
  by (simp add: be_dec_def)

lemma be_dec_be_enc: "be_dec (be_enc n v) = v mod 256 ^ n"
proof (induction n arbitrary: v)
  case 0
  then show ?case by simp
next
  case (Suc n)
  have "be_dec (be_enc (Suc n) v) = v div 256 mod 256 ^ n * 256 + v mod 256"
    using Suc by (simp add: unat_of_nat)
  also have "\<dots> = v mod (256 * 256 ^ n)"
    by (simp add: mod_mult2_eq)
  finally show ?case by simp
qed

lemma be_enc_be_dec: "be_enc (length bs) (be_dec bs) = bs"
proof (induction bs rule: rev_induct)
  case Nil
  then show ?case by simp
next
  case (snoc b bs)
  have "unat b < 256" using unsigned_less [of b] by simp
  then have "(be_dec bs * 256 + unat b) div 256 = be_dec bs" by simp
  moreover have "(of_nat (be_dec bs * 256 + unat b) :: byte) = b"
    using \<open>unat b < 256\<close> by (simp add: word_unat_eq_iff unat_of_nat unat_word_ariths)
  ultimately show ?case using snoc by simp
qed

lemma be_dec_bound: "be_dec bs < 256 ^ length bs"
proof -
  have "be_dec bs = be_dec (be_enc (length bs) (be_dec bs))"
    by (simp add: be_enc_be_dec)
  also have "\<dots> < 256 ^ length bs"
    unfolding be_dec_be_enc by simp
  finally show ?thesis .
qed

text \<open>Writers append to the buffer, readers consume from its front and panic when it is too short.\<close>

definition put_u8 :: "byte \<Rightarrow> byte list" where
  "put_u8 b = [b]"

definition put_u16 :: "u16 \<Rightarrow> byte list" where
  "put_u16 w = be_enc 2 (unat w)"

definition put_u32 :: "u32 \<Rightarrow> byte list" where
  "put_u32 w = be_enc 4 (unat w)"

definition put_u64 :: "u64 \<Rightarrow> byte list" where
  "put_u64 w = be_enc 8 (unat w)"

definition copy_to_bytes :: "nat \<Rightarrow> byte list \<Rightarrow> ('e, byte list \<times> byte list) res" where
  "copy_to_bytes n bs = (if length bs < n then Panic else Ok (take n bs, drop n bs))"

definition advance :: "nat \<Rightarrow> byte list \<Rightarrow> ('e, byte list) res" where
  "advance n bs = (if length bs < n then Panic else Ok (drop n bs))"

definition get_u8 :: "byte list \<Rightarrow> ('e, byte \<times> byte list) res" where
  "get_u8 bs = (case bs of [] \<Rightarrow> Panic | b # r \<Rightarrow> Ok (b, r))"

definition get_be :: "nat \<Rightarrow> byte list \<Rightarrow> ('e, 'a::len word \<times> byte list) res" where
  "get_be n bs = rbind (copy_to_bytes n bs) (\<lambda>(v, r). Ok (of_nat (be_dec v), r))"

abbreviation get_u16 :: "byte list \<Rightarrow> ('e, u16 \<times> byte list) res" where
  "get_u16 \<equiv> get_be 2"

abbreviation get_u32 :: "byte list \<Rightarrow> ('e, u32 \<times> byte list) res" where
  "get_u32 \<equiv> get_be 4"

abbreviation get_u64 :: "byte list \<Rightarrow> ('e, u64 \<times> byte list) res" where
  "get_u64 \<equiv> get_be 8"

text \<open>\<open>read_array::<N>\<close> of both frame codecs: a checked read of an array.\<close>

definition read_array :: "'e \<Rightarrow> nat \<Rightarrow> byte list \<Rightarrow> ('e, byte list \<times> byte list) res" where
  "read_array too_short n bs =
     (if length bs < n then Err too_short else Ok (take n bs, drop n bs))"

definition all_zero :: "byte list \<Rightarrow> bool" where
  "all_zero bs = list_all (\<lambda>b. b = 0) bs"

lemma put_lengths [simp, codec_simps]:
  "length (put_u8 b) = 1" "length (put_u16 v) = 2" "length (put_u32 w) = 4"
  "length (put_u64 x) = 8"
  by (simp_all add: put_u8_def put_u16_def put_u32_def put_u64_def)

lemma get_u8_put [simp, codec_simps]: "get_u8 (put_u8 b @ r) = Ok (b, r)"
  by (simp add: get_u8_def put_u8_def)

lemma of_nat_be_dec_enc:
  fixes w :: "'a::len word"
  assumes "LENGTH('a) \<le> 8 * n"
  shows "of_nat (be_dec (be_enc n (unat w))) = w"
proof -
  have "unat w < 2 ^ LENGTH('a)" by simp
  also have "(2::nat) ^ LENGTH('a) \<le> 2 ^ (8 * n)" using assms by (rule power_increasing) simp
  also have "(2::nat) ^ (8 * n) = 256 ^ n" by (simp add: power_mult)
  finally show ?thesis by (simp add: be_dec_be_enc)
qed

lemma get_put_be [simp, codec_simps]:
  "get_u16 (put_u16 v @ r) = Ok (v, r)"
  "get_u32 (put_u32 w @ r) = Ok (w, r)"
  "get_u64 (put_u64 x @ r) = Ok (x, r)"
  by (simp_all add: get_be_def copy_to_bytes_def put_u16_def put_u32_def put_u64_def
      of_nat_be_dec_enc)

lemma get_u8_Ok [codec_simps]: "get_u8 bs = Ok (b, r) \<longleftrightarrow> bs = put_u8 b @ r"
  by (cases bs) (auto simp: get_u8_def put_u8_def)

lemma be_enc_of_nat_be_dec:
  assumes "length v = n" and "8 * n = LENGTH('a::len)"
  shows "be_enc n (unat (of_nat (be_dec v) :: 'a word)) = v"
proof -
  have "(2::nat) ^ LENGTH('a) = 256 ^ n"
    unfolding assms(2) [symmetric] by (simp add: power_mult)
  then show ?thesis using be_dec_bound [of v] assms(1) be_enc_be_dec [of v] by (simp add: unat_of_nat)
qed

lemma copy_to_bytes_Ok [codec_simps]:
  "copy_to_bytes n bs = Ok (v, r) \<longleftrightarrow> bs = v @ r \<and> length v = n"
  by (auto simp: copy_to_bytes_def split: if_splits)

lemma copy_to_bytes_append [simp]: "length v = n \<Longrightarrow> copy_to_bytes n (v @ r) = Ok (v, r)"
  by (simp add: copy_to_bytes_Ok)

lemma copy_to_bytes_all [simp]: "length v = n \<Longrightarrow> copy_to_bytes n v = Ok (v, [])"
  using copy_to_bytes_append [of v n "[]"] by simp

lemma read_array_Ok [codec_simps]:
  "read_array e n bs = Ok (v, r) \<longleftrightarrow> bs = v @ r \<and> length v = n"
  by (auto simp: read_array_def split: if_splits)

lemma read_array_append [simp]: "length v = n \<Longrightarrow> read_array e n (v @ r) = Ok (v, r)"
  by (simp add: read_array_Ok)

lemma read_array_no_Panic [simp]: "read_array e n bs \<noteq> Panic"
  by (simp add: read_array_def)

lemma advance_Ok [codec_simps]: "advance n bs = Ok r \<longleftrightarrow> n \<le> length bs \<and> r = drop n bs"
  by (auto simp: advance_def)

lemma advance_0 [simp]: "advance 0 bs = Ok bs"
  by (simp add: advance_def)

lemma advance_append [simp]: "length v = n \<Longrightarrow> advance n (v @ r) = Ok r"
  by (simp add: advance_def)

lemma get_be_Ok:
  assumes "8 * n = LENGTH('a)"
  shows "get_be n bs = Ok (w, r) \<longleftrightarrow> bs = be_enc n (unat (w :: 'a::len word)) @ r"
proof
  assume "get_be n bs = Ok (w, r)"
  then obtain v where "bs = v @ r" "length v = n" "w = of_nat (be_dec v)"
    by (auto simp: get_be_def copy_to_bytes_Ok)
  then show "bs = be_enc n (unat w) @ r"
    using be_enc_of_nat_be_dec [of v n, where 'a = 'a] assms by simp
next
  assume "bs = be_enc n (unat w) @ r"
  then show "get_be n bs = Ok (w, r)"
    using of_nat_be_dec_enc [of n w] assms by (simp add: get_be_def)
qed

lemma get_be_Oks [codec_simps]:
  "get_u16 bs = Ok (v, r) \<longleftrightarrow> bs = put_u16 v @ r"
  "get_u32 bs = Ok (w, r) \<longleftrightarrow> bs = put_u32 w @ r"
  "get_u64 bs = Ok (x, r) \<longleftrightarrow> bs = put_u64 x @ r"
  by (simp_all add: get_be_Ok put_u16_def put_u32_def put_u64_def)

lemma reader_Panic [codec_simps]:
  "get_u8 bs = Panic \<longleftrightarrow> length bs < 1"
  "get_be n bs = Panic \<longleftrightarrow> length bs < n"
  "copy_to_bytes n bs = Panic \<longleftrightarrow> length bs < n"
  "advance n bs = Panic \<longleftrightarrow> length bs < n"
  by (auto simp: get_u8_def get_be_def copy_to_bytes_def advance_def split: list.splits)

lemma reader_no_Err [simp]:
  "get_u8 bs \<noteq> Err e" "get_be n bs \<noteq> Err e" "copy_to_bytes n bs \<noteq> Err e" "advance n bs \<noteq> Err e"
  by (auto simp: get_u8_def get_be_def copy_to_bytes_def advance_def split: list.splits)

lemma all_zero_replicate [simp]: "all_zero (replicate n 0)"
  by (simp add: all_zero_def list_all_iff)

lemma all_zero_iff: "all_zero bs \<longleftrightarrow> bs = replicate (length bs) 0"
  by (induction bs) (auto simp: all_zero_def)

section \<open>Hash maps\<close>

text \<open>
  A \<open>HashMap\<close> is an association list with distinct keys.  Its iteration order is the order of
  the list; the sources never rely on a particular order, and the properties below are stated
  so that they do not either.
\<close>

type_synonym ('k, 'v) hmap = "('k \<times> 'v) list"

definition hm_wf :: "('k, 'v) hmap \<Rightarrow> bool" where
  "hm_wf m = distinct (map fst m)"

definition hm_get :: "('k, 'v) hmap \<Rightarrow> 'k \<Rightarrow> 'v option" where
  "hm_get m k = map_of m k"

definition hm_insert :: "'k \<Rightarrow> 'v \<Rightarrow> ('k, 'v) hmap \<Rightarrow> ('k, 'v) hmap" where
  "hm_insert k v m = AList.update k v m"

definition hm_remove :: "'k \<Rightarrow> ('k, 'v) hmap \<Rightarrow> ('k, 'v) hmap" where
  "hm_remove k m = AList.delete k m"

definition hm_retain :: "('k \<Rightarrow> 'v \<Rightarrow> bool) \<Rightarrow> ('k, 'v) hmap \<Rightarrow> ('k, 'v) hmap" where
  "hm_retain p m = filter (\<lambda>(k, v). p k v) m"

definition hm_values :: "('k, 'v) hmap \<Rightarrow> 'v list" where
  "hm_values m = map snd m"

definition hm_contains :: "('k, 'v) hmap \<Rightarrow> 'k \<Rightarrow> bool" where
  "hm_contains m k = (hm_get m k \<noteq> None)"

text \<open>What a client of a hash map relies on.\<close>

locale hash_map =
  fixes empty :: "'m"
    and get :: "'m \<Rightarrow> 'k \<Rightarrow> 'v option"
    and ins :: "'k \<Rightarrow> 'v \<Rightarrow> 'm \<Rightarrow> 'm"
    and del :: "'k \<Rightarrow> 'm \<Rightarrow> 'm"
    and len :: "'m \<Rightarrow> nat"
    and wf :: "'m \<Rightarrow> bool"
  assumes get_empty: "get empty k = None"
    and get_ins: "get (ins k v m) k' = (if k' = k then Some v else get m k')"
    and get_del: "get (del k m) k' = (if k' = k then None else get m k')"
    and wf_empty: "wf empty"
    and wf_ins: "wf m \<Longrightarrow> wf (ins k v m)"
    and wf_del: "wf m \<Longrightarrow> wf (del k m)"
    and finite_dom: "finite (dom (get m))"
    and len_card: "wf m \<Longrightarrow> len m = card (dom (get m))"
begin

lemma dom_ins: "dom (get (ins k v m)) = insert k (dom (get m))"
  by (auto simp: dom_def get_ins)

lemma dom_del: "dom (get (del k m)) = dom (get m) - {k}"
  by (auto simp: dom_def get_del)

lemma len_ins:
  "wf m \<Longrightarrow> len (ins k v m) = (if get m k = None then Suc (len m) else len m)"
  by (auto simp: len_card wf_ins dom_ins finite_dom card_insert_if)

lemma len_del:
  "wf m \<Longrightarrow> len (del k m) = (if get m k = None then len m else len m - 1)"
  by (auto simp: len_card wf_del dom_del card_Diff_singleton_if)

lemma len_ins_le: "wf m \<Longrightarrow> len (ins k v m) \<le> Suc (len m)"
  by (simp add: len_ins)

lemma len_del_le: "wf m \<Longrightarrow> len (del k m) \<le> len m"
  by (simp add: len_del)

lemma len_del_less: "wf m \<Longrightarrow> get m k = Some v \<Longrightarrow> len (del k m) < len m"
proof -
  assume "wf m" "get m k = Some v"
  moreover from this have "0 < len m"
    using finite_dom [of m] by (auto simp: len_card card_gt_0_iff)
  ultimately show ?thesis by (simp add: len_del)
qed

end

interpretation hm: hash_map "[]" hm_get hm_insert hm_remove length hm_wf
proof (unfold_locales, goal_cases)
  case (8 m)
  have "dom (hm_get m) = set (map fst m)"
    unfolding hm_get_def [abs_def] by (simp add: dom_map_of_conv_image_fst)
  with 8 show ?case by (metis hm_wf_def distinct_card length_map)
next
  case (7 m)
  show ?case unfolding hm_get_def [abs_def] by (rule finite_dom_map_of)
qed (simp_all add: hm_get_def hm_insert_def hm_remove_def hm_wf_def update_conv delete_conv
    distinct_update distinct_delete finite_dom_map_of)

lemmas hm_laws [simp, hm_simps] =
  hm.get_empty hm.get_ins hm.get_del hm.wf_empty hm.wf_ins hm.wf_del

lemma hm_wf_retain [simp, hm_simps]: "hm_wf m \<Longrightarrow> hm_wf (hm_retain p m)"
  by (auto simp: hm_wf_def hm_retain_def distinct_map inj_on_def)

lemma hm_get_eq_Some [hm_simps]: "hm_wf m \<Longrightarrow> hm_get m k = Some v \<longleftrightarrow> (k, v) \<in> set m"
  by (simp add: hm_wf_def hm_get_def)

lemma hm_get_in_set: "hm_get m k = Some v \<Longrightarrow> (k, v) \<in> set m"
  by (simp add: hm_get_def map_of_SomeD)

lemma hm_get_retain [simp, hm_simps]:
  "hm_wf m \<Longrightarrow> hm_get (hm_retain p m) k =
     (case hm_get m k of None \<Rightarrow> None | Some v \<Rightarrow> if p k v then Some v else None)"
proof -
  assume wf: "hm_wf m"
  have "hm_get (hm_retain p m) k = Some v \<longleftrightarrow> hm_get m k = Some v \<and> p k v" for v
    using wf by (simp add: hm_get_eq_Some hm_wf_retain) (auto simp: hm_retain_def)
  note iff = this
  show ?thesis
  proof (cases "hm_get (hm_retain p m) k")
    case None
    then have "\<not> (hm_get m k = Some v \<and> p k v)" for v using iff [of v] by simp
    with None show ?thesis by (auto split: option.split)
  next
    case (Some v)
    then show ?thesis using iff [of v] by simp
  qed
qed

lemma hm_retain_len_le: "length (hm_retain p m) \<le> length m"
  by (simp add: hm_retain_def)

lemma set_hm_values: "hm_wf m \<Longrightarrow> v \<in> set (hm_values m) \<longleftrightarrow> (\<exists>k. hm_get m k = Some v)"
  by (force simp: hm_values_def hm_get_eq_Some)

lemma find_Some_in: "find p xs = Some x \<Longrightarrow> x \<in> set xs \<and> p x"
  by (auto simp: find_Some_iff in_set_conv_nth)

lemma find_None_all: "find p xs = None \<longleftrightarrow> (\<forall>x \<in> set xs. \<not> p x)"
  by (auto simp: find_None_iff)

text \<open>A search for the only element that satisfies a predicate does not depend on the order.\<close>

lemma find_unique:
  assumes "x \<in> set xs" and "p x" and "\<And>y. y \<in> set xs \<Longrightarrow> p y \<Longrightarrow> y = x"
  shows "find p xs = Some x"
proof (cases "find p xs")
  case None
  with assms(1,2) show ?thesis by (auto simp: find_None_iff)
next
  case (Some y)
  then have "y \<in> set xs" "p y" by (auto dest: find_Some_in)
  with assms(3) Some show ?thesis by auto
qed

section \<open>Transition systems\<close>

inductive reachable_from :: "('s \<Rightarrow> bool) \<Rightarrow> ('s \<Rightarrow> 's \<Rightarrow> bool) \<Rightarrow> 's \<Rightarrow> bool"
  for init step where
  reach_init: "init s \<Longrightarrow> reachable_from init step s"
| reach_step: "reachable_from init step s \<Longrightarrow> step s t \<Longrightarrow> reachable_from init step t"

text \<open>A component whose operations all keep an invariant.\<close>

locale invariant_system =
  fixes init :: "'s \<Rightarrow> bool"
    and step :: "'s \<Rightarrow> 's \<Rightarrow> bool"
    and inv :: "'s \<Rightarrow> bool"
  assumes inv_init: "init s \<Longrightarrow> inv s"
    and inv_step: "inv s \<Longrightarrow> step s t \<Longrightarrow> inv t"
begin

lemma reachable_inv: "reachable_from init step s \<Longrightarrow> inv s"
  by (induction rule: reachable_from.induct) (auto intro: inv_init inv_step)

lemma steps_inv: "step\<^sup>*\<^sup>* s t \<Longrightarrow> inv s \<Longrightarrow> inv t"
  by (induction rule: rtranclp_induct) (auto intro: inv_step)

end

end
