(* ===== verification/Net_Addr.thy ===== *)
theory Net_Addr
  imports TB_Prelude
begin

text \<open>
  Socket addresses of the Rust standard library: an IPv4 or IPv6 address with its port (and flow
  information and scope for IPv6), and the address classes the direct protocol checks.
\<close>

datatype SocketAddr =
    SockV4 u32 u16
  | SockV6 u128 u16 u32 u32 \<comment> \<open>address, port, flow information, scope id\<close>

fun sock_port :: "SocketAddr \<Rightarrow> u16" where
  "sock_port (SockV4 ip port) = port"
| "sock_port (SockV6 ip port flow scope) = port"

definition v4_is_unspecified :: "u32 \<Rightarrow> bool" where
  "v4_is_unspecified ip = (ip = 0)"

text \<open>\<open>224.0.0.0/4\<close>\<close>

definition v4_is_multicast :: "u32 \<Rightarrow> bool" where
  "v4_is_multicast ip = (drop_bit 28 ip = 14)"

definition v4_is_broadcast :: "u32 \<Rightarrow> bool" where
  "v4_is_broadcast ip = (ip = - 1)"

definition v4_is_loopback :: "u32 \<Rightarrow> bool" where
  "v4_is_loopback ip = (drop_bit 24 ip = 127)"

definition v6_is_unspecified :: "u128 \<Rightarrow> bool" where
  "v6_is_unspecified ip = (ip = 0)"

text \<open>\<open>ff00::/8\<close>\<close>

definition v6_is_multicast :: "u128 \<Rightarrow> bool" where
  "v6_is_multicast ip = (drop_bit 120 ip = 255)"

text \<open>\<open>fe80::/10\<close>\<close>

definition v6_is_unicast_link_local :: "u128 \<Rightarrow> bool" where
  "v6_is_unicast_link_local ip = (drop_bit 118 ip = 1018)"

text \<open>The IPv4 address \<open>a.b.c.d\<close>.\<close>

definition v4_of_octets :: "byte \<Rightarrow> byte \<Rightarrow> byte \<Rightarrow> byte \<Rightarrow> u32" where
  "v4_of_octets a b c d = of_nat (be_dec [a, b, c, d])"

end
