(* ===== verification/Protocol_Negotiation.thy ===== *)
theory Protocol_Negotiation
  imports TB_Prelude
begin

text \<open>
  Version and capability selection.  The relay protocol (\<open>relay-protocol/src/bootstrap.rs\<close>) and
  the direct protocol (\<open>direct-protocol/src/types.rs\<close>) advertise the same version ranges and run
  the same double loop over them, after different validity checks.  The loop, its specification
  (the newest version both sides contain) and the interface \<open>version_selection\<close> are here; each
  protocol's function is proved to provide the interface.
\<close>

section \<open>Versions and ranges\<close>

record ProtocolVersion =
  pv_major :: byte
  pv_minor :: byte

record ProtocolRange =
  pr_major :: byte
  pr_min_minor :: byte
  pr_max_minor :: byte

definition range_contains :: "ProtocolRange \<Rightarrow> ProtocolVersion \<Rightarrow> bool" where
  "range_contains r v =
     (pr_major r = pv_major v \<and> pr_min_minor r \<le> pv_minor v \<and> pv_minor v \<le> pr_max_minor r)"

text \<open>The comparison \<open>(a.major, a.minor) > (b.major, b.minor)\<close> of the loop.\<close>

definition ver_less :: "ProtocolVersion \<Rightarrow> ProtocolVersion \<Rightarrow> bool" where
  "ver_less a b =
     (pv_major a < pv_major b \<or> pv_major a = pv_major b \<and> pv_minor a < pv_minor b)"

section \<open>The selection loop\<close>

text \<open>The body of the inner loop: the version a pair of ranges offers, if any.\<close>

definition pair_candidate :: "ProtocolRange \<Rightarrow> ProtocolRange \<Rightarrow> ProtocolVersion option" where
  "pair_candidate a b =
     (if pr_major a \<noteq> pr_major b then None
      else
        let min_minor = max (pr_min_minor a) (pr_min_minor b);
            max_minor = min (pr_max_minor a) (pr_max_minor b)
        in if max_minor < min_minor then None
           else Some \<lparr>pv_major = pr_major a, pv_minor = max_minor\<rparr>)"

definition consider_pair ::
  "ProtocolVersion option \<Rightarrow> ProtocolRange \<Rightarrow> ProtocolRange \<Rightarrow> ProtocolVersion option" where
  "consider_pair selected a b =
     (case pair_candidate a b of
        None \<Rightarrow> selected
      | Some candidate \<Rightarrow>
          if (case selected of None \<Rightarrow> True | Some current \<Rightarrow> ver_less current candidate)
          then Some candidate else selected)"

definition select_loop :: "ProtocolRange list \<Rightarrow> ProtocolRange list \<Rightarrow> ProtocolVersion option" where
  "select_loop xs ys =
     foldl (\<lambda>selected a. foldl (\<lambda>sel b. consider_pair sel a b) selected ys) None xs"

section \<open>What it selects\<close>

definition common_version ::
  "ProtocolRange list \<Rightarrow> ProtocolRange list \<Rightarrow> ProtocolVersion \<Rightarrow> bool" where
  "common_version xs ys v =
     (list_ex (\<lambda>a. range_contains a v) xs \<and> list_ex (\<lambda>b. range_contains b v) ys)"

definition newest_common ::
  "ProtocolRange list \<Rightarrow> ProtocolRange list \<Rightarrow> ProtocolVersion \<Rightarrow> bool" where
  "newest_common xs ys v \<longleftrightarrow>
     common_version xs ys v \<and> (\<forall>w. common_version xs ys w \<longrightarrow> \<not> ver_less v w)"

lemma ver_less_irrefl [simp]: "\<not> ver_less v v"
  by (simp add: ver_less_def)

lemma ver_less_trans: "ver_less a b \<Longrightarrow> ver_less b c \<Longrightarrow> ver_less a c"
  by (auto simp: ver_less_def)

lemma ver_less_linear: "ver_less a b \<or> a = b \<or> ver_less b a"
  by (cases a; cases b) (auto simp: ver_less_def)

lemma newest_common_unique: "newest_common xs ys v \<Longrightarrow> newest_common xs ys w \<Longrightarrow> v = w"
  using ver_less_linear [of v w] by (auto simp: newest_common_def)

lemma common_version_commute: "common_version xs ys v = common_version ys xs v"
  by (auto simp: common_version_def)

lemma newest_common_commute: "newest_common xs ys v = newest_common ys xs v"
  by (simp add: newest_common_def common_version_commute)

definition candidates :: "(ProtocolRange \<times> ProtocolRange) list \<Rightarrow> ProtocolVersion set" where
  "candidates ps = {v. \<exists>(a, b) \<in> set ps. pair_candidate a b = Some v}"

lemma select_loop_product:
  "select_loop xs ys = foldl (\<lambda>sel (a, b). consider_pair sel a b) None (List.product xs ys)"
proof -
  have inner: "foldl (\<lambda>sel b. consider_pair sel a b) s ys =
    foldl (\<lambda>sel (a, b). consider_pair sel a b) s (map (Pair a) ys)" for a s
    by (induction ys arbitrary: s) auto
  have "foldl (\<lambda>selected a. foldl (\<lambda>sel b. consider_pair sel a b) selected ys) s xs =
    foldl (\<lambda>sel (a, b). consider_pair sel a b) s (List.product xs ys)" for s
    by (induction xs arbitrary: s) (auto simp: inner)
  then show ?thesis by (simp add: select_loop_def)
qed

text \<open>The loop keeps the newest candidate seen so far.\<close>

lemma fold_candidates:
  defines "step \<equiv> \<lambda>sel (a, b). consider_pair sel a b"
  shows "case foldl step None ps of
      None \<Rightarrow> candidates ps = {}
    | Some m \<Rightarrow> m \<in> candidates ps \<and> (\<forall>w \<in> candidates ps. \<not> ver_less m w)"
proof (induction ps rule: rev_induct)
  case Nil
  then show ?case by (simp add: candidates_def)
next
  case (snoc p ps)
  obtain a b where p: "p = (a, b)" by fastforce
  have cands: "candidates (ps @ [p]) =
    candidates ps \<union> (case pair_candidate a b of None \<Rightarrow> {} | Some v \<Rightarrow> {v})"
    by (auto simp: candidates_def p split: option.splits)
  have last: "foldl step None (ps @ [p]) = consider_pair (foldl step None ps) a b"
    by (simp add: step_def p)
  show ?case
  proof (cases "pair_candidate a b")
    case None
    then show ?thesis using snoc unfolding last cands
      by (cases "foldl step None ps") (simp_all add: consider_pair_def)
  next
    case c: (Some c)
    show ?thesis
    proof (cases "foldl step None ps")
      case None
      then show ?thesis using snoc c unfolding last cands by (simp add: consider_pair_def)
    next
      case (Some m)
      then have m: "m \<in> candidates ps" "\<And>w. w \<in> candidates ps \<Longrightarrow> \<not> ver_less m w"
        using snoc by simp_all
      show ?thesis
      proof (cases "ver_less m c")
        case True
        then have "\<not> ver_less c w" if "w \<in> candidates ps" for w
          using that m(2) ver_less_trans by blast
        then show ?thesis using True Some c unfolding last cands by (simp add: consider_pair_def)
      next
        case False
        then show ?thesis using m Some c unfolding last cands by (simp add: consider_pair_def)
      qed
    qed
  qed
qed

lemma pair_candidate_sound:
  "pair_candidate a b = Some v \<Longrightarrow> range_contains a v \<and> range_contains b v"
  by (auto simp: pair_candidate_def range_contains_def Let_def not_less min_le_iff_disj
      split: if_splits)

lemma pair_candidate_best:
  assumes "range_contains a v" and "range_contains b v"
  shows "\<exists>w. pair_candidate a b = Some w \<and> \<not> ver_less w v"
  using assms
  by (auto simp: pair_candidate_def range_contains_def ver_less_def Let_def min_less_iff_disj
      less_max_iff_disj)

lemma candidates_common: "v \<in> candidates (List.product xs ys) \<Longrightarrow> common_version xs ys v"
  by (force simp: candidates_def common_version_def list_ex_iff dest: pair_candidate_sound)

lemma common_candidate:
  "common_version xs ys v \<Longrightarrow> \<exists>w \<in> candidates (List.product xs ys). \<not> ver_less w v"
  by (force simp: candidates_def common_version_def list_ex_iff dest: pair_candidate_best)

lemma select_loop_Some: "select_loop xs ys = Some v \<Longrightarrow> newest_common xs ys v"
  using fold_candidates [of "List.product xs ys"] common_candidate [of xs ys]
    candidates_common [of v xs ys] ver_less_trans ver_less_linear
  unfolding select_loop_product newest_common_def by (simp split: option.splits) metis

lemma select_loop_None: "select_loop xs ys = None \<Longrightarrow> \<not> common_version xs ys v"
  using fold_candidates [of "List.product xs ys"] common_candidate [of xs ys v]
  unfolding select_loop_product by (auto split: option.splits)

lemma select_loop_eq_Some: "select_loop xs ys = Some v \<longleftrightarrow> newest_common xs ys v"
proof
  assume n: "newest_common xs ys v"
  then obtain w where "select_loop xs ys = Some w"
    using select_loop_None by (fastforce simp: newest_common_def)
  with n show "select_loop xs ys = Some v"
    using select_loop_Some newest_common_unique by fastforce
qed (rule select_loop_Some)

section \<open>The interface of a version selection\<close>

locale version_selection =
  fixes select :: "ProtocolRange list \<Rightarrow> ProtocolRange list \<Rightarrow> ('e, ProtocolVersion) res"
    and admissible :: "ProtocolRange list \<Rightarrow> ProtocolRange list \<Rightarrow> bool"
    and no_common :: 'e
  assumes select_admissible: "admissible xs ys \<Longrightarrow> select xs ys = ok_or (select_loop xs ys) no_common"
    and select_inadmissible: "\<not> admissible xs ys \<Longrightarrow> \<exists>e. select xs ys = Err e \<and> e \<noteq> no_common"
    and admissible_commute: "admissible xs ys = admissible ys xs"
begin

lemma select_Ok: "select xs ys = Ok v \<longleftrightarrow> admissible xs ys \<and> newest_common xs ys v"
  using select_admissible select_inadmissible
  by (cases "admissible xs ys") (fastforce simp: select_loop_eq_Some)+

lemma select_no_common:
  "select xs ys = Err no_common \<longleftrightarrow> admissible xs ys \<and> (\<forall>v. \<not> common_version xs ys v)"
proof (cases "admissible xs ys")
  case True
  show ?thesis
  proof (cases "select_loop xs ys")
    case None
    then show ?thesis using True select_admissible select_loop_None by simp
  next
    case (Some v)
    then have "common_version xs ys v" using select_loop_Some newest_common_def by blast
    then show ?thesis using True Some select_admissible by auto
  qed
next
  case False
  then show ?thesis using select_inadmissible by fastforce
qed

lemma select_commute: "select xs ys = Ok v \<longleftrightarrow> select ys xs = Ok v"
  by (simp add: select_Ok admissible_commute newest_common_commute)

lemma select_total: "select xs ys \<noteq> Panic"
  using select_admissible select_inadmissible
  by (metis ok_or_no_Panic res.distinct(5))

end

section \<open>Capabilities\<close>

text \<open>
  Both protocols select capabilities with the same function over their own set of known bits.
\<close>

datatype CapabilityError = MissingRequired u64

definition select_capabilities_of :: "u64 \<Rightarrow> u64 \<Rightarrow> u64 \<Rightarrow> u64 \<Rightarrow> (CapabilityError, u64) res" where
  "select_capabilities_of known required optional available =
     (let available = available AND known;
          missing = required AND NOT available
      in if missing \<noteq> 0 then Err (MissingRequired missing)
         else Ok (required OR (optional AND available)))"

definition bits_subset :: "u64 \<Rightarrow> u64 \<Rightarrow> bool" where
  "bits_subset a b = (a AND NOT b = 0)"

lemma bits_subset_iff: "bits_subset a b \<longleftrightarrow> (\<forall>n. bit a n \<longrightarrow> bit b n)"
  using bit_imp_le_length [of a] by (auto simp: bits_subset_def bit_eq_iff bit_simps)

lemma select_capabilities_Ok:
  assumes "select_capabilities_of known required optional available = Ok enabled"
  shows "bit enabled n \<longleftrightarrow> bit required n \<or> (bit optional n \<and> bit available n \<and> bit known n)"
    and "bits_subset enabled (available AND known)"
    and "bits_subset required (available AND known)"
  using assms
  by (auto simp: select_capabilities_of_def Let_def bits_subset_iff bit_simps
      simp flip: bits_subset_def split: if_splits)

lemma select_capabilities_Err:
  "select_capabilities_of known required optional available = Err e \<longleftrightarrow>
     \<not> bits_subset required (available AND known) \<and>
     e = MissingRequired (required AND NOT (available AND known))"
  by (auto simp: select_capabilities_of_def Let_def bits_subset_def)

end
