(* ===== verification/Frame_Header.thy ===== *)
theory Frame_Header
  imports TB_Prelude
begin

text \<open>
  The 16-byte common header that the relay codec (\<open>relay-protocol/src/frame.rs\<close>) and the direct
  codec (\<open>direct-protocol/src/frame.rs\<close>) share byte for byte: magic, version, kind, flags, header
  length, reserved field and payload length.  The two sources repeat the same statements with
  their own constants, which are parameters here.
\<close>

definition COMMON_HEADER_LEN :: usize where
  "COMMON_HEADER_LEN = 16"

definition IPV4_UDP_DATAGRAM_BUDGET :: usize where
  "IPV4_UDP_DATAGRAM_BUDGET = 1472"

definition MAX_CONTROL_PAYLOAD :: usize where
  "MAX_CONTROL_PAYLOAD = 16 * 1024"

text \<open>
  The decode errors both codecs have; \<open>FrameFault\<close> carries the ones of one codec only.
\<close>

datatype 'x FrameDecodeError =
    TooShort
  | BadMagic
  | UnsupportedMajor byte
  | UnsupportedMinor byte
  | UnknownKind byte
  | UnsupportedFlags byte
  | NonZeroReserved u16
  | BadHeaderLength usize
  | PayloadTooLarge usize
  | TrailingBytes
  | FrameFault 'x

text \<open>\<open>put_common_header\<close>: the header length must fit 16 bits.\<close>

definition put_header ::
  "(usize \<Rightarrow> 'e) \<Rightarrow> byte list \<Rightarrow> byte \<Rightarrow> byte \<Rightarrow> byte \<Rightarrow> usize \<Rightarrow> u32 \<Rightarrow> ('e, byte list) res" where
  "put_header too_large magic major minor kind header_len payload_len =
     (if header_len < 2 ^ 16 then
        Ok (magic @ put_u8 major @ put_u8 minor @ put_u8 kind @ put_u8 0
            @ put_u16 (of_nat header_len) @ put_u16 0 @ put_u32 payload_len)
      else Err (too_large header_len))"

text \<open>
  The first half of \<open>decode_frame\<close>, up to the check that the buffer holds exactly the announced
  header and payload.  It returns the kind, the two lengths and the unread bytes.
\<close>

definition decode_header ::
  "byte list \<Rightarrow> byte \<Rightarrow> byte \<Rightarrow> (byte \<Rightarrow> 'k option) \<Rightarrow> ('k \<Rightarrow> usize) \<Rightarrow> ('k \<Rightarrow> usize) \<Rightarrow> byte list
     \<Rightarrow> ('x FrameDecodeError, 'k \<times> usize \<times> usize \<times> byte list) res" where
  "decode_header magic major_c minor_c kind_of minimum_header max_payload bytes =
     (let original_len = length bytes in
      rbind (ensure (\<not> original_len < COMMON_HEADER_LEN) TooShort) (\<lambda>_.
      rbind (ensure (take 4 bytes = magic) BadMagic) (\<lambda>_.
      rbind (advance 4 bytes) (\<lambda>b.
      rbind (get_u8 b) (\<lambda>(major, b).
      rbind (get_u8 b) (\<lambda>(minor, b).
      rbind (ensure (major = major_c) (UnsupportedMajor major)) (\<lambda>_.
      rbind (ensure (\<not> minor_c < minor) (UnsupportedMinor minor)) (\<lambda>_.
      rbind (get_u8 b) (\<lambda>(kind_byte, b).
      rbind (ok_or (kind_of kind_byte) (UnknownKind kind_byte)) (\<lambda>kind.
      rbind (get_u8 b) (\<lambda>(flags, b).
      rbind (ensure (flags = 0) (UnsupportedFlags flags)) (\<lambda>_.
      rbind (get_u16 b) (\<lambda>(header_len_w, b).
      let header_len = unat header_len_w in
      rbind (get_u16 b) (\<lambda>(reserved, b).
      rbind (ensure (reserved = 0) (NonZeroReserved reserved)) (\<lambda>_.
      rbind (get_u32 b) (\<lambda>(payload_len_w, b).
      let payload_len = unat payload_len_w in
      rbind (ensure (\<not> header_len < minimum_header kind) (BadHeaderLength header_len)) (\<lambda>_.
      rbind (ensure (\<not> max_payload kind < payload_len) (PayloadTooLarge payload_len)) (\<lambda>_.
      rbind (ok_or (usize_checked_add header_len payload_len) (PayloadTooLarge payload_len)) (\<lambda>total_len.
      rbind (ensure (\<not> original_len < total_len) TooShort) (\<lambda>_.
      rbind (ensure (original_len = total_len) TrailingBytes) (\<lambda>_.
      Ok (kind, header_len, payload_len, b))))))))))))))))))))))"

lemma usize_checked_add_small:
  "a < 2 ^ 16 \<Longrightarrow> b < 2 ^ 32 \<Longrightarrow> usize_checked_add a b = Some (a + b)"
  by (simp add: usize_checked_add_def usize_max_def)

lemma unat_u16_less: "unat (w :: u16) < 2 ^ 16"
  using unsigned_less [of w, where 'a = nat] by simp

lemma unat_u32_less: "unat (w :: u32) < 2 ^ 32"
  using unsigned_less [of w, where 'a = nat] by simp

text \<open>A written header is read back, with everything after it left over.\<close>

lemma decode_put_header:
  fixes kind :: 'k
  assumes "length magic = 4" and "kind_of kb = Some kind"
    and "minimum_header kind \<le> hl" and "hl < 2 ^ 16" and "16 \<le> hl"
    and "unat pl \<le> max_payload kind" and "length rest + 16 = hl + unat pl"
    and "put_header toolarge magic major minor kb hl pl = Ok hdr"
  shows "decode_header magic major minor kind_of minimum_header max_payload (hdr @ rest)
           = Ok (kind, hl, unat pl, rest)"
proof -
  have hdr: "hdr @ rest = magic @ put_u8 major @ put_u8 minor @ put_u8 kb @ put_u8 0
      @ put_u16 (of_nat hl) @ put_u16 0 @ put_u32 pl @ rest"
    using assms(8) by (auto simp: put_header_def split: if_splits)
  have len: "length (hdr @ rest) = hl + unat pl" unfolding hdr using assms(1,7) by simp
  have hl: "unat (of_nat hl :: u16) = hl" using assms(4) by (simp add: unat_of_nat)
  have add: "usize_checked_add hl (unat pl) = Some (hl + unat pl)"
    using assms(4) unat_u32_less by (rule usize_checked_add_small)
  have len16: "\<not> length (hdr @ rest) < COMMON_HEADER_LEN"
    using len assms(5) by (simp add: COMMON_HEADER_LEN_def)
  show ?thesis
    unfolding decode_header_def Let_def len using assms(1-7) len16 len
    unfolding hdr by (simp add: hl add)
qed

text \<open>Reading a header never panics, whatever the bytes.\<close>

lemma header_reads:
  assumes "16 \<le> length bytes"
  obtains m j n k f h r p rest where
    "bytes = m @ put_u8 j @ put_u8 n @ put_u8 k @ put_u8 f @ put_u16 h @ put_u16 r @ put_u32 p @ rest"
    "length m = 4"
proof -
  define g :: "nat \<Rightarrow> nat \<Rightarrow> byte list" where "g i l = take l (drop i bytes)" for i l
  have split: "drop i bytes = g i l @ drop (i + l) bytes" for i l
    by (metis g_def append_take_drop_id drop_drop add.commute)
  have len: "length (g i l) = l" if "i + l \<le> 16" for i l using that assms by (simp add: g_def)
  have one: "\<exists>b. g i 1 = put_u8 b" if "i + 1 \<le> 16" for i
    using len [of i 1] that by (auto simp: put_u8_def length_Suc_conv)
  have two: "\<exists>w. g i 2 = put_u16 w" if "i + 2 \<le> 16" for i
    using len [of i 2] that be_enc_of_nat_be_dec [of "g i 2" 2, where 'a = 16]
    by (auto simp: put_u16_def intro: sym)
  have four: "\<exists>w. g i 4 = put_u32 w" if "i + 4 \<le> 16" for i
    using len [of i 4] that be_enc_of_nat_be_dec [of "g i 4" 4, where 'a = 32]
    by (auto simp: put_u32_def intro: sym)
  have "bytes = g 0 4 @ g 4 1 @ g 5 1 @ g 6 1 @ g 7 1 @ g 8 2 @ g 10 2 @ g 12 4 @ drop 16 bytes"
    using split [of 0 4] split [of 4 1] split [of 5 1] split [of 6 1] split [of 7 1]
      split [of 8 2] split [of 10 2] split [of 12 4] by simp
  moreover obtain j n k f h r p where "g 4 1 = put_u8 j" "g 5 1 = put_u8 n" "g 6 1 = put_u8 k"
      "g 7 1 = put_u8 f" "g 8 2 = put_u16 h" "g 10 2 = put_u16 r" "g 12 4 = put_u32 p"
    using one [of 4] one [of 5] one [of 6] one [of 7] two [of 8] two [of 10] four [of 12] by auto
  ultimately show thesis using that len [of 0 4] by simp
qed

lemma decode_header_split:
  assumes "length m = 4"
  shows "decode_header magic major_c minor_c kind_of minh maxp
     (m @ put_u8 j @ put_u8 n @ put_u8 k @ put_u8 f @ put_u16 h @ put_u16 r @ put_u32 p @ rest) =
   rbind (ensure (m = magic) BadMagic) (\<lambda>_.
   rbind (ensure (j = major_c) (UnsupportedMajor j)) (\<lambda>_.
   rbind (ensure (\<not> minor_c < n) (UnsupportedMinor n)) (\<lambda>_.
   rbind (ok_or (kind_of k) (UnknownKind k)) (\<lambda>kind.
   rbind (ensure (f = 0) (UnsupportedFlags f)) (\<lambda>_.
   rbind (ensure (r = 0) (NonZeroReserved r)) (\<lambda>_.
   rbind (ensure (\<not> unat h < minh kind) (BadHeaderLength (unat h))) (\<lambda>_.
   rbind (ensure (\<not> maxp kind < unat p) (PayloadTooLarge (unat p))) (\<lambda>_.
   rbind (ensure (\<not> length rest + 16 < unat h + unat p) TooShort) (\<lambda>_.
   rbind (ensure (length rest + 16 = unat h + unat p) TrailingBytes) (\<lambda>_.
   Ok (kind, unat h, unat p, rest)))))))))))"
  using assms usize_checked_add_small [OF unat_u16_less unat_u32_less, of h p]
  by (simp add: decode_header_def COMMON_HEADER_LEN_def Let_def add.commute)

lemma decode_header_no_Panic:
  "decode_header magic major_c minor_c kind_of minh maxp bytes \<noteq> Panic"
proof (cases "16 \<le> length bytes")
  case True
  then obtain m j n k f h r p rest where
    "bytes = m @ put_u8 j @ put_u8 n @ put_u8 k @ put_u8 f @ put_u16 h @ put_u16 r @ put_u32 p @ rest"
    "length m = 4" by (rule header_reads)
  then show ?thesis by (simp add: decode_header_split rbind_eq_Panic)
next
  case False
  then show ?thesis by (simp add: decode_header_def COMMON_HEADER_LEN_def Let_def)
qed

text \<open>What an accepted header says: the exact layout of the buffer.\<close>

lemma decode_header_Ok:
  assumes "decode_header magic major_c minor_c kind_of minh maxp bytes = Ok (kind, hl, pl, rest)"
  obtains n k where
    "bytes = magic @ put_u8 major_c @ put_u8 n @ put_u8 k @ put_u8 0
       @ put_u16 (of_nat hl) @ put_u16 0 @ put_u32 (of_nat pl) @ rest"
    "n \<le> minor_c" "kind_of k = Some kind" "minh kind \<le> hl" "pl \<le> maxp kind"
    "length rest + 16 = hl + pl" "hl < 2 ^ 16" "pl < 2 ^ 32" "length bytes = hl + pl"
proof -
  have "16 \<le> length bytes"
    using assms by (auto simp: decode_header_def COMMON_HEADER_LEN_def Let_def)
  then obtain m j n k f h r p rest' where
    b: "bytes = m @ put_u8 j @ put_u8 n @ put_u8 k @ put_u8 f @ put_u16 h @ put_u16 r @ put_u32 p @ rest'"
    and m: "length m = 4" by (rule header_reads)
  from assms have "m = magic" "j = major_c" "\<not> minor_c < n" "kind_of k = Some kind" "f = 0" "r = 0"
    "minh kind \<le> unat h" "unat p \<le> maxp kind" "length rest' + 16 = unat h + unat p"
    "hl = unat h" "pl = unat p" "rest' = rest"
    by (auto simp: b decode_header_split [OF m])
  with b m show thesis
    using that [of n k] unat_u16_less [of h] unat_u32_less [of p] by simp
qed

section \<open>The contract of a frame codec\<close>

text \<open>
  What the users of a codec rely on: well-formed frames can be encoded, what was encoded decodes
  to the same frame, only well-formed frames are ever decoded, and decoding does not panic.
\<close>

locale wire_codec =
  fixes enc :: "'f \<Rightarrow> ('e, byte list) res"
    and dec :: "byte list \<Rightarrow> ('d, 'f) res"
    and wf :: "'f \<Rightarrow> bool"
  assumes enc_total: "wf f \<Longrightarrow> \<exists>bs. enc f = Ok bs"
    and dec_enc: "wf f \<Longrightarrow> enc f = Ok bs \<Longrightarrow> dec bs = Ok f"
    and dec_wf: "dec bs = Ok f \<Longrightarrow> wf f"
    and dec_no_Panic: "dec bs \<noteq> Panic"
begin

lemma roundtrip: "wf f \<Longrightarrow> \<exists>bs. enc f = Ok bs \<and> dec bs = Ok f"
  using enc_total dec_enc by blast

lemma enc_injective: "wf f \<Longrightarrow> wf g \<Longrightarrow> enc f = Ok bs \<Longrightarrow> enc g = Ok bs \<Longrightarrow> f = g"
  using dec_enc by (metis res.inject(1))

lemma reencode: "dec bs = Ok f \<Longrightarrow> \<exists>cs. enc f = Ok cs \<and> dec cs = Ok f"
  using dec_wf roundtrip by blast

end

end
