(* ===== verification/Relay_Frame.thy ===== *)
theory Relay_Frame
  imports Frame_Header
begin

text \<open>
  The fixed binary frames of Relay Protocol v3 (\<open>relay-protocol/src/frame.rs\<close> and the constants
  of \<open>relay-protocol/src/lib.rs\<close>): control, data and probe frames, their encoder and decoder.
  Proved: decoding never panics, what is encoded is decoded back, whatever is decoded can be
  encoded again, and an encoded frame fits a UDP datagram.
\<close>

section \<open>Constants and data\<close>

definition PROTOCOL_MAJOR :: byte where "PROTOCOL_MAJOR = 3"
definition PROTOCOL_MINOR :: byte where "PROTOCOL_MINOR = 0"

definition FRAME_MAGIC :: "byte list" where
  "FRAME_MAGIC = [0x54, 0x42, 0x52, 0x33]" \<comment> \<open>\<open>b"TBR3"\<close>\<close>

definition DATA_FRAME_HEADER_LEN :: usize where "DATA_FRAME_HEADER_LEN = 80"
definition PROBE_FRAME_HEADER_LEN :: usize where "PROBE_FRAME_HEADER_LEN = 56"
definition MAX_FRAME_LEN :: usize where "MAX_FRAME_LEN = IPV4_UDP_DATAGRAM_BUDGET"

definition MAX_DATA_PAYLOAD :: usize where
  "MAX_DATA_PAYLOAD = MAX_FRAME_LEN - DATA_FRAME_HEADER_LEN"

lemmas relay_frame_consts [codec_simps] =
  PROTOCOL_MAJOR_def PROTOCOL_MINOR_def FRAME_MAGIC_def DATA_FRAME_HEADER_LEN_def
  PROBE_FRAME_HEADER_LEN_def MAX_FRAME_LEN_def MAX_DATA_PAYLOAD_def IPV4_UDP_DATAGRAM_BUDGET_def
  MAX_CONTROL_PAYLOAD_def COMMON_HEADER_LEN_def

datatype FrameKind = KClientControl | KServerControl | KData | KProbe

fun frame_kind_code :: "FrameKind \<Rightarrow> byte" where
  "frame_kind_code KClientControl = 1"
| "frame_kind_code KServerControl = 2"
| "frame_kind_code KData = 3"
| "frame_kind_code KProbe = 4"

definition frame_kind_try_from :: "byte \<Rightarrow> FrameKind option" where
  "frame_kind_try_from v =
     (if v = 1 then Some KClientControl
      else if v = 2 then Some KServerControl
      else if v = 3 then Some KData
      else if v = 4 then Some KProbe
      else None)"

text \<open>A delivery stream id is an array of 16 bytes.\<close>

type_synonym DeliveryStreamId = "byte list"

record DataFrame =
  df_connection_id :: u64
  df_frame_id :: u64
  df_from_steam_id64 :: u64
  df_to_steam_id64 :: u64
  df_delivery_stream_id :: DeliveryStreamId
  df_delivery_sequence :: u64
  df_channel :: i32
  df_send_type :: i32
  df_payload :: "byte list"

datatype ProbePhase = ProbeRequest | ProbeEcho

fun probe_phase_code :: "ProbePhase \<Rightarrow> byte" where
  "probe_phase_code ProbeRequest = 1"
| "probe_phase_code ProbeEcho = 2"

definition probe_phase_try_from :: "byte \<Rightarrow> ProbePhase option" where
  "probe_phase_try_from v =
     (if v = 1 then Some ProbeRequest else if v = 2 then Some ProbeEcho else None)"

record ProbeFrame =
  pf_connection_id :: u64
  pf_probe_id :: u64
  pf_from_steam_id64 :: u64
  pf_to_steam_id64 :: u64
  pf_phase :: ProbePhase

datatype Frame =
    ClientControlFrame "byte list"
  | ServerControlFrame "byte list"
  | DataF DataFrame
  | ProbeF ProbeFrame

datatype FrameEncodeError =
    EncHeaderTooLarge usize
  | EncPayloadTooLarge usize
  | EncZeroConnectionId
  | EncZeroFrameId
  | EncZeroDeliveryStreamId
  | EncZeroDeliverySequence
  | EncZeroProbeId

datatype RelayFrameFault =
    ZeroConnectionId
  | ZeroFrameId
  | ZeroDeliveryStreamId
  | ZeroDeliverySequence
  | ZeroProbeId
  | UnknownProbePhase byte
  | NonZeroProbeReserved

section \<open>Encoding\<close>

definition put_common_header :: "FrameKind \<Rightarrow> usize \<Rightarrow> u32 \<Rightarrow> (FrameEncodeError, byte list) res" where
  "put_common_header kind header_len payload_len =
     put_header EncHeaderTooLarge FRAME_MAGIC PROTOCOL_MAJOR PROTOCOL_MINOR (frame_kind_code kind)
       header_len payload_len"

text \<open>\<open>u32::try_from(payload.len())\<close>, with the error its callers map a failure to.\<close>

definition payload_len_u32 :: "byte list \<Rightarrow> (FrameEncodeError, u32) res" where
  "payload_len_u32 payload =
     (if length payload < 2 ^ 32 then Ok (of_nat (length payload))
      else Err (EncPayloadTooLarge (length payload)))"

definition encode_common :: "FrameKind \<Rightarrow> byte list \<Rightarrow> (FrameEncodeError, byte list) res" where
  "encode_common kind payload =
     rbind (ensure (\<not> MAX_CONTROL_PAYLOAD < length payload) (EncPayloadTooLarge (length payload))) (\<lambda>_.
     rbind (payload_len_u32 payload) (\<lambda>payload_len.
     rbind (put_common_header kind COMMON_HEADER_LEN payload_len) (\<lambda>bytes.
     Ok (bytes @ payload))))"

definition encode_probe :: "ProbeFrame \<Rightarrow> (FrameEncodeError, byte list) res" where
  "encode_probe f =
     rbind (ensure (pf_connection_id f \<noteq> 0) EncZeroConnectionId) (\<lambda>_.
     rbind (ensure (pf_probe_id f \<noteq> 0) EncZeroProbeId) (\<lambda>_.
     rbind (put_common_header KProbe PROBE_FRAME_HEADER_LEN 0) (\<lambda>bytes.
     Ok (bytes @ put_u64 (pf_connection_id f) @ put_u64 (pf_probe_id f)
         @ put_u64 (pf_from_steam_id64 f) @ put_u64 (pf_to_steam_id64 f)
         @ put_u8 (probe_phase_code (pf_phase f)) @ replicate 7 0))))"

definition encode_data :: "DataFrame \<Rightarrow> (FrameEncodeError, byte list) res" where
  "encode_data f =
     rbind (ensure (df_connection_id f \<noteq> 0) EncZeroConnectionId) (\<lambda>_.
     rbind (ensure (df_frame_id f \<noteq> 0) EncZeroFrameId) (\<lambda>_.
     rbind (ensure (\<not> all_zero (df_delivery_stream_id f)) EncZeroDeliveryStreamId) (\<lambda>_.
     rbind (ensure (df_delivery_sequence f \<noteq> 0) EncZeroDeliverySequence) (\<lambda>_.
     rbind (ensure (\<not> MAX_DATA_PAYLOAD < length (df_payload f))
       (EncPayloadTooLarge (length (df_payload f)))) (\<lambda>_.
     rbind (payload_len_u32 (df_payload f)) (\<lambda>payload_len.
     rbind (put_common_header KData DATA_FRAME_HEADER_LEN payload_len) (\<lambda>bytes.
     Ok (bytes @ put_u64 (df_connection_id f) @ put_u64 (df_frame_id f)
         @ put_u64 (df_from_steam_id64 f) @ put_u64 (df_to_steam_id64 f)
         @ df_delivery_stream_id f @ put_u64 (df_delivery_sequence f)
         @ put_u32 (df_channel f) @ put_u32 (df_send_type f) @ df_payload f))))))))"

fun encode_frame :: "Frame \<Rightarrow> (FrameEncodeError, byte list) res" where
  "encode_frame (ClientControlFrame payload) = encode_common KClientControl payload"
| "encode_frame (ServerControlFrame payload) = encode_common KServerControl payload"
| "encode_frame (DataF f) = encode_data f"
| "encode_frame (ProbeF f) = encode_probe f"

section \<open>Decoding\<close>

fun minimum_header :: "FrameKind \<Rightarrow> usize" where
  "minimum_header KData = DATA_FRAME_HEADER_LEN"
| "minimum_header KProbe = PROBE_FRAME_HEADER_LEN"
| "minimum_header KClientControl = COMMON_HEADER_LEN"
| "minimum_header KServerControl = COMMON_HEADER_LEN"

fun max_payload :: "FrameKind \<Rightarrow> usize" where
  "max_payload KData = MAX_DATA_PAYLOAD"
| "max_payload KProbe = 0"
| "max_payload KClientControl = MAX_CONTROL_PAYLOAD"
| "max_payload KServerControl = MAX_CONTROL_PAYLOAD"

definition decode_control_body ::
  "(byte list \<Rightarrow> Frame) \<Rightarrow> usize \<Rightarrow> usize \<Rightarrow> byte list \<Rightarrow> (RelayFrameFault FrameDecodeError, Frame) res" where
  "decode_control_body frame header_len payload_len bytes =
     rbind (advance (header_len - COMMON_HEADER_LEN) bytes) (\<lambda>b.
     rbind (copy_to_bytes payload_len b) (\<lambda>(payload, b).
     Ok (frame payload)))"

definition decode_data_body ::
  "usize \<Rightarrow> usize \<Rightarrow> byte list \<Rightarrow> (RelayFrameFault FrameDecodeError, Frame) res" where
  "decode_data_body header_len payload_len bytes =
     rbind (get_u64 bytes) (\<lambda>(connection_id, b).
     rbind (get_u64 b) (\<lambda>(frame_id, b).
     rbind (get_u64 b) (\<lambda>(from_id, b).
     rbind (get_u64 b) (\<lambda>(to_id, b).
     rbind (read_array TooShort 16 b) (\<lambda>(stream_id, b).
     rbind (get_u64 b) (\<lambda>(delivery_sequence, b).
     rbind (get_u32 b) (\<lambda>(channel, b).
     rbind (get_u32 b) (\<lambda>(send_type, b).
     rbind (ensure (connection_id \<noteq> 0) (FrameFault ZeroConnectionId)) (\<lambda>_.
     rbind (ensure (frame_id \<noteq> 0) (FrameFault ZeroFrameId)) (\<lambda>_.
     rbind (ensure (\<not> all_zero stream_id) (FrameFault ZeroDeliveryStreamId)) (\<lambda>_.
     rbind (ensure (delivery_sequence \<noteq> 0) (FrameFault ZeroDeliverySequence)) (\<lambda>_.
     rbind (advance (header_len - DATA_FRAME_HEADER_LEN) b) (\<lambda>b.
     rbind (copy_to_bytes payload_len b) (\<lambda>(payload, b).
     Ok (DataF \<lparr>df_connection_id = connection_id, df_frame_id = frame_id,
                df_from_steam_id64 = from_id, df_to_steam_id64 = to_id,
                df_delivery_stream_id = stream_id, df_delivery_sequence = delivery_sequence,
                df_channel = channel, df_send_type = send_type, df_payload = payload\<rparr>)))))))))))))))"

definition decode_probe_body ::
  "usize \<Rightarrow> byte list \<Rightarrow> (RelayFrameFault FrameDecodeError, Frame) res" where
  "decode_probe_body header_len bytes =
     rbind (get_u64 bytes) (\<lambda>(connection_id, b).
     rbind (get_u64 b) (\<lambda>(probe_id, b).
     rbind (get_u64 b) (\<lambda>(from_id, b).
     rbind (get_u64 b) (\<lambda>(to_id, b).
     rbind (get_u8 b) (\<lambda>(phase_byte, b).
     rbind (ok_or (probe_phase_try_from phase_byte) (FrameFault (UnknownProbePhase phase_byte))) (\<lambda>phase.
     rbind (ensure (connection_id \<noteq> 0) (FrameFault ZeroConnectionId)) (\<lambda>_.
     rbind (ensure (probe_id \<noteq> 0) (FrameFault ZeroProbeId)) (\<lambda>_.
     rbind (copy_to_bytes 7 b) (\<lambda>(reserved, _).
     rbind (ensure (all_zero reserved) (FrameFault NonZeroProbeReserved)) (\<lambda>_.
     rbind (advance 7 b) (\<lambda>b.
     rbind (advance (header_len - PROBE_FRAME_HEADER_LEN) b) (\<lambda>b.
     Ok (ProbeF \<lparr>pf_connection_id = connection_id, pf_probe_id = probe_id,
                 pf_from_steam_id64 = from_id, pf_to_steam_id64 = to_id, pf_phase = phase\<rparr>)))))))))))))"

definition decode_body ::
  "FrameKind \<Rightarrow> usize \<Rightarrow> usize \<Rightarrow> byte list \<Rightarrow> (RelayFrameFault FrameDecodeError, Frame) res" where
  "decode_body kind header_len payload_len b =
     (case kind of
       KClientControl \<Rightarrow> decode_control_body ClientControlFrame header_len payload_len b
     | KServerControl \<Rightarrow> decode_control_body ServerControlFrame header_len payload_len b
     | KData \<Rightarrow> decode_data_body header_len payload_len b
     | KProbe \<Rightarrow> decode_probe_body header_len b)"

definition relay_header ::
  "byte list \<Rightarrow> (RelayFrameFault FrameDecodeError, FrameKind \<times> usize \<times> usize \<times> byte list) res" where
  "relay_header =
     decode_header FRAME_MAGIC PROTOCOL_MAJOR PROTOCOL_MINOR frame_kind_try_from
       minimum_header max_payload"

definition decode_frame :: "byte list \<Rightarrow> (RelayFrameFault FrameDecodeError, Frame) res" where
  "decode_frame bytes =
     rbind (relay_header bytes) (\<lambda>(kind, header_len, payload_len, b).
     decode_body kind header_len payload_len b)"

section \<open>Well-formed frames\<close>

text \<open>Exactly the frames the encoder accepts (an array of 16 bytes has 16 bytes).\<close>

fun frame_wf :: "Frame \<Rightarrow> bool" where
  "frame_wf (ClientControlFrame p) = (length p \<le> MAX_CONTROL_PAYLOAD)"
| "frame_wf (ServerControlFrame p) = (length p \<le> MAX_CONTROL_PAYLOAD)"
| "frame_wf (DataF f) =
     (df_connection_id f \<noteq> 0 \<and> df_frame_id f \<noteq> 0 \<and> length (df_delivery_stream_id f) = 16
      \<and> \<not> all_zero (df_delivery_stream_id f) \<and> df_delivery_sequence f \<noteq> 0
      \<and> length (df_payload f) \<le> MAX_DATA_PAYLOAD)"
| "frame_wf (ProbeF f) = (pf_connection_id f \<noteq> 0 \<and> pf_probe_id f \<noteq> 0)"

lemma kind_code_inverse [simp]: "frame_kind_try_from (frame_kind_code k) = Some k"
  by (cases k) (simp_all add: frame_kind_try_from_def)

lemma phase_code_inverse [simp]: "probe_phase_try_from (probe_phase_code p) = Some p"
  by (cases p) (simp_all add: probe_phase_try_from_def)

lemma kind_try_from_code: "frame_kind_try_from b = Some k \<Longrightarrow> b = frame_kind_code k"
  by (auto simp: frame_kind_try_from_def split: if_splits)

lemma phase_try_from_code: "probe_phase_try_from b = Some p \<Longrightarrow> b = probe_phase_code p"
  by (auto simp: probe_phase_try_from_def split: if_splits)

lemma payload_len_u32_Ok: "length p < 2 ^ 32 \<Longrightarrow> payload_len_u32 p = Ok (of_nat (length p))"
  by (simp add: payload_len_u32_def)

lemma unat_len_u32: "length p < 2 ^ 32 \<Longrightarrow> unat (of_nat (length p) :: u32) = length p"
  by (simp add: unat_of_nat)

lemma put_common_header_Ok:
  "hl < 2 ^ 16 \<Longrightarrow> put_common_header k hl pl = Ok (FRAME_MAGIC @ put_u8 PROTOCOL_MAJOR
     @ put_u8 PROTOCOL_MINOR @ put_u8 (frame_kind_code k) @ put_u8 0
     @ put_u16 (of_nat hl) @ put_u16 0 @ put_u32 pl)"
  by (simp add: put_common_header_def put_header_def)

lemma decode_header_put:
  assumes "put_common_header kind hl pl = Ok hdr" and "minimum_header kind \<le> hl"
    and "hl < 2 ^ 16" and "unat pl \<le> max_payload kind" and "length rest + 16 = hl + unat pl"
  shows "relay_header (hdr @ rest) = Ok (kind, hl, unat pl, rest)"
  unfolding relay_header_def
proof (rule decode_put_header)
  show "put_header EncHeaderTooLarge FRAME_MAGIC PROTOCOL_MAJOR PROTOCOL_MINOR
    (frame_kind_code kind) hl pl = Ok hdr"
    using assms(1) by (simp add: put_common_header_def)
  show "16 \<le> hl" using assms(2) by (cases kind) (simp_all add: relay_frame_consts)
qed (use assms in \<open>simp_all add: FRAME_MAGIC_def\<close>)

section \<open>Encoding succeeds exactly on well-formed frames\<close>

lemma encode_common_Ok:
  assumes "length p \<le> MAX_CONTROL_PAYLOAD"
  obtains hdr where "encode_common k p = Ok (hdr @ p)"
    "put_common_header k COMMON_HEADER_LEN (of_nat (length p)) = Ok hdr" "length hdr = 16"
proof -
  have "length p < 2 ^ 32" using assms by (simp add: relay_frame_consts)
  with assms show thesis
    using that by (simp add: encode_common_def payload_len_u32_Ok put_common_header_Ok
        COMMON_HEADER_LEN_def FRAME_MAGIC_def)
qed

lemma decode_encode_common:
  assumes "length p \<le> MAX_CONTROL_PAYLOAD" and "k = KClientControl \<or> k = KServerControl"
  shows "\<exists>bs. encode_common k p = Ok bs \<and> length bs = 16 + length p \<and>
           decode_frame bs = Ok ((if k = KClientControl then ClientControlFrame
                                  else ServerControlFrame) p)"
proof -
  obtain hdr where e: "encode_common k p = Ok (hdr @ p)"
    and h: "put_common_header k COMMON_HEADER_LEN (of_nat (length p)) = Ok hdr" "length hdr = 16"
    using assms(1) by (rule encode_common_Ok)
  have l: "unat (of_nat (length p) :: u32) = length p"
    using assms(1) by (simp add: unat_len_u32 relay_frame_consts)
  have "relay_header (hdr @ p) = Ok (k, COMMON_HEADER_LEN, length p, p)"
    using decode_header_put [OF h(1), of p] assms l by (auto simp: COMMON_HEADER_LEN_def)
  then have "decode_frame (hdr @ p) = Ok ((if k = KClientControl then ClientControlFrame
      else ServerControlFrame) p)"
    unfolding decode_frame_def using assms(2)
    by (auto simp: decode_body_def decode_control_body_def)
  then show ?thesis using e h(2) by simp
qed

lemma decode_encode_probe:
  assumes "frame_wf (ProbeF f)"
  shows "\<exists>bs. encode_probe f = Ok bs \<and> length bs = 56 \<and> decode_frame bs = Ok (ProbeF f)"
proof -
  let ?body = "put_u64 (pf_connection_id f) @ put_u64 (pf_probe_id f)
         @ put_u64 (pf_from_steam_id64 f) @ put_u64 (pf_to_steam_id64 f)
         @ put_u8 (probe_phase_code (pf_phase f)) @ replicate 7 0"
  obtain hdr where h: "put_common_header KProbe PROBE_FRAME_HEADER_LEN 0 = Ok hdr" "length hdr = 16"
    by (simp add: put_common_header_Ok relay_frame_consts)
  have e: "encode_probe f = Ok (hdr @ ?body)"
    using assms h by (simp add: encode_probe_def)
  have d: "relay_header (hdr @ ?body) = Ok (KProbe, PROBE_FRAME_HEADER_LEN, 0, ?body)"
    using decode_header_put [OF h(1), of ?body] by (simp add: PROBE_FRAME_HEADER_LEN_def)
  have b: "decode_probe_body PROBE_FRAME_HEADER_LEN ?body = Ok (ProbeF f)"
    using assms by (simp add: decode_probe_body_def advance_def)
  have "decode_frame (hdr @ ?body) = Ok (ProbeF f)"
    unfolding decode_frame_def d using b by (simp add: decode_body_def)
  then show ?thesis using e h(2) by auto
qed

lemma decode_encode_data:
  assumes "frame_wf (DataF f)"
  shows "\<exists>bs. encode_data f = Ok bs \<and> length bs = 80 + length (df_payload f) \<and>
           decode_frame bs = Ok (DataF f)"
proof -
  let ?body = "put_u64 (df_connection_id f) @ put_u64 (df_frame_id f)
         @ put_u64 (df_from_steam_id64 f) @ put_u64 (df_to_steam_id64 f)
         @ df_delivery_stream_id f @ put_u64 (df_delivery_sequence f)
         @ put_u32 (df_channel f) @ put_u32 (df_send_type f) @ df_payload f"
  let ?pl = "of_nat (length (df_payload f)) :: u32"
  have small: "length (df_payload f) < 2 ^ 32" using assms by (simp add: relay_frame_consts)
  obtain hdr where h: "put_common_header KData DATA_FRAME_HEADER_LEN ?pl = Ok hdr" "length hdr = 16"
    by (simp add: put_common_header_Ok relay_frame_consts)
  have e: "encode_data f = Ok (hdr @ ?body)"
    using assms h small by (simp add: encode_data_def payload_len_u32_Ok)
  have d: "relay_header (hdr @ ?body)
        = Ok (KData, DATA_FRAME_HEADER_LEN, length (df_payload f), ?body)"
    using decode_header_put [OF h(1), of ?body] assms unat_len_u32 [OF small]
    by (simp add: DATA_FRAME_HEADER_LEN_def)
  have b: "decode_data_body DATA_FRAME_HEADER_LEN (length (df_payload f)) ?body = Ok (DataF f)"
    using assms by (simp add: decode_data_body_def)
  have "decode_frame (hdr @ ?body) = Ok (DataF f)"
    unfolding decode_frame_def d using b by (simp add: decode_body_def)
  then show ?thesis using e h(2) assms by auto
qed

lemma encode_frame_wf:
  assumes "frame_wf f"
  shows "\<exists>bs. encode_frame f = Ok bs \<and> decode_frame bs = Ok f"
  using assms decode_encode_data decode_encode_probe decode_encode_common
  by (cases f) fastforce+

section \<open>Decoding\<close>

lemma decode_control_body_no_Panic:
  "COMMON_HEADER_LEN \<le> hl \<Longrightarrow> length b + 16 = hl + pl \<Longrightarrow> decode_control_body fr hl pl b \<noteq> Panic"
  by (auto simp: decode_control_body_def rbind_eq_Panic codec_simps)

lemma decode_data_body_no_Panic:
  "DATA_FRAME_HEADER_LEN \<le> hl \<Longrightarrow> length b + 16 = hl + pl \<Longrightarrow> decode_data_body hl pl b \<noteq> Panic"
  by (auto simp: decode_data_body_def rbind_eq_Panic codec_simps)

lemma decode_probe_body_no_Panic:
  "PROBE_FRAME_HEADER_LEN \<le> hl \<Longrightarrow> length b + 16 = hl + 0 \<Longrightarrow> decode_probe_body hl b \<noteq> Panic"
  by (auto simp: decode_probe_body_def rbind_eq_Panic codec_simps)

lemma relay_header_Ok:
  "relay_header bytes = Ok (kind, hl, pl, b) \<Longrightarrow>
     minimum_header kind \<le> hl \<and> pl \<le> max_payload kind \<and> length b + 16 = hl + pl"
  by (auto simp: relay_header_def elim: decode_header_Ok)

lemma decode_body_no_Panic:
  "minimum_header kind \<le> hl \<Longrightarrow> pl \<le> max_payload kind \<Longrightarrow> length b + 16 = hl + pl \<Longrightarrow>
     decode_body kind hl pl b \<noteq> Panic"
  by (cases kind) (simp_all add: decode_body_def decode_control_body_no_Panic
      decode_data_body_no_Panic decode_probe_body_no_Panic)

lemma decode_body_wf:
  "pl \<le> max_payload kind \<Longrightarrow> decode_body kind hl pl b = Ok f \<Longrightarrow> frame_wf f"
  by (cases kind)
    (auto simp: decode_body_def decode_control_body_def decode_data_body_def decode_probe_body_def
      copy_to_bytes_Ok read_array_Ok)

lemma decode_frame_total: "decode_frame bytes \<noteq> Panic"
  using decode_body_no_Panic relay_header_Ok [of bytes]
  by (cases "relay_header bytes")
    (auto simp: decode_frame_def relay_header_def decode_header_no_Panic)

lemma decode_frame_wf: "decode_frame bytes = Ok f \<Longrightarrow> frame_wf f"
  using decode_body_wf relay_header_Ok [of bytes]
  by (cases "relay_header bytes") (auto simp: decode_frame_def)

interpretation relay_codec: wire_codec encode_frame decode_frame frame_wf
proof (unfold_locales, goal_cases)
  case (1 f) then show ?case using encode_frame_wf by blast
next
  case (2 f bs) then show ?case using encode_frame_wf by force
next
  case (3 bs f) then show ?case by (rule decode_frame_wf)
next
  case (4 bs) then show ?case by (rule decode_frame_total)
qed

section \<open>Properties\<close>

text \<open>
  C8: Every well-formed relay frame (control, data or probe) is encoded, and decoding the bytes
  gives back exactly that frame.  The JSON text of a control frame is a list of bytes here.
\<close>

theorem relay_frame_roundtrip:
  "frame_wf f \<Longrightarrow> \<exists>bs. encode_frame f = Ok bs \<and> decode_frame bs = Ok f"
  by (rule relay_codec.roundtrip)

theorem relay_frame_roundtrip_witness:
  "frame_wf (ClientControlFrame [1, 2]) \<and>
   (\<exists>bs. encode_frame (ClientControlFrame [1, 2]) = Ok bs \<and>
         decode_frame bs = Ok (ClientControlFrame [1, 2]))"
proof -
  have h: "frame_wf (ClientControlFrame [1, 2])" by (simp add: MAX_CONTROL_PAYLOAD_def)
  show ?thesis using h relay_frame_roundtrip [OF h] by blast
qed

text \<open>
  The relay decoder is total: on every byte string, of any length and content, it returns a
  frame or an error and never reads past the buffer; and a frame it returns is well-formed
  (non-zero ids, payload within the limits), so it can be encoded again.
\<close>

lemma relay_decode_safe:
  "decode_frame bytes \<noteq> Panic \<and>
   (case decode_frame bytes of Ok f \<Rightarrow> frame_wf f | Err e \<Rightarrow> True | Panic \<Rightarrow> False)"
  using relay_codec.dec_no_Panic [of bytes] relay_codec.dec_wf [of bytes]
  by (auto split: res.split)

text \<open>
  The encoder refuses every frame that is not well-formed, and an encoded data frame has the
  80-byte header plus its payload and fits the 1472-byte UDP datagram budget.
\<close>

lemma relay_encode_data_bounds:
  assumes "length (df_delivery_stream_id f) = 16" and "encode_frame (DataF f) = Ok bs"
  shows "frame_wf (DataF f) \<and> length bs = DATA_FRAME_HEADER_LEN + length (df_payload f)
         \<and> length bs \<le> MAX_FRAME_LEN"
proof -
  have wf: "frame_wf (DataF f)" using assms by (auto simp: encode_data_def)
  moreover have "length bs = 80 + length (df_payload f)"
    using decode_encode_data [OF wf] assms(2) by auto
  ultimately show ?thesis by (simp add: relay_frame_consts)
qed

definition sample_data_frame :: DataFrame where
  "sample_data_frame = \<lparr>df_connection_id = 7, df_frame_id = 1, df_from_steam_id64 = 11,
     df_to_steam_id64 = 12, df_delivery_stream_id = replicate 16 1, df_delivery_sequence = 1,
     df_channel = - 1, df_send_type = 2, df_payload = [9]\<rparr>"

lemma relay_encode_data_bounds_witness:
  "\<exists>bs. encode_frame (DataF sample_data_frame) = Ok bs \<and> frame_wf (DataF sample_data_frame)
     \<and> length bs = 81"
proof -
  have l: "length (df_delivery_stream_id sample_data_frame) = 16"
    by (simp add: sample_data_frame_def)
  have "frame_wf (DataF sample_data_frame)"
    by (simp add: sample_data_frame_def all_zero_def list_all_iff relay_frame_consts)
  then obtain bs where b: "encode_frame (DataF sample_data_frame) = Ok bs"
    using encode_frame_wf by blast
  from relay_encode_data_bounds [OF l b] b show ?thesis
    by (auto simp: sample_data_frame_def DATA_FRAME_HEADER_LEN_def)
qed

end
