(* ===== verification/Relay_Bootstrap.thy ===== *)
theory Relay_Bootstrap
  imports Protocol_Negotiation Relay_Frame
begin

text \<open>
  Bootstrap negotiation of the relay protocol (\<open>relay-protocol/src/bootstrap.rs\<close>) and the JSON
  control messages (\<open>relay-protocol/src/control.rs\<close>).  The JSON library is a parameter: a
  serializer \<open>to_vec\<close> and a parser \<open>from_slice\<close> for each message type, related where needed by
  \<open>json_inverse\<close>.
\<close>

section \<open>Capabilities of the relay protocol\<close>

definition CAP_TCP_DATA :: u64 where "CAP_TCP_DATA = push_bit 0 1"
definition CAP_UDP_DATA :: u64 where "CAP_UDP_DATA = push_bit 1 1"
definition CAP_RESUME :: u64 where "CAP_RESUME = push_bit 2 1"
definition CAP_ROOM_PATH_PROBE :: u64 where "CAP_ROOM_PATH_PROBE = push_bit 3 1"

definition KNOWN_CAPABILITIES :: u64 where
  "KNOWN_CAPABILITIES = CAP_TCP_DATA OR CAP_UDP_DATA OR CAP_RESUME OR CAP_ROOM_PATH_PROBE"

lemmas relay_caps_defs =
  CAP_TCP_DATA_def CAP_UDP_DATA_def CAP_RESUME_def CAP_ROOM_PATH_PROBE_def KNOWN_CAPABILITIES_def

definition select_capabilities :: "u64 \<Rightarrow> u64 \<Rightarrow> u64 \<Rightarrow> (CapabilityError, u64) res" where
  "select_capabilities required optional available =
     select_capabilities_of KNOWN_CAPABILITIES required optional available"

section \<open>Protocol selection\<close>

datatype ProtocolSelectionError = InvalidRange ProtocolRange | NoCommonProtocol

definition invalid_range :: "ProtocolRange \<Rightarrow> bool" where
  "invalid_range r = (pr_max_minor r < pr_min_minor r)"

definition select_protocol ::
  "ProtocolRange list \<Rightarrow> ProtocolRange list \<Rightarrow> (ProtocolSelectionError, ProtocolVersion) res" where
  "select_protocol client relay =
     (case find invalid_range (client @ relay) of
        Some r \<Rightarrow> Err (InvalidRange r)
      | None \<Rightarrow> ok_or (select_loop client relay) NoCommonProtocol)"

definition ranges_valid :: "ProtocolRange list \<Rightarrow> ProtocolRange list \<Rightarrow> bool" where
  "ranges_valid client relay = list_all (\<lambda>r. \<not> invalid_range r) (client @ relay)"

interpretation relay_select: version_selection select_protocol ranges_valid NoCommonProtocol
proof (unfold_locales, goal_cases)
  case (1 xs ys)
  then have "find invalid_range (xs @ ys) = None"
    by (auto simp: find_None_iff ranges_valid_def list_all_iff)
  then show ?case by (simp add: select_protocol_def)
next
  case (2 xs ys)
  then obtain r where "find invalid_range (xs @ ys) = Some r"
    by (cases "find invalid_range (xs @ ys)") (auto simp: find_None_iff ranges_valid_def list_all_iff)
  then show ?case by (simp add: select_protocol_def)
next
  case (3 xs ys)
  then show ?case by (auto simp: ranges_valid_def list_all_iff)
qed

section \<open>Bootstrap messages\<close>

definition BOOTSTRAP_SCHEMA :: u16 where "BOOTSTRAP_SCHEMA = 1"
definition MAX_BOOTSTRAP_PAYLOAD :: usize where "MAX_BOOTSTRAP_PAYLOAD = 16 * 1024"
definition LENGTH_PREFIX_LEN :: usize where "LENGTH_PREFIX_LEN = 4"

record BuildMetadata =
  bm_version :: string
  bm_git_hash :: "string option"

datatype RejectCode =
    UnsupportedBootstrapSchema
  | UnsupportedProtocol
  | MissingRequiredCapabilities
  | InvalidHello

record CompatibilityReject =
  cr_code :: RejectCode
  cr_relay_supported_ranges :: "ProtocolRange list"
  cr_minimum_client_version :: "string option"
  cr_relay :: BuildMetadata

datatype BootstrapMessage =
    ClientHello u16 "ProtocolRange list" u64 u64 BuildMetadata
  | ServerHello u16 ProtocolVersion u64 BuildMetadata
  | CompatReject CompatibilityReject

datatype 'j BootstrapEncodeError = BEncJson 'j | BEncPayloadTooLarge usize
datatype 'j BootstrapDecodeError =
    BDecTooShort | BDecPayloadTooLarge usize | BDecTrailingBytes | BDecJson 'j

text \<open>
  The JSON library as a pair of functions; its documented behaviour on a type with derived
  (de)serializers is that parsing inverts serializing.
\<close>

type_synonym ('m, 'j) to_json = "'m \<Rightarrow> ('j, byte list) res"
type_synonym ('m, 'j) of_json = "byte list \<Rightarrow> ('j, 'm) res"

definition json_inverse :: "('m, 'j) to_json \<Rightarrow> ('m, 'j) of_json \<Rightarrow> bool" where
  "json_inverse to_vec from_slice \<longleftrightarrow> (\<forall>m bs. to_vec m = Ok bs \<longrightarrow> from_slice bs = Ok m)"

definition encode_bootstrap ::
  "(BootstrapMessage, 'j) to_json \<Rightarrow> BootstrapMessage \<Rightarrow> ('j BootstrapEncodeError, byte list) res" where
  "encode_bootstrap to_vec message =
     rbind (map_err BEncJson (to_vec message)) (\<lambda>payload.
     rbind (ensure (\<not> MAX_BOOTSTRAP_PAYLOAD < length payload) (BEncPayloadTooLarge (length payload))) (\<lambda>_.
     rbind (if length payload < 2 ^ 32 then Ok (of_nat (length payload) :: u32)
            else Err (BEncPayloadTooLarge (length payload))) (\<lambda>payload_len.
     Ok (put_u32 payload_len @ payload))))"

definition decode_bootstrap ::
  "(BootstrapMessage, 'j) of_json \<Rightarrow> byte list \<Rightarrow> ('j BootstrapDecodeError, BootstrapMessage) res" where
  "decode_bootstrap from_slice frame =
     rbind (ensure (\<not> length frame < LENGTH_PREFIX_LEN) BDecTooShort) (\<lambda>_.
     let payload_len = be_dec (take LENGTH_PREFIX_LEN frame) in
     rbind (ensure (\<not> MAX_BOOTSTRAP_PAYLOAD < payload_len) (BDecPayloadTooLarge payload_len)) (\<lambda>_.
     let expected_len = LENGTH_PREFIX_LEN + payload_len in
     rbind (ensure (\<not> length frame < expected_len) BDecTooShort) (\<lambda>_.
     rbind (ensure (length frame = expected_len) BDecTrailingBytes) (\<lambda>_.
     map_err BDecJson (from_slice (drop LENGTH_PREFIX_LEN frame))))))"

section \<open>Control messages\<close>

datatype SecretString = SecretString (expose_secret: string)

datatype WireDataProfile = WTcp | WUdp
datatype PeerPresence = WConnected | WReconnecting

datatype ResumeRejectCode =
    RUnknownConnection | RInvalidCredential | RExpired | RProfileMismatch

datatype ControlErrorCode =
    CInvalidMessage
  | CInvalidState
  | CAdmissionRejected
  | CRateLimited
  | CUdpUnavailable
  | CPathValidationFailed
  | CInternal

record PeerPresenceInfo =
  ppi_steam_id64 :: u64
  ppi_display_name :: "string option"
  ppi_presence :: PeerPresence
  ppi_capabilities :: u64

datatype ClientControl =
    CC_JoinBegin SecretString u64 "string option" WireDataProfile
  | CC_JoinProof string SecretString
  | CC_Resume u64 SecretString
  | CC_Stop
  | CC_UdpPathRequest
  | CC_UdpPathHello u64 SecretString
  | CC_ControlPing u64
  | CC_ControlPong u64

datatype ServerControl =
    SC_AdmissionChallenge string string string byte
  | SC_JoinReady u64 SecretString "PeerPresenceInfo list"
  | SC_ResumeReady u64 "PeerPresenceInfo list" bool
  | SC_ResumeRejected ResumeRejectCode bool
  | SC_PeerPresenceUpdate "PeerPresenceInfo list"
  | SC_UdpPathToken u64 SecretString
  | SC_UdpPathReady u64
  | SC_ControlPing u64
  | SC_ControlPong u64
  | SC_Error ControlErrorCode string bool

datatype 'j ControlEncodeError = CEncJson 'j | CEncPayloadTooLarge usize
datatype 'j ControlDecodeError = CDecPayloadTooLarge usize | CDecJson 'j

definition encode_control_json :: "('m, 'j) to_json \<Rightarrow> 'm \<Rightarrow> ('j ControlEncodeError, byte list) res" where
  "encode_control_json to_vec message =
     rbind (map_err CEncJson (to_vec message)) (\<lambda>payload.
     rbind (ensure (\<not> MAX_CONTROL_PAYLOAD < length payload) (CEncPayloadTooLarge (length payload))) (\<lambda>_.
     Ok payload))"

definition decode_control_json :: "('m, 'j) of_json \<Rightarrow> byte list \<Rightarrow> ('j ControlDecodeError, 'm) res" where
  "decode_control_json from_slice payload =
     rbind (ensure (\<not> MAX_CONTROL_PAYLOAD < length payload) (CDecPayloadTooLarge (length payload))) (\<lambda>_.
     map_err CDecJson (from_slice payload))"

definition encode_client_control ::
  "(ClientControl, 'j) to_json \<Rightarrow> ClientControl \<Rightarrow> ('j ControlEncodeError, byte list) res" where
  "encode_client_control to_vec m = encode_control_json to_vec m"

definition decode_client_control ::
  "(ClientControl, 'j) of_json \<Rightarrow> byte list \<Rightarrow> ('j ControlDecodeError, ClientControl) res" where
  "decode_client_control from_slice bs = decode_control_json from_slice bs"

definition encode_server_control ::
  "(ServerControl, 'j) to_json \<Rightarrow> ServerControl \<Rightarrow> ('j ControlEncodeError, byte list) res" where
  "encode_server_control to_vec m = encode_control_json to_vec m"

definition decode_server_control ::
  "(ServerControl, 'j) of_json \<Rightarrow> byte list \<Rightarrow> ('j ControlDecodeError, ServerControl) res" where
  "decode_server_control from_slice bs = decode_control_json from_slice bs"

section \<open>Lemmas\<close>

lemma encode_control_json_Ok:
  "encode_control_json tv m = Ok p \<longleftrightarrow> tv m = Ok p \<and> length p \<le> MAX_CONTROL_PAYLOAD"
  by (auto simp: encode_control_json_def)

lemma decode_encode_control_json:
  "json_inverse tv fs \<Longrightarrow> encode_control_json tv m = Ok p \<Longrightarrow> decode_control_json fs p = Ok m"
  by (auto simp: encode_control_json_Ok decode_control_json_def json_inverse_def)

lemma be_dec_put_u32: "be_dec (put_u32 w) = unat w"
  using unat_u32_less [of w] by (simp add: put_u32_def be_dec_be_enc)

lemma decode_encode_bootstrap:
  assumes "json_inverse tv fs" and "encode_bootstrap tv m = Ok frame"
  shows "decode_bootstrap fs frame = Ok m \<and> length frame \<le> LENGTH_PREFIX_LEN + MAX_BOOTSTRAP_PAYLOAD"
proof -
  obtain p where p: "tv m = Ok p" "length p \<le> MAX_BOOTSTRAP_PAYLOAD"
    and f: "frame = put_u32 (of_nat (length p)) @ p"
    using assms(2) by (auto simp: encode_bootstrap_def split: if_splits)
  have "unat (of_nat (length p) :: u32) = length p"
    using p(2) by (simp add: unat_of_nat MAX_BOOTSTRAP_PAYLOAD_def)
  with p f assms(1) show ?thesis
    by (simp add: decode_bootstrap_def LENGTH_PREFIX_LEN_def be_dec_put_u32 Let_def json_inverse_def)
qed

section \<open>Properties\<close>

text \<open>
  The relay selects a protocol version exactly when all advertised ranges are valid and some
  version lies in a range of both sides; the version it selects is the newest such version, and
  swapping the two sides does not change it.
\<close>

lemma select_protocol_newest:
  "(select_protocol client relay = Ok v \<longleftrightarrow> ranges_valid client relay \<and> newest_common client relay v)
   \<and> (select_protocol client relay = Ok v \<longleftrightarrow> select_protocol relay client = Ok v)
   \<and> (select_protocol client relay = Err NoCommonProtocol \<longleftrightarrow>
        ranges_valid client relay \<and> \<not> (\<exists>w. common_version client relay w))"
  using relay_select.select_Ok relay_select.select_commute relay_select.select_no_common
  by simp

text \<open>
  Capability selection enables every required bit, only bits that are both available and
  known to the protocol, and every optional bit that is available and known; a required bit that
  is unavailable or unknown is refused before admission, naming exactly the missing bits.
\<close>

lemma select_capabilities_correct:
  "case select_capabilities required optional available of
     Ok enabled \<Rightarrow>
       (\<forall>n. bit enabled n \<longleftrightarrow>
          bit required n \<or> (bit optional n \<and> bit available n \<and> bit KNOWN_CAPABILITIES n))
       \<and> bits_subset enabled (available AND KNOWN_CAPABILITIES)
   | Err e \<Rightarrow>
       e = MissingRequired (required AND NOT (available AND KNOWN_CAPABILITIES))
       \<and> required AND NOT (available AND KNOWN_CAPABILITIES) \<noteq> 0
   | Panic \<Rightarrow> False"
proof (cases "select_capabilities required optional available")
  case (Ok enabled)
  then show ?thesis
    using select_capabilities_Ok [of KNOWN_CAPABILITIES required optional available enabled]
    by (simp add: select_capabilities_def)
next
  case (Err e)
  then show ?thesis
    using select_capabilities_Err [of KNOWN_CAPABILITIES required optional available e]
    by (simp add: select_capabilities_def bits_subset_def)
next
  case Panic
  then show ?thesis
    by (auto simp: select_capabilities_def select_capabilities_of_def Let_def split: if_splits)
qed

text \<open>
  Given a JSON library whose parser inverts its serializer, a bootstrap message that encodes
  is decoded back from its length-prefixed frame, and no encoded frame exceeds the 16 KiB limit
  plus its prefix.
\<close>

lemma bootstrap_roundtrip:
  assumes "json_inverse to_vec from_slice" and "encode_bootstrap to_vec m = Ok frame"
  shows "decode_bootstrap from_slice frame = Ok m
         \<and> length frame \<le> LENGTH_PREFIX_LEN + MAX_BOOTSTRAP_PAYLOAD"
  using assms by (rule decode_encode_bootstrap)

definition sample_hello :: BootstrapMessage where
  "sample_hello = ClientHello 1 [\<lparr>pr_major = 3, pr_min_minor = 0, pr_max_minor = 0\<rparr>] 1 8
     \<lparr>bm_version = ''1.0'', bm_git_hash = None\<rparr>"

lemma bootstrap_roundtrip_witness:
  "let tv = (\<lambda>m. if m = sample_hello then Ok [123, 125] else Err ());
       fs = (\<lambda>bs. if bs = [123, 125] then Ok sample_hello else Err ())
   in json_inverse tv fs \<and> encode_bootstrap tv sample_hello = Ok [0, 0, 0, 2, 123, 125]
      \<and> decode_bootstrap fs [0, 0, 0, 2, 123, 125] = Ok sample_hello"
proof -
  let ?tv = "\<lambda>m. if m = sample_hello then Ok [123, 125 :: byte] else Err ()"
  let ?fs = "\<lambda>bs. if bs = [123, 125 :: byte] then Ok sample_hello else Err ()"
  have h: "json_inverse ?tv ?fs" by (simp add: json_inverse_def)
  have e: "encode_bootstrap ?tv sample_hello = Ok [0, 0, 0, 2, 123, 125]"
    by (simp add: encode_bootstrap_def MAX_BOOTSTRAP_PAYLOAD_def put_u32_def be_enc_4)
  show ?thesis using h e bootstrap_roundtrip [OF h e] by (simp add: Let_def)
qed

end
