(* ===== verification/Relay_Domain.thy ===== *)
theory Relay_Domain
  imports Net_Addr Relay_Bootstrap
begin

text \<open>
  The relay's domain values (\<open>bridge-relay/src/domain.rs\<close>, \<open>domain/session.rs\<close>), its peer id
  allocator (\<open>peer_registry.rs\<close>) and the mapping between wire values and domain values
  (\<open>protocol.rs\<close>).  Base58 and hexadecimal decoding come from libraries and are parameters.
\<close>

section \<open>Domain values\<close>

type_synonym PeerId = u64

text \<open>The 16-byte keys: session credential, resume credential and path token.\<close>

type_synonym SessionKey = "byte list"
type_synonym ResumeKey = "byte list"
type_synonym PathKey = "byte list"

datatype DataProfile = Tcp | Udp
datatype Presence = Connected | Reconnecting

record PeerView =
  pw_steam_id64 :: u64
  pw_display_name :: "string option"
  pw_presence :: Presence
  pw_capabilities :: u64

record JoinBegin =
  jb_control_peer :: PeerId
  jb_session :: SessionKey
  jb_steam_id64 :: u64
  jb_display_name :: "string option"
  jb_profile :: DataProfile
  jb_capabilities :: u64
  jb_now :: instant

record JoinChallenge =
  jc_challenge_id :: "byte list"
  jc_pow_nonce :: "byte list"
  jc_difficulty_bits :: byte

record JoinReady =
  jr_connection_id :: u64
  jr_resume_key :: ResumeKey
  jr_peers :: "PeerView list"
  jr_profile :: DataProfile

datatype ResumeFailure = RF_UnknownConnection | RF_InvalidCredential | RF_Expired

record PresenceBroadcast =
  bc_recipients :: "PeerId list"
  bc_peers :: "PeerView list"

record ResumeReady =
  rr_connection_id :: u64
  rr_peers :: "PeerView list"
  rr_profile :: DataProfile
  rr_udp_path_valid :: bool
  rr_broadcast :: "PresenceBroadcast option"

datatype DataSource = SrcTcp PeerId | SrcUdp SocketAddr
datatype DataDestination = DestTcp PeerId | DestUdp SocketAddr

record RouteData =
  rd_connection_id :: u64
  rd_frame_id :: u64
  rd_from_steam_id64 :: u64
  rd_to_steam_id64 :: u64
  rd_source :: DataSource
  rd_frame_bytes :: usize
  rd_now :: instant

record RouteProbe =
  rp_connection_id :: u64
  rp_from_steam_id64 :: u64
  rp_to_steam_id64 :: u64
  rp_source :: DataSource
  rp_frame_bytes :: usize
  rp_now :: instant

datatype StateError =
    RoomFull
  | RelayFull
  | MissingChallenge
  | InvalidChallenge
  | InvalidProof
  | UnknownConnection
  | SenderMismatch
  | ProfileMismatch
  | PathNotValidated
  | DuplicateFrame
  | FrameTooOld
  | RateLimited
  | TargetNotJoined
  | TargetUnavailable
  | ProbeUnsupported
  | ProbeRateLimited

section \<open>Peer ids\<close>

record PeerRegistry =
  reg_next_id :: u64

definition registry_default :: PeerRegistry where
  "registry_default = \<lparr>reg_next_id = 1\<rparr>"

definition registry_allocate :: "PeerRegistry \<Rightarrow> PeerId \<times> PeerRegistry" where
  "registry_allocate r = (reg_next_id r, r\<lparr>reg_next_id := saturating_add (reg_next_id r) 1\<rparr>)"

fun allocate_many :: "nat \<Rightarrow> PeerRegistry \<Rightarrow> PeerId list \<times> PeerRegistry" where
  "allocate_many 0 r = ([], r)"
| "allocate_many (Suc n) r =
     (let (i, r') = registry_allocate r; (is, r'') = allocate_many n r' in (i # is, r''))"

section \<open>Wire mapping\<close>

type_synonym base58_decoder = "string \<Rightarrow> byte list option"
type_synonym base58_encoder = "byte list \<Rightarrow> string"

definition decode_base58_16 :: "base58_decoder \<Rightarrow> string \<Rightarrow> (StateError, byte list) res" where
  "decode_base58_16 from_base58 value =
     rbind (ok_or (from_base58 value) InvalidChallenge) (\<lambda>bytes.
     if length bytes = 16 then Ok bytes else Err InvalidChallenge)"

definition session_key :: "base58_decoder \<Rightarrow> SecretString \<Rightarrow> (StateError, SessionKey) res" where
  "session_key from_base58 secret = decode_base58_16 from_base58 (expose_secret secret)"

definition resume_key :: "base58_decoder \<Rightarrow> SecretString \<Rightarrow> (ResumeFailure, ResumeKey) res" where
  "resume_key from_base58 secret =
     map_err (\<lambda>_. RF_InvalidCredential) (decode_base58_16 from_base58 (expose_secret secret))"

definition path_key_of_secret :: "base58_decoder \<Rightarrow> SecretString \<Rightarrow> (StateError, PathKey) res" where
  "path_key_of_secret from_base58 secret =
     map_err (\<lambda>_. PathNotValidated) (decode_base58_16 from_base58 (expose_secret secret))"

fun profile_of_wire :: "WireDataProfile \<Rightarrow> DataProfile" where
  "profile_of_wire WTcp = Tcp"
| "profile_of_wire WUdp = Udp"

definition secret_of_bytes :: "base58_encoder \<Rightarrow> byte list \<Rightarrow> SecretString" where
  "secret_of_bytes to_base58 bytes = SecretString (to_base58 bytes)"

text \<open>\<open>hex::decode_to_slice\<close> into 16 bytes fails on a digit that is not hexadecimal.\<close>

definition decode_hex_16 :: "(string \<Rightarrow> byte list option) \<Rightarrow> string \<Rightarrow> (StateError, byte list) res" where
  "decode_hex_16 hex_decode value =
     (if length value \<noteq> 32 then Err InvalidChallenge
      else ok_or (hex_decode value) InvalidChallenge)"

fun wire_presence :: "Presence \<Rightarrow> PeerPresence" where
  "wire_presence Connected = WConnected"
| "wire_presence Reconnecting = WReconnecting"

definition peer_views :: "PeerView list \<Rightarrow> PeerPresenceInfo list" where
  "peer_views peers =
     map (\<lambda>p. \<lparr>ppi_steam_id64 = pw_steam_id64 p, ppi_display_name = pw_display_name p,
               ppi_presence = wire_presence (pw_presence p),
               ppi_capabilities = pw_capabilities p\<rparr>) peers"

fun state_error :: "StateError \<Rightarrow> ServerControl" where
  "state_error RoomFull = SC_Error CAdmissionRejected ''room is full'' False"
| "state_error RelayFull = SC_Error CAdmissionRejected ''relay room limit reached'' True"
| "state_error MissingChallenge = SC_Error CAdmissionRejected ''join proof was rejected'' False"
| "state_error InvalidChallenge = SC_Error CAdmissionRejected ''join proof was rejected'' False"
| "state_error InvalidProof = SC_Error CAdmissionRejected ''join proof was rejected'' False"
| "state_error UnknownConnection = SC_Error CInvalidState ''connection is unknown'' True"
| "state_error SenderMismatch =
     SC_Error CInvalidMessage ''data sender does not match the session'' False"
| "state_error ProfileMismatch =
     SC_Error CInvalidState ''data profile does not match the session'' False"
| "state_error PathNotValidated = SC_Error CPathValidationFailed ''UDP path is not validated'' True"
| "state_error DuplicateFrame = SC_Error CInvalidMessage ''data frame was already observed'' False"
| "state_error FrameTooOld = SC_Error CInvalidMessage ''data frame was already observed'' False"
| "state_error RateLimited = SC_Error CRateLimited ''data rate limit exceeded'' True"
| "state_error TargetNotJoined = SC_Error CInvalidState ''target peer is not joined'' True"
| "state_error TargetUnavailable = SC_Error CInvalidState ''target peer path is unavailable'' True"
| "state_error ProbeUnsupported = SC_Error CInvalidState ''room path probe is unsupported'' False"
| "state_error ProbeRateLimited =
     SC_Error CRateLimited ''room path probe rate limit exceeded'' True"

fun resume_rejection :: "ResumeFailure \<Rightarrow> ServerControl" where
  "resume_rejection RF_UnknownConnection = SC_ResumeRejected RUnknownConnection True"
| "resume_rejection RF_InvalidCredential = SC_ResumeRejected RInvalidCredential False"
| "resume_rejection RF_Expired = SC_ResumeRejected RExpired True"

section \<open>Lemmas\<close>

lemma decode_base58_16_Ok: "decode_base58_16 d s = Ok k \<longleftrightarrow> d s = Some k \<and> length k = 16"
  by (auto simp: decode_base58_16_def split: if_splits)

lemma decode_base58_16_no_Panic [simp]: "decode_base58_16 d s \<noteq> Panic"
  by (auto simp: decode_base58_16_def rbind_eq_Panic split: if_splits)

lemma session_key_no_Panic [simp]: "session_key d s \<noteq> Panic"
  by (simp add: session_key_def)

lemma resume_key_no_Panic [simp]: "resume_key d s \<noteq> Panic"
  by (simp add: resume_key_def)

lemma path_key_no_Panic [simp]: "path_key_of_secret d s \<noteq> Panic"
  by (simp add: path_key_of_secret_def)

lemma decode_hex_16_no_Panic [simp]: "decode_hex_16 d s \<noteq> Panic"
  by (simp add: decode_hex_16_def)

lemma key_roundtrip:
  "(\<And>b. dec58 (enc58 b) = Some b) \<Longrightarrow> length k = 16 \<Longrightarrow>
     session_key dec58 (secret_of_bytes enc58 k) = Ok k"
  by (simp add: session_key_def secret_of_bytes_def decode_base58_16_Ok)

text \<open>Allocated peer ids are pairwise distinct as long as the counter does not saturate.\<close>

lemma allocate_step:
  assumes "unat (reg_next_id r) + 1 < 2 ^ 64"
  shows "unat (reg_next_id (snd (registry_allocate r))) = unat (reg_next_id r) + 1"
  using assms by (simp add: registry_allocate_def unat_saturating_add)

lemma allocate_many_ids:
  assumes "unat (reg_next_id r) + n < 2 ^ 64"
  shows "map unat (fst (allocate_many n r)) = [unat (reg_next_id r) ..< unat (reg_next_id r) + n]"
  using assms
proof (induction n arbitrary: r)
  case 0
  then show ?case by simp
next
  case (Suc n)
  let ?r = "snd (registry_allocate r)"
  have s: "unat (reg_next_id ?r) = unat (reg_next_id r) + 1"
    using Suc.prems by (intro allocate_step) simp
  then have "map unat (fst (allocate_many n ?r))
    = [unat (reg_next_id r) + 1 ..< unat (reg_next_id r) + 1 + n]"
    using Suc.IH [of ?r] Suc.prems by simp
  then show ?case
    by (simp add: case_prod_beta Let_def registry_allocate_def upt_conv_Cons)
qed

section \<open>Properties\<close>

text \<open>
  The relay gives every accepted TCP connection its own peer id: the first \<open>n\<close> allocations
  are exactly 1, 2, ..., n, for every \<open>n\<close> below the 64-bit limit at which the counter saturates.
\<close>

lemma peer_ids_distinct:
  assumes "n < 2 ^ 64 - 1"
  shows "map unat (fst (allocate_many n registry_default)) = [1 ..< n + 1]
         \<and> distinct (fst (allocate_many n registry_default))"
proof -
  have m: "map unat (fst (allocate_many n registry_default)) = [1 ..< n + 1]"
    using allocate_many_ids [of registry_default n] assms by (simp add: registry_default_def)
  then have "distinct (map unat (fst (allocate_many n registry_default)))" by simp
  then show ?thesis using m distinct_map by blast
qed

lemma peer_ids_distinct_witness:
  "(3::nat) < 2 ^ 64 - 1 \<and> map unat (fst (allocate_many 3 registry_default)) = [1, 2, 3]"
proof -
  have h: "(3::nat) < 2 ^ 64 - 1" by simp
  have "map unat (fst (allocate_many 3 registry_default)) = [1 ..< 3 + 1]"
    using peer_ids_distinct [OF h] by blast
  also have "[1 ..< 3 + 1] = [1, 2, 3 :: nat]" by (simp add: upt_rec)
  finally show ?thesis using h by blast
qed

end
