(* ===== verification/Rust_Str.thy ===== *)
theory Rust_Str
  imports TB_Prelude
begin

text \<open>
  The strings of the program.  A Rust \<open>str\<close> is a sequence of bytes that is valid UTF-8; in the model
  a string is the list of its bytes, as characters.  Here are the operations of the standard library
  the program uses on them: conversion from and to bytes, the UTF-8 check of \<open>str::from_utf8\<close>, and
  \<open>trim\<close> with the Unicode white space characters.
\<close>

section \<open>Bytes\<close>

definition str_bytes :: "string \<Rightarrow> byte list" where
  "str_bytes s = map (\<lambda>c. of_nat (of_char c)) s"

definition bytes_str :: "byte list \<Rightarrow> string" where
  "bytes_str bs = map (\<lambda>b. char_of (unat b)) bs"

lemma length_str_bytes [simp]: "length (str_bytes s) = length s"
  by (simp add: str_bytes_def)

lemma length_bytes_str [simp]: "length (bytes_str bs) = length bs"
  by (simp add: bytes_str_def)

lemma str_Nil [simp]: "str_bytes [] = []" "bytes_str [] = []"
  by (simp_all add: str_bytes_def bytes_str_def)

lemma char_of_byte [simp]: "char_of (unat (of_nat (of_char c) :: byte)) = c"
proof -
  have "(of_char c :: nat) < 256" by (metis nat_of_char_less_256)
  then show ?thesis by (simp add: unat_of_nat)
qed

lemma byte_of_char: "of_nat (of_char (char_of (unat b) :: char)) = (b :: byte)"
proof -
  have "unat b < 256" using unsigned_less [of b, where ?'a = nat] by simp
  then show ?thesis by (simp add: of_char_of)
qed

lemma bytes_str_bytes [simp]: "bytes_str (str_bytes s) = s"
  by (simp add: bytes_str_def str_bytes_def comp_def)

lemma str_bytes_str [simp]: "str_bytes (bytes_str bs) = bs"
  by (simp add: bytes_str_def str_bytes_def comp_def byte_of_char del: of_char_of)

section \<open>UTF-8\<close>

definition utf8_cont :: "byte \<Rightarrow> bool" where
  "utf8_cont b = (0x80 \<le> b \<and> b \<le> 0xBF)"

text \<open>How many bytes follow a first byte that is not ASCII, and the range of the first of them.\<close>

definition utf8_follow :: "byte \<Rightarrow> (nat \<times> byte \<times> byte) option" where
  "utf8_follow b =
     (if 0xC2 \<le> b \<and> b \<le> 0xDF then Some (1, 0x80, 0xBF)
      else if b = 0xE0 then Some (2, 0xA0, 0xBF)
      else if b = 0xED then Some (2, 0x80, 0x9F)
      else if 0xE1 \<le> b \<and> b \<le> 0xEF then Some (2, 0x80, 0xBF)
      else if b = 0xF0 then Some (3, 0x90, 0xBF)
      else if 0xF1 \<le> b \<and> b \<le> 0xF3 then Some (3, 0x80, 0xBF)
      else if b = 0xF4 then Some (3, 0x80, 0x8F)
      else None)"

function utf8_valid :: "byte list \<Rightarrow> bool" where
  "utf8_valid [] = True"
| "utf8_valid (b # bs) =
     (if b < 0x80 then utf8_valid bs
      else case utf8_follow b of
             None \<Rightarrow> False
           | Some (n, lo, hi) \<Rightarrow>
               n \<le> length bs \<and> lo \<le> hd bs \<and> hd bs \<le> hi
               \<and> list_all utf8_cont (take n bs) \<and> utf8_valid (drop n bs))"
  by pat_completeness auto
termination by (relation "measure length") auto

abbreviation utf8_str :: "string \<Rightarrow> bool" where
  "utf8_str s \<equiv> utf8_valid (str_bytes s)"

text \<open>\<open>str::from_utf8\<close>\<close>

definition from_utf8 :: "byte list \<Rightarrow> string option" where
  "from_utf8 bs = (if utf8_valid bs then Some (bytes_str bs) else None)"

lemma from_utf8_Some [simp]: "from_utf8 bs = Some s \<longleftrightarrow> utf8_valid bs \<and> s = bytes_str bs"
  by (auto simp: from_utf8_def)

text \<open>A string can be cut where a byte starts a character.\<close>

lemma utf8_valid_append:
  "y = [] \<or> \<not> utf8_cont (hd y) \<Longrightarrow> utf8_valid (x @ y) \<longleftrightarrow> utf8_valid x \<and> utf8_valid y"
proof (induction x rule: utf8_valid.induct)
  case (2 b bs)
  show ?case
  proof (cases "b < 0x80")
    case True
    then show ?thesis using 2 by simp
  next
    case False
    show ?thesis
    proof (cases "utf8_follow b")
      case None
      then show ?thesis using False by simp
    next
      case (Some p)
      obtain n lo hi where p: "p = (n, lo, hi)" by (cases p)
      have n: "0 < n" using Some p by (auto simp: utf8_follow_def split: if_splits)
      show ?thesis
      proof (cases "n \<le> length bs")
        case True
        then have h: "hd (bs @ y) = hd bs" using n by (cases bs) auto
        have IH: "utf8_valid (drop n bs @ y) \<longleftrightarrow> utf8_valid (drop n bs) \<and> utf8_valid y"
          using 2(2) [OF False Some p [symmetric] refl] 2(3) by simp
        show ?thesis using False Some p True h IH by auto
      next
        case short: False
        have "\<not> utf8_valid ((b # bs) @ y)"
        proof
          assume v: "utf8_valid ((b # bs) @ y)"
          then have all: "list_all utf8_cont (take n (bs @ y))" and len: "n \<le> length (bs @ y)"
            using False Some p by auto
          then have "y \<noteq> []" and "hd y \<in> set (take n (bs @ y))"
            using short by (cases y; simp add: take_Cons')+
          with all 2(3) show False by (auto simp: list_all_iff)
        qed
        moreover have "\<not> utf8_valid (b # bs)" using False Some p short by simp
        ultimately show ?thesis by simp
      qed
    qed
  qed
qed simp

section \<open>White space\<close>

text \<open>
  \<open>s.trim().is_empty()\<close>: the UTF-8 bytes of \<open>s\<close> spell only characters with the Unicode property
  White\_Space (one byte: tab to carriage return and space; two bytes: U+0085, U+00A0; three
  bytes: U+1680, U+2000 to U+200A, U+2028, U+2029, U+202F, U+205F, U+3000).
\<close>

definition ws1 :: "char \<Rightarrow> bool" where
  "ws1 c = (let n = (of_char c :: nat) in (9 \<le> n \<and> n \<le> 13) \<or> n = 32)"

definition ws2 :: "char \<Rightarrow> char \<Rightarrow> bool" where
  "ws2 c d = ((of_char c :: nat) = 0xC2 \<and> (of_char d :: nat) \<in> {0x85, 0xA0})"

definition ws3 :: "char \<Rightarrow> char \<Rightarrow> char \<Rightarrow> bool" where
  "ws3 c d e =
     (let a = (of_char c :: nat); b = (of_char d :: nat); n = (of_char e :: nat) in
       (a = 0xE1 \<and> b = 0x9A \<and> n = 0x80)
       \<or> (a = 0xE2 \<and> b = 0x80 \<and> ((0x80 \<le> n \<and> n \<le> 0x8A) \<or> n = 0xA8 \<or> n = 0xA9 \<or> n = 0xAF))
       \<or> (a = 0xE2 \<and> b = 0x81 \<and> n = 0x9F)
       \<or> (a = 0xE3 \<and> b = 0x80 \<and> n = 0x80))"

fun str_blank :: "string \<Rightarrow> bool" where
  "str_blank [] = True"
| "str_blank [c] = ws1 c"
| "str_blank [c, d] = (if ws1 c then str_blank [d] else ws2 c d)"
| "str_blank (c # d # e # s) =
     (if ws1 c then str_blank (d # e # s)
      else if ws2 c d then str_blank (e # s)
      else ws3 c d e \<and> str_blank s)"

text \<open>\<open>trim_start\<close> and, on the reversed string, \<open>trim_end\<close>.\<close>

fun trim_start :: "string \<Rightarrow> string" where
  "trim_start [] = []"
| "trim_start [c] = (if ws1 c then [] else [c])"
| "trim_start [c, d] = (if ws1 c then trim_start [d] else if ws2 c d then [] else [c, d])"
| "trim_start (c # d # e # s) =
     (if ws1 c then trim_start (d # e # s)
      else if ws2 c d then trim_start (e # s)
      else if ws3 c d e then trim_start s
      else c # d # e # s)"

fun trim_rev :: "string \<Rightarrow> string" where
  "trim_rev [] = []"
| "trim_rev [c] = (if ws1 c then [] else [c])"
| "trim_rev [d, c] = (if ws1 d then trim_rev [c] else if ws2 c d then [] else [d, c])"
| "trim_rev (e # d # c # s) =
     (if ws1 e then trim_rev (d # c # s)
      else if ws2 d e then trim_rev (c # s)
      else if ws3 c d e then trim_rev s
      else e # d # c # s)"

definition trim_end :: "string \<Rightarrow> string" where
  "trim_end s = rev (trim_rev (rev s))"

definition trim :: "string \<Rightarrow> string" where
  "trim s = trim_end (trim_start s)"

text \<open>The bytes of one white space character.\<close>

definition ws_char :: "string \<Rightarrow> bool" where
  "ws_char w \<longleftrightarrow> (\<exists>c. w = [c] \<and> ws1 c) \<or> (\<exists>c d. w = [c, d] \<and> ws2 c d)
     \<or> (\<exists>c d e. w = [c, d, e] \<and> ws3 c d e)"

lemma ws_heads:
  "ws1 c \<Longrightarrow> \<not> ws2 c d" "ws1 c \<Longrightarrow> \<not> ws3 c d e" "ws1 e \<Longrightarrow> \<not> ws2 d e" "ws1 e \<Longrightarrow> \<not> ws3 c d e"
  "ws2 c d \<Longrightarrow> \<not> ws3 c d e" "ws2 d e \<Longrightarrow> \<not> ws3 c d e"
  by (auto simp: ws1_def ws2_def ws3_def Let_def)

lemma trim_start_ws: "ws_char w \<Longrightarrow> trim_start (w @ s) = trim_start s"
  by (cases s; cases "tl s") (auto simp: ws_char_def ws_heads)

lemma trim_rev_ws: "ws_char w \<Longrightarrow> trim_rev (rev w @ s) = trim_rev s"
  by (cases s; cases "tl s") (auto simp: ws_char_def ws_heads)

text \<open>Each direction removes whole white space characters and nothing else.\<close>

lemma trim_start_split: "\<exists>ws. list_all ws_char ws \<and> s = concat ws @ trim_start s"
proof (induction s rule: trim_start.induct)
  case (2 c)
  then show ?case by (auto simp: ws_char_def intro: exI [of _ "[]"] exI [of _ "[[c]]"])
next
  case (3 c d)
  show ?case
  proof (cases "ws1 c")
    case True
    with 3 obtain ws where "list_all ws_char ws" "[d] = concat ws @ trim_start [d]" by blast
    with True have "list_all ws_char ([c] # ws) \<and> [c, d] = concat ([c] # ws) @ trim_start [c, d]"
      by (simp add: ws_char_def)
    then show ?thesis by blast
  next
    case False
    then show ?thesis
      by (auto simp: ws_char_def intro: exI [of _ "[]"] exI [of _ "[[c, d]]"])
  qed
next
  case (4 c d e s)
  consider "ws1 c" | "\<not> ws1 c" "ws2 c d" | "\<not> ws1 c" "\<not> ws2 c d" "ws3 c d e"
    | "\<not> ws1 c" "\<not> ws2 c d" "\<not> ws3 c d e" by blast
  then show ?case
  proof cases
    case 1
    with 4(1) obtain ws where "list_all ws_char ws" "d # e # s = concat ws @ trim_start (d # e # s)" by blast
    with 1 have "list_all ws_char ([c] # ws) \<and> c # d # e # s = concat ([c] # ws) @ trim_start (c # d # e # s)"
      by (simp add: ws_char_def)
    then show ?thesis by blast
  next
    case 2
    with 4(2) obtain ws where "list_all ws_char ws" "e # s = concat ws @ trim_start (e # s)" by blast
    with 2 have "list_all ws_char ([c, d] # ws) \<and> c # d # e # s = concat ([c, d] # ws) @ trim_start (c # d # e # s)"
      by (simp add: ws_char_def)
    then show ?thesis by blast
  next
    case 3
    with 4(3) obtain ws where "list_all ws_char ws" "s = concat ws @ trim_start s" by blast
    with 3 have "list_all ws_char ([c, d, e] # ws)
        \<and> c # d # e # s = concat ([c, d, e] # ws) @ trim_start (c # d # e # s)"
      by (simp add: ws_char_def)
    then show ?thesis by blast
  next
    case four: 4
    then show ?thesis by (intro exI [of _ "[]"]) simp
  qed
qed (simp add: exI [of _ "[]"])

lemma trim_rev_split: "\<exists>ws. list_all ws_char ws \<and> rev s = rev (trim_rev s) @ concat ws"
proof (induction s rule: trim_rev.induct)
  case (2 c)
  then show ?case by (auto simp: ws_char_def intro: exI [of _ "[]"] exI [of _ "[[c]]"])
next
  case (3 d c)
  show ?case
  proof (cases "ws1 d")
    case True
    with 3 obtain ws where "list_all ws_char ws" "rev [c] = rev (trim_rev [c]) @ concat ws" by blast
    with True have "list_all ws_char (ws @ [[d]])
        \<and> rev [d, c] = rev (trim_rev [d, c]) @ concat (ws @ [[d]])"
      by (simp add: ws_char_def)
    then show ?thesis by blast
  next
    case False
    then show ?thesis
      by (auto simp: ws_char_def intro: exI [of _ "[]"] exI [of _ "[[c, d]]"])
  qed
next
  case (4 e d c s)
  consider "ws1 e" | "\<not> ws1 e" "ws2 d e" | "\<not> ws1 e" "\<not> ws2 d e" "ws3 c d e"
    | "\<not> ws1 e" "\<not> ws2 d e" "\<not> ws3 c d e" by blast
  then show ?case
  proof cases
    case 1
    with 4(1) obtain ws where "list_all ws_char ws" "rev (d # c # s) = rev (trim_rev (d # c # s)) @ concat ws"
      by blast
    with 1 have "list_all ws_char (ws @ [[e]])
        \<and> rev (e # d # c # s) = rev (trim_rev (e # d # c # s)) @ concat (ws @ [[e]])"
      by (simp add: ws_char_def)
    then show ?thesis by blast
  next
    case 2
    with 4(2) obtain ws where "list_all ws_char ws" "rev (c # s) = rev (trim_rev (c # s)) @ concat ws"
      by blast
    with 2 have "list_all ws_char (ws @ [[d, e]])
        \<and> rev (e # d # c # s) = rev (trim_rev (e # d # c # s)) @ concat (ws @ [[d, e]])"
      by (simp add: ws_char_def)
    then show ?thesis by blast
  next
    case 3
    with 4(3) obtain ws where "list_all ws_char ws" "rev s = rev (trim_rev s) @ concat ws" by blast
    with 3 have "list_all ws_char (ws @ [[c, d, e]])
        \<and> rev (e # d # c # s) = rev (trim_rev (e # d # c # s)) @ concat (ws @ [[c, d, e]])"
      by (simp add: ws_char_def)
    then show ?thesis by blast
  next
    case four: 4
    then show ?thesis by (intro exI [of _ "[]"]) simp
  qed
qed (simp add: exI [of _ "[]"])

lemma trim_split:
  "\<exists>ws ws'. list_all ws_char ws \<and> list_all ws_char ws' \<and> s = concat ws @ trim s @ concat ws'"
proof -
  obtain ws where ws: "list_all ws_char ws" "s = concat ws @ trim_start s"
    using trim_start_split by blast
  obtain ws' where "list_all ws_char ws'"
    "rev (rev (trim_start s)) = rev (trim_rev (rev (trim_start s))) @ concat ws'"
    using trim_rev_split by blast
  then have "list_all ws_char ws'" "trim_start s = trim s @ concat ws'"
    by (simp_all add: trim_def trim_end_def)
  with ws show ?thesis by metis
qed

text \<open>Trimming keeps a string valid.\<close>

lemma utf8_valid_cancel: "utf8_valid x \<Longrightarrow> utf8_valid (x @ y) \<Longrightarrow> utf8_valid y"
proof (induction x rule: utf8_valid.induct)
  case (2 b bs)
  show ?case
  proof (cases "b < 0x80")
    case True
    then show ?thesis using 2 by simp
  next
    case False
    obtain n lo hi where p: "utf8_follow b = Some (n, lo, hi)"
      using 2(3) False by (auto split: option.splits)
    have n: "n \<le> length bs" and v: "utf8_valid (drop n bs)" using 2(3) False p by auto
    from 2(4) False p n have "utf8_valid (drop n bs @ y)" by simp
    then show ?thesis using 2(2) [OF False p refl refl] v by blast
  qed
qed simp

lemma unat_char_byte [simp]: "unat (of_nat (of_char c) :: byte) = of_char c"
proof -
  have "(of_char c :: nat) < 256" by (metis nat_of_char_less_256)
  then show ?thesis by (simp add: unat_of_nat)
qed

lemma ws_char_bytes:
  assumes "ws_char w"
  shows "utf8_valid (str_bytes w) \<and> str_bytes w \<noteq> [] \<and> \<not> utf8_cont (hd (str_bytes w))"
proof -
  consider (one) c where "w = [c]" "ws1 c" | (two) c d where "w = [c, d]" "ws2 c d"
    | (three) c d e where "w = [c, d, e]" "ws3 c d e"
    using assms by (auto simp: ws_char_def)
  then show ?thesis
  proof cases
    case one
    then show ?thesis
      by (auto simp: str_bytes_def ws1_def utf8_cont_def word_le_nat_alt word_less_nat_alt)
  next
    case two
    then show ?thesis
      by (auto simp: str_bytes_def ws2_def utf8_cont_def utf8_follow_def)
  next
    case three
    have e: "(0x80 :: byte) \<le> of_nat (of_char e) \<and> of_nat (of_char e) \<le> (0xBF :: byte)"
      using three(2) by (auto simp: ws3_def Let_def word_le_nat_alt)
    have cd: "(of_char c, of_char d) \<in> {(0xE1 :: nat, 0x9A :: nat), (0xE2, 0x80), (0xE2, 0x81), (0xE3, 0x80)}"
      using three(2) by (auto simp: ws3_def Let_def)
    have "(of_nat (of_char c), of_nat (of_char d))
        \<in> {(0xE1 :: byte, 0x9A :: byte), (0xE2, 0x80), (0xE2, 0x81), (0xE3, 0x80)}"
      using cd by force
    then show ?thesis using three(1) e
      by (elim insertE emptyE Pair_inject) (simp_all add: str_bytes_def utf8_cont_def utf8_follow_def)
  qed
qed

lemma str_bytes_append [simp]: "str_bytes (s @ t) = str_bytes s @ str_bytes t"
  by (simp add: str_bytes_def)

lemma utf8_ws:
  "list_all ws_char ws \<Longrightarrow> utf8_str (concat ws)
     \<and> (str_bytes (concat ws) = [] \<or> \<not> utf8_cont (hd (str_bytes (concat ws))))"
proof (induction ws)
  case (Cons w ws)
  then have IH: "utf8_str (concat ws)"
    "str_bytes (concat ws) = [] \<or> \<not> utf8_cont (hd (str_bytes (concat ws)))" by simp_all
  have "ws_char w" using Cons.prems by simp
  then have w: "utf8_str w" "str_bytes w \<noteq> []" "\<not> utf8_cont (hd (str_bytes w))"
    using ws_char_bytes by blast+
  show ?case using utf8_valid_append [OF IH(2), of "str_bytes w"] w IH by simp
qed (simp add: str_bytes_def)

lemma utf8_trim: "utf8_str s \<Longrightarrow> utf8_str (trim s)"
proof -
  assume v: "utf8_str s"
  obtain ws ws' where w: "list_all ws_char ws" "list_all ws_char ws'"
    and s: "s = concat ws @ trim s @ concat ws'" using trim_split by blast
  have "utf8_valid (str_bytes (trim s) @ str_bytes (concat ws'))"
    using v s utf8_ws [OF w(1)] utf8_valid_cancel by (metis str_bytes_append)
  then show ?thesis using utf8_valid_append utf8_ws [OF w(2)] by blast
qed

text \<open>White space around a string that neither starts nor ends with a character above or below the
  printable ASCII range is removed, and nothing else.\<close>

definition plain :: "char \<Rightarrow> bool" where
  "plain c = (32 < (of_char c :: nat) \<and> (of_char c :: nat) < 0x80)"

lemma trim_start_plain: "plain c \<Longrightarrow> trim_start (c # s) = c # s"
  by (cases s; cases "tl s") (auto simp: plain_def ws1_def ws2_def ws3_def Let_def)

lemma trim_rev_plain: "plain c \<Longrightarrow> trim_rev (c # s) = c # s"
  by (cases s; cases "tl s") (auto simp: plain_def ws1_def ws2_def ws3_def Let_def)

lemma trim_start_concat: "list_all ws_char ws \<Longrightarrow> trim_start (concat ws @ s) = trim_start s"
  by (induction ws) (simp_all add: trim_start_ws)

lemma trim_rev_concat: "list_all ws_char ws \<Longrightarrow> trim_rev (rev (concat ws) @ s) = trim_rev s"
  by (induction ws arbitrary: s) (simp_all add: trim_rev_ws)

lemma trim_pasted:
  assumes "list_all ws_char ws" "list_all ws_char ws'" "s \<noteq> []" "plain (hd s)" "plain (last s)"
  shows "trim (concat ws @ s @ concat ws') = s"
proof -
  obtain c r where s: "s = c # r" using assms(3) by (cases s) auto
  obtain d l where r: "rev s = d # l" "d = last s" using assms(3)
    by (metis append_butlast_last_id rev_eq_Cons_iff rev_rev_ident)
  have "trim_start (concat ws @ s @ concat ws') = s @ concat ws'"
    using trim_start_concat [OF assms(1)] trim_start_plain [of c] assms(4) s by simp
  moreover have "trim_rev (rev (s @ concat ws')) = rev s"
    unfolding rev_append trim_rev_concat [OF assms(2)] r(1)
    using trim_rev_plain [of d l] assms(5) r(2) by simp
  ultimately show ?thesis by (simp add: trim_def trim_end_def)
qed

end
