(* ===== verification/Relay_Config.thy ===== *)
theory Relay_Config
  imports Rust_Str
begin

text \<open>
  The relay's configuration (\<open>bridge-relay/src/config.rs\<close>): defaults, the TOML file's sections,
  command-line overrides and validation.  The TOML parser and the file system are parameters.
\<close>

section \<open>The configuration\<close>

definition MAX_UDP_PACKET_SIZE :: usize where "MAX_UDP_PACKET_SIZE = 65535"
definition DEFAULT_BIND :: string where "DEFAULT_BIND = ''0.0.0.0:25910''"

text \<open>An IP network of the \<open>ipnet\<close> crate, used by the accept loop only.\<close>

typedecl IpNet

record TelemetryConfig =
  tc_otlp_endpoint :: string
  tc_service_instance_id :: string

record RelayConfig =
  udp_bind :: "string option"
  tcp_bind :: "string option"
  tcp_egress_queue_capacity :: usize
  max_packet_size :: usize
  peer_idle_seconds :: u64
  room_idle_seconds :: u64
  rate_limit_per_second :: u32
  byte_rate_limit_per_second :: usize
  byte_rate_limit_burst :: usize
  health_pongs_per_second_per_ip :: u32
  max_rooms :: usize
  max_peers_per_room :: usize
  max_room_name_len :: usize
  blocked_cidrs :: "IpNet list"
  pow_difficulty_bits :: byte
  telemetry :: "TelemetryConfig option"

definition config_default :: RelayConfig where
  "config_default = \<lparr>
     udp_bind = Some DEFAULT_BIND,
     tcp_bind = Some DEFAULT_BIND,
     tcp_egress_queue_capacity = 512,
     max_packet_size = 2048,
     peer_idle_seconds = 30,
     room_idle_seconds = 120,
     rate_limit_per_second = 5000,
     byte_rate_limit_per_second = 8 * 1024 * 1024,
     byte_rate_limit_burst = 16 * 1024 * 1024,
     health_pongs_per_second_per_ip = 10,
     max_rooms = 256,
     max_peers_per_room = 4,
     max_room_name_len = 64,
     blocked_cidrs = [],
     pow_difficulty_bits = 18,
     telemetry = None\<rparr>"

definition config_file_default :: RelayConfig where
  "config_file_default = config_default\<lparr>udp_bind := None, tcp_bind := None\<rparr>"

definition validate_listener :: "string \<Rightarrow> string option \<Rightarrow> (string, unit) res" where
  "validate_listener name bind =
     (case bind of
        Some value \<Rightarrow>
          if str_blank value then Err (name @ '' must not be empty when set'') else Ok ()
      | None \<Rightarrow> Ok ())"

definition validate_telemetry :: "TelemetryConfig option \<Rightarrow> (string, unit) res" where
  "validate_telemetry t =
     (case t of
        None \<Rightarrow> Ok ()
      | Some t \<Rightarrow>
          rbind (ensure (\<not> str_blank (tc_otlp_endpoint t))
                   ''telemetry.otlp_endpoint must not be empty'') (\<lambda>_.
          ensure (\<not> str_blank (tc_service_instance_id t))
                   ''telemetry.service_instance_id must not be empty''))"

definition config_validate :: "RelayConfig \<Rightarrow> (string, unit) res" where
  "config_validate c =
     rbind (validate_listener ''relay_server.udp_bind'' (udp_bind c)) (\<lambda>_.
     rbind (validate_listener ''relay_server.tcp_bind'' (tcp_bind c)) (\<lambda>_.
     rbind (ensure (tcp_bind c \<noteq> None)
              ''relay_server.tcp_bind is required for the control plane'') (\<lambda>_.
     rbind (ensure (tcp_egress_queue_capacity c \<noteq> 0)
              ''tcp_egress_queue_capacity must be greater than 0'') (\<lambda>_.
     rbind (ensure (max_packet_size c \<noteq> 0) ''max_packet_size must be greater than 0'') (\<lambda>_.
     rbind (ensure (\<not> MAX_UDP_PACKET_SIZE < max_packet_size c)
              ''max_packet_size must not exceed 65535'') (\<lambda>_.
     rbind (ensure (peer_idle_seconds c \<noteq> 0) ''peer_idle_seconds must be greater than 0'') (\<lambda>_.
     rbind (ensure (room_idle_seconds c \<noteq> 0) ''room_idle_seconds must be greater than 0'') (\<lambda>_.
     rbind (ensure (rate_limit_per_second c \<noteq> 0)
              ''rate_limit_per_second must be greater than 0'') (\<lambda>_.
     rbind (ensure (byte_rate_limit_per_second c \<noteq> 0)
              ''byte_rate_limit_per_second must be greater than 0'') (\<lambda>_.
     rbind (ensure (byte_rate_limit_burst c \<noteq> 0)
              ''byte_rate_limit_burst must be greater than 0'') (\<lambda>_.
     rbind (ensure (health_pongs_per_second_per_ip c \<noteq> 0)
              ''health_pongs_per_second_per_ip must be greater than 0'') (\<lambda>_.
     rbind (ensure (max_rooms c \<noteq> 0) ''max_rooms must be greater than 0'') (\<lambda>_.
     rbind (ensure (max_peers_per_room c \<noteq> 0)
              ''max_peers_per_room must be greater than 0'') (\<lambda>_.
     rbind (ensure (max_room_name_len c \<noteq> 0)
              ''max_room_name_len must be greater than 0'') (\<lambda>_.
     validate_telemetry (telemetry c))))))))))))))))"

section \<open>The configuration file and the command line\<close>

record RelayServerSection =
  rs_udp_bind :: "string option"
  rs_tcp_bind :: "string option"

record TrafficLimitsSection =
  tl_rate_limit_per_second :: "u32 option"
  tl_byte_rate_limit_per_second :: "usize option"
  tl_byte_rate_limit_burst :: "usize option"

text \<open>
  The sections with a single optional field are written by that field: a section that is present
  with the field absent is \<open>Some None\<close>.
\<close>

record RelayConfigFile =
  cf_relay_server :: "RelayServerSection option"
  cf_admission :: "byte option option"
  cf_room_limits :: "usize option option"
  cf_traffic_limits :: "TrafficLimitsSection option"
  cf_access_control :: "IpNet list option option"
  cf_telemetry :: "TelemetryConfig option"

definition apply_traffic_limits :: "TrafficLimitsSection option \<Rightarrow> RelayConfig \<Rightarrow> RelayConfig" where
  "apply_traffic_limits section c =
     (case section of
        None \<Rightarrow> c
      | Some t \<Rightarrow>
          let c = (case tl_rate_limit_per_second t of
                     None \<Rightarrow> c | Some v \<Rightarrow> c\<lparr>rate_limit_per_second := v\<rparr>);
              c = (case tl_byte_rate_limit_per_second t of
                     None \<Rightarrow> c | Some v \<Rightarrow> c\<lparr>byte_rate_limit_per_second := v\<rparr>)
          in case tl_byte_rate_limit_burst t of
               None \<Rightarrow> c | Some v \<Rightarrow> c\<lparr>byte_rate_limit_burst := v\<rparr>)"

definition into_config :: "RelayConfigFile \<Rightarrow> RelayConfig" where
  "into_config f =
     (let c = config_file_default;
          c = (case cf_relay_server f of
                 None \<Rightarrow> c
               | Some s \<Rightarrow> c\<lparr>udp_bind := rs_udp_bind s, tcp_bind := rs_tcp_bind s\<rparr>);
          c = (case cf_admission f of
                 Some (Some bits) \<Rightarrow> c\<lparr>pow_difficulty_bits := bits\<rparr> | _ \<Rightarrow> c);
          c = (case cf_room_limits f of Some (Some n) \<Rightarrow> c\<lparr>max_rooms := n\<rparr> | _ \<Rightarrow> c);
          c = apply_traffic_limits (cf_traffic_limits f) c;
          c = (case cf_access_control f of Some (Some ns) \<Rightarrow> c\<lparr>blocked_cidrs := ns\<rparr> | _ \<Rightarrow> c)
      in c\<lparr>telemetry := cf_telemetry f\<rparr>)"

definition from_toml ::
  "(string \<Rightarrow> (string, RelayConfigFile) res) \<Rightarrow> string \<Rightarrow> (string, RelayConfig) res" where
  "from_toml toml contents =
     rbind (map_err (\<lambda>e. ''invalid config: '' @ e) (toml contents)) (\<lambda>file.
     let config = into_config file in
     rbind (config_validate config) (\<lambda>_. Ok config))"

record Args =
  arg_config :: "string option"
  arg_bind :: "string option"
  arg_tcp_bind :: "string option"
  arg_disable_tcp :: bool

definition apply_args :: "Args \<Rightarrow> RelayConfig \<Rightarrow> RelayConfig" where
  "apply_args a c =
     (let c = (case arg_bind a of None \<Rightarrow> c | Some b \<Rightarrow> c\<lparr>udp_bind := Some b\<rparr>);
          c = (case arg_tcp_bind a of None \<Rightarrow> c | Some b \<Rightarrow> c\<lparr>tcp_bind := Some b\<rparr>)
      in if arg_disable_tcp a then c\<lparr>tcp_bind := None\<rparr> else c)"

definition config_load ::
  "(string \<Rightarrow> (string, RelayConfigFile) res) \<Rightarrow> (string \<Rightarrow> (string, string) res) \<Rightarrow> Args
     \<Rightarrow> (string, RelayConfig) res" where
  "config_load toml read_file a =
     rbind (case arg_config a of
              Some path \<Rightarrow> rbind (read_file path) (from_toml toml)
            | None \<Rightarrow> Ok config_default) (\<lambda>config.
     let config = apply_args a config in
     rbind (config_validate config) (\<lambda>_. Ok config))"

section \<open>Lemmas\<close>

text \<open>What every configuration the relay runs with satisfies.\<close>

definition config_ok :: "RelayConfig \<Rightarrow> bool" where
  "config_ok c =
     ((case udp_bind c of None \<Rightarrow> True | Some b \<Rightarrow> \<not> str_blank b)
      \<and> (case tcp_bind c of None \<Rightarrow> False | Some b \<Rightarrow> \<not> str_blank b)
      \<and> 0 < tcp_egress_queue_capacity c
      \<and> 0 < max_packet_size c \<and> max_packet_size c \<le> MAX_UDP_PACKET_SIZE
      \<and> peer_idle_seconds c \<noteq> 0 \<and> room_idle_seconds c \<noteq> 0
      \<and> rate_limit_per_second c \<noteq> 0
      \<and> 0 < byte_rate_limit_per_second c \<and> 0 < byte_rate_limit_burst c
      \<and> health_pongs_per_second_per_ip c \<noteq> 0
      \<and> 0 < max_rooms c \<and> 0 < max_peers_per_room c \<and> 0 < max_room_name_len c
      \<and> (case telemetry c of None \<Rightarrow> True
         | Some t \<Rightarrow> \<not> str_blank (tc_otlp_endpoint t) \<and> \<not> str_blank (tc_service_instance_id t)))"

lemma validate_listener_Ok:
  "validate_listener n b = Ok u \<longleftrightarrow> (case b of None \<Rightarrow> True | Some v \<Rightarrow> \<not> str_blank v)"
  by (simp add: validate_listener_def split: option.split)

lemma validate_telemetry_Ok:
  "validate_telemetry t = Ok u \<longleftrightarrow>
     (case t of None \<Rightarrow> True
      | Some t \<Rightarrow> \<not> str_blank (tc_otlp_endpoint t) \<and> \<not> str_blank (tc_service_instance_id t))"
  by (simp add: validate_telemetry_def split: option.split)

lemma config_validate_Ok: "config_validate c = Ok u \<longleftrightarrow> config_ok c"
  by (auto simp: config_validate_def config_ok_def validate_listener_Ok validate_telemetry_Ok
      split: option.splits)

lemma config_load_Ok: "config_load toml rf a = Ok c \<Longrightarrow> config_ok c"
  by (auto simp: config_load_def Let_def config_validate_Ok)

lemma default_bind_not_blank [simp]: "\<not> str_blank DEFAULT_BIND"
  by (simp add: DEFAULT_BIND_def ws1_def ws2_def ws3_def of_char_def)

lemma config_default_ok: "config_ok config_default"
  by (simp add: config_ok_def config_default_def MAX_UDP_PACKET_SIZE_def)

section \<open>Properties\<close>

text \<open>
  Validation accepts exactly the configurations with a non-blank TCP listener, a UDP listener
  that is absent or non-blank, positive limits, a packet size of at most 65535 and complete
  telemetry settings, and the relay only ever starts with such a configuration, whatever the
  file, the parser and the command line say.
\<close>

lemma config_load_validated:
  "(config_validate c = Ok () \<longleftrightarrow> config_ok c)
   \<and> (case config_load toml read_file args of Ok c' \<Rightarrow> config_ok c' | _ \<Rightarrow> True)"
  using config_validate_Ok config_load_Ok by (auto split: res.split)

text \<open>
  The command-line switch that disables the TCP listener can never be used: with it, loading
  fails for every configuration file and every other argument, because the control plane's TCP
  listener is required.
\<close>

lemma disable_tcp_never_loads:
  assumes "arg_disable_tcp a"
  shows "\<not> is_ok (config_load toml read_file a)"
proof
  assume "is_ok (config_load toml read_file a)"
  then obtain c0 c where "c = apply_args a c0" "config_ok c"
    by (auto simp: is_ok_iff config_load_def Let_def config_validate_Ok)
  with assms show False by (simp add: apply_args_def config_ok_def Let_def)
qed

lemma disable_tcp_never_loads_witness:
  "\<not> is_ok (config_load (\<lambda>_. Err []) (\<lambda>_. Err [])
      \<lparr>arg_config = None, arg_bind = None, arg_tcp_bind = Some DEFAULT_BIND, arg_disable_tcp = True\<rparr>)"
  by (rule disable_tcp_never_loads) simp

end
