(* ===== verification/Relay_Budget.thy ===== *)
theory Relay_Budget
  imports Relay_Domain Relay_Config
begin

text \<open>
  The per-peer traffic budget of the relay (\<open>bridge-relay/src/state/traffic_budget.rs\<close>): a fixed
  one-second window that counts packets and bytes, and an independent one for probes.  Proved:
  what a budget admits in one window stays within the configured limits, rejected traffic is not
  debited, and windows start at least a second apart.
\<close>

definition RATE_WINDOW :: duration where "RATE_WINDOW = secs 1"
definition PROBE_RATE_LIMIT_PER_SECOND :: u32 where "PROBE_RATE_LIMIT_PER_SECOND = 10"

record TrafficBudget =
  tb_packet_limit :: u32
  tb_byte_rate_limit :: usize
  tb_byte_burst_limit :: usize
  tb_window_started :: instant
  tb_packets :: u32
  tb_bytes :: usize
  tb_probe_window_started :: instant
  tb_probes :: u32

definition budget_new :: "RelayConfig \<Rightarrow> instant \<Rightarrow> TrafficBudget" where
  "budget_new config now = \<lparr>
     tb_packet_limit = rate_limit_per_second config,
     tb_byte_rate_limit = byte_rate_limit_per_second config,
     tb_byte_burst_limit = byte_rate_limit_burst config,
     tb_window_started = now,
     tb_packets = 0,
     tb_bytes = 0,
     tb_probe_window_started = now,
     tb_probes = 0\<rparr>"

definition roll_window :: "TrafficBudget \<Rightarrow> instant \<Rightarrow> TrafficBudget" where
  "roll_window b now =
     (if RATE_WINDOW \<le> duration_since now (tb_window_started b)
      then b\<lparr>tb_window_started := now, tb_packets := 0, tb_bytes := 0\<rparr> else b)"

definition check_traffic ::
  "TrafficBudget \<Rightarrow> usize \<Rightarrow> instant \<Rightarrow> TrafficBudget \<times> (StateError, unit) res" where
  "check_traffic b frame_bytes now =
     (let b = roll_window b now;
          next_packets = saturating_add (tb_packets b) 1;
          next_bytes = usize_saturating_add (tb_bytes b) frame_bytes
      in if tb_packet_limit b < next_packets
            \<or> tb_byte_burst_limit b < next_bytes
            \<or> (0 < tb_bytes b \<and> tb_byte_rate_limit b < next_bytes)
         then (b, Err RateLimited)
         else (b\<lparr>tb_packets := next_packets, tb_bytes := next_bytes\<rparr>, Ok ()))"

definition check_probe :: "TrafficBudget \<Rightarrow> instant \<Rightarrow> TrafficBudget \<times> (StateError, unit) res" where
  "check_probe b now =
     (let b = (if RATE_WINDOW \<le> duration_since now (tb_probe_window_started b)
               then b\<lparr>tb_probe_window_started := now, tb_probes := 0\<rparr> else b);
          next = saturating_add (tb_probes b) 1
      in if PROBE_RATE_LIMIT_PER_SECOND < next then (b, Err ProbeRateLimited)
         else (b\<lparr>tb_probes := next\<rparr>, Ok ()))"

section \<open>Runs of a budget\<close>

text \<open>
  A run checks a sequence of frames (size and time) and records, for every admitted one, the
  window it was admitted in and its size.
\<close>

fun run_traffic :: "TrafficBudget \<Rightarrow> (usize \<times> instant) list \<Rightarrow> (instant \<times> usize) list \<times> TrafficBudget" where
  "run_traffic b [] = ([], b)"
| "run_traffic b ((n, t) # rs) =
     (let (b', r) = check_traffic b n t; (out, b'') = run_traffic b' rs
      in (if is_ok r then (tb_window_started b', n) # out else out, b''))"

definition admitted_in :: "instant \<Rightarrow> (instant \<times> usize) list \<Rightarrow> usize list" where
  "admitted_in w out = map snd (filter (\<lambda>e. fst e = w) out)"

text \<open>The counters stay within the limits; frames are at most \<open>F\<close> bytes.\<close>

definition budget_ok :: "usize \<Rightarrow> TrafficBudget \<Rightarrow> bool" where
  "budget_ok F b =
     (unat (tb_packets b) \<le> unat (tb_packet_limit b) \<and> tb_bytes b \<le> tb_byte_burst_limit b
      \<and> tb_bytes b \<le> max (tb_byte_rate_limit b) F)"

definition limits_finite :: "TrafficBudget \<Rightarrow> bool" where
  "limits_finite b = (tb_packet_limit b \<noteq> - 1 \<and> tb_byte_burst_limit b < usize_max)"

lemma roll_window_simps [simp]:
  "tb_packet_limit (roll_window b t) = tb_packet_limit b"
  "tb_byte_rate_limit (roll_window b t) = tb_byte_rate_limit b"
  "tb_byte_burst_limit (roll_window b t) = tb_byte_burst_limit b"
  "tb_probes (roll_window b t) = tb_probes b"
  "tb_probe_window_started (roll_window b t) = tb_probe_window_started b"
  by (simp_all add: roll_window_def)

lemma roll_window_ok: "budget_ok F b \<Longrightarrow> budget_ok F (roll_window b t)"
  by (simp add: budget_ok_def roll_window_def)

lemma roll_window_cases:
  obtains (same) "roll_window b t = b"
  | (fresh) "tb_window_started (roll_window b t) = t" "tb_window_started b + RATE_WINDOW \<le> t"
      "tb_packets (roll_window b t) = 0" "tb_bytes (roll_window b t) = 0"
proof (cases "RATE_WINDOW \<le> duration_since t (tb_window_started b)")
  case True
  moreover have "0 < RATE_WINDOW" by (simp add: RATE_WINDOW_def secs_def)
  ultimately show thesis using fresh by (simp add: roll_window_def duration_since_def)
next
  case False
  then show thesis using same by (simp add: roll_window_def)
qed

lemma check_traffic_Err:
  "check_traffic b n t = (b', Err e) \<Longrightarrow> b' = roll_window b t \<and> e = RateLimited"
  by (auto simp: check_traffic_def Let_def split: if_splits)

lemma check_traffic_no_Panic: "snd (check_traffic b n t) \<noteq> Panic"
  by (simp add: check_traffic_def Let_def)

lemma check_traffic_Ok:
  assumes "check_traffic b n t = (b', Ok u)" and "limits_finite b" and "n \<le> F"
  shows "unat (tb_packets b') = Suc (unat (tb_packets (roll_window b t)))"
    and "tb_bytes b' = tb_bytes (roll_window b t) + n"
    and "tb_window_started b' = tb_window_started (roll_window b t)"
    and "budget_ok F b'"
    and "limits_finite b'"
    and "tb_packet_limit b' = tb_packet_limit b"
    and "tb_byte_rate_limit b' = tb_byte_rate_limit b"
    and "tb_byte_burst_limit b' = tb_byte_burst_limit b"
proof -
  let ?r = "roll_window b t"
  let ?p = "saturating_add (tb_packets ?r) 1" and ?y = "usize_saturating_add (tb_bytes ?r) n"
  have b': "b' = ?r\<lparr>tb_packets := ?p, tb_bytes := ?y\<rparr>"
    and p: "?p \<le> tb_packet_limit b" and y: "?y \<le> tb_byte_burst_limit b"
    and r: "tb_bytes ?r = 0 \<or> ?y \<le> tb_byte_rate_limit b"
    using assms(1) by (auto simp: check_traffic_def Let_def split: if_splits)
  have lim: "unat (tb_packet_limit b) < 2 ^ 32 - 1"
  proof -
    have "unat (tb_packet_limit b) \<noteq> unat (- 1 :: u32)"
      using assms(2) by (simp add: limits_finite_def word_unat_eq_iff)
    then show ?thesis using unat_u32_less [of "tb_packet_limit b"] by (simp add: unat_max_word)
  qed
  have "unat ?p \<le> unat (tb_packet_limit b)" using p by (simp add: word_le_nat_alt)
  with lim have up: "unat ?p = Suc (unat (tb_packets ?r))" by (simp add: unat_saturating_add)
  have uy: "?y = tb_bytes ?r + n"
    using y assms(2) by (auto simp: usize_saturating_add_def limits_finite_def min_def split: if_splits)
  show "unat (tb_packets b') = Suc (unat (tb_packets ?r))" using up b' by simp
  show "tb_bytes b' = tb_bytes ?r + n" using uy b' by simp
  show "tb_window_started b' = tb_window_started ?r" using b' by simp
  show "budget_ok F b'"
    using p y r uy assms(3) b' by (auto simp: budget_ok_def word_le_nat_alt)
  show "limits_finite b'" using assms(2) b' by (simp add: limits_finite_def)
  show "tb_packet_limit b' = tb_packet_limit b" "tb_byte_rate_limit b' = tb_byte_rate_limit b"
    "tb_byte_burst_limit b' = tb_byte_burst_limit b" using b' by simp_all
qed

text \<open>
  The window bound along a run: in the current window the budget's counters are included, later
  windows start at least \<open>RATE_WINDOW\<close> later, no entry belongs to an earlier window.
\<close>

definition window_bound :: "usize \<Rightarrow> TrafficBudget \<Rightarrow> (instant \<times> usize) list \<Rightarrow> instant \<Rightarrow> bool" where
  "window_bound F b out w =
     (let base = (w = tb_window_started b);
          packets = (if base then unat (tb_packets b) else 0) + length (admitted_in w out);
          bytes = (if base then tb_bytes b else 0) + sum_list (admitted_in w out)
      in packets \<le> unat (tb_packet_limit b) \<and> bytes \<le> tb_byte_burst_limit b
         \<and> bytes \<le> max (tb_byte_rate_limit b) F)"

lemma admitted_in_Cons [simp]:
  "admitted_in w (e # out) = (if fst e = w then snd e # admitted_in w out else admitted_in w out)"
  by (simp add: admitted_in_def)

lemma admitted_in_Nil [simp]: "admitted_in w [] = []"
  by (simp add: admitted_in_def)

lemma admitted_in_absent: "w \<notin> fst ` set out \<Longrightarrow> admitted_in w out = []"
  by (force simp: admitted_in_def filter_empty_conv)

lemma run_traffic_windows:
  "run_traffic b rs = (out, b') \<Longrightarrow> e \<in> set out \<Longrightarrow>
     fst e = tb_window_started b \<or> tb_window_started b + RATE_WINDOW \<le> fst e"
proof (induction b rs arbitrary: out b' rule: run_traffic.induct)
  case (1 b)
  then show ?case by simp
next
  case (2 b n t rs)
  obtain c r where c: "check_traffic b n t = (c, r)" by fastforce
  obtain out1 d where d: "run_traffic c rs = (out1, d)" by fastforce
  have cw: "tb_window_started c = tb_window_started (roll_window b t)"
    using c by (auto simp: check_traffic_def Let_def split: if_splits)
  have e: "fst e = tb_window_started c \<or> tb_window_started c + RATE_WINDOW \<le> fst e"
    using 2 c d by (auto split: if_splits)
  show ?case
    using e unfolding cw by (cases rule: roll_window_cases [of b t]) (auto simp: trans_le_add1)
qed

lemma run_traffic_spaced:
  "run_traffic b rs = (out, b') \<Longrightarrow> e \<in> set out \<Longrightarrow> f \<in> set out \<Longrightarrow> fst e < fst f \<Longrightarrow>
     fst e + RATE_WINDOW \<le> fst f"
proof (induction b rs arbitrary: out b' rule: run_traffic.induct)
  case (1 b)
  then show ?case by simp
next
  case (2 b n t rs)
  obtain c r where c: "check_traffic b n t = (c, r)" by fastforce
  obtain out1 d where d: "run_traffic c rs = (out1, d)" by fastforce
  note IH = 2(1) [OF c [symmetric] _ d]
  have w: "fst g = tb_window_started c \<or> tb_window_started c + RATE_WINDOW \<le> fst g"
    if "g \<in> set out1" for g using that run_traffic_windows [OF d] by blast
  show ?case
    using 2(2-5) c d IH w [of e] w [of f] by (auto split: if_splits)
qed

lemma run_traffic_bound:
  "run_traffic b rs = (out, b') \<Longrightarrow> budget_ok F b \<Longrightarrow> limits_finite b \<Longrightarrow>
     \<forall>(n, t) \<in> set rs. n \<le> F \<Longrightarrow> window_bound F b out w"
proof (induction b rs arbitrary: out b' rule: run_traffic.induct)
  case (1 b)
  then show ?case by (auto simp: window_bound_def budget_ok_def)
next
  case (2 b n t rs)
  obtain c r where c: "check_traffic b n t = (c, r)" by fastforce
  obtain out1 d where d: "run_traffic c rs = (out1, d)" by fastforce
  let ?r = "roll_window b t"
  have rok: "budget_ok F ?r" using 2(3) by (rule roll_window_ok)
  have wb: "window_bound F ?r out w"
  proof (cases r)
    case (Ok u)
    note k = check_traffic_Ok [OF c [unfolded Ok] 2(4), of F]
    have n: "n \<le> F" using 2(5) by simp
    have "window_bound F c out1 w" using 2(1) [OF c [symmetric] _ d] k(4,5) [OF n] 2(5) by auto
    moreover have "out = (tb_window_started c, n) # out1" using 2(2) c d Ok by auto
    ultimately show ?thesis
      using k(1-3,6-8) [OF n] by (auto simp: window_bound_def Let_def split: if_splits)
  next
    case (Err e)
    then have "c = ?r" using c check_traffic_Err by blast
    moreover have "out = out1" using 2(2) c d Err by auto
    moreover have "limits_finite ?r" using 2(4) by (simp add: limits_finite_def)
    ultimately show ?thesis using 2(1) [OF c [symmetric] _ d] rok 2(5) by auto
  next
    case Panic
    then show ?thesis using check_traffic_no_Panic [of b n t] c by simp
  qed
  show ?case
  proof (cases rule: roll_window_cases [of b t])
    case same
    then show ?thesis using wb by simp
  next
    case fresh
    have pos: "0 < RATE_WINDOW" by (simp add: RATE_WINDOW_def secs_def)
    show ?thesis
    proof (cases "w = tb_window_started b")
      case True
      have "w \<notin> fst ` set out"
      proof
        assume "w \<in> fst ` set out"
        then obtain e where e: "e \<in> set out" "fst e = w" by auto
        have cw: "tb_window_started c = tb_window_started ?r"
          using c by (auto simp: check_traffic_def Let_def split: if_splits)
        have "fst e = tb_window_started c \<or> tb_window_started c + RATE_WINDOW \<le> fst e"
          using 2(2) c d e(1) run_traffic_windows [OF d, of e] by (auto split: if_splits)
        then show False using e(2) True fresh(1,2) cw pos by simp
      qed
      then show ?thesis
        using True 2(3) by (simp add: window_bound_def budget_ok_def admitted_in_absent)
    next
      case False
      then show ?thesis using wb fresh(3,4) by (auto simp: window_bound_def Let_def split: if_splits)
    qed
  qed
qed

lemma budget_new_ok: "budget_ok F (budget_new config now)"
  by (simp add: budget_ok_def budget_new_def)

text \<open>The probe budget is independent of the traffic budget and never exceeds its own limit.\<close>

definition probes_ok :: "TrafficBudget \<Rightarrow> bool" where
  "probes_ok b = (tb_probes b \<le> PROBE_RATE_LIMIT_PER_SECOND)"

lemma check_probe_ok: "probes_ok b \<Longrightarrow> probes_ok (fst (check_probe b t))"
  by (auto simp: probes_ok_def check_probe_def Let_def PROBE_RATE_LIMIT_PER_SECOND_def)

lemma check_probe_frame:
  "check_probe b t = (b', r) \<Longrightarrow>
     tb_packets b' = tb_packets b \<and> tb_bytes b' = tb_bytes b
     \<and> tb_window_started b' = tb_window_started b"
  by (auto simp: check_probe_def Let_def split: if_splits)

lemma check_traffic_probe_frame:
  "check_traffic b n t = (b', r) \<Longrightarrow>
     tb_probes b' = tb_probes b \<and> tb_probe_window_started b' = tb_probe_window_started b"
  by (auto simp: check_traffic_def Let_def split: if_splits)

section \<open>Properties\<close>

text \<open>
  C9: Let the packet rate be below the largest \<open>u32\<close> and the burst limit below the largest \<open>usize\<close>, so that the
  saturating counters cannot stick at a limit.  Then, whatever sequence of frames a sender offers, at whatever times,
  the frames admitted in any one window number at most the packet limit, their sizes add up to at most the burst limit and
  to at most the byte rate limit (or one maximal frame, if that is larger); and two windows in
  which frames are admitted start at least one second apart.
\<close>

theorem traffic_budget_bounds:
  assumes "rate_limit_per_second config \<noteq> - 1" and "byte_rate_limit_burst config < usize_max"
    and "\<forall>(n, t) \<in> set rs. n \<le> F"
  shows "let out = fst (run_traffic (budget_new config start) rs) in
     length (admitted_in w out) \<le> unat (rate_limit_per_second config)
     \<and> sum_list (admitted_in w out) \<le> byte_rate_limit_burst config
     \<and> sum_list (admitted_in w out) \<le> max (byte_rate_limit_per_second config) F
     \<and> (\<forall>e \<in> set out. \<forall>f \<in> set out. fst e < fst f \<longrightarrow> fst e + RATE_WINDOW \<le> fst f)"
proof -
  obtain out b' where r: "run_traffic (budget_new config start) rs = (out, b')" by fastforce
  have fin: "limits_finite (budget_new config start)"
    using assms(1,2) by (simp add: limits_finite_def budget_new_def)
  have "window_bound F (budget_new config start) out w"
    by (rule run_traffic_bound [OF r budget_new_ok fin assms(3)])
  moreover have "\<forall>e \<in> set out. \<forall>f \<in> set out. fst e < fst f \<longrightarrow> fst e + RATE_WINDOW \<le> fst f"
    using run_traffic_spaced [OF r] by blast
  ultimately show ?thesis
    using r by (simp add: window_bound_def budget_new_def Let_def)
qed

theorem traffic_budget_bounds_witness:
  "let out = fst (run_traffic (budget_new config_default 0) [(100, 5), (200, 7)]) in
     length (admitted_in 0 out) \<le> 5000 \<and> sum_list (admitted_in 0 out) \<le> 16 * 1024 * 1024"
proof -
  have c: "rate_limit_per_second config_default \<noteq> - 1"
    "byte_rate_limit_burst config_default < usize_max"
    "\<forall>(n, t) \<in> set [(100, 5), (200 :: nat, 7 :: nat)]. n \<le> 200"
    by (simp_all add: config_default_def usize_max_def)
  show ?thesis using traffic_budget_bounds [OF c, of 0 0] by (simp add: Let_def config_default_def)
qed

end
