(* ===== verification/Frame_Id_Window.thy ===== *)
theory Frame_Id_Window
  imports TB_Prelude
begin

text \<open>
  The fixed-size duplicate window of \<open>relay-protocol/src/duplicate.rs\<close>: a 128-bit bitmap of the
  frame ids at and below the highest one seen.  The relay keeps one per sender, the direct path
  keeps one per peer path.  The window is proved to refine an ideal history of all accepted ids
  (\<open>spec_observe\<close>), and the interface its clients rely on is the locale \<open>replay_filter\<close>.
\<close>

section \<open>The window\<close>

definition FRAME_ID_WINDOW_BITS :: u64 where
  "FRAME_ID_WINDOW_BITS = 128"

datatype DuplicateDecision = New | Reordered | Duplicate | TooOld

record FrameIdWindow =
  fw_highest :: "u64 option"
  fw_seen :: u128

definition window_new :: FrameIdWindow where
  "window_new = \<lparr>fw_highest = None, fw_seen = 0\<rparr>"

definition window_highest :: "FrameIdWindow \<Rightarrow> u64 option" where
  "window_highest w = fw_highest w"

definition observe :: "FrameIdWindow \<Rightarrow> u64 \<Rightarrow> DuplicateDecision \<times> FrameIdWindow" where
  "observe w frame_id =
     (case fw_highest w of
        None \<Rightarrow> (New, w\<lparr>fw_highest := Some frame_id, fw_seen := 1\<rparr>)
      | Some highest \<Rightarrow>
          if highest < frame_id then
            let advance = frame_id - highest in
            (New, w\<lparr>fw_seen :=
                      (if FRAME_ID_WINDOW_BITS \<le> advance then 1
                       else push_bit (unat advance) (fw_seen w) OR 1),
                    fw_highest := Some frame_id\<rparr>)
          else
            let age = highest - frame_id in
            if FRAME_ID_WINDOW_BITS \<le> age then (TooOld, w)
            else
              let mask = push_bit (unat age) (1 :: u128) in
              if fw_seen w AND mask \<noteq> 0 then (Duplicate, w)
              else (Reordered, w\<lparr>fw_seen := fw_seen w OR mask\<rparr>))"

section \<open>The ideal history\<close>

text \<open>
  What the window promises: it behaves as if every accepted id were remembered, except that ids
  128 or more below the highest are refused unseen.
\<close>

definition spec_observe :: "u64 set \<Rightarrow> u64 \<Rightarrow> DuplicateDecision \<times> u64 set" where
  "spec_observe S i =
     (if S = {} \<or> Max S < i then (New, insert i S)
      else if FRAME_ID_WINDOW_BITS \<le> Max S - i then (TooOld, S)
      else if i \<in> S then (Duplicate, S)
      else (Reordered, insert i S))"

definition accepts :: "DuplicateDecision \<Rightarrow> bool" where
  "accepts d = (d = New \<or> d = Reordered)"

text \<open>
  The window \<open>w\<close> tracks the history \<open>S\<close>: same highest id, and bit \<open>k\<close> of the bitmap says whether
  the id \<open>k\<close> below the highest was accepted (a bit that would stand for a negative id is clear).
\<close>

definition tracks :: "FrameIdWindow \<Rightarrow> u64 set \<Rightarrow> bool" where
  "tracks w S \<longleftrightarrow>
     (if S = {} then fw_highest w = None
      else fw_highest w = Some (Max S) \<and>
           (\<forall>k<128. bit (fw_seen w) k \<longleftrightarrow> k \<le> unat (Max S) \<and> Max S - of_nat k \<in> S))"

lemma tracks_empty [simp]: "tracks w {} \<longleftrightarrow> fw_highest w = None"
  by (simp add: tracks_def)

lemma tracks_new: "tracks window_new {}"
  by (simp add: window_new_def)

lemma tracks_highest: "tracks w S \<Longrightarrow> S \<noteq> {} \<Longrightarrow> fw_highest w = Some (Max S)"
  by (simp add: tracks_def)

lemma tracks_bit:
  "tracks w S \<Longrightarrow> S \<noteq> {} \<Longrightarrow> k < 128 \<Longrightarrow>
     bit (fw_seen w) k \<longleftrightarrow> k \<le> unat (Max S) \<and> Max S - of_nat k \<in> S"
  by (simp add: tracks_def)

lemma tracksI:
  assumes "fw_highest w = Some h" and "Max S = h" and "S \<noteq> {}"
    and "\<And>k. k < 128 \<Longrightarrow> bit (fw_seen w) k \<longleftrightarrow> k \<le> unat h \<and> h - of_nat k \<in> S"
  shows "tracks w S"
  using assms by (simp add: tracks_def)

lemma bit_one_u128: "bit (1 :: u128) k \<longleftrightarrow> k = 0"
  by (auto simp: bit_1_iff)

lemma Max_insert_above: "finite (S :: u64 set) \<Longrightarrow> S = {} \<or> Max S < i \<Longrightarrow> Max (insert i S) = i"
  by (cases "S = {}") (auto simp del: Max_less_iff simp: max_def)

lemma tracks_advance_first:
  assumes "tracks w {}"
  shows "tracks (w\<lparr>fw_highest := Some i, fw_seen := 1\<rparr>) {i}"
proof (rule tracksI)
  fix k :: nat
  assume k: "k < 128"
  have "i - of_nat k = i \<longleftrightarrow> k = 0"
  proof -
    have "(of_nat k :: u64) = 0 \<longleftrightarrow> k = 0"
      using k by (auto simp: word_unat_eq_iff unat_of_nat)
    then show ?thesis by simp
  qed
  then show "bit (fw_seen (w\<lparr>fw_highest := Some i, fw_seen := 1\<rparr>)) k \<longleftrightarrow>
    k \<le> unat i \<and> i - of_nat k \<in> {i}"
    by (auto simp: bit_one_u128)
qed simp_all

lemma unat_sub_of_nat: "k \<le> unat (h :: u64) \<Longrightarrow> unat (h - of_nat k) = unat h - k"
proof -
  assume k: "k \<le> unat h"
  then have "unat (of_nat k :: u64) = k"
  proof -
    have "unat h < 2 ^ LENGTH(64)" by (rule unsigned_less)
    with k show ?thesis by (simp add: unat_of_nat)
  qed
  with k show ?thesis by (simp add: unat_sub word_le_nat_alt)
qed

lemma tracks_advance:
  assumes t: "tracks w S" and ne: "S \<noteq> {}" and gt: "Max S < i"
  shows "tracks (w\<lparr>fw_seen := (if FRAME_ID_WINDOW_BITS \<le> i - Max S then 1
                               else push_bit (unat (i - Max S)) (fw_seen w) OR 1),
                   fw_highest := Some i\<rparr>) (insert i S)"
proof (rule tracksI)
  show "Max (insert i S) = i" using gt by (simp add: Max_insert_above)
  fix k :: nat
  assume k: "k < 128"
  let ?h = "Max S" and ?a = "unat (i - Max S)"
  have a: "?a = unat i - unat ?h" and lt: "unat ?h < unat i"
    using gt by (simp_all add: unat_sub word_less_nat_alt less_imp_le)
  have le_h: "unat x \<le> unat ?h" if "x \<in> S" for x
    using that Max_ge [of S x] by (simp add: word_le_nat_alt)
  have self: "k \<le> unat i \<Longrightarrow> i - of_nat k = i \<longleftrightarrow> k = 0"
    using unat_sub_of_nat [of k i] lt by (auto simp: word_unat_eq_iff)
  have shift: "bit (fw_seen w) (k - ?a) \<longleftrightarrow> k \<le> unat i \<and> i - of_nat k \<in> S" if "?a \<le> k"
  proof -
    have "?h - of_nat (k - ?a) = i - of_nat k"
      using that by (simp add: of_nat_diff)
    moreover have "k - ?a \<le> unat ?h \<longleftrightarrow> k \<le> unat i" using that a lt by linarith
    ultimately show ?thesis using tracks_bit [OF t ne, of "k - ?a"] k by auto
  qed
  have below: "i - of_nat k \<notin> S" if "k < ?a" "k \<le> unat i"
    using that unat_sub_of_nat [of k i] le_h [of "i - of_nat k"] a lt by linarith
  have big: "FRAME_ID_WINDOW_BITS \<le> i - ?h \<longleftrightarrow> 128 \<le> ?a"
    by (simp add: FRAME_ID_WINDOW_BITS_def word_le_nat_alt)
  show "bit (fw_seen (w\<lparr>fw_seen := (if FRAME_ID_WINDOW_BITS \<le> i - ?h then 1
                        else push_bit ?a (fw_seen w) OR 1), fw_highest := Some i\<rparr>)) k \<longleftrightarrow>
    k \<le> unat i \<and> i - of_nat k \<in> insert i S"
  proof (cases "128 \<le> ?a")
    case True
    then show ?thesis using big self below k by (auto simp: bit_one_u128)
  next
    case False
    then have "bit (push_bit ?a (fw_seen w) OR 1) k \<longleftrightarrow> k = 0 \<or> ?a \<le> k \<and> bit (fw_seen w) (k - ?a)"
      using k by (auto simp: bit_simps bit_one_u128)
    then show ?thesis using False big self below shift by (cases "?a \<le> k") auto
  qed
qed (simp_all add: gt)

lemma tracks_age:
  assumes t: "tracks w S" and ne: "S \<noteq> {}" and le: "i \<le> Max S"
    and win: "\<not> FRAME_ID_WINDOW_BITS \<le> Max S - i"
  shows "bit (fw_seen w) (unat (Max S - i)) \<longleftrightarrow> i \<in> S"
    and "unat (Max S - i) < 128"
    and "unat (Max S - i) \<le> unat (Max S)"
proof -
  show lt: "unat (Max S - i) < 128"
    using win by (simp add: FRAME_ID_WINDOW_BITS_def word_le_nat_alt)
  show leh: "unat (Max S - i) \<le> unat (Max S)"
    using le by (simp add: unat_sub word_le_nat_alt)
  show "bit (fw_seen w) (unat (Max S - i)) \<longleftrightarrow> i \<in> S"
    using tracks_bit [OF t ne lt] leh by simp
qed

lemma mask_test: "k < 128 \<Longrightarrow> (s :: u128) AND push_bit k 1 \<noteq> 0 \<longleftrightarrow> bit s k"
proof -
  assume "k < 128"
  then have "bit (s AND push_bit k 1) n \<longleftrightarrow> n = k \<and> bit s k" for n
    by (auto simp: bit_simps bit_one_u128)
  then show ?thesis by (metis bit_0_eq bot_apply bot_bool_def bit_eqI)
qed

lemma tracks_reordered:
  assumes t: "tracks w S" and ne: "S \<noteq> {}" and le: "i \<le> Max S"
    and win: "\<not> FRAME_ID_WINDOW_BITS \<le> Max S - i"
  shows "tracks (w\<lparr>fw_seen := fw_seen w OR push_bit (unat (Max S - i)) 1\<rparr>) (insert i S)"
proof (rule tracksI)
  show "fw_highest (w\<lparr>fw_seen := fw_seen w OR push_bit (unat (Max S - i)) 1\<rparr>) = Some (Max S)"
    using tracks_highest [OF t ne] by simp
  show "Max (insert i S) = Max S" using le ne by (simp add: max_def)
  show "insert i S \<noteq> {}" by simp
  fix k :: nat
  assume k: "k < 128"
  note age = tracks_age [OF t ne le win]
  have "Max S - of_nat k = i \<longleftrightarrow> k = unat (Max S - i)" if "k \<le> unat (Max S)"
    using unat_sub_of_nat [OF that] le that by (auto simp: word_unat_eq_iff unat_sub word_le_nat_alt)
  moreover have "bit (fw_seen w OR push_bit (unat (Max S - i)) 1) k \<longleftrightarrow>
    bit (fw_seen w) k \<or> k = unat (Max S - i)"
    using k by (auto simp: bit_simps bit_one_u128)
  ultimately show "bit (fw_seen (w\<lparr>fw_seen := fw_seen w OR push_bit (unat (Max S - i)) 1\<rparr>)) k \<longleftrightarrow>
    k \<le> unat (Max S) \<and> Max S - of_nat k \<in> insert i S"
    using tracks_bit [OF t ne k] age(3) by auto
qed

lemma observe_refines:
  assumes t: "tracks w S"
  shows "fst (observe w i) = fst (spec_observe S i)"
    and "tracks (snd (observe w i)) (snd (spec_observe S i))"
proof -
  have "fst (observe w i) = fst (spec_observe S i) \<and>
    tracks (snd (observe w i)) (snd (spec_observe S i))"
  proof (cases "S = {}")
    case True
    then show ?thesis using t tracks_advance_first [of w i]
      by (simp add: observe_def spec_observe_def)
  next
    case False
    note h = tracks_highest [OF t False]
    show ?thesis
    proof (cases "Max S < i")
      case True
      then show ?thesis using False h tracks_advance [OF t False True]
        by (simp add: observe_def spec_observe_def Let_def)
    next
      case le: False
      then have le': "i \<le> Max S" by simp
      show ?thesis
      proof (cases "FRAME_ID_WINDOW_BITS \<le> Max S - i")
        case True
        then show ?thesis using False le h t
          by (simp del: Max_less_iff add: observe_def spec_observe_def Let_def)
      next
        case win: False
        note age = tracks_age [OF t False le' win]
        show ?thesis
          using False le h t win age(1) mask_test [OF age(2), of "fw_seen w"]
            tracks_reordered [OF t False le' win]
          by (simp del: Max_less_iff add: observe_def spec_observe_def Let_def)
      qed
    qed
  qed
  then show "fst (observe w i) = fst (spec_observe S i)"
    and "tracks (snd (observe w i)) (snd (spec_observe S i))" by simp_all
qed

section \<open>The interface of a replay filter\<close>

text \<open>The ids a filter lets through, and its state, after a sequence of observations.\<close>

fun run_filter :: "('w \<Rightarrow> u64 \<Rightarrow> 'd \<times> 'w) \<Rightarrow> ('d \<Rightarrow> bool) \<Rightarrow> 'w \<Rightarrow> u64 list \<Rightarrow> u64 list \<times> 'w" where
  "run_filter obs acc w [] = ([], w)"
| "run_filter obs acc w (i # is) =
     (let (d, w') = obs w i; (out, w'') = run_filter obs acc w' is
      in (if acc d then i # out else out, w''))"

text \<open>
  A filter that never lets an id through twice: \<open>hist w S\<close> relates its state to the set of ids
  it has let through.
\<close>

locale replay_filter =
  fixes start :: "'w"
    and obs :: "'w \<Rightarrow> u64 \<Rightarrow> 'd \<times> 'w"
    and acc :: "'d \<Rightarrow> bool"
    and hist :: "'w \<Rightarrow> u64 set \<Rightarrow> bool"
  assumes hist_start: "hist start {}"
    and obs_accept: "hist w S \<Longrightarrow> obs w i = (d, w') \<Longrightarrow> acc d \<Longrightarrow> i \<notin> S \<and> hist w' (insert i S)"
    and obs_reject: "hist w S \<Longrightarrow> obs w i = (d, w') \<Longrightarrow> \<not> acc d \<Longrightarrow> hist w' S"
begin

lemma run_from:
  "hist w S \<Longrightarrow> run_filter obs acc w is = (out, w') \<Longrightarrow>
     distinct out \<and> set out \<inter> S = {} \<and> hist w' (S \<union> set out)"
proof (induction "is" arbitrary: w S out w')
  case Nil
  then show ?case by simp
next
  case (Cons i "is")
  obtain d v where o: "obs w i = (d, v)" by fastforce
  obtain out1 v1 where r: "run_filter obs acc v is = (out1, v1)" by fastforce
  show ?case
  proof (cases "acc d")
    case True
    then have "i \<notin> S" "hist v (insert i S)" using obs_accept [OF Cons.prems(1) o] by auto
    with Cons.IH [OF _ r] Cons.prems(2) o r True show ?thesis by fastforce
  next
    case False
    then have "hist v S" using obs_reject [OF Cons.prems(1) o] by auto
    with Cons.IH [OF _ r] Cons.prems(2) o r False show ?thesis by fastforce
  qed
qed

lemma run_distinct: "distinct (fst (run_filter obs acc start is))"
  using run_from [OF hist_start] by (metis prod.collapse)

lemma run_hist: "hist (snd (run_filter obs acc start is)) (set (fst (run_filter obs acc start is)))"
  using run_from [OF hist_start] by (metis prod.collapse sup_bot_left)

end

interpretation window: replay_filter window_new observe accepts tracks
proof (unfold_locales, goal_cases)
  case 1
  then show ?case by (rule tracks_new)
next
  case (2 w S i d w')
  then show ?case using observe_refines [OF 2(1), of i]
    by (auto simp: spec_observe_def accepts_def Max_insert_above dest: Max_ge [rotated]
        split: if_splits)
next
  case (3 w S i d w')
  then show ?case using observe_refines [OF 3(1), of i]
    by (auto simp: spec_observe_def accepts_def split: if_splits)
qed

lemma run_filter_refines:
  "tracks w S \<Longrightarrow>
     fst (run_filter observe accepts w is) = fst (run_filter spec_observe accepts S is)"
proof (induction "is" arbitrary: w S)
  case Nil
  then show ?case by simp
next
  case (Cons i "is")
  note r = observe_refines [OF Cons.prems, of i]
  show ?case using Cons.IH [OF r(2)] r(1) by (simp add: Let_def case_prod_beta)
qed

section \<open>Properties\<close>

text \<open>
  C7: Observing any sequence of frame ids with a fresh window accepts exactly the ids that an
  unbounded history with the 128-id horizon accepts, in the same order: the bitmap with its
  shifts loses and invents nothing.
\<close>

theorem window_equals_ideal_history:
  "fst (run_filter observe accepts window_new is) = fst (run_filter spec_observe accepts {} is)"
  by (rule run_filter_refines) (rule tracks_new)

text \<open>
  No frame id is ever accepted twice: the ids accepted from any sequence of observations,
  with any repetitions and reorderings, are distinct.
\<close>

lemma window_no_replay: "distinct (fst (run_filter observe accepts window_new is))"
  by (rule window.run_distinct)

end
