(* ===== verification/Relay_State.thy ===== *)
theory Relay_State
  imports Relay_Budget Frame_Id_Window Rust_Str
begin

text \<open>
  The relay's in-memory session state (\<open>bridge-relay/src/state.rs\<close> and \<open>state/routing.rs\<close>):
  pending joins, rooms of peers, the index from connection ids to rooms and from control
  connections to connection ids.  Every method of \<open>RelayState\<close> is a function from the state to
  the new state and its result.  The hash function of the proof of work and the random numbers
  are parameters; drawing a fresh connection id is a loop over a list of draws, which returns
  \<open>None\<close> when no draw of the list is usable.
\<close>

section \<open>State\<close>

definition RECOVERY_GRACE :: duration where "RECOVERY_GRACE = secs 120"
definition CHALLENGE_LIFETIME :: duration where "CHALLENGE_LIFETIME = secs 30"

record PendingJoin =
  pj_session :: SessionKey
  pj_steam_id64 :: u64
  pj_display_name :: "string option"
  pj_profile :: DataProfile
  pj_capabilities :: u64
  pj_challenge_id :: "byte list"
  pj_pow_nonce :: "byte list"
  pj_issued_at :: instant

record Peer =
  p_control_peer :: PeerId
  p_connection_id :: u64
  p_resume_key :: ResumeKey
  p_path_key :: "PathKey option"
  p_udp_address :: "SocketAddr option"
  p_steam_id64 :: u64
  p_display_name :: "string option"
  p_profile :: DataProfile
  p_capabilities :: u64
  p_presence :: Presence
  p_detached_until :: "instant option"
  p_frames :: FrameIdWindow
  p_last_seen :: instant
  p_traffic_budget :: TrafficBudget

record Room =
  r_peers :: "(u64, Peer) hmap"
  r_last_seen :: instant

record RelayState =
  rs_config :: RelayConfig
  rs_pending :: "(PeerId, PendingJoin) hmap"
  rs_rooms :: "(SessionKey, Room) hmap"
  rs_connection_rooms :: "(u64, SessionKey) hmap"
  rs_control_connections :: "(PeerId, u64) hmap"

definition state_new :: "RelayConfig \<Rightarrow> RelayState" where
  "state_new config = \<lparr>rs_config = config, rs_pending = [], rs_rooms = [],
     rs_connection_rooms = [], rs_control_connections = []\<rparr>"

section \<open>Routing helpers\<close>

definition peer_view :: "Peer \<Rightarrow> PeerView" where
  "peer_view p = \<lparr>pw_steam_id64 = p_steam_id64 p, pw_display_name = p_display_name p,
     pw_presence = p_presence p, pw_capabilities = p_capabilities p\<rparr>"

definition room_views :: "Room \<Rightarrow> PeerView list" where
  "room_views room = sort_key pw_steam_id64 (map peer_view (hm_values (r_peers room)))"

definition validate_source :: "Peer \<Rightarrow> u64 \<Rightarrow> DataSource \<Rightarrow> (StateError, unit) res" where
  "validate_source sender from_id source =
     (if p_steam_id64 sender \<noteq> from_id then Err SenderMismatch
      else case (p_profile sender, source) of
        (Tcp, SrcTcp peer) \<Rightarrow> if peer = p_control_peer sender then Ok () else Err ProfileMismatch
      | (Udp, SrcUdp address) \<Rightarrow>
          if Some address = p_udp_address sender then Ok () else Err PathNotValidated
      | _ \<Rightarrow> Err ProfileMismatch)"

definition has_probe_cap :: "Peer \<Rightarrow> bool" where
  "has_probe_cap p = (p_capabilities p AND CAP_ROOM_PATH_PROBE \<noteq> 0)"

definition target_destination :: "Room \<Rightarrow> u64 \<Rightarrow> bool \<Rightarrow> (StateError, DataDestination) res" where
  "target_destination room to_id require_probe =
     rbind (ok_or (find (\<lambda>p. p_steam_id64 p = to_id) (hm_values (r_peers room))) TargetNotJoined)
       (\<lambda>target.
        if require_probe \<and> \<not> has_probe_cap target then Err ProbeUnsupported
        else case p_profile target of
          Tcp \<Rightarrow> if p_presence target = Connected then Ok (DestTcp (p_control_peer target))
                 else Err TargetUnavailable
        | Udp \<Rightarrow> ok_or (map_option DestUdp (p_udp_address target)) TargetUnavailable)"

text \<open>\<open>byte >> (8 - rest) == 0\<close> on the byte after the whole zero bytes.\<close>

definition leading_zero_bits :: "byte list \<Rightarrow> byte \<Rightarrow> bool" where
  "leading_zero_bits bytes bits =
     (let whole = unat bits div 8; rest = unat bits mod 8 in
      whole \<le> length bytes
      \<and> list_all (\<lambda>b. b = 0) (take whole bytes)
      \<and> (rest = 0 \<or> (whole < length bytes \<and> drop_bit (8 - rest) (bytes ! whole) = 0)))"

definition verify_pow :: "(byte list \<Rightarrow> byte list) \<Rightarrow> PendingJoin \<Rightarrow> string \<Rightarrow> byte \<Rightarrow> bool" where
  "verify_pow sha256 pending proof_s difficulty =
     (if difficulty = 0 then proof_s = []
      else leading_zero_bits
        (sha256 (pj_challenge_id pending @ pj_session pending @ put_u64 (pj_steam_id64 pending)
                 @ pj_pow_nonce pending @ str_bytes proof_s)) difficulty)"

fun random_nonzero_u64 :: "(u64, SessionKey) hmap \<Rightarrow> u64 list \<Rightarrow> u64 option" where
  "random_nonzero_u64 existing [] = None"
| "random_nonzero_u64 existing (value # draws) =
     (if value \<noteq> 0 \<and> \<not> hm_contains existing value then Some value
      else random_nonzero_u64 existing draws)"

section \<open>Private methods\<close>

definition broadcast :: "RelayState \<Rightarrow> SessionKey \<Rightarrow> u64 option \<Rightarrow> PresenceBroadcast option" where
  "broadcast st session exclude =
     (case hm_get (rs_rooms st) session of
        None \<Rightarrow> None
      | Some room \<Rightarrow>
          let recipients =
                map (\<lambda>e. p_control_peer (snd e))
                  (filter (\<lambda>(c, p). Some c \<noteq> exclude \<and> p_presence p = Connected) (r_peers room))
          in if recipients = [] then None
             else Some \<lparr>bc_recipients = recipients, bc_peers = room_views room\<rparr>)"

definition validate_room_capacity :: "RelayState \<Rightarrow> SessionKey \<Rightarrow> u64 \<Rightarrow> (StateError, unit) res" where
  "validate_room_capacity st session steam_id64 =
     (case hm_get (rs_rooms st) session of
        Some room \<Rightarrow>
          let already = list_ex (\<lambda>p. p_steam_id64 p = steam_id64) (hm_values (r_peers room)) in
          if \<not> already \<and> max_peers_per_room (rs_config st) \<le> length (r_peers room)
          then Err RoomFull else Ok ()
      | None \<Rightarrow>
          if max_rooms (rs_config st) \<le> length (rs_rooms st) then Err RelayFull else Ok ())"

definition remove_connection :: "RelayState \<Rightarrow> u64 \<Rightarrow> RelayState \<times> PresenceBroadcast option" where
  "remove_connection st connection_id =
     (case hm_get (rs_connection_rooms st) connection_id of
        None \<Rightarrow> (st, None)
      | Some session \<Rightarrow>
          let st = st\<lparr>rs_connection_rooms := hm_remove connection_id (rs_connection_rooms st)\<rparr> in
          case hm_get (rs_rooms st) session of
            None \<Rightarrow> (st, None)
          | Some room \<Rightarrow>
              case hm_get (r_peers room) connection_id of
                None \<Rightarrow> (st, None)
              | Some peer \<Rightarrow>
                  let room = room\<lparr>r_peers := hm_remove connection_id (r_peers room)\<rparr>;
                      st = st\<lparr>rs_rooms := hm_insert session room (rs_rooms st),
                              rs_control_connections :=
                                hm_remove (p_control_peer peer) (rs_control_connections st)\<rparr>
                  in (st, broadcast st session None))"

definition duplicate_connection :: "RelayState \<Rightarrow> SessionKey \<Rightarrow> u64 \<Rightarrow> u64 option" where
  "duplicate_connection st session steam_id64 =
     (case hm_get (rs_rooms st) session of
        None \<Rightarrow> None
      | Some room \<Rightarrow>
          map_option p_connection_id
            (find (\<lambda>p. p_steam_id64 p = steam_id64) (hm_values (r_peers room))))"

definition remove_duplicate :: "RelayState \<Rightarrow> SessionKey \<Rightarrow> u64 \<Rightarrow> RelayState" where
  "remove_duplicate st session steam_id64 =
     (case duplicate_connection st session steam_id64 of
        None \<Rightarrow> st
      | Some connection_id \<Rightarrow> fst (remove_connection st connection_id))"

text \<open>\<open>peer_mut\<close>: the session, room and peer of a connection.\<close>

definition peer_lookup :: "RelayState \<Rightarrow> u64 \<Rightarrow> (SessionKey \<times> Room \<times> Peer) option" where
  "peer_lookup st connection_id =
     (case hm_get (rs_connection_rooms st) connection_id of
        None \<Rightarrow> None
      | Some session \<Rightarrow>
          case hm_get (rs_rooms st) session of
            None \<Rightarrow> None
          | Some room \<Rightarrow>
              case hm_get (r_peers room) connection_id of
                None \<Rightarrow> None
              | Some peer \<Rightarrow> Some (session, room, peer))"

text \<open>Writing through the mutable references: the peer and its room's \<open>last_seen\<close>.\<close>

definition store_peer ::
  "RelayState \<Rightarrow> SessionKey \<Rightarrow> Room \<Rightarrow> instant \<Rightarrow> u64 \<Rightarrow> Peer \<Rightarrow> RelayState" where
  "store_peer st session room last_seen connection_id peer =
     st\<lparr>rs_rooms := hm_insert session
         (room\<lparr>r_peers := hm_insert connection_id peer (r_peers room), r_last_seen := last_seen\<rparr>)
         (rs_rooms st)\<rparr>"

section \<open>Public methods\<close>

definition begin_join ::
  "RelayState \<Rightarrow> byte list \<Rightarrow> byte list \<Rightarrow> JoinBegin \<Rightarrow> RelayState \<times> (StateError, JoinChallenge) res" where
  "begin_join st rand_challenge rand_nonce b =
     (case validate_room_capacity st (jb_session b) (jb_steam_id64 b) of
        Err e \<Rightarrow> (st, Err e)
      | Panic \<Rightarrow> (st, Panic)
      | Ok _ \<Rightarrow>
          let challenge = \<lparr>jc_challenge_id = rand_challenge, jc_pow_nonce = rand_nonce,
                           jc_difficulty_bits = pow_difficulty_bits (rs_config st)\<rparr>
          in (st\<lparr>rs_pending := hm_insert (jb_control_peer b)
                 \<lparr>pj_session = jb_session b, pj_steam_id64 = jb_steam_id64 b,
                  pj_display_name = jb_display_name b, pj_profile = jb_profile b,
                  pj_capabilities = jb_capabilities b,
                  pj_challenge_id = jc_challenge_id challenge,
                  pj_pow_nonce = jc_pow_nonce challenge, pj_issued_at = jb_now b\<rparr>
                 (rs_pending st)\<rparr>, Ok challenge))"

text \<open>The checks of \<open>complete_join\<close> on the pending join, after it was taken out of the map.\<close>

definition check_pending ::
  "(byte list \<Rightarrow> byte list) \<Rightarrow> RelayState \<Rightarrow> PendingJoin \<Rightarrow> byte list \<Rightarrow> string \<Rightarrow> instant
     \<Rightarrow> (StateError, unit) res" where
  "check_pending sha256 st pending challenge_id proof_s now =
     rbind (ensure (pj_challenge_id pending = challenge_id) InvalidChallenge) (\<lambda>_.
     rbind (ensure (\<not> CHALLENGE_LIFETIME < duration_since now (pj_issued_at pending))
              InvalidChallenge) (\<lambda>_.
     rbind (ensure (verify_pow sha256 pending proof_s (pow_difficulty_bits (rs_config st)))
              InvalidProof) (\<lambda>_.
     validate_room_capacity st (pj_session pending) (pj_steam_id64 pending))))"

definition new_peer ::
  "RelayConfig \<Rightarrow> PendingJoin \<Rightarrow> PeerId \<Rightarrow> u64 \<Rightarrow> byte list \<Rightarrow> byte list \<Rightarrow> instant \<Rightarrow> Peer" where
  "new_peer config pending control_peer connection_id rand_resume rand_path now =
     \<lparr>p_control_peer = control_peer, p_connection_id = connection_id,
      p_resume_key = rand_resume,
      p_path_key = (if pj_profile pending = Udp then Some rand_path else None),
      p_udp_address = None, p_steam_id64 = pj_steam_id64 pending,
      p_display_name = pj_display_name pending, p_profile = pj_profile pending,
      p_capabilities = pj_capabilities pending, p_presence = Connected,
      p_detached_until = None, p_frames = window_new, p_last_seen = now,
      p_traffic_budget = budget_new config now\<rparr>"

text \<open>The second half of \<open>complete_join\<close>: the peer enters its room.\<close>

definition admit ::
  "RelayState \<Rightarrow> SessionKey \<Rightarrow> Peer \<Rightarrow> instant
     \<Rightarrow> RelayState \<times> JoinReady \<times> PresenceBroadcast option" where
  "admit st session peer now =
     (let room = (case hm_get (rs_rooms st) session of
                    Some room \<Rightarrow> room | None \<Rightarrow> \<lparr>r_peers = [], r_last_seen = now\<rparr>);
          c = p_connection_id peer;
          st = store_peer st session room now c peer;
          st = st\<lparr>rs_connection_rooms := hm_insert c session (rs_connection_rooms st),
                  rs_control_connections :=
                    hm_insert (p_control_peer peer) c (rs_control_connections st)\<rparr>;
          room = room\<lparr>r_peers := hm_insert c peer (r_peers room), r_last_seen := now\<rparr>
      in (st,
          \<lparr>jr_connection_id = c, jr_resume_key = p_resume_key peer,
           jr_peers = room_views room, jr_profile = p_profile peer\<rparr>,
          broadcast st session (Some c)))"

definition complete_join ::
  "(byte list \<Rightarrow> byte list) \<Rightarrow> u64 list \<Rightarrow> byte list \<Rightarrow> byte list \<Rightarrow> RelayState \<Rightarrow> PeerId
     \<Rightarrow> byte list \<Rightarrow> string \<Rightarrow> instant
     \<Rightarrow> (RelayState \<times> (StateError, JoinReady \<times> PresenceBroadcast option) res) option" where
  "complete_join sha256 draws rand_resume rand_path st control_peer challenge_id proof_s now =
     (case hm_get (rs_pending st) control_peer of
        None \<Rightarrow> Some (st, Err MissingChallenge)
      | Some pending \<Rightarrow>
          let st = st\<lparr>rs_pending := hm_remove control_peer (rs_pending st)\<rparr> in
          case check_pending sha256 st pending challenge_id proof_s now of
            Err e \<Rightarrow> Some (st, Err e)
          | Panic \<Rightarrow> Some (st, Panic)
          | Ok _ \<Rightarrow>
              let st = remove_duplicate st (pj_session pending) (pj_steam_id64 pending) in
              case random_nonzero_u64 (rs_connection_rooms st) draws of
                None \<Rightarrow> None
              | Some connection_id \<Rightarrow>
                  let peer = new_peer (rs_config st) pending control_peer connection_id
                               rand_resume rand_path now;
                      (st, ready, bc) = admit st (pj_session pending) peer now
                  in Some (st, Ok (ready, bc)))"

definition resume ::
  "RelayState \<Rightarrow> PeerId \<Rightarrow> u64 \<Rightarrow> ResumeKey \<Rightarrow> instant \<Rightarrow> RelayState \<times> (ResumeFailure, ResumeReady) res" where
  "resume st control_peer connection_id key now =
     (case peer_lookup st connection_id of
        None \<Rightarrow> (st, Err RF_UnknownConnection)
      | Some (session, room, peer) \<Rightarrow>
          if p_resume_key peer \<noteq> key then (st, Err RF_InvalidCredential)
          else if (case p_detached_until peer of None \<Rightarrow> False | Some deadline \<Rightarrow> deadline < now)
          then (st, Err RF_Expired)
          else
            let peer = peer\<lparr>p_control_peer := control_peer, p_presence := Connected,
                            p_detached_until := None, p_last_seen := now\<rparr>;
                st = store_peer st session room now connection_id peer;
                st = st\<lparr>rs_control_connections :=
                          hm_insert control_peer connection_id (rs_control_connections st)\<rparr>;
                room = room\<lparr>r_peers := hm_insert connection_id peer (r_peers room),
                            r_last_seen := now\<rparr>
            in (st, Ok \<lparr>rr_connection_id = connection_id, rr_peers = room_views room,
                        rr_profile = p_profile peer,
                        rr_udp_path_valid = (p_profile peer = Udp \<and> p_udp_address peer \<noteq> None),
                        rr_broadcast = broadcast st session (Some connection_id)\<rparr>))"

definition detach :: "RelayState \<Rightarrow> PeerId \<Rightarrow> instant \<Rightarrow> RelayState \<times> PresenceBroadcast option" where
  "detach st control_peer now =
     (case hm_get (rs_control_connections st) control_peer of
        None \<Rightarrow> (st, None)
      | Some connection_id \<Rightarrow>
          let st = st\<lparr>rs_control_connections := hm_remove control_peer (rs_control_connections st)\<rparr> in
          case peer_lookup st connection_id of
            None \<Rightarrow> (st, None)
          | Some (session, room, peer) \<Rightarrow>
              if p_control_peer peer \<noteq> control_peer \<or> p_presence peer = Reconnecting
              then (st, None)
              else
                let peer = peer\<lparr>p_presence := Reconnecting,
                                p_detached_until := Some (now + RECOVERY_GRACE)\<rparr>;
                    st = store_peer st session room (r_last_seen room) connection_id peer
                in (st, broadcast st session (Some connection_id)))"

definition stop :: "RelayState \<Rightarrow> PeerId \<Rightarrow> RelayState \<times> PresenceBroadcast option" where
  "stop st control_peer =
     (case hm_get (rs_control_connections st) control_peer of
        None \<Rightarrow> (st, None)
      | Some connection_id \<Rightarrow>
          remove_connection
            (st\<lparr>rs_control_connections := hm_remove control_peer (rs_control_connections st)\<rparr>)
            connection_id)"

definition bind_udp_path ::
  "RelayState \<Rightarrow> u64 \<Rightarrow> PathKey \<Rightarrow> SocketAddr \<Rightarrow> instant \<Rightarrow> RelayState \<times> (StateError, PeerId) res" where
  "bind_udp_path st connection_id key address now =
     (case peer_lookup st connection_id of
        None \<Rightarrow> (st, Err UnknownConnection)
      | Some (session, room, peer) \<Rightarrow>
          if p_profile peer \<noteq> Udp then (st, Err ProfileMismatch)
          else if p_path_key peer \<noteq> Some key then (st, Err PathNotValidated)
          else
            (store_peer st session room (r_last_seen room) connection_id
               (peer\<lparr>p_udp_address := Some address, p_last_seen := now\<rparr>),
             Ok (p_control_peer peer)))"

text \<open>The decision of the sender's duplicate window as a routing error.\<close>

fun duplicate_error :: "DuplicateDecision \<Rightarrow> (StateError, unit) res" where
  "duplicate_error New = Ok ()"
| "duplicate_error Reordered = Ok ()"
| "duplicate_error Duplicate = Err DuplicateFrame"
| "duplicate_error TooOld = Err FrameTooOld"

definition route_data :: "RelayState \<Rightarrow> RouteData \<Rightarrow> RelayState \<times> (StateError, DataDestination) res" where
  "route_data st q =
     (let c = rd_connection_id q; now = rd_now q in
      case peer_lookup st c of
        None \<Rightarrow> (st, Err UnknownConnection)
      | Some (session, room, sender) \<Rightarrow>
          case validate_source sender (rd_from_steam_id64 q) (rd_source q) of
            Err e \<Rightarrow> (st, Err e)
          | Panic \<Rightarrow> (st, Panic)
          | Ok _ \<Rightarrow>
              let (decision, frames) = observe (p_frames sender) (rd_frame_id q);
                  sender = sender\<lparr>p_frames := frames\<rparr>
              in case duplicate_error decision of
                   Err e \<Rightarrow> (store_peer st session room (r_last_seen room) c sender, Err e)
                 | Panic \<Rightarrow> (st, Panic)
                 | Ok _ \<Rightarrow>
                     let (budget, verdict) =
                           check_traffic (p_traffic_budget sender) (rd_frame_bytes q) now;
                         sender = sender\<lparr>p_traffic_budget := budget\<rparr>
                     in case verdict of
                          Err e \<Rightarrow> (store_peer st session room (r_last_seen room) c sender, Err e)
                        | Panic \<Rightarrow> (st, Panic)
                        | Ok _ \<Rightarrow>
                            let sender = sender\<lparr>p_last_seen := now\<rparr>;
                                room' = room\<lparr>r_peers := hm_insert c sender (r_peers room),
                                             r_last_seen := now\<rparr>
                            in (store_peer st session room now c sender,
                                target_destination room' (rd_to_steam_id64 q) False))"

definition route_probe :: "RelayState \<Rightarrow> RouteProbe \<Rightarrow> RelayState \<times> (StateError, DataDestination) res" where
  "route_probe st q =
     (let c = rp_connection_id q; now = rp_now q in
      case peer_lookup st c of
        None \<Rightarrow> (st, Err UnknownConnection)
      | Some (session, room, sender) \<Rightarrow>
          case validate_source sender (rp_from_steam_id64 q) (rp_source q) of
            Err e \<Rightarrow> (st, Err e)
          | Panic \<Rightarrow> (st, Panic)
          | Ok _ \<Rightarrow>
              if \<not> has_probe_cap sender then (st, Err ProbeUnsupported)
              else
                let (budget, verdict) =
                      check_traffic (p_traffic_budget sender) (rp_frame_bytes q) now;
                    sender = sender\<lparr>p_traffic_budget := budget\<rparr>
                in case verdict of
                     Err e \<Rightarrow> (store_peer st session room (r_last_seen room) c sender, Err e)
                   | Panic \<Rightarrow> (st, Panic)
                   | Ok _ \<Rightarrow>
                       let (budget, verdict) = check_probe (p_traffic_budget sender) now;
                           sender = sender\<lparr>p_traffic_budget := budget\<rparr>
                       in case verdict of
                            Err e \<Rightarrow>
                              (store_peer st session room (r_last_seen room) c sender, Err e)
                          | Panic \<Rightarrow> (st, Panic)
                          | Ok _ \<Rightarrow>
                              let sender = sender\<lparr>p_last_seen := now\<rparr>;
                                  room' = room\<lparr>r_peers := hm_insert c sender (r_peers room),
                                               r_last_seen := now\<rparr>
                              in (store_peer st session room now c sender,
                                  target_destination room' (rp_to_steam_id64 q) True))"

definition peer_expired :: "instant \<Rightarrow> Peer \<Rightarrow> bool" where
  "peer_expired now p = (case p_detached_until p of None \<Rightarrow> False | Some d \<Rightarrow> d \<le> now)"

definition expired_connections :: "RelayState \<Rightarrow> instant \<Rightarrow> u64 list" where
  "expired_connections st now =
     map p_connection_id
       (filter (peer_expired now)
         (concat (map (\<lambda>room. hm_values (r_peers room)) (hm_values (rs_rooms st)))))"

fun remove_all :: "RelayState \<Rightarrow> u64 list \<Rightarrow> RelayState \<times> PresenceBroadcast list" where
  "remove_all st [] = (st, [])"
| "remove_all st (c # cs) =
     (let (st', bc) = remove_connection st c; (st'', bcs) = remove_all st' cs
      in (st'', (case bc of None \<Rightarrow> bcs | Some b \<Rightarrow> b # bcs)))"

definition room_kept :: "RelayConfig \<Rightarrow> instant \<Rightarrow> Room \<Rightarrow> bool" where
  "room_kept config now room =
     (r_peers room \<noteq> [] \<or>
      duration_since now (r_last_seen room) < secs (unat (room_idle_seconds config)))"

definition cleanup :: "RelayState \<Rightarrow> instant \<Rightarrow> RelayState \<times> PresenceBroadcast list" where
  "cleanup st now =
     (let st = st\<lparr>rs_pending :=
                    hm_retain (\<lambda>_ p. duration_since now (pj_issued_at p) < CHALLENGE_LIFETIME)
                      (rs_pending st)\<rparr>;
          (st, broadcasts) = remove_all st (expired_connections st now)
      in (st\<lparr>rs_rooms := hm_retain (\<lambda>_ room. room_kept (rs_config st) now room) (rs_rooms st)\<rparr>,
          broadcasts))"

definition connection_for_control :: "RelayState \<Rightarrow> PeerId \<Rightarrow> u64 option" where
  "connection_for_control st control_peer = hm_get (rs_control_connections st) control_peer"

definition path_key :: "RelayState \<Rightarrow> u64 \<Rightarrow> PathKey option" where
  "path_key st connection_id =
     (case peer_lookup st connection_id of
        None \<Rightarrow> None | Some (session, room, peer) \<Rightarrow> p_path_key peer)"

definition active_counts :: "RelayState \<Rightarrow> usize \<times> usize" where
  "active_counts st =
     (length (rs_rooms st), sum_list (map (\<lambda>room. length (r_peers room)) (hm_values (rs_rooms st))))"

definition profile_offset :: "Peer \<Rightarrow> nat" where
  "profile_offset p = (case p_profile p of Tcp \<Rightarrow> 0 | Udp \<Rightarrow> 2)"

definition presence_offset :: "Peer \<Rightarrow> nat" where
  "presence_offset p = (case p_presence p of Connected \<Rightarrow> 0 | Reconnecting \<Rightarrow> 1)"

definition active_peer_counts :: "RelayState \<Rightarrow> usize list" where
  "active_peer_counts st =
     foldl (\<lambda>counts p.
              let i = profile_offset p + presence_offset p in counts[i := counts ! i + 1])
       [0, 0, 0, 0]
       (concat (map (\<lambda>room. hm_values (r_peers room)) (hm_values (rs_rooms st))))"

end
