(* ===== verification/Relay_Invariant.thy ===== *)
theory Relay_Invariant
  imports Relay_State
begin

text \<open>
  The structural invariant of the relay's state and its preservation by every operation: the
  connection index and the rooms agree, a player is in a room at most once, rooms and relay stay
  within their capacity, and a peer is detached exactly while it is reconnecting.  The relay as a
  transition system (\<open>relay_step\<close>, one rule per method) is an instance of \<open>invariant_system\<close>.
\<close>

section \<open>Membership\<close>

definition member :: "RelayState \<Rightarrow> SessionKey \<Rightarrow> u64 \<Rightarrow> Peer \<Rightarrow> bool" where
  "member st s c p =
     (case hm_get (rs_rooms st) s of None \<Rightarrow> False | Some room \<Rightarrow> hm_get (r_peers room) c = Some p)"

text \<open>What holds of a single peer record, whatever the rest of the state.\<close>

definition peer_shape :: "u64 \<Rightarrow> Peer \<Rightarrow> bool" where
  "peer_shape c p =
     (p_connection_id p = c \<and> c \<noteq> 0
      \<and> (p_presence p = Reconnecting \<longleftrightarrow> p_detached_until p \<noteq> None)
      \<and> (p_profile p = Tcp \<longleftrightarrow> p_path_key p = None)
      \<and> (p_profile p = Tcp \<longrightarrow> p_udp_address p = None))"

definition rooms_wf :: "RelayState \<Rightarrow> bool" where
  "rooms_wf st \<longleftrightarrow>
     hm_wf (rs_rooms st) \<and>
     (\<forall>s room. hm_get (rs_rooms st) s = Some room \<longrightarrow>
        hm_wf (r_peers room) \<and> length (r_peers room) \<le> max_peers_per_room (rs_config st))
     \<and> length (rs_rooms st) \<le> max_rooms (rs_config st)"

definition relay_inv :: "RelayState \<Rightarrow> bool" where
  "relay_inv st \<longleftrightarrow>
     config_ok (rs_config st) \<and> rooms_wf st
     \<and> hm_wf (rs_pending st) \<and> hm_wf (rs_connection_rooms st) \<and> hm_wf (rs_control_connections st)
     \<and> (\<forall>s c p. member st s c p \<longrightarrow> peer_shape c p \<and> hm_get (rs_connection_rooms st) c = Some s)
     \<and> (\<forall>c s. hm_get (rs_connection_rooms st) c = Some s \<longrightarrow> (\<exists>p. member st s c p))
     \<and> (\<forall>s c p c' p'. member st s c p \<longrightarrow> member st s c' p' \<longrightarrow>
          p_steam_id64 p = p_steam_id64 p' \<longrightarrow> c = c')"

lemma relay_invD:
  assumes "relay_inv st"
  shows "config_ok (rs_config st)" "rooms_wf st"
    "hm_wf (rs_pending st)" "hm_wf (rs_connection_rooms st)" "hm_wf (rs_control_connections st)"
    "hm_wf (rs_rooms st)"
    "\<And>s room. hm_get (rs_rooms st) s = Some room \<Longrightarrow> hm_wf (r_peers room)"
    "\<And>s c p. member st s c p \<Longrightarrow> peer_shape c p"
    "\<And>s c p. member st s c p \<Longrightarrow> hm_get (rs_connection_rooms st) c = Some s"
    "\<And>c s. hm_get (rs_connection_rooms st) c = Some s \<Longrightarrow> \<exists>p. member st s c p"
    "\<And>s c p c' p'. member st s c p \<Longrightarrow> member st s c' p' \<Longrightarrow>
       p_steam_id64 p = p_steam_id64 p' \<Longrightarrow> c = c'"
  using assms unfolding relay_inv_def rooms_wf_def by blast+

lemma member_cong: "rs_rooms st' = rs_rooms st \<Longrightarrow> member st' = member st"
  by (intro ext) (simp add: member_def)

lemma member_fun: "member st s c p \<Longrightarrow> member st s c p' \<Longrightarrow> p = p'"
  by (auto simp: member_def split: option.splits)

lemma member_unique:
  "relay_inv st \<Longrightarrow> member st s c p \<Longrightarrow> member st s' c p' \<Longrightarrow> s' = s \<and> p' = p"
  using relay_invD(9) [of st s c p] relay_invD(9) [of st s' c p'] member_fun by fastforce

lemma peer_lookup_Some:
  "peer_lookup st c = Some (s, room, p) \<longleftrightarrow>
     hm_get (rs_connection_rooms st) c = Some s \<and> hm_get (rs_rooms st) s = Some room
     \<and> hm_get (r_peers room) c = Some p"
  by (auto simp: peer_lookup_def split: option.splits)

lemma peer_lookup_member: "peer_lookup st c = Some (s, room, p) \<Longrightarrow> member st s c p"
  by (simp add: peer_lookup_Some member_def)

lemma member_peer_lookup:
  "relay_inv st \<Longrightarrow> member st s c p \<Longrightarrow>
     \<exists>room. hm_get (rs_rooms st) s = Some room \<and> peer_lookup st c = Some (s, room, p)"
  by (auto simp: member_def peer_lookup_Some relay_invD(9) split: option.splits)

lemma member_room: "member st s c p \<Longrightarrow> \<exists>room. hm_get (rs_rooms st) s = Some room"
  by (auto simp: member_def split: option.splits)

text \<open>Under the invariant the index leads to the peer: the inner lookups cannot fail.\<close>

lemma peer_lookup_None:
  "relay_inv st \<Longrightarrow> peer_lookup st c = None \<longleftrightarrow> hm_get (rs_connection_rooms st) c = None"
  using relay_invD(10) [of st c]
  by (auto simp: peer_lookup_def member_def split: option.splits)

section \<open>Elementary updates\<close>

definition room_at :: "RelayState \<Rightarrow> SessionKey \<Rightarrow> Room \<Rightarrow> bool" where
  "room_at st s room =
     (case hm_get (rs_rooms st) s of Some r \<Rightarrow> r_peers room = r_peers r | None \<Rightarrow> r_peers room = [])"

lemma member_store:
  "room_at st s room \<Longrightarrow>
     member (store_peer st s room t c p) s' c' p' \<longleftrightarrow>
       (if s' = s \<and> c' = c then p' = p else member st s' c' p')"
  by (auto simp: member_def store_peer_def room_at_def split: option.splits)

lemma store_peer_sel [simp]:
  "rs_config (store_peer st s room t c p) = rs_config st"
  "rs_pending (store_peer st s room t c p) = rs_pending st"
  "rs_connection_rooms (store_peer st s room t c p) = rs_connection_rooms st"
  "rs_control_connections (store_peer st s room t c p) = rs_control_connections st"
  by (simp_all add: store_peer_def)

lemma peer_lookup_store:
  assumes "relay_inv st" and "peer_lookup st c = Some (s, room, p)"
  shows "\<exists>room'. peer_lookup (store_peer st s room t c p') c' =
     (if c' = c then Some (s, room', p')
      else case peer_lookup st c' of
             None \<Rightarrow> None
           | Some (s'', r'', p'') \<Rightarrow> Some (s'', if s'' = s then room' else r'', p''))"
  using assms
  by (auto simp: peer_lookup_def store_peer_def split: option.splits)

lemma rooms_wf_store:
  assumes "rooms_wf st" and "hm_get (rs_rooms st) s = Some room" and "hm_get (r_peers room) c = Some p"
  shows "rooms_wf (store_peer st s room t c p')"
  using assms by (auto simp: rooms_wf_def store_peer_def hm.len_ins)

lemma relay_inv_store:
  assumes inv: "relay_inv st" and look: "peer_lookup st c = Some (s, room, p)"
    and shape: "peer_shape c p'" and steam: "p_steam_id64 p' = p_steam_id64 p"
  shows "relay_inv (store_peer st s room t c p')"
proof -
  let ?st = "store_peer st s room t c p'"
  have at: "room_at st s room" using look by (simp add: room_at_def peer_lookup_Some)
  have m: "member st s c p" using look by (rule peer_lookup_member)
  have mem: "member ?st s1 c1 p1 \<longleftrightarrow> (if s1 = s \<and> c1 = c then p1 = p' else member st s1 c1 p1)"
    for s1 c1 p1 by (rule member_store [OF at])
  have "rooms_wf ?st"
    using relay_invD(2) [OF inv] look by (intro rooms_wf_store) (auto simp: peer_lookup_Some)
  moreover have "peer_shape c1 p1 \<and> hm_get (rs_connection_rooms st) c1 = Some s1"
    if "member ?st s1 c1 p1" for s1 c1 p1
    using that shape relay_invD(8,9) [OF inv] m by (auto simp: mem split: if_splits)
  moreover have "\<exists>p1. member ?st s1 c1 p1" if "hm_get (rs_connection_rooms st) c1 = Some s1" for s1 c1
    using relay_invD(10) [OF inv that] by (auto simp: mem)
  moreover have "c1 = c2" if "member ?st s1 c1 p1" "member ?st s1 c2 p2"
      "p_steam_id64 p1 = p_steam_id64 p2" for s1 c1 p1 c2 p2
  proof -
    have old: "\<exists>q. member st s1 x q \<and> p_steam_id64 q = p_steam_id64 y" if "member ?st s1 x y" for x y
      using that m steam by (auto simp: mem split: if_splits)
    from old [OF that(1)] old [OF that(2)] that(3) show ?thesis
      using relay_invD(11) [OF inv] by metis
  qed
  ultimately show ?thesis
    using inv unfolding relay_inv_def by simp
qed

text \<open>Fields that membership does not depend on.\<close>

lemma relay_inv_pending:
  "relay_inv st \<Longrightarrow> hm_wf m \<Longrightarrow> relay_inv (st\<lparr>rs_pending := m\<rparr>)"
  by (simp add: relay_inv_def rooms_wf_def member_def)

lemma relay_inv_control:
  "relay_inv st \<Longrightarrow> hm_wf m \<Longrightarrow> relay_inv (st\<lparr>rs_control_connections := m\<rparr>)"
  by (simp add: relay_inv_def rooms_wf_def member_def)

section \<open>Removing a connection\<close>

lemma remove_connection_sel [simp]:
  "rs_config (fst (remove_connection st c)) = rs_config st"
  "rs_pending (fst (remove_connection st c)) = rs_pending st"
  by (simp_all add: remove_connection_def Let_def split: option.split)

lemma connection_rooms_remove:
  "hm_get (rs_connection_rooms (fst (remove_connection st c))) c' =
     (if c' = c then None else hm_get (rs_connection_rooms st) c')"
  by (auto simp: remove_connection_def Let_def split: option.split)

lemma member_remove:
  assumes "relay_inv st"
  shows "member (fst (remove_connection st c)) s c' p \<longleftrightarrow> c' \<noteq> c \<and> member st s c' p"
proof (cases "hm_get (rs_connection_rooms st) c")
  case None
  then have "\<not> member st s c p" for p using relay_invD(9) [OF assms, of s c p] by auto
  then show ?thesis using None by (auto simp: remove_connection_def)
next
  case (Some s0)
  then obtain p0 where m: "member st s0 c p0" using relay_invD(10) [OF assms] by blast
  then obtain room where r: "hm_get (rs_rooms st) s0 = Some room" "hm_get (r_peers room) c = Some p0"
    by (auto simp: member_def split: option.splits)
  have "\<not> member st s1 c p1" if "s1 \<noteq> s0" for s1 p1
    using relay_invD(9) [OF assms, of s1 c p1] Some that by auto
  from this [of s p] show ?thesis using Some r
    by (auto simp: remove_connection_def member_def Let_def split: option.splits)
qed

lemma rooms_dom_remove:
  "dom (hm_get (rs_rooms (fst (remove_connection st c)))) = dom (hm_get (rs_rooms st))"
  by (auto simp: remove_connection_def Let_def dom_def split: option.split)

lemma room_len_remove:
  assumes "relay_inv st" and "hm_get (rs_rooms (fst (remove_connection st c))) s = Some room'"
  shows "\<exists>room. hm_get (rs_rooms st) s = Some room \<and> hm_wf (r_peers room') \<and>
           length (r_peers room') \<le> length (r_peers room) \<and>
           (hm_get (r_peers room) c \<noteq> None \<and> hm_get (rs_connection_rooms st) c = Some s
              \<longrightarrow> length (r_peers room') < length (r_peers room))"
  using assms relay_invD(7) [OF assms(1)]
  by (auto simp: remove_connection_def Let_def hm.len_del_le hm.len_del_less
      split: option.splits if_splits)

lemma rooms_wf_remove:
  assumes "relay_inv st"
  shows "rooms_wf (fst (remove_connection st c))"
proof -
  have wf: "hm_wf (rs_rooms (fst (remove_connection st c)))"
    using relay_invD(6) [OF assms] by (auto simp: remove_connection_def Let_def split: option.split)
  then have "length (rs_rooms (fst (remove_connection st c))) = length (rs_rooms st)"
    using relay_invD(6) [OF assms] by (simp add: hm.len_card rooms_dom_remove)
  then show ?thesis
    using wf relay_invD(2) [OF assms] room_len_remove [OF assms]
    unfolding rooms_wf_def by fastforce
qed

lemma relay_inv_remove:
  assumes inv: "relay_inv st"
  shows "relay_inv (fst (remove_connection st c))"
proof -
  have "hm_wf (rs_connection_rooms (fst (remove_connection st c)))"
    "hm_wf (rs_control_connections (fst (remove_connection st c)))"
    using relay_invD(4,5) [OF inv]
    by (simp_all add: remove_connection_def Let_def split: option.split)
  then show ?thesis
    using relay_invD [OF inv] rooms_wf_remove [OF inv]
    unfolding relay_inv_def member_remove [OF inv] connection_rooms_remove
    by (auto split: if_splits)
qed

section \<open>Admission\<close>

lemma admit_state:
  "fst (admit st s peer now) =
     (store_peer st s (case hm_get (rs_rooms st) s of Some r \<Rightarrow> r | None \<Rightarrow> \<lparr>r_peers = [], r_last_seen = now\<rparr>)
        now (p_connection_id peer) peer)
     \<lparr>rs_connection_rooms := hm_insert (p_connection_id peer) s (rs_connection_rooms st),
      rs_control_connections :=
        hm_insert (p_control_peer peer) (p_connection_id peer) (rs_control_connections st)\<rparr>"
  by (simp add: admit_def Let_def)

lemma member_admit:
  "member (fst (admit st s peer now)) s' c' p' \<longleftrightarrow>
     (if s' = s \<and> c' = p_connection_id peer then p' = peer else member st s' c' p')"
proof -
  let ?room = "case hm_get (rs_rooms st) s of Some r \<Rightarrow> r | None \<Rightarrow> \<lparr>r_peers = [], r_last_seen = now\<rparr>"
  have "room_at st s ?room" by (auto simp: room_at_def split: option.split)
  from member_store [OF this, of now "p_connection_id peer" peer s' c' p'] show ?thesis
    unfolding admit_state by (simp add: member_def)
qed

text \<open>There is room for one more peer in \<open>s\<close>.\<close>

definition has_room :: "RelayState \<Rightarrow> SessionKey \<Rightarrow> bool" where
  "has_room st s =
     (case hm_get (rs_rooms st) s of
        Some room \<Rightarrow> length (r_peers room) < max_peers_per_room (rs_config st)
      | None \<Rightarrow> length (rs_rooms st) < max_rooms (rs_config st))"

lemma rooms_wf_admit:
  assumes "rooms_wf st" and "config_ok (rs_config st)" and "has_room st s"
  shows "rooms_wf (fst (admit st s peer now))"
  using assms
  by (auto simp: rooms_wf_def admit_state store_peer_def has_room_def config_ok_def hm.len_ins
      hm_wf_def [of "[]"] split: option.splits)

lemma relay_inv_admit:
  assumes inv: "relay_inv st" and room: "has_room st s"
    and fresh: "hm_get (rs_connection_rooms st) (p_connection_id peer) = None"
    and shape: "peer_shape (p_connection_id peer) peer"
    and new: "\<And>c p. member st s c p \<Longrightarrow> p_steam_id64 p \<noteq> p_steam_id64 peer"
  shows "relay_inv (fst (admit st s peer now))"
proof -
  have none: "\<not> member st s' (p_connection_id peer) p" for s' p
    using relay_invD(9) [OF inv, of s' "p_connection_id peer" p] fresh by auto
  have sel: "rs_config (fst (admit st s peer now)) = rs_config st"
    "rs_pending (fst (admit st s peer now)) = rs_pending st"
    "rs_connection_rooms (fst (admit st s peer now)) =
       hm_insert (p_connection_id peer) s (rs_connection_rooms st)"
    "hm_wf (rs_control_connections (fst (admit st s peer now)))"
    using relay_invD(5) [OF inv] by (simp_all add: admit_state)
  have "rooms_wf (fst (admit st s peer now))"
    using relay_invD(1,2) [OF inv] room by (intro rooms_wf_admit)
  then show ?thesis
    using relay_invD(1,3,4) [OF inv] relay_invD(8-11) [OF inv] shape none new
    unfolding relay_inv_def member_admit sel
    by (auto split: if_splits simp: sel) (metis new)+
qed

section \<open>Joining\<close>

lemma values_member:
  "relay_inv st \<Longrightarrow> hm_get (rs_rooms st) s = Some room \<Longrightarrow>
     p \<in> set (hm_values (r_peers room)) \<longleftrightarrow> (\<exists>c. member st s c p)"
  by (simp add: set_hm_values relay_invD(7) member_def)

lemma duplicate_None:
  assumes "relay_inv st" and "duplicate_connection st s i = None" and "member st s c p"
  shows "p_steam_id64 p \<noteq> i"
proof -
  obtain room where r: "hm_get (rs_rooms st) s = Some room"
    using assms(3) by (auto simp: member_def split: option.splits)
  with assms(2) have "find (\<lambda>p. p_steam_id64 p = i) (hm_values (r_peers room)) = None"
    by (simp add: duplicate_connection_def)
  then show ?thesis
    using values_member [OF assms(1) r, of p] assms(3) by (auto simp: find_None_iff)
qed

lemma duplicate_Some:
  assumes "relay_inv st" and "duplicate_connection st s i = Some c"
  shows "\<exists>p room. hm_get (rs_rooms st) s = Some room \<and> member st s c p \<and> p_steam_id64 p = i"
proof -
  obtain room p where r: "hm_get (rs_rooms st) s = Some room"
    and f: "find (\<lambda>p. p_steam_id64 p = i) (hm_values (r_peers room)) = Some p"
    and c: "c = p_connection_id p"
    using assms(2) by (auto simp: duplicate_connection_def split: option.splits)
  from f have "p \<in> set (hm_values (r_peers room))" "p_steam_id64 p = i" by (auto dest: find_Some_in)
  moreover from this obtain c' where "member st s c' p" using values_member [OF assms(1) r] by blast
  moreover from this have "c' = c"
    using relay_invD(8) [OF assms(1)] c by (auto simp: peer_shape_def)
  ultimately show ?thesis using r by blast
qed

lemma remove_duplicate_sel [simp]:
  "rs_config (remove_duplicate st s i) = rs_config st"
  "rs_pending (remove_duplicate st s i) = rs_pending st"
  by (simp_all add: remove_duplicate_def split: option.split)

lemma relay_inv_remove_duplicate: "relay_inv st \<Longrightarrow> relay_inv (remove_duplicate st s i)"
  by (simp add: remove_duplicate_def relay_inv_remove split: option.split)

lemma remove_duplicate_member:
  assumes "relay_inv st" and "member (remove_duplicate st s i) s' c p"
  shows "member st s' c p \<and> (s' = s \<longrightarrow> p_steam_id64 p \<noteq> i)"
proof (cases "duplicate_connection st s i")
  case None
  then show ?thesis using assms duplicate_None [OF assms(1) None]
    by (auto simp: remove_duplicate_def)
next
  case (Some d)
  then have m: "member st s' c p" "c \<noteq> d"
    using assms by (simp_all add: remove_duplicate_def member_remove)
  with duplicate_Some [OF assms(1) Some] relay_invD(11) [OF assms(1)] show ?thesis by blast
qed

lemma remove_duplicate_has_room:
  assumes inv: "relay_inv st" and cap: "validate_room_capacity st s i = Ok ()"
  shows "has_room (remove_duplicate st s i) s"
proof (cases "duplicate_connection st s i")
  case None
  then show ?thesis using cap
    by (auto simp: remove_duplicate_def has_room_def validate_room_capacity_def
        duplicate_connection_def find_None_iff list_ex_iff not_le split: option.splits if_splits)
next
  case (Some d)
  obtain p room where r: "hm_get (rs_rooms st) s = Some room" and m: "member st s d p"
    using duplicate_Some [OF inv Some] by blast
  let ?st = "fst (remove_connection st d)"
  obtain room' where r': "hm_get (rs_rooms ?st) s = Some room'"
    using r rooms_dom_remove [of st d] by (metis domIff option.exhaust)
  have "length (r_peers room') < length (r_peers room)"
    using room_len_remove [OF inv r'] r m relay_invD(9) [OF inv m] by (auto simp: member_def)
  moreover have "length (r_peers room) \<le> max_peers_per_room (rs_config st)"
    using relay_invD(2) [OF inv] r by (simp add: rooms_wf_def)
  ultimately show ?thesis using Some r' by (simp add: remove_duplicate_def has_room_def)
qed

lemma random_nonzero_Some:
  "random_nonzero_u64 m draws = Some v \<Longrightarrow> v \<noteq> 0 \<and> hm_get m v = None"
  by (induction draws) (auto simp: hm_contains_def split: if_splits)

lemma random_nonzero_returns:
  "v \<in> set draws \<Longrightarrow> v \<noteq> 0 \<Longrightarrow> hm_get m v = None \<Longrightarrow> \<exists>c. random_nonzero_u64 m draws = Some c"
  by (induction draws) (auto simp: hm_contains_def)

lemma new_peer_shape:
  "c \<noteq> 0 \<Longrightarrow> peer_shape c (new_peer config pending cp c rr rp now)"
  by (cases "pj_profile pending") (simp_all add: peer_shape_def new_peer_def)

lemma new_peer_sel [simp]:
  "p_connection_id (new_peer config pending cp c rr rp now) = c"
  "p_steam_id64 (new_peer config pending cp c rr rp now) = pj_steam_id64 pending"
  "p_control_peer (new_peer config pending cp c rr rp now) = cp"
  "p_resume_key (new_peer config pending cp c rr rp now) = rr"
  "p_profile (new_peer config pending cp c rr rp now) = pj_profile pending"
  "p_presence (new_peer config pending cp c rr rp now) = Connected"
  by (simp_all add: new_peer_def)

lemma check_pending_Ok:
  "check_pending sha st pending ch pf now = Ok u \<longleftrightarrow>
     pj_challenge_id pending = ch
     \<and> duration_since now (pj_issued_at pending) \<le> CHALLENGE_LIFETIME
     \<and> verify_pow sha pending pf (pow_difficulty_bits (rs_config st))
     \<and> validate_room_capacity st (pj_session pending) (pj_steam_id64 pending) = Ok ()"
  by (auto simp: check_pending_def)

text \<open>A successful join, opened up: which steps it took.\<close>

lemma complete_join_Ok:
  assumes "complete_join sha draws rr rp st cp ch pf now = Some (st', Ok (ready, bc))"
  obtains pending c where
    "hm_get (rs_pending st) cp = Some pending"
    "check_pending sha (st\<lparr>rs_pending := hm_remove cp (rs_pending st)\<rparr>) pending ch pf now = Ok ()"
    "random_nonzero_u64 (rs_connection_rooms (remove_duplicate
       (st\<lparr>rs_pending := hm_remove cp (rs_pending st)\<rparr>) (pj_session pending) (pj_steam_id64 pending)))
       draws = Some c"
    "(st', ready, bc) = admit (remove_duplicate
       (st\<lparr>rs_pending := hm_remove cp (rs_pending st)\<rparr>) (pj_session pending) (pj_steam_id64 pending))
       (pj_session pending) (new_peer (rs_config st) pending cp c rr rp now) now"
  using assms
  by (auto simp: complete_join_def Let_def case_prod_beta split: option.splits res.splits)
    (metis prod.collapse)+

lemma complete_join_cases:
  assumes "complete_join sha draws rr rp st cp ch pf now = Some (st', r)"
  shows "st' = st \<or> st' = st\<lparr>rs_pending := hm_remove cp (rs_pending st)\<rparr> \<or> (\<exists>ready bc. r = Ok (ready, bc))"
  using assms
  by (auto simp: complete_join_def Let_def case_prod_beta split: option.splits res.splits)

lemma relay_inv_complete_join:
  assumes inv: "relay_inv st"
    and cj: "complete_join sha draws rr rp st cp ch pf now = Some (st', r)"
  shows "relay_inv st'"
proof -
  let ?st = "st\<lparr>rs_pending := hm_remove cp (rs_pending st)\<rparr>"
  have inv1: "relay_inv ?st" using inv relay_invD(3) [OF inv] by (simp add: relay_inv_pending)
  show ?thesis
  proof (cases "\<exists>ready bc. r = Ok (ready, bc)")
    case False
    then show ?thesis using complete_join_cases [OF cj] inv inv1 by auto
  next
    case True
    then obtain ready bc where "r = Ok (ready, bc)" by blast
    with cj obtain pending c where
      ch: "check_pending sha ?st pending ch pf now = Ok ()"
      and c: "random_nonzero_u64 (rs_connection_rooms (remove_duplicate ?st (pj_session pending)
               (pj_steam_id64 pending))) draws = Some c"
      and st': "(st', ready, bc) = admit (remove_duplicate ?st (pj_session pending)
               (pj_steam_id64 pending)) (pj_session pending)
               (new_peer (rs_config st) pending cp c rr rp now) now"
      by (auto elim: complete_join_Ok)
    let ?sd = "remove_duplicate ?st (pj_session pending) (pj_steam_id64 pending)"
    let ?peer = "new_peer (rs_config st) pending cp c rr rp now"
    have "relay_inv (fst (admit ?sd (pj_session pending) ?peer now))"
    proof (rule relay_inv_admit)
      show "relay_inv ?sd" using inv1 by (rule relay_inv_remove_duplicate)
      show "has_room ?sd (pj_session pending)"
        using inv1 ch by (intro remove_duplicate_has_room) (simp_all add: check_pending_Ok)
      show "hm_get (rs_connection_rooms ?sd) (p_connection_id ?peer) = None"
        using random_nonzero_Some [OF c] by simp
      show "peer_shape (p_connection_id ?peer) ?peer"
        using random_nonzero_Some [OF c] by (simp add: new_peer_shape)
      show "p_steam_id64 p \<noteq> p_steam_id64 ?peer" if "member ?sd (pj_session pending) c' p" for c' p
        using remove_duplicate_member [OF inv1 that] by simp
    qed
    then show ?thesis using st' by (metis fst_conv)
  qed
qed

section \<open>The other operations\<close>

lemma relay_inv_begin_join: "relay_inv st \<Longrightarrow> relay_inv (fst (begin_join st a b j))"
  using relay_invD(3) [of st]
  by (auto simp: begin_join_def Let_def relay_inv_pending split: res.split)

lemma relay_inv_resume: "relay_inv st \<Longrightarrow> relay_inv (fst (resume st cp c k now))"
proof (cases "peer_lookup st c")
  case (Some e)
  assume inv: "relay_inv st"
  obtain s room p where e: "e = (s, room, p)" by (cases e)
  have m: "member st s c p" using Some e by (simp add: peer_lookup_member)
  let ?p = "p\<lparr>p_control_peer := cp, p_presence := Connected, p_detached_until := None, p_last_seen := now\<rparr>"
  have "relay_inv (store_peer st s room now c ?p)"
    using inv Some e relay_invD(8) [OF inv m]
    by (intro relay_inv_store) (auto simp: peer_shape_def)
  then show ?thesis
    using Some e inv relay_invD(5) [OF inv]
    by (auto simp: resume_def Let_def intro!: relay_inv_control)
qed (simp add: resume_def)

lemma relay_inv_detach: "relay_inv st \<Longrightarrow> relay_inv (fst (detach st cp now))"
proof (cases "hm_get (rs_control_connections st) cp")
  case (Some c)
  assume inv: "relay_inv st"
  let ?st = "st\<lparr>rs_control_connections := hm_remove cp (rs_control_connections st)\<rparr>"
  have inv1: "relay_inv ?st" using inv relay_invD(5) [OF inv] by (simp add: relay_inv_control)
  show ?thesis
  proof (cases "peer_lookup ?st c")
    case None
    then show ?thesis using Some inv1 by (simp add: detach_def Let_def)
  next
    case look: (Some e)
    obtain s room p where e: "e = (s, room, p)" by (cases e)
    have m: "member ?st s c p" using look e by (simp add: peer_lookup_member)
    let ?p = "p\<lparr>p_presence := Reconnecting, p_detached_until := Some (now + RECOVERY_GRACE)\<rparr>"
    have "relay_inv (store_peer ?st s room (r_last_seen room) c ?p)"
      using inv1 look e relay_invD(8) [OF inv1 m]
      by (intro relay_inv_store) (auto simp: peer_shape_def)
    then show ?thesis using Some look e inv1 by (simp add: detach_def Let_def)
  qed
qed (simp add: detach_def)

lemma relay_inv_stop: "relay_inv st \<Longrightarrow> relay_inv (fst (stop st cp))"
  using relay_invD(5) [of st]
  by (auto simp: stop_def intro!: relay_inv_remove relay_inv_control split: option.split)

lemma relay_inv_bind_udp_path: "relay_inv st \<Longrightarrow> relay_inv (fst (bind_udp_path st c k a now))"
proof (cases "peer_lookup st c")
  case (Some e)
  assume inv: "relay_inv st"
  obtain s room p where e: "e = (s, room, p)" by (cases e)
  have m: "member st s c p" using Some e by (simp add: peer_lookup_member)
  have "relay_inv (store_peer st s room (r_last_seen room) c
          (p\<lparr>p_udp_address := Some a, p_last_seen := now\<rparr>))" if "p_profile p = Udp"
    using inv Some e relay_invD(8) [OF inv m] that
    by (intro relay_inv_store) (auto simp: peer_shape_def)
  then show ?thesis using Some e inv by (simp add: bind_udp_path_def)
qed (simp add: bind_udp_path_def)

text \<open>
  Routing changes only the sender's record, in fields the invariant does not mention: what the
  new state is, in one form for data and probes.
\<close>

definition sender_update :: "RelayState \<Rightarrow> u64 \<Rightarrow> RelayState \<Rightarrow> bool" where
  "sender_update st c st' \<longleftrightarrow>
     st' = st \<or>
     (\<exists>s room p t frames budget seen.
        peer_lookup st c = Some (s, room, p) \<and>
        st' = store_peer st s room t c
          (p\<lparr>p_frames := frames, p_traffic_budget := budget, p_last_seen := seen\<rparr>))"

lemma sender_updateI:
  "peer_lookup st c = Some (s, room, p) \<Longrightarrow>
     sender_update st c (store_peer st s room t c
       (p\<lparr>p_frames := frames, p_traffic_budget := budget, p_last_seen := seen\<rparr>))"
  unfolding sender_update_def by blast

lemma relay_inv_sender_update:
  assumes inv: "relay_inv st" and up: "sender_update st c st'"
  shows "relay_inv st'"
proof -
  consider "st' = st" | s room p t f b l where "peer_lookup st c = Some (s, room, p)"
      "st' = store_peer st s room t c (p\<lparr>p_frames := f, p_traffic_budget := b, p_last_seen := l\<rparr>)"
    using up unfolding sender_update_def by blast
  then show ?thesis
  proof cases
    case 2
    then show ?thesis
      using relay_invD(8) [OF inv peer_lookup_member [OF 2(1)]] inv
      by (auto intro!: relay_inv_store simp: peer_shape_def)
  qed (simp add: inv)
qed

lemma peer_update_defaults:
  "p\<lparr>p_frames := f\<rparr> = p\<lparr>p_frames := f, p_traffic_budget := p_traffic_budget p, p_last_seen := p_last_seen p\<rparr>"
  "p\<lparr>p_frames := f, p_traffic_budget := b\<rparr>
     = p\<lparr>p_frames := f, p_traffic_budget := b, p_last_seen := p_last_seen p\<rparr>"
  "p\<lparr>p_traffic_budget := b\<rparr>
     = p\<lparr>p_frames := p_frames p, p_traffic_budget := b, p_last_seen := p_last_seen p\<rparr>"
  "p\<lparr>p_traffic_budget := b, p_last_seen := l\<rparr>
     = p\<lparr>p_frames := p_frames p, p_traffic_budget := b, p_last_seen := l\<rparr>"
  by simp_all

lemma route_data_update: "sender_update st (rd_connection_id q) (fst (route_data st q))"
proof (cases "peer_lookup st (rd_connection_id q)")
  case None
  then show ?thesis by (simp add: route_data_def sender_update_def)
next
  case (Some e)
  obtain s room p where e: "e = (s, room, p)" by (cases e)
  note look = Some [unfolded e]
  have st: "sender_update st c st" for c by (simp add: sender_update_def)
  show ?thesis
    using sender_updateI [OF look] st
    unfolding route_data_def Let_def look
    by (simp add: case_prod_beta split: res.split)
      (metis peer_update_defaults(1) peer_update_defaults(2))
qed

lemma route_probe_update: "sender_update st (rp_connection_id q) (fst (route_probe st q))"
proof (cases "peer_lookup st (rp_connection_id q)")
  case None
  then show ?thesis by (simp add: route_probe_def sender_update_def)
next
  case (Some e)
  obtain s room p where e: "e = (s, room, p)" by (cases e)
  note look = Some [unfolded e]
  have st: "sender_update st c st" for c by (simp add: sender_update_def)
  show ?thesis
    using sender_updateI [OF look] st
    unfolding route_probe_def Let_def look
    by (simp add: case_prod_beta split: res.split)
      (metis peer_update_defaults(3) peer_update_defaults(4))
qed

section \<open>Cleanup\<close>

lemma remove_all_sel [simp]:
  "rs_config (fst (remove_all st cs)) = rs_config st"
  "rs_pending (fst (remove_all st cs)) = rs_pending st"
  by (induction cs arbitrary: st) (simp_all add: case_prod_beta Let_def)

lemma relay_inv_remove_all: "relay_inv st \<Longrightarrow> relay_inv (fst (remove_all st cs))"
  by (induction cs arbitrary: st) (simp_all add: case_prod_beta Let_def relay_inv_remove)

lemma member_remove_all:
  "relay_inv st \<Longrightarrow> member (fst (remove_all st cs)) s c p \<longleftrightarrow> c \<notin> set cs \<and> member st s c p"
  by (induction cs arbitrary: st)
    (auto simp: case_prod_beta Let_def relay_inv_remove member_remove)

lemma connection_rooms_remove_all:
  "hm_get (rs_connection_rooms (fst (remove_all st cs))) c =
     (if c \<in> set cs then None else hm_get (rs_connection_rooms st) c)"
  by (induction cs arbitrary: st)
    (auto simp: case_prod_beta Let_def connection_rooms_remove)

lemma some_room_member:
  assumes "relay_inv st"
  shows "(\<exists>room \<in> set (hm_values (rs_rooms st)). p \<in> set (hm_values (r_peers room)))
    \<longleftrightarrow> (\<exists>s c. member st s c p)"
  using values_member [OF assms] member_room
  unfolding Bex_def set_hm_values [OF relay_invD(6) [OF assms]] by metis

lemma expired_connections_iff:
  assumes "relay_inv st"
  shows "c \<in> set (expired_connections st now) \<longleftrightarrow> (\<exists>s p. member st s c p \<and> peer_expired now p)"
proof -
  have "c \<in> set (expired_connections st now) \<longleftrightarrow>
      (\<exists>p. (\<exists>room \<in> set (hm_values (rs_rooms st)). p \<in> set (hm_values (r_peers room)))
         \<and> peer_expired now p \<and> c = p_connection_id p)"
    unfolding expired_connections_def by auto
  then show ?thesis
    unfolding some_room_member [OF assms]
    using relay_invD(8) [OF assms] unfolding peer_shape_def by blast
qed

definition retain_rooms :: "RelayState \<Rightarrow> instant \<Rightarrow> RelayState" where
  "retain_rooms st now =
     st\<lparr>rs_rooms := hm_retain (\<lambda>_ room. room_kept (rs_config st) now room) (rs_rooms st)\<rparr>"

lemma member_retain: "relay_inv st \<Longrightarrow> member (retain_rooms st now) = member st"
  using relay_invD(6) [of st]
  by (intro ext)
    (auto simp: member_def retain_rooms_def room_kept_def hm_get_def [of "[]"]
      split: option.splits if_splits)

lemma rooms_wf_retain: "rooms_wf st \<Longrightarrow> rooms_wf (retain_rooms st now)"
  using hm_retain_len_le [of "\<lambda>_ room. room_kept (rs_config st) now room" "rs_rooms st"]
  by (auto simp: rooms_wf_def retain_rooms_def split: option.splits if_splits)

lemma relay_inv_retain:
  assumes inv: "relay_inv st"
  shows "relay_inv (retain_rooms st now)"
proof -
  have "rooms_wf (retain_rooms st now)" using relay_invD(2) [OF inv] by (rule rooms_wf_retain)
  then show ?thesis
    using inv unfolding relay_inv_def member_retain [OF inv] by (simp add: retain_rooms_def)
qed

definition retain_pending :: "RelayState \<Rightarrow> instant \<Rightarrow> RelayState" where
  "retain_pending st now =
     st\<lparr>rs_pending := hm_retain (\<lambda>_ p. duration_since now (pj_issued_at p) < CHALLENGE_LIFETIME)
          (rs_pending st)\<rparr>"

lemma relay_inv_retain_pending: "relay_inv st \<Longrightarrow> relay_inv (retain_pending st now)"
  using relay_invD(3) [of st] by (simp add: retain_pending_def relay_inv_pending)

lemma member_retain_pending [simp]: "member (retain_pending st now) = member st"
  by (rule member_cong) (simp add: retain_pending_def)

lemma expired_retain_pending [simp]:
  "expired_connections (retain_pending st now) = expired_connections st"
  by (intro ext) (simp add: retain_pending_def expired_connections_def)

lemma cleanup_state:
  "fst (cleanup st now) =
     retain_rooms (fst (remove_all (retain_pending st now) (expired_connections st now))) now"
  by (simp add: cleanup_def Let_def case_prod_beta retain_rooms_def
      expired_retain_pending [symmetric] retain_pending_def [symmetric])

lemma relay_inv_cleanup: "relay_inv st \<Longrightarrow> relay_inv (fst (cleanup st now))"
  unfolding cleanup_state
  by (intro relay_inv_retain relay_inv_remove_all relay_inv_retain_pending)

lemma member_cleanup:
  "relay_inv st \<Longrightarrow>
     member (fst (cleanup st now)) s c p \<longleftrightarrow> member st s c p \<and> \<not> peer_expired now p"
  unfolding cleanup_state
  by (auto simp: member_retain relay_inv_remove_all relay_inv_retain_pending member_remove_all
      expired_connections_iff dest: member_unique)

end
