(* ===== verification/Relay_System.thy ===== *)
theory Relay_System
  imports Relay_Invariant
begin

text \<open>
  The relay as a transition system: one rule of \<open>relay_step\<close> per public method of
  \<open>RelayState\<close>, in any order and with any arguments, since every client is untrusted.  The
  invariant of \<^theory_text>\<open>Relay_Invariant\<close> holds in every reachable state; a peer's identity and
  credentials never change; routing is authenticated, isolated to the room and free of replays.
\<close>

section \<open>Steps\<close>

text \<open>The label is the connection id that the step admits, if it admits one.\<close>

inductive relay_step ::
  "(byte list \<Rightarrow> byte list) \<Rightarrow> RelayState \<Rightarrow> u64 option \<Rightarrow> RelayState \<Rightarrow> bool" for sha256 where
  step_begin_join:
    "begin_join st rc rn j = (st', r) \<Longrightarrow> relay_step sha256 st None st'"
| step_join:
    "complete_join sha256 draws rr rp st cp ch pf now = Some (st', Ok (ready, bc))
       \<Longrightarrow> relay_step sha256 st (Some (jr_connection_id ready)) st'"
| step_join_rejected:
    "complete_join sha256 draws rr rp st cp ch pf now = Some (st', Err e)
       \<Longrightarrow> relay_step sha256 st None st'"
| step_resume: "resume st cp c key now = (st', r1) \<Longrightarrow> relay_step sha256 st None st'"
| step_detach: "detach st cp now = (st', b) \<Longrightarrow> relay_step sha256 st None st'"
| step_stop: "stop st cp = (st', b) \<Longrightarrow> relay_step sha256 st None st'"
| step_bind: "bind_udp_path st c key addr now = (st', r2) \<Longrightarrow> relay_step sha256 st None st'"
| step_data: "route_data st q = (st', r3) \<Longrightarrow> relay_step sha256 st None st'"
| step_probe: "route_probe st qp = (st', r4) \<Longrightarrow> relay_step sha256 st None st'"
| step_cleanup: "cleanup st now = (st', bs) \<Longrightarrow> relay_step sha256 st None st'"

inductive_cases relay_step_admits: "relay_step sha256 st (Some c) st'"
inductive_cases relay_step_silent: "relay_step sha256 st None st'"

definition relay_init :: "RelayState \<Rightarrow> bool" where
  "relay_init st \<longleftrightarrow> st = state_new (rs_config st) \<and> config_ok (rs_config st)"

lemma relay_inv_new: "config_ok config \<Longrightarrow> relay_inv (state_new config)"
  by (simp add: relay_inv_def state_new_def rooms_wf_def member_def hm_wf_def hm_get_def)

lemma relay_inv_step:
  assumes "relay_inv st" and "relay_step sha256 st l st'"
  shows "relay_inv st'"
  using assms(2,1)
  by cases (auto dest: relay_inv_begin_join relay_inv_complete_join relay_inv_resume
      relay_inv_detach relay_inv_stop relay_inv_bind_udp_path relay_inv_cleanup
      relay_inv_sender_update [OF _ route_data_update] relay_inv_sender_update [OF _ route_probe_update]
      simp: prod_eq_iff)

interpretation relay: invariant_system relay_init "\<lambda>st st'. \<exists>l. relay_step sha256 st l st'" relay_inv
  for sha256
  by unfold_locales (auto simp: relay_init_def intro: relay_inv_step, metis relay_inv_new)

abbreviation relay_reachable :: "(byte list \<Rightarrow> byte list) \<Rightarrow> RelayState \<Rightarrow> bool" where
  "relay_reachable sha256 \<equiv> reachable_from relay_init (\<lambda>st st'. \<exists>l. relay_step sha256 st l st')"

section \<open>The life of a peer\<close>

text \<open>
  What any step may do to the record of a connected peer: nothing to its identity, credentials
  and limits, and to the duplicate window at most one observation.
\<close>

definition peer_evolves :: "Peer \<Rightarrow> Peer \<Rightarrow> bool" where
  "peer_evolves p p' \<longleftrightarrow>
     p_connection_id p' = p_connection_id p \<and> p_resume_key p' = p_resume_key p
     \<and> p_path_key p' = p_path_key p \<and> p_steam_id64 p' = p_steam_id64 p
     \<and> p_display_name p' = p_display_name p \<and> p_profile p' = p_profile p
     \<and> p_capabilities p' = p_capabilities p
     \<and> (p_frames p' = p_frames p \<or> (\<exists>i. p_frames p' = snd (observe (p_frames p) i)))"

lemma peer_evolves_refl [simp]: "peer_evolves p p"
  by (simp add: peer_evolves_def)

text \<open>Members after a step come from members before it.\<close>

definition members_evolve :: "RelayState \<Rightarrow> RelayState \<Rightarrow> bool" where
  "members_evolve st st' \<longleftrightarrow>
     (\<forall>s c p'. member st' s c p' \<longrightarrow> (\<exists>p. member st s c p \<and> peer_evolves p p'))"

lemma members_evolve_cong: "rs_rooms st' = rs_rooms st \<Longrightarrow> members_evolve st st'"
  unfolding members_evolve_def using member_cong [of st' st] peer_evolves_refl by metis

lemma members_evolve_sub:
  "(\<And>s c p. member st' s c p \<Longrightarrow> member st s c p) \<Longrightarrow> members_evolve st st'"
  unfolding members_evolve_def by (meson peer_evolves_refl)

lemma members_evolve_store:
  assumes "peer_lookup st c = Some (s, room, p)" and "peer_evolves p p'"
  shows "members_evolve st (store_peer st s room t c p')"
proof -
  have at: "room_at st s room" using assms(1) by (simp add: room_at_def peer_lookup_Some)
  have "member st s c p" using assms(1) by (rule peer_lookup_member)
  then show ?thesis
    using assms(2) unfolding members_evolve_def member_store [OF at]
    by (auto split: if_splits)
qed

lemma begin_join_rooms [simp]: "rs_rooms (fst (begin_join st a b j)) = rs_rooms st"
  by (simp add: begin_join_def Let_def split: res.split)

lemma evolve_control:
  "members_evolve st st' \<Longrightarrow> members_evolve st (st'\<lparr>rs_control_connections := m\<rparr>)"
  by (simp add: members_evolve_def member_def)

lemma evolve_from_control:
  "members_evolve (st\<lparr>rs_control_connections := m\<rparr>) st' \<Longrightarrow> members_evolve st st'"
  by (simp add: members_evolve_def member_def)

lemma evolve_resume: "members_evolve st (fst (resume st cp c k now))"
  by (auto simp: resume_def Let_def members_evolve_cong peer_evolves_def
      intro!: evolve_control members_evolve_store split: option.split)

lemma evolve_detach: "members_evolve st (fst (detach st cp now))"
  by (auto simp: detach_def Let_def members_evolve_cong peer_evolves_def
      intro!: evolve_from_control [OF members_evolve_store] split: option.split)

lemma evolve_stop:
  assumes "relay_inv st"
  shows "members_evolve st (fst (stop st cp))"
proof -
  let ?st = "st\<lparr>rs_control_connections := hm_remove cp (rs_control_connections st)\<rparr>"
  have "relay_inv ?st" using assms relay_invD(5) [OF assms] by (simp add: relay_inv_control)
  then have "members_evolve ?st (fst (remove_connection ?st c))" for c
    by (intro members_evolve_sub) (simp add: member_remove)
  then show ?thesis
    by (auto simp: stop_def members_evolve_cong intro: evolve_from_control split: option.split)
qed

lemma evolve_bind: "members_evolve st (fst (bind_udp_path st c k a now))"
  by (auto simp: bind_udp_path_def members_evolve_cong peer_evolves_def
      intro!: members_evolve_store split: option.split)

lemma evolve_route_data: "members_evolve st (fst (route_data st q))"
  by (auto simp: route_data_def Let_def case_prod_beta members_evolve_cong peer_evolves_def
      intro!: members_evolve_store split: option.split res.split)

lemma evolve_route_probe: "members_evolve st (fst (route_probe st q))"
  by (auto simp: route_probe_def Let_def case_prod_beta members_evolve_cong peer_evolves_def
      intro!: members_evolve_store split: option.split res.split)

lemma evolve_cleanup: "relay_inv st \<Longrightarrow> members_evolve st (fst (cleanup st now))"
  by (intro members_evolve_sub) (simp add: member_cleanup)

lemmas evolve_ops = evolve_resume evolve_detach evolve_stop evolve_bind evolve_route_data
  evolve_route_probe evolve_cleanup

lemma admit_ready: "jr_connection_id (fst (snd (admit st s p now))) = p_connection_id p"
  by (simp add: admit_def Let_def)

text \<open>What a successful join adds: exactly one peer, fresh, and at most the duplicate is lost.\<close>

lemma join_member:
  assumes inv: "relay_inv st"
    and cj: "complete_join sha draws rr rp st cp ch pf now = Some (st', Ok (ready, bc))"
    and m: "member st' s c p'"
  shows "member st s c p' \<or>
     (c = jr_connection_id ready \<and> p_frames p' = window_new \<and> p_control_peer p' = cp
      \<and> p_resume_key p' = jr_resume_key ready \<and> p_presence p' = Connected)"
proof -
  let ?st = "st\<lparr>rs_pending := hm_remove cp (rs_pending st)\<rparr>"
  have inv1: "relay_inv ?st" using inv relay_invD(3) [OF inv] by (simp add: relay_inv_pending)
  from cj obtain pending c0 where
    a: "(st', ready, bc) = admit (remove_duplicate ?st (pj_session pending) (pj_steam_id64 pending))
          (pj_session pending) (new_peer (rs_config st) pending cp c0 rr rp now) now"
    by (auto elim: complete_join_Ok)
  let ?sd = "remove_duplicate ?st (pj_session pending) (pj_steam_id64 pending)"
  let ?peer = "new_peer (rs_config st) pending cp c0 rr rp now"
  have "ready = fst (snd (admit ?sd (pj_session pending) ?peer now))" using a by (metis fst_conv snd_conv)
  then have ready: "jr_connection_id ready = c0" "jr_resume_key ready = rr"
    by (simp_all add: admit_def Let_def)
  have "st' = fst (admit ?sd (pj_session pending) ?peer now)" using a by (metis fst_conv)
  with m have "p' = ?peer \<and> c = c0 \<or> member ?sd s c p'"
    by (simp add: member_admit split: if_splits)
  moreover have "member ?sd s c p' \<Longrightarrow> member st s c p'"
    using remove_duplicate_member [OF inv1] by (simp add: member_def)
  ultimately show ?thesis using ready by (auto simp: new_peer_def)
qed

lemma join_rejected_rooms:
  "complete_join sha draws rr rp st cp ch pf now = Some (st', Err e) \<Longrightarrow> rs_rooms st' = rs_rooms st"
  using complete_join_cases [of sha draws rr rp st cp ch pf now st' "Err e"] by auto

lemma step_member:
  assumes inv: "relay_inv st" and step: "relay_step sha256 st l st'" and m: "member st' s c p'"
  shows "(\<exists>p. member st s c p \<and> peer_evolves p p') \<or> l = Some c \<and> p_frames p' = window_new"
proof (cases l)
  case None
  have "members_evolve st st'"
    using step [unfolded None] inv
    by (cases rule: relay_step_silent)
      (auto simp: prod_eq_iff intro!: evolve_ops members_evolve_cong [OF begin_join_rooms]
        dest!: join_rejected_rooms intro: members_evolve_cong)
  then show ?thesis using m by (simp add: members_evolve_def)
next
  case (Some c')
  from step [unfolded Some] obtain draws rr rp cp ch pf now ready bc where
    cj: "complete_join sha256 draws rr rp st cp ch pf now = Some (st', Ok (ready, bc))"
    and c': "c' = jr_connection_id ready"
    by (cases rule: relay_step_admits) blast
  from join_member [OF inv cj m] c' Some show ?thesis
    using peer_evolves_refl [of p'] by auto
qed

section \<open>A concrete run\<close>

text \<open>Two players join a room over TCP on a relay that asks for no proof of work.\<close>

definition demo_config :: RelayConfig where
  "demo_config = config_default\<lparr>pow_difficulty_bits := 0\<rparr>"

definition demo_sha :: "byte list \<Rightarrow> byte list" where
  "demo_sha bytes = []"

definition demo_session :: SessionKey where
  "demo_session = replicate 16 1"

definition demo_begin :: "PeerId \<Rightarrow> u64 \<Rightarrow> JoinBegin" where
  "demo_begin cp steam =
     \<lparr>jb_control_peer = cp, jb_session = demo_session, jb_steam_id64 = steam, jb_display_name = None,
      jb_profile = Tcp, jb_capabilities = CAP_ROOM_PATH_PROBE, jb_now = 0\<rparr>"

definition demo_join :: "PeerId \<Rightarrow> u64 \<Rightarrow> u64 \<Rightarrow> RelayState \<Rightarrow> RelayState" where
  "demo_join cp steam c st =
     (case complete_join demo_sha [c] [9] [8] (fst (begin_join st [3] [4] (demo_begin cp steam)))
             cp [3] [] 0 of
        Some (st', _) \<Rightarrow> st' | None \<Rightarrow> st)"

definition demo_room :: RelayState where
  "demo_room = demo_join 2 77 200 (demo_join 1 76 100 (state_new demo_config))"

definition demo_frame :: RouteData where
  "demo_frame = \<lparr>rd_connection_id = 100, rd_frame_id = 5, rd_from_steam_id64 = 76,
     rd_to_steam_id64 = 77, rd_source = SrcTcp 1, rd_frame_bytes = 50, rd_now = 1\<rparr>"

lemma complete_join_no_Panic:
  "complete_join sha draws rr rp st cp ch pf now \<noteq> Some (st', Panic)"
  by (auto simp: complete_join_def check_pending_def validate_room_capacity_def Let_def
      case_prod_beta ensure_def split: option.splits res.splits if_splits)

lemma demo_join_reachable:
  assumes "relay_reachable demo_sha st"
  shows "relay_reachable demo_sha (demo_join cp steam c st)"
proof (cases "complete_join demo_sha [c] [9] [8] (fst (begin_join st [3] [4] (demo_begin cp steam)))
         cp [3] [] 0")
  case (Some e)
  obtain st' r where e: "e = (st', r)" by (cases e)
  let ?st = "fst (begin_join st [3] [4] (demo_begin cp steam))"
  have st: "relay_reachable demo_sha ?st"
    using assms step_begin_join [OF surjective_pairing] by (blast intro: reach_step)
  have "\<exists>l. relay_step demo_sha ?st l st'"
    using Some e complete_join_no_Panic
    by (cases r) (auto intro: step_join step_join_rejected)
  then show ?thesis using st Some e by (auto simp: demo_join_def intro: reach_step)
qed (simp add: demo_join_def assms)

lemma demo_room_reachable: "relay_reachable demo_sha demo_room"
proof -
  have "relay_reachable demo_sha (state_new demo_config)"
    by (rule reach_init)
      (simp add: relay_init_def state_new_def demo_config_def config_ok_def config_default_def
        MAX_UDP_PACKET_SIZE_def)
  then show ?thesis unfolding demo_room_def by (intro demo_join_reachable)
qed

lemmas join_eval = begin_join_def validate_room_capacity_def complete_join_def check_pending_def
  verify_pow_def duplicate_connection_def remove_duplicate_def admit_def store_peer_def
  hm_contains_def hm_get_def hm_insert_def hm_remove_def hm_values_def ensure_def Let_def
  CHALLENGE_LIFETIME_def duration_since_def

definition demo_peer :: "PeerId \<Rightarrow> u64 \<Rightarrow> u64 \<Rightarrow> Peer" where
  "demo_peer cp steam c =
     \<lparr>p_control_peer = cp, p_connection_id = c, p_resume_key = [9], p_path_key = None,
      p_udp_address = None, p_steam_id64 = steam, p_display_name = None, p_profile = Tcp,
      p_capabilities = CAP_ROOM_PATH_PROBE, p_presence = Connected, p_detached_until = None,
      p_frames = window_new, p_last_seen = 0, p_traffic_budget = budget_new demo_config 0\<rparr>"

lemma demo_room_eq:
  "demo_room =
     \<lparr>rs_config = demo_config, rs_pending = [],
      rs_rooms = [(demo_session, \<lparr>r_peers = [(100, demo_peer 1 76 100), (200, demo_peer 2 77 200)],
                         r_last_seen = 0\<rparr>)],
      rs_connection_rooms = [(100, demo_session), (200, demo_session)],
      rs_control_connections = [(1, 100), (2, 200)]\<rparr>"
proof -
  have cfg: "pow_difficulty_bits demo_config = 0" "max_rooms demo_config = 256"
    "max_peers_per_room demo_config = 4"
    by (simp_all add: demo_config_def config_default_def)
  show ?thesis
    by (simp add: demo_room_def demo_join_def demo_begin_def state_new_def new_peer_def
        demo_peer_def cfg join_eval)
qed

lemma demo_frame_routed: "snd (route_data demo_room demo_frame) = Ok (DestTcp 2)"
  by (simp add: demo_room_eq route_data_def demo_frame_def peer_lookup_def validate_source_def
      demo_peer_def observe_def window_new_def check_traffic_def roll_window_def budget_new_def
      demo_config_def config_default_def target_destination_def Let_def RATE_WINDOW_def secs_def
      usize_saturating_add_def usize_max_def saturating_add_def hm_get_def hm_insert_def
      hm_values_def duration_since_def)

section \<open>Replay protection\<close>

text \<open>Every peer's window records some history of frame ids; a routed id is part of it.\<close>

definition frames_ok :: "RelayState \<Rightarrow> bool" where
  "frames_ok st \<longleftrightarrow> (\<forall>s c p. member st s c p \<longrightarrow> (\<exists>S. tracks (p_frames p) S))"

definition spent :: "u64 \<Rightarrow> u64 \<Rightarrow> RelayState \<Rightarrow> bool" where
  "spent c i st \<longleftrightarrow> (\<forall>s p. member st s c p \<longrightarrow> (\<exists>S. tracks (p_frames p) S \<and> i \<in> S))"

lemma observe_tracks:
  assumes "tracks w S"
  shows "\<exists>S'. tracks (snd (observe w i)) S' \<and> S \<subseteq> S'"
proof (cases "accepts (fst (observe w i))")
  case True
  then show ?thesis using window.obs_accept [OF assms surjective_pairing] by blast
next
  case False
  then show ?thesis using window.obs_reject [OF assms surjective_pairing] by blast
qed

lemma evolves_tracks:
  assumes "peer_evolves p p'" and "tracks (p_frames p) S"
  shows "\<exists>S'. tracks (p_frames p') S' \<and> S \<subseteq> S'"
  using assms observe_tracks [OF assms(2)] by (auto simp: peer_evolves_def)

lemma frames_ok_step:
  assumes "relay_inv st" and "frames_ok st" and "relay_step sha256 st l st'"
  shows "frames_ok st'"
  unfolding frames_ok_def
proof (intro allI impI)
  fix s c p' assume "member st' s c p'"
  from step_member [OF assms(1,3) this] show "\<exists>S. tracks (p_frames p') S"
  proof
    assume "\<exists>p. member st s c p \<and> peer_evolves p p'"
    then obtain p S where "peer_evolves p p'" "tracks (p_frames p) S"
      using assms(2) unfolding frames_ok_def by blast
    from evolves_tracks [OF this] show ?thesis by blast
  qed (auto intro: tracks_new)
qed

lemma spent_step:
  assumes "relay_inv st" and "spent c i st" and "relay_step sha256 st l st'" and "l \<noteq> Some c"
  shows "spent c i st'"
  unfolding spent_def
proof (intro allI impI)
  fix s p' assume "member st' s c p'"
  from step_member [OF assms(1,3) this] assms(4) obtain p where
    "member st s c p" "peer_evolves p p'" by blast
  moreover from this obtain S where "tracks (p_frames p) S" "i \<in> S"
    using assms(2) unfolding spent_def by blast
  ultimately show "\<exists>S. tracks (p_frames p') S \<and> i \<in> S"
    using evolves_tracks [of p p' S] by blast
qed

interpretation replay: invariant_system relay_init "\<lambda>st st'. \<exists>l. relay_step sha256 st l st'"
    "\<lambda>st. relay_inv st \<and> frames_ok st"
  for sha256
proof unfold_locales
  show "relay_inv st \<and> frames_ok st" if "relay_init st" for st
  proof -
    have "\<not> member (state_new config) s c p" for config s c p
      by (simp add: state_new_def member_def hm_get_def)
    then have "frames_ok st" using that unfolding relay_init_def frames_ok_def by metis
    then show ?thesis using relay.inv_init [OF that] by simp
  qed
qed (auto intro: relay_inv_step frames_ok_step)

lemma duplicate_error_Ok: "duplicate_error d = Ok u \<longleftrightarrow> accepts d"
  by (cases d) (simp_all add: accepts_def)

text \<open>The sender's record after a frame that passed every check.\<close>

definition routed_sender :: "Peer \<Rightarrow> u64 \<Rightarrow> usize \<Rightarrow> instant \<Rightarrow> Peer" where
  "routed_sender p i n now =
     p\<lparr>p_frames := snd (observe (p_frames p) i),
       p_traffic_budget := fst (check_traffic (p_traffic_budget p) n now), p_last_seen := now\<rparr>"

lemma route_data_Ok:
  assumes "route_data st q = (st', Ok dest)"
  obtains s room p where
    "peer_lookup st (rd_connection_id q) = Some (s, room, p)"
    "validate_source p (rd_from_steam_id64 q) (rd_source q) = Ok ()"
    "accepts (fst (observe (p_frames p) (rd_frame_id q)))"
    "snd (check_traffic (p_traffic_budget p) (rd_frame_bytes q) (rd_now q)) = Ok ()"
    "st' = store_peer st s room (rd_now q) (rd_connection_id q)
       (routed_sender p (rd_frame_id q) (rd_frame_bytes q) (rd_now q))"
    "target_destination (room\<lparr>r_peers := hm_insert (rd_connection_id q)
         (routed_sender p (rd_frame_id q) (rd_frame_bytes q) (rd_now q)) (r_peers room),
       r_last_seen := rd_now q\<rparr>) (rd_to_steam_id64 q) False = Ok dest"
  using assms
  by (auto simp: route_data_def Let_def case_prod_beta routed_sender_def duplicate_error_Ok
      split: option.splits res.splits)

lemma routed_spent:
  assumes inv: "relay_inv st" "frames_ok st" and r: "route_data st q = (st', Ok dest)"
  shows "spent (rd_connection_id q) (rd_frame_id q) st'"
proof -
  from r obtain s room p where
    look: "peer_lookup st (rd_connection_id q) = Some (s, room, p)"
    and acc: "accepts (fst (observe (p_frames p) (rd_frame_id q)))"
    and st': "st' = store_peer st s room (rd_now q) (rd_connection_id q)
       (routed_sender p (rd_frame_id q) (rd_frame_bytes q) (rd_now q))"
    by (rule route_data_Ok)
  have at: "room_at st s room" using look by (simp add: room_at_def peer_lookup_Some)
  have m: "member st s (rd_connection_id q) p" using look by (rule peer_lookup_member)
  then obtain S where "tracks (p_frames p) S" using inv(2) unfolding frames_ok_def by blast
  from window.obs_accept [OF this surjective_pairing acc]
  have t: "tracks (snd (observe (p_frames p) (rd_frame_id q))) (insert (rd_frame_id q) S)" by simp
  show ?thesis unfolding spent_def
  proof (intro allI impI)
    fix s' p' assume "member st' s' (rd_connection_id q) p'"
    then have "p' = routed_sender p (rd_frame_id q) (rd_frame_bytes q) (rd_now q)"
      using member_unique [OF inv(1) m] unfolding st' member_store [OF at]
      by (auto split: if_splits)
    then show "\<exists>S. tracks (p_frames p') S \<and> rd_frame_id q \<in> S"
      using t by (auto simp: routed_sender_def)
  qed
qed

lemma spent_not_routed:
  assumes "spent (rd_connection_id q) (rd_frame_id q) st"
  shows "snd (route_data st q) \<noteq> Ok dest"
proof
  assume "snd (route_data st q) = Ok dest"
  then have "route_data st q = (fst (route_data st q), Ok dest)" by (simp add: prod_eq_iff)
  then obtain s room p where
    look: "peer_lookup st (rd_connection_id q) = Some (s, room, p)"
    and acc: "accepts (fst (observe (p_frames p) (rd_frame_id q)))"
    by (rule route_data_Ok)
  from peer_lookup_member [OF look] assms obtain S where
    "tracks (p_frames p) S" "rd_frame_id q \<in> S" unfolding spent_def by blast
  with window.obs_accept [OF this(1) surjective_pairing acc] show False by simp
qed

text \<open>Steps that do not admit a connection under the id \<open>c\<close> anew.\<close>

abbreviation steps_without_join ::
  "(byte list \<Rightarrow> byte list) \<Rightarrow> u64 \<Rightarrow> RelayState \<Rightarrow> RelayState \<Rightarrow> bool" where
  "steps_without_join sha256 c \<equiv> (\<lambda>st st'. \<exists>l. l \<noteq> Some c \<and> relay_step sha256 st l st')\<^sup>*\<^sup>*"

lemma spent_steps:
  assumes "steps_without_join sha256 c st st'" and "relay_inv st" and "spent c i st"
  shows "relay_inv st' \<and> spent c i st'"
  using assms by (induction rule: rtranclp_induct) (auto intro: relay_inv_step spent_step)

text \<open>
  C1: No frame is relayed twice.  Once the relay has routed frame id \<open>i\<close> of a connection,
  no later request with the same connection and frame id is routed, whatever sender, target,
  source, size and time it claims and whatever joins, resumes, path changes, detaches, stops,
  cleanups and other frames the relay handled in between, until a new join is given the same
  random connection id.
\<close>

theorem relay_never_routes_twice:
  assumes "relay_reachable sha256 st"
    and "route_data st q = (st1, Ok dest)"
    and "steps_without_join sha256 (rd_connection_id q) st1 st2"
    and "rd_connection_id q' = rd_connection_id q" and "rd_frame_id q' = rd_frame_id q"
  shows "snd (route_data st2 q') \<noteq> Ok dest'"
proof -
  have inv: "relay_inv st" "frames_ok st" using replay.reachable_inv [OF assms(1)] by simp_all
  have "relay_inv st1"
    using relay_inv_step [OF inv(1) step_data [OF assms(2)]] .
  then have "spent (rd_connection_id q) (rd_frame_id q) st2"
    using spent_steps [OF assms(3)] routed_spent [OF inv assms(2)] by blast
  then show ?thesis using spent_not_routed [of q' st2] assms(4,5) by simp
qed

theorem relay_never_routes_twice_witness:
  "snd (route_data (fst (route_data demo_room demo_frame)) demo_frame) \<noteq> Ok (DestTcp 2)"
proof -
  have "route_data demo_room demo_frame = (fst (route_data demo_room demo_frame), Ok (DestTcp 2))"
    using demo_frame_routed by (simp add: prod_eq_iff)
  from relay_never_routes_twice [OF demo_room_reachable this rtranclp.rtrancl_refl refl refl]
  show ?thesis .
qed

end
