(* ===== verification/Relay_Guarantees.thy ===== *)
theory Relay_Guarantees
  imports Relay_System
begin

text \<open>
  What the relay guarantees its clients, stated over reachable states: the structural invariant,
  authenticated and room-isolated routing of data and probes, recovery of a detached connection,
  exact cleanup, admission of joins and the meaning of the proof of work.
\<close>

section \<open>Routing\<close>

text \<open>The transport a frame of peer \<open>p\<close> must come from, and the one it is delivered to.\<close>

definition is_source_of :: "Peer \<Rightarrow> DataSource \<Rightarrow> bool" where
  "is_source_of p src =
     (case p_profile p of
        Tcp \<Rightarrow> src = SrcTcp (p_control_peer p)
      | Udp \<Rightarrow> (case p_udp_address p of None \<Rightarrow> False | Some a \<Rightarrow> src = SrcUdp a))"

definition is_destination_of :: "Peer \<Rightarrow> DataDestination \<Rightarrow> bool" where
  "is_destination_of p dest =
     (case p_profile p of
        Tcp \<Rightarrow> p_presence p = Connected \<and> dest = DestTcp (p_control_peer p)
      | Udp \<Rightarrow> (case p_udp_address p of None \<Rightarrow> False | Some a \<Rightarrow> dest = DestUdp a))"

lemma validate_source_Ok:
  "validate_source p i src = Ok u \<longleftrightarrow> p_steam_id64 p = i \<and> is_source_of p src"
  by (auto simp: validate_source_def is_source_of_def
      split: DataProfile.splits DataSource.splits option.splits if_splits)

lemma target_destination_Ok:
  assumes "hm_wf (r_peers room)" and "target_destination room i probe = Ok dest"
  shows "\<exists>c t. hm_get (r_peers room) c = Some t \<and> p_steam_id64 t = i \<and> is_destination_of t dest
           \<and> (probe \<longrightarrow> has_probe_cap t)"
proof -
  obtain t where
    f: "find (\<lambda>p. p_steam_id64 p = i) (hm_values (r_peers room)) = Some t"
    using assms(2)
    by (cases "find (\<lambda>p. p_steam_id64 p = i) (hm_values (r_peers room))")
      (simp_all add: target_destination_def ok_or_def)
  then have "is_destination_of t dest" "probe \<longrightarrow> has_probe_cap t"
    using assms(2)
    by (cases "p_profile t"; cases "p_udp_address t";
        simp add: target_destination_def ok_or_def is_destination_of_def split: if_splits)+
  with find_Some_in [OF f] set_hm_values [OF assms(1), of t] show ?thesis by auto
qed

text \<open>Updating the sender does not change what others see of it as a target.\<close>

definition same_endpoint :: "Peer \<Rightarrow> Peer \<Rightarrow> bool" where
  "same_endpoint p p' \<longleftrightarrow>
     p_profile p' = p_profile p \<and> p_presence p' = p_presence p \<and> p_control_peer p' = p_control_peer p
     \<and> p_udp_address p' = p_udp_address p \<and> p_steam_id64 p' = p_steam_id64 p
     \<and> p_capabilities p' = p_capabilities p"

lemma same_endpoint_views:
  assumes "same_endpoint p p'"
  shows "is_destination_of p' dest = is_destination_of p dest" "has_probe_cap p' = has_probe_cap p"
    "p_steam_id64 p' = p_steam_id64 p"
  using assms
  by (auto simp: same_endpoint_def is_destination_of_def has_probe_cap_def split: DataProfile.split)

lemma routed_target:
  assumes inv: "relay_inv st" and look: "peer_lookup st c = Some (s, room, p)"
    and same: "same_endpoint p p'"
    and t: "target_destination (room\<lparr>r_peers := hm_insert c p' (r_peers room), r_last_seen := l\<rparr>)
              i probe = Ok dest"
  shows "\<exists>c' t. member st s c' t \<and> p_steam_id64 t = i \<and> is_destination_of t dest
           \<and> (probe \<longrightarrow> has_probe_cap t)"
proof -
  have r: "hm_get (rs_rooms st) s = Some room" "hm_get (r_peers room) c = Some p"
    using look by (simp_all add: peer_lookup_Some)
  then have wf: "hm_wf (r_peers room)" using relay_invD(7) [OF inv] by blast
  with target_destination_Ok [OF _ t] obtain c' t where
    "hm_get (hm_insert c p' (r_peers room)) c' = Some t" "p_steam_id64 t = i"
    "is_destination_of t dest" "probe \<longrightarrow> has_probe_cap t" by auto
  moreover from this have "t = p'" if "c' = c" using that by simp
  ultimately show ?thesis using r same_endpoint_views [OF same]
    by (cases "c' = c") (auto simp: member_def)
qed

lemma target_unique:
  assumes "relay_inv st" and "member st s c t"
  shows "\<forall>c' t'. member st s c' t' \<and> p_steam_id64 t' = p_steam_id64 t \<longrightarrow> c' = c \<and> t' = t"
proof (intro allI impI)
  fix c' t' assume t': "member st s c' t' \<and> p_steam_id64 t' = p_steam_id64 t"
  then have "c' = c" using relay_invD(11) [OF assms(1), of s c' t' c t] assms(2) by blast
  then show "c' = c \<and> t' = t" using t' assms(2) member_fun by blast
qed

text \<open>
  C2: Routing of game data is authenticated and isolated.  A frame is routed only when it comes
  over the transport its claimed connection is bound to and names that connection's own player
  as its sender; it is delivered only to a member of the sender's own room, namely to the one
  player of that room it names, over that player's own transport.
\<close>

theorem route_data_isolated:
  assumes "relay_reachable sha256 st" and "route_data st q = (st', Ok dest)"
  shows "\<exists>s p c t. member st s (rd_connection_id q) p
     \<and> p_steam_id64 p = rd_from_steam_id64 q \<and> is_source_of p (rd_source q)
     \<and> member st s c t \<and> p_steam_id64 t = rd_to_steam_id64 q \<and> is_destination_of t dest
     \<and> (\<forall>c' t'. member st s c' t' \<and> p_steam_id64 t' = rd_to_steam_id64 q \<longrightarrow> c' = c \<and> t' = t)"
proof -
  have inv: "relay_inv st" using relay.reachable_inv [OF assms(1)] .
  from assms(2) obtain s room p where
    look: "peer_lookup st (rd_connection_id q) = Some (s, room, p)"
    and src: "validate_source p (rd_from_steam_id64 q) (rd_source q) = Ok ()"
    and t: "target_destination (room\<lparr>r_peers := hm_insert (rd_connection_id q)
         (routed_sender p (rd_frame_id q) (rd_frame_bytes q) (rd_now q)) (r_peers room),
       r_last_seen := rd_now q\<rparr>) (rd_to_steam_id64 q) False = Ok dest"
    by (rule route_data_Ok)
  have "same_endpoint p (routed_sender p (rd_frame_id q) (rd_frame_bytes q) (rd_now q))"
    by (simp add: same_endpoint_def routed_sender_def)
  from routed_target [OF inv look this t] obtain c t where
    tm: "member st s c t" "p_steam_id64 t = rd_to_steam_id64 q" "is_destination_of t dest" by blast
  from src tm peer_lookup_member [OF look] target_unique [OF inv tm(1), unfolded tm(2)]
  show ?thesis unfolding validate_source_Ok by blast
qed

theorem route_data_isolated_witness:
  "\<exists>s p c t. member demo_room s 100 p \<and> p_steam_id64 p = 76 \<and> is_source_of p (SrcTcp 1)
     \<and> member demo_room s c t \<and> p_steam_id64 t = 77 \<and> is_destination_of t (DestTcp 2)"
proof -
  have "route_data demo_room demo_frame = (fst (route_data demo_room demo_frame), Ok (DestTcp 2))"
    using demo_frame_routed by (simp add: prod_eq_iff)
  from route_data_isolated [OF demo_room_reachable this] show ?thesis
    by (auto simp: demo_frame_def)
qed

definition probed_sender :: "Peer \<Rightarrow> usize \<Rightarrow> instant \<Rightarrow> Peer" where
  "probed_sender p n now =
     p\<lparr>p_traffic_budget :=
         fst (check_probe (fst (check_traffic (p_traffic_budget p) n now)) now), p_last_seen := now\<rparr>"

lemma route_probe_Ok:
  assumes "route_probe st q = (st', Ok dest)"
  obtains s room p where
    "peer_lookup st (rp_connection_id q) = Some (s, room, p)"
    "validate_source p (rp_from_steam_id64 q) (rp_source q) = Ok ()"
    "has_probe_cap p"
    "st' = store_peer st s room (rp_now q) (rp_connection_id q)
       (probed_sender p (rp_frame_bytes q) (rp_now q))"
    "target_destination (room\<lparr>r_peers := hm_insert (rp_connection_id q)
         (probed_sender p (rp_frame_bytes q) (rp_now q)) (r_peers room),
       r_last_seen := rp_now q\<rparr>) (rp_to_steam_id64 q) True = Ok dest"
  using assms
  by (auto simp: route_probe_def Let_def case_prod_beta probed_sender_def
      split: option.splits res.splits if_splits)

text \<open>
  Routing of path probes is authenticated and isolated in the same way, and only passes
  between two members of one room that both negotiated the room path probe capability; it leaves
  every duplicate window as it was.
\<close>

lemma route_probe_isolated:
  assumes "relay_reachable sha256 st" and "route_probe st q = (st', Ok dest)"
  shows "\<exists>s p c t. member st s (rp_connection_id q) p \<and> has_probe_cap p
     \<and> p_steam_id64 p = rp_from_steam_id64 q \<and> is_source_of p (rp_source q)
     \<and> member st s c t \<and> p_steam_id64 t = rp_to_steam_id64 q \<and> has_probe_cap t
     \<and> is_destination_of t dest
     \<and> (\<forall>c' t'. member st s c' t' \<and> p_steam_id64 t' = rp_to_steam_id64 q \<longrightarrow> c' = c \<and> t' = t)
     \<and> (\<forall>s' c' p'. member st' s' c' p' \<longrightarrow> (\<exists>p0. member st s' c' p0 \<and> p_frames p' = p_frames p0))"
proof -
  have inv: "relay_inv st" using relay.reachable_inv [OF assms(1)] .
  from assms(2) obtain s room p where
    look: "peer_lookup st (rp_connection_id q) = Some (s, room, p)"
    and src: "validate_source p (rp_from_steam_id64 q) (rp_source q) = Ok ()" and cap: "has_probe_cap p"
    and st': "st' = store_peer st s room (rp_now q) (rp_connection_id q)
       (probed_sender p (rp_frame_bytes q) (rp_now q))"
    and t: "target_destination (room\<lparr>r_peers := hm_insert (rp_connection_id q)
         (probed_sender p (rp_frame_bytes q) (rp_now q)) (r_peers room),
       r_last_seen := rp_now q\<rparr>) (rp_to_steam_id64 q) True = Ok dest"
    by (rule route_probe_Ok)
  have "same_endpoint p (probed_sender p (rp_frame_bytes q) (rp_now q))"
    by (simp add: same_endpoint_def probed_sender_def)
  from routed_target [OF inv look this t] obtain c t where
    tm: "member st s c t" "p_steam_id64 t = rp_to_steam_id64 q" "is_destination_of t dest"
      "has_probe_cap t" by blast
  have at: "room_at st s room" using look by (simp add: room_at_def peer_lookup_Some)
  note pm = peer_lookup_member [OF look]
  have "\<exists>p0. member st s' c' p0 \<and> p_frames p' = p_frames p0" if "member st' s' c' p'" for s' c' p'
    using that pm unfolding st' member_store [OF at]
    by (auto simp: probed_sender_def split: if_splits)
  with src cap tm pm target_unique [OF inv tm(1), unfolded tm(2)]
  show ?thesis unfolding validate_source_Ok by blast
qed

definition demo_probe :: RouteProbe where
  "demo_probe = \<lparr>rp_connection_id = 200, rp_from_steam_id64 = 77, rp_to_steam_id64 = 76,
     rp_source = SrcTcp 2, rp_frame_bytes = 40, rp_now = 1\<rparr>"

lemma demo_probe_routed: "snd (route_probe demo_room demo_probe) = Ok (DestTcp 1)"
  by (simp add: demo_room_eq route_probe_def demo_probe_def peer_lookup_def validate_source_def
      demo_peer_def check_traffic_def check_probe_def roll_window_def budget_new_def
      demo_config_def config_default_def target_destination_def Let_def RATE_WINDOW_def secs_def
      usize_saturating_add_def usize_max_def saturating_add_def hm_get_def hm_insert_def
      hm_values_def duration_since_def has_probe_cap_def CAP_ROOM_PATH_PROBE_def
      PROBE_RATE_LIMIT_PER_SECOND_def)

lemma route_probe_isolated_witness:
  "\<exists>s p c t. member demo_room s 200 p \<and> p_steam_id64 p = 77 \<and> is_source_of p (SrcTcp 2)
     \<and> member demo_room s c t \<and> p_steam_id64 t = 76 \<and> is_destination_of t (DestTcp 1)"
proof -
  have "route_probe demo_room demo_probe = (fst (route_probe demo_room demo_probe), Ok (DestTcp 1))"
    using demo_probe_routed by (simp add: prod_eq_iff)
  from route_probe_isolated [OF demo_room_reachable this] show ?thesis
    by (auto simp: demo_probe_def)
qed

section \<open>Structure\<close>

text \<open>
  C3: In every state the relay can reach, whatever clients send: the connection index leads from
  a connection to the one room it is in and covers exactly the connections that are in a room;
  a connection id is never zero; a player is in a room at most once; a peer has a recovery
  deadline exactly while it is reconnecting, a UDP path key exactly when it joined over UDP and
  never a UDP address when it joined over TCP; no room holds more peers and the relay no more
  rooms than configured.
\<close>

theorem relay_state_invariant:
  assumes "relay_reachable sha256 st"
  shows "(hm_get (rs_connection_rooms st) c = Some s \<longleftrightarrow> (\<exists>p. member st s c p))
    \<and> (member st s c p \<longrightarrow> peer_shape c p)
    \<and> (member st s c p \<longrightarrow> member st s c' p' \<longrightarrow> p_steam_id64 p = p_steam_id64 p' \<longrightarrow> c = c')
    \<and> (hm_get (rs_rooms st) s = Some room \<longrightarrow>
         length (r_peers room) \<le> max_peers_per_room (rs_config st))
    \<and> length (rs_rooms st) \<le> max_rooms (rs_config st)"
proof -
  have inv: "relay_inv st" using relay.reachable_inv [OF assms] .
  have "length (rs_rooms st) \<le> max_rooms (rs_config st)"
    "hm_get (rs_rooms st) s = Some room \<longrightarrow> length (r_peers room) \<le> max_peers_per_room (rs_config st)"
    using relay_invD(2) [OF inv] by (simp_all add: rooms_wf_def)
  then show ?thesis
    using relay_invD(8) [OF inv, of s c p] relay_invD(9) [OF inv, of s c]
      relay_invD(10) [OF inv, of c s] relay_invD(11) [OF inv, of s c p c' p'] by blast
qed

theorem relay_state_invariant_witness:
  "(hm_get (rs_connection_rooms demo_room) 100 = Some demo_session \<longleftrightarrow> (\<exists>p. member demo_room demo_session 100 p))
   \<and> length (rs_rooms demo_room) \<le> max_rooms (rs_config demo_room)"
  using relay_state_invariant [OF demo_room_reachable, of 100 demo_session] by blast

text \<open>
  C6: A connection keeps its identity.  Through any step, a member of a room after the step was
  a member of the same room under the same connection id before it, with the same player, name,
  transport profile, capabilities, resume credential and path key, or it is the one connection
  this step admitted, which starts with an empty duplicate window.
\<close>

theorem peer_identity_stable:
  assumes "relay_reachable sha256 st" and "relay_step sha256 st l st'" and "member st' s c p'"
  shows "(\<exists>p. member st s c p \<and> peer_evolves p p') \<or> l = Some c \<and> p_frames p' = window_new"
  using step_member [OF relay.reachable_inv [OF assms(1)] assms(2,3)] .

theorem peer_identity_stable_witness:
  "\<exists>p. member demo_room demo_session 200 p \<and> peer_evolves p (demo_peer 2 77 200)"
proof -
  have "relay_step demo_sha demo_room None (fst (detach demo_room 1 5))"
    by (rule step_detach [OF surjective_pairing])
  moreover have "member (fst (detach demo_room 1 5)) demo_session 200 (demo_peer 2 77 200)"
    by (simp add: member_def detach_def demo_room_eq peer_lookup_def demo_peer_def store_peer_def
        hm_get_def hm_insert_def hm_remove_def Let_def)
  ultimately show ?thesis
    using peer_identity_stable [OF demo_room_reachable, of None _ demo_session 200 "demo_peer 2 77 200"]
    by blast
qed

section \<open>Cleanup\<close>

lemma cleanup_pending:
  "relay_inv st \<Longrightarrow> hm_get (rs_pending (fst (cleanup st now))) cp =
     (case hm_get (rs_pending st) cp of
        None \<Rightarrow> None
      | Some pj \<Rightarrow> if duration_since now (pj_issued_at pj) < CHALLENGE_LIFETIME then Some pj else None)"
  using relay_invD(3) [of st]
  by (auto simp: cleanup_state retain_rooms_def retain_pending_def split: option.split)

text \<open>
  The periodic cleanup removes exactly what has expired: a peer goes if and only if its
  recovery deadline has passed, a pending join if and only if its challenge is thirty seconds
  old, and the connection index keeps exactly the peers that stay.
\<close>

lemma cleanup_exact:
  assumes "relay_reachable sha256 st"
  shows "(member (fst (cleanup st now)) s c p \<longleftrightarrow> member st s c p \<and> \<not> peer_expired now p)
    \<and> (hm_get (rs_connection_rooms (fst (cleanup st now))) c = Some s
         \<longleftrightarrow> (\<exists>p. member st s c p \<and> \<not> peer_expired now p))
    \<and> hm_get (rs_pending (fst (cleanup st now))) cp =
       (case hm_get (rs_pending st) cp of
          None \<Rightarrow> None
        | Some pj \<Rightarrow>
            if duration_since now (pj_issued_at pj) < CHALLENGE_LIFETIME then Some pj else None)"
proof -
  have inv: "relay_inv st" using relay.reachable_inv [OF assms] .
  note inv' = relay_inv_cleanup [OF inv, of now]
  have "hm_get (rs_connection_rooms (fst (cleanup st now))) c = Some s
      \<longleftrightarrow> (\<exists>p. member (fst (cleanup st now)) s c p)"
    using relay_invD(9,10) [OF inv'] by blast
  then show ?thesis by (simp add: member_cleanup [OF inv] cleanup_pending [OF inv])
qed

lemma cleanup_exact_witness:
  "member (fst (cleanup demo_room 7)) demo_session 100 (demo_peer 1 76 100)
     \<longleftrightarrow> member demo_room demo_session 100 (demo_peer 1 76 100) \<and> \<not> peer_expired 7 (demo_peer 1 76 100)"
  using cleanup_exact [OF demo_room_reachable] by blast

section \<open>Recovery\<close>

lemma resume_result:
  assumes inv: "relay_inv st" and m: "member st s c p"
  shows "p_resume_key p \<noteq> key \<Longrightarrow> resume st cp c key now = (st, Err RF_InvalidCredential)"
    "p_resume_key p = key \<Longrightarrow> p_detached_until p = Some d \<Longrightarrow> d < now \<Longrightarrow>
       resume st cp c key now = (st, Err RF_Expired)"
    "p_resume_key p = key \<Longrightarrow> (\<And>d. p_detached_until p = Some d \<Longrightarrow> now \<le> d) \<Longrightarrow>
       (\<exists>r. snd (resume st cp c key now) = Ok r \<and> rr_connection_id r = c)
       \<and> member (fst (resume st cp c key now)) s c
           (p\<lparr>p_control_peer := cp, p_presence := Connected, p_detached_until := None, p_last_seen := now\<rparr>)
       \<and> connection_for_control (fst (resume st cp c key now)) cp = Some c"
proof -
  obtain room where r: "hm_get (rs_rooms st) s = Some room" and look: "peer_lookup st c = Some (s, room, p)"
    using member_peer_lookup [OF inv m] by blast
  show "p_resume_key p \<noteq> key \<Longrightarrow> resume st cp c key now = (st, Err RF_InvalidCredential)"
    by (simp add: resume_def look)
  show "p_resume_key p = key \<Longrightarrow> p_detached_until p = Some d \<Longrightarrow> d < now \<Longrightarrow>
       resume st cp c key now = (st, Err RF_Expired)"
    by (simp add: resume_def look)
  assume k: "p_resume_key p = key" and d: "\<And>d. p_detached_until p = Some d \<Longrightarrow> now \<le> d"
  have "\<not> (case p_detached_until p of None \<Rightarrow> False | Some deadline \<Rightarrow> deadline < now)"
    using d by (auto split: option.split)
  then show "(\<exists>r. snd (resume st cp c key now) = Ok r \<and> rr_connection_id r = c)
       \<and> member (fst (resume st cp c key now)) s c
           (p\<lparr>p_control_peer := cp, p_presence := Connected, p_detached_until := None, p_last_seen := now\<rparr>)
       \<and> connection_for_control (fst (resume st cp c key now)) cp = Some c"
    using k by (simp add: resume_def look Let_def member_def store_peer_def connection_for_control_def)
qed

lemma detach_member:
  assumes inv: "relay_inv st" and m: "member st s c p"
    and cp: "connection_for_control st cp = Some c" "p_control_peer p = cp" "p_presence p = Connected"
  shows "member (fst (detach st cp t)) s c
     (p\<lparr>p_presence := Reconnecting, p_detached_until := Some (t + RECOVERY_GRACE)\<rparr>)"
proof -
  obtain room where look: "peer_lookup st c = Some (s, room, p)"
    using member_peer_lookup [OF inv m] by blast
  then have "peer_lookup (st\<lparr>rs_control_connections := hm_remove cp (rs_control_connections st)\<rparr>) c
      = Some (s, room, p)"
    by (simp add: peer_lookup_Some)
  then show ?thesis
    using cp by (simp add: detach_def connection_for_control_def Let_def member_def store_peer_def)
qed

text \<open>
  C4: A dropped control connection can be recovered.  When the control connection of a connected
  peer drops at time \<open>t\<close> and a cleanup runs before the grace period of 120 seconds is over, then
  until the end of that period a resume with the peer's credential succeeds from any control
  connection: the peer is back in its room under the same connection id, connected, with the same
  duplicate window, traffic budget and UDP path; with any other credential, or later, it is
  refused and nothing changes.
\<close>

theorem detach_then_resume:
  assumes "relay_reachable sha256 st" and "member st s c p"
    and "connection_for_control st cp = Some c" "p_control_peer p = cp" "p_presence p = Connected"
    and "st1 = fst (cleanup (fst (detach st cp t)) t')" and "t' < t + RECOVERY_GRACE"
  shows "(now \<le> t + RECOVERY_GRACE \<longrightarrow>
       (\<exists>r. snd (resume st1 cp' c (p_resume_key p) now) = Ok r \<and> rr_connection_id r = c)
       \<and> member (fst (resume st1 cp' c (p_resume_key p) now)) s c
           (p\<lparr>p_control_peer := cp', p_detached_until := None, p_last_seen := now\<rparr>)
       \<and> connection_for_control (fst (resume st1 cp' c (p_resume_key p) now)) cp' = Some c)
    \<and> (t + RECOVERY_GRACE < now \<longrightarrow>
         resume st1 cp' c (p_resume_key p) now = (st1, Err RF_Expired))
    \<and> (key \<noteq> p_resume_key p \<longrightarrow> resume st1 cp' c key now = (st1, Err RF_InvalidCredential))"
proof -
  let ?p = "p\<lparr>p_presence := Reconnecting, p_detached_until := Some (t + RECOVERY_GRACE)\<rparr>"
  have inv: "relay_inv st" using relay.reachable_inv [OF assms(1)] .
  note invd = relay_inv_detach [OF inv, of cp t]
  have inv1: "relay_inv st1" using relay_inv_cleanup [OF invd, of t'] assms(6) by simp
  have "member (fst (detach st cp t)) s c ?p"
    using inv assms(2-5) by (rule detach_member)
  moreover have "\<not> peer_expired t' ?p" using assms(7) by (simp add: peer_expired_def)
  ultimately have m: "member st1 s c ?p" by (simp add: assms(6) member_cleanup [OF invd])
  note r = resume_result [OF inv1 m]
  have eq: "?p\<lparr>p_control_peer := cp', p_presence := Connected, p_detached_until := None,
      p_last_seen := now\<rparr> = p\<lparr>p_control_peer := cp', p_detached_until := None, p_last_seen := now\<rparr>"
    using assms(5) by simp
  show ?thesis
    using r(1) [of key cp' now] r(2) [of "p_resume_key p" "t + RECOVERY_GRACE" now cp']
      r(3) [of "p_resume_key p" now cp', unfolded eq]
    by simp
qed

theorem detach_then_resume_witness:
  "\<exists>r. snd (resume (fst (cleanup (fst (detach demo_room 1 0)) 5)) 3 100 [9] 6) = Ok r
       \<and> rr_connection_id r = 100"
proof -
  have "member demo_room demo_session 100 (demo_peer 1 76 100)" "connection_for_control demo_room 1 = Some 100"
    by (simp_all add: member_def connection_for_control_def demo_room_eq hm_get_def)
  from detach_then_resume [OF demo_room_reachable this, of _ 0 5 6 3 "[]"] show ?thesis
    by (simp add: demo_peer_def RECOVERY_GRACE_def secs_def)
qed

section \<open>Joining\<close>

lemma room_views_members:
  assumes "hm_wf (r_peers room)"
  shows "set (room_views room) = {peer_view p | p. \<exists>c. hm_get (r_peers room) c = Some p}"
    "sorted (map pw_steam_id64 (room_views room))"
  using set_hm_values [OF assms] by (auto simp: room_views_def)

text \<open>Joining as another player or into another room never removes a peer.\<close>

lemma remove_duplicate_keeps:
  assumes inv: "relay_inv st" and m: "member st s' c p" and other: "s' \<noteq> s \<or> p_steam_id64 p \<noteq> i"
  shows "member (remove_duplicate st s i) s' c p"
proof (cases "duplicate_connection st s i")
  case (Some d)
  from duplicate_Some [OF inv this] obtain p0 where "member st s d p0" "p_steam_id64 p0 = i" by blast
  then have "c \<noteq> d" using member_unique [OF inv m] other by blast
  then show ?thesis using Some m by (simp add: remove_duplicate_def member_remove [OF inv])
qed (simp add: remove_duplicate_def m)

lemma capacity_pending: "validate_room_capacity (st\<lparr>rs_pending := m\<rparr>) s i = validate_room_capacity st s i"
  by (simp add: validate_room_capacity_def split: option.split)

lemma remove_duplicate_fresh:
  "hm_get (rs_connection_rooms st) v = None
     \<Longrightarrow> hm_get (rs_connection_rooms (remove_duplicate st s i)) v = None"
  by (simp add: remove_duplicate_def connection_rooms_remove split: option.split)

lemma admit_views:
  assumes "relay_inv (fst (admit st s peer now))"
  shows "set (jr_peers (fst (snd (admit st s peer now))))
       = {peer_view p | p. \<exists>c. member (fst (admit st s peer now)) s c p}"
    "sorted (map pw_steam_id64 (jr_peers (fst (snd (admit st s peer now)))))"
proof -
  let ?st = "fst (admit st s peer now)"
  obtain room where r: "hm_get (rs_rooms ?st) s = Some room"
    and v: "jr_peers (fst (snd (admit st s peer now))) = room_views room"
    by (simp add: admit_def Let_def store_peer_def)
  have "hm_wf (r_peers room)" using relay_invD(7) [OF assms r] .
  from room_views_members [OF this]
  show "set (jr_peers (fst (snd (admit st s peer now)))) = {peer_view p | p. \<exists>c. member ?st s c p}"
    "sorted (map pw_steam_id64 (jr_peers (fst (snd (admit st s peer now)))))"
    by (simp_all add: v member_def r)
qed

text \<open>
  C5: A valid join is admitted.  When the challenge is the pending one, not older than thirty
  seconds, the proof of work is right and there is room, the join completes as soon as one of the
  drawn random numbers is non-zero and unused, whichever come before it: the new peer is in its
  room under the connection id and resume credential the reply names, the reply lists exactly the
  members of the room in the order of their player ids, every peer that is not the same player's
  earlier connection in that room stays as it was, and the challenge is used up.
\<close>

theorem complete_join_admits:
  assumes reach: "relay_reachable sha256 st" and pend: "hm_get (rs_pending st) cp = Some pj"
    and ok: "check_pending sha256 st pj ch pf now = Ok ()"
    and draw: "v \<in> set draws" "v \<noteq> 0" "hm_get (rs_connection_rooms st) v = None"
  shows "\<exists>st' ready bc p.
     complete_join sha256 draws rr rp st cp ch pf now = Some (st', Ok (ready, bc))
     \<and> member st' (pj_session pj) (jr_connection_id ready) p
     \<and> p_steam_id64 p = pj_steam_id64 pj \<and> p_control_peer p = cp
     \<and> p_resume_key p = jr_resume_key ready \<and> p_presence p = Connected
     \<and> set (jr_peers ready) = {peer_view q | q. \<exists>c. member st' (pj_session pj) c q}
     \<and> sorted (map pw_steam_id64 (jr_peers ready))
     \<and> (\<forall>s c q. member st s c q \<and> (s \<noteq> pj_session pj \<or> p_steam_id64 q \<noteq> pj_steam_id64 pj)
           \<longrightarrow> member st' s c q)
     \<and> hm_get (rs_pending st') cp = None"
proof -
  let ?st = "st\<lparr>rs_pending := hm_remove cp (rs_pending st)\<rparr>"
  let ?sd = "remove_duplicate ?st (pj_session pj) (pj_steam_id64 pj)"
  have inv: "relay_inv st" using relay.reachable_inv [OF reach] .
  have inv1: "relay_inv ?st" using inv relay_invD(3) [OF inv] by (simp add: relay_inv_pending)
  have ok1: "check_pending sha256 ?st pj ch pf now = Ok ()"
    using ok by (simp add: check_pending_Ok capacity_pending)
  have "hm_get (rs_connection_rooms ?sd) v = None" using draw(3) by (simp add: remove_duplicate_fresh)
  then obtain c0 where c0: "random_nonzero_u64 (rs_connection_rooms ?sd) draws = Some c0"
    using random_nonzero_returns draw by blast
  let ?peer = "new_peer (rs_config st) pj cp c0 rr rp now"
  let ?a = "admit ?sd (pj_session pj) ?peer now"
  have cj: "complete_join sha256 draws rr rp st cp ch pf now
      = Some (fst ?a, Ok (fst (snd ?a), snd (snd ?a)))"
    by (simp add: complete_join_def pend ok1 c0 Let_def case_prod_beta)
  have inv2: "relay_inv (fst ?a)" by (rule relay_inv_complete_join [OF inv cj])
  have keep: "member (fst ?a) s c q"
    if "member st s c q" "s \<noteq> pj_session pj \<or> p_steam_id64 q \<noteq> pj_steam_id64 pj" for s c q
  proof -
    have m: "member ?sd s c q" using that inv1 by (intro remove_duplicate_keeps) (simp_all add: member_def)
    moreover have "c \<noteq> c0"
      using random_nonzero_Some [OF c0] relay_invD(9) [OF relay_inv_remove_duplicate [OF inv1] m] by auto
    ultimately show ?thesis by (simp add: member_admit)
  qed
  have "member (fst ?a) (pj_session pj) (jr_connection_id (fst (snd ?a))) ?peer"
    by (simp add: member_admit admit_ready)
  moreover have "jr_resume_key (fst (snd ?a)) = rr" "hm_get (rs_pending (fst ?a)) cp = None"
    using relay_invD(3) [OF inv] by (simp_all add: admit_def Let_def)
  ultimately show ?thesis
    using cj keep admit_views [OF inv2] by (intro exI [of _ "fst ?a"] exI [of _ "fst (snd ?a)"]
      exI [of _ "snd (snd ?a)"] exI [of _ ?peer]) simp
qed

theorem complete_join_admits_witness:
  "\<exists>st' ready bc p.
     complete_join demo_sha [0, 100, 300] [9] [8] (fst (begin_join demo_room [3] [4] (demo_begin 3 78)))
       3 [3] [] 9 = Some (st', Ok (ready, bc))
     \<and> member st' demo_session (jr_connection_id ready) p \<and> p_steam_id64 p = 78"
proof -
  let ?st = "fst (begin_join demo_room [3] [4] (demo_begin 3 78))"
  let ?pj = "\<lparr>pj_session = demo_session, pj_steam_id64 = 78, pj_display_name = None, pj_profile = Tcp,
    pj_capabilities = CAP_ROOM_PATH_PROBE, pj_challenge_id = [3], pj_pow_nonce = [4], pj_issued_at = 0\<rparr>"
  have reach: "relay_reachable demo_sha ?st"
    using demo_room_reachable step_begin_join [OF surjective_pairing] by (blast intro: reach_step)
  have st: "?st = demo_room\<lparr>rs_pending := [(3, ?pj)]\<rparr>"
    by (simp add: begin_join_def demo_room_eq demo_begin_def demo_config_def config_default_def
        validate_room_capacity_def hm_get_def hm_values_def hm_insert_def Let_def)
  have pend: "hm_get (rs_pending ?st) 3 = Some ?pj" by (simp add: st hm_get_def)
  have ok: "check_pending demo_sha ?st ?pj [3] [] 9 = Ok ()"
    by (simp add: st check_pending_Ok capacity_pending)
      (simp add: demo_room_eq verify_pow_def validate_room_capacity_def demo_config_def
        config_default_def hm_get_def hm_values_def duration_since_def CHALLENGE_LIFETIME_def
        secs_def Let_def)
  have "hm_get (rs_connection_rooms ?st) 300 = None"
    unfolding st by (simp add: demo_room_eq hm_get_def)
  from complete_join_admits [OF reach pend ok _ _ this, of "[0, 100, 300]" "[9]" "[8]"]
  show ?thesis by simp blast
qed

section \<open>Proof of work\<close>

lemma be_dec_append: "be_dec (xs @ ys) = be_dec xs * 256 ^ length ys + be_dec ys"
proof (induction ys rule: rev_induct)
  case (snoc y ys)
  then show ?case
    by (simp only: append_assoc [symmetric] be_dec_snoc) (simp add: algebra_simps)
qed simp

lemma be_dec_zero: "be_dec xs = 0 \<longleftrightarrow> list_all (\<lambda>b. b = 0) xs"
  by (induction xs rule: rev_induct) (auto simp: unat_eq_0)

lemma scaled_less: "(z :: nat) < K \<Longrightarrow> m * K + z < B * K \<longleftrightarrow> m < B"
proof
  assume z: "z < K" and "m * K + z < B * K"
  then have "m * K < B * K" by linarith
  then show "m < B" by simp
next
  assume z: "z < K" and "m < B"
  then have "(m + 1) * K \<le> B * K" by (intro mult_right_mono) simp_all
  then show "m * K + z < B * K" using z by simp
qed

lemma byte_high_bits: "r < 8 \<Longrightarrow> drop_bit r (b :: byte) = 0 \<longleftrightarrow> unat b < 2 ^ r"
proof -
  have "unat b < 2 ^ 8" using unsigned_less [of b, where 'a = nat] by simp
  then have "unat (drop_bit r b) = unat b div 2 ^ r"
    using unsigned_drop_bit_eq [where 'a = nat, of r b]
    by (simp add: drop_bit_eq_div take_bit_nat_eq_self)
  moreover have "drop_bit r b = 0 \<longleftrightarrow> unat (drop_bit r b) = 0" by (simp only: unat_eq_0)
  ultimately show ?thesis by (simp add: div_eq_0_iff)
qed

lemma be_dec_below:
  assumes "w \<le> length d"
  shows "be_dec d < 256 ^ (length d - w) \<longleftrightarrow> list_all (\<lambda>b. b = 0) (take w d)"
proof -
  have "be_dec (take w d @ drop w d) < 1 * 256 ^ (length d - w) \<longleftrightarrow> be_dec (take w d) < 1"
    unfolding be_dec_append
    using scaled_less [OF be_dec_bound [of "drop w d"], of "be_dec (take w d)" 1] by simp
  then show ?thesis by (simp add: be_dec_zero)
qed

lemma be_dec_below_bits:
  assumes w: "w < length d" and r: "0 < r" "r < 8"
  shows "be_dec d < 2 ^ r * 256 ^ (length d - Suc w)
    \<longleftrightarrow> list_all (\<lambda>b. b = 0) (take w d) \<and> unat (d ! w) < 2 ^ r"
proof -
  let ?x = "be_dec (take w d)" and ?b = "unat (d ! w)"
  have "be_dec (take (Suc w) d @ drop (Suc w) d) < 2 ^ r * 256 ^ (length d - Suc w)
      \<longleftrightarrow> be_dec (take (Suc w) d) < 2 ^ r"
    unfolding be_dec_append
    using scaled_less [OF be_dec_bound [of "drop (Suc w) d"], of "be_dec (take (Suc w) d)" "2 ^ r"]
    by simp
  also have "be_dec (take (Suc w) d) = ?x * 256 + ?b"
    using w by (simp add: take_Suc_conv_app_nth)
  also have "?x * 256 + ?b < 2 ^ r \<longleftrightarrow> ?x = 0 \<and> ?b < 2 ^ r"
  proof -
    have "(2 :: nat) ^ r \<le> 2 ^ 8" using r(2) by (intro power_increasing) simp_all
    then show ?thesis by (cases ?x) simp_all
  qed
  finally show ?thesis by (simp add: be_dec_zero)
qed

text \<open>
  The proof of work check is the usual one: a digest passes for \<open>bits\<close> bits exactly when it
  is long enough and, read as a big-endian number, is below two to the power of its width less
  \<open>bits\<close>.
\<close>

lemma leading_zero_bits_numeric:
  assumes "unat bits \<le> 8 * length digest"
  shows "leading_zero_bits digest bits \<longleftrightarrow> be_dec digest < 2 ^ (8 * length digest - unat bits)"
proof -
  define w r where "w = unat bits div 8" and "r = unat bits mod 8"
  have n: "unat bits = 8 * w + r" "r < 8" by (simp_all add: w_def r_def)
  have lz: "leading_zero_bits digest bits \<longleftrightarrow> w \<le> length digest \<and> list_all (\<lambda>b. b = 0) (take w digest)
      \<and> (r = 0 \<or> w < length digest \<and> drop_bit (8 - r) (digest ! w) = 0)"
    by (simp add: leading_zero_bits_def w_def r_def Let_def)
  show ?thesis
  proof (cases "r = 0")
    case True
    then have "w \<le> length digest" using assms n by simp
    moreover have "(2 :: nat) ^ (8 * length digest - unat bits) = 256 ^ (length digest - w)"
      using True n by (simp add: power_mult diff_mult_distrib2 [symmetric])
    ultimately show ?thesis using True by (simp add: lz be_dec_below)
  next
    case False
    then have w: "w < length digest" using assms n by simp
    then have "8 * length digest - unat bits = (8 - r) + 8 * (length digest - Suc w)" using n by simp
    then have "(2 :: nat) ^ (8 * length digest - unat bits)
        = 2 ^ (8 - r) * 256 ^ (length digest - Suc w)"
      by (simp add: power_add power_mult)
    then show ?thesis
      using False w n(2) by (simp add: lz be_dec_below_bits byte_high_bits)
  qed
qed

lemma leading_zero_bits_numeric_witness:
  "leading_zero_bits [0, 15] 12 \<longleftrightarrow> be_dec [0, 15] < 2 ^ (8 * length [0 :: byte, 15] - unat (12 :: byte))"
  by (rule leading_zero_bits_numeric) simp

end
