(* ===== verification/Relay_Orphans.thy ===== *)
theory Relay_Orphans
  imports Relay_Guarantees
begin

text \<open>
  What becomes of a connection whose control connection is given to another one: it can only be reached by its own
  player, with its credential or by joining the room again.
\<close>

section \<open>Which control connections lead to a connection\<close>

lemma control_remove:
  "relay_inv st \<Longrightarrow> hm_get (rs_control_connections (fst (remove_connection st c))) cp = Some d
     \<Longrightarrow> hm_get (rs_control_connections st) cp = Some d"
  using relay_invD(5) [of st]
  by (auto simp: remove_connection_def Let_def split: option.splits if_splits)

lemma control_remove_all:
  "relay_inv st \<Longrightarrow> hm_get (rs_control_connections (fst (remove_all st cs))) cp = Some d
     \<Longrightarrow> hm_get (rs_control_connections st) cp = Some d"
proof (induction cs arbitrary: st)
  case (Cons c cs)
  from Cons.prems(2)
  have "hm_get (rs_control_connections (fst (remove_all (fst (remove_connection st c)) cs))) cp = Some d"
    by (simp add: case_prod_beta Let_def)
  from Cons.IH [OF relay_inv_remove [OF Cons.prems(1)] this] control_remove [OF Cons.prems(1)]
  show ?case by blast
qed simp

lemma control_cleanup:
  assumes "relay_inv st" and "connection_for_control (fst (cleanup st now)) cp = Some d"
  shows "connection_for_control st cp = Some d"
  using assms(2) control_remove_all [OF relay_inv_retain_pending [OF assms(1)]]
  unfolding connection_for_control_def cleanup_state
  by (simp add: retain_rooms_def) (simp add: retain_pending_def)

text \<open>No control connection leads to \<open>a\<close> that did not before.\<close>

definition no_new_control :: "u64 \<Rightarrow> RelayState \<Rightarrow> RelayState \<Rightarrow> bool" where
  "no_new_control a st st' \<longleftrightarrow>
     (\<forall>cp. connection_for_control st' cp = Some a \<longrightarrow> connection_for_control st cp = Some a)"

lemma no_new_control_cong:
  "rs_control_connections st' = rs_control_connections st \<Longrightarrow> no_new_control a st st'"
  by (simp add: no_new_control_def connection_for_control_def)

lemma no_new_control_remove: "relay_inv st \<Longrightarrow> no_new_control a st (fst (remove_connection st c))"
  using control_remove [of st c] by (simp add: no_new_control_def connection_for_control_def)

lemma no_new_control_cleanup: "relay_inv st \<Longrightarrow> no_new_control a st (fst (cleanup st now))"
  using control_cleanup [of st now] by (simp add: no_new_control_def)

text \<open>\<open>a\<close> is in its room as a connected peer with this credential and player, and no control connection leads to it.\<close>

definition orphaned :: "RelayState \<Rightarrow> SessionKey \<Rightarrow> u64 \<Rightarrow> ResumeKey \<Rightarrow> u64 \<Rightarrow> bool" where
  "orphaned st s a key steam \<longleftrightarrow>
     (\<exists>p. member st s a p \<and> p_presence p = Connected \<and> p_resume_key p = key \<and> p_steam_id64 p = steam)
     \<and> (\<forall>cp. connection_for_control st cp \<noteq> Some a)"

section \<open>Steps of strangers\<close>

text \<open>
  Every step of the relay but a resume of connection \<open>a\<close> with its credential \<open>key\<close> and a join of its player \<open>steam\<close>
  to its room \<open>s\<close>.
\<close>

inductive stranger_step ::
  "(byte list \<Rightarrow> byte list) \<Rightarrow> SessionKey \<Rightarrow> u64 \<Rightarrow> ResumeKey \<Rightarrow> u64 \<Rightarrow> RelayState \<Rightarrow> RelayState \<Rightarrow> bool"
  for sha256 s a key steam where
  by_begin_join: "begin_join st rc rn j = (st', r) \<Longrightarrow> stranger_step sha256 s a key steam st st'"
| by_join:
    "complete_join sha256 draws rr rp st cp ch pf now = Some (st', r)
       \<Longrightarrow> (\<And>pj. hm_get (rs_pending st) cp = Some pj \<Longrightarrow> pj_session pj \<noteq> s \<or> pj_steam_id64 pj \<noteq> steam)
       \<Longrightarrow> stranger_step sha256 s a key steam st st'"
| by_resume:
    "resume st cp c k now = (st', r1) \<Longrightarrow> c \<noteq> a \<or> k \<noteq> key \<Longrightarrow> stranger_step sha256 s a key steam st st'"
| by_detach: "detach st cp now = (st', b) \<Longrightarrow> stranger_step sha256 s a key steam st st'"
| by_stop: "stop st cp = (st', b) \<Longrightarrow> stranger_step sha256 s a key steam st st'"
| by_bind: "bind_udp_path st c k addr now = (st', r2) \<Longrightarrow> stranger_step sha256 s a key steam st st'"
| by_data: "route_data st q = (st', r3) \<Longrightarrow> stranger_step sha256 s a key steam st st'"
| by_probe: "route_probe st qp = (st', r4) \<Longrightarrow> stranger_step sha256 s a key steam st st'"
| by_cleanup: "cleanup st now = (st', bs) \<Longrightarrow> stranger_step sha256 s a key steam st st'"

lemma stranger_relay_step:
  "stranger_step sha256 s a key steam st st' \<Longrightarrow> \<exists>l. relay_step sha256 st l st'"
proof (induction rule: stranger_step.induct)
  case (by_join draws rr rp st cp ch pf now st' r)
  then show ?case using complete_join_no_Panic by (cases r) (auto intro: step_join step_join_rejected)
qed (blast intro: relay_step.intros)+

lemma orphaned_keep:
  assumes "orphaned st s a key steam" and "no_new_control a st st'"
    and "\<And>p. member st s a p \<Longrightarrow> p_presence p = Connected \<Longrightarrow> p_resume_key p = key \<Longrightarrow> p_steam_id64 p = steam
      \<Longrightarrow> \<exists>p'. member st' s a p' \<and> p_presence p' = Connected \<and> p_resume_key p' = key \<and> p_steam_id64 p' = steam"
  shows "orphaned st' s a key steam"
  using assms unfolding orphaned_def no_new_control_def by blast

lemma orphaned_cong:
  "orphaned st s a key steam \<Longrightarrow> rs_rooms st' = rs_rooms st \<Longrightarrow> no_new_control a st st' \<Longrightarrow> orphaned st' s a key steam"
  using member_cong [of st' st] by (auto simp: orphaned_def no_new_control_def)

text \<open>Writing the record of a peer leaves the orphan as it is, when the record keeps what matters.\<close>

lemma orphaned_store:
  assumes o: "orphaned st s a key steam" and look: "peer_lookup st c = Some (s', room, p)"
    and same: "c = a \<Longrightarrow> p_presence p' = p_presence p \<and> p_resume_key p' = p_resume_key p \<and> p_steam_id64 p' = p_steam_id64 p"
  shows "orphaned (store_peer st s' room l c p') s a key steam"
proof -
  have at: "room_at st s' room" using look by (simp add: room_at_def peer_lookup_Some)
  have m: "member st s' c p" using look by (rule peer_lookup_member)
  show ?thesis
  proof (rule orphaned_keep [OF o no_new_control_cong])
    fix q assume q: "member st s a q" "p_presence q = Connected" "p_resume_key q = key" "p_steam_id64 q = steam"
    show "\<exists>q'. member (store_peer st s' room l c p') s a q' \<and> p_presence q' = Connected \<and> p_resume_key q' = key
        \<and> p_steam_id64 q' = steam"
    proof (cases "s = s' \<and> a = c")
      case True
      then have "q = p" using q(1) m member_fun by blast
      then show ?thesis using True same q by (simp add: member_store [OF at])
    next
      case False
      then have "member (store_peer st s' room l c p') s a q" using q(1) by (auto simp: member_store [OF at])
      then show ?thesis using q by blast
    qed
  qed simp
qed

lemma orphaned_control:
  assumes "orphaned st s a key steam" and "\<And>cp. hm_get m cp = Some a \<Longrightarrow> hm_get (rs_control_connections st) cp = Some a"
  shows "orphaned (st\<lparr>rs_control_connections := m\<rparr>) s a key steam"
  using assms by (auto simp: orphaned_def connection_for_control_def member_def)

lemma orphaned_remove:
  assumes "relay_inv st" and "orphaned st s a key steam" and "c \<noteq> a"
  shows "orphaned (fst (remove_connection st c)) s a key steam"
  using assms by (auto intro!: orphaned_keep [OF assms(2) no_new_control_remove] simp: member_remove)

lemma orphaned_begin_join:
  assumes "orphaned st s a key steam"
  shows "orphaned (fst (begin_join st rc rn j)) s a key steam"
proof (rule orphaned_cong [OF assms begin_join_rooms no_new_control_cong])
  show "rs_control_connections (fst (begin_join st rc rn j)) = rs_control_connections st"
    by (simp add: begin_join_def Let_def split: res.split)
qed

lemma orphaned_resume:
  assumes inv: "relay_inv st" and o: "orphaned st s a key steam" and other: "c \<noteq> a \<or> k \<noteq> key"
  shows "orphaned (fst (resume st cp c k now)) s a key steam"
proof (cases "peer_lookup st c")
  case (Some e)
  obtain s' room p where e: "e = (s', room, p)" by (cases e)
  note look = Some [unfolded e]
  show ?thesis
  proof (cases "c = a")
    case True
    have "p_resume_key p = key"
      using o peer_lookup_member [OF look] True member_unique [OF inv] unfolding orphaned_def by blast
    then show ?thesis using True other o look by (simp add: resume_def)
  next
    case False
    have st: "orphaned (store_peer st s' room now c p') s a key steam" for p'
      using orphaned_store [OF o look] False by blast
    show ?thesis
      using look o False
      by (auto simp: resume_def Let_def intro!: orphaned_control [OF st] split: if_splits)
  qed
qed (simp add: resume_def o)

lemma orphaned_detach:
  assumes o: "orphaned st s a key steam"
  shows "orphaned (fst (detach st cp now)) s a key steam"
proof (cases "hm_get (rs_control_connections st) cp")
  case (Some c)
  let ?st = "st\<lparr>rs_control_connections := hm_remove cp (rs_control_connections st)\<rparr>"
  have c: "c \<noteq> a" using o Some by (auto simp: orphaned_def connection_for_control_def)
  have o': "orphaned ?st s a key steam" using o by (rule orphaned_control) (simp split: if_splits)
  show ?thesis
    using Some o' orphaned_store [OF o'] c
    by (auto simp: detach_def Let_def split: option.split)
qed (simp add: detach_def o)

lemma orphaned_stop:
  assumes inv: "relay_inv st" and o: "orphaned st s a key steam"
  shows "orphaned (fst (stop st cp)) s a key steam"
proof (cases "hm_get (rs_control_connections st) cp")
  case (Some c)
  let ?st = "st\<lparr>rs_control_connections := hm_remove cp (rs_control_connections st)\<rparr>"
  have "c \<noteq> a" using o Some by (auto simp: orphaned_def connection_for_control_def)
  moreover have "orphaned ?st s a key steam" using o by (rule orphaned_control) (simp split: if_splits)
  moreover have "relay_inv ?st" using inv relay_invD(5) [OF inv] by (simp add: relay_inv_control)
  ultimately show ?thesis using Some by (simp add: stop_def orphaned_remove)
qed (simp add: stop_def o)

lemma orphaned_bind: "orphaned st s a key steam \<Longrightarrow> orphaned (fst (bind_udp_path st c k addr now)) s a key steam"
  by (auto simp: bind_udp_path_def intro!: orphaned_store split: option.split)

lemma orphaned_sender:
  "orphaned st s a key steam \<Longrightarrow> sender_update st c st' \<Longrightarrow> orphaned st' s a key steam"
  by (auto simp: sender_update_def intro!: orphaned_store)

lemma orphaned_cleanup:
  assumes inv: "relay_inv st" and o: "orphaned st s a key steam"
  shows "orphaned (fst (cleanup st now)) s a key steam"
proof (rule orphaned_keep [OF o no_new_control_cleanup [OF inv]])
  fix p assume p: "member st s a p" "p_presence p = Connected" "p_resume_key p = key" "p_steam_id64 p = steam"
  then have "p_detached_until p = None" using relay_invD(8) [OF inv p(1)] by (auto simp: peer_shape_def)
  then have "member (fst (cleanup st now)) s a p" using p(1) by (simp add: member_cleanup [OF inv] peer_expired_def)
  then show "\<exists>p'. member (fst (cleanup st now)) s a p' \<and> p_presence p' = Connected \<and> p_resume_key p' = key
      \<and> p_steam_id64 p' = steam" using p by blast
qed

text \<open>A join of another player, or to another room: the orphan stays, and the joining connection does not lead to it.\<close>

lemma join_other:
  assumes inv: "relay_inv st"
    and cj: "complete_join sha draws rr rp st cp ch pf now = Some (st', Ok (ready, bc))"
    and m: "member st s a p"
    and other: "\<And>pj. hm_get (rs_pending st) cp = Some pj \<Longrightarrow> pj_session pj \<noteq> s \<or> pj_steam_id64 pj \<noteq> p_steam_id64 p"
  shows "member st' s a p"
    and "connection_for_control st' cp' = Some a \<Longrightarrow> cp' \<noteq> cp \<and> connection_for_control st cp' = Some a"
proof -
  let ?st = "st\<lparr>rs_pending := hm_remove cp (rs_pending st)\<rparr>"
  have inv1: "relay_inv ?st" using inv relay_invD(3) [OF inv] by (simp add: relay_inv_pending)
  have m1: "member ?st s a p" using m by (simp add: member_def)
  obtain pending c0 where
    pend: "hm_get (rs_pending st) cp = Some pending"
    and c0: "random_nonzero_u64 (rs_connection_rooms (remove_duplicate ?st (pj_session pending) (pj_steam_id64 pending)))
       draws = Some c0"
    and adm: "(st', ready, bc) = admit (remove_duplicate ?st (pj_session pending) (pj_steam_id64 pending))
       (pj_session pending) (new_peer (rs_config st) pending cp c0 rr rp now) now"
    by (rule complete_join_Ok [OF cj]) (rule that, assumption+)
  let ?sd = "remove_duplicate ?st (pj_session pending) (pj_steam_id64 pending)"
  let ?peer = "new_peer (rs_config st) pending cp c0 rr rp now"
  have st': "st' = fst (admit ?sd (pj_session pending) ?peer now)" by (simp add: adm [symmetric])
  have foreign: "s \<noteq> pj_session pending \<or> p_steam_id64 p \<noteq> pj_steam_id64 pending" using other [OF pend] by auto
  have md: "member ?sd s a p" by (rule remove_duplicate_keeps [OF inv1 m1 foreign])
  have "hm_get (rs_connection_rooms ?sd) a = Some s"
    using relay_invD(9) [OF relay_inv_remove_duplicate [OF inv1] md] .
  then have ne: "c0 \<noteq> a" using random_nonzero_Some [OF c0] by auto
  show "member st' s a p" using md ne unfolding st' member_admit by simp
  assume c: "connection_for_control st' cp' = Some a"
  then have "cp' \<noteq> cp" "hm_get (rs_control_connections ?sd) cp' = Some a"
    using ne unfolding st' by (auto simp: connection_for_control_def admit_state split: if_splits)
  moreover have "hm_get (rs_control_connections ?st) cp' = Some a" if "hm_get (rs_control_connections ?sd) cp' = Some a"
    using that control_remove [OF inv1] by (auto simp: remove_duplicate_def split: option.splits)
  ultimately show "cp' \<noteq> cp \<and> connection_for_control st cp' = Some a" by (simp add: connection_for_control_def)
qed

lemma orphaned_join:
  assumes inv: "relay_inv st" and o: "orphaned st s a key steam"
    and cj: "complete_join sha draws rr rp st cp ch pf now = Some (st', r)"
    and other: "\<And>pj. hm_get (rs_pending st) cp = Some pj \<Longrightarrow> pj_session pj \<noteq> s \<or> pj_steam_id64 pj \<noteq> steam"
  shows "orphaned st' s a key steam"
proof (cases "\<exists>ready bc. r = Ok (ready, bc)")
  case True
  then obtain ready bc where ok: "complete_join sha draws rr rp st cp ch pf now = Some (st', Ok (ready, bc))"
    using cj by blast
  obtain p where p: "member st s a p" "p_presence p = Connected" "p_resume_key p = key" "p_steam_id64 p = steam"
    using o by (auto simp: orphaned_def)
  have "member st' s a p" using join_other(1) [OF inv ok p(1)] other p(4) by blast
  moreover have "connection_for_control st' cp' \<noteq> Some a" for cp'
    using join_other(2) [OF inv ok p(1), of cp'] other p(4) o by (auto simp: orphaned_def)
  ultimately show ?thesis using p by (auto simp: orphaned_def)
next
  case False
  then show ?thesis
    using complete_join_cases [OF cj] o by (auto intro!: orphaned_cong [OF o] no_new_control_cong)
qed

lemma orphaned_step:
  assumes inv: "relay_inv st" and o: "orphaned st s a key steam" and step: "stranger_step sha256 s a key steam st st'"
  shows "orphaned st' s a key steam"
  using step
proof cases
  case (by_begin_join rc rn j r)
  then show ?thesis using orphaned_begin_join [OF o, of rc rn j] by simp
next
  case (by_join draws rr rp cp ch pf now r)
  then show ?thesis using orphaned_join [OF inv o] by blast
next
  case (by_resume cp c k now r)
  then show ?thesis using orphaned_resume [OF inv o, of c k cp now] by simp
next
  case (by_detach cp now b)
  then show ?thesis using orphaned_detach [OF o, of cp now] by simp
next
  case (by_stop cp b)
  then show ?thesis using orphaned_stop [OF inv o, of cp] by simp
next
  case (by_bind c k addr now r)
  then show ?thesis using orphaned_bind [OF o, of c k addr now] by simp
next
  case (by_data q r)
  then show ?thesis using orphaned_sender [OF o route_data_update [of st q]] by simp
next
  case (by_probe q r)
  then show ?thesis using orphaned_sender [OF o route_probe_update [of st q]] by simp
next
  case (by_cleanup now bs)
  then show ?thesis using orphaned_cleanup [OF inv o, of now] by simp
qed

lemma orphaned_run:
  assumes "(stranger_step sha256 s a key steam)\<^sup>*\<^sup>* st st'" and "relay_reachable sha256 st" and "orphaned st s a key steam"
  shows "relay_reachable sha256 st' \<and> orphaned st' s a key steam"
  using assms
proof (induction rule: rtranclp_induct)
  case (step st1 st2)
  then have reach: "relay_reachable sha256 st1" and o: "orphaned st1 s a key steam" by simp_all
  obtain l where "relay_step sha256 st1 l st2" using stranger_relay_step [OF step.hyps(2)] by blast
  then have "relay_reachable sha256 st2" using reach by (blast intro: reach_step)
  then show ?case using orphaned_step [OF relay.reachable_inv [OF reach] o step.hyps(2)] by blast
qed simp

text \<open>
  C10: A control connection that joins twice orphans its first connection.  Let control connection \<open>cp\<close>, and no other,
  lead to the connected peer of connection \<open>a\<close>, and let it complete another join, of another player or to another
  room.  Then, whatever anyone does from there on - the control connection dropping or leaving, cleanups at any time,
  joins, resumes, frames - the first connection stays in its room, marked connected, and no control connection leads
  to it, so neither a drop nor an orderly leave nor a cleanup releases its place.  Only its own player can: by resuming
  it with its credential, or by joining the same room again.
\<close>

theorem second_join_leaks_first:
  assumes "relay_reachable sha256 st" and "member st s a p" and "p_presence p = Connected"
    and "\<And>cp'. connection_for_control st cp' = Some a \<Longrightarrow> cp' = cp"
    and "complete_join sha256 draws rr rp st cp ch pf now = Some (st', Ok (ready, bc))"
    and "\<And>pj. hm_get (rs_pending st) cp = Some pj \<Longrightarrow> pj_session pj \<noteq> s \<or> pj_steam_id64 pj \<noteq> p_steam_id64 p"
    and "(stranger_step sha256 s a (p_resume_key p) (p_steam_id64 p))\<^sup>*\<^sup>* st' st''"
  shows "(\<exists>p'. member st'' s a p' \<and> p_presence p' = Connected \<and> p_steam_id64 p' = p_steam_id64 p)
    \<and> (\<forall>cp'. connection_for_control st'' cp' \<noteq> Some a)"
proof -
  note inv = relay.reachable_inv [OF assms(1)]
  note join = join_other [OF inv assms(5,2,6)]
  have "connection_for_control st' cp' \<noteq> Some a" for cp' using join(2) [of cp'] assms(4) by blast
  then have "orphaned st' s a (p_resume_key p) (p_steam_id64 p)" using join(1) assms(3) by (auto simp: orphaned_def)
  moreover have "relay_reachable sha256 st'" using assms(1) step_join [OF assms(5)] by (blast intro: reach_step)
  ultimately show ?thesis using orphaned_run [OF assms(7)] by (auto simp: orphaned_def)
qed

section \<open>A concrete orphan\<close>

text \<open>
  Player 76 of the demonstration room, on control connection 1, joins once more as player 78; then the control
  connection drops, and the relay cleans up an hour later.
\<close>

definition demo_pending :: RelayState where
  "demo_pending = fst (begin_join demo_room [3] [4] (demo_begin 1 78))"

definition demo_rejoined :: RelayState where
  "demo_rejoined = fst (the (complete_join demo_sha [300] [9] [8] demo_pending 1 [3] [] 0))"

lemma demo_rejoin: "\<exists>ready bc. complete_join demo_sha [300] [9] [8] demo_pending 1 [3] [] 0 = Some (demo_rejoined, Ok (ready, bc))"
proof -
  have cfg: "pow_difficulty_bits demo_config = 0" "max_rooms demo_config = 256" "max_peers_per_room demo_config = 4"
    by (simp_all add: demo_config_def config_default_def)
  show ?thesis
    by (simp add: demo_rejoined_def demo_pending_def demo_room_eq demo_begin_def new_peer_def demo_peer_def cfg join_eval)
qed

lemma begin_join_pending:
  "hm_get (rs_pending (fst (begin_join st rc rn j))) cp = Some pj
     \<Longrightarrow> hm_get (rs_pending st) cp = Some pj \<or> pj_steam_id64 pj = jb_steam_id64 j"
  by (auto simp: begin_join_def Let_def split: res.splits if_splits)

definition demo_later :: RelayState where
  "demo_later = fst (cleanup (fst (detach demo_rejoined 1 1)) (secs 3600))"

theorem second_join_leaks_first_witness:
  "(\<exists>p'. member demo_later demo_session 100 p' \<and> p_presence p' = Connected \<and> p_steam_id64 p' = 76)
     \<and> (\<forall>cp'. connection_for_control demo_later cp' \<noteq> Some 100)"
proof -
  obtain ready bc where join: "complete_join demo_sha [300] [9] [8] demo_pending 1 [3] [] 0 = Some (demo_rejoined, Ok (ready, bc))"
    using demo_rejoin by blast
  have reach: "relay_reachable demo_sha demo_pending"
    unfolding demo_pending_def using demo_room_reachable step_begin_join [OF surjective_pairing] by (blast intro: reach_step)
  have rooms: "rs_rooms demo_pending = rs_rooms demo_room" by (simp add: demo_pending_def)
  have control: "rs_control_connections demo_pending = rs_control_connections demo_room"
    by (simp add: demo_pending_def begin_join_def Let_def split: res.split)
  have m: "member demo_pending demo_session 100 (demo_peer 1 76 100)"
    by (simp add: member_def rooms demo_room_eq hm_get_def)
  have only: "cp' = 1" if "connection_for_control demo_pending cp' = Some 100" for cp'
    using that by (simp add: connection_for_control_def control demo_room_eq hm_get_def split: if_splits)
  have other: "pj_session pj \<noteq> demo_session \<or> pj_steam_id64 pj \<noteq> p_steam_id64 (demo_peer 1 76 100)"
    if "hm_get (rs_pending demo_pending) 1 = Some pj" for pj
    using begin_join_pending [OF that [unfolded demo_pending_def]]
    by (auto simp: demo_room_eq demo_begin_def demo_peer_def hm_get_def)
  have "stranger_step demo_sha demo_session 100 [9] 76 demo_rejoined (fst (detach demo_rejoined 1 1))"
    by (rule by_detach [OF surjective_pairing])
  moreover have "stranger_step demo_sha demo_session 100 [9] 76 (fst (detach demo_rejoined 1 1)) demo_later"
    unfolding demo_later_def by (rule by_cleanup [OF surjective_pairing])
  ultimately have run: "(stranger_step demo_sha demo_session 100 (p_resume_key (demo_peer 1 76 100))
      (p_steam_id64 (demo_peer 1 76 100)))\<^sup>*\<^sup>* demo_rejoined demo_later"
    by (simp add: demo_peer_def)
  show ?thesis
    using second_join_leaks_first [OF reach m _ only join other run] by (simp add: demo_peer_def)
qed

end
