(* ===== verification/Relay_Server.thy ===== *)
theory Relay_Server
  imports Relay_Guarantees Relay_Frame
begin

text \<open>
  The relay's server (\<open>bridge-relay/src/server.rs\<close>, \<open>server/control.rs\<close>,
  \<open>server/control/commands.rs\<close>, \<open>server/data.rs\<close>, \<open>server/maintenance.rs\<close>): bootstrap
  negotiation, the handler of a TCP frame, the handler of a UDP datagram, forwarding, presence
  broadcasts, the end of a control connection and the periodic cleanup.  The state behind the
  locks is one record: the relay state, the bounded egress queues and the datagrams handed to the
  UDP socket.  JSON, base58, hexadecimal, SHA-256 and whether the operating system accepts a
  datagram are parameters; the wall clock and the random numbers are arguments.  Metrics, tracing
  and the establishment spans have no effect on what is modelled here and are left out.
\<close>

section \<open>State, environment and results\<close>

datatype io_error = InvalidData | NotConnected | WouldBlock | Unsupported | SendFailed

record Server =
  sv_state :: RelayState
  sv_egress :: "(PeerId, byte list list) hmap"
  sv_udp_out :: "(SocketAddr \<times> byte list) list"

record 'j Env =
  env_sha256 :: "byte list \<Rightarrow> byte list"
  env_from_base58 :: base58_decoder
  env_to_base58 :: base58_encoder
  env_from_hex :: "string \<Rightarrow> byte list option"
  env_to_hex :: "byte list \<Rightarrow> string"
  env_client_json :: "(ClientControl, 'j) of_json"
  env_server_json :: "(ServerControl, 'j) to_json"
  env_udp_listener :: bool
  env_udp_send :: "SocketAddr \<Rightarrow> byte list \<Rightarrow> bool"

text \<open>The random values one message may need.\<close>

record Draws =
  dr_challenge :: "byte list"
  dr_nonce :: "byte list"
  dr_ids :: "u64 list"
  dr_resume :: "byte list"
  dr_path :: "byte list"

datatype EstablishmentEvent =
    EvNone
  | EvProgress
  | EvRejected string
  | EvEstablished string DataProfile u64 bool

record ControlResult =
  cr_stop :: bool
  cr_event :: EstablishmentEvent

definition CONTINUE :: ControlResult where "CONTINUE = \<lparr>cr_stop = False, cr_event = EvNone\<rparr>"
definition STOP :: ControlResult where "STOP = \<lparr>cr_stop = True, cr_event = EvNone\<rparr>"

definition continue_with :: "EstablishmentEvent \<Rightarrow> ControlResult" where
  "continue_with event = \<lparr>cr_stop = False, cr_event = event\<rparr>"

text \<open>\<open>invalid_data\<close>: any error becomes an I/O error of kind \<open>InvalidData\<close>.\<close>

definition invalid_data :: "('e, 'a) res \<Rightarrow> (io_error, 'a) res" where
  "invalid_data r = map_err (\<lambda>_. InvalidData) r"

section \<open>Sending\<close>

definition queue_capacity :: "Server \<Rightarrow> usize" where
  "queue_capacity sv = tcp_egress_queue_capacity (rs_config (sv_state sv))"

definition send_frame :: "Server \<Rightarrow> PeerId \<Rightarrow> byte list \<Rightarrow> Server \<times> (io_error, unit) res" where
  "send_frame sv peer_id frame =
     (case hm_get (sv_egress sv) peer_id of
        None \<Rightarrow> (sv, Err NotConnected)
      | Some queue \<Rightarrow>
          if length queue < queue_capacity sv
          then (sv\<lparr>sv_egress := hm_insert peer_id (queue @ [frame]) (sv_egress sv)\<rparr>, Ok ())
          else (sv, Err WouldBlock))"

definition send_control ::
  "'j Env \<Rightarrow> Server \<Rightarrow> PeerId \<Rightarrow> ServerControl \<Rightarrow> Server \<times> (io_error, unit) res" where
  "send_control env sv peer_id message =
     (case invalid_data (encode_server_control (env_server_json env) message) of
        Err e \<Rightarrow> (sv, Err e)
      | Panic \<Rightarrow> (sv, Panic)
      | Ok payload \<Rightarrow>
          case invalid_data (encode_frame (ServerControlFrame payload)) of
            Err e \<Rightarrow> (sv, Err e)
          | Panic \<Rightarrow> (sv, Panic)
          | Ok frame \<Rightarrow> send_frame sv peer_id frame)"

fun send_each :: "'j Env \<Rightarrow> Server \<Rightarrow> PeerId list \<Rightarrow> ServerControl \<Rightarrow> Server" where
  "send_each env sv [] message = sv"
| "send_each env sv (recipient # rest) message =
     send_each env (fst (send_control env sv recipient message)) rest message"

definition send_presence :: "'j Env \<Rightarrow> Server \<Rightarrow> PresenceBroadcast \<Rightarrow> Server" where
  "send_presence env sv b =
     send_each env sv (bc_recipients b) (SC_PeerPresenceUpdate (peer_views (bc_peers b)))"

definition send_presence_opt :: "'j Env \<Rightarrow> Server \<Rightarrow> PresenceBroadcast option \<Rightarrow> Server" where
  "send_presence_opt env sv b = (case b of None \<Rightarrow> sv | Some b \<Rightarrow> send_presence env sv b)"

section \<open>Forwarding\<close>

datatype ForwardDataError = Route StateError | Dispatch io_error

fun is_fatal_for_tcp_sender :: "ForwardDataError \<Rightarrow> bool" where
  "is_fatal_for_tcp_sender (Route UnknownConnection) = True"
| "is_fatal_for_tcp_sender (Route SenderMismatch) = True"
| "is_fatal_for_tcp_sender (Route ProfileMismatch) = True"
| "is_fatal_for_tcp_sender (Route PathNotValidated) = True"
| "is_fatal_for_tcp_sender _ = False"

text \<open>Handing a frame to its destination, as both forwarding functions do.\<close>

definition dispatch :: "'j Env \<Rightarrow> Server \<Rightarrow> DataDestination \<Rightarrow> byte list \<Rightarrow> Server \<times> (io_error, unit) res" where
  "dispatch env sv destination raw =
     (case destination of
        DestTcp peer_id \<Rightarrow> send_frame sv peer_id raw
      | DestUdp address \<Rightarrow>
          if \<not> env_udp_listener env then (sv, Err NotConnected)
          else if env_udp_send env address raw
          then (sv\<lparr>sv_udp_out := sv_udp_out sv @ [(address, raw)]\<rparr>, Ok ())
          else (sv, Err SendFailed))"

definition data_request :: "DataFrame \<Rightarrow> byte list \<Rightarrow> DataSource \<Rightarrow> instant \<Rightarrow> RouteData" where
  "data_request d raw source now =
     \<lparr>rd_connection_id = df_connection_id d, rd_frame_id = df_frame_id d,
      rd_from_steam_id64 = df_from_steam_id64 d, rd_to_steam_id64 = df_to_steam_id64 d,
      rd_source = source, rd_frame_bytes = length raw, rd_now = now\<rparr>"

definition forward_data ::
  "'j Env \<Rightarrow> Server \<Rightarrow> DataFrame \<Rightarrow> byte list \<Rightarrow> DataSource \<Rightarrow> instant
     \<Rightarrow> Server \<times> (ForwardDataError, unit) res" where
  "forward_data env sv d raw source now =
     (let (st, destination) = route_data (sv_state sv) (data_request d raw source now);
          sv = sv\<lparr>sv_state := st\<rparr>
      in case destination of
           Err e \<Rightarrow> (sv, Err (Route e))
         | Panic \<Rightarrow> (sv, Panic)
         | Ok destination \<Rightarrow>
             let (sv, r) = dispatch env sv destination raw in (sv, map_err Dispatch r))"

definition probe_request :: "ProbeFrame \<Rightarrow> byte list \<Rightarrow> DataSource \<Rightarrow> instant \<Rightarrow> RouteProbe" where
  "probe_request p raw source now =
     \<lparr>rp_connection_id = pf_connection_id p, rp_from_steam_id64 = pf_from_steam_id64 p,
      rp_to_steam_id64 = pf_to_steam_id64 p, rp_source = source,
      rp_frame_bytes = length raw, rp_now = now\<rparr>"

definition forward_probe ::
  "'j Env \<Rightarrow> Server \<Rightarrow> ProbeFrame \<Rightarrow> byte list \<Rightarrow> DataSource \<Rightarrow> instant
     \<Rightarrow> Server \<times> (io_error, unit) res" where
  "forward_probe env sv p raw source now =
     (let (st, destination) = route_probe (sv_state sv) (probe_request p raw source now);
          sv = sv\<lparr>sv_state := st\<rparr>
      in case destination of
           Err e \<Rightarrow> (sv, Err InvalidData)
         | Panic \<Rightarrow> (sv, Panic)
         | Ok destination \<Rightarrow> dispatch env sv destination raw)"

text \<open>One iteration of \<open>udp_task\<close>: a datagram \<open>raw\<close> from \<open>address\<close>.\<close>

definition udp_datagram :: "'j Env \<Rightarrow> Server \<Rightarrow> byte list \<Rightarrow> SocketAddr \<Rightarrow> instant \<Rightarrow> Server" where
  "udp_datagram env sv raw address now =
     (case decode_frame raw of
        Ok (ClientControlFrame payload) \<Rightarrow>
          (case decode_client_control (env_client_json env) payload of
             Ok (CC_UdpPathHello connection_id path_token) \<Rightarrow>
               (case path_key_of_secret (env_from_base58 env) path_token of
                  Ok key \<Rightarrow>
                    let (st, result) = bind_udp_path (sv_state sv) connection_id key address now;
                        sv = sv\<lparr>sv_state := st\<rparr>
                    in (case result of
                          Ok peer_id \<Rightarrow> fst (send_control env sv peer_id (SC_UdpPathReady connection_id))
                        | _ \<Rightarrow> sv)
                | _ \<Rightarrow> sv)
           | _ \<Rightarrow> sv)
      | Ok (DataF d) \<Rightarrow> fst (forward_data env sv d raw (SrcUdp address) now)
      | Ok (ProbeF p) \<Rightarrow> fst (forward_probe env sv p raw (SrcUdp address) now)
      | _ \<Rightarrow> sv)"

section \<open>Control messages\<close>

text \<open>\<open>send_control(...).await?\<close> and what follows it.\<close>

definition reply ::
  "'j Env \<Rightarrow> Server \<Rightarrow> PeerId \<Rightarrow> ServerControl \<Rightarrow> (Server \<Rightarrow> Server \<times> (io_error, 'a) res)
     \<Rightarrow> Server \<times> (io_error, 'a) res" where
  "reply env sv peer_id message k =
     (let (sv, r) = send_control env sv peer_id message
      in case r of Err e \<Rightarrow> (sv, Err e) | Panic \<Rightarrow> (sv, Panic) | Ok _ \<Rightarrow> k sv)"

definition handle_join_begin ::
  "'j Env \<Rightarrow> Draws \<Rightarrow> Server \<Rightarrow> PeerId \<Rightarrow> u64 \<Rightarrow> instant \<Rightarrow> SecretString \<Rightarrow> u64 \<Rightarrow> string option
     \<Rightarrow> WireDataProfile \<Rightarrow> Server \<times> (io_error, ControlResult) res" where
  "handle_join_begin env draws sv peer_id enabled now session_credential steam_id64 display_name
     data_profile =
     (case invalid_data (session_key (env_from_base58 env) session_credential) of
        Err e \<Rightarrow> (sv, Err e)
      | Panic \<Rightarrow> (sv, Panic)
      | Ok session \<Rightarrow>
          let (st, r) = begin_join (sv_state sv) (dr_challenge draws) (dr_nonce draws)
                \<lparr>jb_control_peer = peer_id, jb_session = session, jb_steam_id64 = steam_id64,
                 jb_display_name = display_name, jb_profile = profile_of_wire data_profile,
                 jb_capabilities = enabled, jb_now = now\<rparr>;
              sv = sv\<lparr>sv_state := st\<rparr>;
              (response, event) =
                (case r of
                   Ok challenge \<Rightarrow>
                     (SC_AdmissionChallenge (env_to_hex env (jc_challenge_id challenge)) ''sha256''
                        (env_to_hex env (jc_pow_nonce challenge)) (jc_difficulty_bits challenge),
                      EvProgress)
                 | Err e \<Rightarrow> (state_error e, EvRejected ''join_begin_rejected'')
                 | Panic \<Rightarrow> (SC_Error CInternal [] False, EvNone))
          in reply env sv peer_id response (\<lambda>sv. (sv, Ok (continue_with event))))"

definition handle_join_proof ::
  "'j Env \<Rightarrow> Draws \<Rightarrow> Server \<Rightarrow> PeerId \<Rightarrow> instant \<Rightarrow> string \<Rightarrow> SecretString
     \<Rightarrow> (Server \<times> (io_error, ControlResult) res) option" where
  "handle_join_proof env draws sv peer_id now challenge_id proof_s =
     (case invalid_data (decode_hex_16 (env_from_hex env) challenge_id) of
        Err e \<Rightarrow> Some (sv, Err e)
      | Panic \<Rightarrow> Some (sv, Panic)
      | Ok challenge \<Rightarrow>
          case complete_join (env_sha256 env) (dr_ids draws) (dr_resume draws) (dr_path draws)
                 (sv_state sv) peer_id challenge (expose_secret proof_s) now of
            None \<Rightarrow> None
          | Some (st, r) \<Rightarrow>
              let sv = sv\<lparr>sv_state := st\<rparr> in
              Some (case r of
                Ok (ready, bc) \<Rightarrow>
                  reply env sv peer_id
                    (SC_JoinReady (jr_connection_id ready)
                       (secret_of_bytes (env_to_base58 env) (jr_resume_key ready))
                       (peer_views (jr_peers ready)))
                    (\<lambda>sv. (send_presence_opt env sv bc,
                       Ok (continue_with (EvEstablished ''join'' (jr_profile ready)
                             (jr_connection_id ready) (jr_profile ready = Udp)))))
              | Err e \<Rightarrow>
                  reply env sv peer_id (state_error e)
                    (\<lambda>sv. (sv, Ok (continue_with (EvRejected ''join_proof_rejected''))))
              | Panic \<Rightarrow> (sv, Panic)))"

definition handle_resume ::
  "'j Env \<Rightarrow> Server \<Rightarrow> PeerId \<Rightarrow> instant \<Rightarrow> u64 \<Rightarrow> SecretString
     \<Rightarrow> Server \<times> (io_error, ControlResult) res" where
  "handle_resume env sv peer_id now connection_id resume_credential =
     (let (sv, result) =
            (case resume_key (env_from_base58 env) resume_credential of
               Ok key \<Rightarrow>
                 (let (st, r) = resume (sv_state sv) peer_id connection_id key now
                  in (sv\<lparr>sv_state := st\<rparr>, r))
             | Err e \<Rightarrow> (sv, Err e)
             | Panic \<Rightarrow> (sv, Panic))
      in case result of
           Ok ready \<Rightarrow>
             reply env sv peer_id
               (SC_ResumeReady (rr_connection_id ready) (peer_views (rr_peers ready))
                  (rr_udp_path_valid ready))
               (\<lambda>sv. (send_presence_opt env sv (rr_broadcast ready),
                  Ok (continue_with (EvEstablished ''resume'' (rr_profile ready)
                        (rr_connection_id ready)
                        (rr_profile ready = Udp \<and> \<not> rr_udp_path_valid ready)))))
         | Err e \<Rightarrow>
             reply env sv peer_id (resume_rejection e)
               (\<lambda>sv. (sv, Ok (continue_with (EvRejected ''resume_rejected''))))
         | Panic \<Rightarrow> (sv, Panic))"

definition handle_udp_path_request ::
  "'j Env \<Rightarrow> Server \<Rightarrow> PeerId \<Rightarrow> Server \<times> (io_error, ControlResult) res" where
  "handle_udp_path_request env sv peer_id =
     (case connection_for_control (sv_state sv) peer_id of
        None \<Rightarrow> reply env sv peer_id (state_error UnknownConnection) (\<lambda>sv. (sv, Ok CONTINUE))
      | Some connection_id \<Rightarrow>
          case path_key (sv_state sv) connection_id of
            None \<Rightarrow> reply env sv peer_id (state_error ProfileMismatch) (\<lambda>sv. (sv, Ok CONTINUE))
          | Some key \<Rightarrow>
              reply env sv peer_id
                (SC_UdpPathToken connection_id (secret_of_bytes (env_to_base58 env) key))
                (\<lambda>sv. (sv, Ok CONTINUE)))"

definition handle_control ::
  "'j Env \<Rightarrow> Draws \<Rightarrow> Server \<Rightarrow> PeerId \<Rightarrow> u64 \<Rightarrow> instant \<Rightarrow> ClientControl
     \<Rightarrow> (Server \<times> (io_error, ControlResult) res) option" where
  "handle_control env draws sv peer_id enabled now message =
     (case message of
        CC_JoinBegin credential steam_id64 display_name data_profile \<Rightarrow>
          Some (handle_join_begin env draws sv peer_id enabled now credential steam_id64
                  display_name data_profile)
      | CC_JoinProof challenge_id proof_s \<Rightarrow>
          handle_join_proof env draws sv peer_id now challenge_id proof_s
      | CC_Resume connection_id credential \<Rightarrow>
          Some (handle_resume env sv peer_id now connection_id credential)
      | CC_UdpPathRequest \<Rightarrow> Some (handle_udp_path_request env sv peer_id)
      | CC_ControlPing i \<Rightarrow>
          Some (reply env sv peer_id (SC_ControlPong i) (\<lambda>sv. (sv, Ok CONTINUE)))
      | CC_ControlPong _ \<Rightarrow> Some (sv, Ok CONTINUE)
      | CC_Stop \<Rightarrow> Some (sv, Ok STOP)
      | CC_UdpPathHello _ _ \<Rightarrow>
          Some (reply env sv peer_id (state_error ProfileMismatch) (\<lambda>sv. (sv, Ok CONTINUE))))"

fun handle_tcp_data_result :: "(ForwardDataError, unit) res \<Rightarrow> (io_error, bool) res" where
  "handle_tcp_data_result (Ok _) = Ok False"
| "handle_tcp_data_result (Err e) = (if is_fatal_for_tcp_sender e then Err InvalidData else Ok False)"
| "handle_tcp_data_result Panic = Panic"

text \<open>The handler of one TCP frame: \<open>Ok True\<close> stops the connection, an error closes it.\<close>

definition handle_tcp_frame ::
  "'j Env \<Rightarrow> Draws \<Rightarrow> Server \<Rightarrow> PeerId \<Rightarrow> u64 \<Rightarrow> instant \<Rightarrow> byte list
     \<Rightarrow> (Server \<times> (io_error, bool) res) option" where
  "handle_tcp_frame env draws sv peer_id enabled now raw =
     (case invalid_data (decode_frame raw) of
        Err e \<Rightarrow> Some (sv, Err e)
      | Panic \<Rightarrow> Some (sv, Panic)
      | Ok (ClientControlFrame payload) \<Rightarrow>
          (case invalid_data (decode_client_control (env_client_json env) payload) of
             Err e \<Rightarrow> Some (sv, Err e)
           | Panic \<Rightarrow> Some (sv, Panic)
           | Ok message \<Rightarrow>
               map_option (\<lambda>(sv, r). (sv, rbind r (\<lambda>result. Ok (cr_stop result))))
                 (handle_control env draws sv peer_id enabled now message))
      | Ok (DataF d) \<Rightarrow>
          (let (sv, r) = forward_data env sv d raw (SrcTcp peer_id) now
           in Some (sv, handle_tcp_data_result r))
      | Ok (ProbeF p) \<Rightarrow>
          Some (fst (forward_probe env sv p raw (SrcTcp peer_id) now), Ok False)
      | Ok (ServerControlFrame _) \<Rightarrow> Some (sv, Err InvalidData))"

section \<open>The life of a control connection\<close>

definition tcp_connected :: "Server \<Rightarrow> PeerId \<Rightarrow> Server" where
  "tcp_connected sv peer_id = sv\<lparr>sv_egress := hm_insert peer_id [] (sv_egress sv)\<rparr>"

text \<open>The writer takes the next frame off the queue.\<close>

definition egress_recv :: "Server \<Rightarrow> PeerId \<Rightarrow> Server \<times> byte list option" where
  "egress_recv sv peer_id =
     (case hm_get (sv_egress sv) peer_id of
        Some (frame # rest) \<Rightarrow>
          (sv\<lparr>sv_egress := hm_insert peer_id rest (sv_egress sv)\<rparr>, Some frame)
      | _ \<Rightarrow> (sv, None))"

definition tcp_disconnected :: "'j Env \<Rightarrow> Server \<Rightarrow> PeerId \<Rightarrow> bool \<Rightarrow> instant \<Rightarrow> Server" where
  "tcp_disconnected env sv peer_id explicit_stop now =
     (let sv = sv\<lparr>sv_egress := hm_remove peer_id (sv_egress sv)\<rparr>;
          (st, bc) =
            (if explicit_stop then stop (sv_state sv) peer_id else detach (sv_state sv) peer_id now)
      in send_presence_opt env (sv\<lparr>sv_state := st\<rparr>) bc)"

definition cleanup_tick :: "'j Env \<Rightarrow> Server \<Rightarrow> instant \<Rightarrow> Server" where
  "cleanup_tick env sv now =
     (let (st, broadcasts) = cleanup (sv_state sv) now
      in foldl (send_presence env) (sv\<lparr>sv_state := st\<rparr>) broadcasts)"

section \<open>Bootstrap\<close>

definition relay_ranges :: "ProtocolRange list" where
  "relay_ranges = [\<lparr>pr_major = PROTOCOL_MAJOR, pr_min_minor = 0, pr_max_minor = PROTOCOL_MINOR\<rparr>]"

definition available_capabilities :: "bool \<Rightarrow> u64" where
  "available_capabilities udp_enabled =
     CAP_TCP_DATA OR CAP_RESUME OR CAP_ROOM_PATH_PROBE OR (if udp_enabled then CAP_UDP_DATA else 0)"

definition reject_message :: "BuildMetadata \<Rightarrow> RejectCode \<Rightarrow> BootstrapMessage" where
  "reject_message build code =
     CompatReject \<lparr>cr_code = code, cr_relay_supported_ranges = relay_ranges,
       cr_minimum_client_version = None, cr_relay = build\<rparr>"

text \<open>The reply to a decoded hello and the negotiation's result.\<close>

definition negotiate_hello ::
  "BuildMetadata \<Rightarrow> bool \<Rightarrow> BootstrapMessage \<Rightarrow> BootstrapMessage option \<times> (io_error, u64) res" where
  "negotiate_hello build udp_enabled hello =
     (case hello of
        ClientHello schema ranges required optional client \<Rightarrow>
          if schema \<noteq> BOOTSTRAP_SCHEMA
          then (Some (reject_message build UnsupportedBootstrapSchema), Err Unsupported)
          else
            (case select_protocol ranges relay_ranges of
               Ok selected \<Rightarrow>
                 (case select_capabilities required optional (available_capabilities udp_enabled) of
                    Ok enabled \<Rightarrow> (Some (ServerHello BOOTSTRAP_SCHEMA selected enabled build), Ok enabled)
                  | _ \<Rightarrow> (Some (reject_message build MissingRequiredCapabilities), Err Unsupported))
             | _ \<Rightarrow> (Some (reject_message build UnsupportedProtocol), Err Unsupported))
      | _ \<Rightarrow> (None, Err InvalidData))"

end
