(* ===== verification/Relay_Server_Props.thy ===== *)
theory Relay_Server_Props
  imports Relay_Server
begin

text \<open>
  Properties of the relay's server: every event it handles moves the relay state by at most one
  step of \<open>relay_step\<close>, so the guarantees about reachable relay states hold behind the server;
  the egress queues stay within their capacity; forwarding hands over the received bytes once and
  only to the routed destination; a sender that behaves is never disconnected; and the bootstrap
  negotiation.
\<close>

section \<open>Sending\<close>

lemma send_frame_state [simp]:
  "sv_state (fst (send_frame sv p f)) = sv_state sv"
  "sv_udp_out (fst (send_frame sv p f)) = sv_udp_out sv"
  by (simp_all add: send_frame_def split: option.split)

lemma send_control_state [simp]:
  "sv_state (fst (send_control env sv p m)) = sv_state sv"
  "sv_udp_out (fst (send_control env sv p m)) = sv_udp_out sv"
  by (simp_all add: send_control_def split: res.split)

lemma send_each_state [simp]:
  "sv_state (send_each env sv ps m) = sv_state sv"
  by (induction ps arbitrary: sv) simp_all

lemma send_presence_state [simp]:
  "sv_state (send_presence env sv b) = sv_state sv"
  "sv_state (send_presence_opt env sv b') = sv_state sv"
  "sv_state (foldl (send_presence env) sv bs) = sv_state sv"
proof -
  show one: "sv_state (send_presence env sv b) = sv_state sv" for sv b
    by (simp add: send_presence_def)
  then show "sv_state (send_presence_opt env sv b') = sv_state sv"
    by (simp add: send_presence_opt_def split: option.split)
  show "sv_state (foldl (send_presence env) sv bs) = sv_state sv"
    by (induction bs arbitrary: sv) (simp_all add: one)
qed

lemma dispatch_state [simp]: "sv_state (fst (dispatch env sv d raw)) = sv_state sv"
  by (simp add: dispatch_def split: DataDestination.split)

lemma reply_state:
  assumes "\<And>sv'. sv_state sv' = sv_state sv \<Longrightarrow> sv_state (fst (k sv')) = sv_state sv"
  shows "sv_state (fst (reply env sv p m k)) = sv_state sv"
  using assms by (simp add: reply_def case_prod_beta Let_def split: res.split)

section \<open>The server as a sequence of relay steps\<close>

definition relay_moves :: "'j Env \<Rightarrow> RelayState \<Rightarrow> RelayState \<Rightarrow> bool" where
  "relay_moves env st st' \<longleftrightarrow> st' = st \<or> (\<exists>l. relay_step (env_sha256 env) st l st')"

lemma relay_moves_refl [simp]: "relay_moves env st st"
  by (simp add: relay_moves_def)

lemma moves_ops:
  "relay_moves env st (fst (begin_join st a b j))"
  "relay_moves env st (fst (resume st cp c k now))"
  "relay_moves env st (fst (detach st cp now))"
  "relay_moves env st (fst (stop st cp))"
  "relay_moves env st (fst (bind_udp_path st c pk addr now))"
  "relay_moves env st (fst (route_data st q))"
  "relay_moves env st (fst (route_probe st qp))"
  "relay_moves env st (fst (cleanup st now))"
  unfolding relay_moves_def
  by (meson relay_step.intros surjective_pairing)+

lemma moves_join:
  assumes "complete_join (env_sha256 env) draws rr rp st cp ch pf now = Some (st', r)"
  shows "relay_moves env st st'"
proof (cases r)
  case (Ok x)
  then show ?thesis using assms step_join [of "env_sha256 env" draws rr rp st cp ch pf now st' "fst x" "snd x"]
    by (auto simp: relay_moves_def)
next
  case (Err e)
  then show ?thesis using assms step_join_rejected unfolding relay_moves_def by blast
next
  case Panic
  then show ?thesis using assms complete_join_no_Panic by blast
qed

lemma forward_data_moves: "relay_moves env (sv_state sv) (sv_state (fst (forward_data env sv d raw src now)))"
  by (simp add: forward_data_def Let_def case_prod_beta moves_ops split: res.split)

lemma forward_probe_moves: "relay_moves env (sv_state sv) (sv_state (fst (forward_probe env sv p raw src now)))"
  by (simp add: forward_probe_def Let_def case_prod_beta moves_ops split: res.split)

lemma udp_datagram_moves: "relay_moves env (sv_state sv) (sv_state (udp_datagram env sv raw a now))"
  by (simp add: udp_datagram_def Let_def case_prod_beta moves_ops forward_data_moves
      forward_probe_moves split: res.split Frame.split ClientControl.split)

lemma join_begin_moves:
  "relay_moves env (sv_state sv)
     (sv_state (fst (handle_join_begin env draws sv p en now cr sid dn dp)))"
  by (simp add: handle_join_begin_def Let_def case_prod_beta reply_state moves_ops split: res.split)

lemma join_proof_moves:
  "handle_join_proof env draws sv p now ch pf = Some (sv', r) \<Longrightarrow>
     relay_moves env (sv_state sv) (sv_state sv')"
  by (auto simp: handle_join_proof_def Let_def reply_state prod_eq_iff dest!: moves_join
      split: res.splits option.splits)

lemma resume_moves:
  "relay_moves env (sv_state sv) (sv_state (fst (handle_resume env sv p now c cr)))"
  by (simp add: handle_resume_def Let_def case_prod_beta reply_state moves_ops split: res.split)

lemma udp_path_request_state:
  "sv_state (fst (handle_udp_path_request env sv p)) = sv_state sv"
  by (simp add: handle_udp_path_request_def reply_state split: option.split)

lemma handle_control_moves:
  assumes "handle_control env draws sv p en now m = Some (sv', r)"
  shows "relay_moves env (sv_state sv) (sv_state sv')"
  using assms join_begin_moves [of env sv draws p en now]
    resume_moves [of env sv p now] udp_path_request_state [of env sv p]
  by (cases m) (auto simp: handle_control_def prod_eq_iff reply_state dest: join_proof_moves)

lemma handle_tcp_frame_moves:
  assumes "handle_tcp_frame env draws sv p en now raw = Some (sv', r)"
  shows "relay_moves env (sv_state sv) (sv_state sv')"
  using assms forward_data_moves [of env sv _ raw "SrcTcp p" now]
    forward_probe_moves [of env sv _ raw "SrcTcp p" now]
  by (auto simp: handle_tcp_frame_def case_prod_beta Let_def dest: handle_control_moves
      split: res.splits Frame.splits)

lemma tcp_disconnected_moves:
  "relay_moves env (sv_state sv) (sv_state (tcp_disconnected env sv p ex now))"
  by (simp add: tcp_disconnected_def Let_def case_prod_beta moves_ops)

lemma cleanup_tick_moves: "relay_moves env (sv_state sv) (sv_state (cleanup_tick env sv now))"
  by (simp add: cleanup_tick_def Let_def case_prod_beta moves_ops)

text \<open>The events the server reacts to, in any order.\<close>

inductive server_step :: "'j Env \<Rightarrow> Server \<Rightarrow> Server \<Rightarrow> bool" for env where
  ev_tcp_frame:
    "handle_tcp_frame env draws sv p en now raw = Some (sv', r) \<Longrightarrow> server_step env sv sv'"
| ev_datagram: "server_step env sv (udp_datagram env sv raw a now)"
| ev_connected: "server_step env sv (tcp_connected sv p)"
| ev_written: "server_step env sv (fst (egress_recv sv p))"
| ev_disconnected: "server_step env sv (tcp_disconnected env sv p ex now)"
| ev_cleanup: "server_step env sv (cleanup_tick env sv now)"

definition server_init :: "Server \<Rightarrow> bool" where
  "server_init sv \<longleftrightarrow> relay_init (sv_state sv) \<and> sv_egress sv = [] \<and> sv_udp_out sv = []"

abbreviation server_reachable :: "'j Env \<Rightarrow> Server \<Rightarrow> bool" where
  "server_reachable env \<equiv> reachable_from server_init (server_step env)"

lemma server_step_moves:
  assumes "server_step env sv sv'"
  shows "relay_moves env (sv_state sv) (sv_state sv')"
  using assms
proof cases
  case (ev_tcp_frame draws p en now raw r)
  then show ?thesis by (rule handle_tcp_frame_moves)
next
  case (ev_written p)
  then show ?thesis by (simp add: egress_recv_def split: option.split list.split)
qed (simp_all add: udp_datagram_moves tcp_disconnected_moves cleanup_tick_moves tcp_connected_def)

lemma server_relay_reachable:
  "server_reachable env sv \<Longrightarrow> relay_reachable (env_sha256 env) (sv_state sv)"
proof (induction rule: reachable_from.induct)
  case (reach_init sv)
  then show ?case by (simp add: server_init_def reachable_from.reach_init)
next
  case (reach_step sv sv')
  from server_step_moves [OF reach_step.hyps(2)]
  consider "sv_state sv' = sv_state sv"
    | l where "relay_step (env_sha256 env) (sv_state sv) l (sv_state sv')"
    unfolding relay_moves_def by blast
  then show ?case
  proof cases
    case 1
    then show ?thesis using reach_step.IH by simp
  next
    case 2
    then show ?thesis by (intro reachable_from.reach_step [OF reach_step.IH]) blast
  qed
qed

section \<open>Bounded queues\<close>

definition egress_ok :: "Server \<Rightarrow> bool" where
  "egress_ok sv \<longleftrightarrow>
     hm_wf (sv_egress sv)
     \<and> (\<forall>p q. hm_get (sv_egress sv) p = Some q \<longrightarrow> length q \<le> queue_capacity sv)"

lemma step_config: "relay_step sha256 st l st' \<Longrightarrow> rs_config st' = rs_config st"
proof (induction rule: relay_step.induct)
  case (step_begin_join st rc rn j st' r)
  then show ?case by (auto simp: begin_join_def Let_def split: res.splits)
next
  case (step_join draws rr rp st cp ch pf now st' ready bc)
  then show ?case by (elim complete_join_Ok) (auto simp: admit_def Let_def)
next
  case (step_join_rejected draws rr rp st cp ch pf now st' e)
  then show ?case using complete_join_cases [of sha256 draws rr rp st cp ch pf now st' "Err e"] by auto
next
  case (step_resume st cp c key now st' r1)
  then show ?case by (auto simp: resume_def Let_def split: option.splits if_splits)
next
  case (step_detach st cp now st' b)
  then show ?case by (auto simp: detach_def Let_def split: option.splits if_splits)
next
  case (step_stop st cp st' b)
  then show ?case using remove_connection_sel(1) [of "st\<lparr>rs_control_connections := hm_remove cp (rs_control_connections st)\<rparr>"]
    by (auto simp: stop_def prod_eq_iff split: option.splits)
next
  case (step_bind st c key addr now st' r2)
  then show ?case by (auto simp: bind_udp_path_def split: option.splits if_splits)
next
  case (step_data st q st' r3)
  then show ?case using route_data_update [of st q] by (auto simp: sender_update_def)
next
  case (step_probe st qp st' r4)
  then show ?case using route_probe_update [of st qp] by (auto simp: sender_update_def)
next
  case (step_cleanup st now st' bs)
  then show ?case using cleanup_state [of st now] by (simp add: retain_rooms_def retain_pending_def)
qed

lemma moves_config: "relay_moves env st st' \<Longrightarrow> rs_config st' = rs_config st"
  by (auto simp: relay_moves_def step_config)

lemma egress_ok_state:
  "egress_ok sv \<Longrightarrow> rs_config st = rs_config (sv_state sv) \<Longrightarrow> egress_ok (sv\<lparr>sv_state := st\<rparr>)"
  by (simp add: egress_ok_def queue_capacity_def)

lemma egress_ok_moves:
  "egress_ok sv \<Longrightarrow> relay_moves env (sv_state sv) st \<Longrightarrow> egress_ok (sv\<lparr>sv_state := st\<rparr>)"
  by (simp add: egress_ok_state moves_config)

lemma egress_ok_send_frame: "egress_ok sv \<Longrightarrow> egress_ok (fst (send_frame sv p f))"
  by (auto simp: egress_ok_def send_frame_def queue_capacity_def split: option.splits if_splits)

lemma egress_ok_send_control: "egress_ok sv \<Longrightarrow> egress_ok (fst (send_control env sv p m))"
  by (simp add: send_control_def egress_ok_send_frame split: res.split)

lemma egress_ok_send_each: "egress_ok sv \<Longrightarrow> egress_ok (send_each env sv ps m)"
  by (induction ps arbitrary: sv) (simp_all add: egress_ok_send_control)

lemma egress_ok_presence:
  "egress_ok sv \<Longrightarrow> egress_ok (send_presence env sv b)"
  "egress_ok sv \<Longrightarrow> egress_ok (send_presence_opt env sv b')"
  by (simp_all add: send_presence_def send_presence_opt_def egress_ok_send_each split: option.split)

lemma egress_ok_presences: "egress_ok sv \<Longrightarrow> egress_ok (foldl (send_presence env) sv bs)"
  by (induction bs arbitrary: sv) (simp_all add: egress_ok_presence)

lemma egress_ok_dispatch: "egress_ok sv \<Longrightarrow> egress_ok (fst (dispatch env sv d raw))"
  by (auto simp: dispatch_def egress_ok_send_frame split: DataDestination.split)
    (auto simp: egress_ok_def queue_capacity_def)

lemma egress_ok_reply:
  assumes "egress_ok sv" and "\<And>sv'. egress_ok sv' \<Longrightarrow> egress_ok (fst (k sv'))"
  shows "egress_ok (fst (reply env sv p m k))"
  using assms egress_ok_send_control [OF assms(1), of env p m]
  by (simp add: reply_def case_prod_beta Let_def split: res.split)

lemmas egress_ok_intros = egress_ok_reply egress_ok_dispatch egress_ok_presence
  egress_ok_presences egress_ok_send_control egress_ok_moves [OF _ moves_ops(1)]
  egress_ok_moves [OF _ moves_ops(2)] egress_ok_moves [OF _ moves_ops(3)]
  egress_ok_moves [OF _ moves_ops(4)] egress_ok_moves [OF _ moves_ops(5)]
  egress_ok_moves [OF _ moves_ops(6)] egress_ok_moves [OF _ moves_ops(7)]
  egress_ok_moves [OF _ moves_ops(8)]

lemma egress_ok_forward:
  "egress_ok sv \<Longrightarrow> egress_ok (fst (forward_data env sv d raw src now))"
  "egress_ok sv \<Longrightarrow> egress_ok (fst (forward_probe env sv p raw src now))"
  by (simp_all add: forward_data_def forward_probe_def Let_def case_prod_beta egress_ok_intros
      split: res.split)

lemma egress_ok_datagram: "egress_ok sv \<Longrightarrow> egress_ok (udp_datagram env sv raw a now)"
  by (simp add: udp_datagram_def Let_def case_prod_beta egress_ok_intros egress_ok_forward
      split: res.split Frame.split ClientControl.split)

lemma egress_ok_join_proof:
  assumes "egress_ok sv" and "handle_join_proof env draws sv p now ch pf = Some (sv', r)"
  shows "egress_ok sv'"
  using assms
  by (auto simp: handle_join_proof_def Let_def prod_eq_iff intro!: egress_ok_intros
      egress_ok_moves [OF _ moves_join] split: res.splits option.splits)

lemma egress_ok_control:
  assumes ok: "egress_ok sv" and h: "handle_control env draws sv p en now m = Some (sv', r)"
  shows "egress_ok sv'"
proof -
  have "egress_ok (fst (handle_join_begin env draws sv p en now cr sid dn dp))" for cr sid dn dp
    using ok by (auto simp: handle_join_begin_def Let_def case_prod_beta intro!: egress_ok_intros
        split: res.split)
  moreover have "egress_ok (fst (handle_resume env sv p now c cr))" for c cr
    using ok by (auto simp: handle_resume_def Let_def case_prod_beta intro!: egress_ok_intros
        split: res.split)
  moreover have "egress_ok (fst (handle_udp_path_request env sv p))"
    using ok by (auto simp: handle_udp_path_request_def intro!: egress_ok_intros split: option.split)
  moreover have "egress_ok (fst (reply env sv p m' (\<lambda>sv. (sv, Ok CONTINUE))))" for m'
    using ok by (simp add: egress_ok_reply)
  ultimately show ?thesis
    using h ok egress_ok_join_proof [OF ok]
    by (cases m) (auto simp: handle_control_def prod_eq_iff)
qed

lemma egress_ok_step:
  assumes "egress_ok sv" and "server_step env sv sv'"
  shows "egress_ok sv'"
  using assms(2)
proof cases
  case (ev_tcp_frame draws p en now raw r)
  then show ?thesis using assms(1) egress_ok_control [OF assms(1)] egress_ok_forward [OF assms(1)]
    by (auto simp: handle_tcp_frame_def case_prod_beta Let_def split: res.splits Frame.splits)
next
  case (ev_connected p)
  then show ?thesis using assms(1) by (auto simp: tcp_connected_def egress_ok_def queue_capacity_def)
next
  case (ev_written p)
  then show ?thesis using assms(1)
    by (auto simp: egress_recv_def egress_ok_def queue_capacity_def split: option.splits list.splits)
      (metis Suc_leD length_Cons)+
next
  case (ev_disconnected p ex now)
  let ?sv = "sv\<lparr>sv_egress := hm_remove p (sv_egress sv)\<rparr>"
  have ok: "egress_ok ?sv" using assms(1) by (auto simp: egress_ok_def queue_capacity_def)
  have "egress_ok (?sv\<lparr>sv_state := fst (stop (sv_state ?sv) p)\<rparr>)"
    "egress_ok (?sv\<lparr>sv_state := fst (detach (sv_state ?sv) p now)\<rparr>)"
    by (rule egress_ok_moves [OF ok moves_ops(4)], rule egress_ok_moves [OF ok moves_ops(3)])
  then show ?thesis unfolding ev_disconnected tcp_disconnected_def
    by (auto simp: Let_def case_prod_beta intro!: egress_ok_presence)
next
  case (ev_cleanup now)
  then show ?thesis using assms(1)
    by (auto simp: cleanup_tick_def Let_def case_prod_beta intro!: egress_ok_intros)
qed (simp add: egress_ok_datagram assms(1))

interpretation server: invariant_system server_init "server_step env"
    "\<lambda>sv. relay_inv (sv_state sv) \<and> egress_ok sv" for env
proof unfold_locales
  show "relay_inv (sv_state sv) \<and> egress_ok sv" if "server_init sv" for sv
    using that relay.inv_init [of "sv_state sv"]
    by (simp add: server_init_def egress_ok_def hm_wf_def hm_get_def)
  show "relay_inv (sv_state sv') \<and> egress_ok sv'"
    if "relay_inv (sv_state sv) \<and> egress_ok sv" "server_step env sv sv'" for sv sv'
    using that server_step_moves [OF that(2)] egress_ok_step
    by (auto simp: relay_moves_def intro: relay_inv_step)
qed

section \<open>Properties\<close>

text \<open>A concrete environment, whose JSON library knows two control messages.\<close>

definition demo_env :: "unit Env" where
  "demo_env = \<lparr>env_sha256 = demo_sha, env_from_base58 = (\<lambda>s. Some demo_session),
     env_to_base58 = (\<lambda>b. []), env_from_hex = (\<lambda>s. Some [3]), env_to_hex = (\<lambda>b. []),
     env_client_json = (\<lambda>b. if b = [1] then Ok (CC_JoinBegin (SecretString []) 76 None WTcp)
                            else if b = [2] then Ok (CC_JoinProof (replicate 32 CHR ''0'') (SecretString []))
                            else Err ()),
     env_server_json = (\<lambda>m. Ok [123, 125]), env_udp_listener = True,
     env_udp_send = (\<lambda>a b. True)\<rparr>"

definition demo_draws :: Draws where
  "demo_draws = \<lparr>dr_challenge = [3], dr_nonce = [4], dr_ids = [100], dr_resume = [9], dr_path = [8]\<rparr>"

definition demo_server :: Server where
  "demo_server = tcp_connected \<lparr>sv_state = state_new demo_config, sv_egress = [], sv_udp_out = []\<rparr> 1"

lemma demo_server_reachable: "server_reachable demo_env demo_server"
proof -
  have "server_init \<lparr>sv_state = state_new demo_config, sv_egress = [], sv_udp_out = []\<rparr>"
    by (simp add: server_init_def relay_init_def state_new_def demo_config_def config_ok_def
        config_default_def MAX_UDP_PACKET_SIZE_def)
  then have "server_reachable demo_env \<lparr>sv_state = state_new demo_config, sv_egress = [], sv_udp_out = []\<rparr>"
    by (rule reach_init)
  then show ?thesis unfolding demo_server_def by (rule reach_step) (rule ev_connected)
qed

text \<open>
  C11: The server refines the relay.  Whatever TCP frames, datagrams, connections, disconnections
  and cleanups the server handles, in any order, the relay state behind it is one that the relay's
  own operations reach, so every guarantee about reachable relay states holds of the server; and
  no egress queue ever holds more frames than its configured capacity.
\<close>

theorem server_refines_relay:
  assumes "server_reachable env sv"
  shows "relay_reachable (env_sha256 env) (sv_state sv)
    \<and> list_all (\<lambda>(p, q). length q \<le> queue_capacity sv) (sv_egress sv)"
  using server_relay_reachable [OF assms] server.reachable_inv [OF assms]
  by (auto simp: egress_ok_def list_all_iff hm_get_eq_Some)

theorem server_refines_relay_witness:
  "relay_reachable demo_sha (sv_state demo_server)
   \<and> list_all (\<lambda>(p, q). length q \<le> queue_capacity demo_server) (sv_egress demo_server)"
  using server_refines_relay [OF demo_server_reachable] by (simp add: demo_env_def)

lemma check_results:
  "validate_source p i src \<noteq> Panic" "target_destination room j pr \<noteq> Panic" "duplicate_error d \<noteq> Panic"
  by (auto simp: validate_source_def target_destination_def ok_or_def
      split: DataProfile.split DataSource.split option.split if_splits)
    (cases d; simp)

lemma route_data_no_Panic: "snd (route_data st q) \<noteq> Panic"
  by (auto simp: route_data_def Let_def case_prod_beta check_results check_traffic_no_Panic
      split: option.split res.split)

text \<open>The delivery of one frame, as a relation between the servers before and after.\<close>

definition delivered :: "DataDestination \<Rightarrow> byte list \<Rightarrow> Server \<Rightarrow> Server \<Rightarrow> bool" where
  "delivered destination raw sv sv' \<longleftrightarrow>
     (case destination of
        DestTcp p \<Rightarrow>
          (\<exists>q. hm_get (sv_egress sv) p = Some q \<and> hm_get (sv_egress sv') p = Some (q @ [raw]))
          \<and> (\<forall>p'. p' \<noteq> p \<longrightarrow> hm_get (sv_egress sv') p' = hm_get (sv_egress sv) p')
          \<and> sv_udp_out sv' = sv_udp_out sv
      | DestUdp a \<Rightarrow>
          sv_egress sv' = sv_egress sv \<and> sv_udp_out sv' = sv_udp_out sv @ [(a, raw)])"

lemma dispatch_result:
  "case dispatch env sv dest raw of (sv', r) \<Rightarrow>
     (case r of Ok _ \<Rightarrow> delivered dest raw sv sv' | Err _ \<Rightarrow> sv' = sv | Panic \<Rightarrow> False)"
  by (auto simp: dispatch_def send_frame_def delivered_def
      split: DataDestination.split option.split if_splits)

text \<open>
  C12: Forwarding delivers a data frame unchanged, once, and only to its routed destination: when
  it succeeds the relay routed the frame and the received bytes were appended to that one
  peer's queue, or sent to that one address, and nothing else was sent; when it fails nothing was
  sent at all.
\<close>

theorem forward_data_delivers:
  "case forward_data env sv d raw source now of (sv', r) \<Rightarrow>
     (case r of
        Ok _ \<Rightarrow> \<exists>dest. route_data (sv_state sv) (data_request d raw source now) = (sv_state sv', Ok dest)
                      \<and> delivered dest raw sv sv'
      | Err _ \<Rightarrow> sv_egress sv' = sv_egress sv \<and> sv_udp_out sv' = sv_udp_out sv
      | Panic \<Rightarrow> False)"
proof -
  obtain st r where rd: "route_data (sv_state sv) (data_request d raw source now) = (st, r)" by fastforce
  let ?sv = "sv\<lparr>sv_state := st\<rparr>"
  show ?thesis
  proof (cases r)
    case (Ok dest)
    obtain sv' r' where dp: "dispatch env ?sv dest raw = (sv', r')" by fastforce
    have "sv_state sv' = st" using dispatch_state [of env ?sv dest raw] dp by simp
    moreover have "delivered dest raw ?sv sv' = delivered dest raw sv sv'"
      by (simp add: delivered_def split: DataDestination.split)
    ultimately show ?thesis
      using rd Ok dp dispatch_result [where env = env and sv = ?sv and dest = dest and raw = raw]
      by (cases r') (simp_all add: forward_data_def)
  next
    case Panic
    then show ?thesis using route_data_no_Panic [of "sv_state sv" "data_request d raw source now"] rd by simp
  qed (simp add: forward_data_def rd)
qed

lemma honest_route:
  assumes look: "peer_lookup st (rd_connection_id q) = Some (s, room, p)"
    and ok: "validate_source p (rd_from_steam_id64 q) (rd_source q) = Ok ()"
    and err: "snd (route_data st q) = Err e"
  shows "\<not> is_fatal_for_tcp_sender (Route e)"
proof -
  have t: "target_destination room' i pr = Err e \<Longrightarrow> \<not> is_fatal_for_tcp_sender (Route e)" for room' i pr
    by (auto simp: target_destination_def ok_or_def
        split: DataProfile.splits option.splits if_splits)
  have d: "duplicate_error x = Err e \<Longrightarrow> \<not> is_fatal_for_tcp_sender (Route e)" for x
    by (cases x) auto
  have b: "snd (check_traffic tb n now) = Err e \<Longrightarrow> \<not> is_fatal_for_tcp_sender (Route e)" for tb n now
    by (auto simp: check_traffic_def Let_def split: if_splits)
  show ?thesis
    using err look ok t d b
    by (auto simp: route_data_def Let_def case_prod_beta split: res.splits)
qed

text \<open>
  C13: A peer that follows the protocol is never disconnected for its data.  A data frame that a
  TCP peer sends over its own control connection, under its own connection id and as its own
  player, keeps the connection open whatever else happens to the frame: a repeated or late frame,
  an exhausted rate limit, a target that left, or a target whose queue is full.
\<close>

theorem honest_sender_not_disconnected:
  assumes "server_reachable env sv" and "member (sv_state sv) s c p"
    and "p_profile p = Tcp" and "p_control_peer p = peer_id"
    and "decode_frame raw = Ok (DataF d)"
    and "df_connection_id d = c" and "df_from_steam_id64 d = p_steam_id64 p"
  shows "\<exists>sv'. handle_tcp_frame env draws sv peer_id enabled now raw = Some (sv', Ok False)"
proof -
  have inv: "relay_inv (sv_state sv)" using server.reachable_inv [OF assms(1)] by simp
  let ?q = "data_request d raw (SrcTcp peer_id) now"
  obtain room where look: "peer_lookup (sv_state sv) (rd_connection_id ?q) = Some (s, room, p)"
    using member_peer_lookup [OF inv assms(2)] assms(6) by (auto simp: data_request_def)
  have src: "validate_source p (rd_from_steam_id64 ?q) (rd_source ?q) = Ok ()"
    using assms by (simp add: validate_source_def data_request_def)
  have "handle_tcp_data_result (snd (forward_data env sv d raw (SrcTcp peer_id) now)) = Ok False"
  proof (cases "snd (route_data (sv_state sv) ?q)")
    case (Ok dest)
    then show ?thesis
      using dispatch_result [where env = env and dest = dest and raw = raw
          and sv = "sv\<lparr>sv_state := fst (route_data (sv_state sv) ?q)\<rparr>"]
      by (auto simp: forward_data_def Let_def case_prod_beta split: res.splits)
  next
    case (Err e)
    then show ?thesis using honest_route [OF look src Err]
      by (simp add: forward_data_def Let_def case_prod_beta)
  next
    case Panic
    then show ?thesis using route_data_no_Panic by blast
  qed
  then show ?thesis
    using assms(5) by (simp add: handle_tcp_frame_def invalid_data_def case_prod_beta Let_def)
qed

lemma demo_join_begin_frame:
  assumes "decode_frame raw = Ok (ClientControlFrame [1])"
  shows "\<exists>sv' r. handle_tcp_frame demo_env demo_draws sv 1 CAP_ROOM_PATH_PROBE 0 raw = Some (sv', r)
     \<and> sv_state sv' = fst (begin_join (sv_state sv) [3] [4] (demo_begin 1 76))"
proof -
  let ?h = "handle_join_begin demo_env demo_draws sv 1 CAP_ROOM_PATH_PROBE 0 (SecretString []) 76 None WTcp"
  have "handle_tcp_frame demo_env demo_draws sv 1 CAP_ROOM_PATH_PROBE 0 raw
      = Some (fst ?h, rbind (snd ?h) (\<lambda>result. Ok (cr_stop result)))"
    using assms by (simp add: handle_tcp_frame_def invalid_data_def decode_client_control_def
        decode_control_json_def MAX_CONTROL_PAYLOAD_def demo_env_def handle_control_def case_prod_beta)
  moreover have "sv_state (fst ?h) = fst (begin_join (sv_state sv) [3] [4] (demo_begin 1 76))"
    by (simp add: handle_join_begin_def invalid_data_def demo_env_def demo_draws_def session_key_def
        decode_base58_16_def demo_session_def demo_begin_def Let_def case_prod_beta reply_state)
  ultimately show ?thesis by blast
qed

lemma demo_join_proof_frame:
  assumes "decode_frame raw = Ok (ClientControlFrame [2])"
    and "complete_join demo_sha [100] [9] [8] (sv_state sv) 1 [3] [] 0 = Some (st, r0)"
  shows "\<exists>sv' r. handle_tcp_frame demo_env demo_draws sv 1 CAP_ROOM_PATH_PROBE 0 raw = Some (sv', r)
     \<and> sv_state sv' = st"
proof -
  let ?h = "handle_join_proof demo_env demo_draws sv 1 0 (replicate 32 CHR ''0'') (SecretString [])"
  have "handle_tcp_frame demo_env demo_draws sv 1 CAP_ROOM_PATH_PROBE 0 raw
      = map_option (\<lambda>(sv, r). (sv, rbind r (\<lambda>result. Ok (cr_stop result)))) ?h"
    using assms(1) by (simp add: handle_tcp_frame_def invalid_data_def decode_client_control_def
        decode_control_json_def MAX_CONTROL_PAYLOAD_def demo_env_def handle_control_def)
  moreover have "\<exists>sv' r. ?h = Some (sv', r) \<and> sv_state sv' = st"
    using assms(2)
    by (auto simp: handle_join_proof_def invalid_data_def demo_env_def demo_draws_def decode_hex_16_def
        ok_or_def reply_state prod_eq_iff Let_def split: res.split)
  ultimately show ?thesis by auto
qed

lemma demo_session_reachable:
  "\<exists>sv. server_reachable demo_env sv \<and> member (sv_state sv) demo_session 100 (demo_peer 1 76 100)"
proof -
  have wf: "frame_wf (ClientControlFrame [1])" "frame_wf (ClientControlFrame [2])"
    by (simp_all add: MAX_CONTROL_PAYLOAD_def)
  obtain r1 r2 where raw: "decode_frame r1 = Ok (ClientControlFrame [1])"
    "decode_frame r2 = Ok (ClientControlFrame [2])"
    using relay_codec.roundtrip [OF wf(1)] relay_codec.roundtrip [OF wf(2)] by blast
  obtain sv1 x1 where h1: "handle_tcp_frame demo_env demo_draws demo_server 1 CAP_ROOM_PATH_PROBE 0 r1
      = Some (sv1, x1)"
    and st1: "sv_state sv1 = fst (begin_join (sv_state demo_server) [3] [4] (demo_begin 1 76))"
    using demo_join_begin_frame [OF raw(1)] by blast
  have cfg: "pow_difficulty_bits demo_config = 0" "max_rooms demo_config = 256"
    "max_peers_per_room demo_config = 4"
    by (simp_all add: demo_config_def config_default_def)
  obtain st r where cj: "complete_join demo_sha [100] [9] [8] (sv_state sv1) 1 [3] [] 0 = Some (st, r)"
    and m: "member st demo_session 100 (demo_peer 1 76 100)"
    by (simp add: st1 demo_server_def tcp_connected_def state_new_def demo_begin_def new_peer_def
        demo_peer_def member_def cfg join_eval)
  obtain sv2 x2 where h2: "handle_tcp_frame demo_env demo_draws sv1 1 CAP_ROOM_PATH_PROBE 0 r2
      = Some (sv2, x2)" and st2: "sv_state sv2 = st"
    using demo_join_proof_frame [OF raw(2) cj] by blast
  have "server_reachable demo_env sv1"
    using demo_server_reachable by (rule reach_step) (rule ev_tcp_frame [OF h1])
  then have "server_reachable demo_env sv2" by (rule reach_step) (rule ev_tcp_frame [OF h2])
  then show ?thesis using m st2 by blast
qed

definition demo_data :: DataFrame where
  "demo_data = \<lparr>df_connection_id = 100, df_frame_id = 1, df_from_steam_id64 = 76,
     df_to_steam_id64 = 77, df_delivery_stream_id = replicate 16 5, df_delivery_sequence = 1,
     df_channel = 0, df_send_type = 0, df_payload = [7]\<rparr>"

theorem honest_sender_not_disconnected_witness:
  "\<exists>sv raw sv'. server_reachable demo_env sv \<and> decode_frame raw = Ok (DataF demo_data)
     \<and> handle_tcp_frame demo_env demo_draws sv 1 0 3 raw = Some (sv', Ok False)"
proof -
  obtain sv where sv: "server_reachable demo_env sv"
    "member (sv_state sv) demo_session 100 (demo_peer 1 76 100)"
    using demo_session_reachable by blast
  have "frame_wf (DataF demo_data)"
    by (simp add: demo_data_def relay_frame_consts all_zero_def list_all_iff)
  then obtain raw where raw: "decode_frame raw = Ok (DataF demo_data)"
    using relay_codec.roundtrip by blast
  from honest_sender_not_disconnected [OF sv _ _ raw, of 1 demo_draws 0 3] sv(1) raw
  show ?thesis by (auto simp: demo_peer_def demo_data_def)
qed

section \<open>Negotiation\<close>

text \<open>A range list that offers protocol 3.0, the only version this relay speaks.\<close>

definition offers_relay_version :: "ProtocolRange list \<Rightarrow> bool" where
  "offers_relay_version ranges =
     list_ex (\<lambda>r. pr_major r = PROTOCOL_MAJOR \<and> pr_min_minor r = 0) ranges"

lemma select_relay_version:
  "select_protocol ranges relay_ranges = Ok v \<longleftrightarrow>
     list_all (\<lambda>r. \<not> invalid_range r) ranges \<and> offers_relay_version ranges
     \<and> v = \<lparr>pv_major = PROTOCOL_MAJOR, pv_minor = PROTOCOL_MINOR\<rparr>"
proof -
  let ?v = "\<lparr>pv_major = PROTOCOL_MAJOR, pv_minor = PROTOCOL_MINOR\<rparr>"
  have c: "common_version ranges relay_ranges w \<longleftrightarrow> w = ?v \<and> offers_relay_version ranges" for w
    by (auto simp: common_version_def relay_ranges_def range_contains_def offers_relay_version_def
        PROTOCOL_MAJOR_def PROTOCOL_MINOR_def list_ex_iff word_le_0_iff)
  have valid: "ranges_valid ranges relay_ranges \<longleftrightarrow> list_all (\<lambda>r. \<not> invalid_range r) ranges"
    by (simp add: ranges_valid_def relay_ranges_def invalid_range_def PROTOCOL_MINOR_def)
  show ?thesis
    unfolding relay_select.select_Ok valid newest_common_def c by auto
qed

lemma select_relay_case:
  "(case select_protocol ranges relay_ranges of Ok v \<Rightarrow> f v | Err e \<Rightarrow> g | Panic \<Rightarrow> g) =
     (if list_all (\<lambda>r. \<not> invalid_range r) ranges \<and> offers_relay_version ranges
      then f \<lparr>pv_major = PROTOCOL_MAJOR, pv_minor = PROTOCOL_MINOR\<rparr> else g)"
proof (cases "select_protocol ranges relay_ranges")
  case (Ok v)
  then show ?thesis using select_relay_version [of ranges v] by simp
qed (use select_relay_version
    [of ranges "\<lparr>pv_major = PROTOCOL_MAJOR, pv_minor = PROTOCOL_MINOR\<rparr>"] in auto)

lemma available_known: "available_capabilities udp AND KNOWN_CAPABILITIES = available_capabilities udp"
  by (simp add: available_capabilities_def relay_caps_defs)

lemma select_available:
  "select_capabilities required optional (available_capabilities udp) =
     (if bits_subset required (available_capabilities udp)
      then Ok (required OR optional AND available_capabilities udp)
      else Err (MissingRequired (required AND NOT (available_capabilities udp))))"
  by (simp add: select_capabilities_def select_capabilities_of_def available_known bits_subset_def Let_def)

text \<open>
  Bootstrap negotiation on every branch.  A client hello is always answered.  It is accepted,
  with protocol 3.0, exactly when its schema is the relay's, its ranges are well formed, one of
  them offers version 3.0, and it requires nothing the relay lacks (UDP being available only with
  a UDP listener); then it enables the required capabilities and those optional ones the relay
  has.  Otherwise the reply is a rejection with the code of the first check that failed.  Any
  other bootstrap message is an error without a reply.
\<close>

lemma negotiate_hello_result:
  "negotiate_hello build udp (ClientHello schema ranges required optional client) =
     (if schema \<noteq> BOOTSTRAP_SCHEMA
      then (Some (reject_message build UnsupportedBootstrapSchema), Err Unsupported)
      else if \<not> (list_all (\<lambda>r. \<not> invalid_range r) ranges \<and> offers_relay_version ranges)
      then (Some (reject_message build UnsupportedProtocol), Err Unsupported)
      else if \<not> bits_subset required (available_capabilities udp)
      then (Some (reject_message build MissingRequiredCapabilities), Err Unsupported)
      else
        let enabled = required OR optional AND available_capabilities udp in
        (Some (ServerHello BOOTSTRAP_SCHEMA
                 \<lparr>pv_major = PROTOCOL_MAJOR, pv_minor = PROTOCOL_MINOR\<rparr> enabled build), Ok enabled))
   \<and> negotiate_hello build udp (ServerHello schema v enabled client) = (None, Err InvalidData)
   \<and> negotiate_hello build udp (CompatReject reject) = (None, Err InvalidData)"
  by (simp add: negotiate_hello_def select_relay_case select_available Let_def)

end
