(* ===== verification/Direct_Types.thy ===== *)
theory Direct_Types
  imports Net_Addr Protocol_Negotiation
begin

text \<open>
  The values of the direct (LAN) peer protocol (\<open>direct-protocol/src/types.rs\<close>): identities,
  host candidates, peer descriptors, their validation, and version and capability selection.
  Opaque byte arrays are byte lists; a string is the list of its bytes.
\<close>

section \<open>Data\<close>

definition MAX_CANDIDATES :: usize where "MAX_CANDIDATES = 8"
definition MAX_PEERS :: usize where "MAX_PEERS = 16"
definition MAX_DISPLAY_NAME_LEN :: usize where "MAX_DISPLAY_NAME_LEN = 64"
definition MAX_PROTOCOL_RANGES :: usize where "MAX_PROTOCOL_RANGES = 4"

definition CAP_HOST_CANDIDATES :: u64 where "CAP_HOST_CANDIDATES = 1"
definition CAP_DIRECT_UDP :: u64 where "CAP_DIRECT_UDP = 2"
definition CAP_MEMBERSHIP_SNAPSHOT :: u64 where "CAP_MEMBERSHIP_SNAPSHOT = 4"

definition DIRECT_CAPABILITIES :: u64 where
  "DIRECT_CAPABILITIES = CAP_HOST_CANDIDATES OR CAP_DIRECT_UDP OR CAP_MEMBERSHIP_SNAPSHOT"

text \<open>The identifiers of \<open>opaque_bytes!\<close>: arrays of 16 bytes (32 for a session proof).\<close>

type_synonym InstanceId = "byte list"
type_synonym LinkId = "byte list"
type_synonym PathId = "byte list"
type_synonym PathToken = "byte list"
type_synonym TransactionId = "byte list"
type_synonym SessionProof = "byte list"

record PeerIdentity =
  id_steam_id64 :: u64
  id_instance_id :: InstanceId

record HostCandidate =
  hc_endpoint :: SocketAddr
  hc_priority :: u32
  hc_generation :: u32

record PeerDescriptor =
  pd_identity :: PeerIdentity
  pd_display_name :: "string option"
  pd_control_candidates :: "HostCandidate list"
  pd_capabilities :: u64

datatype CandidateValidationError =
    CvZeroSteamId
  | CvZeroInstanceId
  | CvZeroPort
  | CvZeroPriority
  | CvUnspecifiedAddress
  | CvNonUnicastAddress
  | CvMissingIpv6Scope
  | CvNoCandidates
  | CvTooManyCandidates usize
  | CvDuplicateCandidate SocketAddr
  | CvDisplayNameTooLong
  | CvUnknownCapabilities u64
  | CvNoProtocolRanges
  | CvTooManyProtocolRanges usize
  | CvInvalidProtocolRange ProtocolRange

datatype DirectSelectionError =
    DsInvalidRangeCount usize
  | DsInvalidRange ProtocolRange
  | DsNoCommonProtocol

section \<open>Validation\<close>

definition identity_validate :: "PeerIdentity \<Rightarrow> (CandidateValidationError, unit) res" where
  "identity_validate i =
     rbind (ensure (id_steam_id64 i \<noteq> 0) CvZeroSteamId) (\<lambda>_.
     ensure (\<not> all_zero (id_instance_id i)) CvZeroInstanceId)"

fun address_validate :: "SocketAddr \<Rightarrow> (CandidateValidationError, unit) res" where
  "address_validate (SockV4 ip port) =
     rbind (ensure (\<not> v4_is_unspecified ip) CvUnspecifiedAddress) (\<lambda>_.
     ensure (\<not> (v4_is_multicast ip \<or> v4_is_broadcast ip)) CvNonUnicastAddress)"
| "address_validate (SockV6 ip port flow scope) =
     rbind (ensure (\<not> v6_is_unspecified ip) CvUnspecifiedAddress) (\<lambda>_.
     rbind (ensure (\<not> v6_is_multicast ip) CvNonUnicastAddress) (\<lambda>_.
     ensure (\<not> (v6_is_unicast_link_local ip \<and> scope = 0)) CvMissingIpv6Scope))"

definition candidate_validate :: "HostCandidate \<Rightarrow> (CandidateValidationError, unit) res" where
  "candidate_validate c =
     rbind (ensure (sock_port (hc_endpoint c) \<noteq> 0) CvZeroPort) (\<lambda>_.
     rbind (ensure (hc_priority c \<noteq> 0) CvZeroPriority) (\<lambda>_.
     address_validate (hc_endpoint c)))"

definition candidate_new ::
  "SocketAddr \<Rightarrow> u32 \<Rightarrow> u32 \<Rightarrow> (CandidateValidationError, HostCandidate) res" where
  "candidate_new endpoint priority generation =
     (let c = \<lparr>hc_endpoint = endpoint, hc_priority = priority, hc_generation = generation\<rparr>
      in rbind (candidate_validate c) (\<lambda>_. Ok c))"

text \<open>The loop over the candidates, with those before the current one.\<close>

fun candidates_loop ::
  "HostCandidate list \<Rightarrow> HostCandidate list \<Rightarrow> (CandidateValidationError, unit) res" where
  "candidates_loop before [] = Ok ()"
| "candidates_loop before (c # rest) =
     rbind (candidate_validate c) (\<lambda>_.
     rbind (ensure (\<not> list_ex (\<lambda>e. hc_endpoint e = hc_endpoint c) before)
              (CvDuplicateCandidate (hc_endpoint c))) (\<lambda>_.
     candidates_loop (before @ [c]) rest))"

definition validate_candidates :: "HostCandidate list \<Rightarrow> (CandidateValidationError, unit) res" where
  "validate_candidates cs =
     rbind (ensure (cs \<noteq> []) CvNoCandidates) (\<lambda>_.
     rbind (ensure (\<not> MAX_CANDIDATES < length cs) (CvTooManyCandidates (length cs))) (\<lambda>_.
     candidates_loop [] cs))"

definition descriptor_validate :: "PeerDescriptor \<Rightarrow> (CandidateValidationError, unit) res" where
  "descriptor_validate d =
     rbind (identity_validate (pd_identity d)) (\<lambda>_.
     rbind (ensure (\<not> (case pd_display_name d of
                          None \<Rightarrow> False | Some name \<Rightarrow> MAX_DISPLAY_NAME_LEN < length name))
              CvDisplayNameTooLong) (\<lambda>_.
     rbind (validate_candidates (pd_control_candidates d)) (\<lambda>_.
     ensure (pd_capabilities d AND NOT DIRECT_CAPABILITIES = 0)
       (CvUnknownCapabilities (pd_capabilities d AND NOT DIRECT_CAPABILITIES)))))"

definition range_inverted :: "ProtocolRange \<Rightarrow> bool" where
  "range_inverted r = (pr_max_minor r < pr_min_minor r)"

definition validate_protocol_ranges :: "ProtocolRange list \<Rightarrow> (CandidateValidationError, unit) res" where
  "validate_protocol_ranges ranges =
     rbind (ensure (ranges \<noteq> []) CvNoProtocolRanges) (\<lambda>_.
     rbind (ensure (\<not> MAX_PROTOCOL_RANGES < length ranges)
              (CvTooManyProtocolRanges (length ranges))) (\<lambda>_.
     case find range_inverted ranges of
       Some r \<Rightarrow> Err (CvInvalidProtocolRange r) | None \<Rightarrow> Ok ()))"

section \<open>Selection\<close>

definition validate_selection_ranges :: "ProtocolRange list \<Rightarrow> (DirectSelectionError, unit) res" where
  "validate_selection_ranges ranges =
     rbind (ensure (\<not> (ranges = [] \<or> MAX_PROTOCOL_RANGES < length ranges))
              (DsInvalidRangeCount (length ranges))) (\<lambda>_.
     case find range_inverted ranges of Some r \<Rightarrow> Err (DsInvalidRange r) | None \<Rightarrow> Ok ())"

definition direct_select_protocol ::
  "ProtocolRange list \<Rightarrow> ProtocolRange list \<Rightarrow> (DirectSelectionError, ProtocolVersion) res" where
  "direct_select_protocol local remote =
     rbind (validate_selection_ranges local) (\<lambda>_.
     rbind (validate_selection_ranges remote) (\<lambda>_.
     ok_or (select_loop local remote) DsNoCommonProtocol))"

definition direct_select_capabilities :: "u64 \<Rightarrow> u64 \<Rightarrow> u64 \<Rightarrow> (CapabilityError, u64) res" where
  "direct_select_capabilities required optional available =
     select_capabilities_of DIRECT_CAPABILITIES required optional available"

section \<open>What validation accepts\<close>

fun unicast_endpoint :: "SocketAddr \<Rightarrow> bool" where
  "unicast_endpoint (SockV4 ip port) =
     (port \<noteq> 0 \<and> \<not> v4_is_unspecified ip \<and> \<not> v4_is_multicast ip \<and> \<not> v4_is_broadcast ip)"
| "unicast_endpoint (SockV6 ip port flow scope) =
     (port \<noteq> 0 \<and> \<not> v6_is_unspecified ip \<and> \<not> v6_is_multicast ip
      \<and> (v6_is_unicast_link_local ip \<longrightarrow> scope \<noteq> 0))"

lemma candidate_validate_Ok [simp]:
  "candidate_validate c = Ok u \<longleftrightarrow> unicast_endpoint (hc_endpoint c) \<and> hc_priority c \<noteq> 0"
  by (cases "hc_endpoint c") (auto simp: candidate_validate_def)

lemma candidate_validate_no_Panic [simp]: "candidate_validate c \<noteq> Panic"
  by (cases "hc_endpoint c") (simp_all add: candidate_validate_def rbind_eq_Panic)

lemma candidate_new_Ok [simp]:
  "candidate_new e p g = Ok c \<longleftrightarrow>
     unicast_endpoint e \<and> p \<noteq> 0 \<and> c = \<lparr>hc_endpoint = e, hc_priority = p, hc_generation = g\<rparr>"
  by (auto simp: candidate_new_def Let_def)

text \<open>A list of candidates that can be offered: each usable, no endpoint twice.\<close>

definition candidates_ok :: "HostCandidate list \<Rightarrow> bool" where
  "candidates_ok cs \<longleftrightarrow>
     list_all (\<lambda>c. unicast_endpoint (hc_endpoint c) \<and> hc_priority c \<noteq> 0) cs
     \<and> distinct (map hc_endpoint cs)"

lemma candidates_loop_Ok:
  "candidates_loop before cs = Ok u \<longleftrightarrow>
     candidates_ok cs \<and> set (map hc_endpoint before) \<inter> set (map hc_endpoint cs) = {}"
proof (induction cs arbitrary: before)
  case (Cons c cs)
  have "candidates_loop before (c # cs) = Ok u \<longleftrightarrow>
      unicast_endpoint (hc_endpoint c) \<and> hc_priority c \<noteq> 0
      \<and> hc_endpoint c \<notin> set (map hc_endpoint before) \<and> candidates_loop (before @ [c]) cs = Ok u"
    by (auto simp: list_ex_iff image_iff)
  then show ?case unfolding Cons.IH by (auto simp: candidates_ok_def)
qed (simp add: candidates_ok_def)

lemma candidates_loop_no_Panic [simp]: "candidates_loop before cs \<noteq> Panic"
  by (induction cs arbitrary: before) (simp_all add: rbind_eq_Panic)

lemma validate_candidates_Ok [simp]:
  "validate_candidates cs = Ok u \<longleftrightarrow> cs \<noteq> [] \<and> length cs \<le> MAX_CANDIDATES \<and> candidates_ok cs"
  by (auto simp: validate_candidates_def candidates_loop_Ok)

lemma validate_candidates_no_Panic [simp]: "validate_candidates cs \<noteq> Panic"
  by (simp add: validate_candidates_def rbind_eq_Panic)

definition identity_ok :: "PeerIdentity \<Rightarrow> bool" where
  "identity_ok i \<longleftrightarrow> id_steam_id64 i \<noteq> 0 \<and> \<not> all_zero (id_instance_id i)"

lemma identity_validate_Ok [simp]: "identity_validate i = Ok u \<longleftrightarrow> identity_ok i"
  by (auto simp: identity_validate_def identity_ok_def)

lemma identity_validate_no_Panic [simp]: "identity_validate i \<noteq> Panic"
  by (simp add: identity_validate_def rbind_eq_Panic)

definition descriptor_ok :: "PeerDescriptor \<Rightarrow> bool" where
  "descriptor_ok d \<longleftrightarrow>
     identity_ok (pd_identity d)
     \<and> (case pd_display_name d of None \<Rightarrow> True | Some n \<Rightarrow> length n \<le> MAX_DISPLAY_NAME_LEN)
     \<and> pd_control_candidates d \<noteq> [] \<and> length (pd_control_candidates d) \<le> MAX_CANDIDATES
     \<and> candidates_ok (pd_control_candidates d)
     \<and> bits_subset (pd_capabilities d) DIRECT_CAPABILITIES"

lemma descriptor_validate_Ok [simp]: "descriptor_validate d = Ok u \<longleftrightarrow> descriptor_ok d"
  by (auto simp: descriptor_validate_def descriptor_ok_def bits_subset_def split: option.split)

lemma descriptor_validate_no_Panic [simp]: "descriptor_validate d \<noteq> Panic"
  by (simp add: descriptor_validate_def rbind_eq_Panic)

definition ranges_ok :: "ProtocolRange list \<Rightarrow> bool" where
  "ranges_ok rs \<longleftrightarrow>
     rs \<noteq> [] \<and> length rs \<le> MAX_PROTOCOL_RANGES \<and> list_all (\<lambda>r. \<not> range_inverted r) rs"

lemma find_inverted_None: "find range_inverted rs = None \<longleftrightarrow> list_all (\<lambda>r. \<not> range_inverted r) rs"
  by (auto simp: find_None_iff list_all_iff)

lemma validate_protocol_ranges_Ok [simp]: "validate_protocol_ranges rs = Ok u \<longleftrightarrow> ranges_ok rs"
  by (auto simp: validate_protocol_ranges_def ranges_ok_def find_inverted_None [symmetric] split: option.split)

lemma validate_protocol_ranges_no_Panic [simp]: "validate_protocol_ranges rs \<noteq> Panic"
  by (simp add: validate_protocol_ranges_def rbind_eq_Panic split: option.split)

lemma validate_selection_ranges_Ok [simp]: "validate_selection_ranges rs = Ok u \<longleftrightarrow> ranges_ok rs"
  by (auto simp: validate_selection_ranges_def ranges_ok_def find_inverted_None [symmetric] split: option.split)

lemma validate_selection_ranges_Err:
  "validate_selection_ranges rs = Err e \<Longrightarrow> e \<noteq> DsNoCommonProtocol"
  by (auto simp: validate_selection_ranges_def ensure_def split: option.splits if_splits)

lemma validate_selection_ranges_no_Panic [simp]: "validate_selection_ranges rs \<noteq> Panic"
  by (simp add: validate_selection_ranges_def rbind_eq_Panic split: option.split)

interpretation direct_select: version_selection direct_select_protocol
    "\<lambda>xs ys. ranges_ok xs \<and> ranges_ok ys" DsNoCommonProtocol
proof (unfold_locales, goal_cases)
  case (1 xs ys)
  then have "validate_selection_ranges xs = Ok ()" "validate_selection_ranges ys = Ok ()" by simp_all
  then show ?case by (simp add: direct_select_protocol_def del: validate_selection_ranges_Ok)
next
  case (2 xs ys)
  then show ?case
    using validate_selection_ranges_Ok [of xs] validate_selection_ranges_Ok [of ys]
    by (cases "validate_selection_ranges xs"; cases "validate_selection_ranges ys")
      (auto simp: direct_select_protocol_def simp del: validate_selection_ranges_Ok
        dest: validate_selection_ranges_Err)
qed auto

section \<open>Properties\<close>

text \<open>
  Two direct peers agree on a version exactly when each advertises between one and four well
  formed ranges and some version lies in a range of both; the version is the newest such, and both
  sides compute the same one whichever of the two lists is called local.
\<close>

lemma direct_select_newest:
  "(direct_select_protocol local remote = Ok v \<longleftrightarrow>
      ranges_ok local \<and> ranges_ok remote \<and> newest_common local remote v)
   \<and> (direct_select_protocol local remote = Ok v \<longleftrightarrow> direct_select_protocol remote local = Ok v)
   \<and> (direct_select_protocol local remote = Err DsNoCommonProtocol \<longleftrightarrow>
        ranges_ok local \<and> ranges_ok remote \<and> \<not> (\<exists>w. common_version local remote w))"
  using direct_select.select_Ok [of local remote v] direct_select.select_commute [of local remote v]
    direct_select.select_no_common [of local remote] by auto

end
