(* ===== verification/Direct_Frame.thy ===== *)
theory Direct_Frame
  imports Direct_Types Frame_Header
begin

text \<open>
  The fixed binary frames of the direct protocol (\<open>direct-protocol/src/frame.rs\<close>, constants of
  \<open>lib.rs\<close>): path checks, heartbeats and game data, their encoder and decoder.  Proved: decoding
  never panics and accepts only well-formed frames, and what is encoded is decoded back.
\<close>

section \<open>Constants and data\<close>

definition DIRECT_MAJOR :: byte where "DIRECT_MAJOR = 2"
definition DIRECT_MINOR :: byte where "DIRECT_MINOR = 0"

definition DIRECT_MAGIC :: "byte list" where
  "DIRECT_MAGIC = [0x54, 0x42, 0x44, 0x32]" \<comment> \<open>\<open>b"TBD2"\<close>\<close>

definition PATH_CONTEXT_LEN :: usize where "PATH_CONTEXT_LEN = 64"
definition PATH_HEADER_LEN :: usize where "PATH_HEADER_LEN = COMMON_HEADER_LEN + PATH_CONTEXT_LEN"
definition CHECK_FRAME_HEADER_LEN :: usize where "CHECK_FRAME_HEADER_LEN = PATH_HEADER_LEN + 24"
definition HEARTBEAT_FRAME_HEADER_LEN :: usize where
  "HEARTBEAT_FRAME_HEADER_LEN = PATH_HEADER_LEN + 16"
definition DIRECT_DATA_HEADER_LEN :: usize where "DIRECT_DATA_HEADER_LEN = PATH_HEADER_LEN + 40"
definition DIRECT_MAX_FRAME_LEN :: usize where "DIRECT_MAX_FRAME_LEN = IPV4_UDP_DATAGRAM_BUDGET"
definition DIRECT_MAX_PAYLOAD :: usize where
  "DIRECT_MAX_PAYLOAD = DIRECT_MAX_FRAME_LEN - DIRECT_DATA_HEADER_LEN"

lemmas direct_frame_consts =
  DIRECT_MAJOR_def DIRECT_MINOR_def DIRECT_MAGIC_def PATH_CONTEXT_LEN_def PATH_HEADER_LEN_def
  CHECK_FRAME_HEADER_LEN_def HEARTBEAT_FRAME_HEADER_LEN_def DIRECT_DATA_HEADER_LEN_def
  DIRECT_MAX_FRAME_LEN_def DIRECT_MAX_PAYLOAD_def IPV4_UDP_DATAGRAM_BUDGET_def COMMON_HEADER_LEN_def

datatype DirectKind = DkCheck | DkHeartbeat | DkData

fun direct_kind_code :: "DirectKind \<Rightarrow> byte" where
  "direct_kind_code DkCheck = 1"
| "direct_kind_code DkHeartbeat = 2"
| "direct_kind_code DkData = 3"

definition direct_kind_try_from :: "byte \<Rightarrow> DirectKind option" where
  "direct_kind_try_from v =
     (if v = 1 then Some DkCheck else if v = 2 then Some DkHeartbeat
      else if v = 3 then Some DkData else None)"

text \<open>\<open>CheckPhase\<close> and \<open>HeartbeatPhase\<close> have the same two values and codes.\<close>

datatype CheckPhase = CheckRequest | CheckResponse
datatype HeartbeatPhase = HeartbeatRequest | HeartbeatResponse

fun check_phase_code :: "CheckPhase \<Rightarrow> byte" where
  "check_phase_code CheckRequest = 1"
| "check_phase_code CheckResponse = 2"

definition check_phase_try_from :: "byte \<Rightarrow> CheckPhase option" where
  "check_phase_try_from v =
     (if v = 1 then Some CheckRequest else if v = 2 then Some CheckResponse else None)"

fun heartbeat_phase_code :: "HeartbeatPhase \<Rightarrow> byte" where
  "heartbeat_phase_code HeartbeatRequest = 1"
| "heartbeat_phase_code HeartbeatResponse = 2"

definition heartbeat_phase_try_from :: "byte \<Rightarrow> HeartbeatPhase option" where
  "heartbeat_phase_try_from v =
     (if v = 1 then Some HeartbeatRequest else if v = 2 then Some HeartbeatResponse else None)"

record PathContext =
  pc_path_id :: PathId
  pc_path_token :: PathToken
  pc_from :: PeerIdentity
  pc_to_steam_id64 :: u64

record CheckFrame =
  cf_path :: PathContext
  cf_transaction_id :: TransactionId
  cf_phase :: CheckPhase

record HeartbeatFrame =
  hf_path :: PathContext
  hf_heartbeat_id :: u64
  hf_phase :: HeartbeatPhase

record DirectData =
  dd_path :: PathContext
  dd_frame_id :: u64
  dd_delivery_stream_id :: "byte list"
  dd_delivery_sequence :: u64
  dd_channel :: i32
  dd_send_type :: i32
  dd_payload :: "byte list"

datatype DirectFrame = Check CheckFrame | Heartbeat HeartbeatFrame | DirectDataF DirectData

datatype DirectEncodeError =
    DeHeaderTooLarge usize
  | DePayloadTooLarge usize
  | DeZeroPathId
  | DeZeroPathToken
  | DeZeroSteamId
  | DeZeroInstanceId
  | DeSelfTarget
  | DeZeroTransactionId
  | DeZeroHeartbeatId
  | DeZeroFrameId
  | DeZeroDeliveryStreamId
  | DeZeroDeliverySequence

datatype DirectFault =
    DfNonZeroFrameReserved
  | DfZeroPathId
  | DfZeroPathToken
  | DfZeroSteamId
  | DfZeroInstanceId
  | DfSelfTarget
  | DfZeroTransactionId
  | DfZeroHeartbeatId
  | DfZeroFrameId
  | DfZeroDeliveryStreamId
  | DfZeroDeliverySequence
  | DfUnknownCheckPhase byte
  | DfUnknownHeartbeatPhase byte

section \<open>Encoding\<close>

definition direct_validate_path :: "PathContext \<Rightarrow> (DirectEncodeError, unit) res" where
  "direct_validate_path p =
     rbind (ensure (\<not> all_zero (pc_path_id p)) DeZeroPathId) (\<lambda>_.
     rbind (ensure (\<not> all_zero (pc_path_token p)) DeZeroPathToken) (\<lambda>_.
     rbind (ensure (\<not> (id_steam_id64 (pc_from p) = 0 \<or> pc_to_steam_id64 p = 0)) DeZeroSteamId) (\<lambda>_.
     rbind (ensure (\<not> all_zero (id_instance_id (pc_from p))) DeZeroInstanceId) (\<lambda>_.
     ensure (id_steam_id64 (pc_from p) \<noteq> pc_to_steam_id64 p) DeSelfTarget))))"

definition put_path :: "PathContext \<Rightarrow> byte list" where
  "put_path p =
     pc_path_id p @ pc_path_token p @ put_u64 (id_steam_id64 (pc_from p))
     @ id_instance_id (pc_from p) @ put_u64 (pc_to_steam_id64 p)"

definition direct_put_header :: "DirectKind \<Rightarrow> usize \<Rightarrow> u32 \<Rightarrow> (DirectEncodeError, byte list) res" where
  "direct_put_header kind header_len payload_len =
     put_header DeHeaderTooLarge DIRECT_MAGIC DIRECT_MAJOR DIRECT_MINOR (direct_kind_code kind)
       header_len payload_len"

definition encode_check :: "CheckFrame \<Rightarrow> (DirectEncodeError, byte list) res" where
  "encode_check f =
     rbind (direct_validate_path (cf_path f)) (\<lambda>_.
     rbind (ensure (\<not> all_zero (cf_transaction_id f)) DeZeroTransactionId) (\<lambda>_.
     rbind (direct_put_header DkCheck CHECK_FRAME_HEADER_LEN 0) (\<lambda>bytes.
     Ok (bytes @ put_path (cf_path f) @ cf_transaction_id f
         @ put_u8 (check_phase_code (cf_phase f)) @ replicate 7 0))))"

definition encode_heartbeat :: "HeartbeatFrame \<Rightarrow> (DirectEncodeError, byte list) res" where
  "encode_heartbeat f =
     rbind (direct_validate_path (hf_path f)) (\<lambda>_.
     rbind (ensure (hf_heartbeat_id f \<noteq> 0) DeZeroHeartbeatId) (\<lambda>_.
     rbind (direct_put_header DkHeartbeat HEARTBEAT_FRAME_HEADER_LEN 0) (\<lambda>bytes.
     Ok (bytes @ put_path (hf_path f) @ put_u64 (hf_heartbeat_id f)
         @ put_u8 (heartbeat_phase_code (hf_phase f)) @ replicate 7 0))))"

definition encode_direct_data :: "DirectData \<Rightarrow> (DirectEncodeError, byte list) res" where
  "encode_direct_data f =
     rbind (direct_validate_path (dd_path f)) (\<lambda>_.
     rbind (ensure (dd_frame_id f \<noteq> 0) DeZeroFrameId) (\<lambda>_.
     rbind (ensure (\<not> all_zero (dd_delivery_stream_id f)) DeZeroDeliveryStreamId) (\<lambda>_.
     rbind (ensure (dd_delivery_sequence f \<noteq> 0) DeZeroDeliverySequence) (\<lambda>_.
     rbind (ensure (\<not> DIRECT_MAX_PAYLOAD < length (dd_payload f))
              (DePayloadTooLarge (length (dd_payload f)))) (\<lambda>_.
     rbind (if length (dd_payload f) < 2 ^ 32 then Ok (of_nat (length (dd_payload f)) :: u32)
            else Err (DePayloadTooLarge (length (dd_payload f)))) (\<lambda>payload_len.
     rbind (direct_put_header DkData DIRECT_DATA_HEADER_LEN payload_len) (\<lambda>bytes.
     Ok (bytes @ put_path (dd_path f) @ put_u64 (dd_frame_id f) @ dd_delivery_stream_id f
         @ put_u64 (dd_delivery_sequence f) @ put_u32 (dd_channel f) @ put_u32 (dd_send_type f)
         @ dd_payload f))))))))"

fun direct_encode :: "DirectFrame \<Rightarrow> (DirectEncodeError, byte list) res" where
  "direct_encode (Check f) = encode_check f"
| "direct_encode (Heartbeat f) = encode_heartbeat f"
| "direct_encode (DirectDataF f) = encode_direct_data f"

section \<open>Decoding\<close>

fun direct_minimum_header :: "DirectKind \<Rightarrow> usize" where
  "direct_minimum_header DkCheck = CHECK_FRAME_HEADER_LEN"
| "direct_minimum_header DkHeartbeat = HEARTBEAT_FRAME_HEADER_LEN"
| "direct_minimum_header DkData = DIRECT_DATA_HEADER_LEN"

fun direct_max_payload :: "DirectKind \<Rightarrow> usize" where
  "direct_max_payload DkData = DIRECT_MAX_PAYLOAD"
| "direct_max_payload DkCheck = 0"
| "direct_max_payload DkHeartbeat = 0"

type_synonym 'a direct_decoder = "byte list \<Rightarrow> (DirectFault FrameDecodeError, 'a) res"

definition read_path :: "(PathContext \<times> byte list) direct_decoder" where
  "read_path bytes =
     rbind (read_array TooShort 16 bytes) (\<lambda>(path_id, b).
     rbind (ensure (\<not> all_zero path_id) (FrameFault DfZeroPathId)) (\<lambda>_.
     rbind (read_array TooShort 16 b) (\<lambda>(path_token, b).
     rbind (ensure (\<not> all_zero path_token) (FrameFault DfZeroPathToken)) (\<lambda>_.
     rbind (get_u64 b) (\<lambda>(steam_id64, b).
     rbind (ensure (steam_id64 \<noteq> 0) (FrameFault DfZeroSteamId)) (\<lambda>_.
     rbind (read_array TooShort 16 b) (\<lambda>(instance_id, b).
     rbind (ensure (\<not> all_zero instance_id) (FrameFault DfZeroInstanceId)) (\<lambda>_.
     rbind (get_u64 b) (\<lambda>(to_steam_id64, b).
     rbind (ensure (to_steam_id64 \<noteq> 0) (FrameFault DfZeroSteamId)) (\<lambda>_.
     rbind (ensure (steam_id64 \<noteq> to_steam_id64) (FrameFault DfSelfTarget)) (\<lambda>_.
     Ok (\<lparr>pc_path_id = path_id, pc_path_token = path_token,
          pc_from = \<lparr>id_steam_id64 = steam_id64, id_instance_id = instance_id\<rparr>,
          pc_to_steam_id64 = to_steam_id64\<rparr>, b))))))))))))"

definition reject_reserved :: "(byte list) direct_decoder" where
  "reject_reserved bytes =
     rbind (ensure (\<not> length bytes < 7) TooShort) (\<lambda>_.
     rbind (ensure (all_zero (take 7 bytes)) (FrameFault DfNonZeroFrameReserved)) (\<lambda>_.
     advance 7 bytes))"

definition decode_check :: "PathContext \<Rightarrow> usize \<Rightarrow> DirectFrame direct_decoder" where
  "decode_check path header_len bytes =
     rbind (read_array TooShort 16 bytes) (\<lambda>(transaction_id, b).
     rbind (ensure (\<not> all_zero transaction_id) (FrameFault DfZeroTransactionId)) (\<lambda>_.
     rbind (get_u8 b) (\<lambda>(phase_byte, b).
     rbind (ok_or (check_phase_try_from phase_byte) (FrameFault (DfUnknownCheckPhase phase_byte))) (\<lambda>phase.
     rbind (reject_reserved b) (\<lambda>b.
     rbind (advance (header_len - CHECK_FRAME_HEADER_LEN) b) (\<lambda>b.
     Ok (Check \<lparr>cf_path = path, cf_transaction_id = transaction_id, cf_phase = phase\<rparr>)))))))"

definition decode_heartbeat :: "PathContext \<Rightarrow> usize \<Rightarrow> DirectFrame direct_decoder" where
  "decode_heartbeat path header_len bytes =
     rbind (get_u64 bytes) (\<lambda>(heartbeat_id, b).
     rbind (ensure (heartbeat_id \<noteq> 0) (FrameFault DfZeroHeartbeatId)) (\<lambda>_.
     rbind (get_u8 b) (\<lambda>(phase_byte, b).
     rbind (ok_or (heartbeat_phase_try_from phase_byte)
              (FrameFault (DfUnknownHeartbeatPhase phase_byte))) (\<lambda>phase.
     rbind (reject_reserved b) (\<lambda>b.
     rbind (advance (header_len - HEARTBEAT_FRAME_HEADER_LEN) b) (\<lambda>b.
     Ok (Heartbeat \<lparr>hf_path = path, hf_heartbeat_id = heartbeat_id, hf_phase = phase\<rparr>)))))))"

definition decode_direct_data :: "PathContext \<Rightarrow> usize \<Rightarrow> usize \<Rightarrow> DirectFrame direct_decoder" where
  "decode_direct_data path header_len payload_len bytes =
     rbind (get_u64 bytes) (\<lambda>(frame_id, b).
     rbind (ensure (frame_id \<noteq> 0) (FrameFault DfZeroFrameId)) (\<lambda>_.
     rbind (read_array TooShort 16 b) (\<lambda>(stream_id, b).
     rbind (ensure (\<not> all_zero stream_id) (FrameFault DfZeroDeliveryStreamId)) (\<lambda>_.
     rbind (get_u64 b) (\<lambda>(delivery_sequence, b).
     rbind (ensure (delivery_sequence \<noteq> 0) (FrameFault DfZeroDeliverySequence)) (\<lambda>_.
     rbind (get_u32 b) (\<lambda>(channel, b).
     rbind (get_u32 b) (\<lambda>(send_type, b).
     rbind (advance (header_len - DIRECT_DATA_HEADER_LEN) b) (\<lambda>b.
     rbind (copy_to_bytes payload_len b) (\<lambda>(payload, b).
     Ok (DirectDataF \<lparr>dd_path = path, dd_frame_id = frame_id, dd_delivery_stream_id = stream_id,
           dd_delivery_sequence = delivery_sequence, dd_channel = channel,
           dd_send_type = send_type, dd_payload = payload\<rparr>)))))))))))"

definition direct_decode_body :: "DirectKind \<Rightarrow> usize \<Rightarrow> usize \<Rightarrow> DirectFrame direct_decoder" where
  "direct_decode_body kind header_len payload_len bytes =
     rbind (read_path bytes) (\<lambda>(path, b).
     case kind of
       DkCheck \<Rightarrow> decode_check path header_len b
     | DkHeartbeat \<Rightarrow> decode_heartbeat path header_len b
     | DkData \<Rightarrow> decode_direct_data path header_len payload_len b)"

definition direct_header :: "(DirectKind \<times> usize \<times> usize \<times> byte list) direct_decoder" where
  "direct_header =
     decode_header DIRECT_MAGIC DIRECT_MAJOR DIRECT_MINOR direct_kind_try_from
       direct_minimum_header direct_max_payload"

definition direct_decode :: "DirectFrame direct_decoder" where
  "direct_decode bytes =
     rbind (direct_header bytes) (\<lambda>(kind, header_len, payload_len, b).
     direct_decode_body kind header_len payload_len b)"

section \<open>Well-formed frames\<close>

definition path_wf :: "PathContext \<Rightarrow> bool" where
  "path_wf p \<longleftrightarrow>
     length (pc_path_id p) = 16 \<and> \<not> all_zero (pc_path_id p)
     \<and> length (pc_path_token p) = 16 \<and> \<not> all_zero (pc_path_token p)
     \<and> id_steam_id64 (pc_from p) \<noteq> 0 \<and> pc_to_steam_id64 p \<noteq> 0
     \<and> length (id_instance_id (pc_from p)) = 16 \<and> \<not> all_zero (id_instance_id (pc_from p))
     \<and> id_steam_id64 (pc_from p) \<noteq> pc_to_steam_id64 p"

fun direct_wf :: "DirectFrame \<Rightarrow> bool" where
  "direct_wf (Check f) \<longleftrightarrow>
     path_wf (cf_path f) \<and> length (cf_transaction_id f) = 16 \<and> \<not> all_zero (cf_transaction_id f)"
| "direct_wf (Heartbeat f) \<longleftrightarrow> path_wf (hf_path f) \<and> hf_heartbeat_id f \<noteq> 0"
| "direct_wf (DirectDataF f) \<longleftrightarrow>
     path_wf (dd_path f) \<and> dd_frame_id f \<noteq> 0 \<and> length (dd_delivery_stream_id f) = 16
     \<and> \<not> all_zero (dd_delivery_stream_id f) \<and> dd_delivery_sequence f \<noteq> 0
     \<and> length (dd_payload f) \<le> DIRECT_MAX_PAYLOAD"

lemma direct_code_inverse [simp]:
  "direct_kind_try_from (direct_kind_code k) = Some k"
  "check_phase_try_from (check_phase_code c) = Some c"
  "heartbeat_phase_try_from (heartbeat_phase_code h) = Some h"
  by (cases k; simp add: direct_kind_try_from_def; fail | cases c; simp add: check_phase_try_from_def; fail
      | cases h; simp add: heartbeat_phase_try_from_def)+

lemma validate_path_wf [simp]: "path_wf p \<Longrightarrow> direct_validate_path p = Ok ()"
  by (simp add: path_wf_def direct_validate_path_def)

lemma put_path_length [simp]: "path_wf p \<Longrightarrow> length (put_path p) = 64"
  by (simp add: path_wf_def put_path_def)

lemma read_put_path [simp]: "path_wf p \<Longrightarrow> read_path (put_path p @ r) = Ok (p, r)"
  by (simp add: path_wf_def put_path_def read_path_def)

lemma read_path_Ok: "read_path bs = Ok (p, r) \<Longrightarrow> path_wf p \<and> bs = put_path p @ r"
  by (auto simp: read_path_def path_wf_def put_path_def codec_simps)

lemma read_path_no_Panic: "64 \<le> length bs \<Longrightarrow> read_path bs \<noteq> Panic"
  by (auto simp: read_path_def rbind_eq_Panic codec_simps)

lemma reject_reserved_Ok: "reject_reserved bs = Ok r \<longleftrightarrow> 7 \<le> length bs \<and> all_zero (take 7 bs) \<and> r = drop 7 bs"
  by (auto simp: reject_reserved_def advance_Ok)

lemma reject_reserved_zeros [simp]: "reject_reserved (replicate 7 0 @ r) = Ok r"
  "reject_reserved (replicate 7 0) = Ok []"
  by (simp_all add: reject_reserved_Ok)

lemma reject_reserved_no_Panic [simp]: "reject_reserved bs \<noteq> Panic"
  by (simp add: reject_reserved_def rbind_eq_Panic advance_def)

lemma direct_put_header_Ok:
  "hl < 2 ^ 16 \<Longrightarrow> \<exists>hdr. direct_put_header k hl pl = Ok hdr \<and> length hdr = 16"
  by (simp add: direct_put_header_def put_header_def DIRECT_MAGIC_def)

lemma direct_header_put:
  assumes "direct_put_header kind hl pl = Ok hdr" and "direct_minimum_header kind \<le> hl"
    and "hl < 2 ^ 16" and "unat pl \<le> direct_max_payload kind" and "length rest + 16 = hl + unat pl"
  shows "direct_header (hdr @ rest) = Ok (kind, hl, unat pl, rest)"
  unfolding direct_header_def
proof (rule decode_put_header)
  show "put_header DeHeaderTooLarge DIRECT_MAGIC DIRECT_MAJOR DIRECT_MINOR
    (direct_kind_code kind) hl pl = Ok hdr"
    using assms(1) by (simp add: direct_put_header_def)
  show "16 \<le> hl" using assms(2) by (cases kind) (simp_all add: direct_frame_consts)
qed (use assms in \<open>simp_all add: DIRECT_MAGIC_def\<close>)

lemma direct_roundtrip_check:
  assumes "direct_wf (Check f)"
  shows "\<exists>bs. encode_check f = Ok bs \<and> direct_decode bs = Ok (Check f)"
proof -
  let ?body = "put_path (cf_path f) @ cf_transaction_id f @ put_u8 (check_phase_code (cf_phase f))
    @ replicate 7 0"
  obtain hdr where h: "direct_put_header DkCheck CHECK_FRAME_HEADER_LEN 0 = Ok hdr"
    using direct_put_header_Ok [of CHECK_FRAME_HEADER_LEN DkCheck 0] by (auto simp: direct_frame_consts)
  have "direct_header (hdr @ ?body) = Ok (DkCheck, CHECK_FRAME_HEADER_LEN, 0, ?body)"
    using direct_header_put [OF h, of ?body] assms by (simp add: direct_frame_consts)
  moreover have "direct_decode_body DkCheck CHECK_FRAME_HEADER_LEN 0 ?body = Ok (Check f)"
    using assms by (simp add: direct_decode_body_def decode_check_def)
  ultimately have "direct_decode (hdr @ ?body) = Ok (Check f)" unfolding direct_decode_def by simp
  moreover have "encode_check f = Ok (hdr @ ?body)" using assms h by (simp add: encode_check_def)
  ultimately show ?thesis by blast
qed

lemma direct_roundtrip_heartbeat:
  assumes "direct_wf (Heartbeat f)"
  shows "\<exists>bs. encode_heartbeat f = Ok bs \<and> direct_decode bs = Ok (Heartbeat f)"
proof -
  let ?body = "put_path (hf_path f) @ put_u64 (hf_heartbeat_id f)
    @ put_u8 (heartbeat_phase_code (hf_phase f)) @ replicate 7 0"
  obtain hdr where h: "direct_put_header DkHeartbeat HEARTBEAT_FRAME_HEADER_LEN 0 = Ok hdr"
    using direct_put_header_Ok [of HEARTBEAT_FRAME_HEADER_LEN DkHeartbeat 0] by (auto simp: direct_frame_consts)
  have "direct_header (hdr @ ?body) = Ok (DkHeartbeat, HEARTBEAT_FRAME_HEADER_LEN, 0, ?body)"
    using direct_header_put [OF h, of ?body] assms by (simp add: direct_frame_consts)
  moreover have "direct_decode_body DkHeartbeat HEARTBEAT_FRAME_HEADER_LEN 0 ?body = Ok (Heartbeat f)"
    using assms by (simp add: direct_decode_body_def decode_heartbeat_def)
  ultimately have "direct_decode (hdr @ ?body) = Ok (Heartbeat f)" unfolding direct_decode_def by simp
  moreover have "encode_heartbeat f = Ok (hdr @ ?body)" using assms h by (simp add: encode_heartbeat_def)
  ultimately show ?thesis by blast
qed

lemma direct_roundtrip_data:
  assumes "direct_wf (DirectDataF f)"
  shows "\<exists>bs. encode_direct_data f = Ok bs \<and> length bs = DIRECT_DATA_HEADER_LEN + length (dd_payload f)
    \<and> direct_decode bs = Ok (DirectDataF f)"
proof -
  let ?body = "put_path (dd_path f) @ put_u64 (dd_frame_id f) @ dd_delivery_stream_id f
         @ put_u64 (dd_delivery_sequence f) @ put_u32 (dd_channel f) @ put_u32 (dd_send_type f)
         @ dd_payload f"
  let ?pl = "of_nat (length (dd_payload f)) :: u32"
  have small: "length (dd_payload f) < 2 ^ 32" using assms by (simp add: direct_frame_consts)
  then have pl: "unat ?pl = length (dd_payload f)" by (simp add: unat_of_nat)
  obtain hdr where h: "direct_put_header DkData DIRECT_DATA_HEADER_LEN ?pl = Ok hdr" "length hdr = 16"
    using direct_put_header_Ok [of DIRECT_DATA_HEADER_LEN DkData ?pl] by (auto simp: direct_frame_consts)
  have "direct_header (hdr @ ?body) = Ok (DkData, DIRECT_DATA_HEADER_LEN, length (dd_payload f), ?body)"
    using direct_header_put [OF h(1), of ?body] assms pl by (simp add: direct_frame_consts)
  moreover have "direct_decode_body DkData DIRECT_DATA_HEADER_LEN (length (dd_payload f)) ?body
      = Ok (DirectDataF f)"
    using assms by (simp add: direct_decode_body_def decode_direct_data_def)
  ultimately have "direct_decode (hdr @ ?body) = Ok (DirectDataF f)" unfolding direct_decode_def by simp
  moreover have "encode_direct_data f = Ok (hdr @ ?body)"
    using assms h small by (simp add: encode_direct_data_def)
  moreover have "length (hdr @ ?body) = DIRECT_DATA_HEADER_LEN + length (dd_payload f)"
    using assms h(2) by (simp add: direct_frame_consts)
  ultimately show ?thesis by blast
qed

lemma direct_decode_body_no_Panic:
  assumes "direct_minimum_header kind \<le> hl" "pl \<le> direct_max_payload kind" "length b + 16 = hl + pl"
  shows "direct_decode_body kind hl pl b \<noteq> Panic"
proof
  assume p: "direct_decode_body kind hl pl b = Panic"
  have "64 \<le> length b" using assms by (cases kind) (simp_all add: direct_frame_consts)
  with p obtain path r where r: "read_path b = Ok (path, r)"
    and k: "(case kind of DkCheck \<Rightarrow> decode_check path hl r | DkHeartbeat \<Rightarrow> decode_heartbeat path hl r
        | DkData \<Rightarrow> decode_direct_data path hl pl r) = Panic"
    using read_path_no_Panic by (auto simp: direct_decode_body_def rbind_eq_Panic)
  have "length r + 80 = hl + pl" using read_path_Ok [OF r] assms(3) by auto
  with k assms show False
    by (cases kind) (auto simp: decode_check_def decode_heartbeat_def decode_direct_data_def
        rbind_eq_Panic codec_simps reject_reserved_Ok direct_frame_consts)
qed

lemma direct_decode_body_wf:
  assumes "pl \<le> direct_max_payload kind" and "direct_decode_body kind hl pl b = Ok f"
  shows "direct_wf f"
proof -
  from assms(2) obtain path r where r: "read_path b = Ok (path, r)"
    and k: "(case kind of DkCheck \<Rightarrow> decode_check path hl r | DkHeartbeat \<Rightarrow> decode_heartbeat path hl r
        | DkData \<Rightarrow> decode_direct_data path hl pl r) = Ok f"
    by (auto simp: direct_decode_body_def)
  then show ?thesis using read_path_Ok [OF r] assms(1)
    by (cases kind) (auto simp: decode_check_def decode_heartbeat_def decode_direct_data_def
        read_array_Ok copy_to_bytes_Ok)
qed

lemma direct_header_Ok:
  "direct_header bytes = Ok (kind, hl, pl, b) \<Longrightarrow>
     direct_minimum_header kind \<le> hl \<and> pl \<le> direct_max_payload kind \<and> length b + 16 = hl + pl"
  by (auto simp: direct_header_def elim: decode_header_Ok)

interpretation direct_codec: wire_codec direct_encode direct_decode direct_wf
proof (unfold_locales, goal_cases)
  case (1 f)
  then show ?case
    using direct_roundtrip_check direct_roundtrip_heartbeat direct_roundtrip_data by (cases f) fastforce+
next
  case (2 f bs)
  then show ?case
    using direct_roundtrip_check direct_roundtrip_heartbeat direct_roundtrip_data by (cases f) fastforce+
next
  case (3 bs f)
  then show ?case
    using direct_header_Ok [of bs] direct_decode_body_wf
    by (cases "direct_header bs") (auto simp: direct_decode_def)
next
  case (4 bs)
  then show ?case
    using direct_header_Ok [of bs] direct_decode_body_no_Panic
    by (cases "direct_header bs") (auto simp: direct_decode_def direct_header_def decode_header_no_Panic)
qed

section \<open>Properties\<close>

text \<open>
  A well-formed direct frame (a path check, a heartbeat or game data) can be encoded and
  is decoded back from its bytes; two different well-formed frames never encode to the same bytes.
\<close>

lemma direct_frame_roundtrip:
  "direct_wf f \<Longrightarrow> (\<exists>bs. direct_encode f = Ok bs \<and> direct_decode bs = Ok f)
     \<and> (direct_wf g \<longrightarrow> direct_encode f = direct_encode g \<longrightarrow> f = g)"
  using direct_codec.roundtrip [of f] direct_codec.enc_injective [of f g] by auto

definition sample_heartbeat :: DirectFrame where
  "sample_heartbeat = Heartbeat \<lparr>hf_path = \<lparr>pc_path_id = replicate 16 1, pc_path_token = replicate 16 2,
     pc_from = \<lparr>id_steam_id64 = 3, id_instance_id = replicate 16 4\<rparr>, pc_to_steam_id64 = 5\<rparr>,
     hf_heartbeat_id = 7, hf_phase = HeartbeatResponse\<rparr>"

lemma direct_frame_roundtrip_witness:
  "\<exists>bs. direct_encode sample_heartbeat = Ok bs \<and> direct_decode bs = Ok sample_heartbeat"
proof -
  have "direct_wf sample_heartbeat"
    by (simp add: sample_heartbeat_def path_wf_def all_zero_def list_all_iff)
  from direct_frame_roundtrip [OF this] show ?thesis by blast
qed

text \<open>
  Decoding a datagram of the direct protocol never panics, whatever bytes arrive, and a frame
  it accepts is well formed: no zero identifier, no frame addressed to its own sender, and a
  payload within the datagram budget.
\<close>

lemma direct_decode_safe:
  "case direct_decode bytes of Ok f \<Rightarrow> direct_wf f | Err e \<Rightarrow> True | Panic \<Rightarrow> False"
  using direct_codec.dec_no_Panic [of bytes] direct_codec.dec_wf [of bytes] by (auto split: res.split)

end
