(* ===== verification/Direct_Control.thy ===== *)
theory Direct_Control
  imports Direct_Types Frame_Header
begin

text \<open>
  The control messages of the direct protocol (\<open>direct-protocol/src/control.rs\<close>): their
  validation, which runs before a message is sent and after one is received, and the bounded JSON
  codec.  The JSON library is a pair of parameters.
\<close>

section \<open>Messages\<close>

definition MAX_ERROR_MESSAGE_LEN :: usize where "MAX_ERROR_MESSAGE_LEN = 256"

datatype DirectErrorCode =
    DcInvalidMessage
  | DcUnsupportedProtocol
  | DcInvalidCredential
  | DcIdentityMismatch
  | DcDuplicateIdentity
  | DcAdmissionRejected
  | DcInvalidState
  | DcRateLimited
  | DcPathValidationFailed
  | DcInternal

datatype ControlMessage =
    DProbeRequest TransactionId PeerIdentity "ProtocolRange list" u64 u64 SessionProof
  | DProbeResponse TransactionId PeerIdentity ProtocolVersion u64
  | DJoinRequest LinkId PeerDescriptor "ProtocolRange list" u64 u64 SessionProof
  | DJoinAccepted ProtocolVersion u64 "PeerDescriptor list"
  | DJoinRejected DirectErrorCode string bool
  | DPeerSnapshot "PeerDescriptor list"
  | DLeave
  | DPathOffer PeerIdentity PathId PathToken "HostCandidate list"
  | DNominate PathId SocketAddr SocketAddr
  | DNominateAck PathId
  | DControlPing u64
  | DControlPong u64
  | DError DirectErrorCode string bool

datatype ControlValidationError =
    VCandidate CandidateValidationError
  | VZeroLinkId
  | VZeroTransactionId
  | VZeroSessionProof
  | VZeroPathId
  | VZeroPathToken
  | VZeroControlId
  | VZeroProtocolMajor
  | VUnknownCapabilities u64
  | VTooManyPeers usize
  | VDuplicatePeer PeerIdentity
  | VErrorMessageTooLong usize

section \<open>Validation\<close>

definition validate_enabled_capabilities :: "u64 \<Rightarrow> (ControlValidationError, unit) res" where
  "validate_enabled_capabilities enabled =
     ensure (enabled AND NOT DIRECT_CAPABILITIES = 0)
       (VUnknownCapabilities (enabled AND NOT DIRECT_CAPABILITIES))"

definition validate_protocol :: "ProtocolVersion \<Rightarrow> (ControlValidationError, unit) res" where
  "validate_protocol version = ensure (pv_major version \<noteq> 0) VZeroProtocolMajor"

definition validate_transaction :: "TransactionId \<Rightarrow> (ControlValidationError, unit) res" where
  "validate_transaction t = ensure (\<not> all_zero t) VZeroTransactionId"

definition validate_session_proof :: "SessionProof \<Rightarrow> (ControlValidationError, unit) res" where
  "validate_session_proof p = ensure (\<not> all_zero p) VZeroSessionProof"

definition validate_path :: "PathId \<Rightarrow> PathToken \<Rightarrow> (ControlValidationError, unit) res" where
  "validate_path path_id path_token =
     rbind (ensure (\<not> all_zero path_id) VZeroPathId) (\<lambda>_.
     ensure (\<not> all_zero path_token) VZeroPathToken)"

fun peers_loop ::
  "PeerDescriptor list \<Rightarrow> PeerDescriptor list \<Rightarrow> (ControlValidationError, unit) res" where
  "peers_loop before [] = Ok ()"
| "peers_loop before (p # rest) =
     rbind (map_err VCandidate (descriptor_validate p)) (\<lambda>_.
     rbind (ensure (\<not> list_ex (\<lambda>e. pd_identity e = pd_identity p) before)
              (VDuplicatePeer (pd_identity p))) (\<lambda>_.
     peers_loop (before @ [p]) rest))"

definition validate_peers :: "PeerDescriptor list \<Rightarrow> (ControlValidationError, unit) res" where
  "validate_peers peers =
     rbind (ensure (\<not> MAX_PEERS < length peers) (VTooManyPeers (length peers))) (\<lambda>_.
     peers_loop [] peers)"

definition validate_error_message :: "string \<Rightarrow> (ControlValidationError, unit) res" where
  "validate_error_message message =
     ensure (\<not> MAX_ERROR_MESSAGE_LEN < length message) (VErrorMessageTooLong (length message))"

definition validate_endpoint :: "SocketAddr \<Rightarrow> (ControlValidationError, unit) res" where
  "validate_endpoint endpoint =
     rbind (map_err VCandidate (candidate_new endpoint 1 0)) (\<lambda>_. Ok ())"

fun validate_control :: "ControlMessage \<Rightarrow> (ControlValidationError, unit) res" where
  "validate_control (DProbeRequest transaction_id introducer ranges required optional proof_b) =
     rbind (validate_transaction transaction_id) (\<lambda>_.
     rbind (map_err VCandidate (identity_validate introducer)) (\<lambda>_.
     rbind (map_err VCandidate (validate_protocol_ranges ranges)) (\<lambda>_.
     validate_session_proof proof_b)))"
| "validate_control (DProbeResponse transaction_id introducer selected enabled) =
     rbind (validate_transaction transaction_id) (\<lambda>_.
     rbind (map_err VCandidate (identity_validate introducer)) (\<lambda>_.
     rbind (validate_protocol selected) (\<lambda>_.
     validate_enabled_capabilities enabled)))"
| "validate_control (DJoinRequest link_id peer ranges required optional proof_b) =
     rbind (ensure (\<not> all_zero link_id) VZeroLinkId) (\<lambda>_.
     rbind (map_err VCandidate (descriptor_validate peer)) (\<lambda>_.
     rbind (map_err VCandidate (validate_protocol_ranges ranges)) (\<lambda>_.
     validate_session_proof proof_b)))"
| "validate_control (DJoinAccepted selected enabled peers) =
     rbind (validate_protocol selected) (\<lambda>_.
     rbind (validate_enabled_capabilities enabled) (\<lambda>_.
     validate_peers peers))"
| "validate_control (DJoinRejected code message retryable) = validate_error_message message"
| "validate_control (DError code message retryable) = validate_error_message message"
| "validate_control (DPeerSnapshot peers) = validate_peers peers"
| "validate_control DLeave = Ok ()"
| "validate_control (DPathOffer peer path_id path_token data_candidates) =
     rbind (map_err VCandidate (identity_validate peer)) (\<lambda>_.
     rbind (validate_path path_id path_token) (\<lambda>_.
     map_err VCandidate (validate_candidates data_candidates)))"
| "validate_control (DNominate path_id local_endpoint remote_endpoint) =
     rbind (ensure (\<not> all_zero path_id) VZeroPathId) (\<lambda>_.
     rbind (validate_endpoint local_endpoint) (\<lambda>_.
     validate_endpoint remote_endpoint))"
| "validate_control (DNominateAck path_id) = ensure (\<not> all_zero path_id) VZeroPathId"
| "validate_control (DControlPing i) = ensure (i \<noteq> 0) VZeroControlId"
| "validate_control (DControlPong i) = ensure (i \<noteq> 0) VZeroControlId"

section \<open>Codec\<close>

datatype 'j DirectControlEncodeError =
    DceValidation ControlValidationError | DceJson 'j | DcePayloadTooLarge usize

datatype 'j DirectControlDecodeError =
    DcdPayloadTooLarge usize | DcdJson 'j | DcdValidation ControlValidationError

definition encode_control ::
  "(ControlMessage \<Rightarrow> ('j, byte list) res) \<Rightarrow> ControlMessage
     \<Rightarrow> ('j DirectControlEncodeError, byte list) res" where
  "encode_control to_vec message =
     rbind (map_err DceValidation (validate_control message)) (\<lambda>_.
     rbind (map_err DceJson (to_vec message)) (\<lambda>payload.
     rbind (ensure (\<not> MAX_CONTROL_PAYLOAD < length payload) (DcePayloadTooLarge (length payload))) (\<lambda>_.
     Ok payload)))"

definition decode_control ::
  "(byte list \<Rightarrow> ('j, ControlMessage) res) \<Rightarrow> byte list
     \<Rightarrow> ('j DirectControlDecodeError, ControlMessage) res" where
  "decode_control from_slice payload =
     rbind (ensure (\<not> MAX_CONTROL_PAYLOAD < length payload) (DcdPayloadTooLarge (length payload))) (\<lambda>_.
     rbind (map_err DcdJson (from_slice payload)) (\<lambda>message.
     rbind (map_err DcdValidation (validate_control message)) (\<lambda>_.
     Ok message)))"

section \<open>What a valid message is\<close>

definition peers_ok :: "PeerDescriptor list \<Rightarrow> bool" where
  "peers_ok ps \<longleftrightarrow> list_all descriptor_ok ps \<and> distinct (map pd_identity ps)"

lemma map_err_Ok [simp]: "map_err f r = Ok x \<longleftrightarrow> r = Ok x"
  by (cases r) simp_all

lemma peers_loop_Ok:
  "peers_loop before ps = Ok u \<longleftrightarrow>
     peers_ok ps \<and> set (map pd_identity before) \<inter> set (map pd_identity ps) = {}"
proof (induction ps arbitrary: before)
  case (Cons p ps)
  have "peers_loop before (p # ps) = Ok u \<longleftrightarrow>
      descriptor_ok p \<and> pd_identity p \<notin> set (map pd_identity before)
      \<and> peers_loop (before @ [p]) ps = Ok u"
    by (auto simp: list_ex_iff image_iff)
  then show ?case unfolding Cons.IH by (auto simp: peers_ok_def)
qed (simp add: peers_ok_def)

lemma validate_peers_Ok [simp]: "validate_peers ps = Ok u \<longleftrightarrow> length ps \<le> MAX_PEERS \<and> peers_ok ps"
  by (auto simp: validate_peers_def peers_loop_Ok)

fun message_ok :: "ControlMessage \<Rightarrow> bool" where
  "message_ok (DProbeRequest t i rs req opt pr) \<longleftrightarrow>
     \<not> all_zero t \<and> identity_ok i \<and> ranges_ok rs \<and> \<not> all_zero pr"
| "message_ok (DProbeResponse t i v en) \<longleftrightarrow>
     \<not> all_zero t \<and> identity_ok i \<and> pv_major v \<noteq> 0 \<and> bits_subset en DIRECT_CAPABILITIES"
| "message_ok (DJoinRequest l d rs req opt pr) \<longleftrightarrow>
     \<not> all_zero l \<and> descriptor_ok d \<and> ranges_ok rs \<and> \<not> all_zero pr"
| "message_ok (DJoinAccepted v en ps) \<longleftrightarrow>
     pv_major v \<noteq> 0 \<and> bits_subset en DIRECT_CAPABILITIES \<and> length ps \<le> MAX_PEERS \<and> peers_ok ps"
| "message_ok (DJoinRejected c m r) \<longleftrightarrow> length m \<le> MAX_ERROR_MESSAGE_LEN"
| "message_ok (DError c m r) \<longleftrightarrow> length m \<le> MAX_ERROR_MESSAGE_LEN"
| "message_ok (DPeerSnapshot ps) \<longleftrightarrow> length ps \<le> MAX_PEERS \<and> peers_ok ps"
| "message_ok DLeave \<longleftrightarrow> True"
| "message_ok (DPathOffer i pid tok cs) \<longleftrightarrow>
     identity_ok i \<and> \<not> all_zero pid \<and> \<not> all_zero tok
     \<and> cs \<noteq> [] \<and> length cs \<le> MAX_CANDIDATES \<and> candidates_ok cs"
| "message_ok (DNominate pid l r) \<longleftrightarrow> \<not> all_zero pid \<and> unicast_endpoint l \<and> unicast_endpoint r"
| "message_ok (DNominateAck pid) \<longleftrightarrow> \<not> all_zero pid"
| "message_ok (DControlPing i) \<longleftrightarrow> i \<noteq> 0"
| "message_ok (DControlPong i) \<longleftrightarrow> i \<noteq> 0"

lemma validate_control_Ok: "validate_control m = Ok u \<longleftrightarrow> message_ok m"
  by (cases m)
    (auto simp: validate_transaction_def validate_protocol_def validate_session_proof_def
      validate_enabled_capabilities_def validate_error_message_def validate_path_def
      validate_endpoint_def bits_subset_def)

lemma validate_control_no_Panic: "validate_control m \<noteq> Panic"
proof -
  have "peers_loop before ps \<noteq> Panic" for before ps
    by (induction ps arbitrary: before) (simp_all add: rbind_eq_Panic)
  then show ?thesis
    by (cases m)
      (auto simp: validate_transaction_def validate_protocol_def validate_session_proof_def
        validate_enabled_capabilities_def validate_error_message_def validate_path_def validate_peers_def
        validate_endpoint_def candidate_new_def rbind_eq_Panic Let_def)
qed

lemma encode_control_Ok:
  "encode_control tv m = Ok bs \<longleftrightarrow> message_ok m \<and> tv m = Ok bs \<and> length bs \<le> MAX_CONTROL_PAYLOAD"
  by (auto simp: encode_control_def validate_control_Ok)

lemma decode_control_Ok:
  "decode_control fs bs = Ok m \<longleftrightarrow> length bs \<le> MAX_CONTROL_PAYLOAD \<and> fs bs = Ok m \<and> message_ok m"
  by (auto simp: decode_control_def validate_control_Ok)

section \<open>What the JSON text keeps\<close>

text \<open>
  A socket address is text in JSON, and the text of an IPv6 address (\<open>[ip%scope]:port\<close>) has no place for its flow
  information: it is zero when the address is read back.  Everything else of a message survives.
\<close>

fun without_flow :: "SocketAddr \<Rightarrow> SocketAddr" where
  "without_flow (SockV4 ip port) = SockV4 ip port"
| "without_flow (SockV6 ip port flow scope) = SockV6 ip port 0 scope"

definition wire_candidate :: "HostCandidate \<Rightarrow> HostCandidate" where
  "wire_candidate c = c\<lparr>hc_endpoint := without_flow (hc_endpoint c)\<rparr>"

definition wire_descriptor :: "PeerDescriptor \<Rightarrow> PeerDescriptor" where
  "wire_descriptor d = d\<lparr>pd_control_candidates := map wire_candidate (pd_control_candidates d)\<rparr>"

fun wire_message :: "ControlMessage \<Rightarrow> ControlMessage" where
  "wire_message (DJoinRequest l d rs req opt pr) = DJoinRequest l (wire_descriptor d) rs req opt pr"
| "wire_message (DJoinAccepted v en ps) = DJoinAccepted v en (map wire_descriptor ps)"
| "wire_message (DPeerSnapshot ps) = DPeerSnapshot (map wire_descriptor ps)"
| "wire_message (DPathOffer i pid tok cs) = DPathOffer i pid tok (map wire_candidate cs)"
| "wire_message (DNominate pid l r) = DNominate pid (without_flow l) (without_flow r)"
| "wire_message m = m"

text \<open>The candidate lists of a message, and that no two candidates of a list differ in the flow information only.\<close>

fun candidate_lists :: "ControlMessage \<Rightarrow> HostCandidate list list" where
  "candidate_lists (DJoinRequest l d rs req opt pr) = [pd_control_candidates d]"
| "candidate_lists (DJoinAccepted v en ps) = map pd_control_candidates ps"
| "candidate_lists (DPeerSnapshot ps) = map pd_control_candidates ps"
| "candidate_lists (DPathOffer i pid tok cs) = [cs]"
| "candidate_lists m = []"

definition wire_distinct :: "ControlMessage \<Rightarrow> bool" where
  "wire_distinct m \<longleftrightarrow> list_all (\<lambda>cs. distinct (map (\<lambda>c. without_flow (hc_endpoint c)) cs)) (candidate_lists m)"

lemma unicast_without_flow [simp]: "unicast_endpoint (without_flow e) = unicast_endpoint e"
  by (cases e) simp_all

lemma wire_candidates_ok:
  "candidates_ok cs \<Longrightarrow> candidates_ok (map wire_candidate cs) \<longleftrightarrow> distinct (map (\<lambda>c. without_flow (hc_endpoint c)) cs)"
  by (simp add: candidates_ok_def list_all_iff wire_candidate_def comp_def)

lemma wire_descriptor_ok:
  "descriptor_ok d \<Longrightarrow> descriptor_ok (wire_descriptor d)
     \<longleftrightarrow> distinct (map (\<lambda>c. without_flow (hc_endpoint c)) (pd_control_candidates d))"
  by (simp add: descriptor_ok_def wire_descriptor_def wire_candidates_ok)

lemma wire_descriptor_identity [simp]: "pd_identity (wire_descriptor d) = pd_identity d"
  by (simp add: wire_descriptor_def)

lemma wire_peers_ok:
  "peers_ok ps \<Longrightarrow> peers_ok (map wire_descriptor ps)
     \<longleftrightarrow> list_all (\<lambda>cs. distinct (map (\<lambda>c. without_flow (hc_endpoint c)) cs)) (map pd_control_candidates ps)"
  by (auto simp: peers_ok_def list_all_iff wire_descriptor_ok comp_def)

lemma wire_message_ok: "message_ok m \<Longrightarrow> message_ok (wire_message m) \<longleftrightarrow> wire_distinct m"
  by (cases m) (auto simp: wire_distinct_def wire_descriptor_ok wire_peers_ok wire_candidates_ok)

section \<open>Properties\<close>

text \<open>
  C14: The same contract guards both directions of the direct control channel.  A message is sent exactly when it is
  valid, is written, and fits in 16 KiB; it is accepted exactly when the payload fits, parses, and the message is valid:
  no zero identifier or proof, unicast candidates with distinct endpoints, at most 16 peers with distinct identities,
  known capabilities only, well-formed version ranges and a bounded error text.  The JSON library keeps all of a
  message but the flow information of IPv6 addresses; so what one side sends, the other accepts as it was but for that
  information, exactly when no two candidates of a list differ in it alone, and otherwise refuses as invalid; and a
  message without flow information arrives unchanged.
\<close>

theorem direct_control_contract:
  assumes json: "to_vec m = Ok payload \<Longrightarrow> from_slice payload = Ok (wire_message m)"
  shows "(encode_control to_vec m = Ok payload
            \<longleftrightarrow> message_ok m \<and> to_vec m = Ok payload \<and> length payload \<le> MAX_CONTROL_PAYLOAD)
    \<and> (decode_control from_slice bs = Ok m'
            \<longleftrightarrow> length bs \<le> MAX_CONTROL_PAYLOAD \<and> from_slice bs = Ok m' \<and> message_ok m')
    \<and> (encode_control to_vec m = Ok payload \<longrightarrow>
         (if wire_distinct m then decode_control from_slice payload = Ok (wire_message m)
          else \<exists>e. decode_control from_slice payload = Err (DcdValidation e))
         \<and> (wire_message m = m \<longrightarrow> decode_control from_slice payload = Ok m))"
proof -
  have "(if wire_distinct m then decode_control from_slice payload = Ok (wire_message m)
         else \<exists>e. decode_control from_slice payload = Err (DcdValidation e))
      \<and> (wire_message m = m \<longrightarrow> decode_control from_slice payload = Ok m)"
    if "encode_control to_vec m = Ok payload"
  proof -
    have ok: "message_ok m" "from_slice payload = Ok (wire_message m)" "length payload \<le> MAX_CONTROL_PAYLOAD"
      using json that by (simp_all add: encode_control_Ok)
    have "decode_control from_slice payload
        = rbind (map_err DcdValidation (validate_control (wire_message m))) (\<lambda>_. Ok (wire_message m))"
      using ok(2,3) by (simp add: decode_control_def)
    then show ?thesis
      using wire_message_ok [OF ok(1)] validate_control_Ok [of "wire_message m" "()"]
        validate_control_no_Panic [of "wire_message m"] ok(1)
      by (cases "validate_control (wire_message m)") auto
  qed
  then show ?thesis by (simp add: encode_control_Ok decode_control_Ok)
qed

text \<open>A nomination of two IPv6 endpoints with flow information, which the other side reads without it.\<close>

definition sample_nomination :: ControlMessage where
  "sample_nomination = DNominate (replicate 16 1) (SockV6 1 80 5 0) (SockV6 2 80 7 0)"

theorem direct_control_contract_witness:
  "let tv = (\<lambda>m. if m = sample_nomination then Ok [55] else Err ());
       fs = (\<lambda>bs. if bs = [55] then Ok (wire_message sample_nomination) else Err ())
   in encode_control tv sample_nomination = Ok [55]
      \<and> decode_control fs [55] = Ok (DNominate (replicate 16 1) (SockV6 1 80 0 0) (SockV6 2 80 0 0))"
proof -
  let ?tv = "\<lambda>m. if m = sample_nomination then Ok [55 :: byte] else Err ()"
  let ?fs = "\<lambda>bs. if bs = [55 :: byte] then Ok (wire_message sample_nomination) else Err ()"
  have "message_ok sample_nomination"
    by (simp add: sample_nomination_def all_zero_def list_all_iff v6_is_unspecified_def v6_is_multicast_def
        v6_is_unicast_link_local_def drop_bit_eq_div)
  then have e: "encode_control ?tv sample_nomination = Ok [55]"
    by (simp add: encode_control_Ok MAX_CONTROL_PAYLOAD_def)
  have "?tv sample_nomination = Ok [55] \<Longrightarrow> ?fs [55] = Ok (wire_message sample_nomination)" by simp
  from direct_control_contract [of ?tv sample_nomination "[55]" ?fs "[55]" "wire_message sample_nomination", OF this] e show ?thesis
    by (simp add: Let_def sample_nomination_def wire_distinct_def)
qed

text \<open>A valid message that its receiver refuses: two candidates at one address with different flow information.\<close>

definition sample_offer :: ControlMessage where
  "sample_offer = DPathOffer \<lparr>id_steam_id64 = 76, id_instance_id = replicate 16 1\<rparr> (replicate 16 1) (replicate 16 2)
     [\<lparr>hc_endpoint = SockV6 1 80 5 0, hc_priority = 1, hc_generation = 0\<rparr>,
      \<lparr>hc_endpoint = SockV6 1 80 7 0, hc_priority = 1, hc_generation = 0\<rparr>]"

lemma valid_offer_refused: "message_ok sample_offer \<and> \<not> message_ok (wire_message sample_offer)"
  by (simp add: sample_offer_def all_zero_def list_all_iff identity_ok_def candidates_ok_def MAX_CANDIDATES_def wire_candidate_def
      v6_is_unspecified_def v6_is_multicast_def v6_is_unicast_link_local_def drop_bit_eq_div)

end
