(* ===== verification/Hook_Ipc.thy ===== *)
theory Hook_Ipc
  imports TB_Prelude
begin

text \<open>
  The local IPC between the native game hook and the bridge client (\<open>hook-ipc/src/lib.rs\<close>,
  \<open>codec.rs\<close>, \<open>sync_io.rs\<close>): handshake validation, game packets, the framing of messages on a
  byte stream, and the bounded write loop.  The postcard/COBS serialization is a parameter: its
  documented contract is that decoding inverts encoding and that a frame is a run of non-zero bytes
  closed by one zero byte.
\<close>

section \<open>Constants and data\<close>

definition IPC_MAGIC :: "byte list" where
  "IPC_MAGIC = [0x54, 0x42, 0x49, 0x34]" \<comment> \<open>\<open>*b"TBI4"\<close>\<close>
definition IPC_MAJOR :: u16 where "IPC_MAJOR = 4"
definition IPC_MINOR :: u16 where "IPC_MINOR = 0"
definition FEATURE_GAME_PACKETS :: u32 where "FEATURE_GAME_PACKETS = 1"
definition FEATURE_INPUT_DELAY :: u32 where "FEATURE_INPUT_DELAY = 2"
definition REQUIRED_FEATURES :: u32 where
  "REQUIRED_FEATURES = FEATURE_GAME_PACKETS OR FEATURE_INPUT_DELAY"
definition MAX_GAME_PAYLOAD_SIZE :: usize where "MAX_GAME_PAYLOAD_SIZE = 65535"
definition MAX_SERIALIZED_FRAME_LEN :: usize where
  "MAX_SERIALIZED_FRAME_LEN = MAX_GAME_PAYLOAD_SIZE + 128"
definition MAX_ENCODED_FRAME_LEN :: usize where
  "MAX_ENCODED_FRAME_LEN = MAX_SERIALIZED_FRAME_LEN + MAX_SERIALIZED_FRAME_LEN div 254 + 2"

type_synonym SessionId = "byte list"

datatype PeerRole = BridgeClient | NativeHook

record Handshake =
  hs_magic :: "byte list"
  hs_major :: u16
  hs_minor :: u16
  hs_role :: PeerRole
  hs_session_id :: SessionId
  hs_required_features :: u32
  hs_max_game_payload :: u32

record NegotiatedProtocol =
  np_major :: u16
  np_minor :: u16
  np_features :: u32
  np_max_game_payload :: u32

record GamePacket =
  gp_peer :: u64
  gp_sequence :: u32
  gp_channel :: i32
  gp_send_type :: i32
  gp_payload :: "byte list"

datatype InputDelayCommand = IdRead | IdWrite i32

datatype ErrorCode =
    EcInvalidRequest | EcTargetNotFound | EcReadFailed | EcWriteFailed | EcInternalError | EcNotConnected

datatype HookStartupFailure = SteamApiImports | SteamNetworkingHooks
datatype HookStartupStatus = Installing | HookReady "u64 option" | HookFailed HookStartupFailure

record IpcHealth =
  ih_hook_data_dropped :: u64
  ih_client_data_dropped :: u64
  ih_malformed_frames :: u64
  ih_reconnects :: u32

datatype HookToClient =
    HcHandshake Handshake
  | HcEndpointReady
  | HcStartup HookStartupStatus
  | HcGame GamePacket
  | HcInputDelayResult u32 "(ErrorCode, i32) res"
  | HcPong u32
  | HcHealth IpcHealth
  | HcGoodbye

datatype ClientToHook =
    ChHandshake Handshake
  | ChGame GamePacket
  | ChInputDelay u32 InputDelayCommand
  | ChPing u32
  | ChShutdown

datatype 'j ProtocolError =
    IpcBadMagic
  | IpcUnsupportedMajor u16 u16
  | IpcWrongRole PeerRole PeerRole
  | IpcSessionMismatch
  | IpcMissingFeatures u32 u32
  | IpcPayloadLimitMismatch u32 u32
  | IpcPayloadTooLarge usize usize
  | IpcFrameTooLarge usize usize
  | IpcTruncatedFrame
  | IpcUnexpectedMessage string
  | IpcInvalidSessionId
  | IpcPostcard 'j

section \<open>Session identity and handshake\<close>

definition session_id_from_str :: "(string \<Rightarrow> byte list option) \<Rightarrow> string \<Rightarrow> ('j ProtocolError, SessionId) res" where
  "session_id_from_str hex_decode value =
     (if length value \<noteq> 32 then Err IpcInvalidSessionId
      else ok_or (hex_decode value) IpcInvalidSessionId)"

definition handshake_new :: "PeerRole \<Rightarrow> SessionId \<Rightarrow> Handshake" where
  "handshake_new role session_id =
     \<lparr>hs_magic = IPC_MAGIC, hs_major = IPC_MAJOR, hs_minor = IPC_MINOR, hs_role = role,
      hs_session_id = session_id, hs_required_features = REQUIRED_FEATURES,
      hs_max_game_payload = of_nat MAX_GAME_PAYLOAD_SIZE\<rparr>"

definition handshake_validate ::
  "Handshake \<Rightarrow> PeerRole \<Rightarrow> SessionId \<Rightarrow> ('j ProtocolError, NegotiatedProtocol) res" where
  "handshake_validate h expected_role expected_session =
     rbind (ensure (hs_magic h = IPC_MAGIC) IpcBadMagic) (\<lambda>_.
     rbind (ensure (hs_major h = IPC_MAJOR) (IpcUnsupportedMajor IPC_MAJOR (hs_major h))) (\<lambda>_.
     rbind (ensure (hs_role h = expected_role) (IpcWrongRole expected_role (hs_role h))) (\<lambda>_.
     rbind (ensure (hs_session_id h = expected_session) IpcSessionMismatch) (\<lambda>_.
     rbind (ensure (hs_required_features h AND REQUIRED_FEATURES = REQUIRED_FEATURES)
              (IpcMissingFeatures REQUIRED_FEATURES (hs_required_features h))) (\<lambda>_.
     rbind (ensure (hs_max_game_payload h = of_nat MAX_GAME_PAYLOAD_SIZE)
              (IpcPayloadLimitMismatch (of_nat MAX_GAME_PAYLOAD_SIZE) (hs_max_game_payload h))) (\<lambda>_.
     Ok \<lparr>np_major = hs_major h, np_minor = IPC_MINOR, np_features = hs_required_features h,
         np_max_game_payload = hs_max_game_payload h\<rparr>))))))"

section \<open>Messages\<close>

definition game_packet_validate :: "GamePacket \<Rightarrow> ('j ProtocolError, unit) res" where
  "game_packet_validate p =
     ensure (\<not> MAX_GAME_PAYLOAD_SIZE < length (gp_payload p))
       (IpcPayloadTooLarge (length (gp_payload p)) MAX_GAME_PAYLOAD_SIZE)"

fun hook_to_client_validate :: "HookToClient \<Rightarrow> ('j ProtocolError, unit) res" where
  "hook_to_client_validate (HcGame p) = game_packet_validate p"
| "hook_to_client_validate _ = Ok ()"

fun client_to_hook_validate :: "ClientToHook \<Rightarrow> ('j ProtocolError, unit) res" where
  "client_to_hook_validate (ChGame p) = game_packet_validate p"
| "client_to_hook_validate _ = Ok ()"

section \<open>Framing\<close>

text \<open>The serializer of one message type: its validation and the two postcard functions.\<close>

record ('m, 'j) Wire =
  w_validate :: "'m \<Rightarrow> ('j ProtocolError, unit) res"
  w_to_cobs :: "'m \<Rightarrow> ('j, byte list) res"
  w_from_cobs :: "byte list \<Rightarrow> ('j, 'm) res"

definition ipc_encode :: "('m, 'j) Wire \<Rightarrow> 'm \<Rightarrow> ('j ProtocolError, byte list) res" where
  "ipc_encode w message =
     rbind (w_validate w message) (\<lambda>_.
     rbind (map_err IpcPostcard (w_to_cobs w message)) (\<lambda>encoded.
     rbind (ensure (\<not> MAX_ENCODED_FRAME_LEN < length encoded)
              (IpcFrameTooLarge (length encoded) MAX_ENCODED_FRAME_LEN)) (\<lambda>_.
     Ok encoded)))"

definition ipc_decode :: "('m, 'j) Wire \<Rightarrow> byte list \<Rightarrow> ('j ProtocolError, 'm) res" where
  "ipc_decode w frame =
     rbind (ensure (\<not> MAX_ENCODED_FRAME_LEN < length frame)
              (IpcFrameTooLarge (length frame) MAX_ENCODED_FRAME_LEN)) (\<lambda>_.
     rbind (map_err IpcPostcard (w_from_cobs w frame)) (\<lambda>message.
     rbind (w_validate w message) (\<lambda>_.
     Ok message)))"

record FrameDecoder =
  fd_frame :: "byte list"

definition decoder_new :: FrameDecoder where "decoder_new = \<lparr>fd_frame = []\<rparr>"

text \<open>The loop of \<open>push\<close> over the input, with the messages decoded so far.\<close>

fun push_loop ::
  "('m, 'j) Wire \<Rightarrow> FrameDecoder \<Rightarrow> 'm list \<Rightarrow> byte list
     \<Rightarrow> FrameDecoder \<times> ('j ProtocolError, 'm list) res" where
  "push_loop w d messages [] = (d, Ok messages)"
| "push_loop w d messages (byte # input) =
     (let frame = fd_frame d @ [byte] in
      if MAX_ENCODED_FRAME_LEN < length frame
      then (d\<lparr>fd_frame := []\<rparr>,
            Err (IpcFrameTooLarge (usize_saturating_add MAX_ENCODED_FRAME_LEN 1) MAX_ENCODED_FRAME_LEN))
      else if byte = 0
      then (case ipc_decode w frame of
              Ok message \<Rightarrow> push_loop w (d\<lparr>fd_frame := []\<rparr>) (messages @ [message]) input
            | Err e \<Rightarrow> (d\<lparr>fd_frame := []\<rparr>, Err e)
            | Panic \<Rightarrow> (d\<lparr>fd_frame := []\<rparr>, Panic))
      else push_loop w (d\<lparr>fd_frame := frame\<rparr>) messages input)"

definition decoder_push ::
  "('m, 'j) Wire \<Rightarrow> FrameDecoder \<Rightarrow> byte list \<Rightarrow> FrameDecoder \<times> ('j ProtocolError, 'm list) res" where
  "decoder_push w d input = push_loop w d [] input"

definition decoder_finish :: "FrameDecoder \<Rightarrow> ('j ProtocolError, unit) res" where
  "decoder_finish d = (if fd_frame d = [] then Ok () else Err IpcTruncatedFrame)"

section \<open>The bounded write loop\<close>

datatype io_kind =
  KInterrupted | KWouldBlock | KTimedOut | KWriteZero | KInvalidData | KUnexpectedEof
  | KNotConnected | KUnsupported | KPermissionDenied | KInvalidInput | KOther nat

definition is_transient :: "io_kind \<Rightarrow> bool" where
  "is_transient k = (k = KWouldBlock \<or> k = KTimedOut)"

text \<open>
  The writer as the sequence of its answers, each with the time of the clock when the loop looks
  at it (the non-Windows build).  The result is \<open>None\<close> when the answers do not suffice to decide;
  the second component is what the writer accepted.
\<close>

fun write_loop ::
  "instant \<Rightarrow> byte list \<Rightarrow> usize \<Rightarrow> ((io_kind, usize) res \<times> instant) list \<Rightarrow> byte list
     \<Rightarrow> (io_kind, unit) res option \<times> byte list" where
  "write_loop deadline bytes written answers out =
     (if \<not> written < length bytes then (Some (Ok ()), out)
      else case answers of
        [] \<Rightarrow> (None, out)
      | (answer, now) # rest \<Rightarrow>
          (case answer of
             Ok n \<Rightarrow>
               if n = 0 then (Some (Err KWriteZero), out)
               else write_loop deadline bytes (written + n) rest (out @ take n (drop written bytes))
           | Err KInterrupted \<Rightarrow> write_loop deadline bytes written rest out
           | Err kind \<Rightarrow>
               if is_transient kind \<and> now < deadline then write_loop deadline bytes written rest out
               else if is_transient kind then (Some (Err KTimedOut), out)
               else (Some (Err kind), out)
           | Panic \<Rightarrow> (Some Panic, out)))"

declare write_loop.simps [simp del]

definition write_all_bounded ::
  "instant \<Rightarrow> duration \<Rightarrow> byte list \<Rightarrow> ((io_kind, usize) res \<times> instant) list
     \<Rightarrow> (io_kind, unit) res option \<times> byte list" where
  "write_all_bounded start timeout bytes answers = write_loop (start + timeout) bytes 0 answers []"

definition write_message ::
  "('m, 'j) Wire \<Rightarrow> instant \<Rightarrow> duration \<Rightarrow> 'm \<Rightarrow> ((io_kind, usize) res \<times> instant) list
     \<Rightarrow> (io_kind, unit) res option \<times> byte list" where
  "write_message w start timeout message answers =
     (case ipc_encode w message of
        Ok encoded \<Rightarrow> write_all_bounded start timeout encoded answers
      | Err _ \<Rightarrow> (Some (Err KInvalidData), [])
      | Panic \<Rightarrow> (Some Panic, []))"

text \<open>One read of the non-Windows build: \<open>answer\<close> is what the reader gave for the 4,096-byte buffer.\<close>

definition read_messages ::
  "('m, 'j) Wire \<Rightarrow> FrameDecoder \<Rightarrow> (io_kind, byte list) res \<Rightarrow> FrameDecoder \<times> (io_kind, 'm list) res" where
  "read_messages w d answer =
     (case answer of
        Ok bytes \<Rightarrow>
          if bytes = [] then (d, Err KUnexpectedEof)
          else (case decoder_push w d bytes of
                  (d', Ok ms) \<Rightarrow> (d', Ok ms)
                | (d', Err _) \<Rightarrow> (d', Err KInvalidData)
                | (d', Panic) \<Rightarrow> (d', Panic))
      | Err e \<Rightarrow> (d, Err e)
      | Panic \<Rightarrow> (d, Panic))"

section \<open>Lemmas on framing\<close>

lemma push_loop_append:
  "push_loop w d ms (xs @ ys) =
     (case push_loop w d ms xs of
        (d', Ok ms') \<Rightarrow> push_loop w d' ms' ys
      | (d', Err e) \<Rightarrow> (d', Err e)
      | (d', Panic) \<Rightarrow> (d', Panic))"
  by (induction xs arbitrary: d ms) (simp_all add: Let_def split: res.split)

lemma push_loop_messages:
  "push_loop w d (ms @ ms') xs =
     (fst (push_loop w d ms' xs),
      rbind (snd (push_loop w d ms' xs)) (\<lambda>out. Ok (ms @ out)))"
  by (induction xs arbitrary: d ms') (simp_all add: Let_def split: res.split)

lemma push_loop_bounded:
  "length (fd_frame d) \<le> MAX_ENCODED_FRAME_LEN \<Longrightarrow>
     length (fd_frame (fst (push_loop w d ms xs))) \<le> MAX_ENCODED_FRAME_LEN"
  by (induction xs arbitrary: d ms) (simp_all add: Let_def split: res.split)

lemma push_loop_body:
  "0 \<notin> set body \<Longrightarrow> length (fd_frame d) + length body \<le> MAX_ENCODED_FRAME_LEN \<Longrightarrow>
     push_loop w d ms body = (d\<lparr>fd_frame := fd_frame d @ body\<rparr>, Ok ms)"
  by (induction body arbitrary: d) (auto simp: Let_def)

lemma push_loop_frame:
  assumes "0 \<notin> set body" and "Suc (length body) \<le> MAX_ENCODED_FRAME_LEN"
    and "ipc_decode w (body @ [0]) = Ok m"
  shows "push_loop w decoder_new ms ((body @ [0]) @ rest) = push_loop w decoder_new (ms @ [m]) rest"
proof -
  have "push_loop w decoder_new ms body = (\<lparr>fd_frame = body\<rparr>, Ok ms)"
    using push_loop_body [of body decoder_new w ms] assms(1,2) by (simp add: decoder_new_def)
  then show ?thesis
    using assms(2,3) by (simp add: push_loop_append Let_def decoder_new_def)
qed

text \<open>Several reads in a row, up to the first error.\<close>

fun push_chunks ::
  "('m, 'j) Wire \<Rightarrow> FrameDecoder \<Rightarrow> byte list list \<Rightarrow> FrameDecoder \<times> ('j ProtocolError, 'm list) res" where
  "push_chunks w d [] = (d, Ok [])"
| "push_chunks w d (c # cs) =
     (case decoder_push w d c of
        (d', Ok ms) \<Rightarrow>
          (case push_chunks w d' cs of (d'', r) \<Rightarrow> (d'', rbind r (\<lambda>ms'. Ok (ms @ ms'))))
      | (d', Err e) \<Rightarrow> (d', Err e)
      | (d', Panic) \<Rightarrow> (d', Panic))"

lemma push_chunks_concat: "push_chunks w d cs = decoder_push w d (concat cs)"
proof (induction cs arbitrary: d)
  case (Cons c cs)
  obtain d' r where r: "push_loop w d [] c = (d', r)" by fastforce
  show ?case
  proof (cases r)
    case (Ok ms)
    then show ?thesis
      using r Cons.IH [of d'] push_loop_messages [of w d' ms "[]" "concat cs"]
      by (simp add: decoder_push_def push_loop_append case_prod_beta)
  qed (simp_all add: decoder_push_def push_loop_append r)
qed (simp add: decoder_push_def)

text \<open>The documented contract of the serializer.\<close>

definition cobs_contract :: "('m, 'j) Wire \<Rightarrow> bool" where
  "cobs_contract w \<longleftrightarrow>
     (\<forall>m bs. w_to_cobs w m = Ok bs \<longrightarrow>
        w_from_cobs w bs = Ok m \<and> (\<exists>body. bs = body @ [0] \<and> 0 \<notin> set body))"

lemma ipc_decode_encode:
  assumes "cobs_contract w" and "ipc_encode w m = Ok bs"
  shows "\<exists>body. bs = body @ [0] \<and> 0 \<notin> set body \<and> Suc (length body) \<le> MAX_ENCODED_FRAME_LEN
     \<and> ipc_decode w bs = Ok m"
proof -
  have enc: "w_validate w m = Ok ()" "w_to_cobs w m = Ok bs" "length bs \<le> MAX_ENCODED_FRAME_LEN"
    using assms(2) by (auto simp: ipc_encode_def)
  then obtain body where "w_from_cobs w bs = Ok m" "bs = body @ [0]" "0 \<notin> set body"
    using assms(1) by (auto simp: cobs_contract_def)
  then show ?thesis using enc by (auto simp: ipc_decode_def)
qed

lemma push_loop_stream:
  assumes "cobs_contract w" and "list_all2 (\<lambda>m bs. ipc_encode w m = Ok bs) ms frames"
  shows "push_loop w decoder_new acc (concat frames) = (decoder_new, Ok (acc @ ms))"
  using assms(2)
proof (induction ms frames arbitrary: acc rule: list_all2_induct)
  case (Cons m ms bs frames)
  obtain body where b: "bs = body @ [0]" "0 \<notin> set body" "Suc (length body) \<le> MAX_ENCODED_FRAME_LEN"
    "ipc_decode w (body @ [0]) = Ok m"
    using ipc_decode_encode [OF assms(1) Cons.hyps(1)] by blast
  then show ?case using push_loop_frame [OF b(2-4)] Cons.IH [of "acc @ [m]"] by simp
qed simp

section \<open>Lemmas on the write loop\<close>

lemma write_loop_out:
  assumes "write_loop deadline bytes written answers (take written bytes) = (r, out)"
  shows "(\<exists>k. out = take k bytes) \<and> (r = Some (Ok ()) \<longrightarrow> out = bytes)"
  using assms
proof (induction answers arbitrary: written)
  case Nil
  then show ?case by (auto simp: write_loop.simps intro: exI [of _ "length bytes"] split: if_splits)
next
  case (Cons a answers)
  obtain x t where a: "a = (x, t)" by (cases a)
  have step: "\<And>n. take written bytes @ take n (drop written bytes) = take (written + n) bytes"
    by (simp add: take_add)
  show ?case
  proof (cases "written < length bytes")
    case False
    then show ?thesis using Cons.prems
      by (auto simp: write_loop.simps intro: exI [of _ "length bytes"])
  next
    case True
    then have "write_loop deadline bytes written (a # answers) (take written bytes) = (r, out)"
      using Cons.prems by simp
    then show ?thesis using True Cons.IH
      by (subst (asm) write_loop.simps)
        (auto simp: a step split: res.splits io_kind.splits if_splits)
  qed
qed

fun stalls :: "instant \<Rightarrow> (io_kind, usize) res \<times> instant \<Rightarrow> bool" where
  "stalls deadline (Err kind, now) = (kind = KInterrupted \<or> is_transient kind \<and> now < deadline)"
| "stalls deadline (_, now) = False"

lemma write_loop_returns:
  assumes "length bytes - written + length (filter (stalls deadline) answers) \<le> length answers"
  shows "fst (write_loop deadline bytes written answers out) \<noteq> None"
  using assms
proof (induction answers arbitrary: written out)
  case Nil
  then show ?case by (simp add: write_loop.simps)
next
  case (Cons a answers)
  obtain x t where a: "a = (x, t)" by (cases a)
  show ?case
  proof (cases x)
    case (Ok n)
    show ?thesis
      by (subst write_loop.simps) (use Cons Ok a in auto)
  next
    case (Err kind)
    have go: "stalls deadline a \<Longrightarrow> fst (write_loop deadline bytes written answers out) \<noteq> None"
      by (rule Cons.IH) (use Cons.prems in simp)
    show ?thesis
      by (subst write_loop.simps) (use go in \<open>auto simp: a Err split: io_kind.splits\<close>)
  next
    case Panic
    then show ?thesis by (subst write_loop.simps) (simp add: a)
  qed
qed

section \<open>Properties\<close>

text \<open>
  C15: Messages survive the stream.  Whatever messages are encoded one after the other, and however
  the stream cuts their bytes into reads, the decoder returns exactly these messages in this
  order, with nothing left over at the end.
\<close>

theorem ipc_stream_roundtrip:
  assumes "cobs_contract w" and "list_all2 (\<lambda>m bs. ipc_encode w m = Ok bs) messages frames"
    and "concat chunks = concat frames"
  shows "push_chunks w decoder_new chunks = (decoder_new, Ok messages)
    \<and> decoder_finish decoder_new = Ok ()"
  using push_loop_stream [OF assms(1,2), of "[]"]
  by (simp add: push_chunks_concat assms(3) decoder_push_def decoder_finish_def decoder_new_def)

definition sample_wire :: "(ClientToHook, unit) Wire" where
  "sample_wire = \<lparr>w_validate = client_to_hook_validate,
     w_to_cobs = (\<lambda>m. if m = ChShutdown then Ok [1, 0] else if m = ChPing 3 then Ok [2, 3, 0] else Err ()),
     w_from_cobs = (\<lambda>b. if b = [1, 0] then Ok ChShutdown else if b = [2, 3, 0] then Ok (ChPing 3) else Err ())\<rparr>"

theorem ipc_stream_roundtrip_witness:
  "push_chunks sample_wire decoder_new [[2], [3, 0, 1], [0]] = (decoder_new, Ok [ChPing 3, ChShutdown])"
proof -
  have c: "cobs_contract sample_wire" by (auto simp: cobs_contract_def sample_wire_def split: if_splits)
  have e: "list_all2 (\<lambda>m bs. ipc_encode sample_wire m = Ok bs) [ChPing 3, ChShutdown] [[2, 3, 0], [1, 0]]"
    by (simp add: ipc_encode_def sample_wire_def MAX_ENCODED_FRAME_LEN_def MAX_SERIALIZED_FRAME_LEN_def
        MAX_GAME_PAYLOAD_SIZE_def)
  have "concat [[2], [3, 0, 1], [0]] = concat [[2, 3, 0], [1, 0 :: byte]]" by simp
  from ipc_stream_roundtrip [OF c e this] show ?thesis by blast
qed

text \<open>
  The decoder's memory is bounded and independent of how the stream is cut: its buffer never
  exceeds the largest encoded frame, whatever bytes arrive in whatever reads, and a sequence of
  reads gives the same messages, error and buffer as one read of all their bytes.
\<close>

lemma ipc_decoder_bounded:
  "length (fd_frame (fst (push_chunks w decoder_new chunks))) \<le> MAX_ENCODED_FRAME_LEN
   \<and> push_chunks w decoder_new chunks = decoder_push w decoder_new (concat chunks)"
  using push_loop_bounded [of decoder_new w "[]" "concat chunks"]
  by (simp add: push_chunks_concat decoder_push_def) (simp add: decoder_new_def)

text \<open>
  A handshake is accepted exactly when it comes from the expected role, for the expected
  session, over the same protocol major version with every required feature and the same payload
  limit; the handshake the other side builds for that role and session always is.
\<close>

lemma handshake_exact:
  "(handshake_validate h role session = Ok np \<longleftrightarrow>
      hs_magic h = IPC_MAGIC \<and> hs_major h = IPC_MAJOR \<and> hs_role h = role \<and> hs_session_id h = session
      \<and> hs_required_features h AND REQUIRED_FEATURES = REQUIRED_FEATURES
      \<and> hs_max_game_payload h = of_nat MAX_GAME_PAYLOAD_SIZE
      \<and> np = \<lparr>np_major = IPC_MAJOR, np_minor = IPC_MINOR, np_features = hs_required_features h,
              np_max_game_payload = hs_max_game_payload h\<rparr>)
   \<and> (handshake_validate (handshake_new r s) role session = Ok np' \<longleftrightarrow>
        r = role \<and> s = session
        \<and> np' = \<lparr>np_major = IPC_MAJOR, np_minor = IPC_MINOR, np_features = REQUIRED_FEATURES,
                 np_max_game_payload = of_nat MAX_GAME_PAYLOAD_SIZE\<rparr>)"
  by (auto simp: handshake_validate_def handshake_new_def)

text \<open>
  C16: A bounded write ends, and says truly what it did.  Answers that make the loop try again
  without progress are interruptions and transient errors before the deadline; once the stream has
  given as many other answers as the message has bytes, the write has returned.  What the stream
  accepted is then a prefix of the message, nothing lost, repeated or reordered, and it is the
  whole message when the write reports success.
\<close>

theorem write_all_bounded_returns:
  assumes "length bytes + length (filter (stalls (start + timeout)) answers) \<le> length answers"
  shows "\<exists>r k. write_all_bounded start timeout bytes answers
           = (Some r, if r = Ok () then bytes else take k bytes)"
proof -
  obtain r out where w: "write_all_bounded start timeout bytes answers = (r, out)" by fastforce
  then obtain v where "r = Some v"
    using write_loop_returns [of bytes 0 "start + timeout" answers "[]"] assms
    by (auto simp: write_all_bounded_def)
  then show ?thesis
    using write_loop_out [of "start + timeout" bytes 0 answers r out] w
    by (cases "v = Ok ()") (auto simp: write_all_bounded_def)
qed

theorem write_all_bounded_returns_witness:
  "\<exists>r k. write_all_bounded 0 5 [7, 8, 9] [(Err KWouldBlock, 3), (Ok 2, 4), (Err KInterrupted, 6), (Ok 1, 7), (Ok 0, 8)]
      = (Some r, if r = Ok () then [7, 8, 9] else take k [7, 8, 9])"
  by (rule write_all_bounded_returns) (simp add: is_transient_def)

end
