(* ===== verification/BTree_Map.thy ===== *)
theory BTree_Map
  imports TB_Prelude "HOL-Library.List_Lexorder" "HOL-Library.Product_Lexorder"
begin

text \<open>
  The ordered maps of the standard library (\<open>BTreeMap\<close>): an association list in increasing order of
  its keys.  Iteration is in that order.  Orders that the sources derive are lexicographic in the
  order of the fields, arrays included.
\<close>

type_synonym ('k, 'v) bmap = "('k \<times> 'v) list"

definition bm_wf :: "('k::linorder, 'v) bmap \<Rightarrow> bool" where
  "bm_wf m = sorted_wrt (<) (map fst m)"

definition bm_get :: "('k, 'v) bmap \<Rightarrow> 'k \<Rightarrow> 'v option" where
  "bm_get m k = map_of m k"

fun bm_insert :: "'k::linorder \<Rightarrow> 'v \<Rightarrow> ('k, 'v) bmap \<Rightarrow> ('k, 'v) bmap" where
  "bm_insert k v [] = [(k, v)]"
| "bm_insert k v ((k', v') # m) =
     (if k < k' then (k, v) # (k', v') # m
      else if k = k' then (k, v) # m
      else (k', v') # bm_insert k v m)"

definition bm_remove :: "'k \<Rightarrow> ('k, 'v) bmap \<Rightarrow> ('k, 'v) bmap" where
  "bm_remove k m = filter (\<lambda>(k', _). k' \<noteq> k) m"

definition bm_retain :: "('k \<Rightarrow> 'v \<Rightarrow> bool) \<Rightarrow> ('k, 'v) bmap \<Rightarrow> ('k, 'v) bmap" where
  "bm_retain p m = filter (\<lambda>(k, v). p k v) m"

definition bm_contains :: "('k, 'v) bmap \<Rightarrow> 'k \<Rightarrow> bool" where
  "bm_contains m k = (bm_get m k \<noteq> None)"

definition bm_keys :: "('k, 'v) bmap \<Rightarrow> 'k list" where
  "bm_keys m = map fst m"

definition bm_values :: "('k, 'v) bmap \<Rightarrow> 'v list" where
  "bm_values m = map snd m"

lemma bm_get_insert: "bm_get (bm_insert k v m) k' = (if k' = k then Some v else bm_get m k')"
  by (induction k v m rule: bm_insert.induct) (auto simp: bm_get_def)

lemma bm_get_remove: "bm_get (bm_remove k m) k' = (if k' = k then None else bm_get m k')"
  by (induction m) (auto simp: bm_get_def bm_remove_def)

lemma set_bm_insert: "fst ` set (bm_insert k v m) = insert k (fst ` set m)"
  by (induction k v m rule: bm_insert.induct) auto

lemma bm_wf_insert: "bm_wf m \<Longrightarrow> bm_wf (bm_insert k v m)"
proof (induction k v m rule: bm_insert.induct)
  case (2 k v k' v' m)
  have "\<forall>x \<in> fst ` set (bm_insert k v m). k' < x" if "\<not> k < k'" "k \<noteq> k'"
    using that 2(2) unfolding set_bm_insert by (auto simp: bm_wf_def)
  then show ?case using 2 by (auto simp: bm_wf_def)
qed (simp add: bm_wf_def)

lemma bm_wf_filter: "bm_wf m \<Longrightarrow> bm_wf (filter p m)"
proof -
  assume "bm_wf m"
  then have "sorted_wrt (\<lambda>a b. fst a < fst b) m" by (simp add: bm_wf_def sorted_wrt_map)
  then have "sorted_wrt (\<lambda>a b. fst a < fst b) (filter p m)" by (rule sorted_wrt_filter)
  then show ?thesis by (simp add: bm_wf_def sorted_wrt_map)
qed

lemma bm_wf_distinct: "bm_wf m \<Longrightarrow> distinct (map fst m)"
  unfolding bm_wf_def using strict_sorted_iff by blast

interpretation bm: hash_map "[]" bm_get bm_insert bm_remove length bm_wf
proof (unfold_locales, goal_cases)
  case (7 m)
  show ?case unfolding bm_get_def [abs_def] by (rule finite_dom_map_of)
next
  case (8 m)
  have "dom (bm_get m) = set (map fst m)"
    unfolding bm_get_def [abs_def] by (simp add: dom_map_of_conv_image_fst)
  with 8 bm_wf_distinct show ?case by (metis distinct_card length_map)
next
  case (6 m k)
  then show ?case by (simp add: bm_remove_def bm_wf_filter)
next
  case 1
  show ?case by (simp add: bm_get_def)
next
  case 4
  show ?case by (simp add: bm_wf_def)
qed (simp_all add: bm_get_insert bm_get_remove bm_wf_insert)

lemmas bm_laws [simp] =
  bm.get_empty bm.get_ins bm.get_del bm.wf_empty bm.wf_ins bm.wf_del

lemma bm_wf_retain [simp]: "bm_wf m \<Longrightarrow> bm_wf (bm_retain p m)"
  by (simp add: bm_retain_def bm_wf_filter)

lemma bm_get_eq_Some: "bm_wf m \<Longrightarrow> bm_get m k = Some v \<longleftrightarrow> (k, v) \<in> set m"
  by (simp add: bm_get_def bm_wf_distinct)

lemma bm_get_retain [simp]:
  assumes "bm_wf m"
  shows "bm_get (bm_retain p m) k =
     (case bm_get m k of None \<Rightarrow> None | Some v \<Rightarrow> if p k v then Some v else None)"
proof -
  have iff: "bm_get (bm_retain p m) k = Some v \<longleftrightarrow> bm_get m k = Some v \<and> p k v" for v
    using assms by (simp add: bm_get_eq_Some) (auto simp: bm_retain_def)
  show ?thesis
  proof (cases "bm_get (bm_retain p m) k")
    case None
    then have "\<not> (bm_get m k = Some v \<and> p k v)" for v using iff [of v] by simp
    with None show ?thesis by (auto split: option.split)
  next
    case (Some v)
    then show ?thesis using iff [of v] by simp
  qed
qed

lemma bm_keys_get: "k \<in> set (bm_keys m) \<longleftrightarrow> bm_get m k \<noteq> None"
  by (simp add: bm_keys_def bm_get_def map_of_eq_None_iff)

lemma bm_insert_new_length: "bm_wf m \<Longrightarrow> length (bm_insert k v m) \<le> Suc (length m)"
  by (rule bm.len_ins_le)

lemma bm_remove_shorter: "k \<in> set (bm_keys m) \<Longrightarrow> length (bm_remove k m) < length m"
  by (auto simp: bm_remove_def bm_keys_def intro!: length_filter_less)

end
