(* ===== verification/Lan_Membership.thy ===== *)
theory Lan_Membership
  imports BTree_Map Direct_Types
begin

text \<open>
  Who is in a LAN session (\<open>bridge-core/src/client/lan/membership.rs\<close>): the peers heard of (hints),
  the live control links, the dials under way and the deadlines of peers that were lost.  Each
  accepted link gets a lifecycle epoch.  The channel and the cancellation token of a link are handles,
  here numbers; the current time is an argument.
\<close>

section \<open>Orders\<close>

text \<open>\<open>PeerIdentity\<close> and \<open>LinkKey\<close> derive their order from their fields.\<close>

instantiation PeerIdentity_ext :: (linorder) linorder
begin

definition less_eq_PeerIdentity_ext :: "('a::linorder) PeerIdentity_scheme \<Rightarrow> 'a PeerIdentity_scheme \<Rightarrow> bool" where
  "less_eq_PeerIdentity_ext x y \<longleftrightarrow>
     (id_steam_id64 x, id_instance_id x, PeerIdentity.more x) \<le> (id_steam_id64 y, id_instance_id y, PeerIdentity.more y)"

definition less_PeerIdentity_ext :: "('a::linorder) PeerIdentity_scheme \<Rightarrow> 'a PeerIdentity_scheme \<Rightarrow> bool" where
  "less_PeerIdentity_ext x y \<longleftrightarrow>
     (id_steam_id64 x, id_instance_id x, PeerIdentity.more x) < (id_steam_id64 y, id_instance_id y, PeerIdentity.more y)"

instance
  by standard (auto simp: less_eq_PeerIdentity_ext_def less_PeerIdentity_ext_def)

end

record LinkKey =
  lk_link_id :: LinkId
  lk_initiator :: PeerIdentity

instantiation LinkKey_ext :: (linorder) linorder
begin

definition less_eq_LinkKey_ext :: "('a::linorder) LinkKey_scheme \<Rightarrow> 'a LinkKey_scheme \<Rightarrow> bool" where
  "less_eq_LinkKey_ext x y \<longleftrightarrow>
     (lk_link_id x, lk_initiator x, LinkKey.more x) \<le> (lk_link_id y, lk_initiator y, LinkKey.more y)"

definition less_LinkKey_ext :: "('a::linorder) LinkKey_scheme \<Rightarrow> 'a LinkKey_scheme \<Rightarrow> bool" where
  "less_LinkKey_ext x y \<longleftrightarrow>
     (lk_link_id x, lk_initiator x, LinkKey.more x) < (lk_link_id y, lk_initiator y, LinkKey.more y)"

instance
  by standard (auto simp: less_eq_LinkKey_ext_def less_LinkKey_ext_def)

end

section \<open>State\<close>

definition PEER_RECOVERY_HORIZON :: duration where "PEER_RECOVERY_HORIZON = secs 120"

type_synonym PeerLifecycleEpoch = u64

definition UNATTACHED :: PeerLifecycleEpoch where "UNATTACHED = 0"

record ActiveLink =
  al_key :: LinkKey
  al_descriptor :: PeerDescriptor
  al_sender :: nat
  al_cancellation :: nat

abbreviation al_identity :: "ActiveLink \<Rightarrow> PeerIdentity" where
  "al_identity l \<equiv> pd_identity (al_descriptor l)"

datatype RegisterResult =
    RrAccepted "ActiveLink option" PeerLifecycleEpoch
  | RrDuplicateLost
  | RrDuplicateSteamIdentity
  | RrSelfConnection
  | RrLifecycleExhausted

record RegisteredLink =
  rl_epoch :: PeerLifecycleEpoch
  rl_link :: ActiveLink

record Membership =
  mb_local :: PeerDescriptor
  mb_hints :: "(PeerIdentity, PeerDescriptor) bmap"
  mb_active :: "(PeerIdentity, RegisteredLink) hmap"
  mb_dialing :: "PeerIdentity list"
  mb_recovery_deadlines :: "(PeerIdentity, instant) hmap"
  mb_next_lifecycle_epoch :: "u64 option"

definition membership_new :: "PeerDescriptor \<Rightarrow> Membership" where
  "membership_new local =
     \<lparr>mb_local = local, mb_hints = [], mb_active = [], mb_dialing = [], mb_recovery_deadlines = [],
      mb_next_lifecycle_epoch = Some 1\<rparr>"

section \<open>Operations\<close>

definition snapshot_hints ::
  "(PeerIdentity, PeerDescriptor) bmap \<Rightarrow> (PeerIdentity, PeerDescriptor) bmap
     \<Rightarrow> (PeerIdentity, PeerDescriptor) bmap" where
  "snapshot_hints hints peers =
     foldl (\<lambda>peers (i, d). if bm_contains peers i then peers else bm_insert i d peers) peers hints"

definition membership_snapshot :: "Membership \<Rightarrow> PeerDescriptor list" where
  "membership_snapshot m =
     (let peers = bm_insert (pd_identity (mb_local m)) (mb_local m) [];
          peers = foldl (\<lambda>peers r. bm_insert (al_identity (rl_link r)) (al_descriptor (rl_link r)) peers)
                    peers (hm_values (mb_active m));
          peers = snapshot_hints (mb_hints m) peers
      in take MAX_PEERS (bm_values peers))"

text \<open>Another instance of the same player holds a live link.\<close>

definition steam_taken :: "Membership \<Rightarrow> PeerIdentity \<Rightarrow> bool" where
  "steam_taken m i =
     list_ex (\<lambda>r. id_steam_id64 (al_identity (rl_link r)) = id_steam_id64 i \<and> al_identity (rl_link r) \<noteq> i)
       (hm_values (mb_active m))"

definition hint_refused :: "Membership \<Rightarrow> PeerIdentity \<Rightarrow> bool" where
  "hint_refused m i \<longleftrightarrow>
     i = pd_identity (mb_local m) \<or> id_steam_id64 i = id_steam_id64 (pd_identity (mb_local m))
     \<or> hm_contains (mb_active m) i \<or> steam_taken m i"

fun merge_loop :: "Membership \<Rightarrow> PeerDescriptor list \<Rightarrow> PeerDescriptor list \<Rightarrow> Membership \<times> PeerDescriptor list" where
  "merge_loop m discovered [] = (m, discovered)"
| "merge_loop m discovered (peer # peers) =
     (if hint_refused m (pd_identity peer) then merge_loop m discovered peers
      else
        let is_new = \<not> bm_contains (mb_hints m) (pd_identity peer);
            m = m\<lparr>mb_hints := bm_insert (pd_identity peer) peer (mb_hints m)\<rparr>
        in merge_loop m (if is_new then discovered @ [peer] else discovered) peers)"

text \<open>The hints that do not fit are removed from the highest identity down, live peers excepted.\<close>

function trim_hints ::
  "(PeerIdentity, PeerDescriptor) bmap \<Rightarrow> (PeerIdentity, RegisteredLink) hmap
     \<Rightarrow> (PeerIdentity, PeerDescriptor) bmap" where
  "trim_hints hints active =
     (if MAX_PEERS < usize_saturating_add (length hints) 1 then
        (case find (\<lambda>i. \<not> hm_contains active i) (rev (bm_keys hints)) of
           None \<Rightarrow> hints
         | Some i \<Rightarrow> trim_hints (bm_remove i hints) active)
      else hints)"
  by pat_completeness auto
termination
  by (relation "measure (\<lambda>(hints, _). length hints)") (auto dest!: find_Some_in intro!: bm_remove_shorter)

declare trim_hints.simps [simp del]

definition merge_hints :: "Membership \<Rightarrow> PeerDescriptor list \<Rightarrow> Membership \<times> PeerDescriptor list" where
  "merge_hints m peers =
     (let (m, discovered) = merge_loop m [] peers
      in (m\<lparr>mb_hints := trim_hints (mb_hints m) (mb_active m)\<rparr>, discovered))"

definition begin_dial :: "Membership \<Rightarrow> PeerIdentity \<Rightarrow> Membership \<times> bool" where
  "begin_dial m i =
     (if i = pd_identity (mb_local m) \<or> hm_contains (mb_active m) i then (m, False)
      else (m\<lparr>mb_dialing := List.insert i (mb_dialing m)\<rparr>, i \<notin> set (mb_dialing m)))"

definition end_dial :: "Membership \<Rightarrow> instant \<Rightarrow> PeerIdentity \<Rightarrow> bool \<Rightarrow> Membership" where
  "end_dial m now i failed =
     (let m = m\<lparr>mb_dialing := removeAll i (mb_dialing m)\<rparr> in
      if failed \<and> \<not> hm_contains (mb_recovery_deadlines m) i
      then m\<lparr>mb_recovery_deadlines := hm_insert i (now + PEER_RECOVERY_HORIZON) (mb_recovery_deadlines m)\<rparr>
      else m)"

definition register :: "Membership \<Rightarrow> ActiveLink \<Rightarrow> Membership \<times> RegisterResult" where
  "register m link =
     (let i = al_identity link in
      if i = pd_identity (mb_local m) \<or> id_steam_id64 i = id_steam_id64 (pd_identity (mb_local m))
      then (m, RrSelfConnection)
      else if steam_taken m i then (m, RrDuplicateSteamIdentity)
      else if (case hm_get (mb_active m) i of None \<Rightarrow> False | Some existing \<Rightarrow> al_key (rl_link existing) \<le> al_key link)
      then (m, RrDuplicateLost)
      else
        case mb_next_lifecycle_epoch m of
          None \<Rightarrow> (m, RrLifecycleExhausted)
        | Some epoch \<Rightarrow>
            let replaced = map_option rl_link (hm_get (mb_active m) i) in
            (m\<lparr>mb_next_lifecycle_epoch := (if epoch = - 1 then None else Some (epoch + 1)),
               mb_hints := bm_retain (\<lambda>h _. id_steam_id64 h \<noteq> id_steam_id64 i \<or> h = i)
                             (bm_insert i (al_descriptor link) (mb_hints m)),
               mb_recovery_deadlines := hm_remove i (mb_recovery_deadlines m),
               mb_dialing := removeAll i (mb_dialing m),
               mb_active := hm_insert i \<lparr>rl_epoch = epoch, rl_link = link\<rparr> (hm_remove i (mb_active m))\<rparr>,
             RrAccepted replaced epoch))"

definition remove_link ::
  "Membership \<Rightarrow> instant \<Rightarrow> PeerIdentity \<Rightarrow> LinkKey \<Rightarrow> bool \<Rightarrow> Membership \<times> PeerLifecycleEpoch option" where
  "remove_link m now i key graceful =
     (case hm_get (mb_active m) i of
        None \<Rightarrow> (m, None)
      | Some registered \<Rightarrow>
          if al_key (rl_link registered) \<noteq> key then (m, None)
          else
            let m = m\<lparr>mb_active := hm_remove i (mb_active m)\<rparr>;
                m = (if graceful
                     then m\<lparr>mb_hints := bm_remove i (mb_hints m),
                            mb_recovery_deadlines := hm_remove i (mb_recovery_deadlines m)\<rparr>
                     else m\<lparr>mb_recovery_deadlines :=
                              hm_insert i (now + PEER_RECOVERY_HORIZON) (mb_recovery_deadlines m)\<rparr>)
            in (m, Some (rl_epoch registered)))"

definition forget_peer :: "Membership \<Rightarrow> PeerIdentity \<Rightarrow> Membership" where
  "forget_peer m i =
     m\<lparr>mb_recovery_deadlines := hm_remove i (mb_recovery_deadlines m),
       mb_hints := bm_remove i (mb_hints m), mb_dialing := removeAll i (mb_dialing m)\<rparr>"

definition membership_expire :: "Membership \<Rightarrow> instant \<Rightarrow> Membership" where
  "membership_expire m now =
     foldl forget_peer m (map fst (filter (\<lambda>(_, deadline). deadline \<le> now) (mb_recovery_deadlines m)))"

definition retry_candidates :: "Membership \<Rightarrow> instant \<Rightarrow> PeerDescriptor list" where
  "retry_candidates m now =
     filter (\<lambda>d. \<not> hm_contains (mb_active m) (pd_identity d) \<and> pd_identity d \<notin> set (mb_dialing m)
                 \<and> (case hm_get (mb_recovery_deadlines m) (pd_identity d) of
                      None \<Rightarrow> True | Some deadline \<Rightarrow> now < deadline))
       (bm_values (mb_hints m))"

definition membership_links :: "Membership \<Rightarrow> ActiveLink list" where
  "membership_links m = map rl_link (hm_values (mb_active m))"

definition is_active_link :: "Membership \<Rightarrow> PeerIdentity \<Rightarrow> LinkKey \<Rightarrow> bool" where
  "is_active_link m i key =
     (case hm_get (mb_active m) i of None \<Rightarrow> False | Some r \<Rightarrow> al_key (rl_link r) = key)"

definition connected_descriptors :: "Membership \<Rightarrow> PeerDescriptor list" where
  "connected_descriptors m =
     sort_key pd_identity (map (\<lambda>r. al_descriptor (rl_link r)) (hm_values (mb_active m)))"

definition hinted_descriptors :: "Membership \<Rightarrow> PeerDescriptor list" where
  "hinted_descriptors m =
     filter (\<lambda>d. \<not> hm_contains (mb_active m) (pd_identity d)) (bm_values (mb_hints m))"

definition is_recovering :: "Membership \<Rightarrow> PeerIdentity \<Rightarrow> bool" where
  "is_recovering m i = hm_contains (mb_recovery_deadlines m) i"

section \<open>The invariant\<close>

abbreviation steam_of :: "PeerIdentity \<Rightarrow> u64" where
  "steam_of \<equiv> id_steam_id64"

definition active_ok :: "Membership \<Rightarrow> bool" where
  "active_ok m \<longleftrightarrow> hm_wf (mb_active m)
     \<and> (\<forall>i r. hm_get (mb_active m) i = Some r \<longrightarrow>
           al_identity (rl_link r) = i \<and> steam_of i \<noteq> steam_of (pd_identity (mb_local m)))
     \<and> (\<forall>i j r s. hm_get (mb_active m) i = Some r \<longrightarrow> hm_get (mb_active m) j = Some s \<longrightarrow>
           steam_of i = steam_of j \<or> rl_epoch r = rl_epoch s \<longrightarrow> i = j)"

definition epochs_ok :: "Membership \<Rightarrow> bool" where
  "epochs_ok m \<longleftrightarrow> (case mb_next_lifecycle_epoch m of
       None \<Rightarrow> True
     | Some n \<Rightarrow> 0 < n \<and> (\<forall>i r. hm_get (mb_active m) i = Some r \<longrightarrow> rl_epoch r < n))"

definition hints_ok :: "Membership \<Rightarrow> bool" where
  "hints_ok m \<longleftrightarrow> bm_wf (mb_hints m)
     \<and> (\<forall>i d. bm_get (mb_hints m) i = Some d \<longrightarrow>
           pd_identity d = i \<and> steam_of i \<noteq> steam_of (pd_identity (mb_local m)))"

definition member_inv :: "Membership \<Rightarrow> bool" where
  "member_inv m \<longleftrightarrow> active_ok m \<and> epochs_ok m \<and> hints_ok m"

lemmas member_inv_defs = member_inv_def active_ok_def epochs_ok_def hints_ok_def

lemma ok_frame [simp]:
  "active_ok (m\<lparr>mb_hints := h\<rparr>) = active_ok m" "epochs_ok (m\<lparr>mb_hints := h\<rparr>) = epochs_ok m"
  "active_ok (m\<lparr>mb_dialing := d\<rparr>) = active_ok m" "epochs_ok (m\<lparr>mb_dialing := d\<rparr>) = epochs_ok m"
  "hints_ok (m\<lparr>mb_dialing := d\<rparr>) = hints_ok m"
  "active_ok (m\<lparr>mb_recovery_deadlines := x\<rparr>) = active_ok m"
  "epochs_ok (m\<lparr>mb_recovery_deadlines := x\<rparr>) = epochs_ok m"
  "hints_ok (m\<lparr>mb_recovery_deadlines := x\<rparr>) = hints_ok m"
  "hints_ok (m\<lparr>mb_active := a\<rparr>) = hints_ok m"
  by (simp_all add: active_ok_def epochs_ok_def hints_ok_def split: option.splits)

text \<open>The operations that change the membership.\<close>

inductive member_step :: "Membership \<Rightarrow> Membership \<Rightarrow> bool" where
  step_merge: "member_step m (fst (merge_hints m peers))"
| step_begin_dial: "member_step m (fst (begin_dial m i))"
| step_end_dial: "member_step m (end_dial m now i failed)"
| step_register: "member_step m (fst (register m link))"
| step_remove: "member_step m (fst (remove_link m now i key graceful))"
| step_expire: "member_step m (membership_expire m now)"

inductive_cases member_stepE: "member_step m m'"

lemma steam_taken_iff:
  assumes "active_ok m"
  shows "steam_taken m i \<longleftrightarrow> (\<exists>j r. hm_get (mb_active m) j = Some r \<and> steam_of j = steam_of i \<and> j \<noteq> i)"
proof -
  have wf: "hm_wf (mb_active m)" using assms by (simp add: active_ok_def)
  have "steam_taken m i \<longleftrightarrow> (\<exists>r \<in> set (hm_values (mb_active m)).
      steam_of (al_identity (rl_link r)) = steam_of i \<and> al_identity (rl_link r) \<noteq> i)"
    by (simp add: steam_taken_def list_ex_iff)
  also have "\<dots> \<longleftrightarrow> (\<exists>j r. hm_get (mb_active m) j = Some r \<and> steam_of j = steam_of i \<and> j \<noteq> i)"
  proof
    assume "\<exists>r \<in> set (hm_values (mb_active m)).
      steam_of (al_identity (rl_link r)) = steam_of i \<and> al_identity (rl_link r) \<noteq> i"
    then obtain r j where "hm_get (mb_active m) j = Some r"
      "steam_of (al_identity (rl_link r)) = steam_of i" "al_identity (rl_link r) \<noteq> i"
      unfolding Bex_def set_hm_values [OF wf] by blast
    moreover from this(1) have "al_identity (rl_link r) = j" using assms by (simp add: active_ok_def)
    ultimately show "\<exists>j r. hm_get (mb_active m) j = Some r \<and> steam_of j = steam_of i \<and> j \<noteq> i" by blast
  next
    assume "\<exists>j r. hm_get (mb_active m) j = Some r \<and> steam_of j = steam_of i \<and> j \<noteq> i"
    then obtain j r where j: "hm_get (mb_active m) j = Some r" "steam_of j = steam_of i" "j \<noteq> i" by blast
    then have "al_identity (rl_link r) = j" using assms by (simp add: active_ok_def)
    moreover have "r \<in> set (hm_values (mb_active m))" using j(1) set_hm_values [OF wf] by blast
    ultimately show "\<exists>r \<in> set (hm_values (mb_active m)).
      steam_of (al_identity (rl_link r)) = steam_of i \<and> al_identity (rl_link r) \<noteq> i"
      using j by (intro bexI [of _ r]) simp_all
  qed
  finally show ?thesis .
qed

lemma merge_loop_inv:
  "member_inv m \<Longrightarrow> member_inv (fst (merge_loop m discovered peers))"
proof (induction m discovered peers rule: merge_loop.induct)
  case (2 m discovered peer peers)
  show ?case
  proof (cases "hint_refused m (pd_identity peer)")
    case True
    then show ?thesis using 2 by simp
  next
    case False
    then have "member_inv (m\<lparr>mb_hints := bm_insert (pd_identity peer) peer (mb_hints m)\<rparr>)"
      using 2(3) by (auto simp: member_inv_def hints_ok_def hint_refused_def)
    then show ?thesis using 2(2) [OF False refl refl] False by simp
  qed
qed simp

lemma trim_hints_get:
  "bm_wf hints \<Longrightarrow> bm_wf (trim_hints hints active)
     \<and> (\<forall>i d. bm_get (trim_hints hints active) i = Some d \<longrightarrow> bm_get hints i = Some d)"
proof (induction hints active rule: trim_hints.induct)
  case (1 hints active)
  show ?case
  proof (cases "MAX_PEERS < usize_saturating_add (length hints) 1")
    case True
    show ?thesis
    proof (cases "find (\<lambda>i. \<not> hm_contains active i) (rev (bm_keys hints))")
      case (Some i)
      have "bm_wf (bm_remove i hints)" using 1(2) by simp
      from 1(1) [OF True Some this] have IH: "bm_wf (trim_hints (bm_remove i hints) active)"
        "\<And>j d. bm_get (trim_hints (bm_remove i hints) active) j = Some d \<Longrightarrow> bm_get (bm_remove i hints) j = Some d"
        by blast+
      have "trim_hints hints active = trim_hints (bm_remove i hints) active"
        using True Some by (subst trim_hints.simps) simp
      then show ?thesis using IH by (metis bm.get_del option.distinct(1))
    qed (use 1 True in \<open>subst (1 2) trim_hints.simps; simp\<close>)
  qed (use 1 in \<open>subst (1 2) trim_hints.simps; simp\<close>)
qed

lemma merge_hints_inv: "member_inv m \<Longrightarrow> member_inv (fst (merge_hints m peers))"
proof -
  assume "member_inv m"
  then have "member_inv (fst (merge_loop m [] peers))" by (rule merge_loop_inv)
  moreover obtain m' d where m': "merge_loop m [] peers = (m', d)" by fastforce
  ultimately have inv: "member_inv m'" by simp
  then have "bm_wf (mb_hints m')" by (simp add: member_inv_defs)
  from trim_hints_get [OF this, of "mb_active m'"] inv
  have "member_inv (m'\<lparr>mb_hints := trim_hints (mb_hints m') (mb_active m')\<rparr>)"
    by (auto simp: member_inv_def hints_ok_def)
  then show ?thesis by (simp add: merge_hints_def m')
qed

lemma dial_inv:
  "member_inv m \<Longrightarrow> member_inv (fst (begin_dial m i))"
  "member_inv m \<Longrightarrow> member_inv (end_dial m now i failed)"
  by (auto simp: member_inv_def begin_dial_def end_dial_def Let_def)

lemma forget_peer_inv: "member_inv m \<Longrightarrow> member_inv (forget_peer m i)"
  by (auto simp: member_inv_def hints_ok_def forget_peer_def)

lemma expire_inv: "member_inv m \<Longrightarrow> member_inv (membership_expire m now)"
proof -
  assume "member_inv m"
  then have "member_inv (foldl forget_peer m is)" for "is"
    by (induction "is" arbitrary: m) (auto intro: forget_peer_inv)
  then show ?thesis by (simp add: membership_expire_def)
qed

lemma remove_active_ok:
  "active_ok m \<Longrightarrow> active_ok (m\<lparr>mb_active := hm_remove i (mb_active m)\<rparr>)"
  "epochs_ok m \<Longrightarrow> epochs_ok (m\<lparr>mb_active := hm_remove i (mb_active m)\<rparr>)"
  by (auto simp: active_ok_def epochs_ok_def split: option.splits)

lemma remove_hint_ok: "hints_ok m \<Longrightarrow> hints_ok (m\<lparr>mb_hints := bm_remove i (mb_hints m)\<rparr>)"
  by (auto simp: hints_ok_def)

lemma remove_link_inv: "member_inv m \<Longrightarrow> member_inv (fst (remove_link m now i key graceful))"
  using remove_active_ok [of m i] remove_hint_ok [of "m\<lparr>mb_active := hm_remove i (mb_active m)\<rparr>" i]
  by (simp add: member_inv_def remove_link_def Let_def split: option.splits)

lemma u64_next_less: "(e :: u64) \<noteq> - 1 \<Longrightarrow> e < e + 1"
proof -
  assume "e \<noteq> - 1"
  then have "1 + e \<noteq> 0" by (metis add.commute add_eq_0_iff)
  then have "unat (1 + e) = Suc (unat e)" by (rule unatSuc)
  then show ?thesis by (simp add: word_less_nat_alt add.commute)
qed

text \<open>What an accepted registration does.\<close>

lemma register_accepted:
  assumes "active_ok m" and "register m link = (m', RrAccepted replaced e)"
  shows "steam_of (al_identity link) \<noteq> steam_of (pd_identity (mb_local m))
    \<and> (\<forall>j r. hm_get (mb_active m) j = Some r \<longrightarrow> steam_of j = steam_of (al_identity link) \<longrightarrow> j = al_identity link)
    \<and> (case hm_get (mb_active m) (al_identity link) of None \<Rightarrow> True | Some old \<Rightarrow> al_key link < al_key (rl_link old))
    \<and> mb_next_lifecycle_epoch m = Some e
    \<and> mb_next_lifecycle_epoch m' = (if e = - 1 then None else Some (e + 1))
    \<and> mb_active m' = hm_insert (al_identity link) \<lparr>rl_epoch = e, rl_link = link\<rparr>
         (hm_remove (al_identity link) (mb_active m))
    \<and> mb_local m' = mb_local m
    \<and> mb_hints m' = bm_retain (\<lambda>h _. steam_of h \<noteq> steam_of (al_identity link) \<or> h = al_identity link)
         (bm_insert (al_identity link) (al_descriptor link) (mb_hints m))
    \<and> replaced = map_option rl_link (hm_get (mb_active m) (al_identity link))"
  using assms(2) unfolding register_def Let_def steam_taken_iff [OF assms(1)]
  by (auto split: if_splits option.splits)

lemma register_cases:
  obtains replaced e m' where "register m link = (m', RrAccepted replaced e)"
  | "fst (register m link) = m"
  by (cases "register m link"; cases "snd (register m link)")
    (auto simp: register_def Let_def split: if_splits option.splits)

lemma register_inv: "member_inv m \<Longrightarrow> member_inv (fst (register m link))"
proof (cases rule: register_cases [of m link])
  case (1 replaced e m')
  assume inv: "member_inv m"
  let ?i = "al_identity link"
  from inv have a: "active_ok m" and e: "epochs_ok m" and h: "hints_ok m" by (simp_all add: member_inv_def)
  note acc = register_accepted [OF a 1]
  have next_e: "mb_next_lifecycle_epoch m = Some e" and new: "steam_of ?i \<noteq> steam_of (pd_identity (mb_local m))"
    and uniq: "\<And>j r. hm_get (mb_active m) j = Some r \<Longrightarrow> steam_of j = steam_of ?i \<Longrightarrow> j = ?i"
    and m': "mb_next_lifecycle_epoch m' = (if e = - 1 then None else Some (e + 1))"
      "mb_active m' = hm_insert ?i \<lparr>rl_epoch = e, rl_link = link\<rparr> (hm_remove ?i (mb_active m))"
      "mb_local m' = mb_local m"
      "mb_hints m' = bm_retain (\<lambda>h _. steam_of h \<noteq> steam_of ?i \<or> h = ?i)
         (bm_insert ?i (al_descriptor link) (mb_hints m))"
    using acc by blast+
  have old: "rl_epoch r < e" if "hm_get (mb_active m) j = Some r" for j r
    using e that by (auto simp: epochs_ok_def next_e)
  have "active_ok m'"
    using a new uniq old unfolding active_ok_def m' by (auto dest: less_imp_neq)
  moreover have "epochs_ok m'"
  proof -
    have "0 < e + 1" "e < e + 1" if "e \<noteq> - 1" using u64_next_less [OF that] by (auto intro: le_less_trans)
    moreover have "rl_epoch r < e + 1" if "e \<noteq> - 1" "hm_get (mb_active m) j = Some r" for j r
      using old [OF that(2)] u64_next_less [OF that(1)] by (rule less_trans)
    ultimately show ?thesis unfolding epochs_ok_def m' by auto
  qed
  moreover have "hints_ok m'" using h new unfolding hints_ok_def m' by (auto split: option.splits if_splits)
  ultimately show ?thesis by (simp add: 1 member_inv_def)
next
  case 2
  assume "member_inv m"
  with 2 show ?thesis by simp
qed

interpretation membership: invariant_system "\<lambda>m. \<exists>local. m = membership_new local" member_step member_inv
proof (unfold_locales, goal_cases)
  case (1 m)
  then show ?case by (auto simp: membership_new_def member_inv_defs)
next
  case (2 m m')
  from 2(2,1) show ?case
    by cases (auto intro: merge_hints_inv dial_inv register_inv remove_link_inv expire_inv)
qed

abbreviation lan_reachable :: "Membership \<Rightarrow> bool" where
  "lan_reachable \<equiv> reachable_from (\<lambda>m. \<exists>local. m = membership_new local) member_step"

section \<open>Arbitration of links\<close>

abbreviation register_all :: "Membership \<Rightarrow> ActiveLink list \<Rightarrow> Membership" where
  "register_all \<equiv> foldl (\<lambda>m l. fst (register m l))"

lemma register_existing:
  assumes "member_inv m" and "hm_get (mb_active m) (al_identity l) = Some r"
    and "mb_next_lifecycle_epoch m = Some e" and "e \<noteq> - 1"
  shows "\<exists>r' e'. hm_get (mb_active (fst (register m l))) (al_identity l) = Some r'
    \<and> rl_link r' = (if al_key (rl_link r) \<le> al_key l then rl_link r else l)
    \<and> mb_next_lifecycle_epoch (fst (register m l)) = Some e' \<and> unat e' \<le> Suc (unat e)"
proof -
  have a: "active_ok m" using assms(1) by (simp add: member_inv_def)
  have n: "steam_of (al_identity l) \<noteq> steam_of (pd_identity (mb_local m))"
    using a assms(2) by (auto simp: active_ok_def)
  have "j = al_identity l" if "hm_get (mb_active m) j = Some s" "steam_of j = steam_of (al_identity l)" for j s
    using a that assms(2) unfolding active_ok_def by blast
  then have nt: "\<not> steam_taken m (al_identity l)" unfolding steam_taken_iff [OF a] by blast
  have "unat (e + 1) \<le> Suc (unat e)"
  proof -
    have "1 + e \<noteq> 0" using assms(4) by (metis add.commute add_eq_0_iff)
    then show ?thesis using unatSuc [of e] by (simp add: add.commute)
  qed
  then show ?thesis using n nt assms(2-4) by (auto simp: register_def Let_def)
qed

lemma register_all_existing:
  assumes "member_inv m" and "hm_get (mb_active m) i = Some r" and "list_all (\<lambda>l. al_identity l = i) links"
    and "mb_next_lifecycle_epoch m = Some e" and "unat e + length links < 2 ^ 64"
  shows "\<exists>r'. hm_get (mb_active (register_all m links)) i = Some r'
    \<and> al_key (rl_link r') = Min (insert (al_key (rl_link r)) (al_key ` set links))
    \<and> rl_link r' \<in> insert (rl_link r) (set links)"
  using assms
proof (induction links arbitrary: m r e)
  case (Cons l links)
  have l: "al_identity l = i" and ls: "list_all (\<lambda>l. al_identity l = i) links" using Cons.prems(3) by simp_all
  have "e \<noteq> - 1"
  proof
    assume "e = - 1"
    then show False using Cons.prems(5) by (simp add: unat_max_word)
  qed
  from register_existing [OF Cons.prems(1) _ Cons.prems(4) this, of l r] Cons.prems(2) l
  obtain r1 e1 where r1: "hm_get (mb_active (fst (register m l))) i = Some r1"
      "rl_link r1 = (if al_key (rl_link r) \<le> al_key l then rl_link r else l)"
      "mb_next_lifecycle_epoch (fst (register m l)) = Some e1" "unat e1 \<le> Suc (unat e)" by auto
  have b: "unat e1 + length links < 2 ^ 64" using r1(4) Cons.prems(5) by simp
  from Cons.IH [OF register_inv [OF Cons.prems(1)] r1(1) ls r1(3) b]
  obtain r' where r': "hm_get (mb_active (register_all (fst (register m l)) links)) i = Some r'"
    "al_key (rl_link r') = Min (insert (al_key (rl_link r1)) (al_key ` set links))"
    "rl_link r' \<in> insert (rl_link r1) (set links)" by blast
  have k: "al_key (rl_link r1) = min (al_key (rl_link r)) (al_key l)" using r1(2) by (simp add: min_def)
  have "Min (insert (min (al_key (rl_link r)) (al_key l)) (al_key ` set links))
      = Min (insert (al_key (rl_link r)) (insert (al_key l) (al_key ` set links)))"
    by (cases "set links = {}") (simp_all add: min.assoc)
  then show ?case using r' k r1(2) by (auto split: if_splits)
qed simp

text \<open>
  C21: Simultaneous connections between two peers settle on one link, the same whatever the order in
  which the attempts arrive.  After any sequence of registrations for a peer that was not connected,
  as long as lifecycle epochs remain, the live link is one of those offered and has the lowest key.
\<close>

theorem lowest_link_wins:
  assumes "lan_reachable m" and "links \<noteq> []" and "list_all (\<lambda>l. al_identity l = i) links"
    and "steam_of i \<noteq> steam_of (pd_identity (mb_local m))"
    and "list_all (\<lambda>j. steam_of j \<noteq> steam_of i) (map fst (mb_active m))"
    and "mb_next_lifecycle_epoch m = Some e" and "unat e + length links < 2 ^ 64"
  shows "\<exists>r. hm_get (mb_active (register_all m links)) i = Some r \<and> rl_link r \<in> set links
           \<and> al_key (rl_link r) = Min (al_key ` set links)"
proof -
  have inv: "member_inv m" using membership.reachable_inv [OF assms(1)] .
  then have a: "active_ok m" by (simp add: member_inv_def)
  obtain l ls where links: "links = l # ls" using assms(2) by (cases links) auto
  have l: "al_identity l = i" and ls: "list_all (\<lambda>l. al_identity l = i) ls" using assms(3) links by simp_all
  have fresh: "hm_get (mb_active m) j = Some r \<Longrightarrow> steam_of j \<noteq> steam_of i" for j r
    using assms(5) hm_get_in_set [of "mb_active m" j r] by (force simp: list_all_iff)
  then have none: "hm_get (mb_active m) i = None" by (cases "hm_get (mb_active m) i") auto
  have nt: "\<not> steam_taken m i" unfolding steam_taken_iff [OF a] using fresh by blast
  have e: "e \<noteq> - 1"
  proof
    assume "e = - 1"
    then show False using assms(7) links by (simp add: unat_max_word)
  qed
  have r1: "hm_get (mb_active (fst (register m l))) i = Some \<lparr>rl_epoch = e, rl_link = l\<rparr>"
    "mb_next_lifecycle_epoch (fst (register m l)) = Some (e + 1)"
    using none nt assms(4,6) l e by (auto simp: register_def Let_def)
  have "1 + e \<noteq> 0" using e by (metis add.commute add_eq_0_iff)
  then have "unat (e + 1) = Suc (unat e)" using unatSuc [of e] by (simp add: add.commute)
  then have b: "unat (e + 1) + length ls < 2 ^ 64" using assms(7) links by simp
  from register_all_existing [OF register_inv [OF inv] r1(1) ls r1(2) b]
  obtain r' where r': "hm_get (mb_active (register_all (fst (register m l)) ls)) i = Some r'"
    "al_key (rl_link r') = Min (insert (al_key l) (al_key ` set ls))" "rl_link r' \<in> insert l (set ls)"
    by auto
  have "register_all m links = register_all (fst (register m l)) ls" by (simp add: links)
  moreover have "insert (al_key l) (al_key ` set ls) = al_key ` set links" "insert l (set ls) = set links"
    by (simp_all add: links)
  ultimately show ?thesis using r' by auto
qed

definition sample_descriptor :: "u64 \<Rightarrow> PeerDescriptor" where
  "sample_descriptor n = \<lparr>pd_identity = \<lparr>id_steam_id64 = n, id_instance_id = replicate 16 1\<rparr>,
     pd_display_name = None, pd_control_candidates = [], pd_capabilities = 0\<rparr>"

definition sample_link :: "byte \<Rightarrow> ActiveLink" where
  "sample_link k = \<lparr>al_key = \<lparr>lk_link_id = [k], lk_initiator = pd_identity (sample_descriptor 1)\<rparr>,
     al_descriptor = sample_descriptor 2, al_sender = unat k, al_cancellation = unat k\<rparr>"

lemma sample_new_reachable: "lan_reachable (membership_new (sample_descriptor 1))"
  by (rule reach_init) blast

lemma sample_steam [simp]: "steam_of (pd_identity (sample_descriptor n)) = n"
  by (simp add: sample_descriptor_def)

theorem lowest_link_wins_witness:
  "\<exists>r. hm_get (mb_active (register_all (membership_new (sample_descriptor 1)) [sample_link 7, sample_link 3, sample_link 5]))
       (pd_identity (sample_descriptor 2)) = Some r
     \<and> rl_link r \<in> set [sample_link 7, sample_link 3, sample_link 5]
     \<and> al_key (rl_link r) = Min (al_key ` set [sample_link 7, sample_link 3, sample_link 5])"
  by (rule lowest_link_wins [OF sample_new_reachable, where e = 1])
    (simp_all add: membership_new_def sample_link_def)

section \<open>Properties of the membership\<close>

text \<open>
  C22: In every reachable membership, each live link belongs to the peer it is filed under, never to
  the local player, and no two live links share a player or a lifecycle epoch; no hint names the local
  player.
\<close>

theorem lan_membership_invariant:
  assumes "lan_reachable m" and "hm_get (mb_active m) i = Some r"
  shows "al_identity (rl_link r) = i \<and> steam_of i \<noteq> steam_of (pd_identity (mb_local m))
    \<and> list_all (\<lambda>(j, s). j = i \<or> steam_of j \<noteq> steam_of i \<and> rl_epoch s \<noteq> rl_epoch r) (mb_active m)
    \<and> list_all (\<lambda>(h, d). pd_identity d = h \<and> steam_of h \<noteq> steam_of (pd_identity (mb_local m))) (mb_hints m)"
proof -
  have inv: "member_inv m" using membership.reachable_inv [OF assms(1)] .
  then have a: "active_ok m" and h: "hints_ok m" by (simp_all add: member_inv_def)
  have "j = i \<or> steam_of j \<noteq> steam_of i \<and> rl_epoch s \<noteq> rl_epoch r" if "(j, s) \<in> set (mb_active m)" for j s
  proof -
    have "hm_get (mb_active m) j = Some s" using that a by (simp add: hm_get_eq_Some active_ok_def)
    then show ?thesis using a assms(2) unfolding active_ok_def by metis
  qed
  moreover have "pd_identity d = k \<and> steam_of k \<noteq> steam_of (pd_identity (mb_local m))"
    if "(k, d) \<in> set (mb_hints m)" for k d
    using that h bm_get_eq_Some [of "mb_hints m" k d] by (simp add: hints_ok_def)
  ultimately show ?thesis using a assms(2) by (auto simp: active_ok_def list_all_iff)
qed

definition sample_membership :: Membership where
  "sample_membership = fst (register (membership_new (sample_descriptor 1)) (sample_link 3))"

lemma sample_membership_reachable: "lan_reachable sample_membership"
  unfolding sample_membership_def by (rule reach_step [OF sample_new_reachable]) (rule step_register)

lemma sample_membership_active:
  "mb_active sample_membership =
     [(pd_identity (sample_descriptor 2), \<lparr>rl_epoch = 1, rl_link = sample_link 3\<rparr>)]"
  by (simp add: sample_membership_def register_def Let_def membership_new_def steam_taken_def hm_values_def
      sample_link_def hm_get_def hm_insert_def hm_remove_def)
    (simp add: sample_descriptor_def)

theorem lan_membership_invariant_witness:
  "al_identity (sample_link 3) = pd_identity (sample_descriptor 2)
   \<and> steam_of (pd_identity (sample_descriptor 2)) \<noteq> steam_of (pd_identity (mb_local sample_membership))"
  using lan_membership_invariant [OF sample_membership_reachable,
      of "pd_identity (sample_descriptor 2)" "\<lparr>rl_epoch = 1, rl_link = sample_link 3\<rparr>"]
  by (simp add: sample_membership_active hm_get_def)

text \<open>The epochs given out from some point on.\<close>

definition epoch_after :: "u64 \<Rightarrow> Membership \<Rightarrow> bool" where
  "epoch_after e m \<longleftrightarrow> (case mb_next_lifecycle_epoch m of None \<Rightarrow> True | Some n \<Rightarrow> e < n)"

lemma next_epoch_frame [simp]:
  "mb_next_lifecycle_epoch (fst (merge_hints m peers)) = mb_next_lifecycle_epoch m"
  "mb_next_lifecycle_epoch (fst (begin_dial m i)) = mb_next_lifecycle_epoch m"
  "mb_next_lifecycle_epoch (end_dial m now i failed) = mb_next_lifecycle_epoch m"
  "mb_next_lifecycle_epoch (fst (remove_link m now i key graceful)) = mb_next_lifecycle_epoch m"
  "mb_next_lifecycle_epoch (membership_expire m now) = mb_next_lifecycle_epoch m"
proof -
  have "mb_next_lifecycle_epoch (fst (merge_loop m d peers)) = mb_next_lifecycle_epoch m" for d
    by (induction m d peers rule: merge_loop.induct) (simp_all add: Let_def)
  then show "mb_next_lifecycle_epoch (fst (merge_hints m peers)) = mb_next_lifecycle_epoch m"
    by (simp add: merge_hints_def split_beta)
  have "mb_next_lifecycle_epoch (foldl forget_peer m is) = mb_next_lifecycle_epoch m" for "is"
    by (induction "is" arbitrary: m) (simp_all add: forget_peer_def)
  then show "mb_next_lifecycle_epoch (membership_expire m now) = mb_next_lifecycle_epoch m"
    by (simp add: membership_expire_def)
qed (simp_all add: begin_dial_def end_dial_def remove_link_def Let_def split: option.splits)

lemma epoch_after_step: "member_step m m' \<Longrightarrow> epoch_after e m \<Longrightarrow> epoch_after e m'"
proof (induction rule: member_step.induct)
  case (step_register m link)
  then show ?case
    by (auto simp: epoch_after_def register_def Let_def u64_next_less
        intro: less_trans split: option.splits)
qed (simp_all add: epoch_after_def)

text \<open>
  Lifecycle epochs only grow: however the membership evolves after a link was accepted, the next
  link accepted, for the same or another peer, has a larger epoch, so a late notice about the earlier
  link can be told from the current one.
\<close>

lemma lan_epochs_increase:
  assumes "register m link = (m1, RrAccepted replaced e)" and "member_step\<^sup>*\<^sup>* m1 m2"
    and "register m2 link' = (m3, RrAccepted replaced' e')"
  shows "e < e'"
proof -
  have "epoch_after e m1" using assms(1)
    by (auto simp: epoch_after_def register_def Let_def u64_next_less split: if_splits option.splits)
  with assms(2) have "epoch_after e m2"
    by (induction rule: rtranclp_induct) (auto intro: epoch_after_step)
  with assms(3) show ?thesis
    by (auto simp: epoch_after_def register_def Let_def split: if_splits option.splits)
qed

lemma sample_register_twice:
  "register (membership_new (sample_descriptor 1)) (sample_link 3) = (sample_membership, RrAccepted None 1)"
  "snd (register (fst (remove_link sample_membership 0 (pd_identity (sample_descriptor 2)) (al_key (sample_link 3)) False))
     (sample_link 5)) = RrAccepted None 2"
proof -
  have r: "snd (register (membership_new (sample_descriptor 1)) (sample_link 3)) = RrAccepted None 1"
    by (simp add: register_def Let_def membership_new_def steam_taken_def hm_values_def
        sample_link_def hm_get_def)
      (simp add: sample_descriptor_def)
  then show "register (membership_new (sample_descriptor 1)) (sample_link 3) = (sample_membership, RrAccepted None 1)"
    by (simp add: sample_membership_def prod_eq_iff)
  have "mb_next_lifecycle_epoch sample_membership = Some 2" "mb_local sample_membership = sample_descriptor 1"
    by (simp_all add: sample_membership_def register_def Let_def membership_new_def steam_taken_def hm_values_def
        sample_link_def hm_get_def)
      (simp_all add: sample_descriptor_def)
  then show "snd (register (fst (remove_link sample_membership 0 (pd_identity (sample_descriptor 2))
      (al_key (sample_link 3)) False)) (sample_link 5)) = RrAccepted None 2"
    by (simp add: remove_link_def Let_def sample_membership_active hm_get_def hm_remove_def register_def
        steam_taken_def hm_values_def)
      (simp add: sample_link_def sample_descriptor_def)
qed

lemma lan_epochs_increase_witness:
  "snd (register (membership_new (sample_descriptor 1)) (sample_link 3)) = RrAccepted None 1
   \<and> snd (register (fst (remove_link sample_membership 0 (pd_identity (sample_descriptor 2))
           (al_key (sample_link 3)) False)) (sample_link 5)) = RrAccepted None 2
   \<and> (1 :: u64) < 2"
proof -
  let ?m2 = "fst (remove_link sample_membership 0 (pd_identity (sample_descriptor 2)) (al_key (sample_link 3)) False)"
  have "register ?m2 (sample_link 5) = (fst (register ?m2 (sample_link 5)), RrAccepted None 2)"
    using sample_register_twice(2) by (simp add: prod_eq_iff)
  moreover have "member_step\<^sup>*\<^sup>* sample_membership ?m2"
    by (rule r_into_rtranclp) (rule step_remove)
  ultimately have "(1 :: u64) < 2" using lan_epochs_increase [OF sample_register_twice(1)] by blast
  then show ?thesis using sample_register_twice by simp
qed

section \<open>A dial that fails after the peer connected by itself\<close>

lemma forget_all:
  "bm_get (mb_hints (foldl forget_peer m is)) j = (if j \<in> set is then None else bm_get (mb_hints m) j)"
  "mb_active (foldl forget_peer m is) = mb_active m"
  by (induction "is" arbitrary: m) (auto simp: forget_peer_def)

lemma remove_link_frame:
  "bm_get (mb_hints m) i = None \<Longrightarrow> bm_get (mb_hints (fst (remove_link m now i key graceful))) i = None"
  by (simp add: remove_link_def Let_def split: option.splits)

text \<open>
  C23: A flaw of the bookkeeping.  When a dial fails although the peer has meanwhile connected by
  itself, the failed dial still starts the recovery period of the live peer.  When that period ends
  the peer's hint is forgotten while its link is up, and when the link is later lost, the peer is not
  among those that are dialled again.
\<close>

theorem failed_dial_forgets_live_peer:
  assumes "lan_reachable m" and "hm_get (mb_active m) i = Some r"
    and "hm_get (mb_recovery_deadlines m) i = None" and "now + PEER_RECOVERY_HORIZON \<le> later"
    and "m' = membership_expire (end_dial m now i True) later"
  shows "hm_get (mb_active m') i = Some r
    \<and> list_all (\<lambda>d. pd_identity d \<noteq> i)
        (retry_candidates (fst (remove_link m' t i (al_key (rl_link r)) False)) t)"
proof -
  let ?d = "end_dial m now i True"
  let ?lost = "fst (remove_link m' t i (al_key (rl_link r)) False)"
  have "lan_reachable ?d" by (rule reach_step [OF assms(1)]) (rule step_end_dial)
  then have "lan_reachable m'" unfolding assms(5) by (rule reach_step) (rule step_expire)
  then have "lan_reachable ?lost" by (rule reach_step) (rule step_remove)
  then have h: "hints_ok ?lost" using membership.reachable_inv by (auto simp: member_inv_def)
  have d: "mb_recovery_deadlines ?d = hm_insert i (now + PEER_RECOVERY_HORIZON) (mb_recovery_deadlines m)"
    "mb_active ?d = mb_active m"
    using assms(3) by (simp_all add: end_dial_def Let_def hm_contains_def)
  then have "hm_get (mb_recovery_deadlines ?d) i = Some (now + PEER_RECOVERY_HORIZON)" by simp
  from hm_get_in_set [OF this] have "i \<in> set (map fst (filter (\<lambda>(_, deadline). deadline \<le> later)
      (mb_recovery_deadlines ?d)))"
    using assms(4) by force
  then have "bm_get (mb_hints m') i = None" by (simp add: assms(5) membership_expire_def forget_all(1))
  then have none: "bm_get (mb_hints ?lost) i = None" by (rule remove_link_frame)
  have "pd_identity d \<noteq> i" if "d \<in> set (bm_values (mb_hints ?lost))" for d
  proof -
    obtain k where k: "(k, d) \<in> set (mb_hints ?lost)" using \<open>d \<in> _\<close> by (auto simp: bm_values_def)
    then have "bm_get (mb_hints ?lost) k = Some d" using h bm_get_eq_Some [of "mb_hints ?lost" k d]
      by (simp add: hints_ok_def)
    then show ?thesis using h none unfolding hints_ok_def by (metis option.distinct(1))
  qed
  then have "list_all (\<lambda>d. pd_identity d \<noteq> i) (retry_candidates ?lost t)"
    unfolding retry_candidates_def list_all_iff by (meson filter_is_subset subsetD)
  moreover have "hm_get (mb_active m') i = Some r"
    by (simp add: assms(2,5) membership_expire_def forget_all(2) d(2))
  ultimately show ?thesis by blast
qed

theorem failed_dial_forgets_live_peer_witness:
  "list_all (\<lambda>d. pd_identity d \<noteq> pd_identity (sample_descriptor 2))
     (retry_candidates (fst (remove_link (membership_expire (end_dial sample_membership 0
        (pd_identity (sample_descriptor 2)) True) (secs 120)) (secs 130)
        (pd_identity (sample_descriptor 2)) (al_key (sample_link 3)) False)) (secs 130))"
proof -
  have a: "hm_get (mb_active sample_membership) (pd_identity (sample_descriptor 2))
      = Some \<lparr>rl_epoch = 1, rl_link = sample_link 3\<rparr>"
    by (simp add: sample_membership_active hm_get_def)
  have r: "hm_get (mb_recovery_deadlines sample_membership) (pd_identity (sample_descriptor 2)) = None"
    by (simp add: sample_membership_def register_def Let_def membership_new_def steam_taken_def hm_values_def
        sample_link_def hm_get_def hm_remove_def)
  show ?thesis
    using failed_dial_forgets_live_peer [OF sample_membership_reachable a r, of 0 "secs 120" _ "secs 130"]
    by (simp add: PEER_RECOVERY_HORIZON_def)
qed

end
