(* ===== verification/Lan_Ledger.thy ===== *)
theory Lan_Ledger
  imports Lan_Membership
begin

text \<open>
  The ledger of the LAN data plane (\<open>lan/path/data_plane.rs\<close>, \<open>data_plane/model.rs\<close>,
  \<open>data_plane/incidents.rs\<close>): per peer and per lifecycle epoch, what was queued, delivered and dropped
  in each direction and why, and the incidents during which packets are being dropped.  The current
  time is an argument; waking the readers of the ledger is not modelled.
\<close>

section \<open>Data\<close>

definition PER_PEER_PACKET_QUEUE_CAPACITY :: usize where "PER_PEER_PACKET_QUEUE_CAPACITY = 256"
definition CLOSED_EPOCH_DETAIL_CAPACITY :: usize where "CLOSED_EPOCH_DETAIL_CAPACITY = 8"
definition TRANSITION_CAPACITY :: usize where "TRANSITION_CAPACITY = 256"

datatype LanDataDirection = DirSend | DirReceive

datatype LanDataStage = StOutboundQueue | StUdpSend | StInboundQueue | StHookQueue

datatype LanDataDropReason =
    DrQueueFull | DrQueueClosed | DrPeerUnavailable | DrGenerationClosed | DrPayloadTooLarge
  | DrEncodeFailed | DrSendFailed | DrHookDisconnected | DrSessionClosed

datatype LanDataOutcome = OcQueued | OcSucceeded | OcDropped LanDataDropReason

text \<open>The derived orders: by position of the variant.\<close>

fun direction_rank :: "LanDataDirection \<Rightarrow> nat" where
  "direction_rank DirSend = 0"
| "direction_rank DirReceive = 1"

fun stage_rank :: "LanDataStage \<Rightarrow> nat" where
  "stage_rank StOutboundQueue = 0"
| "stage_rank StUdpSend = 1"
| "stage_rank StInboundQueue = 2"
| "stage_rank StHookQueue = 3"

fun reason_rank :: "LanDataDropReason \<Rightarrow> nat" where
  "reason_rank DrQueueFull = 0"
| "reason_rank DrQueueClosed = 1"
| "reason_rank DrPeerUnavailable = 2"
| "reason_rank DrGenerationClosed = 3"
| "reason_rank DrPayloadTooLarge = 4"
| "reason_rank DrEncodeFailed = 5"
| "reason_rank DrSendFailed = 6"
| "reason_rank DrHookDisconnected = 7"
| "reason_rank DrSessionClosed = 8"

lemma direction_rank_inj: "direction_rank d = direction_rank d' \<Longrightarrow> d = d'"
  by (cases d; cases d') simp_all

lemma stage_rank_inj: "stage_rank s = stage_rank s' \<Longrightarrow> s = s'"
  by (cases s; cases s') simp_all

lemma reason_rank_inj: "reason_rank r = reason_rank r' \<Longrightarrow> r = r'"
  by (cases r; cases r') simp_all

lemmas rank_inj = direction_rank_inj stage_rank_inj reason_rank_inj

instantiation LanDataDirection :: linorder
begin

definition less_eq_LanDataDirection :: "LanDataDirection \<Rightarrow> LanDataDirection \<Rightarrow> bool" where
  "less_eq_LanDataDirection x y \<longleftrightarrow> direction_rank x \<le> direction_rank y"

definition less_LanDataDirection :: "LanDataDirection \<Rightarrow> LanDataDirection \<Rightarrow> bool" where
  "less_LanDataDirection x y \<longleftrightarrow> direction_rank x < direction_rank y"

instance
  by standard (auto simp: less_eq_LanDataDirection_def less_LanDataDirection_def intro: rank_inj)

end

instantiation LanDataStage :: linorder
begin

definition less_eq_LanDataStage :: "LanDataStage \<Rightarrow> LanDataStage \<Rightarrow> bool" where
  "less_eq_LanDataStage x y \<longleftrightarrow> stage_rank x \<le> stage_rank y"

definition less_LanDataStage :: "LanDataStage \<Rightarrow> LanDataStage \<Rightarrow> bool" where
  "less_LanDataStage x y \<longleftrightarrow> stage_rank x < stage_rank y"

instance
  by standard (auto simp: less_eq_LanDataStage_def less_LanDataStage_def intro: rank_inj)

end

instantiation LanDataDropReason :: linorder
begin

definition less_eq_LanDataDropReason :: "LanDataDropReason \<Rightarrow> LanDataDropReason \<Rightarrow> bool" where
  "less_eq_LanDataDropReason x y \<longleftrightarrow> reason_rank x \<le> reason_rank y"

definition less_LanDataDropReason :: "LanDataDropReason \<Rightarrow> LanDataDropReason \<Rightarrow> bool" where
  "less_LanDataDropReason x y \<longleftrightarrow> reason_rank x < reason_rank y"

instance
  by standard (auto simp: less_eq_LanDataDropReason_def less_LanDataDropReason_def intro: rank_inj)

end

record PeerDataKey =
  dk_identity :: PeerIdentity
  dk_peer_slot :: u32
  dk_epoch :: PeerLifecycleEpoch

record DirectionTotals =
  dt_queued :: u64
  dt_resolved_success :: u64
  dt_dropped :: u64
  dt_current_queue_depth :: usize
  dt_max_queue_depth :: usize
  dt_rejections :: "(LanDataStage \<times> LanDataDropReason, u64) bmap"

definition totals_default :: DirectionTotals where
  "totals_default = \<lparr>dt_queued = 0, dt_resolved_success = 0, dt_dropped = 0,
     dt_current_queue_depth = 0, dt_max_queue_depth = 0, dt_rejections = []\<rparr>"

record EpochLedger =
  el_epoch :: PeerLifecycleEpoch
  el_active :: bool
  el_send :: DirectionTotals
  el_receive :: DirectionTotals

record PeerLedger =
  pl_peer_steam_id64 :: u64
  pl_latest_epoch :: PeerLifecycleEpoch
  pl_active_epoch :: "PeerLifecycleEpoch option"
  pl_send :: DirectionTotals
  pl_receive :: DirectionTotals
  pl_epochs :: "EpochLedger list"

text \<open>\<open>IncidentKey\<close>, in the order of its fields: slot, epoch, direction, stage, reason.\<close>

type_synonym IncidentKey =
  "u32 \<times> PeerLifecycleEpoch \<times> LanDataDirection \<times> LanDataStage \<times> LanDataDropReason"

record ActiveIncident =
  ai_started_at :: instant
  ai_dropped_packets :: u64

datatype LanIncidentTransitionKind = TkStarted | TkRecovered | TkClosed

record LanIncidentTransition =
  it_peer_slot :: u32
  it_lifecycle_epoch :: u64
  it_direction :: LanDataDirection
  it_stage :: LanDataStage
  it_reason :: LanDataDropReason
  it_kind :: LanIncidentTransitionKind
  it_duration :: duration
  it_dropped_packets :: u64

record LedgerState =
  ls_peer_slots :: "(u64, u32) hmap"
  ls_next_peer_slot :: u32
  ls_peers :: "(u32, PeerLedger) bmap"
  ls_incidents :: "(IncidentKey, ActiveIncident) bmap"
  ls_transitions :: "LanIncidentTransition list"
  ls_transitions_dropped :: u64

definition ledger_new :: LedgerState where
  "ledger_new = \<lparr>ls_peer_slots = [], ls_next_peer_slot = 1, ls_peers = [], ls_incidents = [],
     ls_transitions = [], ls_transitions_dropped = 0\<rparr>"

section \<open>Totals\<close>

definition add_rejection ::
  "LanDataStage \<Rightarrow> LanDataDropReason \<Rightarrow> u64 \<Rightarrow> (LanDataStage \<times> LanDataDropReason, u64) bmap
     \<Rightarrow> (LanDataStage \<times> LanDataDropReason, u64) bmap" where
  "add_rejection stage reason n rejections =
     bm_insert (stage, reason)
       (saturating_add (case bm_get rejections (stage, reason) of None \<Rightarrow> 0 | Some c \<Rightarrow> c) n) rejections"

definition set_direction_depth :: "usize \<Rightarrow> DirectionTotals \<Rightarrow> DirectionTotals" where
  "set_direction_depth depth t =
     t\<lparr>dt_current_queue_depth := depth, dt_max_queue_depth := max (dt_max_queue_depth t) depth\<rparr>"

definition update_direction ::
  "LanDataStage \<Rightarrow> LanDataOutcome \<Rightarrow> usize option \<Rightarrow> DirectionTotals \<Rightarrow> DirectionTotals" where
  "update_direction stage outcome queue_depth t =
     (let t = (case outcome of
                 OcQueued \<Rightarrow> t\<lparr>dt_queued := saturating_add (dt_queued t) 1\<rparr>
               | OcSucceeded \<Rightarrow> t\<lparr>dt_resolved_success := saturating_add (dt_resolved_success t) 1\<rparr>
               | OcDropped reason \<Rightarrow>
                   t\<lparr>dt_dropped := saturating_add (dt_dropped t) 1,
                     dt_rejections := add_rejection stage reason 1 (dt_rejections t)\<rparr>)
      in case queue_depth of
           None \<Rightarrow> t
         | Some depth \<Rightarrow>
             t\<lparr>dt_current_queue_depth := depth, dt_max_queue_depth := max (dt_max_queue_depth t) depth\<rparr>)"

definition update_dropped_batch ::
  "LanDataStage \<Rightarrow> LanDataDropReason \<Rightarrow> u64 \<Rightarrow> usize \<Rightarrow> DirectionTotals \<Rightarrow> DirectionTotals" where
  "update_dropped_batch stage reason n depth t =
     t\<lparr>dt_dropped := saturating_add (dt_dropped t) n,
       dt_rejections := add_rejection stage reason n (dt_rejections t),
       dt_current_queue_depth := depth, dt_max_queue_depth := max (dt_max_queue_depth t) depth\<rparr>"

fun direction_totals_mut :: "LanDataDirection \<Rightarrow> (DirectionTotals \<Rightarrow> DirectionTotals) \<Rightarrow> PeerLedger \<Rightarrow> PeerLedger" where
  "direction_totals_mut DirSend f p = p\<lparr>pl_send := f (pl_send p)\<rparr>"
| "direction_totals_mut DirReceive f p = p\<lparr>pl_receive := f (pl_receive p)\<rparr>"

fun epoch_direction_totals_mut ::
  "LanDataDirection \<Rightarrow> (DirectionTotals \<Rightarrow> DirectionTotals) \<Rightarrow> EpochLedger \<Rightarrow> EpochLedger" where
  "epoch_direction_totals_mut DirSend f e = e\<lparr>el_send := f (el_send e)\<rparr>"
| "epoch_direction_totals_mut DirReceive f e = e\<lparr>el_receive := f (el_receive e)\<rparr>"

text \<open>The first epoch of the ledger with the given number, changed in place.\<close>

fun update_epoch :: "PeerLifecycleEpoch \<Rightarrow> (EpochLedger \<Rightarrow> EpochLedger) \<Rightarrow> EpochLedger list \<Rightarrow> EpochLedger list" where
  "update_epoch n f [] = []"
| "update_epoch n f (e # es) = (if el_epoch e = n then f e # es else e # update_epoch n f es)"

definition update_peer ::
  "PeerDataKey \<Rightarrow> LanDataDirection \<Rightarrow> (DirectionTotals \<Rightarrow> DirectionTotals) \<Rightarrow> PeerLedger \<Rightarrow> PeerLedger" where
  "update_peer key direction f p =
     (let p = direction_totals_mut direction f p
      in p\<lparr>pl_epochs := update_epoch (dk_epoch key) (epoch_direction_totals_mut direction f) (pl_epochs p)\<rparr>)"

fun remove_first_closed :: "EpochLedger list \<Rightarrow> EpochLedger list" where
  "remove_first_closed [] = []"
| "remove_first_closed (e # es) = (if el_active e then e # remove_first_closed es else es)"

definition closed_epochs :: "EpochLedger list \<Rightarrow> nat" where
  "closed_epochs es = length (filter (\<lambda>e. \<not> el_active e) es)"

lemma remove_first_closed_count:
  "0 < closed_epochs es \<Longrightarrow> closed_epochs (remove_first_closed es) = closed_epochs es - 1"
  by (induction es) (auto simp: closed_epochs_def)

function trim_closed_epochs :: "EpochLedger list \<Rightarrow> EpochLedger list" where
  "trim_closed_epochs es =
     (if CLOSED_EPOCH_DETAIL_CAPACITY < closed_epochs es
      then trim_closed_epochs (remove_first_closed es) else es)"
  by pat_completeness auto
termination
  by (relation "measure closed_epochs") (auto simp: remove_first_closed_count CLOSED_EPOCH_DETAIL_CAPACITY_def)

declare trim_closed_epochs.simps [simp del]

section \<open>Incidents\<close>

definition incident_transition ::
  "IncidentKey \<Rightarrow> LanIncidentTransitionKind \<Rightarrow> duration \<Rightarrow> u64 \<Rightarrow> LanIncidentTransition" where
  "incident_transition key kind duration n =
     (case key of (slot, epoch, direction, stage, reason) \<Rightarrow>
        \<lparr>it_peer_slot = slot, it_lifecycle_epoch = epoch, it_direction = direction, it_stage = stage,
         it_reason = reason, it_kind = kind, it_duration = duration, it_dropped_packets = n\<rparr>)"

definition push_transition :: "LanIncidentTransition \<Rightarrow> LedgerState \<Rightarrow> LedgerState" where
  "push_transition t st =
     (let st = (if length (ls_transitions st) = TRANSITION_CAPACITY
                then st\<lparr>ls_transitions := tl (ls_transitions st),
                        ls_transitions_dropped := saturating_add (ls_transitions_dropped st) 1\<rparr>
                else st)
      in st\<lparr>ls_transitions := ls_transitions st @ [t]\<rparr>)"

definition incident_key ::
  "PeerDataKey \<Rightarrow> LanDataDirection \<Rightarrow> LanDataStage \<Rightarrow> LanDataDropReason \<Rightarrow> IncidentKey" where
  "incident_key key direction stage reason = (dk_peer_slot key, dk_epoch key, direction, stage, reason)"

definition update_incident_drop ::
  "PeerDataKey \<Rightarrow> LanDataDirection \<Rightarrow> LanDataStage \<Rightarrow> LanDataDropReason \<Rightarrow> u64 \<Rightarrow> instant
     \<Rightarrow> LedgerState \<Rightarrow> LedgerState" where
  "update_incident_drop key direction stage reason n now st =
     (let k = incident_key key direction stage reason in
      case bm_get (ls_incidents st) k of
        Some incident \<Rightarrow>
          st\<lparr>ls_incidents := bm_insert k
               (incident\<lparr>ai_dropped_packets := saturating_add (ai_dropped_packets incident) n\<rparr>) (ls_incidents st)\<rparr>
      | None \<Rightarrow>
          push_transition (incident_transition k TkStarted 0 n)
            (st\<lparr>ls_incidents := bm_insert k \<lparr>ai_started_at = now, ai_dropped_packets = n\<rparr> (ls_incidents st)\<rparr>))"

definition close_incident ::
  "LanIncidentTransitionKind \<Rightarrow> instant \<Rightarrow> LedgerState \<Rightarrow> IncidentKey \<Rightarrow> LedgerState" where
  "close_incident kind now st k =
     (case bm_get (ls_incidents st) k of
        None \<Rightarrow> st
      | Some incident \<Rightarrow>
          push_transition
            (incident_transition k kind (now - ai_started_at incident) (ai_dropped_packets incident))
            (st\<lparr>ls_incidents := bm_remove k (ls_incidents st)\<rparr>))"

definition close_matching ::
  "(IncidentKey \<Rightarrow> bool) \<Rightarrow> LanIncidentTransitionKind \<Rightarrow> instant \<Rightarrow> LedgerState \<Rightarrow> LedgerState" where
  "close_matching matches kind now st =
     foldl (close_incident kind now) st (filter matches (bm_keys (ls_incidents st)))"

definition recover_incidents ::
  "PeerDataKey \<Rightarrow> LanDataDirection \<Rightarrow> LanDataStage \<Rightarrow> instant \<Rightarrow> LedgerState \<Rightarrow> LedgerState" where
  "recover_incidents key direction stage now st =
     close_matching (\<lambda>(slot, epoch, d, s, _). slot = dk_peer_slot key \<and> epoch = dk_epoch key
                        \<and> d = direction \<and> s = stage) TkRecovered now st"

definition close_epoch_incidents :: "PeerDataKey \<Rightarrow> instant \<Rightarrow> LedgerState \<Rightarrow> LedgerState" where
  "close_epoch_incidents key now st =
     close_matching (\<lambda>(slot, epoch, _). slot = dk_peer_slot key \<and> epoch = dk_epoch key) TkClosed now st"

definition close_peer_incidents :: "u32 \<Rightarrow> instant \<Rightarrow> LedgerState \<Rightarrow> LedgerState" where
  "close_peer_incidents peer_slot now st = close_matching (\<lambda>(slot, _). slot = peer_slot) TkClosed now st"

definition finish_incidents :: "instant \<Rightarrow> LedgerState \<Rightarrow> LedgerState" where
  "finish_incidents now st = close_matching (\<lambda>_. True) TkClosed now st"

definition update_incidents ::
  "PeerDataKey \<Rightarrow> LanDataDirection \<Rightarrow> LanDataStage \<Rightarrow> LanDataOutcome \<Rightarrow> instant \<Rightarrow> LedgerState \<Rightarrow> LedgerState" where
  "update_incidents key direction stage outcome now st =
     (case outcome of
        OcDropped reason \<Rightarrow> update_incident_drop key direction stage reason 1 now st
      | OcQueued \<Rightarrow> recover_incidents key direction stage now st
      | OcSucceeded \<Rightarrow> recover_incidents key direction stage now st)"

section \<open>The ledger\<close>

definition peer_slot :: "LedgerState \<Rightarrow> u64 \<Rightarrow> LedgerState \<times> u32" where
  "peer_slot st steam_id64 =
     (case hm_get (ls_peer_slots st) steam_id64 of
        Some slot \<Rightarrow> (st, slot)
      | None \<Rightarrow>
          let slot = ls_next_peer_slot st in
          (st\<lparr>ls_next_peer_slot := saturating_add slot 1,
              ls_peer_slots := hm_insert steam_id64 slot (ls_peer_slots st)\<rparr>, slot))"

definition peer_ledger_new :: "u64 \<Rightarrow> PeerLifecycleEpoch \<Rightarrow> EpochLedger list \<Rightarrow> PeerLedger" where
  "peer_ledger_new steam_id64 epoch epochs =
     \<lparr>pl_peer_steam_id64 = steam_id64, pl_latest_epoch = epoch, pl_active_epoch = None,
      pl_send = totals_default, pl_receive = totals_default, pl_epochs = epochs\<rparr>"

definition epoch_ledger_new :: "PeerLifecycleEpoch \<Rightarrow> bool \<Rightarrow> EpochLedger" where
  "epoch_ledger_new epoch active =
     \<lparr>el_epoch = epoch, el_active = active, el_send = totals_default, el_receive = totals_default\<rparr>"

definition ledger_activate ::
  "LedgerState \<Rightarrow> instant \<Rightarrow> PeerIdentity \<Rightarrow> PeerLifecycleEpoch \<Rightarrow> LedgerState \<times> PeerDataKey" where
  "ledger_activate st now identity epoch =
     (let (st, slot) = peer_slot st (id_steam_id64 identity);
          st = close_peer_incidents slot now st;
          peer = (case bm_get (ls_peers st) slot of
                    Some peer \<Rightarrow> peer
                  | None \<Rightarrow> peer_ledger_new (id_steam_id64 identity) epoch []);
          peer = peer\<lparr>pl_latest_epoch := epoch, pl_active_epoch := Some epoch,
                      pl_epochs := trim_closed_epochs (pl_epochs peer @ [epoch_ledger_new epoch True])\<rparr>
      in (st\<lparr>ls_peers := bm_insert slot peer (ls_peers st)\<rparr>,
          \<lparr>dk_identity = identity, dk_peer_slot = slot, dk_epoch = epoch\<rparr>))"

definition ledger_unattached :: "LedgerState \<Rightarrow> u64 \<Rightarrow> LedgerState \<times> PeerDataKey" where
  "ledger_unattached st steam_id64 =
     (let (st, slot) = peer_slot st steam_id64;
          st = (if bm_contains (ls_peers st) slot then st
                else st\<lparr>ls_peers := bm_insert slot
                          (peer_ledger_new steam_id64 UNATTACHED [epoch_ledger_new UNATTACHED False])
                          (ls_peers st)\<rparr>)
      in (st, \<lparr>dk_identity = \<lparr>id_steam_id64 = steam_id64, id_instance_id = replicate 16 0\<rparr>,
               dk_peer_slot = slot, dk_epoch = UNATTACHED\<rparr>))"

definition ledger_record ::
  "LedgerState \<Rightarrow> instant \<Rightarrow> PeerDataKey \<Rightarrow> LanDataDirection \<Rightarrow> LanDataStage \<Rightarrow> LanDataOutcome
     \<Rightarrow> usize option \<Rightarrow> LedgerState" where
  "ledger_record st now key direction stage outcome queue_depth =
     (case bm_get (ls_peers st) (dk_peer_slot key) of
        None \<Rightarrow> st
      | Some peer \<Rightarrow>
          update_incidents key direction stage outcome now
            (st\<lparr>ls_peers := bm_insert (dk_peer_slot key)
                  (update_peer key direction (update_direction stage outcome queue_depth) peer)
                  (bm_remove (dk_peer_slot key) (ls_peers st))\<rparr>))"

definition ledger_set_queue_depth ::
  "LedgerState \<Rightarrow> PeerDataKey \<Rightarrow> LanDataDirection \<Rightarrow> usize \<Rightarrow> LedgerState" where
  "ledger_set_queue_depth st key direction depth =
     (case bm_get (ls_peers st) (dk_peer_slot key) of
        None \<Rightarrow> st
      | Some peer \<Rightarrow>
          st\<lparr>ls_peers := bm_insert (dk_peer_slot key) (update_peer key direction (set_direction_depth depth) peer)
               (bm_remove (dk_peer_slot key) (ls_peers st))\<rparr>)"

definition record_dropped_batch ::
  "LedgerState \<Rightarrow> instant \<Rightarrow> PeerDataKey \<Rightarrow> LanDataDirection \<Rightarrow> LanDataStage \<Rightarrow> LanDataDropReason
     \<Rightarrow> u64 \<Rightarrow> usize \<Rightarrow> LedgerState" where
  "record_dropped_batch st now key direction stage reason n depth =
     (if n = 0 then ledger_set_queue_depth st key direction depth
      else
        case bm_get (ls_peers st) (dk_peer_slot key) of
          None \<Rightarrow> st
        | Some peer \<Rightarrow>
            update_incident_drop key direction stage reason n now
              (st\<lparr>ls_peers := bm_insert (dk_peer_slot key)
                    (update_peer key direction (update_dropped_batch stage reason n depth) peer)
                    (bm_remove (dk_peer_slot key) (ls_peers st))\<rparr>))"

definition close_epoch_ledger :: "EpochLedger \<Rightarrow> EpochLedger" where
  "close_epoch_ledger e =
     e\<lparr>el_active := False, el_send := (el_send e)\<lparr>dt_current_queue_depth := 0\<rparr>,
       el_receive := (el_receive e)\<lparr>dt_current_queue_depth := 0\<rparr>\<rparr>"

definition close_peer_epoch :: "PeerLifecycleEpoch \<Rightarrow> PeerLedger \<Rightarrow> PeerLedger" where
  "close_peer_epoch epoch p =
     (let p = (if pl_active_epoch p = Some epoch then p\<lparr>pl_active_epoch := None\<rparr> else p)
      in p\<lparr>pl_send := (pl_send p)\<lparr>dt_current_queue_depth := 0\<rparr>,
           pl_receive := (pl_receive p)\<lparr>dt_current_queue_depth := 0\<rparr>,
           pl_epochs := trim_closed_epochs (update_epoch epoch close_epoch_ledger (pl_epochs p))\<rparr>)"

definition ledger_close_epoch :: "LedgerState \<Rightarrow> PeerDataKey \<Rightarrow> instant \<Rightarrow> LedgerState" where
  "ledger_close_epoch st key now =
     close_epoch_incidents key now
       (case bm_get (ls_peers st) (dk_peer_slot key) of
          None \<Rightarrow> st
        | Some peer \<Rightarrow>
            st\<lparr>ls_peers := bm_insert (dk_peer_slot key) (close_peer_epoch (dk_epoch key) peer) (ls_peers st)\<rparr>)"

definition drain_transitions :: "LedgerState \<Rightarrow> LedgerState \<times> LanIncidentTransition list" where
  "drain_transitions st = (st\<lparr>ls_transitions := []\<rparr>, ls_transitions st)"

definition ledger_finish_all :: "LedgerState \<Rightarrow> instant \<Rightarrow> LedgerState" where
  "ledger_finish_all st now = finish_incidents now st"

section \<open>Snapshots\<close>

record LanRejectionSnapshot =
  rj_stage :: LanDataStage
  rj_reason :: LanDataDropReason
  rj_count :: u64

record LanDirectionSnapshot =
  dn_queued :: u64
  dn_resolved_success :: u64
  dn_dropped :: u64
  dn_current_queue_depth :: usize
  dn_max_queue_depth :: usize
  dn_rejections :: "LanRejectionSnapshot list"

record LanEpochDataSnapshot =
  en_lifecycle_epoch :: u64
  en_active :: bool
  en_send :: LanDirectionSnapshot
  en_receive :: LanDirectionSnapshot

record LanPeerDataSnapshot =
  pn_peer_slot :: u32
  pn_peer_steam_id64 :: u64
  pn_latest_lifecycle_epoch :: u64
  pn_active :: bool
  pn_send :: LanDirectionSnapshot
  pn_receive :: LanDirectionSnapshot
  pn_epochs :: "LanEpochDataSnapshot list"

record LanDataPlaneSnapshot =
  ln_send :: LanDirectionSnapshot
  ln_receive :: LanDirectionSnapshot
  ln_peers :: "LanPeerDataSnapshot list"
  ln_transitions_dropped :: u64

definition totals_snapshot :: "DirectionTotals \<Rightarrow> LanDirectionSnapshot" where
  "totals_snapshot t =
     \<lparr>dn_queued = dt_queued t, dn_resolved_success = dt_resolved_success t, dn_dropped = dt_dropped t,
      dn_current_queue_depth = dt_current_queue_depth t, dn_max_queue_depth = dt_max_queue_depth t,
      dn_rejections = map (\<lambda>((stage, reason), n). \<lparr>rj_stage = stage, rj_reason = reason, rj_count = n\<rparr>)
        (dt_rejections t)\<rparr>"

definition fold_rejection ::
  "(LanDataStage \<times> LanDataDropReason, u64) bmap \<Rightarrow> LanRejectionSnapshot
     \<Rightarrow> (LanDataStage \<times> LanDataDropReason, u64) bmap" where
  "fold_rejection rejections r = add_rejection (rj_stage r) (rj_reason r) (rj_count r) rejections"

definition fold_direction :: "DirectionTotals \<Rightarrow> LanDirectionSnapshot \<Rightarrow> DirectionTotals" where
  "fold_direction t d =
     \<lparr>dt_queued = saturating_add (dt_queued t) (dn_queued d),
      dt_resolved_success = saturating_add (dt_resolved_success t) (dn_resolved_success d),
      dt_dropped = saturating_add (dt_dropped t) (dn_dropped d),
      dt_current_queue_depth = usize_saturating_add (dt_current_queue_depth t) (dn_current_queue_depth d),
      dt_max_queue_depth = usize_saturating_add (dt_max_queue_depth t) (dn_max_queue_depth d),
      dt_rejections = foldl fold_rejection (dt_rejections t) (dn_rejections d)\<rparr>"

definition fold_directions :: "LanDirectionSnapshot list \<Rightarrow> LanDirectionSnapshot" where
  "fold_directions ds = totals_snapshot (foldl fold_direction totals_default ds)"

definition peer_snapshot :: "u32 \<times> PeerLedger \<Rightarrow> LanPeerDataSnapshot" where
  "peer_snapshot = (\<lambda>(slot, p).
     \<lparr>pn_peer_slot = slot, pn_peer_steam_id64 = pl_peer_steam_id64 p,
      pn_latest_lifecycle_epoch = pl_latest_epoch p, pn_active = (pl_active_epoch p \<noteq> None),
      pn_send = totals_snapshot (pl_send p), pn_receive = totals_snapshot (pl_receive p),
      pn_epochs = map (\<lambda>e. \<lparr>en_lifecycle_epoch = el_epoch e, en_active = el_active e,
          en_send = totals_snapshot (el_send e), en_receive = totals_snapshot (el_receive e)\<rparr>) (pl_epochs p)\<rparr>)"

definition ledger_snapshot :: "LedgerState \<Rightarrow> LanDataPlaneSnapshot" where
  "ledger_snapshot st =
     (let peers = map peer_snapshot (ls_peers st) in
      \<lparr>ln_send = fold_directions (map pn_send peers), ln_receive = fold_directions (map pn_receive peers),
       ln_peers = peers, ln_transitions_dropped = ls_transitions_dropped st\<rparr>)"

section \<open>Accounting of one direction\<close>

definition rejected :: "(LanDataStage \<times> LanDataDropReason, u64) bmap \<Rightarrow> nat" where
  "rejected m = sum_list (map (\<lambda>(_, n). unat n) m)"

definition totals_ok :: "DirectionTotals \<Rightarrow> bool" where
  "totals_ok t \<longleftrightarrow> bm_wf (dt_rejections t)
     \<and> unat (dt_dropped t) = min (2 ^ 64 - 1) (rejected (dt_rejections t))
     \<and> dt_current_queue_depth t \<le> dt_max_queue_depth t"

lemma rejected_insert:
  "bm_wf m \<Longrightarrow> rejected (bm_insert k v m) + (case bm_get m k of None \<Rightarrow> 0 | Some u \<Rightarrow> unat u) = rejected m + unat v"
proof (induction k v m rule: bm_insert.induct)
  case (2 k v k' v' m)
  have wf: "bm_wf m" and above: "\<forall>x \<in> fst ` set m. k' < x" using 2(2) by (auto simp: bm_wf_def)
  show ?case
  proof (cases "k < k'")
    case True
    then have "bm_get ((k', v') # m) k = None"
      using above by (auto simp: bm_get_def map_of_eq_None_iff)
    then show ?thesis using True by (simp add: rejected_def)
  next
    case False
    show ?thesis
    proof (cases "k = k'")
      case True
      then show ?thesis by (simp add: rejected_def bm_get_def)
    next
      case ne: False
      then have "bm_get ((k', v') # m) k = bm_get m k" by (simp add: bm_get_def)
      then show ?thesis using 2(1) [OF False ne wf] False ne by (simp add: rejected_def)
    qed
  qed
qed (simp add: rejected_def bm_get_def)

lemma rejected_add:
  assumes "bm_wf m"
  shows "min (2 ^ 64 - 1) (rejected (add_rejection stage reason n m)) = min (2 ^ 64 - 1) (rejected m + unat n)"
proof -
  define c :: u64 where "c = (case bm_get m (stage, reason) of None \<Rightarrow> 0 | Some c \<Rightarrow> c)"
  have u: "unat (saturating_add c n) = min (2 ^ 64 - 1) (unat c + unat n)"
    by (simp add: unat_saturating_add)
  have "rejected (bm_insert (stage, reason) (saturating_add c n) m) + unat c = rejected m + unat (saturating_add c n)"
    using rejected_insert [OF assms, of "(stage, reason)" "saturating_add c n"]
    by (auto simp: c_def split: option.splits)
  moreover have "unat c \<le> rejected m"
  proof (cases "bm_get m (stage, reason)")
    case (Some x)
    then have "((stage, reason), x) \<in> set m" using assms by (simp add: bm_get_eq_Some)
    then have "unat x \<in> set (map (\<lambda>(_, n). unat n) m)" by force
    then have "unat x \<le> rejected m" unfolding rejected_def by (rule member_le_sum_list) simp
    then show ?thesis by (simp add: c_def Some)
  qed (simp add: c_def)
  ultimately show ?thesis unfolding u add_rejection_def c_def [symmetric] by linarith
qed

lemma totals_ok_default [simp]: "totals_ok totals_default"
  by (simp add: totals_ok_def totals_default_def rejected_def)

lemma dropped_ok:
  assumes "totals_ok t"
  shows "unat (saturating_add (dt_dropped t) n)
    = min (2 ^ 64 - 1) (rejected (add_rejection stage reason n (dt_rejections t)))"
  using assms rejected_add [of "dt_rejections t" stage reason n]
  by (simp add: totals_ok_def unat_saturating_add)

lemma totals_ok_updates:
  assumes "totals_ok t"
  shows "totals_ok (update_direction stage outcome queue_depth t)"
    and "totals_ok (update_dropped_batch stage reason n depth t)"
    and "totals_ok (set_direction_depth depth t)"
    and "totals_ok (t\<lparr>dt_current_queue_depth := 0\<rparr>)"
proof -
  have wf: "bm_wf (add_rejection stage r n (dt_rejections t))" for r n
    using assms by (simp add: totals_ok_def add_rejection_def)
  show "totals_ok (update_direction stage outcome queue_depth t)"
    using assms wf dropped_ok [OF assms, of 1]
    by (auto simp: totals_ok_def update_direction_def Let_def split: LanDataOutcome.splits option.splits)
  show "totals_ok (update_dropped_batch stage reason n depth t)"
    using assms wf dropped_ok [OF assms, of n] by (auto simp: totals_ok_def update_dropped_batch_def)
  show "totals_ok (set_direction_depth depth t)" "totals_ok (t\<lparr>dt_current_queue_depth := 0\<rparr>)"
    using assms by (auto simp: totals_ok_def set_direction_depth_def)
qed

section \<open>The invariant\<close>

definition epoch_ok :: "EpochLedger \<Rightarrow> bool" where
  "epoch_ok e \<longleftrightarrow> totals_ok (el_send e) \<and> totals_ok (el_receive e)"

definition peer_ok :: "PeerLedger \<Rightarrow> bool" where
  "peer_ok p \<longleftrightarrow> totals_ok (pl_send p) \<and> totals_ok (pl_receive p) \<and> list_all epoch_ok (pl_epochs p)
     \<and> closed_epochs (pl_epochs p) \<le> 8"

definition ledger_inv :: "LedgerState \<Rightarrow> bool" where
  "ledger_inv st \<longleftrightarrow> bm_wf (ls_peers st) \<and> bm_wf (ls_incidents st)
     \<and> (\<forall>slot p. bm_get (ls_peers st) slot = Some p \<longrightarrow> peer_ok p)
     \<and> (\<forall>k. bm_get (ls_incidents st) k \<noteq> None \<longrightarrow> bm_get (ls_peers st) (fst k) \<noteq> None)
     \<and> length (ls_transitions st) \<le> 256"

lemma update_epoch_ok:
  assumes "list_all epoch_ok es" and "\<And>e. epoch_ok e \<Longrightarrow> epoch_ok (f e)"
  shows "list_all epoch_ok (update_epoch n f es)"
  using assms by (induction es) auto

lemma update_epoch_closed:
  "(\<And>e. el_active (f e) = el_active e) \<Longrightarrow> closed_epochs (update_epoch n f es) = closed_epochs es"
  by (induction es) (auto simp: closed_epochs_def)

lemma remove_first_closed_set: "set (remove_first_closed es) \<subseteq> set es"
  by (induction es) auto

lemma trim_closed_epochs_ok:
  "closed_epochs (trim_closed_epochs es) \<le> 8 \<and> set (trim_closed_epochs es) \<subseteq> set es"
proof (induction es rule: trim_closed_epochs.induct)
  case (1 es)
  show ?case
  proof (cases "CLOSED_EPOCH_DETAIL_CAPACITY < closed_epochs es")
    case True
    have "trim_closed_epochs es = trim_closed_epochs (remove_first_closed es)"
      using True by (subst trim_closed_epochs.simps) simp
    then show ?thesis using 1 [OF True] remove_first_closed_set [of es] by auto
  next
    case False
    then show ?thesis by (subst (1 2) trim_closed_epochs.simps) (simp add: CLOSED_EPOCH_DETAIL_CAPACITY_def)
  qed
qed

lemma trim_list_all: "list_all P es \<Longrightarrow> list_all P (trim_closed_epochs es)"
  using trim_closed_epochs_ok [of es] by (auto simp: list_all_iff)

lemma update_peer_ok:
  assumes "peer_ok p" and "\<And>t. totals_ok t \<Longrightarrow> totals_ok (f t)"
  shows "peer_ok (update_peer key direction f p)"
proof -
  have e: "list_all epoch_ok (update_epoch n (epoch_direction_totals_mut direction f) (pl_epochs p))" for n
  proof (rule update_epoch_ok)
    show "list_all epoch_ok (pl_epochs p)" using assms(1) by (simp add: peer_ok_def)
    show "epoch_ok (epoch_direction_totals_mut direction f e)" if "epoch_ok e" for e
      using that assms(2) by (cases direction) (simp_all add: epoch_ok_def)
  qed
  have c: "closed_epochs (update_epoch n (epoch_direction_totals_mut direction f) (pl_epochs p))
      = closed_epochs (pl_epochs p)" for n
    by (rule update_epoch_closed) (cases direction; simp)
  show ?thesis using assms e c
    by (cases direction) (simp_all add: peer_ok_def update_peer_def Let_def)
qed

lemma close_peer_epoch_ok: "peer_ok p \<Longrightarrow> peer_ok (close_peer_epoch epoch p)"
proof -
  assume p: "peer_ok p"
  have "list_all epoch_ok (update_epoch epoch close_epoch_ledger (pl_epochs p))"
    by (rule update_epoch_ok)
      (use p in \<open>simp_all add: peer_ok_def epoch_ok_def close_epoch_ledger_def totals_ok_updates(4)\<close>)
  then have "list_all epoch_ok (trim_closed_epochs (update_epoch epoch close_epoch_ledger (pl_epochs p)))"
    by (rule trim_list_all)
  then show ?thesis using p trim_closed_epochs_ok
    by (auto simp: peer_ok_def close_peer_epoch_def Let_def totals_ok_updates(4))
qed

lemma push_transition_frame [simp]:
  "ls_peers (push_transition t st) = ls_peers st" "ls_incidents (push_transition t st) = ls_incidents st"
  "ls_peer_slots (push_transition t st) = ls_peer_slots st"
  "length (ls_transitions st) \<le> 256 \<Longrightarrow> length (ls_transitions (push_transition t st)) \<le> 256"
  by (auto simp: push_transition_def Let_def TRANSITION_CAPACITY_def)

lemma close_incident_inv:
  "ledger_inv st \<Longrightarrow> ledger_inv (close_incident kind now st k)
     \<and> ls_peers (close_incident kind now st k) = ls_peers st
     \<and> (\<forall>j. bm_get (ls_incidents (close_incident kind now st k)) j =
           (if j = k then None else bm_get (ls_incidents st) j))"
  by (auto simp: close_incident_def ledger_inv_def simp del: split_paired_All split_paired_Ex
      split: option.splits)

lemma close_incidents_inv:
  "ledger_inv st \<Longrightarrow> ledger_inv (foldl (close_incident kind now) st ks)
     \<and> ls_peers (foldl (close_incident kind now) st ks) = ls_peers st
     \<and> (\<forall>j. bm_get (ls_incidents (foldl (close_incident kind now) st ks)) j =
           (if j \<in> set ks then None else bm_get (ls_incidents st) j))"
proof (induction ks arbitrary: st)
  case (Cons k ks)
  note c = close_incident_inv [OF Cons.prems, of kind now k]
  then have "ledger_inv (close_incident kind now st k)" by blast
  from Cons.IH [OF this] c show ?case by auto
qed simp

lemma close_matching_inv:
  assumes "ledger_inv st"
  shows "ledger_inv (close_matching matches kind now st)
     \<and> ls_peers (close_matching matches kind now st) = ls_peers st
     \<and> (\<forall>j. bm_get (ls_incidents (close_matching matches kind now st)) j =
           (if matches j then None else bm_get (ls_incidents st) j))"
proof -
  note c = close_incidents_inv [OF assms, of kind now "filter matches (bm_keys (ls_incidents st))"]
  have "(if j \<in> set (filter matches (bm_keys (ls_incidents st))) then None else bm_get (ls_incidents st) j)
      = (if matches j then None else bm_get (ls_incidents st) j)" for j
    using bm_keys_get [of j "ls_incidents st"] by auto
  then show ?thesis using c unfolding close_matching_def by simp
qed

lemma update_incident_drop_inv:
  assumes "ledger_inv st" and "bm_get (ls_peers st) (dk_peer_slot key) \<noteq> None"
  shows "ledger_inv (update_incident_drop key direction stage reason n now st)"
  using assms
  by (auto simp: update_incident_drop_def Let_def ledger_inv_def incident_key_def
      simp del: split_paired_All split_paired_Ex split: option.splits)

lemma update_incidents_inv:
  assumes "ledger_inv st" and "bm_get (ls_peers st) (dk_peer_slot key) \<noteq> None"
  shows "ledger_inv (update_incidents key direction stage outcome now st)"
  using update_incident_drop_inv [OF assms] close_matching_inv [OF assms(1)]
  by (simp add: update_incidents_def recover_incidents_def split: LanDataOutcome.splits)

text \<open>Replacing the ledger of a peer.\<close>

lemma set_peer_inv:
  assumes "ledger_inv st" and "peer_ok p"
  shows "ledger_inv (st\<lparr>ls_peers := bm_insert slot p (ls_peers st)\<rparr>)"
    and "ledger_inv (st\<lparr>ls_peers := bm_insert slot p (bm_remove slot (ls_peers st))\<rparr>)"
  using assms by (auto simp: ledger_inv_def simp del: split_paired_All split_paired_Ex)

lemma peer_ok_new [simp]:
  "peer_ok (peer_ledger_new s e [])" "peer_ok (peer_ledger_new s e [epoch_ledger_new e' False])"
  by (simp_all add: peer_ok_def peer_ledger_new_def epoch_ledger_new_def epoch_ok_def closed_epochs_def)

lemma peer_slot_frame:
  "peer_slot st s = (st', slot) \<Longrightarrow> ledger_inv st' = ledger_inv st \<and> ls_peers st' = ls_peers st"
  unfolding peer_slot_def Let_def by (auto split: option.splits) (simp_all add: ledger_inv_def)

lemma ledger_activate_inv: "ledger_inv st \<Longrightarrow> ledger_inv (fst (ledger_activate st now identity epoch))"
proof -
  assume inv: "ledger_inv st"
  obtain st1 slot where s: "peer_slot st (id_steam_id64 identity) = (st1, slot)" by fastforce
  let ?st = "close_peer_incidents slot now st1"
  have inv2: "ledger_inv ?st"
    using close_matching_inv inv peer_slot_frame [OF s] by (simp add: close_peer_incidents_def)
  define peer where "peer = (case bm_get (ls_peers ?st) slot of
      Some peer \<Rightarrow> peer | None \<Rightarrow> peer_ledger_new (id_steam_id64 identity) epoch [])"
  have p: "peer_ok peer" using inv2 by (auto simp: peer_def ledger_inv_def split: option.splits)
  have "list_all epoch_ok (trim_closed_epochs (pl_epochs peer @ [epoch_ledger_new epoch True]))"
    by (rule trim_list_all) (use p in \<open>simp add: peer_ok_def epoch_ledger_new_def epoch_ok_def\<close>)
  then have "peer_ok (peer\<lparr>pl_latest_epoch := epoch, pl_active_epoch := Some epoch,
      pl_epochs := trim_closed_epochs (pl_epochs peer @ [epoch_ledger_new epoch True])\<rparr>)"
    using p trim_closed_epochs_ok by (simp add: peer_ok_def)
  from set_peer_inv(1) [OF inv2 this, of slot] show ?thesis
    by (simp add: ledger_activate_def s Let_def peer_def)
qed

lemma ledger_unattached_inv: "ledger_inv st \<Longrightarrow> ledger_inv (fst (ledger_unattached st steam_id64))"
proof -
  assume inv: "ledger_inv st"
  obtain st1 slot where s: "peer_slot st steam_id64 = (st1, slot)" by fastforce
  have "ledger_inv st1" using inv peer_slot_frame [OF s] by simp
  with set_peer_inv(1) [OF this peer_ok_new(2), of slot] show ?thesis
    by (simp add: ledger_unattached_def s Let_def)
qed

lemma ledger_set_queue_depth_inv: "ledger_inv st \<Longrightarrow> ledger_inv (ledger_set_queue_depth st key direction depth)"
proof (cases "bm_get (ls_peers st) (dk_peer_slot key)")
  case (Some p)
  assume inv: "ledger_inv st"
  then have "peer_ok p" using Some by (simp add: ledger_inv_def)
  then have "peer_ok (update_peer key direction (set_direction_depth depth) p)"
    by (rule update_peer_ok) (rule totals_ok_updates(3))
  from set_peer_inv(2) [OF inv this] show ?thesis by (simp add: ledger_set_queue_depth_def Some)
qed (simp add: ledger_set_queue_depth_def)

lemma ledger_record_inv:
  "ledger_inv st \<Longrightarrow> ledger_inv (ledger_record st now key direction stage outcome queue_depth)"
proof (cases "bm_get (ls_peers st) (dk_peer_slot key)")
  case (Some p)
  assume inv: "ledger_inv st"
  then have "peer_ok p" using Some by (simp add: ledger_inv_def)
  then have "peer_ok (update_peer key direction (update_direction stage outcome queue_depth) p)"
    by (rule update_peer_ok) (rule totals_ok_updates(1))
  from update_incidents_inv [OF set_peer_inv(2) [OF inv this, of "dk_peer_slot key"]] show ?thesis
    by (simp add: ledger_record_def Some)
qed (simp add: ledger_record_def)

lemma record_dropped_batch_inv:
  "ledger_inv st \<Longrightarrow> ledger_inv (record_dropped_batch st now key direction stage reason n depth)"
proof (cases "bm_get (ls_peers st) (dk_peer_slot key)")
  case (Some p)
  assume inv: "ledger_inv st"
  then have "peer_ok p" using Some by (simp add: ledger_inv_def)
  then have "peer_ok (update_peer key direction (update_dropped_batch stage reason n depth) p)"
    by (rule update_peer_ok) (rule totals_ok_updates(2))
  from update_incident_drop_inv [OF set_peer_inv(2) [OF inv this, of "dk_peer_slot key"]] show ?thesis
    using ledger_set_queue_depth_inv [OF inv] by (simp add: record_dropped_batch_def Some)
qed (simp add: record_dropped_batch_def ledger_set_queue_depth_def)

lemma ledger_close_epoch_exact:
  assumes inv: "ledger_inv st"
  shows "ledger_inv (ledger_close_epoch st key now)
    \<and> (\<forall>j. bm_get (ls_incidents (ledger_close_epoch st key now)) j =
          (if fst j = dk_peer_slot key \<and> fst (snd j) = dk_epoch key then None else bm_get (ls_incidents st) j))"
proof -
  let ?st = "case bm_get (ls_peers st) (dk_peer_slot key) of
      None \<Rightarrow> st | Some peer \<Rightarrow>
        st\<lparr>ls_peers := bm_insert (dk_peer_slot key) (close_peer_epoch (dk_epoch key) peer) (ls_peers st)\<rparr>"
  have "ledger_inv ?st"
  proof (cases "bm_get (ls_peers st) (dk_peer_slot key)")
    case (Some p)
    then have "peer_ok (close_peer_epoch (dk_epoch key) p)"
      using inv close_peer_epoch_ok by (simp add: ledger_inv_def)
    from set_peer_inv(1) [OF inv this] show ?thesis by (simp add: Some)
  qed (simp add: inv)
  moreover have "ls_incidents ?st = ls_incidents st" by (simp split: option.splits)
  ultimately show ?thesis
    unfolding ledger_close_epoch_def close_epoch_incidents_def
    using close_matching_inv [of ?st "\<lambda>(slot, epoch, _). slot = dk_peer_slot key \<and> epoch = dk_epoch key"]
    by (simp add: split_beta)
qed

inductive ledger_step :: "LedgerState \<Rightarrow> LedgerState \<Rightarrow> bool" where
  lstep_activate: "ledger_step st (fst (ledger_activate st now identity epoch))"
| lstep_unattached: "ledger_step st (fst (ledger_unattached st steam_id64))"
| lstep_record: "ledger_step st (ledger_record st now key direction stage outcome queue_depth)"
| lstep_batch: "ledger_step st (record_dropped_batch st now key direction stage reason n depth)"
| lstep_depth: "ledger_step st (ledger_set_queue_depth st key direction depth)"
| lstep_close: "ledger_step st (ledger_close_epoch st key now)"
| lstep_drain: "ledger_step st (fst (drain_transitions st))"
| lstep_finish: "ledger_step st (ledger_finish_all st now)"

interpretation ledger: invariant_system "\<lambda>st. st = ledger_new" ledger_step ledger_inv
proof (unfold_locales, goal_cases)
  case (1 st)
  then show ?case by (simp add: ledger_inv_def ledger_new_def)
next
  case (2 st st')
  from 2(2,1) show ?case
  proof cases
    case (lstep_drain)
    then show ?thesis using 2(1)
      by (auto simp: drain_transitions_def ledger_inv_def simp del: split_paired_All split_paired_Ex)
  next
    case (lstep_finish now)
    then show ?thesis using close_matching_inv [OF 2(1)]
      by (simp add: ledger_finish_all_def finish_incidents_def)
  qed (auto intro: ledger_activate_inv ledger_unattached_inv ledger_record_inv record_dropped_batch_inv
      ledger_set_queue_depth_inv dest: ledger_close_epoch_exact)
qed

abbreviation ledger_reachable :: "LedgerState \<Rightarrow> bool" where
  "ledger_reachable \<equiv> reachable_from (\<lambda>st. st = ledger_new) ledger_step"

text \<open>
  C24: The books of the LAN data plane balance.  In every reachable ledger, for each peer and each of
  its epochs and in both directions, the number of dropped packets is the sum of the rejections over
  all stages and reasons, up to the saturation of the counters, and the current queue depth never
  exceeds the recorded maximum; at most eight closed epochs are kept per peer and at most 256
  transitions wait; and closing an epoch ends exactly the incidents of that epoch.
\<close>

theorem ledger_balanced:
  assumes "ledger_reachable st"
  shows "list_all (\<lambda>(slot, p). list_all (\<lambda>t.
             unat (dt_dropped t) = min (2 ^ 64 - 1) (sum_list (map (\<lambda>(_, n). unat n) (dt_rejections t)))
             \<and> dt_current_queue_depth t \<le> dt_max_queue_depth t)
             (pl_send p # pl_receive p # map el_send (pl_epochs p) @ map el_receive (pl_epochs p))
           \<and> length (filter (\<lambda>e. \<not> el_active e) (pl_epochs p)) \<le> 8) (ls_peers st)
    \<and> length (ls_transitions st) \<le> 256
    \<and> bm_get (ls_incidents (ledger_close_epoch st key now)) (slot, epoch, d, s, r) =
        (if slot = dk_peer_slot key \<and> epoch = dk_epoch key then None
         else bm_get (ls_incidents st) (slot, epoch, d, s, r))"
proof -
  have inv: "ledger_inv st" using ledger.reachable_inv [OF assms] .
  have "peer_ok p" if "(k, p) \<in> set (ls_peers st)" for k p
    using that inv bm_get_eq_Some [of "ls_peers st" k p] unfolding ledger_inv_def by blast
  then have "list_all (\<lambda>(slot, p). list_all (\<lambda>t.
             unat (dt_dropped t) = min (2 ^ 64 - 1) (sum_list (map (\<lambda>(_, n). unat n) (dt_rejections t)))
             \<and> dt_current_queue_depth t \<le> dt_max_queue_depth t)
             (pl_send p # pl_receive p # map el_send (pl_epochs p) @ map el_receive (pl_epochs p))
           \<and> length (filter (\<lambda>e. \<not> el_active e) (pl_epochs p)) \<le> 8) (ls_peers st)"
    by (fastforce simp: list_all_iff peer_ok_def epoch_ok_def totals_ok_def rejected_def closed_epochs_def)
  moreover have "length (ls_transitions st) \<le> 256" using inv by (simp add: ledger_inv_def)
  moreover have "bm_get (ls_incidents (ledger_close_epoch st key now)) (slot, epoch, d, s, r) =
        (if slot = dk_peer_slot key \<and> epoch = dk_epoch key then None
         else bm_get (ls_incidents st) (slot, epoch, d, s, r))"
    using ledger_close_epoch_exact [OF inv, of key now] by simp
  ultimately show ?thesis by blast
qed

definition sample_key :: PeerDataKey where
  "sample_key = snd (ledger_activate ledger_new 0 (pd_identity (sample_descriptor 2)) 1)"

definition sample_ledger :: LedgerState where
  "sample_ledger = ledger_record (fst (ledger_activate ledger_new 0 (pd_identity (sample_descriptor 2)) 1))
     5 sample_key DirSend StUdpSend (OcDropped DrSendFailed) None"

theorem ledger_balanced_witness:
  "length (ls_transitions sample_ledger) \<le> 256
   \<and> bm_get (ls_incidents (ledger_close_epoch sample_ledger sample_key 9)) (1, 1, DirSend, StUdpSend, DrSendFailed) = None"
proof -
  have k: "dk_peer_slot sample_key = 1" "dk_epoch sample_key = 1"
    by (simp_all add: sample_key_def ledger_activate_def peer_slot_def ledger_new_def Let_def)
  have "ledger_reachable (fst (ledger_activate ledger_new 0 (pd_identity (sample_descriptor 2)) 1))"
    by (rule reach_step [OF reach_init]) (rule refl, rule lstep_activate)
  then have "ledger_reachable sample_ledger" unfolding sample_ledger_def by (rule reach_step) (rule lstep_record)
  from ledger_balanced [OF this, of sample_key 9 1 1 DirSend StUdpSend DrSendFailed] k show ?thesis by simp
qed

end
