(* ===== verification/Delivery_Stats.thy ===== *)
theory Delivery_Stats
  imports Frame_Id_Window
begin

text \<open>
  Delivery accounting of the bridge client (\<open>bridge-core/src/client/session_health/stats.rs\<close>): for
  every peer a 128-packet window over the delivery sequence numbers of its active stream, which
  classifies each packet and counts gaps, duplicates and reorderings.  The bitmap is the one of the
  relay's duplicate window, so the window facts of \<open>Frame_Id_Window\<close> are reused; what is
  new is the accounting: every sequence number is received, still missing, or a confirmed gap.
\<close>

section \<open>Machine arithmetic\<close>

definition saturating_sub :: "'a::len word \<Rightarrow> 'a word \<Rightarrow> 'a word" where
  "saturating_sub a b = (if a < b then 0 else a - b)"

lemma unat_saturating_sub: "unat (saturating_sub a b) = unat a - unat b"
  by (auto simp: saturating_sub_def unat_sub word_less_nat_alt word_le_nat_alt not_less)

lemma unat_ucast_u64 [simp]: "unat (ucast (x :: u32) :: u64) = unat x"
proof -
  have "unat x < 2 ^ 32" using unsigned_less [of x] by simp
  then show ?thesis by (simp add: unsigned_ucast_eq take_bit_nat_eq_self)
qed

lemma unat_min: "unat (min a b) = min (unat a) (unat b)"
  by (simp add: min_def word_le_nat_alt)

definition count_ones :: "'a::len word \<Rightarrow> u32" where
  "count_ones w = of_nat (length (filter (bit w) [0..<LENGTH('a)]))"

section \<open>The window of one stream\<close>

definition DELIVERY_WINDOW_BITS :: u32 where "DELIVERY_WINDOW_BITS = 128"
definition RETIRED_STREAM_CAPACITY :: usize where "RETIRED_STREAM_CAPACITY = 8"

type_synonym ClientStreamId = "byte list"

record DeliveryWindow =
  dw_stream_id :: ClientStreamId
  dw_highest :: u64
  dw_seen :: u128
  dw_tracked_len :: u32

datatype DeliveryOutcome =
    DoInOrder | DoOpenGap | DoConfirmedGap u64 | DoDuplicate | DoReordered | DoTooOld

definition delivery_window_new :: "ClientStreamId \<Rightarrow> u64 \<Rightarrow> DeliveryWindow" where
  "delivery_window_new stream_id sequence =
     \<lparr>dw_stream_id = stream_id, dw_highest = sequence, dw_seen = 1, dw_tracked_len = 1\<rparr>"

definition valid_mask :: "DeliveryWindow \<Rightarrow> u128" where
  "valid_mask w =
     (if dw_tracked_len w = DELIVERY_WINDOW_BITS then - 1
      else push_bit (unat (dw_tracked_len w)) 1 - 1)"

definition confirmed_by_advance :: "DeliveryWindow \<Rightarrow> u64 \<Rightarrow> u64" where
  "confirmed_by_advance w adv =
     (if ucast DELIVERY_WINDOW_BITS \<le> adv then
        let existing_missing =
              saturating_sub (ucast (dw_tracked_len w)) (ucast (count_ones (dw_seen w AND valid_mask w)))
        in saturating_add existing_missing (saturating_sub adv (ucast DELIVERY_WINDOW_BITS))
      else
        let shift = ucast adv :: u32;
            retained_bits = DELIVERY_WINDOW_BITS - shift;
            retained_mask = (if retained_bits = DELIVERY_WINDOW_BITS then - 1
                             else push_bit (unat retained_bits) 1 - 1);
            aged_valid = valid_mask w AND NOT retained_mask
        in ucast (saturating_sub (count_ones aged_valid) (count_ones (dw_seen w AND aged_valid))))"

definition delivery_observe :: "DeliveryWindow \<Rightarrow> u64 \<Rightarrow> DeliveryOutcome \<times> DeliveryWindow" where
  "delivery_observe w sequence =
     (if dw_highest w < sequence then
        let advance = sequence - dw_highest w;
            confirmed = confirmed_by_advance w advance;
            w = (if ucast DELIVERY_WINDOW_BITS \<le> advance
                 then w\<lparr>dw_seen := 1, dw_tracked_len := DELIVERY_WINDOW_BITS\<rparr>
                 else let shift = ucast advance :: u32 in
                      w\<lparr>dw_seen := push_bit (unat shift) (dw_seen w) OR 1,
                        dw_tracked_len := min (saturating_add (dw_tracked_len w) shift) DELIVERY_WINDOW_BITS\<rparr>)
        in (if confirmed \<noteq> 0 then DoConfirmedGap confirmed
            else if advance = 1 then DoInOrder else DoOpenGap,
            w\<lparr>dw_highest := sequence\<rparr>)
      else
        let age = dw_highest w - sequence in
        if ucast DELIVERY_WINDOW_BITS \<le> age then (DoTooOld, w)
        else
          let one = push_bit (unat age) (1 :: u128) in
          if dw_seen w AND one \<noteq> 0 then (DoDuplicate, w)
          else (DoReordered, w\<lparr>dw_seen := dw_seen w OR one\<rparr>))"

definition open_gaps :: "DeliveryWindow \<Rightarrow> u64" where
  "open_gaps w =
     saturating_sub (ucast (dw_tracked_len w)) (ucast (count_ones (dw_seen w AND valid_mask w)))"

section \<open>The statistics of all peers\<close>

record PeerDeliveryState =
  pd_active :: DeliveryWindow
  pd_retired :: "ClientStreamId list"

record DeliveryStats =
  ds_first_packets :: u64
  ds_in_order :: u64
  ds_confirmed_gaps :: u64
  ds_duplicates :: u64
  ds_reordered :: u64
  ds_by_peer :: "(u64, PeerDeliveryState) hmap"

definition delivery_stats_default :: DeliveryStats where
  "delivery_stats_default =
     \<lparr>ds_first_packets = 0, ds_in_order = 0, ds_confirmed_gaps = 0, ds_duplicates = 0,
      ds_reordered = 0, ds_by_peer = []\<rparr>"

fun count_outcome :: "DeliveryOutcome \<Rightarrow> DeliveryStats \<Rightarrow> DeliveryStats" where
  "count_outcome DoInOrder d = d\<lparr>ds_in_order := saturating_add (ds_in_order d) 1\<rparr>"
| "count_outcome DoOpenGap d = d"
| "count_outcome (DoConfirmedGap n) d = d\<lparr>ds_confirmed_gaps := saturating_add (ds_confirmed_gaps d) n\<rparr>"
| "count_outcome DoDuplicate d = d\<lparr>ds_duplicates := saturating_add (ds_duplicates d) 1\<rparr>"
| "count_outcome DoTooOld d = d\<lparr>ds_duplicates := saturating_add (ds_duplicates d) 1\<rparr>"
| "count_outcome DoReordered d = d\<lparr>ds_reordered := saturating_add (ds_reordered d) 1\<rparr>"

definition observe_delivery :: "DeliveryStats \<Rightarrow> u64 \<Rightarrow> ClientStreamId \<Rightarrow> u64 \<Rightarrow> DeliveryStats" where
  "observe_delivery d peer stream_id sequence =
     (case hm_get (ds_by_peer d) peer of
        None \<Rightarrow>
          d\<lparr>ds_first_packets := saturating_add (ds_first_packets d) 1,
            ds_by_peer := hm_insert peer
              \<lparr>pd_active = delivery_window_new stream_id sequence, pd_retired = []\<rparr> (ds_by_peer d)\<rparr>
      | Some state \<Rightarrow>
          if dw_stream_id (pd_active state) \<noteq> stream_id then
            if stream_id \<in> set (pd_retired state) then d
            else
              let retired = pd_retired state @ [dw_stream_id (pd_active state)];
                  retired = (if RETIRED_STREAM_CAPACITY < length retired then tl retired else retired)
              in d\<lparr>ds_by_peer := hm_insert peer
                    \<lparr>pd_active = delivery_window_new stream_id sequence, pd_retired = retired\<rparr> (ds_by_peer d),
                   ds_first_packets := saturating_add (ds_first_packets d) 1\<rparr>
          else
            let (outcome, active) = delivery_observe (pd_active state) sequence in
            count_outcome outcome
              (d\<lparr>ds_by_peer := hm_insert peer (state\<lparr>pd_active := active\<rparr>) (ds_by_peer d)\<rparr>))"

record DeliveryHealthSnapshot =
  dh_first_packets :: u64
  dh_in_order :: u64
  dh_open_gaps :: u64
  dh_confirmed_gaps :: u64
  dh_duplicates :: u64
  dh_reordered :: u64
  dh_tracked_peers :: usize

definition delivery_snapshot :: "DeliveryStats \<Rightarrow> DeliveryHealthSnapshot" where
  "delivery_snapshot d =
     \<lparr>dh_first_packets = ds_first_packets d, dh_in_order = ds_in_order d,
      dh_open_gaps =
        foldl saturating_add 0 (map (\<lambda>s. open_gaps (pd_active s)) (hm_values (ds_by_peer d))),
      dh_confirmed_gaps = ds_confirmed_gaps d, dh_duplicates = ds_duplicates d,
      dh_reordered = ds_reordered d, dh_tracked_peers = length (ds_by_peer d)\<rparr>"

section \<open>The window counts missing sequence numbers\<close>

definition window_of :: "DeliveryWindow \<Rightarrow> FrameIdWindow" where
  "window_of w = \<lparr>fw_highest = Some (dw_highest w), fw_seen = dw_seen w\<rparr>"

text \<open>
  The window \<open>w\<close> accounts for the sequence numbers \<open>N\<close> received since the first one \<open>f\<close>: its bitmap
  tracks them and its tracked length reaches back to \<open>f\<close>, at most 128 numbers.
\<close>

definition accounts :: "DeliveryWindow \<Rightarrow> nat \<Rightarrow> u64 set \<Rightarrow> bool" where
  "accounts w f S \<longleftrightarrow>
     tracks (window_of w) S \<and> S \<noteq> {} \<and> f \<le> unat (dw_highest w)
     \<and> unat (dw_tracked_len w) = min 128 (unat (dw_highest w) - f + 1)"

lemma accounts_highest:
  assumes "accounts w f S"
  shows "dw_highest w = Max S" and "q \<in> unat ` S \<Longrightarrow> q \<le> unat (dw_highest w)"
proof -
  show h: "dw_highest w = Max S"
    using assms tracks_highest [of "window_of w" S] by (simp add: accounts_def window_of_def)
  show "q \<in> unat ` S \<Longrightarrow> q \<le> unat (dw_highest w)"
    unfolding h by (auto simp: word_le_nat_alt [symmetric])
qed

lemma unat_mem_image: "unat x \<in> unat ` S \<longleftrightarrow> x \<in> S"
  by (auto dest: word_unat_eq_iff [THEN iffD2])

lemma accounts_bit:
  assumes "accounts w f S" and "k < 128"
  shows "bit (dw_seen w) k \<longleftrightarrow> k \<le> unat (dw_highest w) \<and> unat (dw_highest w) - k \<in> unat ` S"
proof -
  have "bit (dw_seen w) k \<longleftrightarrow> k \<le> unat (dw_highest w) \<and> dw_highest w - of_nat k \<in> S"
    using assms tracks_bit [of "window_of w" S k] accounts_highest (1) [OF assms(1)]
    by (simp add: accounts_def window_of_def)
  moreover have "dw_highest w - of_nat k \<in> S \<longleftrightarrow> unat (dw_highest w) - k \<in> unat ` S"
    if "k \<le> unat (dw_highest w)"
    unfolding unat_sub_of_nat [OF that, symmetric] by (simp only: unat_mem_image)
  ultimately show ?thesis by blast
qed

lemma length_filter_upt: "length (filter P [0..<n]) = card {k. k < n \<and> P k}"
  by (subst distinct_length_filter) (auto intro: arg_cong [where f = card])

lemma count_ones_card: "unat (count_ones (x :: u128)) = card {k. k < 128 \<and> bit x k}"
proof -
  have "card {k. k < (128 :: nat) \<and> bit x k} \<le> card {..<128 :: nat}" by (rule card_mono) auto
  then show ?thesis unfolding count_ones_def length_filter_upt by (simp add: unat_of_nat)
qed

lemma low_power_bit: "bit (2 ^ n - 1 :: u128) k \<longleftrightarrow> k < 128 \<and> k < n"
  unfolding mask_eq_exp_minus_1 [symmetric] by (auto simp: bit_mask_iff)

lemma low_mask_bit: "bit (push_bit n 1 - 1 :: u128) k \<longleftrightarrow> k < 128 \<and> k < n"
  using low_power_bit [of n k] by (simp add: push_bit_eq_mult)

lemma valid_mask_bit:
  assumes "accounts w f S"
  shows "bit (valid_mask w) k \<longleftrightarrow> k < unat (dw_tracked_len w)"
proof (cases "dw_tracked_len w = DELIVERY_WINDOW_BITS")
  case True
  then show ?thesis by (simp add: valid_mask_def DELIVERY_WINDOW_BITS_def bit_simps)
next
  case False
  have "unat (dw_tracked_len w) \<le> 128" using assms by (simp add: accounts_def)
  with False show ?thesis by (simp only: valid_mask_def low_mask_bit if_False) linarith
qed

lemma card_diff_filter:
  "card {k. k < (n :: nat) \<and> P k} - card {k. k < n \<and> P k \<and> Q k} = card {k. k < n \<and> P k \<and> \<not> Q k}"
proof -
  have "{k. k < n \<and> P k} = {k. k < n \<and> P k \<and> Q k} \<union> {k. k < n \<and> P k \<and> \<not> Q k}" by blast
  moreover have "card \<dots> = card {k. k < n \<and> P k \<and> Q k} + card {k. k < n \<and> P k \<and> \<not> Q k}"
    by (rule card_Un_disjoint) auto
  ultimately show ?thesis by simp
qed

text \<open>Positions of the bitmap and sequence numbers correspond by counting down from the highest.\<close>

lemma positions_sequences:
  assumes "accounts w f S"
  shows "card {k. k < unat (dw_tracked_len w) \<and> m \<le> k \<and> \<not> bit (dw_seen w) k}
    = card {q. f \<le> q \<and> q + m \<le> unat (dw_highest w) \<and> unat (dw_highest w) < q + 128 \<and> q \<notin> unat ` S}"
    (is "card ?K = card ?Q")
proof (rule bij_betw_same_card [of "\<lambda>k. unat (dw_highest w) - k"])
  let ?h = "unat (dw_highest w)"
  have t: "unat (dw_tracked_len w) = min 128 (?h - f + 1)" and fh: "f \<le> ?h"
    using assms by (auto simp: accounts_def)
  show "bij_betw (\<lambda>k. ?h - k) ?K ?Q"
  proof (rule bij_betw_byWitness [where f' = "\<lambda>q. ?h - q"])
    show "(\<lambda>k. ?h - k) ` ?K \<subseteq> ?Q"
      using t fh accounts_bit [OF assms] by auto
    show "(\<lambda>q. ?h - q) ` ?Q \<subseteq> ?K"
      using t fh accounts_bit [OF assms] by auto
  qed (use t fh in auto)
qed

lemma open_gaps_card:
  assumes "accounts w f S"
  shows "unat (open_gaps w) =
    card {q. f \<le> q \<and> q \<le> unat (dw_highest w) \<and> unat (dw_highest w) < q + 128 \<and> q \<notin> unat ` S}"
proof -
  let ?t = "unat (dw_tracked_len w)"
  have t: "?t \<le> 128" using assms by (simp add: accounts_def)
  have "unat (count_ones (dw_seen w AND valid_mask w)) = card {k. k < ?t \<and> True \<and> bit (dw_seen w) k}"
    unfolding count_ones_card using t
    by (auto simp: bit_simps valid_mask_bit [OF assms] intro: arg_cong [where f = card])
  moreover have "?t = card {k. k < ?t \<and> True}" by simp
  ultimately have "unat (open_gaps w) = card {k. k < ?t \<and> True \<and> \<not> bit (dw_seen w) k}"
    unfolding open_gaps_def unat_saturating_sub
    using card_diff_filter [of ?t "\<lambda>_. True" "bit (dw_seen w)"] by simp
  then show ?thesis using positions_sequences [OF assms, of 0] by simp
qed

lemma confirmed_card:
  assumes acc: "accounts w f S" and gt: "dw_highest w < sequence"
  shows "unat (confirmed_by_advance w (sequence - dw_highest w)) =
    card {q. f \<le> q \<and> q + 128 \<le> unat sequence \<and> unat (dw_highest w) < q + 128 \<and> q \<notin> unat ` S}"
    (is "_ = card ?G")
proof -
  let ?h = "unat (dw_highest w)" and ?s = "unat sequence" and ?t = "unat (dw_tracked_len w)"
  let ?a = "unat (sequence - dw_highest w)"
  have a: "?a = ?s - ?h" and lt: "?h < ?s"
    using gt by (simp_all add: unat_sub word_less_nat_alt less_imp_le)
  have fh: "f \<le> ?h" and t: "?t \<le> 128" using acc by (simp_all add: accounts_def)
  have old: "unat x \<le> ?h" if "x \<in> S" for x
    using accounts_highest (2) [OF acc, of "unat x"] that by simp
  have s64: "?s < 2 ^ 64" using unsigned_less [of sequence] by simp
  show ?thesis
  proof (cases "128 \<le> ?a")
    case True
    let ?O = "{q. f \<le> q \<and> q \<le> ?h \<and> ?h < q + 128 \<and> q \<notin> unat ` S}"
    have "?G = ?O \<union> {?h <.. ?s - 128}" using True a lt fh by (auto dest: old)
    moreover have "card (?O \<union> {?h <.. ?s - 128}) = card ?O + card {?h <.. ?s - 128}"
      by (rule card_Un_disjoint) auto
    ultimately have "card ?G = unat (open_gaps w) + (?a - 128)"
      using open_gaps_card [OF acc] a True by simp
    moreover have "unat (open_gaps w) \<le> 128"
      using t by (simp add: open_gaps_def unat_saturating_sub)
    ultimately show ?thesis
      using True s64 a
      by (simp add: confirmed_by_advance_def Let_def unat_saturating_add unat_saturating_sub
          open_gaps_def [symmetric] DELIVERY_WINDOW_BITS_def word_le_nat_alt)
  next
    case False
    then have a32: "unat (ucast (sequence - dw_highest w) :: u32) = ?a"
      by (simp add: unsigned_ucast_eq take_bit_nat_eq_self)
    have a0: "0 < ?a" using a lt by simp
    have r: "unat (DELIVERY_WINDOW_BITS - ucast (sequence - dw_highest w)) = 128 - ?a"
      using a32 False by (simp add: DELIVERY_WINDOW_BITS_def unat_sub word_le_nat_alt)
    have ne: "DELIVERY_WINDOW_BITS - ucast (sequence - dw_highest w) \<noteq> DELIVERY_WINDOW_BITS"
      using r a0 by (auto simp: DELIVERY_WINDOW_BITS_def word_unat_eq_iff)
    define aged where "aged = valid_mask w AND NOT (push_bit (128 - ?a) 1 - 1)"
    have aged_bit: "bit aged k \<longleftrightarrow> k < ?t \<and> 128 - ?a \<le> k" for k
      using t by (auto simp: aged_def bit_simps low_power_bit valid_mask_bit [OF acc])
    have "unat (confirmed_by_advance w (sequence - dw_highest w)) =
        unat (count_ones aged) - unat (count_ones (dw_seen w AND aged))"
      using False ne r
      by (simp add: confirmed_by_advance_def Let_def unat_saturating_sub aged_def
          DELIVERY_WINDOW_BITS_def word_le_nat_alt)
    also have "\<dots> = card {k. k < ?t \<and> 128 - ?a \<le> k \<and> \<not> bit (dw_seen w) k}"
      unfolding count_ones_card
      using card_diff_filter [of ?t "\<lambda>k. 128 - ?a \<le> k" "bit (dw_seen w)"] t
      by (simp add: aged_bit bit_and_iff conj_commute conj_left_commute less_le_trans cong: conj_cong)
    also have "\<dots> = card {q. f \<le> q \<and> q + (128 - ?a) \<le> ?h \<and> ?h < q + 128 \<and> q \<notin> unat ` S}"
      by (rule positions_sequences [OF acc])
    also have "{q. f \<le> q \<and> q + (128 - ?a) \<le> ?h \<and> ?h < q + 128 \<and> q \<notin> unat ` S} = ?G"
      using False a lt by auto
    finally show ?thesis .
  qed
qed

section \<open>Accounting of a stream\<close>

text \<open>
  The reference: the set of sequence numbers that arrived no more than 127 behind the highest one
  known at that time.
\<close>

definition receive :: "u64 set \<Rightarrow> u64 \<Rightarrow> u64 set" where
  "receive S s = (if unat (Max S) < unat s + 128 then insert s S else S)"

text \<open>Sequence numbers that left the window without having arrived.\<close>

definition lost :: "nat \<Rightarrow> nat \<Rightarrow> u64 set \<Rightarrow> nat set" where
  "lost f h S = {q. f \<le> q \<and> q + 128 \<le> h \<and> q \<notin> unat ` S}"

lemma finite_lost [simp]: "finite (lost f h S)"
  by (rule finite_subset [of _ "{..h}"]) (auto simp: lost_def)

lemma accounts_new: "accounts (delivery_window_new stream s) (unat s) {s}"
  using tracks_advance_first [of "\<lparr>fw_highest = None, fw_seen = 1\<rparr>" s]
  by (simp add: accounts_def delivery_window_new_def window_of_def)

lemma accounts_advance:
  assumes acc: "accounts w f S" and gt: "dw_highest w < s"
    and obs: "delivery_observe w s = (outcome, w')"
  shows "accounts w' f (insert s S)"
    and "unat (case outcome of DoConfirmedGap n \<Rightarrow> n | _ \<Rightarrow> 0) = card (lost f (unat s) S - lost f (unat (dw_highest w)) S)"
    and "outcome \<noteq> DoDuplicate" "outcome \<noteq> DoTooOld" "outcome \<noteq> DoReordered"
    and "dw_highest w' = s" and "dw_stream_id w' = dw_stream_id w"
proof -
  let ?h = "dw_highest w" and ?a = "unat (s - dw_highest w)"
  have a: "?a = unat s - unat ?h" and lt: "unat ?h < unat s"
    using gt by (simp_all add: unat_sub word_less_nat_alt less_imp_le)
  have tr: "tracks (window_of w) S" "S \<noteq> {}" and h: "Max S = ?h" and fh: "f \<le> unat ?h"
    and tl: "unat (dw_tracked_len w) = min 128 (unat ?h - f + 1)"
    using acc accounts_highest (1) [OF acc] by (auto simp: accounts_def)
  have big: "ucast DELIVERY_WINDOW_BITS \<le> s - ?h \<longleftrightarrow> 128 \<le> ?a"
    by (simp add: DELIVERY_WINDOW_BITS_def word_le_nat_alt)
  have a32: "\<not> 128 \<le> ?a \<Longrightarrow> unat (ucast (s - ?h) :: u32) = ?a"
    by (simp add: unsigned_ucast_eq take_bit_nat_eq_self)
  have adv: "tracks (window_of w') (insert s S)"
    using tracks_advance [OF tr, of s] gt obs a32
    by (auto simp: h window_of_def delivery_observe_def Let_def FRAME_ID_WINDOW_BITS_def
        DELIVERY_WINDOW_BITS_def word_le_nat_alt split: if_splits)
  have sat: "unat (saturating_add (dw_tracked_len w) (ucast (s - ?h))) = unat (dw_tracked_len w) + ?a"
    if "\<not> 128 \<le> ?a"
    using a32 [OF that] that tl by (simp add: unat_saturating_add)
  have len: "unat (dw_tracked_len w') = min 128 (unat s - f + 1)"
  proof (cases "128 \<le> ?a")
    case True
    then show ?thesis using obs gt a lt fh big
      by (auto simp: delivery_observe_def Let_def DELIVERY_WINDOW_BITS_def split: if_splits)
  next
    case False
    then have "dw_tracked_len w' = min (saturating_add (dw_tracked_len w) (ucast (s - ?h))) DELIVERY_WINDOW_BITS"
      using obs gt big by (auto simp: delivery_observe_def Let_def split: if_splits)
    then have "unat (dw_tracked_len w') = min (unat (dw_tracked_len w) + ?a) 128"
      using sat [OF False] by (simp only: unat_min) (simp add: DELIVERY_WINDOW_BITS_def)
    then show ?thesis using a lt fh tl by linarith
  qed
  show "dw_highest w' = s" "dw_stream_id w' = dw_stream_id w"
    using obs gt by (auto simp: delivery_observe_def Let_def split: if_splits)
  then show "accounts w' f (insert s S)"
    using adv len fh lt by (simp add: accounts_def)
  have "lost f (unat s) S - lost f (unat ?h) S
      = {q. f \<le> q \<and> q + 128 \<le> unat s \<and> unat ?h < q + 128 \<and> q \<notin> unat ` S}"
    by (auto simp: lost_def)
  then show "unat (case outcome of DoConfirmedGap n \<Rightarrow> n | _ \<Rightarrow> 0) = card (lost f (unat s) S - lost f (unat ?h) S)"
    using confirmed_card [OF acc gt] obs gt
    by (auto simp: delivery_observe_def Let_def split: if_splits)
  show "outcome \<noteq> DoDuplicate" "outcome \<noteq> DoTooOld" "outcome \<noteq> DoReordered"
    using obs gt by (auto simp: delivery_observe_def Let_def split: if_splits)
qed

lemma accounts_behind:
  assumes acc: "accounts w f S" and le: "\<not> dw_highest w < s"
    and obs: "delivery_observe w s = (outcome, w')"
  shows "if unat (dw_highest w) < unat s + 128 \<and> s \<notin> S
         then outcome = DoReordered \<and> accounts w' f (insert s S) \<and> dw_highest w' = dw_highest w
           \<and> dw_stream_id w' = dw_stream_id w
         else (outcome = DoDuplicate \<or> outcome = DoTooOld) \<and> w' = w"
proof -
  have tr: "tracks (window_of w) S" "S \<noteq> {}" and h: "Max S = dw_highest w"
    using acc accounts_highest (1) [OF acc] by (auto simp: accounts_def)
  have age: "unat (dw_highest w - s) = unat (dw_highest w) - unat s" and le': "s \<le> Max S"
    using le h by (simp_all add: unat_sub)
  have win: "FRAME_ID_WINDOW_BITS \<le> Max S - s \<longleftrightarrow> unat s + 128 \<le> unat (dw_highest w)"
    using age le by (simp add: FRAME_ID_WINDOW_BITS_def word_le_nat_alt word_less_nat_alt h) linarith
  show ?thesis
  proof (cases "unat s + 128 \<le> unat (dw_highest w)")
    case True
    then show ?thesis using obs le win h
      by (auto simp: delivery_observe_def Let_def DELIVERY_WINDOW_BITS_def FRAME_ID_WINDOW_BITS_def)
  next
    case False
    then have nw: "\<not> FRAME_ID_WINDOW_BITS \<le> Max S - s" using win by simp
    have bit: "dw_seen w AND push_bit (unat (dw_highest w - s)) 1 \<noteq> 0 \<longleftrightarrow> s \<in> S"
      using tracks_age [OF tr le' nw] mask_test by (simp add: window_of_def h)
    show ?thesis
      using obs le nw False bit h tracks_reordered [OF tr le' nw] acc
      by (auto simp: delivery_observe_def Let_def DELIVERY_WINDOW_BITS_def FRAME_ID_WINDOW_BITS_def
          window_of_def accounts_def split: if_splits)
  qed
qed

text \<open>
  The statistics after \<open>n\<close> packets of one stream: the window accounts for the received numbers,
  the confirmed gaps are the lost ones, and every packet that brought no new number is a duplicate.
\<close>

definition stream_account ::
  "u64 \<Rightarrow> ClientStreamId \<Rightarrow> nat \<Rightarrow> nat \<Rightarrow> u64 set \<Rightarrow> DeliveryStats \<Rightarrow> bool" where
  "stream_account peer stream f n S d \<longleftrightarrow>
     (\<exists>w retired. ds_by_peer d = [(peer, \<lparr>pd_active = w, pd_retired = retired\<rparr>)]
        \<and> dw_stream_id w = stream \<and> accounts w f S
        \<and> unat (ds_confirmed_gaps d) = card (lost f (unat (dw_highest w)) S))
     \<and> unat (ds_duplicates d) + card S = n"

lemma lost_insert:
  "h < unat s + 128 \<Longrightarrow> lost f h (insert s S) = lost f h S"
  by (auto simp: lost_def)

lemma lost_bound: "card (lost f h S) \<le> h"
proof -
  have "card (lost f h S) \<le> card {..<h}" by (rule card_mono) (auto simp: lost_def)
  then show ?thesis by simp
qed

lemma lost_none: "h < f + 128 \<Longrightarrow> lost f h S = {}"
  by (auto simp: lost_def)

lemma unat_add_confirmed:
  fixes c n :: u64
  assumes "unat c = card (lost f h S)" and "h \<le> unat (s :: u64)"
    and "unat n = card (lost f (unat s) S - lost f h S)"
  shows "unat (saturating_add c n) = card (lost f (unat s) S)"
proof -
  have sub: "lost f h S \<subseteq> lost f (unat s) S" using assms(2) by (auto simp: lost_def)
  have "card (lost f (unat s) S) = unat c + unat n"
    using card_mono [OF finite_lost sub] assms(1,3) by (simp add: card_Diff_subset [OF _ sub])
  moreover have "unat s < 2 ^ 64" using unsigned_less [of s] by simp
  ultimately show ?thesis
    using lost_bound [of f "unat s" S] by (simp add: unat_saturating_add)
qed

lemma saturating_add_0 [simp]: "saturating_add c (0 :: 'a::len word) = c"
  by (simp add: saturating_add_def)

lemma stream_account_step:
  assumes inv: "stream_account peer stream f n S d" and n: "n < 2 ^ 64 - 1"
  shows "stream_account peer stream f (Suc n) (receive S s) (observe_delivery d peer stream s)"
proof -
  from inv obtain w retired where by_peer: "ds_by_peer d = [(peer, \<lparr>pd_active = w, pd_retired = retired\<rparr>)]"
    and stream: "dw_stream_id w = stream" and acc: "accounts w f S"
    and conf: "unat (ds_confirmed_gaps d) = card (lost f (unat (dw_highest w)) S)"
    and dup: "unat (ds_duplicates d) + card S = n"
    by (auto simp: stream_account_def)
  have dup1: "unat (saturating_add (ds_duplicates d) 1) = unat (ds_duplicates d) + 1"
    using dup n by (simp add: unat_saturating_add)
  obtain outcome w' where obs: "delivery_observe w s = (outcome, w')" by fastforce
  have step: "observe_delivery d peer stream s = count_outcome outcome
      (d\<lparr>ds_by_peer := [(peer, \<lparr>pd_active = w', pd_retired = retired\<rparr>)]\<rparr>)"
    by (simp add: observe_delivery_def by_peer hm_get_def hm_insert_def stream obs)
  have h: "Max S = dw_highest w" using accounts_highest (1) [OF acc] by simp
  show ?thesis
  proof (cases "dw_highest w < s")
    case True
    note adv = accounts_advance [OF acc True obs]
    have lt: "unat (dw_highest w) < unat s" using True by (simp add: word_less_nat_alt)
    have new: "s \<notin> S" using accounts_highest (2) [OF acc, of "unat s"] lt by auto
    have "unat (ds_confirmed_gaps (count_outcome outcome
        (d\<lparr>ds_by_peer := [(peer, \<lparr>pd_active = w', pd_retired = retired\<rparr>)]\<rparr>))) = card (lost f (unat s) (insert s S))"
      using unat_add_confirmed [OF conf _ adv(2)] lt adv(3-5) by (cases outcome) (simp_all add: lost_insert)
    moreover have "receive S s = insert s S" using lt by (simp add: receive_def h)
    ultimately show ?thesis
      using adv dup new stream unfolding step by (cases outcome) (simp_all add: stream_account_def)
  next
    case False
    note beh = accounts_behind [OF acc False obs]
    show ?thesis
    proof (cases "unat (dw_highest w) < unat s + 128 \<and> s \<notin> S")
      case True
      then show ?thesis using beh dup conf stream unfolding step
        by (simp add: stream_account_def receive_def h lost_insert)
    next
      case no: False
      then have "receive S s = S" by (auto simp: receive_def h)
      then show ?thesis using no beh dup dup1 conf stream acc unfolding step
        by (auto simp: stream_account_def)
    qed
  qed
qed

lemma stream_account_run:
  assumes "length ss < 2 ^ 64 - 1"
  shows "stream_account peer stream (unat s0) (Suc (length ss)) (foldl receive {s0} ss)
           (foldl (\<lambda>d s. observe_delivery d peer stream s) delivery_stats_default (s0 # ss))"
  using assms
proof (induction ss rule: rev_induct)
  case Nil
  show ?case using accounts_new [of stream s0]
    by (simp add: stream_account_def observe_delivery_def delivery_stats_default_def hm_insert_def
        delivery_window_new_def lost_none)
next
  case (snoc s ss)
  then show ?case using stream_account_step [of peer stream "unat s0" "Suc (length ss)"] by simp
qed

text \<open>Received, open and lost numbers make up the whole range.\<close>

lemma range_split:
  assumes "accounts w f S"
  shows "card (lost f (unat (dw_highest w)) S) + unat (open_gaps w)
       + card (unat ` S \<inter> {f..unat (dw_highest w)}) = unat (dw_highest w) - f + 1"
proof -
  let ?h = "unat (dw_highest w)"
  let ?O = "{q. f \<le> q \<and> q \<le> ?h \<and> ?h < q + 128 \<and> q \<notin> unat ` S}" and ?R = "unat ` S \<inter> {f..?h}"
  have fh: "f \<le> ?h" using assms by (simp add: accounts_def)
  have "{f..?h} = lost f ?h S \<union> ?O \<union> ?R" by (auto simp: lost_def)
  moreover have "lost f ?h S \<inter> ?O = {}" "(lost f ?h S \<union> ?O) \<inter> ?R = {}" by (auto simp: lost_def)
  then have "card (lost f ?h S \<union> ?O \<union> ?R) = card (lost f ?h S) + card ?O + card ?R"
    by (simp add: card_Un_disjoint)
  ultimately have "card {f..?h} = card (lost f ?h S) + card ?O + card ?R" by metis
  then show ?thesis using fh open_gaps_card [OF assms] by simp
qed

section \<open>Property\<close>

text \<open>
  C19: Delivery accounting is exact.  For the packets of one stream, in whatever order and with
  whatever repetitions they arrive, the reported confirmed gaps, the open gaps and the sequence
  numbers received since the first packet add up to the whole range seen so far, and every packet
  that brought no new number is reported as a duplicate.  (Fewer than \<open>2 ^ 64 - 1\<close> packets, so that
  no counter saturates.)
\<close>

theorem delivery_accounting:
  assumes "length ss < 2 ^ 64 - 1"
  shows "let snap = delivery_snapshot
               (foldl (\<lambda>d s. observe_delivery d peer stream s) delivery_stats_default (s0 # ss));
             S = foldl receive {s0} ss
         in unat (dh_confirmed_gaps snap) + unat (dh_open_gaps snap)
              + card (unat ` S \<inter> {unat s0..unat (Max S)}) = unat (Max S) - unat s0 + 1
            \<and> unat (dh_duplicates snap) + card S = Suc (length ss)"
proof -
  let ?d = "foldl (\<lambda>d s. observe_delivery d peer stream s) delivery_stats_default (s0 # ss)"
  let ?S = "foldl receive {s0} ss"
  from stream_account_run [OF assms, of peer stream s0] obtain w retired where
    w: "ds_by_peer ?d = [(peer, \<lparr>pd_active = w, pd_retired = retired\<rparr>)]" "accounts w (unat s0) ?S"
       "unat (ds_confirmed_gaps ?d) = card (lost (unat s0) (unat (dw_highest w)) ?S)"
       "unat (ds_duplicates ?d) + card ?S = Suc (length ss)"
    unfolding stream_account_def by blast
  have "dh_open_gaps (delivery_snapshot ?d) = open_gaps w"
    using w(1) by (simp add: delivery_snapshot_def hm_values_def saturating_add_def)
  then show ?thesis
    unfolding Let_def delivery_snapshot_def DeliveryHealthSnapshot.select_convs
    using range_split [OF w(2)] w(3,4) accounts_highest (1) [OF w(2)] by simp
qed

theorem delivery_accounting_witness:
  "let snap = delivery_snapshot
         (foldl (\<lambda>d s. observe_delivery d 7 [1] s) delivery_stats_default [10, 12, 10, 11, 400]);
       S = foldl receive {10} [12, 10, 11, 400]
   in unat (dh_confirmed_gaps snap) + unat (dh_open_gaps snap)
        + card (unat ` S \<inter> {10..unat (Max S)}) = unat (Max S) - 10 + 1
      \<and> unat (dh_duplicates snap) + card S = Suc (length [12, 10, 11, 400 :: u64])"
  using delivery_accounting [of "[12, 10, 11, 400]" 7 "[1]" 10] by simp

end
