(* ===== verification/Health_Stats.thy ===== *)
theory Health_Stats
  imports Delivery_Stats
begin

text \<open>
  The other statistics of a session (\<open>bridge-core/src/client/session_health/stats.rs\<close>): latency
  samples with percentiles, packet stages, queue counters, and the round-trip probes with their
  conservation law.
\<close>

section \<open>Latencies\<close>

definition LATENCY_SAMPLE_CAPACITY :: usize where "LATENCY_SAMPLE_CAPACITY = 2048"

definition u64_max :: u64 where "u64_max = - 1"

text \<open>\<open>u64::try_from(n).unwrap_or(u64::MAX)\<close>\<close>

definition u64_of :: "nat \<Rightarrow> u64" where
  "u64_of n = (if n < 2 ^ 64 then of_nat n else u64_max)"

text \<open>\<open>Duration::as_millis\<close> and \<open>as_secs\<close> of a duration in nanoseconds.\<close>

definition as_millis :: "duration \<Rightarrow> nat" where
  "as_millis d = d div 1000000"

definition as_secs :: "duration \<Rightarrow> nat" where
  "as_secs d = d div 1000000000"

record LatencySummary =
  ls_count :: u64
  ls_min_ms :: "u64 option"
  ls_median_ms :: "u64 option"
  ls_p95_ms :: "u64 option"
  ls_max_ms :: "u64 option"
  ls_over_200_ms :: u64
  ls_over_500_ms :: u64
  ls_over_1000_ms :: u64

record LatencyAccumulator =
  la_count :: u64
  la_min_ms :: "u64 option"
  la_max_ms :: "u64 option"
  la_over_200_ms :: u64
  la_over_500_ms :: u64
  la_over_1000_ms :: u64
  la_samples :: "u64 list"

definition latency_default :: LatencyAccumulator where
  "latency_default =
     \<lparr>la_count = 0, la_min_ms = None, la_max_ms = None, la_over_200_ms = 0, la_over_500_ms = 0,
      la_over_1000_ms = 0, la_samples = []\<rparr>"

text \<open>A counter that is advanced when the condition holds.\<close>

definition count_if :: "bool \<Rightarrow> u64 \<Rightarrow> u64" where
  "count_if b c = (if b then saturating_add c 1 else c)"

definition latency_observe :: "LatencyAccumulator \<Rightarrow> duration \<Rightarrow> LatencyAccumulator" where
  "latency_observe a d =
     (let ms = u64_of (as_millis d);
          count = saturating_add (la_count a) 1
      in a\<lparr>la_count := count,
           la_min_ms := Some (case la_min_ms a of None \<Rightarrow> ms | Some current \<Rightarrow> min current ms),
           la_max_ms := Some (case la_max_ms a of None \<Rightarrow> ms | Some current \<Rightarrow> max current ms),
           la_over_200_ms := count_if (200 < ms) (la_over_200_ms a),
           la_over_500_ms := count_if (500 < ms) (la_over_500_ms a),
           la_over_1000_ms := count_if (1000 < ms) (la_over_1000_ms a),
           la_samples :=
             (if length (la_samples a) < LATENCY_SAMPLE_CAPACITY then la_samples a @ [ms]
              else (la_samples a)[unat count mod LATENCY_SAMPLE_CAPACITY := ms])\<rparr>)"

text \<open>
  \<open>saturating_sub(1) * percentile\<close> cannot overflow for the sample counts and percentiles in use; the
  products are natural numbers here.
\<close>

definition percentile :: "'a list \<Rightarrow> usize \<Rightarrow> 'a option" where
  "percentile sorted_samples p =
     (if sorted_samples = [] then None
      else
        let numerator = (length sorted_samples - 1) * p;
            index = (numerator + 50) div 100
        in if index < length sorted_samples then Some (sorted_samples ! index) else None)"

definition latency_summary :: "LatencyAccumulator \<Rightarrow> LatencySummary" where
  "latency_summary a =
     (let samples = sort (la_samples a) in
      \<lparr>ls_count = la_count a, ls_min_ms = la_min_ms a, ls_median_ms = percentile samples 50,
       ls_p95_ms = percentile samples 95, ls_max_ms = la_max_ms a,
       ls_over_200_ms = la_over_200_ms a, ls_over_500_ms = la_over_500_ms a,
       ls_over_1000_ms = la_over_1000_ms a\<rparr>)"

section \<open>Packet stages and queues\<close>

record PacketStageStats =
  ps_packets :: u64
  ps_bytes :: u64
  ps_last_seen :: "instant option"
  ps_gaps :: LatencyAccumulator

record PacketStageSnapshot =
  pss_packets :: u64
  pss_bytes :: u64
  pss_gap :: LatencySummary

definition packet_stage_default :: PacketStageStats where
  "packet_stage_default = \<lparr>ps_packets = 0, ps_bytes = 0, ps_last_seen = None, ps_gaps = latency_default\<rparr>"

definition packet_stage_observe :: "PacketStageStats \<Rightarrow> usize \<Rightarrow> instant \<Rightarrow> PacketStageStats" where
  "packet_stage_observe p bytes now =
     p\<lparr>ps_packets := saturating_add (ps_packets p) 1,
       ps_bytes := saturating_add (ps_bytes p) (u64_of bytes),
       ps_gaps := (case ps_last_seen p of
                     None \<Rightarrow> ps_gaps p
                   | Some previous \<Rightarrow> latency_observe (ps_gaps p) (duration_since now previous)),
       ps_last_seen := Some now\<rparr>"

definition packet_stage_snapshot :: "PacketStageStats \<Rightarrow> PacketStageSnapshot" where
  "packet_stage_snapshot p =
     \<lparr>pss_packets = ps_packets p, pss_bytes = ps_bytes p, pss_gap = latency_summary (ps_gaps p)\<rparr>"

record QueueStats =
  qs_outbound_enqueued :: u64
  qs_outbound_full :: u64
  qs_outbound_dropped :: u64
  qs_inbound_enqueued :: u64
  qs_inbound_full :: u64
  qs_inbound_dropped :: u64

definition queue_stats_default :: QueueStats where
  "queue_stats_default =
     \<lparr>qs_outbound_enqueued = 0, qs_outbound_full = 0, qs_outbound_dropped = 0,
      qs_inbound_enqueued = 0, qs_inbound_full = 0, qs_inbound_dropped = 0\<rparr>"

definition observe_outbound :: "QueueStats \<Rightarrow> bool \<Rightarrow> QueueStats" where
  "observe_outbound q accepted =
     (if accepted then q\<lparr>qs_outbound_enqueued := saturating_add (qs_outbound_enqueued q) 1\<rparr>
      else q\<lparr>qs_outbound_full := saturating_add (qs_outbound_full q) 1,
             qs_outbound_dropped := saturating_add (qs_outbound_dropped q) 1\<rparr>)"

definition observe_inbound :: "QueueStats \<Rightarrow> bool \<Rightarrow> QueueStats" where
  "observe_inbound q accepted =
     (if accepted then q\<lparr>qs_inbound_enqueued := saturating_add (qs_inbound_enqueued q) 1\<rparr>
      else q\<lparr>qs_inbound_full := saturating_add (qs_inbound_full q) 1,
             qs_inbound_dropped := saturating_add (qs_inbound_dropped q) 1\<rparr>)"

text \<open>The snapshot of the queue counters has the same fields as the counters.\<close>

type_synonym QueueHealthSnapshot = QueueStats

definition queue_snapshot :: "QueueStats \<Rightarrow> QueueHealthSnapshot" where
  "queue_snapshot q = q"

definition total_dropped :: "QueueHealthSnapshot \<Rightarrow> u64" where
  "total_dropped q = saturating_add (qs_outbound_dropped q) (qs_inbound_dropped q)"

section \<open>Round-trip probes\<close>

record RuntimeRttStats =
  rt_next_id :: u64
  rt_sent :: u64
  rt_received :: u64
  rt_timed_out :: u64
  rt_pending :: "(u64, instant) hmap"
  rt_latency :: LatencyAccumulator

record RuntimeRttSnapshot =
  rts_enabled :: bool
  rts_sent :: u64
  rts_received :: u64
  rts_timed_out :: u64
  rts_pending :: usize
  rts_latency :: LatencySummary

definition runtime_rtt_default :: RuntimeRttStats where
  "runtime_rtt_default =
     \<lparr>rt_next_id = 0, rt_sent = 0, rt_received = 0, rt_timed_out = 0, rt_pending = [],
      rt_latency = latency_default\<rparr>"

definition rtt_next_ping :: "RuntimeRttStats \<Rightarrow> instant \<Rightarrow> u64 \<times> RuntimeRttStats" where
  "rtt_next_ping r now =
     (let ping = saturating_add (rt_next_id r) 1 in
      (ping, r\<lparr>rt_next_id := ping, rt_sent := saturating_add (rt_sent r) 1,
             rt_pending := hm_insert ping now (rt_pending r)\<rparr>))"

definition rtt_observe_pong :: "RuntimeRttStats \<Rightarrow> u64 \<Rightarrow> instant \<Rightarrow> RuntimeRttStats" where
  "rtt_observe_pong r pong now =
     (case hm_get (rt_pending r) pong of
        None \<Rightarrow> r
      | Some sent_at \<Rightarrow>
          r\<lparr>rt_pending := hm_remove pong (rt_pending r),
            rt_received := saturating_add (rt_received r) 1,
            rt_latency := latency_observe (rt_latency r) (duration_since now sent_at)\<rparr>)"

definition rtt_expire :: "RuntimeRttStats \<Rightarrow> instant \<Rightarrow> duration \<Rightarrow> RuntimeRttStats" where
  "rtt_expire r now timeout =
     (let pending = hm_retain (\<lambda>_ sent_at. duration_since now sent_at \<le> timeout) (rt_pending r);
          expired = length (rt_pending r) - length pending
      in r\<lparr>rt_pending := pending, rt_timed_out := saturating_add (rt_timed_out r) (u64_of expired)\<rparr>)"

definition rtt_snapshot :: "RuntimeRttStats \<Rightarrow> bool \<Rightarrow> RuntimeRttSnapshot" where
  "rtt_snapshot r enabled =
     \<lparr>rts_enabled = enabled, rts_sent = rt_sent r, rts_received = rt_received r,
      rts_timed_out = rt_timed_out r, rts_pending = length (rt_pending r),
      rts_latency = latency_summary (rt_latency r)\<rparr>"

section \<open>Percentiles lie between the extremes\<close>

lemma percentile_index: "p \<le> 100 \<Longrightarrow> 0 < n \<Longrightarrow> ((n - 1) * p + 50) div 100 < (n :: nat)"
proof -
  assume "p \<le> 100" "0 < n"
  have "(n - 1) * p \<le> (n - 1) * 100" using \<open>p \<le> 100\<close> by (rule mult_le_mono2)
  then have "(n - 1) * p + 50 < n * 100" using \<open>0 < n\<close> by linarith
  then show ?thesis by (simp add: div_less_iff_less_mult)
qed

lemma percentile_Some:
  "p \<le> 100 \<Longrightarrow> xs \<noteq> [] \<Longrightarrow> percentile xs p = Some (xs ! (((length xs - 1) * p + 50) div 100))"
  using percentile_index [of p "length xs"] by (simp add: percentile_def Let_def)

lemma percentile_mono:
  fixes xs :: "'a::linorder list"
  assumes "p \<le> q" "q \<le> 100" "xs \<noteq> []"
  shows "the (percentile (sort xs) p) \<le> the (percentile (sort xs) q)"
proof -
  let ?i = "\<lambda>p. ((length xs - 1) * p + 50) div 100"
  have "?i p \<le> ?i q" using assms(1) by (intro div_le_mono add_le_mono1 mult_le_mono2)
  moreover have "?i q < length xs" using assms by (intro percentile_index) simp_all
  ultimately have "sort xs ! ?i p \<le> sort xs ! ?i q" by (intro sorted_nth_mono) simp_all
  moreover have "sort xs \<noteq> []" using assms(3) by (metis length_0_conv length_sort)
  ultimately show ?thesis using assms by (simp add: percentile_Some)
qed

lemma percentile_in: "percentile xs p = Some x \<Longrightarrow> x \<in> set xs"
  by (auto simp: percentile_def Let_def split: if_splits)

text \<open>What holds of an accumulator after any observations.\<close>

definition latency_ok :: "LatencyAccumulator \<Rightarrow> bool" where
  "latency_ok a \<longleftrightarrow>
     length (la_samples a) \<le> LATENCY_SAMPLE_CAPACITY
     \<and> (la_samples a = [] \<longleftrightarrow> la_min_ms a = None) \<and> (la_samples a = [] \<longleftrightarrow> la_max_ms a = None)
     \<and> (\<forall>x \<in> set (la_samples a). the (la_min_ms a) \<le> x \<and> x \<le> the (la_max_ms a))
     \<and> la_over_1000_ms a \<le> la_over_500_ms a \<and> la_over_500_ms a \<le> la_over_200_ms a
     \<and> la_over_200_ms a \<le> la_count a"

lemma saturating_add_mono:
  fixes a b c :: "'a::len word"
  shows "a \<le> b \<Longrightarrow> saturating_add a c \<le> saturating_add b c"
  by (simp add: word_le_nat_alt unat_saturating_add)

lemma saturating_add_ge: "(a :: 'a::len word) \<le> saturating_add a c"
proof -
  have "unat a \<le> 2 ^ LENGTH('a) - 1" using unsigned_less [of a] by (metis Suc_pred' less_Suc_eq_le zero_less_numeral zero_less_power)
  then show ?thesis by (simp add: word_le_nat_alt unat_saturating_add)
qed

lemma count_if_mono: "a \<le> b \<Longrightarrow> (p \<Longrightarrow> q) \<Longrightarrow> count_if p a \<le> count_if q b"
  using saturating_add_mono [of a b 1] saturating_add_ge [of b 1]
  by (auto simp: count_if_def)

lemma count_if_True: "count_if True c = saturating_add c 1"
  by (simp add: count_if_def)

lemma latency_ok_default: "latency_ok latency_default"
  by (simp add: latency_ok_def latency_default_def)

lemma latency_ok_observe:
  assumes "latency_ok a"
  shows "latency_ok (latency_observe a d)"
proof -
  let ?ms = "u64_of (as_millis d)" and ?b = "latency_observe a d"
  have set: "x \<in> set (la_samples ?b) \<Longrightarrow> x = ?ms \<or> x \<in> set (la_samples a)" for x
    using set_update_subset_insert [of "la_samples a"]
    by (fastforce simp: latency_observe_def Let_def split: if_splits)
  have len: "length (la_samples ?b) \<le> LATENCY_SAMPLE_CAPACITY" "la_samples ?b \<noteq> []"
    using assms by (auto simp: latency_ok_def latency_observe_def Let_def LATENCY_SAMPLE_CAPACITY_def)
  have ext: "the (la_min_ms ?b) \<le> x \<and> x \<le> the (la_max_ms ?b)" if "x \<in> set (la_samples ?b)" for x
  proof -
    from set [OF that] show ?thesis
    proof (elim disjE)
      assume "x = ?ms"
      then show ?thesis by (simp add: latency_observe_def Let_def split: option.split)
    next
      assume "x \<in> set (la_samples a)"
      then have "the (la_min_ms a) \<le> x" "x \<le> the (la_max_ms a)" "la_min_ms a \<noteq> None" "la_max_ms a \<noteq> None"
        using assms by (auto simp: latency_ok_def)
      then show ?thesis by (auto simp: latency_observe_def Let_def intro: min.coboundedI1 max.coboundedI1)
    qed
  qed
  have sel: "la_over_1000_ms ?b = count_if (1000 < ?ms) (la_over_1000_ms a)"
      "la_over_500_ms ?b = count_if (500 < ?ms) (la_over_500_ms a)"
      "la_over_200_ms ?b = count_if (200 < ?ms) (la_over_200_ms a)"
      "la_count ?b = count_if True (la_count a)"
    by (simp_all add: latency_observe_def Let_def count_if_True)
  have cnt: "la_over_1000_ms ?b \<le> la_over_500_ms ?b" "la_over_500_ms ?b \<le> la_over_200_ms ?b"
      "la_over_200_ms ?b \<le> la_count ?b"
    unfolding sel using assms
    by (auto simp: latency_ok_def word_less_nat_alt intro!: count_if_mono)
  show ?thesis unfolding latency_ok_def using len ext cnt
    by (auto simp: latency_observe_def Let_def)
qed

lemma latency_run_ok: "latency_ok (foldl latency_observe latency_default ds)"
  by (induction ds rule: rev_induct) (simp_all add: latency_ok_default latency_ok_observe)

section \<open>No probe is lost or counted twice\<close>

datatype RttOp = OpPing instant | OpPong u64 instant | OpExpire instant duration

fun rtt_op :: "RuntimeRttStats \<Rightarrow> RttOp \<Rightarrow> RuntimeRttStats" where
  "rtt_op r (OpPing now) = snd (rtt_next_ping r now)"
| "rtt_op r (OpPong i now) = rtt_observe_pong r i now"
| "rtt_op r (OpExpire now timeout) = rtt_expire r now timeout"

text \<open>Ids up to \<open>n\<close> were used, and every probe sent is received, timed out or pending.\<close>

definition rtt_ok :: "nat \<Rightarrow> RuntimeRttStats \<Rightarrow> bool" where
  "rtt_ok n r \<longleftrightarrow>
     unat (rt_next_id r) = unat (rt_sent r) \<and> unat (rt_sent r) \<le> n \<and> hm_wf (rt_pending r)
     \<and> (\<forall>i t. hm_get (rt_pending r) i = Some t \<longrightarrow> i \<le> rt_next_id r)
     \<and> unat (rt_sent r) = unat (rt_received r) + unat (rt_timed_out r) + length (rt_pending r)"

lemma rtt_ok_ping:
  assumes ok: "rtt_ok n r" and n: "n < 2 ^ 64 - 1"
  shows "rtt_ok (Suc n) (snd (rtt_next_ping r now))"
proof -
  let ?i = "saturating_add (rt_next_id r) 1"
  have i: "unat ?i = Suc (unat (rt_next_id r))" and s: "unat (saturating_add (rt_sent r) 1) = Suc (unat (rt_sent r))"
    using ok n by (auto simp: rtt_ok_def unat_saturating_add)
  have fresh: "hm_get (rt_pending r) ?i = None"
  proof (rule ccontr)
    assume "hm_get (rt_pending r) ?i \<noteq> None"
    then have "?i \<le> rt_next_id r" using ok by (auto simp: rtt_ok_def)
    with i show False by (simp add: word_le_nat_alt)
  qed
  have le: "j \<le> ?i" if "j \<le> rt_next_id r" for j
    using that i by (simp add: word_le_nat_alt)
  show ?thesis
    using ok i s fresh le
    by (auto simp: rtt_ok_def rtt_next_ping_def Let_def hm.len_ins)
qed

lemma rtt_ok_pong:
  assumes ok: "rtt_ok n r" and n: "n < 2 ^ 64"
  shows "rtt_ok n (rtt_observe_pong r i now)"
proof (cases "hm_get (rt_pending r) i")
  case None
  then show ?thesis using ok by (simp add: rtt_observe_pong_def)
next
  case (Some t)
  have wf: "hm_wf (rt_pending r)" using ok by (simp add: rtt_ok_def)
  have len: "length (hm_remove i (rt_pending r)) = length (rt_pending r) - 1" "0 < length (rt_pending r)"
    using hm.len_del [OF wf, of i] hm.len_del_less [OF wf Some] Some by auto
  then have "unat (rt_received r) < 2 ^ 64 - 1" using ok n unfolding rtt_ok_def by linarith
  then have "unat (saturating_add (rt_received r) 1) = Suc (unat (rt_received r))"
    by (simp add: unat_saturating_add)
  then show ?thesis using ok Some len
    by (auto simp: rtt_ok_def rtt_observe_pong_def)
qed

lemma rtt_ok_expire:
  assumes ok: "rtt_ok n r" and n: "n < 2 ^ 64"
  shows "rtt_ok n (rtt_expire r now timeout)"
proof -
  let ?p = "hm_retain (\<lambda>_ sent_at. duration_since now sent_at \<le> timeout) (rt_pending r)"
  let ?e = "length (rt_pending r) - length ?p"
  have le: "length ?p \<le> length (rt_pending r)" by (rule hm_retain_len_le)
  have bound: "unat (rt_timed_out r) + ?e < 2 ^ 64" using ok n by (auto simp: rtt_ok_def)
  then have "?e < 2 ^ 64" by linarith
  then have "unat (u64_of ?e) = ?e" by (simp add: u64_of_def unat_of_nat)
  then have "unat (saturating_add (rt_timed_out r) (u64_of ?e)) = unat (rt_timed_out r) + ?e"
    using bound by (simp add: unat_saturating_add)
  then show ?thesis using ok le
    by (auto simp: rtt_ok_def rtt_expire_def Let_def split: option.splits if_splits)
qed

lemma rtt_ok_mono: "rtt_ok n r \<Longrightarrow> n \<le> m \<Longrightarrow> rtt_ok m r"
  by (auto simp: rtt_ok_def)

lemma rtt_run_ok:
  "length ops < 2 ^ 64 \<Longrightarrow> rtt_ok (length ops) (foldl rtt_op runtime_rtt_default ops)"
proof (induction ops rule: rev_induct)
  case Nil
  then show ?case by (simp add: rtt_ok_def runtime_rtt_default_def)
next
  case (snoc op ops)
  then have ok: "rtt_ok (length ops) (foldl rtt_op runtime_rtt_default ops)" by simp
  then show ?case using snoc.prems
    by (cases op) (auto intro: rtt_ok_ping rtt_ok_mono [OF rtt_ok_pong] rtt_ok_mono [OF rtt_ok_expire])
qed

section \<open>Properties\<close>

text \<open>
  Reported latencies are ordered and bounded.  After any sequence of observations the summary
  has a minimum, median, 95th percentile and maximum exactly when something was observed, they are
  in this order, the threshold counters are nested, and no more than 2,048 samples are kept.
\<close>

lemma latency_summary_ordered:
  "let a = foldl latency_observe latency_default ds; s = latency_summary a
   in (if ds = [] then ls_min_ms s = None \<and> ls_median_ms s = None \<and> ls_p95_ms s = None \<and> ls_max_ms s = None
       else \<exists>lo m p hi. ls_min_ms s = Some lo \<and> ls_median_ms s = Some m \<and> ls_p95_ms s = Some p
              \<and> ls_max_ms s = Some hi \<and> lo \<le> m \<and> m \<le> p \<and> p \<le> hi)
      \<and> ls_over_1000_ms s \<le> ls_over_500_ms s \<and> ls_over_500_ms s \<le> ls_over_200_ms s
      \<and> ls_over_200_ms s \<le> ls_count s \<and> length (la_samples a) \<le> LATENCY_SAMPLE_CAPACITY"
proof -
  let ?a = "foldl latency_observe latency_default ds"
  have ok: "latency_ok ?a" by (rule latency_run_ok)
  have empty: "la_samples ?a = [] \<longleftrightarrow> ds = []"
    by (cases ds rule: rev_cases) (auto simp: latency_default_def latency_observe_def Let_def LATENCY_SAMPLE_CAPACITY_def)
  show ?thesis
  proof (cases "ds = []")
    case True
    then show ?thesis by (simp add: latency_summary_def percentile_def latency_default_def)
  next
    case False
    then have ne: "la_samples ?a \<noteq> []" "sort (la_samples ?a) \<noteq> []"
      using empty by (auto, metis length_0_conv length_sort)
    then obtain m p where m: "percentile (sort (la_samples ?a)) 50 = Some m"
      and p: "percentile (sort (la_samples ?a)) 95 = Some p" by (simp add: percentile_Some)
    have "m \<le> p" using percentile_mono [of 50 95 "la_samples ?a"] ne m p by simp
    moreover obtain lo hi where "la_min_ms ?a = Some lo" "la_max_ms ?a = Some hi"
      using ok ne by (auto simp: latency_ok_def)
    moreover from this have "lo \<le> m" "p \<le> hi"
      using ok percentile_in [OF m] percentile_in [OF p] by (auto simp: latency_ok_def)
    ultimately show ?thesis using ok False m p
      by (simp add: latency_summary_def Let_def latency_ok_def)
  qed
qed

text \<open>
  No round-trip probe is lost or counted twice: whatever pings, pongs (of any id) and
  expirations happen in whatever order, the probes sent are exactly those received, timed out and
  still pending.
\<close>

lemma rtt_conservation:
  assumes "length ops < 2 ^ 64"
  shows "let s = rtt_snapshot (foldl rtt_op runtime_rtt_default ops) True
         in unat (rts_sent s) = unat (rts_received s) + unat (rts_timed_out s) + rts_pending s"
  using rtt_run_ok [OF assms] by (simp add: rtt_snapshot_def rtt_ok_def)

lemma rtt_conservation_witness:
  "let s = rtt_snapshot (foldl rtt_op runtime_rtt_default
         [OpPing 0, OpPing 5, OpPong 1 9, OpPong 1 9, OpExpire 100 20, OpPing 101]) True
   in unat (rts_sent s) = unat (rts_received s) + unat (rts_timed_out s) + rts_pending s"
  by (rule rtt_conservation) simp

end
