(* ===== verification/Direct_Flow.thy ===== *)
theory Direct_Flow
  imports Lan_Ledger Health_Stats
begin

text \<open>
  The direct data plane as the session reports it (\<open>session_health/direct.rs\<close>): the snapshot of the
  ledger translated into the public types, sums over the peers, and loss percentages.
\<close>

section \<open>Types\<close>

datatype DirectFlowDirection = FdSend | FdReceive

datatype DirectFlowStage = FsOutboundQueue | FsUdpSend | FsInboundQueue | FsHookQueue

datatype DirectDropReason =
    FrQueueFull | FrQueueClosed | FrPeerUnavailable | FrGenerationClosed | FrPayloadTooLarge
  | FrEncodeFailed | FrSendFailed | FrHookDisconnected | FrSessionClosed

fun flow_stage :: "LanDataStage \<Rightarrow> DirectFlowStage" where
  "flow_stage StOutboundQueue = FsOutboundQueue"
| "flow_stage StUdpSend = FsUdpSend"
| "flow_stage StInboundQueue = FsInboundQueue"
| "flow_stage StHookQueue = FsHookQueue"

fun drop_reason :: "LanDataDropReason \<Rightarrow> DirectDropReason" where
  "drop_reason DrQueueFull = FrQueueFull"
| "drop_reason DrQueueClosed = FrQueueClosed"
| "drop_reason DrPeerUnavailable = FrPeerUnavailable"
| "drop_reason DrGenerationClosed = FrGenerationClosed"
| "drop_reason DrPayloadTooLarge = FrPayloadTooLarge"
| "drop_reason DrEncodeFailed = FrEncodeFailed"
| "drop_reason DrSendFailed = FrSendFailed"
| "drop_reason DrHookDisconnected = FrHookDisconnected"
| "drop_reason DrSessionClosed = FrSessionClosed"

fun flow_stage_rank :: "DirectFlowStage \<Rightarrow> nat" where
  "flow_stage_rank FsOutboundQueue = 0"
| "flow_stage_rank FsUdpSend = 1"
| "flow_stage_rank FsInboundQueue = 2"
| "flow_stage_rank FsHookQueue = 3"

fun drop_reason_rank :: "DirectDropReason \<Rightarrow> nat" where
  "drop_reason_rank FrQueueFull = 0"
| "drop_reason_rank FrQueueClosed = 1"
| "drop_reason_rank FrPeerUnavailable = 2"
| "drop_reason_rank FrGenerationClosed = 3"
| "drop_reason_rank FrPayloadTooLarge = 4"
| "drop_reason_rank FrEncodeFailed = 5"
| "drop_reason_rank FrSendFailed = 6"
| "drop_reason_rank FrHookDisconnected = 7"
| "drop_reason_rank FrSessionClosed = 8"

lemma flow_rank_inj:
  "flow_stage_rank a = flow_stage_rank b \<longleftrightarrow> a = b" "drop_reason_rank c = drop_reason_rank d \<longleftrightarrow> c = d"
  by (cases a; cases b; simp) (cases c; cases d; simp)

instantiation DirectFlowStage :: linorder
begin

definition less_eq_DirectFlowStage :: "DirectFlowStage \<Rightarrow> DirectFlowStage \<Rightarrow> bool" where
  "less_eq_DirectFlowStage a b \<longleftrightarrow> flow_stage_rank a \<le> flow_stage_rank b"

definition less_DirectFlowStage :: "DirectFlowStage \<Rightarrow> DirectFlowStage \<Rightarrow> bool" where
  "less_DirectFlowStage a b \<longleftrightarrow> flow_stage_rank a < flow_stage_rank b"

instance
  by standard (auto simp: less_eq_DirectFlowStage_def less_DirectFlowStage_def simp flip: flow_rank_inj(1))

end

instantiation DirectDropReason :: linorder
begin

definition less_eq_DirectDropReason :: "DirectDropReason \<Rightarrow> DirectDropReason \<Rightarrow> bool" where
  "less_eq_DirectDropReason a b \<longleftrightarrow> drop_reason_rank a \<le> drop_reason_rank b"

definition less_DirectDropReason :: "DirectDropReason \<Rightarrow> DirectDropReason \<Rightarrow> bool" where
  "less_DirectDropReason a b \<longleftrightarrow> drop_reason_rank a < drop_reason_rank b"

instance
  by standard (auto simp: less_eq_DirectDropReason_def less_DirectDropReason_def simp flip: flow_rank_inj(2))

end

record DirectRejectionHealthSnapshot =
  drj_direction :: DirectFlowDirection
  drj_stage :: DirectFlowStage
  drj_reason :: DirectDropReason
  drj_count :: u64

record DirectDirectionHealthSnapshot =
  ddh_direction :: DirectFlowDirection
  ddh_queued :: u64
  ddh_resolved_success :: u64
  ddh_dropped :: u64
  ddh_current_queue_depth :: usize
  ddh_max_queue_depth :: usize
  ddh_rejections :: "DirectRejectionHealthSnapshot list"

definition direction_default :: "DirectFlowDirection \<Rightarrow> DirectDirectionHealthSnapshot" where
  "direction_default direction =
     \<lparr>ddh_direction = direction, ddh_queued = 0, ddh_resolved_success = 0, ddh_dropped = 0,
      ddh_current_queue_depth = 0, ddh_max_queue_depth = 0, ddh_rejections = []\<rparr>"

section \<open>Loss\<close>

text \<open>Sums and products of 64-bit counters cannot leave 128 bits, so the natural numbers serve.\<close>

definition resolved_outcomes :: "u64 \<Rightarrow> u64 \<Rightarrow> nat" where
  "resolved_outcomes resolved_success dropped = unat resolved_success + unat dropped"

definition rounded_loss_percent :: "u64 \<Rightarrow> u64 \<Rightarrow> nat option" where
  "rounded_loss_percent resolved_success dropped =
     (let resolved = resolved_outcomes resolved_success dropped in
      if resolved = 0 then None
      else
        let rounded = (unat dropped * 100 + resolved div 2) div resolved
        in Some (min rounded 100))"

section \<open>Translation\<close>

definition rejection_from_lan :: "DirectFlowDirection \<Rightarrow> LanRejectionSnapshot \<Rightarrow> DirectRejectionHealthSnapshot" where
  "rejection_from_lan direction s =
     \<lparr>drj_direction = direction, drj_stage = flow_stage (rj_stage s), drj_reason = drop_reason (rj_reason s),
      drj_count = rj_count s\<rparr>"

definition direction_from_lan :: "DirectFlowDirection \<Rightarrow> LanDirectionSnapshot \<Rightarrow> DirectDirectionHealthSnapshot" where
  "direction_from_lan direction s =
     \<lparr>ddh_direction = direction, ddh_queued = dn_queued s, ddh_resolved_success = dn_resolved_success s,
      ddh_dropped = dn_dropped s, ddh_current_queue_depth = dn_current_queue_depth s,
      ddh_max_queue_depth = dn_max_queue_depth s,
      ddh_rejections = map (rejection_from_lan direction) (dn_rejections s)\<rparr>"

definition add_flow_rejection ::
  "(DirectFlowStage \<times> DirectDropReason, u64) bmap \<Rightarrow> DirectRejectionHealthSnapshot
     \<Rightarrow> (DirectFlowStage \<times> DirectDropReason, u64) bmap" where
  "add_flow_rejection rejections r =
     (let key = (drj_stage r, drj_reason r)
      in bm_insert key (saturating_add (case bm_get rejections key of None \<Rightarrow> 0 | Some n \<Rightarrow> n) (drj_count r)) rejections)"

fun direction_fold_loop ::
  "DirectDirectionHealthSnapshot \<Rightarrow> (DirectFlowStage \<times> DirectDropReason, u64) bmap \<Rightarrow> DirectDirectionHealthSnapshot list
     \<Rightarrow> DirectDirectionHealthSnapshot \<times> (DirectFlowStage \<times> DirectDropReason, u64) bmap" where
  "direction_fold_loop folded rejections [] = (folded, rejections)"
| "direction_fold_loop folded rejections (s # rest) =
     direction_fold_loop
       (folded\<lparr>ddh_queued := saturating_add (ddh_queued folded) (ddh_queued s),
          ddh_resolved_success := saturating_add (ddh_resolved_success folded) (ddh_resolved_success s),
          ddh_dropped := saturating_add (ddh_dropped folded) (ddh_dropped s),
          ddh_current_queue_depth := usize_saturating_add (ddh_current_queue_depth folded) (ddh_current_queue_depth s),
          ddh_max_queue_depth := usize_saturating_add (ddh_max_queue_depth folded) (ddh_max_queue_depth s)\<rparr>)
       (foldl add_flow_rejection rejections (ddh_rejections s)) rest"

definition direction_fold :: "DirectFlowDirection \<Rightarrow> DirectDirectionHealthSnapshot list \<Rightarrow> DirectDirectionHealthSnapshot" where
  "direction_fold direction snapshots =
     (let (folded, rejections) = direction_fold_loop (direction_default direction) [] snapshots
      in folded\<lparr>ddh_rejections := map (\<lambda>((stage, reason), n).
           \<lparr>drj_direction = direction, drj_stage = stage, drj_reason = reason, drj_count = n\<rparr>) rejections\<rparr>)"

record DirectEpochHealthSnapshot =
  deh_lifecycle_epoch :: u64
  deh_active :: bool
  deh_send :: DirectDirectionHealthSnapshot
  deh_receive :: DirectDirectionHealthSnapshot

definition epoch_from_lan :: "LanEpochDataSnapshot \<Rightarrow> DirectEpochHealthSnapshot" where
  "epoch_from_lan s =
     \<lparr>deh_lifecycle_epoch = en_lifecycle_epoch s, deh_active = en_active s,
      deh_send = direction_from_lan FdSend (en_send s), deh_receive = direction_from_lan FdReceive (en_receive s)\<rparr>"

record DirectPeerHealthSnapshot =
  dph_peer_slot :: u32
  dph_peer_steam_id64 :: u64
  dph_latest_lifecycle_epoch :: u64
  dph_active :: bool
  dph_send :: DirectDirectionHealthSnapshot
  dph_receive :: DirectDirectionHealthSnapshot
  dph_epochs :: "DirectEpochHealthSnapshot list"

definition peer_from_lan :: "LanPeerDataSnapshot \<Rightarrow> DirectPeerHealthSnapshot" where
  "peer_from_lan s =
     \<lparr>dph_peer_slot = pn_peer_slot s, dph_peer_steam_id64 = pn_peer_steam_id64 s,
      dph_latest_lifecycle_epoch = pn_latest_lifecycle_epoch s, dph_active = pn_active s,
      dph_send = direction_from_lan FdSend (pn_send s), dph_receive = direction_from_lan FdReceive (pn_receive s),
      dph_epochs = sort_key deh_lifecycle_epoch (map epoch_from_lan (pn_epochs s))\<rparr>"

record DirectFlowHealthSnapshot =
  dfh_enabled :: bool
  dfh_send :: DirectDirectionHealthSnapshot
  dfh_receive :: DirectDirectionHealthSnapshot
  dfh_peers :: "DirectPeerHealthSnapshot list"
  dfh_transitions_dropped :: u64

definition flow_default :: DirectFlowHealthSnapshot where
  "flow_default =
     \<lparr>dfh_enabled = False, dfh_send = direction_default FdSend, dfh_receive = direction_default FdReceive,
      dfh_peers = [], dfh_transitions_dropped = 0\<rparr>"

definition flow_from_lan :: "LanDataPlaneSnapshot \<Rightarrow> DirectFlowHealthSnapshot" where
  "flow_from_lan s =
     (let peers = sort_key dph_peer_slot (map peer_from_lan (ln_peers s))
      in \<lparr>dfh_enabled = True, dfh_send = direction_fold FdSend (map dph_send peers),
          dfh_receive = direction_fold FdReceive (map dph_receive peers), dfh_peers = peers,
          dfh_transitions_dropped = ln_transitions_dropped s\<rparr>)"

record DirectOutcomeWindow =
  ow_resolved_success :: u64
  ow_dropped :: u64

record DirectFlowWindow =
  fw_send :: DirectOutcomeWindow
  fw_receive :: DirectOutcomeWindow

section \<open>Rounding\<close>

text \<open>The percentage is the nearest whole number, halves rounded up; it never exceeds 100.\<close>

lemma loss_percent_nearest:
  assumes "rounded_loss_percent s d = Some p"
  shows "p \<le> 100 \<and> 200 * unat d < (2 * p + 1) * resolved_outcomes s d + 1
    \<and> (2 * p) * resolved_outcomes s d \<le> 200 * unat d + resolved_outcomes s d"
proof -
  let ?r = "resolved_outcomes s d" and ?d = "unat d"
  have r: "0 < ?r" and p: "p = min ((?d * 100 + ?r div 2) div ?r) 100"
    using assms by (auto simp: rounded_loss_percent_def Let_def split: if_splits)
  have "?d \<le> ?r" by (simp add: resolved_outcomes_def)
  define q where "q = (?d * 100 + ?r div 2) div ?r"
  have q: "q * ?r \<le> ?d * 100 + ?r div 2" "?d * 100 + ?r div 2 < (q + 1) * ?r"
    unfolding q_def using r by (simp_all add: div_times_less_eq_dividend dividend_less_div_times)
  have "q < 101"
  proof (rule ccontr)
    assume "\<not> q < 101"
    then have "101 * ?r \<le> q * ?r" by simp
    then show False using q(1) \<open>?d \<le> ?r\<close> r by linarith
  qed
  then have "p = q" using p q_def by simp
  have "2 * (?r div 2) \<le> ?r" "?r \<le> 2 * (?r div 2) + 1" by linarith+
  then show ?thesis using q \<open>p = q\<close> \<open>q < 101\<close> by (auto simp: algebra_simps)
qed

end
