(* ===== verification/Session_Health.thy ===== *)
theory Session_Health
  imports Direct_Flow
begin

text \<open>
  The health of a session (\<open>session_health.rs\<close>): the counters of every stage a packet passes, the
  snapshot that compares them with the previous one, and the verdict on the window between the two.
\<close>

section \<open>Types\<close>

definition ACTIVE_TRAFFIC_STARTUP_GRACE_SECONDS :: nat where "ACTIVE_TRAFFIC_STARTUP_GRACE_SECONDS = 15"
definition WATCH_DELIVERY_GAPS :: u64 where "WATCH_DELIVERY_GAPS = 1"
definition POOR_DELIVERY_GAPS :: u64 where "POOR_DELIVERY_GAPS = 10"
definition WATCH_DELIVERY_REORDERED :: u64 where "WATCH_DELIVERY_REORDERED = 10"

datatype SessionQuality = QuUnavailable | QuGood | QuWatch | QuPoor

datatype QualityConfidence = QcNone | QcLow | QcMedium | QcHigh

datatype SessionQualityReason =
    QrDirectSendDrop | QrDirectReceiveDrop | QrLocalQueueDrop | QrNetworkSendDrop | QrDeliveryGap
  | QrDeliveryReordered | QrHookSendStall | QrRuntimeRttTimeout | QrStartupOrIdle

fun quality_reason_rank :: "SessionQualityReason \<Rightarrow> nat" where
  "quality_reason_rank QrDirectSendDrop = 0"
| "quality_reason_rank QrDirectReceiveDrop = 1"
| "quality_reason_rank QrLocalQueueDrop = 2"
| "quality_reason_rank QrNetworkSendDrop = 3"
| "quality_reason_rank QrDeliveryGap = 4"
| "quality_reason_rank QrDeliveryReordered = 5"
| "quality_reason_rank QrHookSendStall = 6"
| "quality_reason_rank QrRuntimeRttTimeout = 7"
| "quality_reason_rank QrStartupOrIdle = 8"

record SessionHealthWindow =
  sw_duration_seconds :: nat
  sw_hook_in_packets :: u64
  sw_network_recv_packets :: u64
  sw_direct :: DirectFlowWindow
  sw_network_send_dropped :: u64
  sw_queue_drops :: u64
  sw_delivery_gaps :: u64
  sw_delivery_reordered :: u64
  sw_runtime_rtt_sent :: u64
  sw_runtime_rtt_timeouts :: u64
  sw_hook_send_over_500_ms :: u64
  sw_hook_send_over_1000_ms :: u64
  sw_network_gap_over_500_ms :: u64
  sw_network_gap_over_1000_ms :: u64

record QualityBaseline =
  qb_hook_in_packets :: u64
  qb_network_recv_packets :: u64
  qb_direct_send_succeeded :: u64
  qb_direct_send_dropped :: u64
  qb_direct_receive_accepted :: u64
  qb_direct_receive_dropped :: u64
  qb_network_send_dropped :: u64
  qb_queue_drops :: u64
  qb_delivery_gaps :: u64
  qb_delivery_reordered :: u64
  qb_runtime_rtt_sent :: u64
  qb_runtime_rtt_timeouts :: u64
  qb_hook_send_over_500_ms :: u64
  qb_hook_send_over_1000_ms :: u64
  qb_network_gap_over_500_ms :: u64
  qb_network_gap_over_1000_ms :: u64

definition baseline_default :: QualityBaseline where
  "baseline_default =
     \<lparr>qb_hook_in_packets = 0, qb_network_recv_packets = 0, qb_direct_send_succeeded = 0, qb_direct_send_dropped = 0, qb_direct_receive_accepted = 0, qb_direct_receive_dropped = 0, qb_network_send_dropped = 0, qb_queue_drops = 0, qb_delivery_gaps = 0, qb_delivery_reordered = 0, qb_runtime_rtt_sent = 0, qb_runtime_rtt_timeouts = 0, qb_hook_send_over_500_ms = 0, qb_hook_send_over_1000_ms = 0, qb_network_gap_over_500_ms = 0, qb_network_gap_over_1000_ms = 0\<rparr>"

record SessionHealth =
  sh_start :: instant
  sh_runtime_rtt_enabled :: bool
  sh_runtime_rtt_timeout :: duration
  sh_hook_in_recv :: PacketStageStats
  sh_network_recv :: PacketStageStats
  sh_network_send_duration :: LatencyAccumulator
  sh_network_send_dropped :: u64
  sh_hook_out_send_duration :: LatencyAccumulator
  sh_queues :: QueueStats
  sh_direct :: DirectFlowHealthSnapshot
  sh_delivery :: DeliveryStats
  sh_runtime_rtt :: RuntimeRttStats
  sh_quality_baseline :: QualityBaseline
  sh_last_snapshot :: instant

record SessionHealthSnapshot =
  sn_elapsed_seconds :: nat
  sn_quality :: SessionQuality
  sn_confidence :: QualityConfidence
  sn_reasons :: "SessionQualityReason list"
  sn_window :: SessionHealthWindow
  sn_hook_in_recv :: PacketStageSnapshot
  sn_network_recv :: PacketStageSnapshot
  sn_network_send_duration :: LatencySummary
  sn_network_send_dropped :: u64
  sn_hook_out_send_duration :: LatencySummary
  sn_queues :: QueueHealthSnapshot
  sn_direct :: DirectFlowHealthSnapshot
  sn_delivery :: DeliveryHealthSnapshot
  sn_runtime_rtt :: RuntimeRttSnapshot

definition session_health_new :: "bool \<Rightarrow> duration \<Rightarrow> instant \<Rightarrow> SessionHealth" where
  "session_health_new runtime_rtt_enabled runtime_rtt_timeout now =
     \<lparr>sh_start = now, sh_runtime_rtt_enabled = runtime_rtt_enabled, sh_runtime_rtt_timeout = runtime_rtt_timeout,
      sh_hook_in_recv = packet_stage_default, sh_network_recv = packet_stage_default,
      sh_network_send_duration = latency_default, sh_network_send_dropped = 0,
      sh_hook_out_send_duration = latency_default, sh_queues = queue_stats_default, sh_direct = flow_default,
      sh_delivery = delivery_stats_default, sh_runtime_rtt = runtime_rtt_default,
      sh_quality_baseline = baseline_default, sh_last_snapshot = now\<rparr>"

section \<open>Observations\<close>

definition observe_hook_in_recv :: "SessionHealth \<Rightarrow> usize \<Rightarrow> instant \<Rightarrow> SessionHealth" where
  "observe_hook_in_recv h bytes now = h\<lparr>sh_hook_in_recv := packet_stage_observe (sh_hook_in_recv h) bytes now\<rparr>"

definition observe_outbound_enqueue :: "SessionHealth \<Rightarrow> bool \<Rightarrow> SessionHealth" where
  "observe_outbound_enqueue h accepted = h\<lparr>sh_queues := observe_outbound (sh_queues h) accepted\<rparr>"

definition observe_network_send_duration :: "SessionHealth \<Rightarrow> duration \<Rightarrow> SessionHealth" where
  "observe_network_send_duration h d = h\<lparr>sh_network_send_duration := latency_observe (sh_network_send_duration h) d\<rparr>"

definition observe_network_recv :: "SessionHealth \<Rightarrow> usize \<Rightarrow> instant \<Rightarrow> SessionHealth" where
  "observe_network_recv h bytes now = h\<lparr>sh_network_recv := packet_stage_observe (sh_network_recv h) bytes now\<rparr>"

definition observe_network_send_drop :: "SessionHealth \<Rightarrow> SessionHealth" where
  "observe_network_send_drop h = h\<lparr>sh_network_send_dropped := saturating_add (sh_network_send_dropped h) 1\<rparr>"

definition observe_inbound_enqueue :: "SessionHealth \<Rightarrow> bool \<Rightarrow> SessionHealth" where
  "observe_inbound_enqueue h accepted = h\<lparr>sh_queues := observe_inbound (sh_queues h) accepted\<rparr>"

definition refresh_direct :: "SessionHealth \<Rightarrow> LanDataPlaneSnapshot \<Rightarrow> SessionHealth" where
  "refresh_direct h snapshot = h\<lparr>sh_direct := flow_from_lan snapshot\<rparr>"

definition observe_hook_out_send_duration :: "SessionHealth \<Rightarrow> duration \<Rightarrow> SessionHealth" where
  "observe_hook_out_send_duration h d = h\<lparr>sh_hook_out_send_duration := latency_observe (sh_hook_out_send_duration h) d\<rparr>"

definition health_observe_delivery :: "SessionHealth \<Rightarrow> u64 \<Rightarrow> ClientStreamId \<Rightarrow> u64 \<Rightarrow> SessionHealth" where
  "health_observe_delivery h peer stream_id sequence =
     h\<lparr>sh_delivery := observe_delivery (sh_delivery h) peer stream_id sequence\<rparr>"

definition expire_runtime_rtt :: "SessionHealth \<Rightarrow> instant \<Rightarrow> SessionHealth" where
  "expire_runtime_rtt h now =
     (if sh_runtime_rtt_enabled h
      then h\<lparr>sh_runtime_rtt := rtt_expire (sh_runtime_rtt h) now (sh_runtime_rtt_timeout h)\<rparr> else h)"

definition next_health_ping :: "SessionHealth \<Rightarrow> instant \<Rightarrow> SessionHealth \<times> u64 option" where
  "next_health_ping h now =
     (if \<not> sh_runtime_rtt_enabled h then (h, None)
      else
        let h = expire_runtime_rtt h now;
            (ping, rtt) = rtt_next_ping (sh_runtime_rtt h) now
        in (h\<lparr>sh_runtime_rtt := rtt\<rparr>, Some ping))"

definition observe_health_pong :: "SessionHealth \<Rightarrow> u64 \<Rightarrow> instant \<Rightarrow> SessionHealth" where
  "observe_health_pong h pong now =
     (if sh_runtime_rtt_enabled h then h\<lparr>sh_runtime_rtt := rtt_observe_pong (sh_runtime_rtt h) pong now\<rparr> else h)"

section \<open>The window\<close>

definition baseline_from_health ::
  "SessionHealth \<Rightarrow> PacketStageSnapshot \<Rightarrow> PacketStageSnapshot \<Rightarrow> QueueHealthSnapshot \<Rightarrow> DeliveryHealthSnapshot
     \<Rightarrow> RuntimeRttSnapshot \<Rightarrow> LatencySummary \<Rightarrow> QualityBaseline" where
  "baseline_from_health h hook_in network_recv queues delivery rtt hook_send =
     \<lparr>qb_hook_in_packets = pss_packets hook_in,
      qb_network_recv_packets = pss_packets network_recv,
      qb_direct_send_succeeded = ddh_resolved_success (dfh_send (sh_direct h)),
      qb_direct_send_dropped = ddh_dropped (dfh_send (sh_direct h)),
      qb_direct_receive_accepted = ddh_resolved_success (dfh_receive (sh_direct h)),
      qb_direct_receive_dropped = ddh_dropped (dfh_receive (sh_direct h)),
      qb_network_send_dropped = sh_network_send_dropped h,
      qb_queue_drops = total_dropped queues,
      qb_delivery_gaps = dh_confirmed_gaps delivery,
      qb_delivery_reordered = dh_reordered delivery,
      qb_runtime_rtt_sent = rts_sent rtt,
      qb_runtime_rtt_timeouts = rts_timed_out rtt,
      qb_hook_send_over_500_ms = ls_over_500_ms hook_send,
      qb_hook_send_over_1000_ms = ls_over_1000_ms hook_send,
      qb_network_gap_over_500_ms = ls_over_500_ms (pss_gap network_recv),
      qb_network_gap_over_1000_ms = ls_over_1000_ms (pss_gap network_recv)\<rparr>"

definition baseline_delta :: "QualityBaseline \<Rightarrow> QualityBaseline \<Rightarrow> duration \<Rightarrow> SessionHealthWindow" where
  "baseline_delta now previous d =
     \<lparr>sw_duration_seconds = as_secs d,
      sw_hook_in_packets = saturating_sub (qb_hook_in_packets now) (qb_hook_in_packets previous),
      sw_network_recv_packets = saturating_sub (qb_network_recv_packets now) (qb_network_recv_packets previous),
      sw_direct = \<lparr>fw_send = \<lparr>ow_resolved_success = saturating_sub (qb_direct_send_succeeded now) (qb_direct_send_succeeded previous),
                          ow_dropped = saturating_sub (qb_direct_send_dropped now) (qb_direct_send_dropped previous)\<rparr>,
                  fw_receive = \<lparr>ow_resolved_success = saturating_sub (qb_direct_receive_accepted now) (qb_direct_receive_accepted previous),
                          ow_dropped = saturating_sub (qb_direct_receive_dropped now) (qb_direct_receive_dropped previous)\<rparr>\<rparr>,
      sw_network_send_dropped = saturating_sub (qb_network_send_dropped now) (qb_network_send_dropped previous),
      sw_queue_drops = saturating_sub (qb_queue_drops now) (qb_queue_drops previous),
      sw_delivery_gaps = saturating_sub (qb_delivery_gaps now) (qb_delivery_gaps previous),
      sw_delivery_reordered = saturating_sub (qb_delivery_reordered now) (qb_delivery_reordered previous),
      sw_runtime_rtt_sent = saturating_sub (qb_runtime_rtt_sent now) (qb_runtime_rtt_sent previous),
      sw_runtime_rtt_timeouts = saturating_sub (qb_runtime_rtt_timeouts now) (qb_runtime_rtt_timeouts previous),
      sw_hook_send_over_500_ms = saturating_sub (qb_hook_send_over_500_ms now) (qb_hook_send_over_500_ms previous),
      sw_hook_send_over_1000_ms = saturating_sub (qb_hook_send_over_1000_ms now) (qb_hook_send_over_1000_ms previous),
      sw_network_gap_over_500_ms = saturating_sub (qb_network_gap_over_500_ms now) (qb_network_gap_over_500_ms previous),
      sw_network_gap_over_1000_ms = saturating_sub (qb_network_gap_over_1000_ms now) (qb_network_gap_over_1000_ms previous)\<rparr>"

section \<open>The verdict\<close>

definition window_outcomes :: "DirectOutcomeWindow \<Rightarrow> nat" where
  "window_outcomes w = resolved_outcomes (ow_resolved_success w) (ow_dropped w)"

definition has_evidence :: "SessionHealthWindow \<Rightarrow> bool" where
  "has_evidence w \<longleftrightarrow> 0 < sw_hook_in_packets w \<or> 0 < sw_network_recv_packets w
     \<or> 0 < window_outcomes (fw_send (sw_direct w)) \<or> 0 < window_outcomes (fw_receive (sw_direct w))
     \<or> 0 < sw_runtime_rtt_sent w"

text \<open>Each check adds a reason and may turn the verdict to poor.\<close>

definition quality_checks :: "SessionHealthWindow \<Rightarrow> (bool \<times> SessionQualityReason \<times> bool) list" where
  "quality_checks w =
     [(0 < ow_dropped (fw_send (sw_direct w)), QrDirectSendDrop, True),
      (0 < ow_dropped (fw_receive (sw_direct w)), QrDirectReceiveDrop, True),
      (0 < sw_queue_drops w, QrLocalQueueDrop, True),
      (0 < sw_network_send_dropped w, QrNetworkSendDrop, True),
      (WATCH_DELIVERY_GAPS \<le> sw_delivery_gaps w, QrDeliveryGap, POOR_DELIVERY_GAPS \<le> sw_delivery_gaps w),
      (WATCH_DELIVERY_REORDERED \<le> sw_delivery_reordered w, QrDeliveryReordered, False),
      (0 < sw_hook_send_over_500_ms w, QrHookSendStall, 0 < sw_hook_send_over_1000_ms w),
      (0 < sw_runtime_rtt_timeouts w, QrRuntimeRttTimeout, 3 \<le> sw_runtime_rtt_timeouts w)]"

definition evidence_count :: "SessionHealthWindow \<Rightarrow> u64" where
  "evidence_count w =
     saturating_add (saturating_add (saturating_add (saturating_add (saturating_add
       (sw_hook_in_packets w) (sw_network_recv_packets w))
       (u64_of (window_outcomes (fw_send (sw_direct w))))) (u64_of (window_outcomes (fw_receive (sw_direct w)))))
       (sw_network_send_dropped w)) (sw_runtime_rtt_sent w)"

definition classify_quality ::
  "nat \<Rightarrow> SessionHealthWindow \<Rightarrow> SessionQuality \<times> QualityConfidence \<times> SessionQualityReason list" where
  "classify_quality elapsed_seconds w =
     (if elapsed_seconds < ACTIVE_TRAFFIC_STARTUP_GRACE_SECONDS \<or> \<not> has_evidence w
      then (QuUnavailable, QcNone, [QrStartupOrIdle])
      else
        let hits = filter fst (quality_checks w);
            reasons = sort_key quality_reason_rank (map (fst \<circ> snd) hits);
            poor = list_ex (snd \<circ> snd) hits;
            n = evidence_count w
        in (if poor then QuPoor else if reasons = [] then QuGood else QuWatch,
            if 40 \<le> n then QcHigh else if 10 \<le> n then QcMedium else QcLow,
            reasons))"

definition health_snapshot :: "SessionHealth \<Rightarrow> instant \<Rightarrow> SessionHealth \<times> SessionHealthSnapshot" where
  "health_snapshot h now =
     (let h = expire_runtime_rtt h now;
          hook_in_recv = packet_stage_snapshot (sh_hook_in_recv h);
          network_recv = packet_stage_snapshot (sh_network_recv h);
          queues = queue_snapshot (sh_queues h);
          delivery = delivery_snapshot (sh_delivery h);
          rtt = rtt_snapshot (sh_runtime_rtt h) (sh_runtime_rtt_enabled h);
          network_send_duration = latency_summary (sh_network_send_duration h);
          hook_out_send_duration = latency_summary (sh_hook_out_send_duration h);
          elapsed_seconds = as_secs (duration_since now (sh_start h));
          current = baseline_from_health h hook_in_recv network_recv queues delivery rtt hook_out_send_duration;
          window = baseline_delta current (sh_quality_baseline h) (duration_since now (sh_last_snapshot h));
          (quality, confidence, reasons) = classify_quality elapsed_seconds window
      in (h\<lparr>sh_quality_baseline := current, sh_last_snapshot := now\<rparr>,
          \<lparr>sn_elapsed_seconds = elapsed_seconds, sn_quality = quality, sn_confidence = confidence, sn_reasons = reasons,
           sn_window = window, sn_hook_in_recv = hook_in_recv, sn_network_recv = network_recv,
           sn_network_send_duration = network_send_duration, sn_network_send_dropped = sh_network_send_dropped h,
           sn_hook_out_send_duration = hook_out_send_duration, sn_queues = queues, sn_direct = sh_direct h,
           sn_delivery = delivery, sn_runtime_rtt = rtt\<rparr>))"

section \<open>A session's windows\<close>

text \<open>What the session reports to its health object, in any order.\<close>

datatype HealthOp =
    HoHookIn usize instant | HoOutbound bool | HoNetworkSend duration | HoNetworkRecv usize instant
  | HoNetworkDrop | HoInbound bool | HoDirect LanDataPlaneSnapshot | HoHookOut duration
  | HoDelivery u64 ClientStreamId u64 | HoExpire instant | HoPing instant | HoPong u64 instant
  | HoSnapshot instant

fun health_step :: "HealthOp \<Rightarrow> SessionHealth \<Rightarrow> SessionHealth \<times> SessionHealthSnapshot list" where
  "health_step (HoHookIn n now) h = (observe_hook_in_recv h n now, [])"
| "health_step (HoOutbound b) h = (observe_outbound_enqueue h b, [])"
| "health_step (HoNetworkSend d) h = (observe_network_send_duration h d, [])"
| "health_step (HoNetworkRecv n now) h = (observe_network_recv h n now, [])"
| "health_step HoNetworkDrop h = (observe_network_send_drop h, [])"
| "health_step (HoInbound b) h = (observe_inbound_enqueue h b, [])"
| "health_step (HoDirect s) h = (refresh_direct h s, [])"
| "health_step (HoHookOut d) h = (observe_hook_out_send_duration h d, [])"
| "health_step (HoDelivery p s q) h = (health_observe_delivery h p s q, [])"
| "health_step (HoExpire now) h = (expire_runtime_rtt h now, [])"
| "health_step (HoPing now) h = (fst (next_health_ping h now), [])"
| "health_step (HoPong i now) h = (observe_health_pong h i now, [])"
| "health_step (HoSnapshot now) h = (let (h, s) = health_snapshot h now in (h, [s]))"

fun health_run :: "HealthOp list \<Rightarrow> SessionHealth \<Rightarrow> SessionHealth \<times> SessionHealthSnapshot list" where
  "health_run [] h = (h, [])"
| "health_run (op # ops) h =
     (let (h, out) = health_step op h; (h, more) = health_run ops h in (h, out @ more))"

text \<open>The total of one counter over the windows of some snapshots.\<close>

definition window_total :: "(SessionHealthWindow \<Rightarrow> u64) \<Rightarrow> SessionHealthSnapshot list \<Rightarrow> nat" where
  "window_total f snaps = (\<Sum>s\<leftarrow>snaps. unat (f (sn_window s)))"

lemma window_total_simps [simp]:
  "window_total f [] = 0"
  "window_total f (s # snaps) = unat (f (sn_window s)) + window_total f snaps"
  "window_total f (xs @ ys) = window_total f xs + window_total f ys"
  by (simp_all add: window_total_def)

text \<open>The facts of a snapshot, field by field.\<close>

definition current_baseline :: "SessionHealth \<Rightarrow> QualityBaseline" where
  "current_baseline h =
     baseline_from_health h (packet_stage_snapshot (sh_hook_in_recv h)) (packet_stage_snapshot (sh_network_recv h))
       (queue_snapshot (sh_queues h)) (delivery_snapshot (sh_delivery h))
       (rtt_snapshot (sh_runtime_rtt h) (sh_runtime_rtt_enabled h)) (latency_summary (sh_hook_out_send_duration h))"

lemma snapshot_state:
  "fst (health_snapshot h now) =
     (expire_runtime_rtt h now)\<lparr>sh_quality_baseline := current_baseline (expire_runtime_rtt h now), sh_last_snapshot := now\<rparr>"
  by (simp add: health_snapshot_def Let_def current_baseline_def split: prod.split)

lemma expire_keeps_baseline [simp]: "sh_quality_baseline (expire_runtime_rtt h now) = sh_quality_baseline h"
  by (simp add: expire_runtime_rtt_def)

lemma snapshot_window:
  "sn_window (snd (health_snapshot h now)) =
     baseline_delta (current_baseline (expire_runtime_rtt h now)) (sh_quality_baseline h)
       (duration_since now (sh_last_snapshot (expire_runtime_rtt h now)))"
  by (simp add: health_snapshot_def Let_def current_baseline_def split: prod.split)

text \<open>
  A counter of the session: its value now, its place in the baseline and in the window.  It never
  decreases, and the window holds its difference from the baseline.
\<close>

locale health_counter =
  fixes base :: "QualityBaseline \<Rightarrow> u64" and win :: "SessionHealthWindow \<Rightarrow> u64"
  assumes counter_mono: "base (current_baseline h) \<le> base (current_baseline (fst (health_step op h)))"
    and win_delta: "win (baseline_delta b b' d) = saturating_sub (base b) (base b')"
    and base_default: "base baseline_default = 0"
begin

lemma step_adds:
  assumes "base (sh_quality_baseline h) \<le> base (current_baseline h)" and "health_step op h = (h', out)"
  shows "base (sh_quality_baseline h') \<le> base (current_baseline h')
    \<and> unat (base (sh_quality_baseline h')) = unat (base (sh_quality_baseline h)) + window_total win out"
proof -
  have m: "base (current_baseline h) \<le> base (current_baseline h')"
    using counter_mono [of h op] assms(2) by simp
  show ?thesis
  proof (cases op)
    case (HoSnapshot now)
    let ?e = "expire_runtime_rtt h now"
    have e: "base (current_baseline h) \<le> base (current_baseline ?e)" using counter_mono [of h "HoExpire now"] by simp
    have "h' = fst (health_snapshot h now)" "out = [snd (health_snapshot h now)]"
      using assms(2) HoSnapshot by (auto split: prod.splits)
    moreover have "sh_quality_baseline (fst (health_snapshot h now)) = current_baseline ?e"
      "current_baseline (fst (health_snapshot h now)) = current_baseline ?e"
      by (simp_all add: snapshot_state current_baseline_def baseline_from_health_def)
    ultimately show ?thesis using e assms(1)
      by (simp add: snapshot_window win_delta unat_saturating_sub word_le_nat_alt)
  qed (use m assms in \<open>auto simp: observe_hook_in_recv_def observe_outbound_enqueue_def observe_network_send_duration_def
         observe_network_recv_def observe_network_send_drop_def observe_inbound_enqueue_def refresh_direct_def
         observe_hook_out_send_duration_def health_observe_delivery_def next_health_ping_def observe_health_pong_def
         Let_def split: prod.splits if_splits\<close>)
qed

lemma run_adds:
  assumes "base (sh_quality_baseline h) \<le> base (current_baseline h)" and "health_run ops h = (h', out)"
  shows "unat (base (sh_quality_baseline h')) = unat (base (sh_quality_baseline h)) + window_total win out"
  using assms
proof (induction ops arbitrary: h out)
  case (Cons op ops)
  obtain h1 o1 where 1: "health_step op h = (h1, o1)" by fastforce
  obtain o2 where 2: "health_run ops h1 = (h', o2)" "out = o1 @ o2"
    using Cons.prems(2) 1 by (auto split: prod.splits)
  show ?case using Cons.IH [OF _ 2(1)] step_adds [OF Cons.prems(1) 1] 2(2) by simp
qed simp

lemma session_adds_up:
  assumes "health_run ops (session_health_new e t start) = (h', out)"
  shows "window_total win out = unat (base (sh_quality_baseline h'))"
  using run_adds [OF _ assms] by (simp add: session_health_new_def base_default)

end

section \<open>The counters only grow\<close>

lemma count_if_ge: "c \<le> count_if b c"
  by (simp add: count_if_def saturating_add_ge)

lemma latency_observe_grows:
  "la_over_500_ms a \<le> la_over_500_ms (latency_observe a d)"
  "la_over_1000_ms a \<le> la_over_1000_ms (latency_observe a d)"
  by (simp_all add: latency_observe_def Let_def count_if_ge)

lemma packet_stage_grows:
  "ps_packets p \<le> ps_packets (packet_stage_observe p n now)"
  "la_over_500_ms (ps_gaps p) \<le> la_over_500_ms (ps_gaps (packet_stage_observe p n now))"
  "la_over_1000_ms (ps_gaps p) \<le> la_over_1000_ms (ps_gaps (packet_stage_observe p n now))"
  by (simp_all add: packet_stage_observe_def saturating_add_ge latency_observe_grows split: option.split)

lemma saturating_add_commute: "saturating_add a b = saturating_add b (a :: 'a::len word)"
  by (rule word_unat_eq_iff [THEN iffD2]) (simp add: unat_saturating_add add.commute)

lemma total_dropped_grows:
  "total_dropped q \<le> total_dropped (observe_outbound q b)" "total_dropped q \<le> total_dropped (observe_inbound q b)"
proof -
  show "total_dropped q \<le> total_dropped (observe_outbound q b)"
    by (simp add: total_dropped_def observe_outbound_def saturating_add_ge saturating_add_mono)
  show "total_dropped q \<le> total_dropped (observe_inbound q b)"
    unfolding total_dropped_def saturating_add_commute [of "qs_outbound_dropped _"]
    by (simp add: observe_inbound_def saturating_add_ge saturating_add_mono)
qed

lemma count_outcome_grows:
  "ds_confirmed_gaps d \<le> ds_confirmed_gaps (count_outcome out d)" "ds_reordered d \<le> ds_reordered (count_outcome out d)"
  by (cases out; simp add: saturating_add_ge)+

lemma delivery_grows:
  "ds_confirmed_gaps d \<le> ds_confirmed_gaps (observe_delivery d p s q)"
  "ds_reordered d \<le> ds_reordered (observe_delivery d p s q)"
  using count_outcome_grows [of "d\<lparr>ds_by_peer := m\<rparr>" for m]
  by (auto simp: observe_delivery_def Let_def split: option.split prod.split)

lemma rtt_grows:
  "rt_sent r \<le> rt_sent (snd (rtt_next_ping r now))" "rt_timed_out (snd (rtt_next_ping r now)) = rt_timed_out r"
  "rt_sent (rtt_observe_pong r i now) = rt_sent r" "rt_timed_out (rtt_observe_pong r i now) = rt_timed_out r"
  "rt_sent (rtt_expire r now t) = rt_sent r" "rt_timed_out r \<le> rt_timed_out (rtt_expire r now t)"
  by (simp_all add: rtt_next_ping_def rtt_observe_pong_def rtt_expire_def Let_def saturating_add_ge split: option.split)

definition counters_le :: "QualityBaseline \<Rightarrow> QualityBaseline \<Rightarrow> bool" where
  "counters_le b b' \<longleftrightarrow>
     qb_hook_in_packets b \<le> qb_hook_in_packets b' \<and> qb_network_recv_packets b \<le> qb_network_recv_packets b'
     \<and> qb_network_send_dropped b \<le> qb_network_send_dropped b' \<and> qb_queue_drops b \<le> qb_queue_drops b'
     \<and> qb_delivery_gaps b \<le> qb_delivery_gaps b' \<and> qb_delivery_reordered b \<le> qb_delivery_reordered b'
     \<and> qb_runtime_rtt_sent b \<le> qb_runtime_rtt_sent b' \<and> qb_runtime_rtt_timeouts b \<le> qb_runtime_rtt_timeouts b'
     \<and> qb_hook_send_over_500_ms b \<le> qb_hook_send_over_500_ms b'
     \<and> qb_hook_send_over_1000_ms b \<le> qb_hook_send_over_1000_ms b'
     \<and> qb_network_gap_over_500_ms b \<le> qb_network_gap_over_500_ms b'
     \<and> qb_network_gap_over_1000_ms b \<le> qb_network_gap_over_1000_ms b'"

lemmas current_baseline_fields =
  counters_le_def current_baseline_def baseline_from_health_def packet_stage_snapshot_def queue_snapshot_def
  delivery_snapshot_def rtt_snapshot_def latency_summary_def Let_def

lemma expire_grows: "counters_le (current_baseline h) (current_baseline (expire_runtime_rtt h now))"
  by (simp add: current_baseline_fields expire_runtime_rtt_def rtt_grows)

lemma counters_le_trans: "counters_le a b \<Longrightarrow> counters_le b c \<Longrightarrow> counters_le a c"
  unfolding counters_le_def by (meson order_trans)

lemma ping_grows: "counters_le (current_baseline h) (current_baseline (fst (next_health_ping h now)))"
proof (cases "sh_runtime_rtt_enabled h")
  case True
  let ?e = "expire_runtime_rtt h now"
  have "fst (next_health_ping h now) = ?e\<lparr>sh_runtime_rtt := snd (rtt_next_ping (sh_runtime_rtt ?e) now)\<rparr>"
    using True by (simp add: next_health_ping_def Let_def split: prod.split)
  moreover have "counters_le (current_baseline ?e)
      (current_baseline (?e\<lparr>sh_runtime_rtt := snd (rtt_next_ping (sh_runtime_rtt ?e) now)\<rparr>))"
    by (simp add: current_baseline_fields rtt_grows)
  ultimately show ?thesis using expire_grows counters_le_trans by metis
next
  case False
  then show ?thesis by (simp add: next_health_ping_def counters_le_def)
qed

lemma step_grows: "counters_le (current_baseline h) (current_baseline (fst (health_step op h)))"
proof (cases op)
  case (HoSnapshot now)
  have "current_baseline (fst (health_snapshot h now)) = current_baseline (expire_runtime_rtt h now)"
    by (simp add: snapshot_state current_baseline_def baseline_from_health_def)
  then show ?thesis using HoSnapshot expire_grows [of h now] by (simp split: prod.split) (metis fst_conv)
qed (simp_all add: ping_grows expire_grows, simp_all add: current_baseline_fields observe_hook_in_recv_def
       observe_outbound_enqueue_def observe_network_send_duration_def observe_network_recv_def
       observe_network_send_drop_def observe_inbound_enqueue_def refresh_direct_def observe_hook_out_send_duration_def
       health_observe_delivery_def observe_health_pong_def packet_stage_grows total_dropped_grows saturating_add_ge
       latency_observe_grows delivery_grows rtt_grows)

lemmas step_counters = step_grows [unfolded counters_le_def, rule_format]

lemmas counter_laws = baseline_delta_def baseline_default_def step_counters

interpretation hook_in: health_counter qb_hook_in_packets sw_hook_in_packets
  by unfold_locales (simp_all add: counter_laws)

interpretation network_recv: health_counter qb_network_recv_packets sw_network_recv_packets
  by unfold_locales (simp_all add: counter_laws)

interpretation network_drops: health_counter qb_network_send_dropped sw_network_send_dropped
  by unfold_locales (simp_all add: counter_laws)

interpretation queue_drops: health_counter qb_queue_drops sw_queue_drops
  by unfold_locales (simp_all add: counter_laws)

interpretation gaps: health_counter qb_delivery_gaps sw_delivery_gaps
  by unfold_locales (simp_all add: counter_laws)

interpretation reordered: health_counter qb_delivery_reordered sw_delivery_reordered
  by unfold_locales (simp_all add: counter_laws)

interpretation rtt_sent: health_counter qb_runtime_rtt_sent sw_runtime_rtt_sent
  by unfold_locales (simp_all add: counter_laws)

interpretation rtt_timeouts: health_counter qb_runtime_rtt_timeouts sw_runtime_rtt_timeouts
  by unfold_locales (simp_all add: counter_laws)

interpretation stalls_500: health_counter qb_hook_send_over_500_ms sw_hook_send_over_500_ms
  by unfold_locales (simp_all add: counter_laws)

interpretation stalls_1000: health_counter qb_hook_send_over_1000_ms sw_hook_send_over_1000_ms
  by unfold_locales (simp_all add: counter_laws)

interpretation gaps_500: health_counter qb_network_gap_over_500_ms sw_network_gap_over_500_ms
  by unfold_locales (simp_all add: counter_laws)

interpretation gaps_1000: health_counter qb_network_gap_over_1000_ms sw_network_gap_over_1000_ms
  by unfold_locales (simp_all add: counter_laws)

text \<open>The totals a snapshot shows are those of the new baseline.\<close>

lemma snapshot_totals:
  assumes "health_snapshot h now = (h', s)"
  shows "pss_packets (sn_hook_in_recv s) = qb_hook_in_packets (sh_quality_baseline h')"
    "pss_packets (sn_network_recv s) = qb_network_recv_packets (sh_quality_baseline h')"
    "sn_network_send_dropped s = qb_network_send_dropped (sh_quality_baseline h')"
    "total_dropped (sn_queues s) = qb_queue_drops (sh_quality_baseline h')"
    "dh_confirmed_gaps (sn_delivery s) = qb_delivery_gaps (sh_quality_baseline h')"
    "dh_reordered (sn_delivery s) = qb_delivery_reordered (sh_quality_baseline h')"
    "rts_sent (sn_runtime_rtt s) = qb_runtime_rtt_sent (sh_quality_baseline h')"
    "rts_timed_out (sn_runtime_rtt s) = qb_runtime_rtt_timeouts (sh_quality_baseline h')"
    "ls_over_500_ms (sn_hook_out_send_duration s) = qb_hook_send_over_500_ms (sh_quality_baseline h')"
    "ls_over_1000_ms (pss_gap (sn_network_recv s)) = qb_network_gap_over_1000_ms (sh_quality_baseline h')"
  using assms by (auto simp: health_snapshot_def Let_def baseline_from_health_def split: prod.splits)

lemma health_run_append:
  "health_run (xs @ ys) h =
     (let (h, a) = health_run xs h; (h, b) = health_run ys h in (h, a @ b))"
  by (induction xs arbitrary: h) (simp_all add: Let_def split: prod.split)

lemma final_snapshot:
  obtains h s h' before where "health_run ops h0 = (h, before)" "health_snapshot h now = (h', s)"
    "health_run (ops @ [HoSnapshot now]) h0 = (h', before @ [s])"
proof -
  obtain h before where 1: "health_run ops h0 = (h, before)" by fastforce
  obtain h' s where 2: "health_snapshot h now = (h', s)" by fastforce
  show ?thesis using that [OF 1 2] 1 2 by (simp add: health_run_append)
qed

text \<open>
  C33: Whatever a session reports in whatever order, the windows of all its health snapshots add up to the
  totals of the last one: every packet, drop, confirmed gap, reordering, probe, probe timeout and hook stall
  is judged in exactly one window, none is judged twice and none is skipped between two snapshots.  (The
  counters of the direct path are left out: a restarted data plane starts them again.)
\<close>

theorem health_windows_add_up:
  "case snd (health_run (ops @ [HoSnapshot now]) (session_health_new e t start)) of snaps \<Rightarrow>
     window_total sw_hook_in_packets snaps = unat (pss_packets (sn_hook_in_recv (last snaps)))
     \<and> window_total sw_network_recv_packets snaps = unat (pss_packets (sn_network_recv (last snaps)))
     \<and> window_total sw_network_send_dropped snaps = unat (sn_network_send_dropped (last snaps))
     \<and> window_total sw_queue_drops snaps = unat (total_dropped (sn_queues (last snaps)))
     \<and> window_total sw_delivery_gaps snaps = unat (dh_confirmed_gaps (sn_delivery (last snaps)))
     \<and> window_total sw_delivery_reordered snaps = unat (dh_reordered (sn_delivery (last snaps)))
     \<and> window_total sw_runtime_rtt_sent snaps = unat (rts_sent (sn_runtime_rtt (last snaps)))
     \<and> window_total sw_runtime_rtt_timeouts snaps = unat (rts_timed_out (sn_runtime_rtt (last snaps)))
     \<and> window_total sw_hook_send_over_500_ms snaps = unat (ls_over_500_ms (sn_hook_out_send_duration (last snaps)))
     \<and> window_total sw_network_gap_over_1000_ms snaps = unat (ls_over_1000_ms (pss_gap (sn_network_recv (last snaps))))"
proof -
  obtain h s h' before where run: "health_run (ops @ [HoSnapshot now]) (session_health_new e t start) = (h', before @ [s])"
    and snap: "health_snapshot h now = (h', s)"
    by (rule final_snapshot)
  show ?thesis
    unfolding run using snapshot_totals [OF snap]
    by (simp del: window_total_simps add: hook_in.session_adds_up [OF run] network_recv.session_adds_up [OF run]
        network_drops.session_adds_up [OF run] queue_drops.session_adds_up [OF run] gaps.session_adds_up [OF run]
        reordered.session_adds_up [OF run] rtt_sent.session_adds_up [OF run] rtt_timeouts.session_adds_up [OF run]
        stalls_500.session_adds_up [OF run] gaps_1000.session_adds_up [OF run])
qed

section \<open>The verdict never hides a loss\<close>

text \<open>A verdict of good is given only on evidence and without a single drop, gap, stall or timeout.\<close>

lemma good_is_clean:
  assumes "classify_quality elapsed w = (QuGood, confidence, reasons)"
  shows "reasons = [] \<and> has_evidence w \<and> ACTIVE_TRAFFIC_STARTUP_GRACE_SECONDS \<le> elapsed
    \<and> ow_dropped (fw_send (sw_direct w)) = 0 \<and> ow_dropped (fw_receive (sw_direct w)) = 0
    \<and> sw_queue_drops w = 0 \<and> sw_network_send_dropped w = 0 \<and> sw_delivery_gaps w = 0
    \<and> sw_hook_send_over_500_ms w = 0 \<and> sw_runtime_rtt_timeouts w = 0"
proof -
  have one: "1 \<le> x \<longleftrightarrow> x \<noteq> 0" for x :: u64 by (simp add: word_le_nat_alt Suc_le_eq unat_gt_0)
  show ?thesis using assms
    by (auto simp: classify_quality_def Let_def quality_checks_def word_gt_0 WATCH_DELIVERY_GAPS_def one
             split: if_splits)
qed

end
