(* ===== verification/Path_Quality.thy ===== *)
theory Path_Quality
  imports Session_Health Relay_Bootstrap
begin

text \<open>
  The quality of the paths in a room: the probes to every capable peer
  (\<open>bridge-core/src/client/room_path_quality.rs\<close>), the round-trip time to the relay
  (\<open>session/relay_rtt.rs\<close>) and the estimate of smoothness drawn from them and from the session's
  health (\<open>smoothness.rs\<close>).
\<close>

section \<open>Probes to the peers of a room\<close>

definition COMPLETED_CAPACITY :: usize where "COMPLETED_CAPACITY = 30"
definition MIN_COMPLETED_SAMPLES :: usize where "MIN_COMPLETED_SAMPLES = 5"
definition PROBE_TIMEOUT :: duration where "PROBE_TIMEOUT = 3 * 10 ^ 9"
definition STALE_AFTER :: duration where "STALE_AFTER = 5 * 10 ^ 9"

datatype RoomPathQualityState = RqUnavailable | RqMeasuring | RqCurrent | RqStale

record RoomPathQualitySnapshot =
  rq_steam_id64 :: u64
  rq_state :: RoomPathQualityState
  rq_completed :: u32
  rq_responses :: u32
  rq_median_rtt :: "duration option"
  rq_p95_rtt :: "duration option"
  rq_jitter :: "duration option"
  rq_loss_basis_points :: "u16 option"
  rq_freshness :: "duration option"

datatype CompletedProbe = CpResponse duration | CpTimeout

fun is_response :: "CompletedProbe \<Rightarrow> bool" where
  "is_response (CpResponse _) = True"
| "is_response CpTimeout = False"

fun response_rtt :: "CompletedProbe \<Rightarrow> duration option" where
  "response_rtt (CpResponse rtt) = Some rtt"
| "response_rtt CpTimeout = None"

record PeerMeasurement =
  pm_pending :: "(u64, instant) hmap"
  pm_completed :: "CompletedProbe list"
  pm_last_completed :: "instant option"

definition measurement_default :: PeerMeasurement where
  "measurement_default = \<lparr>pm_pending = [], pm_completed = [], pm_last_completed = None\<rparr>"

type_synonym RoomPathQuality = "(u64, PeerMeasurement) hmap"

text \<open>A peer that can be probed: connected, not the local one, and with the capability.\<close>

definition probe_target :: "u64 \<Rightarrow> PeerPresenceInfo \<Rightarrow> bool" where
  "probe_target local_steam_id64 peer \<longleftrightarrow>
     ppi_steam_id64 peer \<noteq> local_steam_id64 \<and> ppi_presence peer = WConnected
     \<and> ppi_capabilities peer AND CAP_ROOM_PATH_PROBE \<noteq> 0"

definition add_target :: "u64 \<Rightarrow> PeerPresenceInfo \<Rightarrow> RoomPathQuality \<Rightarrow> RoomPathQuality" where
  "add_target local_steam_id64 peer q =
     (if probe_target local_steam_id64 peer \<and> \<not> hm_contains q (ppi_steam_id64 peer)
      then hm_insert (ppi_steam_id64 peer) measurement_default q else q)"

definition sync_peers :: "RoomPathQuality \<Rightarrow> PeerPresenceInfo list \<Rightarrow> u64 \<Rightarrow> RoomPathQuality" where
  "sync_peers q peers local_steam_id64 =
     fold (add_target local_steam_id64) peers
       (hm_retain (\<lambda>k _. list_ex (\<lambda>p. ppi_steam_id64 p = k \<and> probe_target local_steam_id64 p) peers) q)"

definition quality_targets :: "RoomPathQuality \<Rightarrow> u64 list" where
  "quality_targets q = map fst q"

definition record_sent :: "RoomPathQuality \<Rightarrow> u64 \<Rightarrow> u64 \<Rightarrow> instant \<Rightarrow> RoomPathQuality" where
  "record_sent q target probe_id now =
     (case hm_get q target of
        None \<Rightarrow> q
      | Some peer \<Rightarrow> hm_insert target (peer\<lparr>pm_pending := hm_insert probe_id now (pm_pending peer)\<rparr>) q)"

fun drop_front :: "CompletedProbe list \<Rightarrow> CompletedProbe list" where
  "drop_front xs = (if COMPLETED_CAPACITY < length xs then drop_front (tl xs) else xs)"

declare drop_front.simps [simp del]

definition measurement_complete :: "PeerMeasurement \<Rightarrow> CompletedProbe \<Rightarrow> instant \<Rightarrow> PeerMeasurement" where
  "measurement_complete peer result now =
     peer\<lparr>pm_completed := drop_front (pm_completed peer @ [result]), pm_last_completed := Some now\<rparr>"

definition record_echo :: "RoomPathQuality \<Rightarrow> u64 \<Rightarrow> u64 \<Rightarrow> instant \<Rightarrow> RoomPathQuality \<times> bool" where
  "record_echo q source probe_id now =
     (case hm_get q source of
        None \<Rightarrow> (q, False)
      | Some peer \<Rightarrow>
          (case hm_get (pm_pending peer) probe_id of
             None \<Rightarrow> (q, False)
           | Some sent_at \<Rightarrow>
               (hm_insert source
                  (measurement_complete (peer\<lparr>pm_pending := hm_remove probe_id (pm_pending peer)\<rparr>)
                     (CpResponse (duration_since now sent_at)) now) q, True)))"

definition expire_one :: "instant \<Rightarrow> u64 \<Rightarrow> PeerMeasurement \<Rightarrow> PeerMeasurement" where
  "expire_one now probe_id peer =
     measurement_complete (peer\<lparr>pm_pending := hm_remove probe_id (pm_pending peer)\<rparr>) CpTimeout now"

definition expire_peer :: "instant \<Rightarrow> PeerMeasurement \<Rightarrow> PeerMeasurement" where
  "expire_peer now peer =
     (let expired = map fst (filter (\<lambda>(_, sent_at). PROBE_TIMEOUT \<le> duration_since now sent_at) (pm_pending peer))
      in fold (expire_one now) expired peer)"

definition quality_expire :: "RoomPathQuality \<Rightarrow> instant \<Rightarrow> RoomPathQuality" where
  "quality_expire q now = map (\<lambda>(k, peer). (k, expire_peer now peer)) q"

text \<open>\<open>u32::try_from(n).unwrap_or(u32::MAX)\<close>\<close>

definition u32_of :: "nat \<Rightarrow> u32" where
  "u32_of n = (if n < 2 ^ 32 then of_nat n else - 1)"

definition usize_saturating_mul :: "usize \<Rightarrow> usize \<Rightarrow> usize" where
  "usize_saturating_mul a b = min (a * b) usize_max"

definition duration_percentile :: "duration list \<Rightarrow> usize \<Rightarrow> duration option" where
  "duration_percentile sorted_rtts p =
     (if sorted_rtts = [] then None
      else
        let numerator = usize_saturating_mul (length sorted_rtts - 1) p;
            index = (numerator + 50) div 100
        in if index < length sorted_rtts then Some (sorted_rtts ! index) else None)"

definition as_micros :: "duration \<Rightarrow> nat" where
  "as_micros d = d div 1000"

definition from_micros :: "u64 \<Rightarrow> duration" where
  "from_micros n = 1000 * unat n"

definition abs_diff :: "nat \<Rightarrow> nat \<Rightarrow> nat" where
  "abs_diff a b = (if a < b then b - a else a - b)"

text \<open>The sum of the differences and their number; neither reaches \<open>u128::MAX\<close>.\<close>

fun jitter_loop :: "duration \<Rightarrow> nat \<Rightarrow> nat \<Rightarrow> duration list \<Rightarrow> nat \<times> nat" where
  "jitter_loop previous total_micros deltas [] = (total_micros, deltas)"
| "jitter_loop previous total_micros deltas (current # rest) =
     jitter_loop current (total_micros + as_micros (abs_diff current previous)) (deltas + 1) rest"

definition window_jitter :: "CompletedProbe list \<Rightarrow> duration option" where
  "window_jitter samples =
     (case List.map_filter response_rtt samples of
        [] \<Rightarrow> None
      | first # rest \<Rightarrow>
          (case jitter_loop first 0 0 rest of
             (total_micros, deltas) \<Rightarrow>
               if 0 < deltas then Some (from_micros (u64_of (total_micros div deltas))) else None))"

definition loss_points :: "usize \<Rightarrow> usize \<Rightarrow> u16" where
  "loss_points completed responses =
     (let loss = usize_saturating_mul (completed - responses) 10000 div completed
      in if loss < 2 ^ 16 then of_nat loss else 10000)"

definition measurement_snapshot :: "PeerMeasurement \<Rightarrow> u64 \<Rightarrow> instant \<Rightarrow> RoomPathQualitySnapshot" where
  "measurement_snapshot peer steam_id64 now =
     (let completed = length (pm_completed peer);
          responses = length (filter is_response (pm_completed peer));
          freshness = map_option (duration_since now) (pm_last_completed peer);
          state = (if completed < MIN_COMPLETED_SAMPLES then RqMeasuring
                   else if (case freshness of None \<Rightarrow> False | Some age \<Rightarrow> STALE_AFTER < age) then RqStale
                   else RqCurrent);
          rtts = sort (List.map_filter response_rtt (pm_completed peer))
      in \<lparr>rq_steam_id64 = steam_id64, rq_state = state, rq_completed = u32_of completed,
          rq_responses = u32_of responses, rq_median_rtt = duration_percentile rtts 50,
          rq_p95_rtt = duration_percentile rtts 95, rq_jitter = window_jitter (pm_completed peer),
          rq_loss_basis_points =
            (if MIN_COMPLETED_SAMPLES \<le> completed then Some (loss_points completed responses) else None),
          rq_freshness = freshness\<rparr>)"

definition quality_snapshots :: "RoomPathQuality \<Rightarrow> instant \<Rightarrow> RoomPathQualitySnapshot list" where
  "quality_snapshots q now =
     sort_key rq_steam_id64 (map (\<lambda>(steam_id64, peer). measurement_snapshot peer steam_id64 now) q)"

definition quality_clear :: "RoomPathQuality \<Rightarrow> RoomPathQuality" where
  "quality_clear q = []"

section \<open>Round trips to the relay\<close>

definition ROOM_RTT_NAMESPACE :: u64 where "ROOM_RTT_NAMESPACE = push_bit 63 1"
definition ROLLING_SAMPLE_COUNT :: usize where "ROLLING_SAMPLE_COUNT = 5"
definition STALE_THRESHOLD :: duration where "STALE_THRESHOLD = 4 * 10 ^ 9"
definition PENDING_TIMEOUT :: duration where "PENDING_TIMEOUT = 5 * 10 ^ 9"

record RelayRttTracker =
  rr_next_counter :: u64
  rr_pending :: "(u64, instant) hmap"
  rr_recent_rtts :: "duration list"
  rr_last_update :: "instant option"

definition relay_rtt_default :: RelayRttTracker where
  "relay_rtt_default = \<lparr>rr_next_counter = 1, rr_pending = [], rr_recent_rtts = [], rr_last_update = None\<rparr>"

definition relay_next_ping :: "RelayRttTracker \<Rightarrow> instant \<Rightarrow> RelayRttTracker \<times> u64" where
  "relay_next_ping t now =
     (let counter = rr_next_counter t;
          ping = ROOM_RTT_NAMESPACE OR counter
      in (t\<lparr>rr_next_counter := counter + 1, rr_pending := hm_insert ping now (rr_pending t)\<rparr>, ping))"

definition relay_is_stale :: "RelayRttTracker \<Rightarrow> instant \<Rightarrow> bool" where
  "relay_is_stale t now \<longleftrightarrow>
     (case rr_last_update t of None \<Rightarrow> True | Some last_at \<Rightarrow> STALE_THRESHOLD < duration_since now last_at)"

definition relay_current_rtt :: "RelayRttTracker \<Rightarrow> instant \<Rightarrow> duration option" where
  "relay_current_rtt t now =
     (if relay_is_stale t now \<or> rr_recent_rtts t = [] then None
      else let sorted_rtts = sort (rr_recent_rtts t) in Some (sorted_rtts ! (length sorted_rtts div 2)))"

definition relay_observe_pong :: "RelayRttTracker \<Rightarrow> u64 \<Rightarrow> instant \<Rightarrow> RelayRttTracker \<times> duration option" where
  "relay_observe_pong t pong now =
     (case hm_get (rr_pending t) pong of
        None \<Rightarrow> (t, None)
      | Some sent_at \<Rightarrow>
          let recent = (if ROLLING_SAMPLE_COUNT \<le> length (rr_recent_rtts t) then tl (rr_recent_rtts t)
                        else rr_recent_rtts t);
              t = t\<lparr>rr_pending := hm_remove pong (rr_pending t),
                    rr_recent_rtts := recent @ [duration_since now sent_at], rr_last_update := Some now\<rparr>
          in (t, relay_current_rtt t now))"

definition relay_expire :: "RelayRttTracker \<Rightarrow> instant \<Rightarrow> RelayRttTracker" where
  "relay_expire t now =
     t\<lparr>rr_pending := hm_retain (\<lambda>_ sent_at. duration_since now sent_at \<le> PENDING_TIMEOUT) (rr_pending t)\<rparr>"

definition relay_reset :: "RelayRttTracker \<Rightarrow> RelayRttTracker" where
  "relay_reset t = t\<lparr>rr_pending := [], rr_recent_rtts := [], rr_last_update := None\<rparr>"

section \<open>Smoothness\<close>

definition WATCH_PATH_P95 :: duration where "WATCH_PATH_P95 = 120 * 10 ^ 6"
definition POOR_PATH_P95 :: duration where "POOR_PATH_P95 = 250 * 10 ^ 6"
definition WATCH_JITTER :: duration where "WATCH_JITTER = 30 * 10 ^ 6"
definition POOR_JITTER :: duration where "POOR_JITTER = 80 * 10 ^ 6"
definition WATCH_LOSS_BASIS_POINTS :: u16 where "WATCH_LOSS_BASIS_POINTS = 200"
definition POOR_LOSS_BASIS_POINTS :: u16 where "POOR_LOSS_BASIS_POINTS = 1000"

datatype SmoothnessReason =
    SmPathRttElevated | SmPathLoss | SmPathJitterElevated | SmDirectSendDrop | SmDirectReceiveDrop
  | SmLocalQueueDrop | SmNetworkSendDrop | SmDeliveryGap | SmDeliveryReordered | SmHookSendStall
  | SmRuntimeRttTimeout | SmStalePathSamples | SmInsufficientCurrentData

fun smoothness_rank :: "SmoothnessReason \<Rightarrow> nat" where
  "smoothness_rank SmPathRttElevated = 0"
| "smoothness_rank SmPathLoss = 1"
| "smoothness_rank SmPathJitterElevated = 2"
| "smoothness_rank SmDirectSendDrop = 3"
| "smoothness_rank SmDirectReceiveDrop = 4"
| "smoothness_rank SmLocalQueueDrop = 5"
| "smoothness_rank SmNetworkSendDrop = 6"
| "smoothness_rank SmDeliveryGap = 7"
| "smoothness_rank SmDeliveryReordered = 8"
| "smoothness_rank SmHookSendStall = 9"
| "smoothness_rank SmRuntimeRttTimeout = 10"
| "smoothness_rank SmStalePathSamples = 11"
| "smoothness_rank SmInsufficientCurrentData = 12"

lemma smoothness_rank_inj: "smoothness_rank a = smoothness_rank b \<Longrightarrow> a = b"
  by (cases a; cases b) simp_all

record SmoothnessSnapshot =
  sm_level :: SessionQuality
  sm_confidence :: QualityConfidence
  sm_observed_at :: u64
  sm_freshness_seconds :: "nat option"
  sm_reasons :: "SmoothnessReason list"
  sm_current_path_peers :: u32
  sm_worst_current_path :: "RoomPathQualitySnapshot option"

definition smoothness_default :: SmoothnessSnapshot where
  "smoothness_default =
     \<lparr>sm_level = QuUnavailable, sm_confidence = QcNone, sm_observed_at = 0, sm_freshness_seconds = None,
      sm_reasons = [SmInsufficientCurrentData], sm_current_path_peers = 0, sm_worst_current_path = None\<rparr>"

definition path_confidence :: "u32 \<Rightarrow> QualityConfidence" where
  "path_confidence samples =
     (if 20 \<le> samples then QcHigh else if 10 \<le> samples then QcMedium else if 5 \<le> samples then QcLow else QcNone)"

definition path_score :: "RoomPathQualitySnapshot \<Rightarrow> u16 \<times> nat \<times> nat" where
  "path_score path =
     (case rq_loss_basis_points path of None \<Rightarrow> 0 | Some loss \<Rightarrow> loss,
      as_millis (case rq_p95_rtt path of None \<Rightarrow> 0 | Some rtt \<Rightarrow> rtt),
      as_millis (case rq_jitter path of None \<Rightarrow> 0 | Some jitter \<Rightarrow> jitter))"

text \<open>The order of tuples, and \<open>max_by_key\<close>, which keeps the last of several greatest elements.\<close>

fun score_less :: "u16 \<times> nat \<times> nat \<Rightarrow> u16 \<times> nat \<times> nat \<Rightarrow> bool" where
  "score_less (a, b, c) (a', b', c') \<longleftrightarrow> a < a' \<or> a = a' \<and> (b < b' \<or> b = b' \<and> c < c')"

fun worst_path :: "RoomPathQualitySnapshot option \<Rightarrow> RoomPathQualitySnapshot list \<Rightarrow> RoomPathQualitySnapshot option" where
  "worst_path best [] = best"
| "worst_path best (path # paths) =
     worst_path (case best of
                   None \<Rightarrow> Some path
                 | Some b \<Rightarrow> if score_less (path_score path) (path_score b) then Some b else Some path) paths"

fun map_local_reason :: "SessionQualityReason \<Rightarrow> SmoothnessReason option" where
  "map_local_reason QrDirectSendDrop = Some SmDirectSendDrop"
| "map_local_reason QrDirectReceiveDrop = Some SmDirectReceiveDrop"
| "map_local_reason QrLocalQueueDrop = Some SmLocalQueueDrop"
| "map_local_reason QrNetworkSendDrop = Some SmNetworkSendDrop"
| "map_local_reason QrDeliveryGap = Some SmDeliveryGap"
| "map_local_reason QrDeliveryReordered = Some SmDeliveryReordered"
| "map_local_reason QrHookSendStall = Some SmHookSendStall"
| "map_local_reason QrRuntimeRttTimeout = Some SmRuntimeRttTimeout"
| "map_local_reason QrStartupOrIdle = None"

definition push_reason :: "SmoothnessReason list \<Rightarrow> SmoothnessReason \<Rightarrow> SmoothnessReason list" where
  "push_reason reasons reason = (if reason \<in> set reasons then reasons else reasons @ [reason])"

fun max_confidence :: "QualityConfidence \<Rightarrow> QualityConfidence \<Rightarrow> QualityConfidence" where
  "max_confidence left right =
     (if left = QcHigh \<or> right = QcHigh then QcHigh
      else if left = QcMedium \<or> right = QcMedium then QcMedium
      else if left = QcLow \<or> right = QcLow then QcLow else QcNone)"

text \<open>\<open>Option::is_some_and\<close>\<close>

definition is_some_and :: "'a option \<Rightarrow> ('a \<Rightarrow> bool) \<Rightarrow> bool" where
  "is_some_and x p = (case x of None \<Rightarrow> False | Some a \<Rightarrow> p a)"

record PathVerdict =
  pv_reasons :: "SmoothnessReason list"
  pv_watch :: bool
  pv_poor :: bool

text \<open>One test of a path: a reason when the first condition holds, poor when the second does too.\<close>

definition path_check :: "bool \<Rightarrow> SmoothnessReason \<Rightarrow> bool \<Rightarrow> PathVerdict \<Rightarrow> PathVerdict" where
  "path_check hit reason poor v =
     (if hit then \<lparr>pv_reasons = push_reason (pv_reasons v) reason, pv_watch = True, pv_poor = pv_poor v \<or> poor\<rparr>
      else v)"

definition judge_path :: "RoomPathQualitySnapshot \<Rightarrow> PathVerdict \<Rightarrow> PathVerdict" where
  "judge_path path v =
     (let missing = saturating_sub (rq_completed path) (rq_responses path);
          sustained = (10 \<le> rq_completed path);
          v = path_check (is_some_and (rq_p95_rtt path) (\<lambda>rtt. WATCH_PATH_P95 \<le> rtt)) SmPathRttElevated
                (sustained \<and> is_some_and (rq_p95_rtt path) (\<lambda>rtt. POOR_PATH_P95 \<le> rtt)) v;
          v = path_check
                (is_some_and (rq_loss_basis_points path) (\<lambda>loss. WATCH_LOSS_BASIS_POINTS \<le> loss \<and> 2 \<le> missing))
                SmPathLoss
                (sustained \<and> 3 \<le> missing
                 \<and> is_some_and (rq_loss_basis_points path) (\<lambda>loss. POOR_LOSS_BASIS_POINTS \<le> loss)) v
      in path_check (is_some_and (rq_jitter path) (\<lambda>jitter. WATCH_JITTER \<le> jitter)) SmPathJitterElevated
           (sustained \<and> is_some_and (rq_jitter path) (\<lambda>jitter. POOR_JITTER \<le> jitter)) v)"

definition merge_level :: "bool \<Rightarrow> bool \<Rightarrow> bool \<Rightarrow> SessionQuality \<Rightarrow> SessionQuality" where
  "merge_level path_poor path_watch some_path level =
     (if path_poor \<or> level = QuPoor then QuPoor
      else if path_watch \<or> level = QuWatch then QuWatch
      else if some_path \<or> level = QuGood then QuGood else level)"

definition current_path :: "RoomPathQualitySnapshot \<Rightarrow> bool" where
  "current_path path \<longleftrightarrow> rq_state path = RqCurrent \<and> 5 \<le> rq_completed path"

definition assess_smoothness ::
  "SessionHealthSnapshot option \<Rightarrow> RoomPathQualitySnapshot list \<Rightarrow> u64 \<Rightarrow> SmoothnessSnapshot" where
  "assess_smoothness health paths observed_at =
     (let current_paths = filter current_path paths;
          reasons = (case health of None \<Rightarrow> [] | Some h \<Rightarrow> List.map_filter map_local_reason (sn_reasons h));
          level = (case health of None \<Rightarrow> QuUnavailable | Some h \<Rightarrow> sn_quality h);
          confidence = (case health of None \<Rightarrow> QcNone | Some h \<Rightarrow> sn_confidence h);
          v = fold judge_path current_paths \<lparr>pv_reasons = reasons, pv_watch = False, pv_poor = False\<rparr>;
          level = merge_level (pv_poor v) (pv_watch v) (current_paths \<noteq> []) level;
          max_path_samples = fold max (map rq_completed current_paths) 0;
          confidence = max_confidence confidence (path_confidence max_path_samples);
          ages = List.map_filter (\<lambda>path. map_option as_secs (rq_freshness path)) current_paths
      in \<lparr>sm_level = level,
          sm_confidence = (if level = QuUnavailable then QcNone else confidence),
          sm_observed_at = observed_at,
          sm_freshness_seconds = (if ages = [] then None else Some (fold max ages 0)),
          sm_reasons =
            (if level = QuUnavailable
             then [if list_ex (\<lambda>path. rq_state path = RqStale) paths then SmStalePathSamples
                   else SmInsufficientCurrentData]
             else remdups_adj (sort_key smoothness_rank (pv_reasons v))),
          sm_current_path_peers = u32_of (length current_paths),
          sm_worst_current_path = worst_path None current_paths\<rparr>)"

section \<open>Every measurement stays well formed\<close>

lemma drop_front_drop: "drop_front xs = drop (length xs - COMPLETED_CAPACITY) xs"
proof (induction xs rule: drop_front.induct)
  case (1 xs)
  show ?case
  proof (cases "COMPLETED_CAPACITY < length xs")
    case True
    then have "drop_front xs = drop (length (tl xs) - COMPLETED_CAPACITY) (tl xs)"
      using 1 by (simp add: drop_front.simps [of xs])
    also have "\<dots> = drop (length xs - COMPLETED_CAPACITY) xs"
      using True by (simp add: drop_Suc [symmetric] Suc_diff_le less_eq_Suc_le Suc_diff_Suc)
    finally show ?thesis .
  qed (simp add: drop_front.simps [of xs])
qed

definition measurement_ok :: "PeerMeasurement \<Rightarrow> bool" where
  "measurement_ok p \<longleftrightarrow>
     hm_wf (pm_pending p) \<and> length (pm_completed p) \<le> COMPLETED_CAPACITY
     \<and> (pm_completed p = [] \<longleftrightarrow> pm_last_completed p = None)"

lemma measurement_ok_default: "measurement_ok measurement_default"
  by (simp add: measurement_ok_def measurement_default_def)

lemma measurement_ok_complete:
  "measurement_ok p \<Longrightarrow> hm_wf m \<Longrightarrow> measurement_ok (measurement_complete (p\<lparr>pm_pending := m\<rparr>) r now)"
  by (auto simp: measurement_ok_def measurement_complete_def drop_front_drop COMPLETED_CAPACITY_def)

lemma measurement_ok_expire_one: "measurement_ok p \<Longrightarrow> measurement_ok (expire_one now i p)"
  unfolding expire_one_def by (rule measurement_ok_complete) (simp_all add: measurement_ok_def)

lemma measurement_ok_expire: "measurement_ok p \<Longrightarrow> measurement_ok (expire_peer now p)"
proof -
  have "measurement_ok (fold (expire_one now) is p)" if "measurement_ok p" for "is" p
    using that by (induction "is" arbitrary: p) (simp_all add: measurement_ok_expire_one)
  then show "measurement_ok p \<Longrightarrow> measurement_ok (expire_peer now p)" by (simp add: expire_peer_def Let_def)
qed

definition quality_ok :: "RoomPathQuality \<Rightarrow> bool" where
  "quality_ok q \<longleftrightarrow> hm_wf q \<and> (\<forall>k p. hm_get q k = Some p \<longrightarrow> measurement_ok p)"

datatype QualityOp =
    QoSync "PeerPresenceInfo list" u64 | QoSent u64 u64 instant | QoEcho u64 u64 instant | QoExpire instant | QoClear

fun quality_step :: "QualityOp \<Rightarrow> RoomPathQuality \<Rightarrow> RoomPathQuality" where
  "quality_step (QoSync peers me) q = sync_peers q peers me"
| "quality_step (QoSent target i now) q = record_sent q target i now"
| "quality_step (QoEcho source i now) q = fst (record_echo q source i now)"
| "quality_step (QoExpire now) q = quality_expire q now"
| "quality_step QoClear q = quality_clear q"

lemma quality_ok_Nil: "quality_ok []"
  by (simp add: quality_ok_def)

lemma add_target_ok: "quality_ok q \<Longrightarrow> quality_ok (add_target me p q)"
  by (auto simp: quality_ok_def add_target_def measurement_ok_default split: if_splits)

lemma fold_add_target_ok: "quality_ok q \<Longrightarrow> quality_ok (fold (add_target me) peers q)"
  by (induction peers arbitrary: q) (simp_all add: add_target_ok)

lemma sync_peers_ok: "quality_ok q \<Longrightarrow> quality_ok (sync_peers q peers me)"
  unfolding sync_peers_def
  by (rule fold_add_target_ok) (auto simp: quality_ok_def split: option.splits if_splits)

lemma quality_expire_get: "hm_get (quality_expire q now) k = map_option (expire_peer now) (hm_get q k)"
  by (induction q) (auto simp: quality_expire_def hm_get_def)

lemma quality_expire_ok: "quality_ok q \<Longrightarrow> quality_ok (quality_expire q now)"
proof -
  have "map fst (quality_expire q now) = map fst q" by (simp add: quality_expire_def case_prod_unfold)
  then show "quality_ok q \<Longrightarrow> quality_ok (quality_expire q now)"
    by (auto simp: quality_ok_def quality_expire_get hm_wf_def measurement_ok_expire)
qed

lemma record_sent_ok: "quality_ok q \<Longrightarrow> quality_ok (record_sent q t i now)"
  by (auto simp: quality_ok_def record_sent_def measurement_ok_def split: option.splits if_splits)

lemma record_echo_ok: "quality_ok q \<Longrightarrow> quality_ok (fst (record_echo q t i now))"
  by (auto simp: quality_ok_def record_echo_def split: option.splits if_splits intro!: measurement_ok_complete)
     (auto simp: measurement_ok_def)

lemma quality_step_ok: "quality_ok q \<Longrightarrow> quality_ok (quality_step op q)"
  by (cases op)
     (simp_all add: sync_peers_ok record_sent_ok record_echo_ok quality_expire_ok quality_clear_def quality_ok_Nil)

lemma quality_run_ok: "quality_ok q \<Longrightarrow> quality_ok (fold quality_step ops q)"
  by (induction ops arbitrary: q) (simp_all add: quality_step_ok)

text \<open>After a synchronisation the probed peers are exactly those that can be probed.\<close>

lemma hm_keys_get: "set (map fst m) = dom (hm_get m)"
  unfolding hm_get_def [abs_def] by (simp add: dom_map_of_conv_image_fst)

lemma fold_add_target_dom:
  "hm_wf q \<Longrightarrow> dom (hm_get (fold (add_target me) peers q)) =
     dom (hm_get q) \<union> {ppi_steam_id64 p |p. p \<in> set peers \<and> probe_target me p}"
proof (induction peers arbitrary: q)
  case (Cons p peers)
  have "hm_wf (add_target me p q)" using Cons.prems by (simp add: add_target_def)
  moreover have "dom (hm_get (add_target me p q)) =
      dom (hm_get q) \<union> (if probe_target me p then {ppi_steam_id64 p} else {})"
    by (auto simp: add_target_def dom_def hm_contains_def)
  ultimately show ?case using Cons.IH by auto
qed simp

lemma sync_peers_targets:
  assumes "quality_ok q"
  shows "set (quality_targets (sync_peers q peers me)) = {ppi_steam_id64 p |p. p \<in> set peers \<and> probe_target me p}"
proof -
  let ?r = "hm_retain (\<lambda>k _. list_ex (\<lambda>p. ppi_steam_id64 p = k \<and> probe_target me p) peers) q"
  have wf: "hm_wf q" "hm_wf ?r" using assms by (simp_all add: quality_ok_def)
  have "dom (hm_get ?r) \<subseteq> {ppi_steam_id64 p |p. p \<in> set peers \<and> probe_target me p}"
    using wf(1) by (auto simp: dom_def list_ex_iff split: option.splits if_splits)
  then show ?thesis
    unfolding quality_targets_def hm_keys_get sync_peers_def fold_add_target_dom [OF wf(2)] by blast
qed

text \<open>An echo completes its probe once: the same echo again, or one that comes after the probe expired, is ignored.\<close>

lemma echo_once:
  "quality_ok q \<Longrightarrow> record_echo q s i now = (q', True) \<Longrightarrow> snd (record_echo q' s i later) = False"
  by (auto simp: quality_ok_def measurement_ok_def record_echo_def measurement_complete_def split: option.splits)

section \<open>What a snapshot says\<close>

lemma duration_percentile_small:
  "length xs \<le> COMPLETED_CAPACITY \<Longrightarrow> p \<le> 100 \<Longrightarrow> duration_percentile xs p = percentile xs p"
proof -
  assume "length xs \<le> COMPLETED_CAPACITY" "p \<le> 100"
  then have "(length xs - 1) * p \<le> 30 * 100" unfolding COMPLETED_CAPACITY_def by (intro mult_le_mono) simp_all
  then have "usize_saturating_mul (length xs - 1) p = (length xs - 1) * p"
    by (simp add: usize_saturating_mul_def usize_max_def)
  then show ?thesis by (simp add: duration_percentile_def percentile_def Let_def)
qed

lemma response_count: "length (List.map_filter response_rtt xs) = length (filter is_response xs)"
proof (induction xs)
  case (Cons x xs)
  then show ?case by (cases x) simp_all
qed simp

lemma loss_points_small:
  assumes "r \<le> c" "c \<le> COMPLETED_CAPACITY" "0 < c"
  shows "unat (loss_points c r) = (c - r) * 10000 div c" "unat (loss_points c r) \<le> 10000"
proof -
  have "(c - r) * 10000 \<le> 30 * 10000" using assms unfolding COMPLETED_CAPACITY_def by (intro mult_le_mono) simp_all
  then have m: "usize_saturating_mul (c - r) 10000 = (c - r) * 10000"
    by (simp add: usize_saturating_mul_def usize_max_def)
  have "(c - r) * 10000 div c \<le> c * 10000 div c" by (intro div_le_mono mult_le_mono1) simp
  then have b: "(c - r) * 10000 div c \<le> 10000" using assms(3) by simp
  have "unat (of_nat ((c - r) * 10000 div c) :: u16) = (c - r) * 10000 div c"
    using b by (simp add: unat_of_nat)
  then show "unat (loss_points c r) = (c - r) * 10000 div c" using b by (simp add: loss_points_def m Let_def)
  then show "unat (loss_points c r) \<le> 10000" using b by simp
qed

lemma unat_u32_of: "n \<le> COMPLETED_CAPACITY \<Longrightarrow> unat (u32_of n) = n"
  unfolding u32_of_def COMPLETED_CAPACITY_def by (simp add: unat_of_nat)

lemma set_quality_snapshots:
  assumes "quality_ok q" "s \<in> set (quality_snapshots q now)"
  obtains k p where "hm_get q k = Some p" "measurement_ok p" "s = measurement_snapshot p k now"
proof -
  obtain k p where kp: "(k, p) \<in> set q" "s = measurement_snapshot p k now"
    using assms(2) by (auto simp: quality_snapshots_def)
  then have "hm_get q k = Some p" using assms(1) by (simp add: quality_ok_def hm_get_eq_Some)
  then show thesis using that kp(2) assms(1) by (auto simp: quality_ok_def)
qed

text \<open>
  C35: Whatever happened to the probes of a room, every snapshot of a path is honest.  It covers at most 30
  completed probes, answers among them; its loss is the exact share of unanswered probes in basis points
  (rounded down) and is shown from five probes on; the median does not exceed the 95th percentile, and both are
  shown exactly when a probe was answered; the path is current only when its last result is at most five seconds
  old, and is stale when it is older.
\<close>

theorem path_snapshot_honest:
  assumes "s \<in> set (quality_snapshots (fold quality_step ops []) now)"
  shows "unat (rq_responses s) \<le> unat (rq_completed s) \<and> unat (rq_completed s) \<le> 30
    \<and> map_option unat (rq_loss_basis_points s) =
        (if unat (rq_completed s) < 5 then None
         else Some ((unat (rq_completed s) - unat (rq_responses s)) * 10000 div unat (rq_completed s)))
    \<and> (rq_p95_rtt s = None \<longleftrightarrow> unat (rq_responses s) = 0) \<and> (rq_median_rtt s = None \<longleftrightarrow> unat (rq_responses s) = 0)
    \<and> (unat (rq_responses s) = 0 \<or> the (rq_median_rtt s) \<le> the (rq_p95_rtt s))
    \<and> (rq_state s = RqMeasuring \<longleftrightarrow> unat (rq_completed s) < 5)
    \<and> (rq_state s = RqCurrent \<longleftrightarrow> 5 \<le> unat (rq_completed s) \<and> the (rq_freshness s) \<le> STALE_AFTER)"
proof -
  obtain k p where p: "measurement_ok p" "s = measurement_snapshot p k now"
    using set_quality_snapshots [OF quality_run_ok [OF quality_ok_Nil] assms] by blast
  define c where "c = length (pm_completed p)"
  define r where "r = length (filter is_response (pm_completed p))"
  define rtts where "rtts = List.map_filter response_rtt (pm_completed p)"
  have len: "r \<le> c" "c \<le> COMPLETED_CAPACITY" "length rtts = r" "rtts = [] \<longleftrightarrow> r = 0"
    using p(1) response_count [of "pm_completed p"]
    by (simp_all add: c_def r_def rtts_def measurement_ok_def flip: length_0_conv)
  have s: "unat (rq_completed s) = c" "unat (rq_responses s) = r"
      "rq_median_rtt s = percentile (sort rtts) 50" "rq_p95_rtt s = percentile (sort rtts) 95"
      "rq_loss_basis_points s = (if 5 \<le> c then Some (loss_points c r) else None)"
    using len by (simp_all add: p(2) measurement_snapshot_def Let_def unat_u32_of duration_percentile_small
        MIN_COMPLETED_SAMPLES_def flip: c_def r_def rtts_def)
  have state: "rq_state s = (if c < 5 then RqMeasuring else if STALE_AFTER < the (rq_freshness s) then RqStale else RqCurrent)"
    using p(1) by (auto simp: p(2) measurement_snapshot_def Let_def MIN_COMPLETED_SAMPLES_def c_def
        measurement_ok_def split: option.split)
  have some: "sort rtts = [] \<longleftrightarrow> r = 0" using len(4) by (metis length_0_conv length_sort)
  have pct: "rq_p95_rtt s = None \<longleftrightarrow> r = 0" "rq_median_rtt s = None \<longleftrightarrow> r = 0"
    using some percentile_Some [of _ "sort rtts"] by (simp_all add: s percentile_def)
  have mono: "r = 0 \<or> the (rq_median_rtt s) \<le> the (rq_p95_rtt s)"
    using percentile_mono [of 50 95 rtts] len(4) by (auto simp: s)
  have loss: "map_option unat (rq_loss_basis_points s) = (if c < 5 then None else Some ((c - r) * 10000 div c))"
    using loss_points_small [OF len(1,2)] by (simp add: s)
  show ?thesis
    unfolding s(1,2) using len(1,2) loss pct mono state by (auto simp: COMPLETED_CAPACITY_def not_less)
qed

definition sample_probes :: "QualityOp list" where
  "sample_probes = QoSync [\<lparr>ppi_steam_id64 = 2, ppi_display_name = None, ppi_presence = WConnected, ppi_capabilities = 8\<rparr>] 1
     # [QoSent 2 1 0, QoEcho 2 1 20, QoSent 2 2 0, QoEcho 2 2 30, QoSent 2 3 0, QoExpire PROBE_TIMEOUT]"

definition sample_path :: RoomPathQualitySnapshot where
  "sample_path = hd (quality_snapshots (fold quality_step sample_probes []) PROBE_TIMEOUT)"

lemma hm_insert_nonempty: "hm_insert k v m \<noteq> []"
  by (cases m) (auto simp: hm_insert_def)

lemma record_sent_nonempty: "q \<noteq> [] \<Longrightarrow> record_sent q t i now \<noteq> []"
  by (simp add: record_sent_def hm_insert_nonempty split: option.split)

lemma record_echo_nonempty: "q \<noteq> [] \<Longrightarrow> fst (record_echo q t i now) \<noteq> []"
  by (simp add: record_echo_def hm_insert_nonempty split: option.split)

lemma expire_nonempty: "q \<noteq> [] \<Longrightarrow> quality_expire q now \<noteq> []"
  by (simp add: quality_expire_def)

lemma sort_key_empty: "sort_key f xs = [] \<longleftrightarrow> xs = []"
  by (metis length_0_conv length_sort)

lemma sample_path_in: "sample_path \<in> set (quality_snapshots (fold quality_step sample_probes []) PROBE_TIMEOUT)"
proof -
  have "quality_step (hd sample_probes) [] \<noteq> []"
    by (simp add: sample_probes_def sync_peers_def add_target_def probe_target_def CAP_ROOM_PATH_PROBE_def hm_retain_def
        hm_contains_def hm_get_def hm_insert_def)
  then have "fold quality_step sample_probes [] \<noteq> []"
    unfolding sample_probes_def by (simp add: record_sent_nonempty record_echo_nonempty expire_nonempty)
  then show ?thesis unfolding sample_path_def
    by (intro hd_in_set) (simp add: quality_snapshots_def sort_key_empty)
qed

theorem path_snapshot_honest_witness:
  "unat (rq_responses sample_path) \<le> unat (rq_completed sample_path)
     \<and> (rq_state sample_path = RqMeasuring \<longleftrightarrow> unat (rq_completed sample_path) < 5)"
  using path_snapshot_honest [OF sample_path_in] by blast

section \<open>What the estimate of smoothness means\<close>

text \<open>The faults a path can show, and those that make the estimate poor.\<close>

fun path_fault :: "RoomPathQualitySnapshot \<Rightarrow> SmoothnessReason \<Rightarrow> bool" where
  "path_fault p SmPathRttElevated = is_some_and (rq_p95_rtt p) (\<lambda>rtt. WATCH_PATH_P95 \<le> rtt)"
| "path_fault p SmPathLoss \<longleftrightarrow>
     is_some_and (rq_loss_basis_points p) (\<lambda>loss. WATCH_LOSS_BASIS_POINTS \<le> loss)
     \<and> unat (rq_responses p) + 2 \<le> unat (rq_completed p)"
| "path_fault p SmPathJitterElevated = is_some_and (rq_jitter p) (\<lambda>jitter. WATCH_JITTER \<le> jitter)"
| "path_fault p _ = False"

fun grave_fault :: "RoomPathQualitySnapshot \<Rightarrow> SmoothnessReason \<Rightarrow> bool" where
  "grave_fault p SmPathRttElevated = is_some_and (rq_p95_rtt p) (\<lambda>rtt. POOR_PATH_P95 \<le> rtt)"
| "grave_fault p SmPathLoss \<longleftrightarrow>
     is_some_and (rq_loss_basis_points p) (\<lambda>loss. POOR_LOSS_BASIS_POINTS \<le> loss)
     \<and> unat (rq_responses p) + 3 \<le> unat (rq_completed p)"
| "grave_fault p SmPathJitterElevated = is_some_and (rq_jitter p) (\<lambda>jitter. POOR_JITTER \<le> jitter)"
| "grave_fault p _ = False"

definition path_reasons :: "SmoothnessReason list" where
  "path_reasons = [SmPathRttElevated, SmPathLoss, SmPathJitterElevated]"

definition faulty :: "RoomPathQualitySnapshot \<Rightarrow> bool" where
  "faulty p \<longleftrightarrow> list_ex (path_fault p) path_reasons"

definition gravely_faulty :: "RoomPathQualitySnapshot \<Rightarrow> bool" where
  "gravely_faulty p \<longleftrightarrow> 10 \<le> rq_completed p \<and> list_ex (grave_fault p) path_reasons"

lemma grave_is_fault: "grave_fault p r \<Longrightarrow> path_fault p r"
  by (cases r) (auto simp: is_some_and_def WATCH_PATH_P95_def POOR_PATH_P95_def WATCH_JITTER_def POOR_JITTER_def
      WATCH_LOSS_BASIS_POINTS_def POOR_LOSS_BASIS_POINTS_def word_le_nat_alt split: option.splits)

lemma path_check_sel [simp]:
  "pv_watch (path_check hit reason poor v) \<longleftrightarrow> pv_watch v \<or> hit"
  "pv_poor (path_check hit reason poor v) \<longleftrightarrow> pv_poor v \<or> hit \<and> poor"
  "set (pv_reasons (path_check hit reason poor v)) = set (pv_reasons v) \<union> (if hit then {reason} else {})"
  by (auto simp: path_check_def push_reason_def)

lemma missing_le:
  "2 \<le> saturating_sub (rq_completed p) (rq_responses p) \<longleftrightarrow> unat (rq_responses p) + 2 \<le> unat (rq_completed p)"
  "3 \<le> saturating_sub (rq_completed p) (rq_responses p) \<longleftrightarrow> unat (rq_responses p) + 3 \<le> unat (rq_completed p)"
  by (auto simp: word_le_nat_alt unat_saturating_sub)

lemma is_some_and_conj: "is_some_and x (\<lambda>a. p a \<and> q) \<longleftrightarrow> is_some_and x p \<and> q"
  by (cases x) (simp_all add: is_some_and_def)

lemma judge_path_sel:
  "pv_watch (judge_path p v) \<longleftrightarrow> pv_watch v \<or> faulty p"
  "pv_poor (judge_path p v) \<longleftrightarrow> pv_poor v \<or> gravely_faulty p"
  "set (pv_reasons (judge_path p v)) = set (pv_reasons v) \<union> {r. path_fault p r}"
proof -
  show "pv_watch (judge_path p v) \<longleftrightarrow> pv_watch v \<or> faulty p"
    by (auto simp: judge_path_def Let_def faulty_def path_reasons_def is_some_and_conj missing_le)
  have r: "path_fault p r \<longleftrightarrow> r \<in> set path_reasons \<and> path_fault p r" for r
    by (cases r) (simp_all add: path_reasons_def)
  show "set (pv_reasons (judge_path p v)) = set (pv_reasons v) \<union> {r. path_fault p r}"
    by (subst r) (auto simp: judge_path_def Let_def path_reasons_def is_some_and_conj missing_le)
  show "pv_poor (judge_path p v) \<longleftrightarrow> pv_poor v \<or> gravely_faulty p"
    using grave_is_fault [of p SmPathRttElevated] grave_is_fault [of p SmPathLoss]
      grave_is_fault [of p SmPathJitterElevated]
    by (auto simp: judge_path_def Let_def gravely_faulty_def path_reasons_def is_some_and_conj missing_le)
qed

lemma judge_paths:
  "pv_watch (fold judge_path ps v) \<longleftrightarrow> pv_watch v \<or> list_ex faulty ps"
  "pv_poor (fold judge_path ps v) \<longleftrightarrow> pv_poor v \<or> list_ex gravely_faulty ps"
  "set (pv_reasons (fold judge_path ps v)) = set (pv_reasons v) \<union> {r. list_ex (\<lambda>p. path_fault p r) ps}"
  by (induction ps arbitrary: v) (auto simp: judge_path_sel)

lemma distinct_remdups_sorted: "sorted xs \<Longrightarrow> distinct (remdups_adj xs)"
  by (induction xs rule: remdups_adj.induct) auto

lemma remdups_adj_key:
  assumes "sorted (map f xs)" and "inj f"
  shows "distinct (remdups_adj xs)" "sorted (map f (remdups_adj xs))"
proof -
  have m: "map f (remdups_adj xs) = remdups_adj (map f xs)" using assms(2) by (simp add: remdups_adj_map_injective)
  show "sorted (map f (remdups_adj xs))" unfolding m using assms(1) by (rule sorted_remdups_adj)
  have "distinct (remdups_adj (map f xs))" using assms(1) by (rule distinct_remdups_sorted)
  then show "distinct (remdups_adj xs)" unfolding m [symmetric] by (simp add: distinct_map)
qed

definition health_level :: "SessionHealthSnapshot option \<Rightarrow> SessionQuality" where
  "health_level health = (case health of None \<Rightarrow> QuUnavailable | Some h \<Rightarrow> sn_quality h)"

definition health_reasons :: "SessionHealthSnapshot option \<Rightarrow> SmoothnessReason set" where
  "health_reasons health = (case health of None \<Rightarrow> {} | Some h \<Rightarrow> set (List.map_filter map_local_reason (sn_reasons h)))"

text \<open>
  C34: The estimate of smoothness is exactly what its inputs justify.  It is poor precisely when the session's own
  health is poor or some current path, measured by ten probes or more, shows a grave fault; otherwise it asks for
  attention precisely when the health does or some current path shows a fault; otherwise it is good precisely when
  there is a current path or good health; and without either it is unavailable.  The reasons given are all the
  reasons there are, each once and in a fixed order, and a stale path never counts as evidence.  (The confidence and
  the worst path that the estimate names are not part of this.)
\<close>

theorem smoothness_justified:
  "case assess_smoothness health paths t of r \<Rightarrow>
     sm_level r =
       (if health_level health = QuPoor \<or> list_ex gravely_faulty (filter current_path paths) then QuPoor
        else if health_level health = QuWatch \<or> list_ex faulty (filter current_path paths) then QuWatch
        else if health_level health = QuGood \<or> 0 < length (filter current_path paths) then QuGood
        else QuUnavailable)
     \<and> set (sm_reasons r) =
       (if sm_level r = QuUnavailable
        then {if list_ex (\<lambda>p. rq_state p = RqStale) paths then SmStalePathSamples else SmInsufficientCurrentData}
        else health_reasons health \<union> {f. list_ex (\<lambda>p. path_fault p f) (filter current_path paths)})
     \<and> distinct (sm_reasons r) \<and> sorted (map smoothness_rank (sm_reasons r))"
proof -
  let ?r = "assess_smoothness health paths t" and ?cur = "filter current_path paths"
  let ?hr = "case health of None \<Rightarrow> [] | Some h \<Rightarrow> List.map_filter map_local_reason (sn_reasons h)"
  let ?v = "fold judge_path ?cur \<lparr>pv_reasons = ?hr, pv_watch = False, pv_poor = False\<rparr>"
  have inj: "inj smoothness_rank" by (rule injI) (rule smoothness_rank_inj)
  have hr: "set ?hr = health_reasons health" by (simp add: health_reasons_def split: option.split)
  have lv: "sm_level ?r = merge_level (pv_poor ?v) (pv_watch ?v) (?cur \<noteq> []) (health_level health)"
    by (simp add: assess_smoothness_def Let_def health_level_def)
  have rs: "sm_reasons ?r = (if sm_level ?r = QuUnavailable
      then [if list_ex (\<lambda>p. rq_state p = RqStale) paths then SmStalePathSamples else SmInsufficientCurrentData]
      else remdups_adj (sort_key smoothness_rank (pv_reasons ?v)))"
    by (simp add: assess_smoothness_def Let_def)
  have "distinct (sm_reasons ?r)" "sorted (map smoothness_rank (sm_reasons ?r))"
    using remdups_adj_key [OF _ inj, of "sort_key smoothness_rank (pv_reasons ?v)"] by (simp_all add: rs)
  moreover have "set (sm_reasons ?r) = (if sm_level ?r = QuUnavailable
      then {if list_ex (\<lambda>p. rq_state p = RqStale) paths then SmStalePathSamples else SmInsufficientCurrentData}
      else health_reasons health \<union> {f. list_ex (\<lambda>p. path_fault p f) ?cur})"
    unfolding rs by (simp add: judge_paths(3) hr)
  moreover have "sm_level ?r = (if health_level health = QuPoor \<or> list_ex gravely_faulty ?cur then QuPoor
        else if health_level health = QuWatch \<or> list_ex faulty ?cur then QuWatch
        else if health_level health = QuGood \<or> 0 < length ?cur then QuGood else QuUnavailable)"
    unfolding lv merge_level_def by (cases "health_level health") (auto simp: judge_paths)
  ultimately show ?thesis by simp
qed

section \<open>Round trips to the relay\<close>

text \<open>
  The probes of the tracker never collide with those of the session's health, which count from one: their ids
  carry the top bit.
\<close>

lemma relay_ping_namespace: "snd (relay_next_ping t now) AND ROOM_RTT_NAMESPACE \<noteq> 0"
proof -
  have "bit (snd (relay_next_ping t now) AND ROOM_RTT_NAMESPACE) 63"
    by (simp add: relay_next_ping_def Let_def ROOM_RTT_NAMESPACE_def bit_simps)
  then show ?thesis by (metis bit_0_eq bot_apply bot_bool_def)
qed

lemma health_ping_namespace:
  assumes "next_health_ping h now = (h', Some ping)" and "unat (rt_next_id (sh_runtime_rtt h)) < 2 ^ 63 - 1"
  shows "ping AND ROOM_RTT_NAMESPACE = 0"
proof -
  have p: "ping = saturating_add (rt_next_id (sh_runtime_rtt h)) 1"
    using assms(1) by (auto simp: next_health_ping_def expire_runtime_rtt_def rtt_next_ping_def rtt_expire_def Let_def
        split: if_splits)
  then have "unat ping < 2 ^ 63" using assms(2) by (simp add: unat_saturating_add)
  then have "\<not> bit (unat ping) 63" by (simp only: bit_iff_odd div_less) simp
  then have "\<not> bit ping 63" by (simp add: bit_unsigned_iff)
  moreover have "bit ROOM_RTT_NAMESPACE n \<longleftrightarrow> n = 63" for n
    unfolding ROOM_RTT_NAMESPACE_def push_bit_of_1 bit_exp_iff by auto
  ultimately show ?thesis by (intro bit_eqI) (auto simp: bit_and_iff)
qed

lemma relay_rtt_bounded:
  "length (rr_recent_rtts t) \<le> ROLLING_SAMPLE_COUNT
     \<Longrightarrow> length (rr_recent_rtts (fst (relay_observe_pong t i now))) \<le> ROLLING_SAMPLE_COUNT"
  by (auto simp: relay_observe_pong_def Let_def ROLLING_SAMPLE_COUNT_def split: option.split)

lemma relay_current_rtt_sampled:
  assumes "relay_current_rtt t now = Some rtt"
  shows "rtt \<in> set (rr_recent_rtts t)"
proof -
  have "rr_recent_rtts t \<noteq> []" and rtt: "rtt = sort (rr_recent_rtts t) ! (length (rr_recent_rtts t) div 2)"
    using assms by (auto simp: relay_current_rtt_def Let_def split: if_splits)
  then have "length (rr_recent_rtts t) div 2 < length (sort (rr_recent_rtts t))" by simp
  then show ?thesis unfolding rtt by (metis nth_mem set_sort)
qed

end
