(* ===== verification/Packet_Flow.thy ===== *)
theory Packet_Flow
  imports Delivery_Stats Relay_Frame Relay_Bootstrap Hook_Ipc
begin

text \<open>
  The route-neutral packets of the bridge client (\<open>bridge-core/src/client/packet_flow.rs\<close>): game
  packets from the hook get a delivery stream and sequence number per target, and datagrams from
  the relay become game packets for the hook.  The log lines of the packet observer are not
  modelled.
\<close>

section \<open>Packets\<close>

record PacketSummary =
  sum_peer :: u64
  sum_hook_sequence :: u32
  sum_delivery_sequence :: u64
  sum_channel :: i32
  sum_send_type :: i32
  sum_payload_bytes :: usize
  sum_wire_bytes :: usize

record OutboundGamePacket =
  og_to_steam_id64 :: u64
  og_hook_sequence :: u32
  og_delivery_stream_id :: ClientStreamId
  og_delivery_sequence :: u64
  og_channel :: i32
  og_send_type :: i32
  og_payload :: "byte list"

record InboundGamePacket =
  ig_from_steam_id64 :: u64
  ig_delivery_stream_id :: ClientStreamId
  ig_delivery_sequence :: u64
  ig_channel :: i32
  ig_send_type :: i32
  ig_payload :: "byte list"

section \<open>Delivery streams\<close>

record DeliveryCursor =
  dc_stream_id :: ClientStreamId
  dc_next_sequence :: u64

type_synonym DeliveryStreamAllocator = "(u64, DeliveryCursor) hmap"

text \<open>
  \<open>DeliveryStreamId::random\<close> draws until the value is not zero; the draws of the random number
  generator are an argument, and \<open>None\<close> means that they did not suffice.
\<close>

definition random_stream_id :: "byte list list \<Rightarrow> ClientStreamId option" where
  "random_stream_id draws = find (\<lambda>bytes. \<not> all_zero bytes) draws"

definition stream_cursor :: "byte list list \<Rightarrow> DeliveryCursor option" where
  "stream_cursor draws = map_option (\<lambda>s. \<lparr>dc_stream_id = s, dc_next_sequence = 1\<rparr>) (random_stream_id draws)"

definition assign_hook_packet ::
  "byte list list \<Rightarrow> DeliveryStreamAllocator \<Rightarrow> GamePacket
     \<Rightarrow> (DeliveryStreamAllocator \<times> OutboundGamePacket) option" where
  "assign_hook_packet draws by_target packet =
     (case (case hm_get by_target (gp_peer packet) of
              None \<Rightarrow> stream_cursor draws
            | Some cursor \<Rightarrow> Some cursor) of
        None \<Rightarrow> None
      | Some cursor \<Rightarrow>
          case (if dc_next_sequence cursor = - 1 then stream_cursor draws else Some cursor) of
            None \<Rightarrow> None
          | Some cursor \<Rightarrow>
              Some (hm_insert (gp_peer packet)
                      (cursor\<lparr>dc_next_sequence := saturating_add (dc_next_sequence cursor) 1\<rparr>) by_target,
                    \<lparr>og_to_steam_id64 = gp_peer packet, og_hook_sequence = gp_sequence packet,
                     og_delivery_stream_id = dc_stream_id cursor,
                     og_delivery_sequence = dc_next_sequence cursor,
                     og_channel = gp_channel packet, og_send_type = gp_send_type packet,
                     og_payload = gp_payload packet\<rparr>))"

section \<open>Datagrams from the relay\<close>

datatype InboundRelayDatagram =
    Game InboundGamePacket
  | HealthPong u64
  | PresenceUpdate "PeerPresenceInfo list"
  | RelayProbe ProbeFrame

text \<open>\<open>io::Error::other\<close>\<close>

abbreviation other :: io_kind where "other \<equiv> KOther 0"

definition decode_inbound_relay_datagram ::
  "(ServerControl, 'j) of_json \<Rightarrow> byte list \<Rightarrow> (io_kind, InboundRelayDatagram option) res" where
  "decode_inbound_relay_datagram from_slice bytes =
     (case decode_frame bytes of
        Panic \<Rightarrow> Panic
      | Err _ \<Rightarrow> Err (other)
      | Ok (DataF game) \<Rightarrow>
          Ok (Some (Game \<lparr>ig_from_steam_id64 = df_from_steam_id64 game,
                          ig_delivery_stream_id = df_delivery_stream_id game,
                          ig_delivery_sequence = df_delivery_sequence game,
                          ig_channel = df_channel game, ig_send_type = df_send_type game,
                          ig_payload = df_payload game\<rparr>))
      | Ok (ProbeF probe) \<Rightarrow> Ok (Some (RelayProbe probe))
      | Ok (ServerControlFrame payload) \<Rightarrow>
          (case decode_server_control from_slice payload of
             Panic \<Rightarrow> Panic
           | Err _ \<Rightarrow> Err (other)
           | Ok (SC_ControlPong i) \<Rightarrow> Ok (Some (HealthPong i))
           | Ok (SC_PeerPresenceUpdate peers) \<Rightarrow> Ok (Some (PresenceUpdate peers))
           | Ok (SC_Error code message retryable) \<Rightarrow> Err (other)
           | Ok _ \<Rightarrow> Ok None)
      | Ok (ClientControlFrame _) \<Rightarrow> Err KInvalidData)"

definition encode_inbound_hook_packet ::
  "InboundGamePacket \<Rightarrow> u32 \<Rightarrow> u32 \<times> GamePacket \<times> PacketSummary \<times> u64" where
  "encode_inbound_hook_packet inbound local_sequence =
     (let received_bytes = (if length (ig_payload inbound) < 2 ^ 64 then of_nat (length (ig_payload inbound)) else - 1);
          summary = \<lparr>sum_peer = ig_from_steam_id64 inbound, sum_hook_sequence = local_sequence,
                     sum_delivery_sequence = ig_delivery_sequence inbound,
                     sum_channel = ig_channel inbound, sum_send_type = ig_send_type inbound,
                     sum_payload_bytes = length (ig_payload inbound), sum_wire_bytes = 0\<rparr>;
          packet = \<lparr>gp_peer = ig_from_steam_id64 inbound, gp_sequence = local_sequence,
                    gp_channel = ig_channel inbound, gp_send_type = ig_send_type inbound,
                    gp_payload = ig_payload inbound\<rparr>
      in (saturating_add local_sequence 1, packet,
          summary\<lparr>sum_wire_bytes := sum_payload_bytes summary\<rparr>, received_bytes))"

definition should_sample_packet :: "u64 \<Rightarrow> bool" where
  "should_sample_packet n = (n \<le> 64 \<or> unat n mod 1000 = 0)"

section \<open>Runs of the allocator\<close>

text \<open>Packets assigned one after the other, each with the draws the generator gives for it.\<close>

fun assign_run ::
  "DeliveryStreamAllocator \<Rightarrow> (byte list list \<times> GamePacket) list
     \<Rightarrow> (DeliveryStreamAllocator \<times> OutboundGamePacket list) option" where
  "assign_run a [] = Some (a, [])"
| "assign_run a ((draws, p) # ps) =
     (case assign_hook_packet draws a p of
        None \<Rightarrow> None
      | Some (a', o1) \<Rightarrow> map_option (\<lambda>(a'', os). (a'', o1 # os)) (assign_run a' ps))"

definition allocator_ok :: "DeliveryStreamAllocator \<Rightarrow> bool" where
  "allocator_ok a \<longleftrightarrow>
     (\<forall>t c. hm_get a t = Some c \<longrightarrow> dc_next_sequence c \<noteq> 0 \<and> \<not> all_zero (dc_stream_id c))"

lemma stream_cursor_ok:
  "stream_cursor draws = Some c \<Longrightarrow> dc_next_sequence c = 1 \<and> \<not> all_zero (dc_stream_id c)"
  by (auto simp: stream_cursor_def random_stream_id_def dest: find_Some_in)

lemma saturating_succ_nonzero: "saturating_add (x :: u64) 1 \<noteq> 0"
proof -
  have "unat (saturating_add x 1) \<noteq> 0" by (simp add: unat_saturating_add)
  then show ?thesis by auto
qed

lemma assign_hook_packet_ok:
  assumes "allocator_ok a" and "assign_hook_packet draws a p = Some (a', o')"
  shows "allocator_ok a'" and "og_delivery_sequence o' \<noteq> 0" and "og_delivery_sequence o' \<noteq> - 1"
    and "\<not> all_zero (og_delivery_stream_id o')"
    and "og_to_steam_id64 o' = gp_peer p" and "og_payload o' = gp_payload p"
    and "og_channel o' = gp_channel p" and "og_send_type o' = gp_send_type p"
  using assms
  by (auto simp: assign_hook_packet_def allocator_ok_def saturating_succ_nonzero
      dest!: stream_cursor_ok split: option.splits if_splits)

lemma assign_hook_packet_cursor:
  assumes "hm_get a (gp_peer p) = Some c" and "Suc (unat (dc_next_sequence c)) < 2 ^ 64"
    and "assign_hook_packet draws a p = Some (a', o')"
  shows "og_delivery_stream_id o' = dc_stream_id c" and "og_delivery_sequence o' = dc_next_sequence c"
    and "\<exists>c'. hm_get a' (gp_peer p) = Some c' \<and> dc_stream_id c' = dc_stream_id c
           \<and> unat (dc_next_sequence c') = Suc (unat (dc_next_sequence c))"
proof -
  have "dc_next_sequence c \<noteq> - 1" using assms(2) by (auto simp: unat_max_word)
  then show "og_delivery_stream_id o' = dc_stream_id c" "og_delivery_sequence o' = dc_next_sequence c"
    "\<exists>c'. hm_get a' (gp_peer p) = Some c' \<and> dc_stream_id c' = dc_stream_id c
           \<and> unat (dc_next_sequence c') = Suc (unat (dc_next_sequence c))"
    using assms by (auto simp: assign_hook_packet_def unat_saturating_add)
qed

lemma assign_hook_packet_other:
  "assign_hook_packet draws a p = Some (a', o') \<Longrightarrow> t \<noteq> gp_peer p \<Longrightarrow> hm_get a' t = hm_get a t"
  by (auto simp: assign_hook_packet_def split: option.splits if_splits)

lemma assign_hook_packet_first:
  assumes "hm_get a (gp_peer p) = None" and "assign_hook_packet draws a p = Some (a', o')"
  shows "og_delivery_sequence o' = 1"
    and "\<exists>c'. hm_get a' (gp_peer p) = Some c' \<and> dc_stream_id c' = og_delivery_stream_id o'
           \<and> unat (dc_next_sequence c') = 2"
  using assms by (auto simp: assign_hook_packet_def unat_saturating_add dest!: stream_cursor_ok
      split: option.splits if_splits)

text \<open>Sequence numbers counting up from \<open>n\<close>.\<close>

fun numbered :: "nat \<Rightarrow> u64 list \<Rightarrow> bool" where
  "numbered n [] = True"
| "numbered n (s # ss) = (unat s = n \<and> numbered (Suc n) ss)"

lemma numbered_upt: "numbered n ss \<Longrightarrow> map unat ss = [n..<n + length ss]"
  by (induction n ss rule: numbered.induct) (simp_all add: upt_conv_Cons del: upt_Suc)

definition packets_to :: "u64 \<Rightarrow> OutboundGamePacket list \<Rightarrow> OutboundGamePacket list" where
  "packets_to t os = filter (\<lambda>o'. og_to_steam_id64 o' = t) os"

lemma assign_run_cursor:
  assumes "assign_run a ps = Some (a', os)" and "hm_get a t = Some c" and "allocator_ok a"
    and "unat (dc_next_sequence c) + length ps < 2 ^ 64"
  shows "list_all (\<lambda>o'. og_delivery_stream_id o' = dc_stream_id c) (packets_to t os)
    \<and> numbered (unat (dc_next_sequence c)) (map og_delivery_sequence (packets_to t os))"
  using assms
proof (induction a ps arbitrary: c os rule: assign_run.induct)
  case (1 a)
  then show ?case by (simp add: packets_to_def)
next
  case (2 a draws p ps)
  from "2.prems"(1) obtain a1 o1 os1 where step: "assign_hook_packet draws a p = Some (a1, o1)"
    and run: "assign_run a1 ps = Some (a', os1)" and os: "os = o1 # os1"
    by (auto split: option.splits prod.splits)
  note ok = assign_hook_packet_ok [OF "2.prems"(3) step]
  show ?case
  proof (cases "gp_peer p = t")
    case True
    have bound: "Suc (unat (dc_next_sequence c)) < 2 ^ 64" using "2.prems"(4) by simp
    have get: "hm_get a (gp_peer p) = Some c" using "2.prems"(2) True by simp
    note cur = assign_hook_packet_cursor [OF get bound step]
    from cur(3) obtain c1 where c1: "hm_get a1 t = Some c1" "dc_stream_id c1 = dc_stream_id c"
      "unat (dc_next_sequence c1) = Suc (unat (dc_next_sequence c))" using True by auto
    have "unat (dc_next_sequence c1) + length ps < 2 ^ 64" using "2.prems"(4) c1(3) by simp
    from "2.IH" [OF step refl run c1(1) ok(1) this] show ?thesis
      using cur c1 True ok(5) by (simp add: os packets_to_def)
  next
    case False
    have "unat (dc_next_sequence c) + length ps < 2 ^ 64" using "2.prems"(4) by simp
    moreover have "hm_get a1 t = Some c"
      using assign_hook_packet_other [OF step] False "2.prems"(2) by simp
    ultimately show ?thesis
      using "2.IH" [OF step refl run _ ok(1)] False ok(5) by (simp add: os packets_to_def)
  qed
qed

lemma assign_run_length: "assign_run a ps = Some (a', os) \<Longrightarrow> length os = length ps"
  by (induction a ps arbitrary: os rule: assign_run.induct) (auto split: option.splits prod.splits)

text \<open>From a fresh allocator every target gets one stream, numbered from one without holes.\<close>

lemma assign_run_fresh:
  assumes "assign_run a ps = Some (a', os)" and "hm_get a t = None" and "allocator_ok a"
    and "Suc (length ps) < 2 ^ 64"
  shows "\<exists>stream. list_all (\<lambda>o'. og_delivery_stream_id o' = stream) (packets_to t os)
    \<and> numbered 1 (map og_delivery_sequence (packets_to t os))"
  using assms
proof (induction a ps arbitrary: os rule: assign_run.induct)
  case (1 a)
  then show ?case by (simp add: packets_to_def)
next
  case (2 a draws p ps)
  from "2.prems"(1) obtain a1 o1 os1 where step: "assign_hook_packet draws a p = Some (a1, o1)"
    and run: "assign_run a1 ps = Some (a', os1)" and os: "os = o1 # os1"
    by (auto split: option.splits prod.splits)
  note ok = assign_hook_packet_ok [OF "2.prems"(3) step]
  show ?case
  proof (cases "gp_peer p = t")
    case True
    have get: "hm_get a (gp_peer p) = None" using "2.prems"(2) True by simp
    note fst = assign_hook_packet_first [OF get step]
    from fst(2) obtain c1 where c1: "hm_get a1 t = Some c1" "dc_stream_id c1 = og_delivery_stream_id o1"
      "unat (dc_next_sequence c1) = 2" using True by auto
    have "unat (dc_next_sequence c1) + length ps < 2 ^ 64" using "2.prems"(4) c1(3) by simp
    from assign_run_cursor [OF run c1(1) ok(1) this] show ?thesis
      using fst(1) c1 True ok(5)
      by (intro exI [of _ "og_delivery_stream_id o1"]) (simp add: os packets_to_def numeral_2_eq_2)
  next
    case False
    have "hm_get a1 t = None" using assign_hook_packet_other [OF step] False "2.prems"(2) by simp
    then show ?thesis
      using "2.IH" [OF step refl run _ ok(1)] "2.prems"(4) False ok(5) by (simp add: os packets_to_def)
  qed
qed

section \<open>A stream without loss is reported without loss\<close>

lemma receive_increasing:
  "sorted_wrt (<) (s0 # ss) \<Longrightarrow> foldl receive {s0} ss = set (s0 # ss)"
proof (induction ss rule: rev_induct)
  case Nil
  then show ?case by simp
next
  case (snoc s ss)
  then have IH: "foldl receive {s0} ss = set (s0 # ss)" and gt: "\<forall>x \<in> set (s0 # ss). x < s"
    by (auto simp: sorted_wrt_append)
  have "Max (set (s0 # ss)) \<in> set (s0 # ss)" by (rule Max_in) auto
  then have "Max (set (s0 # ss)) < s" using gt by (rule bspec [rotated])
  then have "unat (Max (set (s0 # ss))) < unat s + 128" by (simp only: word_less_nat_alt)
  then have "receive (set (s0 # ss)) s = insert s (set (s0 # ss))" by (simp only: receive_def if_True)
  then show ?case using IH by (simp add: insert_commute)
qed

lemma numbered_set:
  assumes num: "numbered 1 ss" and ne: "ss \<noteq> []"
  shows "sorted_wrt (<) ss" and "unat ` set ss = {1..length ss}" and "card (set ss) = length ss"
    and "unat (Max (set ss)) = length ss" and "unat (hd ss) = 1"
proof -
  have upt: "map unat ss = [1..<1 + length ss]" by (rule numbered_upt [OF num])
  have "sorted_wrt (<) (map unat ss)" unfolding upt by (rule sorted_wrt_upt)
  then show srt: "sorted_wrt (<) ss"
    unfolding sorted_wrt_map by (rule sorted_wrt_mono_rel [rotated]) (simp add: word_less_nat_alt)
  have "set (map unat ss) = {1..length ss}" unfolding upt by auto
  then show im: "unat ` set ss = {1..length ss}" by simp
  have "distinct ss" using srt by (simp add: strict_sorted_iff)
  then show "card (set ss) = length ss" by (rule distinct_card)
  have "unat (Max (set ss)) = Max (unat ` set ss)"
    using ne by (intro mono_Max_commute) (auto simp: mono_def word_le_nat_alt)
  moreover have "Max {1..length ss} = length ss"
    using ne by (intro Max_eqI) (auto simp: Suc_le_eq)
  ultimately show "unat (Max (set ss)) = length ss" using im by simp
  show "unat (hd ss) = 1" using num ne by (cases ss) auto
qed

lemma numbered_clean:
  fixes peer :: u64 and stream :: ClientStreamId and ss :: "u64 list"
  assumes num: "numbered 1 ss" and len: "length ss < 2 ^ 64" and ne: "ss \<noteq> []"
  defines "snap \<equiv> delivery_snapshot
             (foldl (\<lambda>d s. observe_delivery d peer stream s) delivery_stats_default ss)"
  shows "dh_confirmed_gaps snap = 0 \<and> dh_open_gaps snap = 0 \<and> dh_duplicates snap = 0"
proof -
  obtain s0 rest where ss: "ss = s0 # rest" using ne by (cases ss) auto
  note facts = numbered_set [OF num ne]
  have S: "foldl receive {s0} rest = set ss" using receive_increasing facts(1) by (simp add: ss)
  have s0: "unat s0 = 1" using facts(5) by (simp add: ss)
  have "length rest < 2 ^ 64 - 1" using len by (simp add: ss)
  from delivery_accounting [OF this, of peer stream s0]
  have acc: "unat (dh_confirmed_gaps snap) + unat (dh_open_gaps snap) + card (unat ` set ss \<inter> {1..length ss})
      = length ss - 1 + 1" "unat (dh_duplicates snap) + card (set ss) = length ss"
    unfolding Let_def S snap_def facts(4) s0 by (simp_all add: ss)
  have "card (unat ` set ss \<inter> {1..length ss}) = length ss" unfolding facts(2) by simp
  then have "unat (dh_confirmed_gaps snap) = 0 \<and> unat (dh_open_gaps snap) = 0 \<and> unat (dh_duplicates snap) = 0"
    using acc facts(3) by (simp add: ss)
  then show ?thesis by (simp add: word_unat_eq_iff)
qed

section \<open>Property\<close>

text \<open>
  A stream without loss is reported without loss.  The packets the hook sends to one peer,
  interleaved with packets to others in any way, are numbered so that a receiver who gets them all
  in order counts no confirmed gap, no open gap and no duplicate; they all carry one stream id.
\<close>

lemma lossless_stream_clean:
  assumes "assign_run [] ps = Some (a, os)" and "Suc (length ps) < 2 ^ 64" and "packets_to t os \<noteq> []"
  shows "\<exists>stream. list_all (\<lambda>o'. og_delivery_stream_id o' = stream) (packets_to t os)
    \<and> (let snap = delivery_snapshot
               (foldl (\<lambda>d s. observe_delivery d peer stream s) delivery_stats_default
                 (map og_delivery_sequence (packets_to t os)))
       in dh_confirmed_gaps snap = 0 \<and> dh_open_gaps snap = 0 \<and> dh_duplicates snap = 0)"
proof -
  have ok: "allocator_ok []" by (simp add: allocator_ok_def hm_get_def)
  have none: "hm_get [] t = None" by (simp add: hm_get_def)
  from assign_run_fresh [OF assms(1) none ok assms(2)] obtain stream where
    st: "list_all (\<lambda>o'. og_delivery_stream_id o' = stream) (packets_to t os)"
    and num: "numbered 1 (map og_delivery_sequence (packets_to t os))" by blast
  have "length (packets_to t os) \<le> length os" by (simp add: packets_to_def)
  also have "length os = length ps" using assms(1) assign_run_length by blast
  finally have "length (map og_delivery_sequence (packets_to t os)) < 2 ^ 64" using assms(2) by simp
  from numbered_clean [OF num this] st show ?thesis using assms(3) unfolding Let_def by blast
qed

lemma lossless_stream_clean_witness:
  "\<exists>a os stream. assign_run []
       [([[0], [5]], \<lparr>gp_peer = 2, gp_sequence = 1, gp_channel = 0, gp_send_type = 0, gp_payload = []\<rparr>),
        ([[6]], \<lparr>gp_peer = 3, gp_sequence = 2, gp_channel = 0, gp_send_type = 0, gp_payload = []\<rparr>),
        ([[7]], \<lparr>gp_peer = 2, gp_sequence = 3, gp_channel = 0, gp_send_type = 0, gp_payload = []\<rparr>)]
       = Some (a, os)
     \<and> list_all (\<lambda>o'. og_delivery_stream_id o' = stream) (packets_to 2 os)
     \<and> (let snap = delivery_snapshot
               (foldl (\<lambda>d s. observe_delivery d 9 stream s) delivery_stats_default
                 (map og_delivery_sequence (packets_to 2 os)))
       in dh_confirmed_gaps snap = 0 \<and> dh_open_gaps snap = 0 \<and> dh_duplicates snap = 0)"
    (is "\<exists>a os stream. assign_run [] ?ps = Some (a, os) \<and> _")
proof -
  obtain a os where run: "assign_run [] ?ps = Some (a, os)" and ne: "packets_to 2 os \<noteq> []"
    by (simp add: assign_hook_packet_def stream_cursor_def random_stream_id_def hm_get_def hm_insert_def
        all_zero_def packets_to_def saturating_add_def)
  have len: "Suc (length ?ps) < 2 ^ 64" by simp
  from run lossless_stream_clean [OF run len ne, of 9] show ?thesis by blast
qed

end
