(* ===== verification/Relay_Client.thy ===== *)
theory Relay_Client
  imports Packet_Flow Relay_Server
begin

text \<open>
  The relay transport of the bridge client (\<open>bridge-core/src/client/relay_transport.rs\<close>, with
  \<open>bootstrap.rs\<close> and \<open>pow.rs\<close>): negotiation, the join handshake with its proof of work, the UDP
  path validation, resuming after a dropped connection, and sending data and probes.  A socket is
  the list of frames written to it; what arrives is the list of the receiver's results, and a
  handshake that needs more than arrived so far is \<open>None\<close>.  The join timeout is not modelled.
\<close>

section \<open>State\<close>

datatype TransportChoice = TcUdp | TcTcp

record RelayTransportSender =
  tx_tcp :: "byte list list"
  tx_tcp_open :: bool
  tx_udp :: "byte list list option"
  tx_connection_id :: "u64 option"
  tx_from_steam_id64 :: u64
  tx_next_frame_id :: u64
  tx_next_probe_id :: u64
  tx_resume_credential :: "SecretString option"

record 'j ClientEnv =
  ce_sha256 :: "byte list \<Rightarrow> byte list"
  ce_to_base58 :: base58_encoder
  ce_from_hex :: "string \<Rightarrow> byte list option"
  ce_client_json :: "(ClientControl, 'j) to_json"
  ce_server_json :: "(ServerControl, 'j) of_json"

text \<open>The route of a session: the credential of its room, the transport, and the shown name.\<close>

record RelayRoute =
  ro_session_credential :: "byte list"
  ro_transport :: TransportChoice

definition sender_new :: "TransportChoice \<Rightarrow> u64 \<Rightarrow> RelayTransportSender" where
  "sender_new choice steam_id64 =
     \<lparr>tx_tcp = [], tx_tcp_open = True, tx_udp = (if choice = TcUdp then Some [] else None),
      tx_connection_id = None, tx_from_steam_id64 = steam_id64, tx_next_frame_id = 1,
      tx_next_probe_id = 1, tx_resume_credential = None\<rparr>"

section \<open>Negotiation\<close>

fun profile_capability :: "TransportChoice \<Rightarrow> u64" where
  "profile_capability TcTcp = CAP_TCP_DATA"
| "profile_capability TcUdp = CAP_UDP_DATA"

definition client_hello :: "TransportChoice \<Rightarrow> BuildMetadata \<Rightarrow> BootstrapMessage" where
  "client_hello choice client =
     ClientHello BOOTSTRAP_SCHEMA
       [\<lparr>pr_major = PROTOCOL_MAJOR, pr_min_minor = 0, pr_max_minor = PROTOCOL_MINOR\<rparr>]
       (CAP_RESUME OR profile_capability choice)
       (CAP_TCP_DATA OR CAP_UDP_DATA OR CAP_ROOM_PATH_PROBE) client"

definition accept_hello :: "TransportChoice \<Rightarrow> BootstrapMessage \<Rightarrow> (io_kind, u64) res" where
  "accept_hello choice response =
     (case response of
        ServerHello schema selected enabled relay \<Rightarrow>
          if pv_major selected = PROTOCOL_MAJOR \<and> pv_minor selected = PROTOCOL_MINOR
             \<and> enabled AND (CAP_RESUME OR profile_capability choice)
                 = CAP_RESUME OR profile_capability choice
          then Ok enabled else Err KUnsupported
      | CompatReject reject \<Rightarrow> Err KUnsupported
      | ClientHello _ _ _ _ _ \<Rightarrow> Err KUnsupported)"

definition supports_room_path_probe :: "u64 \<Rightarrow> bool" where
  "supports_room_path_probe enabled_capabilities = (enabled_capabilities AND CAP_ROOM_PATH_PROBE \<noteq> 0)"

section \<open>Proof of work\<close>

definition client_decode_hex_16 :: "(string \<Rightarrow> byte list option) \<Rightarrow> string \<Rightarrow> (io_kind, byte list) res" where
  "client_decode_hex_16 from_hex value =
     (if length value \<noteq> 32 then Err KInvalidData else ok_or (from_hex value) KInvalidData)"

definition client_leading_zero_bits :: "byte list \<Rightarrow> byte \<Rightarrow> bool" where
  "client_leading_zero_bits bytes bits =
     (let whole = unat (bits div 8); rest = bits mod 8 in
      whole \<le> length bytes
      \<and> list_all (\<lambda>b. b = 0) (take whole bytes)
      \<and> (rest = 0 \<or> (whole < length bytes \<and> drop_bit (unat (8 - rest)) (bytes ! whole) = 0)))"

text \<open>\<open>{counter:016x}\<close>\<close>

definition hex_digit :: "nat \<Rightarrow> char" where
  "hex_digit d = ''0123456789abcdef'' ! d"

definition hex_u64 :: "nat \<Rightarrow> string" where
  "hex_u64 n = map (\<lambda>i. hex_digit (n div 16 ^ i mod 16)) (rev [0..<16])"

text \<open>
  The search over \<open>0_u64..\<close>.  The iterator computes its next value before it yields the current
  one, so asking it for \<open>u64::MAX\<close> overflows, which panics in a build with overflow checks: the
  loop is bounded, and the error after it is never reached.
\<close>

function pow_search ::
  "(byte list \<Rightarrow> byte list) \<Rightarrow> byte list \<Rightarrow> byte \<Rightarrow> nat \<Rightarrow> (io_kind, string) res" where
  "pow_search sha256 prefix difficulty_bits counter =
     (if 2 ^ 64 - 1 \<le> counter then Panic
      else
        let proof_s = hex_u64 counter;
            digest = sha256 (prefix @ str_bytes proof_s)
        in if client_leading_zero_bits digest difficulty_bits then Ok proof_s
           else pow_search sha256 prefix difficulty_bits (Suc counter))"
  by pat_completeness auto
termination
  by (relation "measure (\<lambda>(_, _, _, counter). 2 ^ 64 - counter)") auto

declare pow_search.simps [simp del]

definition solve_pow ::
  "'j ClientEnv \<Rightarrow> string \<Rightarrow> byte list \<Rightarrow> u64 \<Rightarrow> string \<Rightarrow> byte \<Rightarrow> (io_kind, string) res" where
  "solve_pow env challenge_id session steam_id64 nonce difficulty_bits =
     (if difficulty_bits = 0 then Ok []
      else
        rbind (client_decode_hex_16 (ce_from_hex env) challenge_id) (\<lambda>challenge.
        rbind (client_decode_hex_16 (ce_from_hex env) nonce) (\<lambda>nonce.
        pow_search (ce_sha256 env) (challenge @ session @ put_u64 steam_id64 @ nonce)
          difficulty_bits 0)))"

section \<open>Sending\<close>

definition transport_send ::
  "RelayTransportSender \<Rightarrow> bool \<Rightarrow> byte list \<Rightarrow> RelayTransportSender \<times> (io_kind, unit) res" where
  "transport_send tx udp_ok frame =
     (case tx_udp tx of
        Some out \<Rightarrow> if udp_ok then (tx\<lparr>tx_udp := Some (out @ [frame])\<rparr>, Ok ()) else (tx, Err other)
      | None \<Rightarrow> if tx_tcp_open tx then (tx\<lparr>tx_tcp := tx_tcp tx @ [frame]\<rparr>, Ok ()) else (tx, Err other))"

definition data_frame :: "RelayTransportSender \<Rightarrow> u64 \<Rightarrow> OutboundGamePacket \<Rightarrow> DataFrame" where
  "data_frame tx connection_id packet =
     \<lparr>df_connection_id = connection_id, df_frame_id = tx_next_frame_id tx,
      df_from_steam_id64 = tx_from_steam_id64 tx, df_to_steam_id64 = og_to_steam_id64 packet,
      df_delivery_stream_id = og_delivery_stream_id packet,
      df_delivery_sequence = og_delivery_sequence packet, df_channel = og_channel packet,
      df_send_type = og_send_type packet, df_payload = og_payload packet\<rparr>"

text \<open>\<open>udp_ok\<close>: whether the UDP socket takes the datagram.\<close>

definition send_data_datagram ::
  "RelayTransportSender \<Rightarrow> bool \<Rightarrow> OutboundGamePacket \<Rightarrow> RelayTransportSender \<times> (io_kind, unit) res" where
  "send_data_datagram tx udp_ok packet =
     (case tx_connection_id tx of
        None \<Rightarrow> (tx, Err KNotConnected)
      | Some connection_id \<Rightarrow>
          case encode_frame (DataF (data_frame tx connection_id packet)) of
            Err _ \<Rightarrow> (tx, Err other)
          | Panic \<Rightarrow> (tx, Panic)
          | Ok frame \<Rightarrow>
              transport_send (tx\<lparr>tx_next_frame_id := saturating_add (tx_next_frame_id tx) 1\<rparr>) udp_ok frame)"

definition send_probe ::
  "RelayTransportSender \<Rightarrow> bool \<Rightarrow> u64 \<Rightarrow> u64 \<Rightarrow> ProbePhase \<Rightarrow> RelayTransportSender \<times> (io_kind, unit) res" where
  "send_probe tx udp_ok to_steam_id64 probe_id phase =
     (case tx_connection_id tx of
        None \<Rightarrow> (tx, Err KNotConnected)
      | Some connection_id \<Rightarrow>
          case encode_frame (ProbeF \<lparr>pf_connection_id = connection_id, pf_probe_id = probe_id,
                 pf_from_steam_id64 = tx_from_steam_id64 tx, pf_to_steam_id64 = to_steam_id64,
                 pf_phase = phase\<rparr>) of
            Err _ \<Rightarrow> (tx, Err other)
          | Panic \<Rightarrow> (tx, Panic)
          | Ok frame \<Rightarrow> transport_send tx udp_ok frame)"

definition next_probe_id :: "RelayTransportSender \<Rightarrow> RelayTransportSender \<times> u64" where
  "next_probe_id tx =
     (let i = tx_next_probe_id tx
      in (tx\<lparr>tx_next_probe_id := (if i = - 1 then 1 else i + 1)\<rparr>, i))"

definition client_send_control ::
  "'j ClientEnv \<Rightarrow> RelayTransportSender \<Rightarrow> ClientControl \<Rightarrow> RelayTransportSender \<times> (io_kind, unit) res" where
  "client_send_control env tx message =
     (case encode_client_control (ce_client_json env) message of
        Err _ \<Rightarrow> (tx, Err other)
      | Panic \<Rightarrow> (tx, Panic)
      | Ok payload \<Rightarrow>
          case encode_frame (ClientControlFrame payload) of
            Err _ \<Rightarrow> (tx, Err other)
          | Panic \<Rightarrow> (tx, Panic)
          | Ok frame \<Rightarrow>
              if tx_tcp_open tx then (tx\<lparr>tx_tcp := tx_tcp tx @ [frame]\<rparr>, Ok ()) else (tx, Err other))"

section \<open>Waiting for control messages\<close>

type_synonym incoming = "(io_kind, byte list) res list"

text \<open>
  \<open>recv_server_control\<close> inside the loop of its caller: frames other than server control are skipped,
  and so are the messages for which \<open>handler\<close> has no answer.
\<close>

fun await_control ::
  "'j ClientEnv \<Rightarrow> (ServerControl \<Rightarrow> (io_kind, 'a) res option) \<Rightarrow> incoming
     \<Rightarrow> (incoming \<times> (io_kind, 'a) res) option" where
  "await_control env handler [] = None"
| "await_control env handler (r # rest) =
     (case r of
        Err e \<Rightarrow> Some (rest, Err e)
      | Panic \<Rightarrow> Some (rest, Panic)
      | Ok raw \<Rightarrow>
          case decode_frame raw of
            Err _ \<Rightarrow> Some (rest, Err other)
          | Panic \<Rightarrow> Some (rest, Panic)
          | Ok (ServerControlFrame payload) \<Rightarrow>
              (case decode_server_control (ce_server_json env) payload of
                 Err _ \<Rightarrow> Some (rest, Err other)
               | Panic \<Rightarrow> Some (rest, Panic)
               | Ok message \<Rightarrow>
                   case handler message of
                     Some answer \<Rightarrow> Some (rest, answer)
                   | None \<Rightarrow> await_control env handler rest)
          | Ok _ \<Rightarrow> await_control env handler rest)"

text \<open>A step of a handshake: what the next message is waited for, and what follows.\<close>

definition await_then ::
  "'j ClientEnv \<Rightarrow> (ServerControl \<Rightarrow> (io_kind, 'a) res option) \<Rightarrow> RelayTransportSender \<Rightarrow> incoming
     \<Rightarrow> ('a \<Rightarrow> incoming \<Rightarrow> (RelayTransportSender \<times> incoming \<times> (io_kind, 'b) res) option)
     \<Rightarrow> (RelayTransportSender \<times> incoming \<times> (io_kind, 'b) res) option" where
  "await_then env handler tx input k =
     (case await_control env handler input of
        None \<Rightarrow> None
      | Some (rest, Ok x) \<Rightarrow> k x rest
      | Some (rest, Err e) \<Rightarrow> Some (tx, rest, Err e)
      | Some (rest, Panic) \<Rightarrow> Some (tx, rest, Panic))"

definition send_then ::
  "'j ClientEnv \<Rightarrow> ClientControl \<Rightarrow> RelayTransportSender \<Rightarrow> incoming
     \<Rightarrow> (RelayTransportSender \<Rightarrow> (RelayTransportSender \<times> incoming \<times> (io_kind, 'b) res) option)
     \<Rightarrow> (RelayTransportSender \<times> incoming \<times> (io_kind, 'b) res) option" where
  "send_then env message tx input k =
     (case client_send_control env tx message of
        (tx, Ok _) \<Rightarrow> k tx
      | (tx, Err e) \<Rightarrow> Some (tx, input, Err e)
      | (tx, Panic) \<Rightarrow> Some (tx, input, Panic))"

section \<open>The join handshake\<close>

fun on_challenge :: "ServerControl \<Rightarrow> (io_kind, string \<times> string \<times> byte) res option" where
  "on_challenge (SC_AdmissionChallenge challenge_id algorithm nonce difficulty_bits) =
     (if algorithm = ''sha256'' then Some (Ok (challenge_id, nonce, difficulty_bits)) else None)"
| "on_challenge (SC_Error code message retryable) = Some (Err other)"
| "on_challenge _ = None"

fun on_join_ready ::
  "ServerControl \<Rightarrow> (io_kind, u64 \<times> SecretString \<times> PeerPresenceInfo list) res option" where
  "on_join_ready (SC_JoinReady connection_id resume_credential peers) =
     Some (Ok (connection_id, resume_credential, peers))"
| "on_join_ready (SC_Error code message retryable) = Some (Err other)"
| "on_join_ready _ = None"

fun on_path_token :: "u64 \<Rightarrow> ServerControl \<Rightarrow> (io_kind, SecretString) res option" where
  "on_path_token connection_id (SC_UdpPathToken returned path_token) =
     (if returned = connection_id then Some (Ok path_token) else None)"
| "on_path_token connection_id (SC_Error code message retryable) = Some (Err other)"
| "on_path_token connection_id _ = None"

fun on_path_ready :: "u64 \<Rightarrow> ServerControl \<Rightarrow> (io_kind, unit) res option" where
  "on_path_ready connection_id (SC_UdpPathReady returned) =
     (if returned = connection_id then Some (Ok ()) else None)"
| "on_path_ready connection_id (SC_Error code message retryable) = Some (Err other)"
| "on_path_ready connection_id _ = None"

definition validate_udp_path ::
  "'j ClientEnv \<Rightarrow> bool \<Rightarrow> RelayTransportSender \<Rightarrow> incoming \<Rightarrow> u64
     \<Rightarrow> (RelayTransportSender \<times> incoming \<times> (io_kind, unit) res) option" where
  "validate_udp_path env udp_ok tx input connection_id =
     (case tx_udp tx of
        None \<Rightarrow> Some (tx, input, Err KInvalidInput)
      | Some _ \<Rightarrow>
          send_then env CC_UdpPathRequest tx input (\<lambda>tx.
          await_then env (on_path_token connection_id) tx input (\<lambda>path_token input.
          case encode_client_control (ce_client_json env) (CC_UdpPathHello connection_id path_token) of
            Err _ \<Rightarrow> Some (tx, input, Err other)
          | Panic \<Rightarrow> Some (tx, input, Panic)
          | Ok payload \<Rightarrow>
              case encode_frame (ClientControlFrame payload) of
                Err _ \<Rightarrow> Some (tx, input, Err other)
              | Panic \<Rightarrow> Some (tx, input, Panic)
              | Ok frame \<Rightarrow>
                  (case transport_send tx udp_ok frame of
                     (tx, Ok _) \<Rightarrow>
                       await_then env (on_path_ready connection_id) tx input (\<lambda>_ input.
                       Some (tx, input, Ok ()))
                   | (tx, Err e) \<Rightarrow> Some (tx, input, Err e)
                   | (tx, Panic) \<Rightarrow> Some (tx, input, Panic)))))"

fun wire_profile :: "TransportChoice \<Rightarrow> WireDataProfile" where
  "wire_profile TcTcp = WTcp"
| "wire_profile TcUdp = WUdp"

definition wire_secret :: "base58_encoder \<Rightarrow> byte list \<Rightarrow> string" where
  "wire_secret to_base58 credential = to_base58 credential"

definition complete_relay_join ::
  "'j ClientEnv \<Rightarrow> bool \<Rightarrow> RelayTransportSender \<Rightarrow> incoming \<Rightarrow> RelayRoute \<Rightarrow> string
     \<Rightarrow> (RelayTransportSender \<times> incoming \<times> (io_kind, PeerPresenceInfo list) res) option" where
  "complete_relay_join env udp_ok tx input route display_name =
     send_then env
       (CC_JoinBegin (SecretString (wire_secret (ce_to_base58 env) (ro_session_credential route)))
          (tx_from_steam_id64 tx) (Some display_name) (wire_profile (ro_transport route))) tx input (\<lambda>tx.
     await_then env on_challenge tx input (\<lambda>(challenge_id, nonce, difficulty_bits) input.
     case solve_pow env challenge_id (ro_session_credential route) (tx_from_steam_id64 tx) nonce
            difficulty_bits of
       Err e \<Rightarrow> Some (tx, input, Err e)
     | Panic \<Rightarrow> Some (tx, input, Panic)
     | Ok proof_s \<Rightarrow>
         send_then env (CC_JoinProof challenge_id (SecretString proof_s)) tx input (\<lambda>tx.
         await_then env on_join_ready tx input (\<lambda>(connection_id, resume_credential, peers) input.
         let tx = tx\<lparr>tx_resume_credential := Some resume_credential,
                     tx_connection_id := Some connection_id\<rparr>
         in if tx_udp tx \<noteq> None
            then (case validate_udp_path env udp_ok tx input connection_id of
                    None \<Rightarrow> None
                  | Some (tx, input, Ok _) \<Rightarrow> Some (tx, input, Ok peers)
                  | Some (tx, input, Err e) \<Rightarrow> Some (tx, input, Err e)
                  | Some (tx, input, Panic) \<Rightarrow> Some (tx, input, Panic))
            else Some (tx, input, Ok peers)))))"

section \<open>Resuming\<close>

datatype RecoveryKind = Resumed "PeerPresenceInfo list" | FullJoin "PeerPresenceInfo list"

datatype ResumeAnswer = RaReady "PeerPresenceInfo list" | RaFullJoin

fun on_resume :: "u64 \<Rightarrow> ServerControl \<Rightarrow> (io_kind, ResumeAnswer) res option" where
  "on_resume connection_id (SC_ResumeReady returned peers udp_path_valid) =
     (if returned = connection_id then Some (Ok (RaReady peers)) else None)"
| "on_resume connection_id (SC_ResumeRejected code allow_full_join) =
     (if allow_full_join then Some (Ok RaFullJoin) else Some (Err KPermissionDenied))"
| "on_resume connection_id (SC_Error code message retryable) = Some (Err other)"
| "on_resume connection_id _ = None"

text \<open>
  \<open>reconnect\<close> with the replacement connection \<open>replacement\<close> (a fresh sender); the result is the
  sender in use afterwards, the old one when the recovery fails.
\<close>

definition reconnect ::
  "'j ClientEnv \<Rightarrow> bool \<Rightarrow> RelayTransportSender \<Rightarrow> RelayRoute \<Rightarrow> string \<Rightarrow> RelayTransportSender \<Rightarrow> incoming
     \<Rightarrow> (RelayTransportSender \<times> (io_kind, RecoveryKind) res) option" where
  "reconnect env udp_ok old route display_name replacement input =
     (case (tx_connection_id old, tx_resume_credential old) of
        (None, _) \<Rightarrow> Some (old, Err KNotConnected)
      | (_, None) \<Rightarrow> Some (old, Err KNotConnected)
      | (Some connection_id, Some credential) \<Rightarrow>
          let finish = (\<lambda>r. case r of
                 None \<Rightarrow> None
               | Some (tx, input, Ok kind) \<Rightarrow> Some (tx, Ok kind)
               | Some (tx, input, Err e) \<Rightarrow> Some (old, Err e)
               | Some (tx, input, Panic) \<Rightarrow> Some (old, Panic))
          in finish
            (send_then env (CC_Resume connection_id credential) replacement input (\<lambda>tx.
             await_then env (on_resume connection_id) tx input (\<lambda>answer input.
             case answer of
               RaReady peers \<Rightarrow>
                 let tx = tx\<lparr>tx_connection_id := Some connection_id,
                             tx_resume_credential := Some credential,
                             tx_next_frame_id := tx_next_frame_id old,
                             tx_next_probe_id := tx_next_probe_id old\<rparr>
                 in if tx_udp tx \<noteq> None
                    then (case validate_udp_path env udp_ok tx input connection_id of
                            None \<Rightarrow> None
                          | Some (tx, input, Ok _) \<Rightarrow> Some (tx, input, Ok (Resumed peers))
                          | Some (tx, input, Err e) \<Rightarrow> Some (tx, input, Err e)
                          | Some (tx, input, Panic) \<Rightarrow> Some (tx, input, Panic))
                    else Some (tx, input, Ok (Resumed peers))
             | RaFullJoin \<Rightarrow>
                 (case complete_relay_join env udp_ok tx input route display_name of
                    None \<Rightarrow> None
                  | Some (tx, input, Ok peers) \<Rightarrow> Some (tx, input, Ok (FullJoin peers))
                  | Some (tx, input, Err e) \<Rightarrow> Some (tx, input, Err e)
                  | Some (tx, input, Panic) \<Rightarrow> Some (tx, input, Panic))))))"

definition udp_bind_address :: "SocketAddr \<Rightarrow> SocketAddr" where
  "udp_bind_address relay_address =
     (case relay_address of SockV4 _ _ \<Rightarrow> SockV4 0 0 | SockV6 _ _ _ _ \<Rightarrow> SockV6 0 0 0 0)"

end
