(* ===== verification/Client_State.thy ===== *)
theory Client_State
  imports Path_Quality Relay_Client
begin

text \<open>
  The state the bridge client shows and the events that change it
  (\<open>bridge-core/src/client/state.rs\<close>), with the configuration of a session
  (\<open>session_config.rs\<close>).  The report of a readiness probe is a type parameter; a path is a string, the time
  is an argument, and an event channel is the list of events waiting in it.
\<close>

section \<open>Numbers in messages\<close>

definition decimal_digit :: "nat \<Rightarrow> char" where
  "decimal_digit d = ''0123456789'' ! d"

fun decimal :: "nat \<Rightarrow> string" where
  "decimal n = (if n < 10 then [decimal_digit n] else decimal (n div 10) @ [decimal_digit (n mod 10)])"

declare decimal.simps [simp del]

definition decimal_word :: "'a::len word \<Rightarrow> string" where
  "decimal_word w = decimal (unat w)"

section \<open>The configuration of a session\<close>

datatype SessionMode = SmOfficial | SmFallback | SmPure

fun mode_display :: "SessionMode \<Rightarrow> string" where
  "mode_display SmOfficial = ''Official''"
| "mode_display SmFallback = ''Fallback''"
| "mode_display SmPure = ''Pure''"

record SteamIdentity =
  si_steam_id64 :: string
  si_display_name :: string
  si_most_recent :: bool

record SessionHealthConfig =
  hc_enabled :: bool
  hc_runtime_rtt_enabled :: bool
  hc_snapshot_interval_seconds :: u64
  hc_runtime_rtt_interval_seconds :: u64
  hc_runtime_rtt_timeout_seconds :: u64

definition health_config_validate :: "SessionHealthConfig \<Rightarrow> (string, unit) res" where
  "health_config_validate c =
     (if hc_snapshot_interval_seconds c = 0 then Err ''snapshot_interval_seconds must be greater than 0''
      else if hc_runtime_rtt_interval_seconds c = 0 then Err ''runtime_rtt_interval_seconds must be greater than 0''
      else if hc_runtime_rtt_timeout_seconds c = 0 then Err ''runtime_rtt_timeout_seconds must be greater than 0''
      else Ok ())"

definition health_config_default :: SessionHealthConfig where
  "health_config_default =
     \<lparr>hc_enabled = True, hc_runtime_rtt_enabled = True, hc_snapshot_interval_seconds = 5,
      hc_runtime_rtt_interval_seconds = 1, hc_runtime_rtt_timeout_seconds = 3\<rparr>"

record RelayEndpoint =
  re_host :: string
  re_port :: u16

text \<open>\<open>strip_prefix('[')\<close>, then \<open>strip_suffix(']')\<close>; without either the host is kept as it is.\<close>

definition strip_brackets :: "string \<Rightarrow> string option" where
  "strip_brackets host =
     (if host \<noteq> [] \<and> hd host = CHR ''['' \<and> tl host \<noteq> [] \<and> last (tl host) = CHR '']''
      then Some (butlast (tl host)) else None)"

definition relay_endpoint_new :: "string \<Rightarrow> u16 \<Rightarrow> RelayEndpoint" where
  "relay_endpoint_new host port =
     (let host = trim host
      in \<lparr>re_host = (case strip_brackets host of None \<Rightarrow> host | Some inner \<Rightarrow> inner), re_port = port\<rparr>)"

datatype ConfigError =
    CeMissingRelayHost | CeInvalidRelayPort | CeMissingSteamId | CeInvalidSteamId | CeInvalidSessionHealth

definition relay_endpoint_validate :: "RelayEndpoint \<Rightarrow> (ConfigError, unit) res" where
  "relay_endpoint_validate e =
     (if trim (re_host e) = [] then Err CeMissingRelayHost
      else if re_port e = 0 then Err CeInvalidRelayPort
      else Ok ())"

definition relay_endpoint_display :: "RelayEndpoint \<Rightarrow> string" where
  "relay_endpoint_display e =
     (if CHR '':'' \<in> set (re_host e) then ''['' @ re_host e @ '']:'' @ decimal_word (re_port e)
      else re_host e @ '':'' @ decimal_word (re_port e))"

record ExternalRelayConfig =
  er_relay :: RelayEndpoint
  er_relay_name :: "string option"
  er_transport :: TransportChoice
  er_session_credential :: "byte list"

text \<open>The room of a direct session is a shared control plane; a number stands for it.\<close>

record LanDirectConfig =
  ld_session_credential :: "byte list"
  ld_room :: "nat option"

datatype SessionRouteConfig = RcExternalRelay ExternalRelayConfig | RcLanDirect LanDirectConfig

record SessionConfig =
  sc_route :: SessionRouteConfig
  sc_mode :: SessionMode
  sc_steam_id64 :: string
  sc_display_name :: string
  sc_session_health :: SessionHealthConfig

definition is_ascii_digit :: "char \<Rightarrow> bool" where
  "is_ascii_digit c \<longleftrightarrow> 48 \<le> (of_char c :: nat) \<and> (of_char c :: nat) \<le> 57"

definition session_config_validate :: "SessionConfig \<Rightarrow> (ConfigError, unit) res" where
  "session_config_validate c =
     rbind (case sc_route c of
              RcExternalRelay route \<Rightarrow> if sc_mode c \<noteq> SmOfficial then relay_endpoint_validate (er_relay route) else Ok ()
            | RcLanDirect _ \<Rightarrow> Ok ()) (\<lambda>_.
     if trim (sc_steam_id64 c) = [] then Err CeMissingSteamId
     else if \<not> list_all is_ascii_digit (sc_steam_id64 c) then Err CeInvalidSteamId
     else map_err (\<lambda>_. CeInvalidSessionHealth) (health_config_validate (sc_session_health c)))"

text \<open>\<open>str::parse::<u64>\<close> of a string of ASCII digits.\<close>

definition parse_u64_digits :: "string \<Rightarrow> u64 option" where
  "parse_u64_digits s =
     (let n = foldl (\<lambda>acc c. 10 * acc + (of_char c - 48)) (0 :: nat) s
      in if s = [] \<or> 2 ^ 64 \<le> n then None else Some (of_nat n))"

datatype ClientSessionLogRoute = LrExternalRelay "string option" RelayEndpoint TransportChoice | LrLanDirect

record ClientSessionLogContext =
  lc_route :: ClientSessionLogRoute
  lc_mode :: SessionMode

section \<open>Counters and states\<close>

definition MAX_IN_MEMORY_LOGS :: usize where "MAX_IN_MEMORY_LOGS = 2000"
definition MAX_CLIENT_INCIDENT_SNAPSHOTS :: usize where "MAX_CLIENT_INCIDENT_SNAPSHOTS = 16"
definition INCIDENT_REPEAT_WINDOW_SECONDS :: u64 where "INCIDENT_REPEAT_WINDOW_SECONDS = 60"
definition DATA_PLANE_STALL_MIN_ELAPSED_SECONDS :: nat where "DATA_PLANE_STALL_MIN_ELAPSED_SECONDS = 15"
definition DATA_PLANE_STALL_MIN_PACKETS :: u64 where "DATA_PLANE_STALL_MIN_PACKETS = 20"

record Counters =
  ct_hook_to_relay :: u64
  ct_relay_to_hook :: u64
  ct_sent_bytes :: u64
  ct_received_bytes :: u64
  ct_errors :: u64
  ct_reconnect_dropped_packets :: u64
  ct_detached_hook_dropped_packets :: u64
  ct_detached_relay_dropped_packets :: u64

definition counters_default :: Counters where
  "counters_default =
     \<lparr>ct_hook_to_relay = 0, ct_relay_to_hook = 0, ct_sent_bytes = 0, ct_received_bytes = 0, ct_errors = 0,
      ct_reconnect_dropped_packets = 0, ct_detached_hook_dropped_packets = 0, ct_detached_relay_dropped_packets = 0\<rparr>"

definition counters_add :: "Counters \<Rightarrow> Counters \<Rightarrow> Counters" where
  "counters_add c d =
     \<lparr>ct_hook_to_relay = saturating_add (ct_hook_to_relay c) (ct_hook_to_relay d),
      ct_relay_to_hook = saturating_add (ct_relay_to_hook c) (ct_relay_to_hook d),
      ct_sent_bytes = saturating_add (ct_sent_bytes c) (ct_sent_bytes d),
      ct_received_bytes = saturating_add (ct_received_bytes c) (ct_received_bytes d),
      ct_errors = saturating_add (ct_errors c) (ct_errors d),
      ct_reconnect_dropped_packets = saturating_add (ct_reconnect_dropped_packets c) (ct_reconnect_dropped_packets d),
      ct_detached_hook_dropped_packets =
        saturating_add (ct_detached_hook_dropped_packets c) (ct_detached_hook_dropped_packets d),
      ct_detached_relay_dropped_packets =
        saturating_add (ct_detached_relay_dropped_packets c) (ct_detached_relay_dropped_packets d)\<rparr>"

definition error_counter :: Counters where
  "error_counter = counters_default\<lparr>ct_errors := 1\<rparr>"

datatype SessionStatus = StIdle | StRunning

text \<open>\<open>u128\<close> milliseconds are natural numbers.\<close>

datatype RelayLinkState =
    RlInactive
  | RlConnected
  | RlReconnecting u32 nat string bool
  | RlRecovered u32 nat bool
  | RlRecoveryExhausted u32 nat string

datatype SessionStopReason = SrUserStopped | SrGameExited string u32 | SrRuntimeEnded string

datatype HookStartupPhase =
    HpNotStarted | HpConfigured | HpWaitingForIsaac | HpInjecting | HpWaitingForHookEndpoint | HpEndpointReady
  | HpReady | HpFailed | HpCancelled

record HookStartupState =
  hs_phase :: HookStartupPhase
  hs_process_name :: "string option"
  hs_pid :: "u32 option"
  hs_injector_path :: "string option"
  hs_hook_path :: "string option"
  hs_launch_parameters_path :: "string option"
  hs_endpoint :: "string option"
  hs_injected :: bool
  hs_endpoint_ready :: bool
  hs_access_denied :: bool
  hs_message :: "string option"
  hs_updated_at :: u64

definition hook_startup_default :: HookStartupState where
  "hook_startup_default =
     \<lparr>hs_phase = HpNotStarted, hs_process_name = None, hs_pid = None, hs_injector_path = None, hs_hook_path = None,
      hs_launch_parameters_path = None, hs_endpoint = None, hs_injected = False, hs_endpoint_ready = False,
      hs_access_denied = False, hs_message = None, hs_updated_at = 0\<rparr>"

definition is_started :: "HookStartupState \<Rightarrow> bool" where
  "is_started h \<longleftrightarrow> hs_phase h \<noteq> HpNotStarted"

datatype LogLevel = LvTrace | LvDebug | LvInfo | LvWarn | LvError

record LogEntry =
  le_timestamp_ms :: u64
  le_level :: LogLevel
  le_message :: string

datatype HookIpcConnectionState = IcInactive | IcListening | IcConnected | IcReconnecting | IcFailed

datatype HookInstallState = HiPending | HiReady | HiFailed

record HookIpcState =
  hi_connection :: HookIpcConnectionState
  hi_installation :: HookInstallState
  hi_game_steam_id64 :: "u64 option"
  hi_negotiated_major :: "u16 option"
  hi_negotiated_minor :: "u16 option"
  hi_reconnects :: u32
  hi_hook_data_dropped :: u64
  hi_client_data_dropped :: u64
  hi_malformed_frames :: u64
  hi_last_error :: "string option"
  hi_updated_at :: u64

definition hook_ipc_default :: HookIpcState where
  "hook_ipc_default =
     \<lparr>hi_connection = IcInactive, hi_installation = HiPending, hi_game_steam_id64 = None, hi_negotiated_major = None,
      hi_negotiated_minor = None, hi_reconnects = 0, hi_hook_data_dropped = 0, hi_client_data_dropped = 0,
      hi_malformed_frames = 0, hi_last_error = None, hi_updated_at = 0\<rparr>"

record SteamIdentityMismatch =
  im_room_steam_id64 :: u64
  im_game_steam_id64 :: u64

section \<open>Incidents\<close>

datatype ClientIncidentKind = CiDataPlaneStall | CiQueueDrop | CiRuntimeRttTimeout | CiDeliveryGap

fun incident_kind_display :: "ClientIncidentKind \<Rightarrow> string" where
  "incident_kind_display CiDataPlaneStall = ''data_plane_stall''"
| "incident_kind_display CiQueueDrop = ''queue_drop''"
| "incident_kind_display CiRuntimeRttTimeout = ''runtime_rtt_timeout''"
| "incident_kind_display CiDeliveryGap = ''delivery_gap''"

record ClientIncidentSnapshot =
  in_timestamp :: u64
  in_kind :: ClientIncidentKind
  in_summary :: string
  in_health :: SessionHealthSnapshot

definition data_plane_stalled :: "SessionHealthSnapshot \<Rightarrow> bool" where
  "data_plane_stalled health \<longleftrightarrow>
     DATA_PLANE_STALL_MIN_ELAPSED_SECONDS \<le> sn_elapsed_seconds health
     \<and> (DATA_PLANE_STALL_MIN_PACKETS \<le> pss_packets (sn_hook_in_recv health) \<and> pss_packets (sn_network_recv health) = 0
        \<or> DATA_PLANE_STALL_MIN_PACKETS \<le> pss_packets (sn_network_recv health)
          \<and> ls_count (sn_hook_out_send_duration health) = 0)"

definition incident_base :: "SessionHealthSnapshot \<Rightarrow> string" where
  "incident_base health =
     ''elapsed='' @ decimal (sn_elapsed_seconds health)
     @ ''s hook_in='' @ decimal_word (pss_packets (sn_hook_in_recv health))
     @ '' network_recv='' @ decimal_word (pss_packets (sn_network_recv health))
     @ '' hook_out_sends='' @ decimal_word (ls_count (sn_hook_out_send_duration health))
     @ '' rtt_sent='' @ decimal_word (rts_sent (sn_runtime_rtt health))
     @ '' rtt_recv='' @ decimal_word (rts_received (sn_runtime_rtt health))
     @ '' rtt_timeout='' @ decimal_word (rts_timed_out (sn_runtime_rtt health))
     @ '' queue_drops='' @ decimal_word (total_dropped (sn_queues health))
     @ '' direct_send_drops='' @ decimal_word (ddh_dropped (dfh_send (sn_direct health)))
     @ '' direct_receive_drops='' @ decimal_word (ddh_dropped (dfh_receive (sn_direct health)))
     @ '' delivery_gaps='' @ decimal_word (dh_confirmed_gaps (sn_delivery health))"

fun incident_summary :: "ClientIncidentKind \<Rightarrow> SessionHealthSnapshot \<Rightarrow> string" where
  "incident_summary CiDataPlaneStall health =
     incident_base health @ ''; possible missing target or local data-plane stall''"
| "incident_summary CiQueueDrop health = incident_base health @ ''; local queue dropped packets''"
| "incident_summary CiRuntimeRttTimeout health = incident_base health @ ''; runtime RTT timed out''"
| "incident_summary CiDeliveryGap health =
     incident_base health @ ''; confirmed gameplay delivery gaps observed''"

definition incident_from_health :: "u64 \<Rightarrow> SessionHealthSnapshot \<Rightarrow> ClientIncidentSnapshot option" where
  "incident_from_health timestamp health =
     map_option (\<lambda>kind. \<lparr>in_timestamp = timestamp, in_kind = kind, in_summary = incident_summary kind health,
                         in_health = health\<rparr>)
       (if 0 < total_dropped (sn_queues health) then Some CiQueueDrop
        else if 0 < rts_timed_out (sn_runtime_rtt health) then Some CiRuntimeRttTimeout
        else if 0 < dh_confirmed_gaps (sn_delivery health) then Some CiDeliveryGap
        else if data_plane_stalled health then Some CiDataPlaneStall
        else None)"

definition recently_recorded :: "ClientIncidentSnapshot list \<Rightarrow> ClientIncidentSnapshot \<Rightarrow> bool" where
  "recently_recorded incidents incident =
     list_ex (\<lambda>previous. in_kind previous = in_kind incident
         \<and> saturating_sub (in_timestamp incident) (in_timestamp previous) < INCIDENT_REPEAT_WINDOW_SECONDS)
       (rev incidents)"

definition record_session_health_incident ::
  "ClientIncidentSnapshot list \<Rightarrow> u64 \<Rightarrow> SessionHealthSnapshot
     \<Rightarrow> ClientIncidentSnapshot list \<times> ClientIncidentSnapshot option" where
  "record_session_health_incident incidents now_seconds health =
     (case incident_from_health now_seconds health of
        None \<Rightarrow> (incidents, None)
      | Some incident \<Rightarrow>
          if recently_recorded incidents incident then (incidents, None)
          else
            let incidents = incidents @ [incident]
            in (drop (length incidents - MAX_CLIENT_INCIDENT_SNAPSHOTS) incidents, Some incident))"

section \<open>Reports of the probes\<close>

fun transport_display :: "TransportChoice \<Rightarrow> string" where
  "transport_display TcUdp = ''UDP''"
| "transport_display TcTcp = ''TCP''"

record LightPingTarget =
  lp_relay_id :: "string option"
  lp_relay_name :: "string option"
  lp_endpoint :: RelayEndpoint
  lp_transport :: TransportChoice

record LightPingReport =
  lr_target :: LightPingTarget
  lr_sent :: byte
  lr_received :: byte
  lr_median_rtt_ms :: "nat option"
  lr_failure_reason :: "string option"

definition latency_label :: "LightPingReport \<Rightarrow> string" where
  "latency_label r = (if lr_failure_reason r \<noteq> None then ''unreachable'' else ''ok'')"

record HookReceiveProbeReport =
  hr_connection :: string
  hr_protocol_major :: "u16 option"
  hr_protocol_minor :: "u16 option"
  hr_reconnects :: u32
  hr_hook_data_dropped :: u64
  hr_client_data_dropped :: u64
  hr_malformed_frames :: u64
  hr_last_error :: "string option"

fun connection_display :: "HookIpcConnectionState \<Rightarrow> string" where
  "connection_display IcInactive = ''inactive''"
| "connection_display IcListening = ''listening''"
| "connection_display IcConnected = ''connected''"
| "connection_display IcReconnecting = ''reconnecting''"
| "connection_display IcFailed = ''failed''"

definition hook_ipc_report :: "HookIpcState \<Rightarrow> HookReceiveProbeReport" where
  "hook_ipc_report ipc =
     \<lparr>hr_connection = connection_display (hi_connection ipc), hr_protocol_major = hi_negotiated_major ipc,
      hr_protocol_minor = hi_negotiated_minor ipc, hr_reconnects = hi_reconnects ipc,
      hr_hook_data_dropped = hi_hook_data_dropped ipc, hr_client_data_dropped = hi_client_data_dropped ipc,
      hr_malformed_frames = hi_malformed_frames ipc, hr_last_error = hi_last_error ipc\<rparr>"

definition or_dash :: "'a::len word option \<Rightarrow> string" where
  "or_dash v = (case v of None \<Rightarrow> ''-'' | Some w \<Rightarrow> decimal_word w)"

definition hook_report_summary :: "HookReceiveProbeReport \<Rightarrow> string" where
  "hook_report_summary r =
     ''Hook IPC health: connection='' @ hr_connection r @ '' version='' @ or_dash (hr_protocol_major r) @ ''.''
     @ or_dash (hr_protocol_minor r) @ '' reconnects='' @ decimal_word (hr_reconnects r)
     @ '' drops='' @ decimal_word (hr_hook_data_dropped r) @ ''/'' @ decimal_word (hr_client_data_dropped r)
     @ '' malformed='' @ decimal_word (hr_malformed_frames r)"

definition hook_report_display :: "HookReceiveProbeReport \<Rightarrow> string" where
  "hook_report_display r =
     hook_report_summary r @ (case hr_last_error r of None \<Rightarrow> [] | Some e \<Rightarrow> ''; last_error='' @ e)"

section \<open>Events\<close>

text \<open>\<open>'p\<close> is the type of the report of a readiness probe.\<close>

datatype 'p RuntimeEvent =
    EvLog LogLevel string
  | EvCounterDelta Counters
  | EvReadinessProbeFinished "string + 'p"
  | EvHookReceiveProbeFinished "string + HookReceiveProbeReport"
  | EvHookStartup HookStartupState
  | EvHookIpc HookIpcState
  | EvSessionHealthSnapshot SessionHealthSnapshot
  | EvSessionHealthSummary SessionHealthSnapshot
  | EvSessionEnded SessionStopReason
  | EvHookTargetObserved u64
  | EvGameplayStopped
  | EvStopped
  | EvLightPingFinished LightPingReport
  | EvRoomPeersUpdated "PeerPresenceInfo list"
  | EvRoomPathQualityUpdated "RoomPathQualitySnapshot list"
  | EvRelayLinkChanged RelayLinkState
  | EvRelayRttUpdated "duration option"

definition log_entry :: "u64 \<Rightarrow> LogLevel \<Rightarrow> string \<Rightarrow> LogEntry" where
  "log_entry now_ms level message = \<lparr>le_timestamp_ms = now_ms, le_level = level, le_message = message\<rparr>"

definition trim_logs :: "LogEntry list \<Rightarrow> LogEntry list" where
  "trim_logs logs = drop (length logs - MAX_IN_MEMORY_LOGS) logs"

text \<open>The bounded channel of events; the capacity is the one of the session.\<close>

definition EVENT_QUEUE_CAPACITY :: usize where "EVENT_QUEUE_CAPACITY = 512"

type_synonym 'p event_queue = "'p RuntimeEvent list"

definition try_send_event :: "'p event_queue \<Rightarrow> 'p RuntimeEvent \<Rightarrow> 'p event_queue \<times> bool" where
  "try_send_event q event = (if length q < EVENT_QUEUE_CAPACITY then (q @ [event], True) else (q, False))"

definition send_event :: "'p event_queue \<Rightarrow> 'p RuntimeEvent \<Rightarrow> 'p event_queue" where
  "send_event q event = fst (try_send_event q event)"

section \<open>Incidents are throttled\<close>

definition incidents_ok :: "ClientIncidentSnapshot list \<Rightarrow> bool" where
  "incidents_ok xs \<longleftrightarrow>
     length xs \<le> MAX_CLIENT_INCIDENT_SNAPSHOTS
     \<and> sorted_wrt (\<lambda>a b. in_kind a = in_kind b \<longrightarrow> 60 \<le> unat (saturating_sub (in_timestamp b) (in_timestamp a))) xs"

lemma incident_records:
  assumes "incidents_ok xs"
  shows "incidents_ok (fst (record_session_health_incident xs t health))"
proof (cases "incident_from_health t health")
  case (Some i)
  have "recently_recorded xs i
      \<or> (\<forall>a \<in> set xs. in_kind a = in_kind i \<longrightarrow> 60 \<le> unat (saturating_sub (in_timestamp i) (in_timestamp a)))"
    by (auto simp: recently_recorded_def list_ex_iff INCIDENT_REPEAT_WINDOW_SECONDS_def word_less_nat_alt)
  moreover have "incidents_ok (drop (length (xs @ [i]) - MAX_CLIENT_INCIDENT_SNAPSHOTS) (xs @ [i]))"
    if "\<forall>a \<in> set xs. in_kind a = in_kind i \<longrightarrow> 60 \<le> unat (saturating_sub (in_timestamp i) (in_timestamp a))"
    using assms that unfolding incidents_ok_def by (intro conjI sorted_wrt_drop) (auto simp: sorted_wrt_append)
  ultimately show ?thesis using assms Some by (auto simp: record_session_health_incident_def Let_def)
qed (use assms in \<open>simp add: record_session_health_incident_def\<close>)

lemma logs_bounded: "length (trim_logs logs) \<le> MAX_IN_MEMORY_LOGS"
  by (simp add: trim_logs_def)

section \<open>A queue drop hides every later incident\<close>

lemma snapshot_queues: "sn_queues (snd (health_snapshot h now)) = sh_queues h"
  by (simp add: health_snapshot_def Let_def expire_runtime_rtt_def queue_snapshot_def split: prod.split)

lemma step_queue_drops:
  assumes "health_step op h = (h', out)"
  shows "total_dropped (sh_queues h) \<le> total_dropped (sh_queues h')"
    and "s \<in> set out \<Longrightarrow> sn_queues s = sh_queues h"
proof -
  show "total_dropped (sh_queues h) \<le> total_dropped (sh_queues h')"
    using step_counters [of h op] assms by (simp add: current_baseline_def baseline_from_health_def queue_snapshot_def)
  show "s \<in> set out \<Longrightarrow> sn_queues s = sh_queues h"
    using assms snapshot_queues [of h] by (cases op) (auto split: prod.splits, metis snd_conv)
qed

lemma run_queue_drops:
  assumes "health_run ops h = (h', out)"
  shows "sorted (map (\<lambda>s. total_dropped (sn_queues s)) out)
    \<and> (\<forall>s \<in> set out. total_dropped (sh_queues h) \<le> total_dropped (sn_queues s))"
  using assms
proof (induction ops arbitrary: h out)
  case (Cons op ops)
  obtain h1 o1 o2 where 1: "health_step op h = (h1, o1)" and 2: "health_run ops h1 = (h', o2)" "out = o1 @ o2"
    using Cons.prems by (auto split: prod.splits)
  note IH = Cons.IH [OF 2(1)]
  have len: "length o1 \<le> 1" using 1 by (cases op) (auto split: prod.splits)
  have "sorted (map (\<lambda>s. total_dropped (sn_queues s)) o1)" using len by (cases o1) auto
  moreover have "total_dropped (sn_queues a) \<le> total_dropped (sn_queues b)" if "a \<in> set o1" "b \<in> set o2" for a b
    using step_queue_drops [OF 1] that IH by (auto intro: order_trans)
  moreover have "total_dropped (sh_queues h) \<le> total_dropped (sn_queues s)" if "s \<in> set out" for s
    using step_queue_drops [OF 1] that IH 2(2) by (auto intro: order_trans)
  ultimately show ?case using IH 2(2) by (auto simp: sorted_append)
qed simp

text \<open>
  C36: One dropped packet hides every later incident of a session.  The kind of an incident is chosen from the
  totals since the session began, and the queue drops come first: once a snapshot shows a drop, every later one is
  reported as a queue drop, whether or not anything was dropped since, and no probe timeout, delivery gap or
  stalled data plane is reported any more.
\<close>

theorem queue_drop_hides_incidents:
  assumes "i < j" and "j < length (snd (health_run ops h))"
    and "0 < total_dropped (sn_queues (snd (health_run ops h) ! i))"
  shows "map_option in_kind (incident_from_health t (snd (health_run ops h) ! j)) = Some CiQueueDrop"
proof -
  let ?out = "snd (health_run ops h)"
  have "sorted (map (\<lambda>s. total_dropped (sn_queues s)) ?out)"
    using run_queue_drops [of ops h "fst (health_run ops h)" ?out] by simp
  then have "total_dropped (sn_queues (?out ! i)) \<le> total_dropped (sn_queues (?out ! j))"
    using assms(1,2) sorted_nth_mono [of "map (\<lambda>s. total_dropped (sn_queues s)) ?out" i j] by simp
  then have "0 < total_dropped (sn_queues (?out ! j))" using assms(3) by (rule less_le_trans [rotated])
  then show ?thesis by (simp add: incident_from_health_def)
qed

definition sample_drop_run :: "HealthOp list" where
  "sample_drop_run = [HoOutbound False, HoSnapshot 0, HoPing 0, HoExpire (10 ^ 10), HoSnapshot (10 ^ 10)]"

lemma sample_drop_snapshots:
  "length (snd (health_run sample_drop_run (session_health_new True 5 0))) = 2"
  "total_dropped (sn_queues (snd (health_run sample_drop_run (session_health_new True 5 0)) ! 0)) = 1"
  by (simp_all add: sample_drop_run_def split_beta Let_def snapshot_queues session_health_new_def
      observe_outbound_enqueue_def observe_outbound_def queue_stats_default_def total_dropped_def saturating_add_def)

theorem queue_drop_hides_incidents_witness:
  "map_option in_kind
     (incident_from_health 10 (snd (health_run sample_drop_run (session_health_new True 5 0)) ! 1)) = Some CiQueueDrop"
  by (rule queue_drop_hides_incidents [where i = 0]) (simp_all add: sample_drop_snapshots)

end
