(* ===== verification/Relay_Session.thy ===== *)
theory Relay_Session
  imports Client_State
begin

text \<open>
  The tasks that move packets during a session (\<open>bridge-core/src/client/session/data_plane.rs\<close>) with
  the slots through which gameplay attaches to a relay room and to the Native Hook (\<open>session.rs\<close>) and
  the packet observer (\<open>packet_flow.rs\<close>).  A task is a state and a step per branch of its
  \<open>select!\<close>; what the branch finds in its environment (the clock, whether a socket takes a datagram, what
  happens while the relay is reconnected) is the argument of the step.  The text of an I/O error is a function of its
  kind.
\<close>

section \<open>Channels and slots\<close>

text \<open>Further kinds of I/O errors.\<close>

abbreviation KAlreadyExists :: io_kind where "KAlreadyExists \<equiv> KOther 1"
abbreviation KBrokenPipe :: io_kind where "KBrokenPipe \<equiv> KOther 2"

definition PACKET_QUEUE_CAPACITY :: usize where "PACKET_QUEUE_CAPACITY = 256"

record 'a Channel =
  ch_items :: "'a list"
  ch_open :: bool

definition channel_new :: "'a Channel" where
  "channel_new = \<lparr>ch_items = [], ch_open = True\<rparr>"

definition channel_try_send :: "'a Channel \<Rightarrow> 'a \<Rightarrow> 'a Channel \<times> bool" where
  "channel_try_send c x =
     (if ch_open c \<and> length (ch_items c) < PACKET_QUEUE_CAPACITY then (c\<lparr>ch_items := ch_items c @ [x]\<rparr>, True)
      else (c, False))"

datatype AttachmentSend = AsDelivered | AsDetached | AsFull

record 'a AttachmentSlot =
  sl_sender :: "(u64 \<times> 'a Channel) option"
  sl_next_generation :: u64

definition slot_new :: "'a AttachmentSlot" where
  "slot_new = \<lparr>sl_sender = None, sl_next_generation = 1\<rparr>"

text \<open>The counter wraps around, as \<open>fetch_add\<close> does.\<close>

definition slot_attach :: "'a AttachmentSlot \<Rightarrow> 'a Channel \<Rightarrow> 'a AttachmentSlot \<times> (io_kind, u64) res" where
  "slot_attach s sender =
     (if sl_sender s \<noteq> None then (s, Err KAlreadyExists)
      else
        let generation = sl_next_generation s
        in (s\<lparr>sl_next_generation := generation + 1, sl_sender := Some (generation, sender)\<rparr>, Ok generation))"

definition slot_detach :: "'a AttachmentSlot \<Rightarrow> u64 \<Rightarrow> 'a AttachmentSlot" where
  "slot_detach s generation =
     (case sl_sender s of
        None \<Rightarrow> s
      | Some (active, _) \<Rightarrow> if active = generation then s\<lparr>sl_sender := None\<rparr> else s)"

definition slot_try_send :: "'a AttachmentSlot \<Rightarrow> 'a \<Rightarrow> 'a AttachmentSlot \<times> AttachmentSend" where
  "slot_try_send s packet =
     (case sl_sender s of
        None \<Rightarrow> (s, AsDetached)
      | Some (generation, sender) \<Rightarrow>
          (case channel_try_send sender packet of
             (sender, True) \<Rightarrow> (s\<lparr>sl_sender := Some (generation, sender)\<rparr>, AsDelivered)
           | (sender, False) \<Rightarrow> (s, AsFull)))"

text \<open>The slot of the Native Hook makes the channel itself.\<close>

definition hook_slot_attach :: "GamePacket AttachmentSlot \<Rightarrow> GamePacket AttachmentSlot \<times> (io_kind, u64) res" where
  "hook_slot_attach s = slot_attach s channel_new"

definition hook_slot_detach :: "GamePacket AttachmentSlot \<Rightarrow> u64 \<Rightarrow> GamePacket AttachmentSlot" where
  "hook_slot_detach = slot_detach"

definition hook_slot_try_send ::
  "GamePacket AttachmentSlot \<Rightarrow> GamePacket \<Rightarrow> GamePacket AttachmentSlot \<times> AttachmentSend" where
  "hook_slot_try_send = slot_try_send"

datatype RelayInboundTarget =
    RtFixed "InboundGamePacket Channel"
  | RtRoom "InboundGamePacket AttachmentSlot"

fun target_try_send :: "RelayInboundTarget \<Rightarrow> InboundGamePacket \<Rightarrow> RelayInboundTarget \<times> AttachmentSend" where
  "target_try_send (RtFixed sender) packet =
     (let (sender, ok) = channel_try_send sender packet in (RtFixed sender, if ok then AsDelivered else AsFull))"
| "target_try_send (RtRoom slot) packet =
     (let (slot, result) = slot_try_send slot packet in (RtRoom slot, result))"

section \<open>Errors, counters and the packet observer\<close>

definition send_error :: "'p event_queue \<Rightarrow> string \<Rightarrow> 'p event_queue" where
  "send_error q message = send_event (send_event q (EvLog LvWarn message)) (EvCounterDelta error_counter)"

definition network_out_counter :: "u64 \<Rightarrow> Counters" where
  "network_out_counter sent_bytes = counters_default\<lparr>ct_hook_to_relay := 1, ct_sent_bytes := sent_bytes\<rparr>"

definition network_in_counter :: "u64 \<Rightarrow> Counters" where
  "network_in_counter received_bytes = counters_default\<lparr>ct_relay_to_hook := 1, ct_received_bytes := received_bytes\<rparr>"

definition decimal_i32 :: "i32 \<Rightarrow> string" where
  "decimal_i32 n = (if sint n < 0 then CHR ''-'' # decimal (nat (- sint n)) else decimal (nat (sint n)))"

record PacketObserver =
  po_hook_packets :: u64
  po_network_packets :: u64
  po_last_hook_packet_at :: "instant option"
  po_last_network_packet_at :: "instant option"

definition observer_default :: PacketObserver where
  "observer_default =
     \<lparr>po_hook_packets = 0, po_network_packets = 0, po_last_hook_packet_at = None, po_last_network_packet_at = None\<rparr>"

definition observe_packet_gap ::
  "'p event_queue \<Rightarrow> string \<Rightarrow> instant option \<Rightarrow> instant \<Rightarrow> 'p event_queue" where
  "observe_packet_gap q direction last_packet_at now =
     (case last_packet_at of
        None \<Rightarrow> q
      | Some previous \<Rightarrow>
          let gap = duration_since now previous
          in if 10 ^ 9 \<le> gap
             then send_event q (EvLog LvDebug (direction @ '' packet gap: '' @ decimal (as_millis gap) @ '' ms''))
             else q)"

definition observe_hook_packet ::
  "PacketObserver \<Rightarrow> 'p event_queue \<Rightarrow> PacketSummary \<Rightarrow> instant \<Rightarrow> PacketObserver \<times> 'p event_queue" where
  "observe_hook_packet o1 q summary now =
     (let q = observe_packet_gap q ''Hook -> network'' (po_last_hook_packet_at o1) now;
          n = saturating_add (po_hook_packets o1) 1;
          q = (if n = 1 then send_event q (EvLog LvInfo ''First hook packet received'') else q);
          q = (if should_sample_packet n
               then send_event q (EvLog LvDebug
                 (''Hook -> network packet #'' @ decimal_word n @ '': to='' @ decimal_word (sum_peer summary)
                  @ '' hook_sequence='' @ decimal_word (sum_hook_sequence summary)
                  @ '' channel='' @ decimal_i32 (sum_channel summary)
                  @ '' send_type='' @ decimal_i32 (sum_send_type summary)
                  @ '' payload_bytes='' @ decimal (sum_payload_bytes summary)
                  @ '' wire_bytes='' @ decimal (sum_wire_bytes summary)))
               else q)
      in (o1\<lparr>po_hook_packets := n, po_last_hook_packet_at := Some now\<rparr>, q))"

definition observe_network_packet ::
  "PacketObserver \<Rightarrow> 'p event_queue \<Rightarrow> PacketSummary \<Rightarrow> instant \<Rightarrow> PacketObserver \<times> 'p event_queue" where
  "observe_network_packet o1 q summary now =
     (let q = observe_packet_gap q ''Network -> Hook'' (po_last_network_packet_at o1) now;
          n = saturating_add (po_network_packets o1) 1;
          q = (if n = 1 then send_event q (EvLog LvInfo ''First network packet received'') else q);
          q = (if should_sample_packet n
               then send_event q (EvLog LvDebug
                 (''Network -> Hook packet #'' @ decimal_word n @ '': from='' @ decimal_word (sum_peer summary)
                  @ '' delivery_sequence='' @ decimal_word (sum_delivery_sequence summary)
                  @ '' hook_sequence='' @ decimal_word (sum_hook_sequence summary)
                  @ '' channel='' @ decimal_i32 (sum_channel summary)
                  @ '' send_type='' @ decimal_i32 (sum_send_type summary)
                  @ '' payload_bytes='' @ decimal (sum_payload_bytes summary)
                  @ '' local_bytes='' @ decimal (sum_wire_bytes summary)))
               else q)
      in (o1\<lparr>po_network_packets := n, po_last_network_packet_at := Some now\<rparr>, q))"

section \<open>From the hook\<close>

text \<open>Counted drops are reported when the event queue takes the report, and kept otherwise.\<close>

definition report_detached_drops ::
  "(u64 \<Rightarrow> Counters) \<Rightarrow> 'p event_queue \<Rightarrow> u64 \<Rightarrow> 'p event_queue \<times> u64" where
  "report_detached_drops counters q dropped =
     (if 0 < dropped
      then (case try_send_event q (EvCounterDelta (counters dropped)) of
              (q, True) \<Rightarrow> (q, 0)
            | (q, False) \<Rightarrow> (q, dropped))
      else (q, dropped))"

definition report_detached_hook_drops :: "'p event_queue \<Rightarrow> u64 \<Rightarrow> 'p event_queue \<times> u64" where
  "report_detached_hook_drops =
     report_detached_drops (\<lambda>n. counters_default\<lparr>ct_detached_hook_dropped_packets := n\<rparr>)"

definition report_detached_relay_drops :: "'p event_queue \<Rightarrow> u64 \<Rightarrow> 'p event_queue \<times> u64" where
  "report_detached_relay_drops =
     report_detached_drops (\<lambda>n. counters_default\<lparr>ct_detached_relay_dropped_packets := n\<rparr>)"

record 'p HookDispatch =
  hd_slot :: "GamePacket AttachmentSlot"
  hd_detached_dropped :: u64
  hd_events :: "'p event_queue"

datatype HookDispatchInput = DiCancelled | DiTick | DiPacket "GamePacket option"

text \<open>The step of the dispatcher; the flag says that the task goes on.\<close>

definition hook_dispatch_step :: "HookDispatchInput \<Rightarrow> 'p HookDispatch \<Rightarrow> 'p HookDispatch \<times> bool" where
  "hook_dispatch_step input d =
     (case input of
        DiCancelled \<Rightarrow>
          let (q, n) = report_detached_hook_drops (hd_events d) (hd_detached_dropped d)
          in (d\<lparr>hd_events := q, hd_detached_dropped := n\<rparr>, False)
      | DiTick \<Rightarrow>
          let (q, n) = report_detached_hook_drops (hd_events d) (hd_detached_dropped d)
          in (d\<lparr>hd_events := q, hd_detached_dropped := n\<rparr>, True)
      | DiPacket None \<Rightarrow> (d, False)
      | DiPacket (Some packet) \<Rightarrow>
          (case hook_slot_try_send (hd_slot d) packet of
             (slot, AsDelivered) \<Rightarrow> (d\<lparr>hd_slot := slot\<rparr>, True)
           | (slot, AsDetached) \<Rightarrow>
               (d\<lparr>hd_slot := slot, hd_detached_dropped := saturating_add (hd_detached_dropped d) 1\<rparr>, True)
           | (slot, AsFull) \<Rightarrow>
               (d\<lparr>hd_slot := slot,
                  hd_events := send_error (hd_events d) ''Gameplay outbound queue is full; dropping hook packet''\<rparr>, True)))"

record 'p HookIn =
  hk_streams :: DeliveryStreamAllocator
  hk_observed_targets :: "u64 list"
  hk_outbound :: "OutboundGamePacket Channel"
  hk_events :: "'p event_queue"
  hk_health :: "SessionHealth option"

definition observe_health :: "(SessionHealth \<Rightarrow> SessionHealth) \<Rightarrow> SessionHealth option \<Rightarrow> SessionHealth option" where
  "observe_health f health = map_option f health"

text \<open>\<open>draws\<close> are the random numbers; \<open>None\<close> when they do not suffice for a stream id.\<close>

definition hook_in_packet :: "byte list list \<Rightarrow> instant \<Rightarrow> GamePacket \<Rightarrow> 'p HookIn \<Rightarrow> 'p HookIn option" where
  "hook_in_packet draws now packet t =
     (let (q, told) = (if gp_peer packet \<in> set (hk_observed_targets t) then (hk_events t, False)
                       else try_send_event (hk_events t) (EvHookTargetObserved (gp_peer packet)));
          observed = (if told then gp_peer packet # hk_observed_targets t else hk_observed_targets t);
          health = observe_health (\<lambda>h. observe_hook_in_recv h (length (gp_payload packet)) now) (hk_health t)
      in case assign_hook_packet draws (hk_streams t) packet of
           None \<Rightarrow> None
         | Some (streams, outbound) \<Rightarrow>
             let (ch, accepted) = channel_try_send (hk_outbound t) outbound;
                 health = observe_health (\<lambda>h. observe_outbound_enqueue h accepted) health;
                 q = (if accepted then q else send_error q ''Network outbound queue is full; dropping hook packet'')
             in Some \<lparr>hk_streams = streams, hk_observed_targets = observed, hk_outbound = ch, hk_events = q,
                      hk_health = health\<rparr>)"

section \<open>To the hook\<close>

record 'p HookOut =
  ho_local_sequence :: u32
  ho_observer :: PacketObserver
  ho_to_hook :: "GamePacket list"
  ho_events :: "'p event_queue"
  ho_health :: "SessionHealth option"

text \<open>\<open>accepted\<close>: whether the queue of the hook connection takes the packet.\<close>

definition hook_out_packet ::
  "instant \<Rightarrow> duration \<Rightarrow> bool \<Rightarrow> InboundGamePacket \<Rightarrow> 'p HookOut \<Rightarrow> 'p HookOut" where
  "hook_out_packet now elapsed accepted inbound t =
     (let (local_sequence, packet, summary, received_bytes) = encode_inbound_hook_packet inbound (ho_local_sequence t);
          health = observe_health (\<lambda>h. health_observe_delivery (observe_network_recv h (sum_payload_bytes summary) now)
                     (ig_from_steam_id64 inbound) (ig_delivery_stream_id inbound) (ig_delivery_sequence inbound))
                     (ho_health t);
          health = observe_health (\<lambda>h. observe_inbound_enqueue (observe_hook_out_send_duration h elapsed) accepted) health
      in if accepted then
           let q = send_event (ho_events t) (EvCounterDelta (network_in_counter received_bytes));
               (o1, q) = observe_network_packet (ho_observer t) q summary now
           in \<lparr>ho_local_sequence = local_sequence, ho_observer = o1, ho_to_hook = ho_to_hook t @ [packet],
               ho_events = q, ho_health = health\<rparr>
         else
           t\<lparr>ho_local_sequence := local_sequence, ho_health := health,
             ho_events := send_error (ho_events t) ''Native Hook outbound queue is full; dropping network packet''\<rparr>)"

section \<open>The relay task\<close>

record 'p RelayTask =
  rk_sender :: RelayTransportSender
  rk_enabled :: u64
  rk_session :: "(RelayRoute \<times> string) option"
  rk_target :: RelayInboundTarget
  rk_observer :: PacketObserver
  rk_room_peers :: "PeerPresenceInfo list"
  rk_room_path :: RoomPathQuality
  rk_relay_rtt :: RelayRttTracker
  rk_detached_dropped :: u64
  rk_events :: "'p event_queue"
  rk_health :: "SessionHealth option"

definition emit :: "'p RuntimeEvent \<Rightarrow> 'p RelayTask \<Rightarrow> 'p RelayTask" where
  "emit event t = t\<lparr>rk_events := send_event (rk_events t) event\<rparr>"

definition task_error :: "string \<Rightarrow> 'p RelayTask \<Rightarrow> 'p RelayTask" where
  "task_error message t = t\<lparr>rk_events := send_error (rk_events t) message\<rparr>"

definition observe_task :: "(SessionHealth \<Rightarrow> SessionHealth) \<Rightarrow> 'p RelayTask \<Rightarrow> 'p RelayTask" where
  "observe_task f t = t\<lparr>rk_health := observe_health f (rk_health t)\<rparr>"

definition emit_room_path :: "instant \<Rightarrow> 'p RelayTask \<Rightarrow> 'p RelayTask" where
  "emit_room_path now t = emit (EvRoomPathQualityUpdated (quality_snapshots (rk_room_path t) now)) t"

definition sync_room_path :: "instant \<Rightarrow> 'p RelayTask \<Rightarrow> 'p RelayTask" where
  "sync_room_path now t =
     emit_room_path now
       (t\<lparr>rk_room_path :=
            (if supports_room_path_probe (rk_enabled t)
             then sync_peers (rk_room_path t) (rk_room_peers t) (tx_from_steam_id64 (rk_sender t))
             else quality_clear (rk_room_path t))\<rparr>)"

definition reset_room_path :: "instant \<Rightarrow> 'p RelayTask \<Rightarrow> 'p RelayTask" where
  "reset_room_path now t = emit_room_path now (t\<lparr>rk_room_path := quality_clear (rk_room_path t)\<rparr>)"

definition report_relay_drops :: "'p RelayTask \<Rightarrow> 'p RelayTask" where
  "report_relay_drops t =
     (let (q, n) = report_detached_relay_drops (rk_events t) (rk_detached_dropped t)
      in t\<lparr>rk_events := q, rk_detached_dropped := n\<rparr>)"

section \<open>Recovery\<close>

definition RECOVERY_DEADLINE :: duration where "RECOVERY_DEADLINE = 120 * 10 ^ 9"
definition RECOVERY_ATTEMPT_TIMEOUT :: duration where "RECOVERY_ATTEMPT_TIMEOUT = 5 * 10 ^ 9"

text \<open>The backoff waits at least this long between two attempts, while the deadline is further away.\<close>

definition RECOVERY_MIN_DELAY :: duration where "RECOVERY_MIN_DELAY = 250 * 10 ^ 6"

text \<open>
  A \<open>select!\<close> takes the branch that is ready first; a branch that is never ready is not in the list, and of two that
  are ready at once the earlier one is taken.
\<close>

fun first_ready :: "(duration \<times> 'a) list \<Rightarrow> (duration \<times> 'a) option" where
  "first_ready [] = None"
| "first_ready ((d, x) # branches) =
     (case first_ready branches of
        None \<Rightarrow> Some (d, x)
      | Some (d', y) \<Rightarrow> if d \<le> d' then Some (d, x) else Some (d', y))"

text \<open>
  What the world does during one attempt and the wait after it, in time since the attempt or the wait began: when the
  new connection is through, with its sender and enabled capabilities and the messages that arrive on it (\<open>None\<close> when
  it hangs), and when the session is cancelled.  \<open>ra_backoff\<close> is the delay of the backoff, \<open>ra_waiting\<close> counts the
  packets that come while the task waits, and the two lags are what the clock shows beyond.  A cancellation at the
  very moment another branch is ready is taken first or not, as \<open>select!\<close> happens to choose.
\<close>

record RecoveryAttempt =
  ra_finish :: "(duration \<times> (io_kind, RelayTransportSender \<times> u64) res \<times> incoming) option"
  ra_udp_ok :: bool
  ra_cancel :: "duration option"
  ra_cancel_first :: bool
  ra_lag :: duration
  ra_backoff :: duration
  ra_wait_cancel :: "duration option"
  ra_wait_lag :: duration
  ra_waiting :: nat

datatype 'r AttemptOutcome = AoCancelled | AoTimedOut | AoFinished 'r

record 'j SessionEnv =
  se_client :: "'j ClientEnv"
  se_error_text :: "io_kind \<Rightarrow> string"

text \<open>\<open>RelayTransport::reconnect\<close>: the preconditions in the order of the code, then the handshake.\<close>

definition task_reconnect ::
  "'j SessionEnv \<Rightarrow> bool \<Rightarrow> (io_kind, RelayTransportSender \<times> u64) res \<Rightarrow> incoming \<Rightarrow> 'p RelayTask
     \<Rightarrow> ('p RelayTask \<times> (io_kind, RecoveryKind) res) option" where
  "task_reconnect env udp_ok connected input t =
     (case rk_session t of
        None \<Rightarrow> Some (t, Err KInvalidInput)
      | Some (route, display_name) \<Rightarrow>
          if tx_connection_id (rk_sender t) = None \<or> tx_resume_credential (rk_sender t) = None
          then Some (t, Err KNotConnected)
          else
            (case connected of
               Err e \<Rightarrow> Some (t, Err e)
             | Panic \<Rightarrow> Some (t, Panic)
             | Ok (replacement, enabled) \<Rightarrow>
                 (case reconnect (se_client env) udp_ok (rk_sender t) route display_name replacement input of
                    None \<Rightarrow> None
                  | Some (sender, Ok recovery) \<Rightarrow> Some (t\<lparr>rk_sender := sender, rk_enabled := enabled\<rparr>, Ok recovery)
                  | Some (sender, Err e) \<Rightarrow> Some (t, Err e)
                  | Some (sender, Panic) \<Rightarrow> Some (t, Panic))))"

fun recovered_peers :: "RecoveryKind \<Rightarrow> PeerPresenceInfo list \<times> bool" where
  "recovered_peers (Resumed peers) = (peers, False)"
| "recovered_peers (FullJoin peers) = (peers, True)"

definition recovery_succeeded :: "u32 \<Rightarrow> duration \<Rightarrow> u64 \<Rightarrow> RecoveryKind \<Rightarrow> 'p RelayTask \<Rightarrow> 'p RelayTask" where
  "recovery_succeeded attempt outage dropped recovery t =
     (let (peers, full_join) = recovered_peers recovery;
          t = emit (EvRoomPeersUpdated peers) t;
          t = emit (EvRelayLinkChanged (RlRecovered attempt (as_millis outage) full_join)) t
      in emit (EvLog LvInfo
           (''relay_reconnect_succeeded attempts='' @ decimal_word attempt @ '' outage_ms='' @ decimal (as_millis outage)
            @ '' recovery='' @ (if full_join then ''full_join'' else ''resume'')
            @ '' packets_dropped='' @ decimal_word dropped)) t)"

definition recovery_exhausted :: "u32 \<Rightarrow> duration \<Rightarrow> u64 \<Rightarrow> string \<Rightarrow> 'p RelayTask \<Rightarrow> 'p RelayTask" where
  "recovery_exhausted attempt elapsed dropped last_error t =
     emit (EvLog LvError
       (''relay_reconnect_exhausted attempts='' @ decimal_word attempt @ '' elapsed_ms='' @ decimal (as_millis elapsed)
        @ '' packets_dropped='' @ decimal_word dropped @ '' failure='' @ last_error))
       (emit (EvRelayLinkChanged (RlRecoveryExhausted attempt (as_millis elapsed) last_error)) t)"

definition recovery_started :: "u32 \<Rightarrow> duration \<Rightarrow> u64 \<Rightarrow> string \<Rightarrow> 'p RelayTask \<Rightarrow> 'p RelayTask" where
  "recovery_started attempt elapsed dropped last_error t =
     emit (EvLog LvWarn
       (''relay_reconnect_attempt attempt='' @ decimal_word attempt @ '' elapsed_ms='' @ decimal (as_millis elapsed)
        @ '' profile_reconnect_drops='' @ decimal_word dropped @ '' failure='' @ last_error))
       (emit (EvRelayLinkChanged (RlReconnecting attempt (as_millis elapsed) last_error False)) t)"

text \<open>A packet that arrives while the task waits for its next attempt is dropped and counted.\<close>

fun drop_waiting :: "nat \<Rightarrow> u64 \<Rightarrow> 'p RelayTask \<Rightarrow> u64 \<times> 'p RelayTask" where
  "drop_waiting 0 dropped t = (dropped, t)"
| "drop_waiting (Suc n) dropped t =
     drop_waiting n (saturating_add dropped 1)
       (emit (EvCounterDelta (counters_default\<lparr>ct_reconnect_dropped_packets := 1\<rparr>))
          (observe_task observe_network_send_drop t))"

definition optional_branch :: "duration option \<Rightarrow> 'a \<Rightarrow> (duration \<times> 'a) list" where
  "optional_branch d x = (case d of None \<Rightarrow> [] | Some d \<Rightarrow> [(d, x)])"

definition with_cancel :: "bool \<Rightarrow> (duration \<times> 'a) list \<Rightarrow> (duration \<times> 'a) list \<Rightarrow> (duration \<times> 'a) list" where
  "with_cancel cancel_first cancel work = (if cancel_first then cancel @ work else work @ cancel)"

text \<open>
  The \<open>select!\<close> of one attempt: the cancellation, and the reconnect under its timeout.  A handshake that the messages
  do not complete is never ready.
\<close>

definition attempt_branches ::
  "'j SessionEnv \<Rightarrow> RecoveryAttempt \<Rightarrow> 'p RelayTask
     \<Rightarrow> (duration \<times> ('p RelayTask \<times> (io_kind, RecoveryKind) res) AttemptOutcome) list" where
  "attempt_branches env a t =
     (let finish = (case ra_finish a of
            None \<Rightarrow> []
          | Some (d, connected, input) \<Rightarrow>
              (case task_reconnect env (ra_udp_ok a) connected input t of
                 None \<Rightarrow> [] | Some r \<Rightarrow> [(d, AoFinished r)]))
      in with_cancel (ra_cancel_first a) (optional_branch (ra_cancel a) AoCancelled)
           (finish @ [(RECOVERY_ATTEMPT_TIMEOUT, AoTimedOut)]))"

text \<open>The wait after a failed attempt: cancelled (\<open>True\<close>), or over after the delay, the deadline at the latest.\<close>

definition wait_branches :: "RecoveryAttempt \<Rightarrow> duration \<Rightarrow> (duration \<times> bool) list" where
  "wait_branches a elapsed =
     with_cancel (ra_cancel_first a) (optional_branch (ra_wait_cancel a) True)
       [(min (ra_backoff a) (RECOVERY_DEADLINE - elapsed), False)]"

text \<open>
  The loop over the attempts; \<open>elapsed\<close> is the time since the recovery began.  \<open>None\<close> when a wait never ends, or when
  the attempts described are used up.
\<close>

fun recover_loop ::
  "'j SessionEnv \<Rightarrow> u32 \<Rightarrow> string \<Rightarrow> u64 \<Rightarrow> duration \<Rightarrow> 'p RelayTask \<Rightarrow> RecoveryAttempt list
     \<Rightarrow> ('p RelayTask \<times> (io_kind, PeerPresenceInfo list) res) option" where
  "recover_loop env attempt last_error dropped elapsed t [] = None"
| "recover_loop env attempt last_error dropped elapsed t (a # attempts) =
     (let attempt = saturating_add attempt 1;
          t = recovery_started attempt elapsed dropped last_error t
      in case first_ready (attempt_branches env a t) of
           None \<Rightarrow> None
         | Some (d, outcome) \<Rightarrow>
             let elapsed = elapsed + d + ra_lag a;
                 failed = (\<lambda>last_error t.
                   if RECOVERY_DEADLINE \<le> elapsed
                   then Some (recovery_exhausted attempt elapsed dropped last_error t, Err KTimedOut)
                   else case first_ready (wait_branches a elapsed) of
                     None \<Rightarrow> None
                   | Some (d, cancelled) \<Rightarrow>
                       let (dropped, t) = drop_waiting (ra_waiting a) dropped t
                       in if cancelled then Some (t, Err KInterrupted)
                          else recover_loop env attempt last_error dropped (elapsed + d + ra_wait_lag a) t attempts)
             in case outcome of
                  AoCancelled \<Rightarrow> Some (t, Err KInterrupted)
                | AoTimedOut \<Rightarrow> failed ''Relay recovery attempt timed out'' t
                | AoFinished (t, Ok recovery) \<Rightarrow>
                    Some (recovery_succeeded attempt elapsed dropped recovery t, Ok (fst (recovered_peers recovery)))
                | AoFinished (t, Err e) \<Rightarrow> failed (se_error_text env e) t
                | AoFinished (t, Panic) \<Rightarrow> Some (t, Panic))"

definition recover_relay ::
  "'j SessionEnv \<Rightarrow> RecoveryAttempt list \<Rightarrow> io_kind \<Rightarrow> 'p RelayTask
     \<Rightarrow> ('p RelayTask \<times> (io_kind, PeerPresenceInfo list) res) option" where
  "recover_relay env attempts initial_error t =
     recover_loop env 0 (se_error_text env initial_error) 0 0 t attempts"

section \<open>One round of the relay task\<close>

text \<open>
  The environment of a round: the clock, the time a send took, whether each datagram is taken by the socket, and
  the attempts of a recovery should one begin.
\<close>

record RoundEnv =
  ro_now :: instant
  ro_elapsed :: duration
  ro_udp_ok :: "nat \<Rightarrow> bool"
  ro_attempts :: "RecoveryAttempt list"

datatype RelayTaskInput =
    RiCancelled
  | RiOutbound OutboundGamePacket
  | RiReceived "(io_kind, byte list) res"
  | RiHeartbeat
  | RiHealthTick
  | RiPathTick

text \<open>A round ends with the task going on (\<open>None\<close>) or over (\<open>Some\<close> of its result).\<close>

type_synonym 'p round_result = "('p RelayTask \<times> (io_kind, unit) res option) option"

definition relay_lost :: "instant \<Rightarrow> 'p RelayTask \<Rightarrow> 'p RelayTask" where
  "relay_lost now t =
     (let t = reset_room_path now t
      in emit (EvRelayRttUpdated None) (t\<lparr>rk_relay_rtt := relay_reset (rk_relay_rtt t)\<rparr>))"

definition recover_and_sync :: "'j SessionEnv \<Rightarrow> RoundEnv \<Rightarrow> io_kind \<Rightarrow> 'p RelayTask \<Rightarrow> 'p round_result" where
  "recover_and_sync env r e t =
     (case recover_relay env (ro_attempts r) e (relay_lost (ro_now r) t) of
        None \<Rightarrow> None
      | Some (t, Ok peers) \<Rightarrow> Some (sync_room_path (ro_now r) (t\<lparr>rk_room_peers := peers\<rparr>), None)
      | Some (t, Err e) \<Rightarrow> Some (t, Some (Err e))
      | Some (t, Panic) \<Rightarrow> Some (t, Some Panic))"

definition outbound_summary :: "OutboundGamePacket \<Rightarrow> PacketSummary" where
  "outbound_summary packet =
     \<lparr>sum_peer = og_to_steam_id64 packet, sum_hook_sequence = og_hook_sequence packet,
      sum_delivery_sequence = og_delivery_sequence packet, sum_channel = og_channel packet,
      sum_send_type = og_send_type packet, sum_payload_bytes = length (og_payload packet),
      sum_wire_bytes = DATA_FRAME_HEADER_LEN + length (og_payload packet)\<rparr>"

definition round_outbound ::
  "'j SessionEnv \<Rightarrow> RoundEnv \<Rightarrow> OutboundGamePacket \<Rightarrow> 'p RelayTask \<Rightarrow> 'p round_result" where
  "round_outbound env r packet t =
     (case send_data_datagram (rk_sender t) (ro_udp_ok r 0) packet of
        (tx, Err e) \<Rightarrow> recover_and_sync env r e (t\<lparr>rk_sender := tx\<rparr>)
      | (tx, Panic) \<Rightarrow> Some (t\<lparr>rk_sender := tx\<rparr>, Some Panic)
      | (tx, Ok _) \<Rightarrow>
          let t = observe_task (\<lambda>h. observe_network_send_duration h (ro_elapsed r)) (t\<lparr>rk_sender := tx\<rparr>);
              t = emit (EvCounterDelta (network_out_counter (u64_of (length (og_payload packet))))) t;
              (o1, q) = observe_hook_packet (rk_observer t) (rk_events t) (outbound_summary packet) (ro_now r)
          in Some (t\<lparr>rk_observer := o1, rk_events := q\<rparr>, None))"

definition probe_supported :: "PeerPresenceInfo list \<Rightarrow> u64 \<Rightarrow> bool" where
  "probe_supported peers steam_id64 =
     list_ex (\<lambda>peer. ppi_steam_id64 peer = steam_id64 \<and> ppi_presence peer = WConnected
       \<and> ppi_capabilities peer AND CAP_ROOM_PATH_PROBE \<noteq> 0) peers"

definition on_probe :: "RoundEnv \<Rightarrow> ProbeFrame \<Rightarrow> 'p RelayTask \<Rightarrow> 'p RelayTask" where
  "on_probe r probe t =
     (if pf_to_steam_id64 probe \<noteq> tx_from_steam_id64 (rk_sender t) then t
      else
        case pf_phase probe of
          ProbeRequest \<Rightarrow>
            if probe_supported (rk_room_peers t) (pf_from_steam_id64 probe)
            then t\<lparr>rk_sender := fst (send_probe (rk_sender t) (ro_udp_ok r 0) (pf_from_steam_id64 probe)
                                      (pf_probe_id probe) ProbeEcho)\<rparr>
            else t
        | ProbeEcho \<Rightarrow>
            (case record_echo (rk_room_path t) (pf_from_steam_id64 probe) (pf_probe_id probe) (ro_now r) of
               (q, True) \<Rightarrow> emit_room_path (ro_now r) (t\<lparr>rk_room_path := q\<rparr>)
             | (q, False) \<Rightarrow> t\<lparr>rk_room_path := q\<rparr>))"

definition on_pong :: "RoundEnv \<Rightarrow> u64 \<Rightarrow> 'p RelayTask \<Rightarrow> 'p RelayTask" where
  "on_pong r pong t =
     (if pong AND ROOM_RTT_NAMESPACE \<noteq> 0 then
        let prev_rtt = relay_current_rtt (rk_relay_rtt t) (ro_now r);
            (tracker, new_rtt) = relay_observe_pong (rk_relay_rtt t) pong (ro_now r);
            t = t\<lparr>rk_relay_rtt := tracker\<rparr>
        in if new_rtt \<noteq> prev_rtt then emit (EvRelayRttUpdated new_rtt) t else t
      else observe_task (\<lambda>h. observe_health_pong h pong (ro_now r)) t)"

definition on_game :: "InboundGamePacket \<Rightarrow> 'p RelayTask \<Rightarrow> 'p RelayTask" where
  "on_game packet t =
     (case target_try_send (rk_target t) packet of
        (target, AsDelivered) \<Rightarrow> t\<lparr>rk_target := target\<rparr>
      | (target, AsDetached) \<Rightarrow>
          t\<lparr>rk_target := target, rk_detached_dropped := saturating_add (rk_detached_dropped t) 1\<rparr>
      | (target, AsFull) \<Rightarrow>
          task_error ''Hook inbound queue is full; dropping relay packet'' (t\<lparr>rk_target := target\<rparr>))"

definition on_presence :: "RoundEnv \<Rightarrow> PeerPresenceInfo list \<Rightarrow> 'p RelayTask \<Rightarrow> 'p RelayTask" where
  "on_presence r peers t = sync_room_path (ro_now r) (emit (EvRoomPeersUpdated peers) (t\<lparr>rk_room_peers := peers\<rparr>))"

definition round_received ::
  "'j SessionEnv \<Rightarrow> RoundEnv \<Rightarrow> (io_kind, byte list) res \<Rightarrow> 'p RelayTask \<Rightarrow> 'p round_result" where
  "round_received env r raw t =
     (case raw of
        Err e \<Rightarrow> recover_and_sync env r e t
      | Panic \<Rightarrow> Some (t, Some Panic)
      | Ok bytes \<Rightarrow>
          (case decode_inbound_relay_datagram (ce_server_json (se_client env)) bytes of
             Ok (Some (Game packet)) \<Rightarrow> Some (on_game packet t, None)
           | Ok (Some (HealthPong i)) \<Rightarrow> Some (on_pong r i t, None)
           | Ok (Some (PresenceUpdate peers)) \<Rightarrow> Some (on_presence r peers t, None)
           | Ok (Some (RelayProbe probe)) \<Rightarrow> Some (on_probe r probe t, None)
           | Ok None \<Rightarrow> Some (t, None)
           | Err e \<Rightarrow> Some (task_error (''Bad relay packet: '' @ se_error_text env e) t, None)
           | Panic \<Rightarrow> Some (t, Some Panic)))"

definition round_heartbeat :: "'j SessionEnv \<Rightarrow> RoundEnv \<Rightarrow> 'p RelayTask \<Rightarrow> 'p round_result" where
  "round_heartbeat env r t =
     (let t = report_relay_drops t;
          was_stale = relay_is_stale (rk_relay_rtt t) (ro_now r);
          t = t\<lparr>rk_relay_rtt := relay_expire (rk_relay_rtt t) (ro_now r)\<rparr>;
          is_stale = relay_is_stale (rk_relay_rtt t) (ro_now r);
          t = (if \<not> was_stale \<and> is_stale then emit (EvRelayRttUpdated None) t else t);
          (tracker, ping) = relay_next_ping (rk_relay_rtt t) (ro_now r);
          t = t\<lparr>rk_relay_rtt := tracker\<rparr>
      in case client_send_control (se_client env) (rk_sender t) (CC_ControlPing ping) of
           (tx, Ok _) \<Rightarrow> Some (t\<lparr>rk_sender := tx\<rparr>, None)
         | (tx, Err e) \<Rightarrow> recover_and_sync env r e (t\<lparr>rk_sender := tx\<rparr>)
         | (tx, Panic) \<Rightarrow> Some (t\<lparr>rk_sender := tx\<rparr>, Some Panic))"

text \<open>
  The tick of the health pings.  When its send fails, the relay is recovered as in the other branches, but the
  peers that the recovery returns are not taken over.
\<close>

definition round_health_tick :: "'j SessionEnv \<Rightarrow> RoundEnv \<Rightarrow> 'p RelayTask \<Rightarrow> 'p round_result" where
  "round_health_tick env r t =
     (case rk_health t of
        None \<Rightarrow> Some (t, None)
      | Some health \<Rightarrow>
          (case next_health_ping health (ro_now r) of
             (health, None) \<Rightarrow> Some (t\<lparr>rk_health := Some health\<rparr>, None)
           | (health, Some ping) \<Rightarrow>
               let t = t\<lparr>rk_health := Some health\<rparr>
               in case client_send_control (se_client env) (rk_sender t) (CC_ControlPing ping) of
                    (tx, Ok _) \<Rightarrow> Some (t\<lparr>rk_sender := tx\<rparr>, None)
                  | (tx, Panic) \<Rightarrow> Some (t\<lparr>rk_sender := tx\<rparr>, Some Panic)
                  | (tx, Err e) \<Rightarrow>
                      (case recover_relay env (ro_attempts r) e (t\<lparr>rk_sender := tx\<rparr>) of
                         None \<Rightarrow> None
                       | Some (t, Ok peers) \<Rightarrow> Some (t, None)
                       | Some (t, Err e) \<Rightarrow> Some (t, Some (Err e))
                       | Some (t, Panic) \<Rightarrow> Some (t, Some Panic))))"

fun probe_targets :: "RoundEnv \<Rightarrow> nat \<Rightarrow> u64 list \<Rightarrow> 'p RelayTask \<Rightarrow> 'p RelayTask" where
  "probe_targets r i [] t = t"
| "probe_targets r i (target # targets) t =
     (let (tx, probe_id) = next_probe_id (rk_sender t)
      in case send_probe tx (ro_udp_ok r i) target probe_id ProbeRequest of
           (tx, Ok _) \<Rightarrow>
             probe_targets r (Suc i) targets
               (t\<lparr>rk_sender := tx, rk_room_path := record_sent (rk_room_path t) target probe_id (ro_now r)\<rparr>)
         | (tx, _) \<Rightarrow> probe_targets r (Suc i) targets (t\<lparr>rk_sender := tx\<rparr>))"

definition round_path_tick :: "RoundEnv \<Rightarrow> 'p RelayTask \<Rightarrow> 'p round_result" where
  "round_path_tick r t =
     (if \<not> supports_room_path_probe (rk_enabled t) then Some (t, None)
      else
        let t = t\<lparr>rk_room_path := quality_expire (rk_room_path t) (ro_now r)\<rparr>;
            t = probe_targets r 0 (quality_targets (rk_room_path t)) t
        in Some (emit_room_path (ro_now r) t, None))"

definition relay_round ::
  "'j SessionEnv \<Rightarrow> RoundEnv \<Rightarrow> RelayTaskInput \<Rightarrow> 'p RelayTask \<Rightarrow> 'p round_result" where
  "relay_round env r input t =
     (case input of
        RiCancelled \<Rightarrow>
          let t = report_relay_drops t
          in Some (t\<lparr>rk_sender := fst (client_send_control (se_client env) (rk_sender t) CC_Stop)\<rparr>, Some (Ok ()))
      | RiOutbound packet \<Rightarrow> round_outbound env r packet t
      | RiReceived raw \<Rightarrow> round_received env r raw t
      | RiHeartbeat \<Rightarrow> round_heartbeat env r t
      | RiHealthTick \<Rightarrow> round_health_tick env r t
      | RiPathTick \<Rightarrow> round_path_tick r t)"

definition relay_task_start ::
  "RelayTransportSender \<Rightarrow> u64 \<Rightarrow> RelayRoute \<Rightarrow> string \<Rightarrow> RelayInboundTarget \<Rightarrow> PeerPresenceInfo list
     \<Rightarrow> SessionHealth option \<Rightarrow> 'p event_queue \<Rightarrow> 'p RelayTask" where
  "relay_task_start sender enabled route display_name target initial_peers health events =
     \<lparr>rk_sender = sender, rk_enabled = enabled, rk_session = Some (route, display_name), rk_target = target,
      rk_observer = observer_default, rk_room_peers = initial_peers,
      rk_room_path = (if supports_room_path_probe enabled then sync_peers [] initial_peers (tx_from_steam_id64 sender) else []),
      rk_relay_rtt = relay_rtt_default, rk_detached_dropped = 0, rk_events = events, rk_health = health\<rparr>"

text \<open>The rounds of a task until it is over; between them the events are taken from the queue.\<close>

fun relay_rounds ::
  "'j SessionEnv \<Rightarrow> (RoundEnv \<times> RelayTaskInput) list \<Rightarrow> 'p RelayTask \<Rightarrow> 'p round_result" where
  "relay_rounds env [] t = Some (t, None)"
| "relay_rounds env ((r, input) # rest) t =
     (case relay_round env r input t of
        None \<Rightarrow> None
      | Some (t, Some result) \<Rightarrow> Some (t, Some result)
      | Some (t, None) \<Rightarrow> relay_rounds env rest t)"

end
