(* ===== verification/Relay_Client_Props.thy ===== *)
theory Relay_Client_Props
  imports Relay_Client Relay_Server_Props
begin

text \<open>
  What the client's relay transport guarantees together with the relay: both sides agree on the
  negotiated capabilities, the client's proofs of work satisfy the relay's check, the join
  handshake completes, a packet reaches the other hook unchanged, and frame ids are never reused.
\<close>

section \<open>Proof of work\<close>

text \<open>The client and the relay have each their own copy of the leading-zero test.\<close>

lemma client_leading_zero_bits_eq: "client_leading_zero_bits = leading_zero_bits"
proof (intro ext)
  fix bytes :: "byte list" and bits :: byte
  have d: "unat (bits div 8) = unat bits div 8" and m: "unat (bits mod 8) = unat bits mod 8"
    by (simp_all add: unat_div unat_mod)
  have le: "unat (bits mod 8) \<le> 8" using m by simp
  have s: "unat (8 - bits mod 8) = 8 - unat bits mod 8"
    using le m by (simp add: unat_sub word_le_nat_alt)
  have z: "bits mod 8 = 0 \<longleftrightarrow> unat bits mod 8 = 0"
    using m by (metis unat_0 word_unat_eq_iff)
  show "client_leading_zero_bits bytes bits = leading_zero_bits bytes bits"
    by (simp add: client_leading_zero_bits_def leading_zero_bits_def Let_def d s z)
qed

definition pow_ok :: "(byte list \<Rightarrow> byte list) \<Rightarrow> byte list \<Rightarrow> byte \<Rightarrow> nat \<Rightarrow> bool" where
  "pow_ok sha256 prefix bits counter =
     leading_zero_bits (sha256 (prefix @ str_bytes (hex_u64 counter))) bits"

lemma pow_search_finds:
  assumes "k < 2 ^ 64 - 1" and "pow_ok sha256 prefix bits k" and "counter \<le> k"
    and "\<And>j. counter \<le> j \<Longrightarrow> j < k \<Longrightarrow> \<not> pow_ok sha256 prefix bits j"
  shows "pow_search sha256 prefix bits counter = Ok (hex_u64 k)"
  using assms(3,4)
proof (induction "k - counter" arbitrary: counter)
  case 0
  then have "counter = k" by simp
  then show ?case using assms(1,2)
    by (subst pow_search.simps) (simp add: pow_ok_def client_leading_zero_bits_eq)
next
  case (Suc d)
  then have "\<not> pow_ok sha256 prefix bits counter" "\<not> 2 ^ 64 - 1 \<le> counter" using assms(1) by auto
  then have "pow_search sha256 prefix bits counter = pow_search sha256 prefix bits (Suc counter)"
    by (subst pow_search.simps) (simp add: pow_ok_def client_leading_zero_bits_eq)
  then show ?case using Suc by simp
qed

lemma hex_u64_last: "hex_u64 n = map (\<lambda>i. hex_digit (n div 16 ^ i mod 16)) (rev [1..<16]) @ [hex_digit (n mod 16)]"
proof -
  have "[0..<16] = 0 # [1..<16 :: nat]" by (simp only: upt_conv_Cons) simp
  then show ?thesis by (simp only: hex_u64_def rev.simps map_append list.map) simp
qed

section \<open>Properties of the proof of work\<close>

text \<open>
  The client solves the relay's challenges.  When any of the \<open>2 ^ 64 - 1\<close> candidate proofs meets the
  difficulty, the search ends, and the proof it returns passes the relay's own check of the pending
  join it was issued for.
\<close>

lemma solve_pow_accepted:
  assumes "client_decode_hex_16 (ce_from_hex env) challenge_id = Ok (pj_challenge_id pj)"
    and "client_decode_hex_16 (ce_from_hex env) nonce = Ok (pj_pow_nonce pj)"
    and "bits = 0 \<or> (\<exists>k < 2 ^ 64 - 1. pow_ok (ce_sha256 env)
           (pj_challenge_id pj @ pj_session pj @ put_u64 (pj_steam_id64 pj) @ pj_pow_nonce pj) bits k)"
  shows "\<exists>proof_s. solve_pow env challenge_id (pj_session pj) (pj_steam_id64 pj) nonce bits = Ok proof_s
           \<and> verify_pow (ce_sha256 env) pj proof_s bits"
proof (cases "bits = 0")
  case True
  then show ?thesis by (simp add: solve_pow_def verify_pow_def)
next
  case False
  let ?prefix = "pj_challenge_id pj @ pj_session pj @ put_u64 (pj_steam_id64 pj) @ pj_pow_nonce pj"
  let ?P = "pow_ok (ce_sha256 env) ?prefix bits"
  from False assms(3) obtain k where k: "k < 2 ^ 64 - 1" "?P k" by blast
  define l where "l = (LEAST j. ?P j)"
  have l: "?P l" "l \<le> k" unfolding l_def using k(2) by (auto intro: LeastI Least_le)
  have least: "\<not> ?P j" if "j < l" for j using that not_less_Least unfolding l_def by blast
  have "pow_search (ce_sha256 env) ?prefix bits 0 = Ok (hex_u64 l)"
    using l k least by (intro pow_search_finds) auto
  then have "solve_pow env challenge_id (pj_session pj) (pj_steam_id64 pj) nonce bits = Ok (hex_u64 l)"
    using False assms(1,2) by (simp add: solve_pow_def)
  moreover have "verify_pow (ce_sha256 env) pj (hex_u64 l) bits"
    using l(1) False by (simp add: verify_pow_def pow_ok_def)
  ultimately show ?thesis by blast
qed

definition sample_client :: "unit ClientEnv" where
  "sample_client = \<lparr>ce_sha256 = (\<lambda>b. if last b = 50 then replicate 32 0 else replicate 32 255),
     ce_to_base58 = (\<lambda>_. []), ce_from_hex = (\<lambda>_. Some (replicate 16 1)),
     ce_client_json = (\<lambda>_. Err ()), ce_server_json = (\<lambda>_. Err ())\<rparr>"

definition sample_pending :: PendingJoin where
  "sample_pending = \<lparr>pj_session = replicate 16 2, pj_steam_id64 = 76, pj_display_name = None,
     pj_profile = Tcp, pj_capabilities = 0, pj_challenge_id = replicate 16 1,
     pj_pow_nonce = replicate 16 1, pj_issued_at = 0\<rparr>"

lemma solve_pow_accepted_witness:
  "\<exists>proof_s. solve_pow sample_client (replicate 32 CHR ''0'') (replicate 16 2) 76
       (replicate 32 CHR ''0'') 12 = Ok proof_s
     \<and> verify_pow (ce_sha256 sample_client) sample_pending proof_s 12"
proof -
  have h: "client_decode_hex_16 (ce_from_hex sample_client) (replicate 32 CHR ''0'')
      = Ok (replicate 16 1)"
    by (simp add: client_decode_hex_16_def sample_client_def ok_or_def)
  have "last (str_bytes (hex_u64 2)) = 50" "str_bytes (hex_u64 2) \<noteq> []"
    unfolding hex_u64_last by (simp_all add: str_bytes_def hex_digit_def)
  then have "pow_ok (ce_sha256 sample_client) prefix 12 2" for prefix
    by (simp add: pow_ok_def sample_client_def leading_zero_bits_def list_all_iff)
  then have k: "\<exists>k < 2 ^ 64 - 1. pow_ok (ce_sha256 sample_client)
      (pj_challenge_id sample_pending @ pj_session sample_pending
        @ put_u64 (pj_steam_id64 sample_pending) @ pj_pow_nonce sample_pending) 12 k"
    by (intro exI [of _ 2]) simp
  have h1: "client_decode_hex_16 (ce_from_hex sample_client) (replicate 32 CHR ''0'')
      = Ok (pj_challenge_id sample_pending)"
    and h2: "client_decode_hex_16 (ce_from_hex sample_client) (replicate 32 CHR ''0'')
      = Ok (pj_pow_nonce sample_pending)"
    unfolding h by (simp_all add: sample_pending_def)
  have "pj_session sample_pending = replicate 16 2" "pj_steam_id64 sample_pending = 76"
    by (simp_all add: sample_pending_def)
  with solve_pow_accepted [OF h1 h2 disjI2 [OF k]] show ?thesis by simp
qed

section \<open>Negotiation\<close>

lemmas capability_bits =
  CAP_RESUME_def CAP_TCP_DATA_def CAP_UDP_DATA_def CAP_ROOM_PATH_PROBE_def available_capabilities_def

text \<open>
  Client and relay negotiate to the same result.  The relay always answers the client's hello;
  over TCP, or over UDP when the relay listens on UDP, the client accepts the answer and both sides
  hold the same capabilities, room path probes among them; otherwise both sides fail.
\<close>

lemma client_relay_negotiation:
  "\<exists>m r. negotiate_hello build udp (client_hello choice client) = (Some m, r)
     \<and> (if choice = TcTcp \<or> udp
        then \<exists>enabled. r = Ok enabled \<and> accept_hello choice m = Ok enabled \<and> supports_room_path_probe enabled
        else r = Err Unsupported \<and> accept_hello choice m = Err KUnsupported)"
proof -
  have hello: "list_all (\<lambda>r. \<not> invalid_range r) relay_ranges \<and> offers_relay_version relay_ranges"
    by (simp add: relay_ranges_def invalid_range_def offers_relay_version_def)
  have "negotiate_hello build udp (client_hello choice client) =
      (case select_capabilities (CAP_RESUME OR profile_capability choice)
              (CAP_TCP_DATA OR CAP_UDP_DATA OR CAP_ROOM_PATH_PROBE) (available_capabilities udp) of
         Ok enabled \<Rightarrow> (Some (ServerHello BOOTSTRAP_SCHEMA
             \<lparr>pv_major = PROTOCOL_MAJOR, pv_minor = PROTOCOL_MINOR\<rparr> enabled build), Ok enabled)
       | _ \<Rightarrow> (Some (reject_message build MissingRequiredCapabilities), Err Unsupported))"
    using hello by (simp add: negotiate_hello_def client_hello_def select_relay_case relay_ranges_def [symmetric])
  then show ?thesis
    by (cases choice; cases udp)
      (simp_all add: select_capabilities_def select_capabilities_of_def Let_def KNOWN_CAPABILITIES_def
        capability_bits accept_hello_def reject_message_def
        supports_room_path_probe_def)
qed

section \<open>A packet between two hooks\<close>

text \<open>
  C17: A game packet reaches the other hook unchanged.  What the client sends over TCP or UDP
  for a packet of its hook, the receiving client decodes to a packet from the sender with the same
  delivery stream and sequence number, and hands its hook the same channel, send type and payload,
  under its own running sequence number.
\<close>

theorem packet_relayed_unchanged:
  assumes "tx_connection_id tx = Some c" and "frame_wf (DataF (data_frame tx c packet))"
  shows "\<exists>raw inbound.
      send_data_datagram tx udp_ok packet
        = transport_send (tx\<lparr>tx_next_frame_id := saturating_add (tx_next_frame_id tx) 1\<rparr>) udp_ok raw
      \<and> decode_inbound_relay_datagram from_slice raw = Ok (Some (Game inbound))
      \<and> ig_delivery_stream_id inbound = og_delivery_stream_id packet
      \<and> ig_delivery_sequence inbound = og_delivery_sequence packet
      \<and> fst (snd (encode_inbound_hook_packet inbound n))
         = \<lparr>gp_peer = tx_from_steam_id64 tx, gp_sequence = n, gp_channel = og_channel packet,
            gp_send_type = og_send_type packet, gp_payload = og_payload packet\<rparr>"
proof -
  obtain raw where raw: "encode_frame (DataF (data_frame tx c packet)) = Ok raw"
    "decode_frame raw = Ok (DataF (data_frame tx c packet))"
    using encode_frame_wf [OF assms(2)] by blast
  then show ?thesis using assms(1)
    by (intro exI [of _ raw]) (simp add: send_data_datagram_def transport_send_def decode_inbound_relay_datagram_def
        encode_inbound_hook_packet_def data_frame_def Let_def)
qed

definition sample_sender :: RelayTransportSender where
  "sample_sender = (sender_new TcTcp 76)\<lparr>tx_connection_id := Some 100\<rparr>"

definition sample_packet :: OutboundGamePacket where
  "sample_packet = \<lparr>og_to_steam_id64 = 77, og_hook_sequence = 4, og_delivery_stream_id = replicate 16 5,
     og_delivery_sequence = 9, og_channel = 1, og_send_type = 2, og_payload = [7]\<rparr>"

theorem packet_relayed_unchanged_witness:
  "\<exists>raw inbound.
      send_data_datagram sample_sender True sample_packet
        = transport_send (sample_sender\<lparr>tx_next_frame_id :=
            saturating_add (tx_next_frame_id sample_sender) 1\<rparr>) True raw
      \<and> decode_inbound_relay_datagram (\<lambda>_. Err ()) raw = Ok (Some (Game inbound))
      \<and> ig_delivery_stream_id inbound = og_delivery_stream_id sample_packet
      \<and> ig_delivery_sequence inbound = og_delivery_sequence sample_packet
      \<and> fst (snd (encode_inbound_hook_packet inbound 3))
         = \<lparr>gp_peer = tx_from_steam_id64 sample_sender, gp_sequence = 3, gp_channel = og_channel sample_packet,
            gp_send_type = og_send_type sample_packet, gp_payload = og_payload sample_packet\<rparr>"
  by (rule packet_relayed_unchanged [where c = 100])
    (simp_all add: sample_sender_def sender_new_def sample_packet_def data_frame_def all_zero_def list_all_iff
      MAX_DATA_PAYLOAD_def MAX_FRAME_LEN_def IPV4_UDP_DATAGRAM_BUDGET_def DATA_FRAME_HEADER_LEN_def)

section \<open>Frame ids are not reused\<close>

text \<open>
  What a client does with its transport after joining: send a packet (whether the socket takes it
  or not), send a probe, or recover the connection.  The trace records, for every data frame that
  was built, its connection and frame id.
\<close>

datatype 'j ClientOp =
    OpSend bool OutboundGamePacket
  | OpProbe bool u64 ProbePhase
  | OpRecover "'j ClientEnv" bool RelayRoute string incoming

definition frame_built :: "RelayTransportSender \<Rightarrow> OutboundGamePacket \<Rightarrow> (u64 \<times> u64) list" where
  "frame_built tx packet =
     (case tx_connection_id tx of
        None \<Rightarrow> []
      | Some c \<Rightarrow>
          if is_ok (encode_frame (DataF (data_frame tx c packet))) then [(c, tx_next_frame_id tx)] else [])"

fun client_op :: "RelayTransportSender \<Rightarrow> 'j ClientOp \<Rightarrow> RelayTransportSender \<times> (u64 \<times> u64) list" where
  "client_op tx (OpSend ok packet) = (fst (send_data_datagram tx ok packet), frame_built tx packet)"
| "client_op tx (OpProbe ok target phase) =
     (let (tx, i) = next_probe_id tx in (fst (send_probe tx ok target i phase), []))"
| "client_op tx (OpRecover env ok route name input) =
     (case reconnect env ok tx route name (sender_new (ro_transport route) (tx_from_steam_id64 tx)) input of
        None \<Rightarrow> (tx, [])
      | Some (tx', r) \<Rightarrow> (tx', []))"

fun client_run :: "RelayTransportSender \<Rightarrow> 'j ClientOp list \<Rightarrow> (u64 \<times> u64) list" where
  "client_run tx [] = []"
| "client_run tx (op # ops) = (let (tx', sent) = client_op tx op in sent @ client_run tx' ops)"

text \<open>Handshakes change neither the connection's numbering nor its owner.\<close>

definition same_ids :: "RelayTransportSender \<Rightarrow> RelayTransportSender \<Rightarrow> bool" where
  "same_ids tx tx' \<longleftrightarrow>
     tx_connection_id tx' = tx_connection_id tx \<and> tx_next_frame_id tx' = tx_next_frame_id tx
     \<and> tx_from_steam_id64 tx' = tx_from_steam_id64 tx"

lemma same_ids_refl [simp]: "same_ids tx tx"
  by (simp add: same_ids_def)

lemma same_ids_sends:
  "client_send_control env tx m = (tx', r) \<Longrightarrow> same_ids tx tx'"
  "transport_send tx ok f = (tx', u) \<Longrightarrow> same_ids tx tx'"
  by (auto simp: same_ids_def client_send_control_def transport_send_def
      split: res.splits option.splits if_splits)

lemma same_ids_trans: "same_ids a b \<Longrightarrow> same_ids b c \<Longrightarrow> same_ids a c"
  by (simp add: same_ids_def)

lemma same_ids_probe: "same_ids tx (fst (send_probe (fst (next_probe_id tx)) ok t i ph))"
proof -
  have p: "same_ids tx (fst (next_probe_id tx))" by (simp add: same_ids_def next_probe_id_def Let_def)
  have "same_ids tx' (fst (send_probe tx' ok t i ph))" for tx'
    using same_ids_sends(2) [of tx' ok] by (auto simp: send_probe_def prod_eq_iff split: option.split res.split)
  then show ?thesis using p same_ids_trans by blast
qed

lemma send_then_elim:
  assumes "send_then env m tx input k = Some (tx', r)"
  obtains tx1 where "same_ids tx tx1" "k tx1 = Some (tx', r)"
    | "same_ids tx tx'" "\<not> is_ok (snd r)"
  using assms by (auto simp: send_then_def split: prod.splits res.splits dest: same_ids_sends(1))

lemma await_then_elim:
  assumes "await_then env h tx input k = Some (tx', r)"
  obtains x rest where "k x rest = Some (tx', r)"
    | "tx' = tx" "\<not> is_ok (snd r)"
  using assms by (auto simp: await_then_def split: option.splits prod.splits res.splits)

lemma validate_udp_path_ids:
  "validate_udp_path env ok tx input c = Some (tx', r) \<Longrightarrow> same_ids tx tx'"
  unfolding validate_udp_path_def
  by (auto split: option.splits res.splits prod.splits elim!: send_then_elim await_then_elim
      dest!: same_ids_sends(2) intro: same_ids_trans)

text \<open>A recovery that resumes continues the numbering; one that fails changes nothing.\<close>

lemma reconnect_ids:
  assumes "reconnect env ok old route name replacement input = Some (tx', r)"
    and "\<nexists>peers. r = Ok (FullJoin peers)"
  shows "tx_connection_id tx' = tx_connection_id old \<and> tx_next_frame_id tx' = tx_next_frame_id old"
  using assms unfolding reconnect_def Let_def
  by (auto split: option.splits res.splits prod.splits ResumeAnswer.splits if_splits
      elim!: send_then_elim await_then_elim dest!: validate_udp_path_ids simp: same_ids_def)

fun resumes :: "RelayTransportSender \<Rightarrow> 'j ClientOp list \<Rightarrow> bool" where
  "resumes tx [] = True"
| "resumes tx (op # ops) =
     ((case op of
         OpRecover env ok route name input \<Rightarrow>
           (case reconnect env ok tx route name
                   (sender_new (ro_transport route) (tx_from_steam_id64 tx)) input of
              Some (tx', Ok (FullJoin peers)) \<Rightarrow> False
            | _ \<Rightarrow> True)
       | _ \<Rightarrow> True)
      \<and> resumes (fst (client_op tx op)) ops)"

lemma client_op_ids:
  assumes "resumes tx (op # ops)" and "tx_connection_id tx = Some c"
    and "Suc (unat (tx_next_frame_id tx)) < 2 ^ 64"
  shows "tx_connection_id (fst (client_op tx op)) = Some c"
    and "snd (client_op tx op) \<noteq> [] \<Longrightarrow> snd (client_op tx op) = [(c, tx_next_frame_id tx)]
           \<and> unat (tx_next_frame_id (fst (client_op tx op))) = Suc (unat (tx_next_frame_id tx))"
    and "snd (client_op tx op) = [] \<Longrightarrow> tx_next_frame_id (fst (client_op tx op)) = tx_next_frame_id tx"
proof -
  have "tx_connection_id (fst (client_op tx op)) = Some c
    \<and> (snd (client_op tx op) \<noteq> [] \<longrightarrow> snd (client_op tx op) = [(c, tx_next_frame_id tx)]
           \<and> unat (tx_next_frame_id (fst (client_op tx op))) = Suc (unat (tx_next_frame_id tx)))
    \<and> (snd (client_op tx op) = [] \<longrightarrow> tx_next_frame_id (fst (client_op tx op)) = tx_next_frame_id tx)"
  proof (cases op)
    case (OpSend ok packet)
    let ?tx = "tx\<lparr>tx_next_frame_id := saturating_add (tx_next_frame_id tx) 1\<rparr>"
    have "same_ids ?tx (fst (transport_send ?tx ok f))" for f
      using same_ids_sends(2) [of ?tx ok f] by (simp add: prod_eq_iff)
    then show ?thesis using assms(2,3)
      by (cases "encode_frame (DataF (data_frame tx c packet))")
        (simp_all add: OpSend send_data_datagram_def frame_built_def same_ids_def unat_saturating_add
          del: encode_frame.simps)
  next
    case (OpProbe ok t ph)
    then show ?thesis
      using same_ids_probe [of tx ok t "snd (next_probe_id tx)" ph] assms(2)
      by (simp add: same_ids_def case_prod_beta)
  next
    case (OpRecover env ok route name input)
    let ?r = "reconnect env ok tx route name (sender_new (ro_transport route) (tx_from_steam_id64 tx)) input"
    have ids: "tx_connection_id tx' = Some c \<and> tx_next_frame_id tx' = tx_next_frame_id tx"
      if "?r = Some (tx', r)" for tx' r
      using reconnect_ids [OF that] assms(1,2) that OpRecover by (auto split: res.splits RecoveryKind.splits)
    show ?thesis
    proof (cases ?r)
      case None
      then show ?thesis using assms(2) by (simp add: OpRecover)
    next
      case (Some x)
      then show ?thesis using ids [of "fst x" "snd x"] by (simp add: OpRecover case_prod_beta)
    qed
  qed
  then show "tx_connection_id (fst (client_op tx op)) = Some c"
    "snd (client_op tx op) \<noteq> [] \<Longrightarrow> snd (client_op tx op) = [(c, tx_next_frame_id tx)]
           \<and> unat (tx_next_frame_id (fst (client_op tx op))) = Suc (unat (tx_next_frame_id tx))"
    "snd (client_op tx op) = [] \<Longrightarrow> tx_next_frame_id (fst (client_op tx op)) = tx_next_frame_id tx"
    by blast+
qed

lemma client_run_ids:
  assumes "resumes tx ops" and "tx_connection_id tx = Some c"
    and "unat (tx_next_frame_id tx) + length ops < 2 ^ 64"
  shows "sorted_wrt (<) (map snd (client_run tx ops))
    \<and> list_all (\<lambda>(c', i). c' = c \<and> tx_next_frame_id tx \<le> i) (client_run tx ops)"
  using assms
proof (induction ops arbitrary: tx)
  case Nil
  then show ?case by simp
next
  case (Cons op ops)
  let ?tx = "fst (client_op tx op)" and ?s = "snd (client_op tx op)"
  have b: "Suc (unat (tx_next_frame_id tx)) < 2 ^ 64" using Cons.prems(3) by simp
  note ids = client_op_ids [OF Cons.prems(1,2) b]
  have res: "resumes ?tx ops" using Cons.prems(1) by simp
  have run: "client_run tx (op # ops) = ?s @ client_run ?tx ops" by (simp add: case_prod_beta)
  show ?case
  proof (cases "?s = []")
    case True
    then show ?thesis using Cons.IH [OF res ids(1)] ids(3) Cons.prems(3) by (simp add: run del: client_run.simps)
  next
    case False
    note step = ids(2) [OF False]
    have "unat (tx_next_frame_id ?tx) + length ops < 2 ^ 64" using step Cons.prems(3) by simp
    from Cons.IH [OF res ids(1) this] have IH: "sorted_wrt (<) (map snd (client_run ?tx ops))"
      "list_all (\<lambda>(c', i). c' = c \<and> tx_next_frame_id ?tx \<le> i) (client_run ?tx ops)" by auto
    have lt: "tx_next_frame_id tx < i" if "tx_next_frame_id ?tx \<le> i" for i
      using that step by (simp add: word_less_nat_alt word_le_nat_alt)
    have "list_all (\<lambda>(c', i). c' = c \<and> tx_next_frame_id tx < i) (client_run ?tx ops)"
      using IH(2) lt by (auto simp: list_all_iff)
    then show ?thesis using IH(1) step
      by (auto simp: run list_all_iff simp del: client_run.simps)
  qed
qed

text \<open>
  A client never reuses a frame id on a connection.  Whatever packets and probes it sends,
  whether the sockets take them or not, and however often it loses and resumes the connection in
  between, the frame ids of its data frames strictly increase, all on the same connection, as
  the relay's duplicate window requires.
\<close>

lemma client_frame_ids_increase:
  assumes "resumes tx ops" and "tx_connection_id tx = Some c"
    and "unat (tx_next_frame_id tx) + length ops < 2 ^ 64"
  shows "sorted_wrt (<) (map snd (client_run tx ops)) \<and> list_all (\<lambda>(c', i). c' = c) (client_run tx ops)"
  using client_run_ids [OF assms] by (auto simp: list_all_iff)

lemma client_frame_ids_increase_witness:
  "sorted_wrt (<) (map snd (client_run sample_sender
      [OpSend True sample_packet, OpProbe True 77 ProbeRequest :: unit ClientOp, OpSend False sample_packet]))
   \<and> list_all (\<lambda>(c', i). c' = 100) (client_run sample_sender
      [OpSend True sample_packet, OpProbe True 77 ProbeRequest :: unit ClientOp, OpSend False sample_packet])"
  by (rule client_frame_ids_increase) (simp_all add: sample_sender_def sender_new_def)

section \<open>The join handshake completes\<close>

text \<open>
  A message survives the JSON encoding of one side and the decoding of the other, within the
  size limit of control payloads.
\<close>

definition fits :: "('m, 'j) to_json \<Rightarrow> ('m, 'j) of_json \<Rightarrow> 'm \<Rightarrow> bool" where
  "fits to_vec from_slice m \<longleftrightarrow>
     (\<exists>bs. to_vec m = Ok bs \<and> length bs \<le> MAX_CONTROL_PAYLOAD \<and> from_slice bs = Ok m)"

lemma fits_frame:
  assumes "fits to_vec from_slice m"
  shows "\<exists>payload. encode_control_json to_vec m = Ok payload \<and> decode_control_json from_slice payload = Ok m
    \<and> length payload \<le> MAX_CONTROL_PAYLOAD"
  using assms by (auto simp: fits_def encode_control_json_def decode_control_json_def)

lemma client_sends:
  assumes "fits (ce_client_json env) (env_client_json senv) m" and "tx_tcp_open tx"
  obtains frame payload where
    "client_send_control env tx m = (tx\<lparr>tx_tcp := tx_tcp tx @ [frame]\<rparr>, Ok ())"
    "decode_frame frame = Ok (ClientControlFrame payload)"
    "decode_client_control (env_client_json senv) payload = Ok m"
proof -
  obtain payload where p: "encode_control_json (ce_client_json env) m = Ok payload"
    "decode_control_json (env_client_json senv) payload = Ok m" "length payload \<le> MAX_CONTROL_PAYLOAD"
    using fits_frame [OF assms(1)] by blast
  then have "frame_wf (ClientControlFrame payload)" by simp
  then obtain frame where "encode_frame (ClientControlFrame payload) = Ok frame"
    "decode_frame frame = Ok (ClientControlFrame payload)" using encode_frame_wf by blast
  then show thesis using that [of frame payload] p assms(2)
    by (simp add: client_send_control_def encode_client_control_def decode_client_control_def
        del: encode_frame.simps)
qed

lemma server_sends:
  assumes "fits (env_server_json senv) (ce_server_json env) m"
    and "hm_get (sv_egress sv) p = Some q" and "length q < queue_capacity sv"
    and "handler m = Some answer"
  shows "\<exists>frame.
    send_control senv sv p m = (sv\<lparr>sv_egress := hm_insert p (q @ [frame]) (sv_egress sv)\<rparr>, Ok ())
    \<and> (\<forall>rest. await_control env handler (Ok frame # rest) = Some (rest, answer))"
proof -
  obtain payload where p: "encode_control_json (env_server_json senv) m = Ok payload"
    "decode_control_json (ce_server_json env) payload = Ok m" "length payload \<le> MAX_CONTROL_PAYLOAD"
    using fits_frame [OF assms(1)] by blast
  then have "frame_wf (ServerControlFrame payload)" by simp
  then obtain frame where f: "encode_frame (ServerControlFrame payload) = Ok frame"
    "decode_frame frame = Ok (ServerControlFrame payload)" using encode_frame_wf by blast
  then show ?thesis using p assms(2-4)
    by (intro exI [of _ frame]) (simp add: send_control_def encode_server_control_def
        decode_server_control_def invalid_data_def send_frame_def del: encode_frame.simps)
qed

text \<open>Broadcasts only append to queues.\<close>

definition queue_grows :: "Server \<Rightarrow> Server \<Rightarrow> bool" where
  "queue_grows sv sv' \<longleftrightarrow>
     (\<forall>p q. hm_get (sv_egress sv) p = Some q \<longrightarrow> (\<exists>e. hm_get (sv_egress sv') p = Some (q @ e)))"

lemma queue_grows_refl [simp]: "queue_grows sv sv"
  by (auto simp: queue_grows_def)

lemma queue_grows_trans: "queue_grows a b \<Longrightarrow> queue_grows b c \<Longrightarrow> queue_grows a c"
  unfolding queue_grows_def by (metis append_assoc)

lemma send_frame_grows: "queue_grows sv (fst (send_frame sv p f))"
  by (auto simp: queue_grows_def send_frame_def split: option.split)

lemma send_control_grows: "queue_grows sv (fst (send_control senv sv p m))"
  by (simp add: send_control_def send_frame_grows del: encode_frame.simps split: res.split)

lemma send_each_grows: "queue_grows sv (send_each senv sv ps m)"
  by (induction senv sv ps m rule: send_each.induct)
    (auto intro: queue_grows_trans [OF send_control_grows])

lemma presence_grows: "queue_grows sv (send_presence_opt senv sv b)"
  by (simp add: send_presence_opt_def send_presence_def send_each_grows split: option.split)

lemma begin_join_config: "rs_config (fst (begin_join st a b j)) = rs_config st"
  by (simp add: begin_join_def Let_def split: res.split)

text \<open>The two messages of the client, as the relay's TCP handler takes them.\<close>

lemma server_join_begin:
  assumes dec: "decode_frame f = Ok (ClientControlFrame payload)"
      "decode_client_control (env_client_json senv) payload = Ok (CC_JoinBegin cred steam name wp)"
    and key: "session_key (env_from_base58 senv) cred = Ok session"
    and begin_ok: "begin_join (sv_state sv) (dr_challenge dr) (dr_nonce dr)
      \<lparr>jb_control_peer = p, jb_session = session, jb_steam_id64 = steam, jb_display_name = name,
       jb_profile = profile_of_wire wp, jb_capabilities = enabled, jb_now = now\<rparr> = (st1, Ok ch)"
    and sent: "send_control senv (sv\<lparr>sv_state := st1\<rparr>) p
      (SC_AdmissionChallenge (env_to_hex senv (jc_challenge_id ch)) ''sha256''
        (env_to_hex senv (jc_pow_nonce ch)) (jc_difficulty_bits ch)) = (sv1, Ok ())"
  shows "handle_tcp_frame senv dr sv p enabled now f = Some (sv1, Ok False)"
  using assms
  by (simp add: handle_tcp_frame_def invalid_data_def handle_control_def handle_join_begin_def reply_def
      Let_def continue_with_def)

lemma server_join_proof:
  assumes dec: "decode_frame f = Ok (ClientControlFrame payload)"
      "decode_client_control (env_client_json senv) payload = Ok (CC_JoinProof chs (SecretString pf))"
    and key: "decode_hex_16 (env_from_hex senv) chs = Ok ch"
    and done_ok: "complete_join (env_sha256 senv) (dr_ids dr) (dr_resume dr) (dr_path dr) (sv_state sv)
      p ch pf now = Some (st2, Ok (ready, bc))"
    and sent: "send_control senv (sv\<lparr>sv_state := st2\<rparr>) p
      (SC_JoinReady (jr_connection_id ready) (secret_of_bytes (env_to_base58 senv) (jr_resume_key ready))
        (peer_views (jr_peers ready))) = (sv2, Ok ())"
  shows "handle_tcp_frame senv dr sv p enabled now f = Some (send_presence_opt senv sv2 bc, Ok False)"
  using assms
  by (simp add: handle_tcp_frame_def invalid_data_def handle_control_def handle_join_proof_def reply_def
      Let_def continue_with_def)

text \<open>The client's side, given the two answers.\<close>

lemma client_join_run:
  assumes tcp: "ro_transport route = TcTcp" "tx_udp tx = None"
    and s1: "client_send_control env tx
      (CC_JoinBegin (SecretString (ce_to_base58 env (ro_session_credential route))) (tx_from_steam_id64 tx)
        (Some name) WTcp) = (tx\<lparr>tx_tcp := tx_tcp tx @ [f1]\<rparr>, Ok ())"
    and a1: "await_control env on_challenge [Ok c1, Ok r1] = Some ([Ok r1], Ok (chs, nonces, bits))"
    and pow: "solve_pow env chs (ro_session_credential route) (tx_from_steam_id64 tx) nonces bits = Ok pf"
    and s2: "client_send_control env (tx\<lparr>tx_tcp := tx_tcp tx @ [f1]\<rparr>) (CC_JoinProof chs (SecretString pf))
      = (tx\<lparr>tx_tcp := tx_tcp tx @ [f1, f2]\<rparr>, Ok ())"
    and a2: "await_control env on_join_ready [Ok r1] = Some ([], Ok (c, cr, peers))"
  shows "complete_relay_join env ok tx [Ok c1, Ok r1] route name =
    Some (tx\<lparr>tx_tcp := tx_tcp tx @ [f1, f2], tx_resume_credential := Some cr, tx_connection_id := Some c\<rparr>,
          [], Ok peers)"
  using assms
  by (simp add: complete_relay_join_def wire_secret_def send_then_def await_then_def del: await_control.simps)

text \<open>
  C18: The join handshake completes and both sides agree.  When the relay has room for the player and
  admits the proof the client finds for its challenge, there is an exchange over the client's TCP
  connection in which the client sends exactly two frames, the relay accepts both and queues two
  answers for it, and the client ends with the connection id, the resume credential and the member
  list of the relay's state.  (The messages of the exchange fit into control frames; room for two
  frames in the egress queue.)
\<close>

theorem client_join_completes:
  assumes client: "ro_transport route = TcTcp" "tx_udp tx = None" "tx_tcp_open tx"
    and key: "session_key (env_from_base58 senv) (SecretString (ce_to_base58 env (ro_session_credential route)))
        = Ok (ro_session_credential route)"
    and begin_ok: "begin_join (sv_state sv) (dr_challenge dr) (dr_nonce dr)
      \<lparr>jb_control_peer = p, jb_session = ro_session_credential route,
       jb_steam_id64 = tx_from_steam_id64 tx, jb_display_name = Some name, jb_profile = Tcp,
       jb_capabilities = enabled, jb_now = now\<rparr> = (st1, Ok ch)"
    and pow: "solve_pow env (env_to_hex senv (jc_challenge_id ch)) (ro_session_credential route)
        (tx_from_steam_id64 tx) (env_to_hex senv (jc_pow_nonce ch)) (jc_difficulty_bits ch) = Ok pf"
    and hex: "decode_hex_16 (env_from_hex senv) (env_to_hex senv (jc_challenge_id ch)) = Ok (jc_challenge_id ch)"
    and admit: "complete_join (env_sha256 senv) (dr_ids dr) (dr_resume dr) (dr_path dr) st1 p
        (jc_challenge_id ch) pf now = Some (st2, Ok (ready, bc))"
    and json: "fits (ce_client_json env) (env_client_json senv)
        (CC_JoinBegin (SecretString (ce_to_base58 env (ro_session_credential route)))
           (tx_from_steam_id64 tx) (Some name) WTcp)"
      "fits (env_server_json senv) (ce_server_json env)
        (SC_AdmissionChallenge (env_to_hex senv (jc_challenge_id ch)) ''sha256''
           (env_to_hex senv (jc_pow_nonce ch)) (jc_difficulty_bits ch))"
      "fits (ce_client_json env) (env_client_json senv)
        (CC_JoinProof (env_to_hex senv (jc_challenge_id ch)) (SecretString pf))"
      "fits (env_server_json senv) (ce_server_json env)
        (SC_JoinReady (jr_connection_id ready)
           (secret_of_bytes (env_to_base58 senv) (jr_resume_key ready)) (peer_views (jr_peers ready)))"
    and queue: "hm_get (sv_egress sv) p = Some q" "Suc (length q) < queue_capacity sv"
  shows "\<exists>f1 f2 c1 r1 extra sv1 sv2 tx'.
      handle_tcp_frame senv dr sv p enabled now f1 = Some (sv1, Ok False)
      \<and> handle_tcp_frame senv dr sv1 p enabled now f2 = Some (sv2, Ok False)
      \<and> hm_get (sv_egress sv2) p = Some (q @ c1 # r1 # extra) \<and> sv_state sv2 = st2
      \<and> complete_relay_join env ok tx [Ok c1, Ok r1] route name = Some (tx', [], Ok (peer_views (jr_peers ready)))
      \<and> tx_tcp tx' = tx_tcp tx @ [f1, f2] \<and> tx_connection_id tx' = Some (jr_connection_id ready)
      \<and> tx_resume_credential tx' = Some (secret_of_bytes (env_to_base58 senv) (jr_resume_key ready))"
proof -
  obtain f1 p1 where f1: "client_send_control env tx (CC_JoinBegin
        (SecretString (ce_to_base58 env (ro_session_credential route))) (tx_from_steam_id64 tx) (Some name) WTcp)
      = (tx\<lparr>tx_tcp := tx_tcp tx @ [f1]\<rparr>, Ok ())"
    "decode_frame f1 = Ok (ClientControlFrame p1)"
    "decode_client_control (env_client_json senv) p1 = Ok (CC_JoinBegin
        (SecretString (ce_to_base58 env (ro_session_credential route))) (tx_from_steam_id64 tx) (Some name) WTcp)"
    using client_sends [OF json(1) client(3)] by blast
  let ?tx1 = "tx\<lparr>tx_tcp := tx_tcp tx @ [f1]\<rparr>"
  have "tx_tcp_open ?tx1" using client(3) by simp
  then obtain f2 p2 where f2: "client_send_control env ?tx1
        (CC_JoinProof (env_to_hex senv (jc_challenge_id ch)) (SecretString pf))
      = (tx\<lparr>tx_tcp := tx_tcp tx @ [f1, f2]\<rparr>, Ok ())"
    "decode_frame f2 = Ok (ClientControlFrame p2)"
    "decode_client_control (env_client_json senv) p2
      = Ok (CC_JoinProof (env_to_hex senv (jc_challenge_id ch)) (SecretString pf))"
    using client_sends [OF json(3), of ?tx1] by auto
  let ?s1 = "sv\<lparr>sv_state := st1\<rparr>"
  have cfg1: "rs_config st1 = rs_config (sv_state sv)" using begin_join_config begin_ok by (metis fst_conv)
  have cfg2: "rs_config st2 = rs_config st1" by (rule step_config [OF step_join [OF admit]])
  have q1: "hm_get (sv_egress ?s1) p = Some q" "length q < queue_capacity ?s1"
    using queue cfg1 by (simp_all add: queue_capacity_def)
  obtain c1 where c1: "send_control senv ?s1 p (SC_AdmissionChallenge (env_to_hex senv (jc_challenge_id ch))
        ''sha256'' (env_to_hex senv (jc_pow_nonce ch)) (jc_difficulty_bits ch))
      = (?s1\<lparr>sv_egress := hm_insert p (q @ [c1]) (sv_egress ?s1)\<rparr>, Ok ())"
    "\<forall>rest. await_control env on_challenge (Ok c1 # rest) = Some (rest,
      Ok (env_to_hex senv (jc_challenge_id ch), env_to_hex senv (jc_pow_nonce ch), jc_difficulty_bits ch))"
    using server_sends [OF json(2) q1, of on_challenge] by (auto simp del: await_control.simps)
  let ?sv1 = "?s1\<lparr>sv_egress := hm_insert p (q @ [c1]) (sv_egress ?s1)\<rparr>"
  have h1: "handle_tcp_frame senv dr sv p enabled now f1 = Some (?sv1, Ok False)"
    using server_join_begin [OF f1(2,3) key _ c1(1)] begin_ok by simp
  let ?s2 = "?sv1\<lparr>sv_state := st2\<rparr>"
  have q2: "hm_get (sv_egress ?s2) p = Some (q @ [c1])" "length (q @ [c1]) < queue_capacity ?s2"
    using queue cfg1 cfg2 by (simp_all add: queue_capacity_def)
  obtain r1 where r1: "send_control senv ?s2 p (SC_JoinReady (jr_connection_id ready)
        (secret_of_bytes (env_to_base58 senv) (jr_resume_key ready)) (peer_views (jr_peers ready)))
      = (?s2\<lparr>sv_egress := hm_insert p ((q @ [c1]) @ [r1]) (sv_egress ?s2)\<rparr>, Ok ())"
    "\<forall>rest. await_control env on_join_ready (Ok r1 # rest) = Some (rest, Ok (jr_connection_id ready,
      secret_of_bytes (env_to_base58 senv) (jr_resume_key ready), peer_views (jr_peers ready)))"
    using server_sends [OF json(4) q2, of on_join_ready] by (auto simp del: await_control.simps)
  let ?sv2 = "?s2\<lparr>sv_egress := hm_insert p ((q @ [c1]) @ [r1]) (sv_egress ?s2)\<rparr>"
  have h2: "handle_tcp_frame senv dr ?sv1 p enabled now f2 = Some (send_presence_opt senv ?sv2 bc, Ok False)"
    using server_join_proof [OF f2(2,3) hex _ r1(1)] admit by simp
  have "hm_get (sv_egress ?sv2) p = Some (q @ [c1, r1])" by simp
  then obtain extra where e: "hm_get (sv_egress (send_presence_opt senv ?sv2 bc)) p = Some ((q @ [c1, r1]) @ extra)"
    using presence_grows [of ?sv2 senv bc] unfolding queue_grows_def by blast
  have st: "sv_state (send_presence_opt senv ?sv2 bc) = st2"
    by (simp add: send_presence_opt_def send_presence_state split: option.split)
  note run = client_join_run [OF client(1,2) f1(1) spec [OF c1(2)] pow f2(1) spec [OF r1(2)], of ok]
  let ?tx = "tx\<lparr>tx_tcp := tx_tcp tx @ [f1, f2],
      tx_resume_credential := Some (secret_of_bytes (env_to_base58 senv) (jr_resume_key ready)),
      tx_connection_id := Some (jr_connection_id ready)\<rparr>"
  have e': "hm_get (sv_egress (send_presence_opt senv ?sv2 bc)) p = Some (q @ c1 # r1 # extra)"
    using e by (simp only: append_assoc append.simps)
  have tx: "tx_tcp ?tx = tx_tcp tx @ [f1, f2]" "tx_connection_id ?tx = Some (jr_connection_id ready)"
    "tx_resume_credential ?tx = Some (secret_of_bytes (env_to_base58 senv) (jr_resume_key ready))"
    by simp_all
  show ?thesis
    by (intro exI [of _ f1] exI [of _ f2] exI [of _ c1] exI [of _ r1] exI [of _ extra] exI [of _ ?sv1]
        exI [of _ "send_presence_opt senv ?sv2 bc"] exI [of _ ?tx] conjI h1 h2 e' st run tx)
qed

text \<open>One exchange, with libraries that know just the four messages it needs.\<close>

definition join_challenge :: ServerControl where
  "join_challenge = SC_AdmissionChallenge (replicate 32 CHR ''0'') ''sha256'' (replicate 32 CHR ''0'') 0"

definition join_ready :: ServerControl where
  "join_ready = SC_JoinReady 100 (SecretString [])
     [\<lparr>ppi_steam_id64 = 76, ppi_display_name = Some [], ppi_presence = WConnected, ppi_capabilities = 8\<rparr>]"

definition join_client :: "unit ClientEnv" where
  "join_client = \<lparr>ce_sha256 = demo_sha, ce_to_base58 = (\<lambda>_. []), ce_from_hex = (\<lambda>_. Some [3]),
     ce_client_json = (\<lambda>m. case m of CC_JoinBegin _ _ _ _ \<Rightarrow> Ok [1] | _ \<Rightarrow> Ok [2]),
     ce_server_json = (\<lambda>b. if b = [1] then Ok join_challenge else Ok join_ready)\<rparr>"

definition join_server :: "unit Env" where
  "join_server = \<lparr>env_sha256 = demo_sha, env_from_base58 = (\<lambda>s. Some demo_session),
     env_to_base58 = (\<lambda>b. []), env_from_hex = (\<lambda>s. Some [3]), env_to_hex = (\<lambda>b. replicate 32 CHR ''0''),
     env_client_json = (\<lambda>b. if b = [1] then Ok (CC_JoinBegin (SecretString []) 76 (Some []) WTcp)
                            else Ok (CC_JoinProof (replicate 32 CHR ''0'') (SecretString []))),
     env_server_json = (\<lambda>m. if m = join_challenge then Ok [1] else Ok [2]), env_udp_listener = True,
     env_udp_send = (\<lambda>a b. True)\<rparr>"

definition join_route :: RelayRoute where
  "join_route = \<lparr>ro_session_credential = demo_session, ro_transport = TcTcp\<rparr>"

lemma fits_example:
  "fits to_vec from_slice m" if "to_vec m = Ok [b]" "from_slice [b] = Ok m"
  using that by (auto simp: fits_def MAX_CONTROL_PAYLOAD_def)

theorem client_join_completes_witness:
  "\<exists>f1 f2 c1 r1 extra sv1 sv2 tx'.
      handle_tcp_frame join_server demo_draws demo_server 1 8 0 f1 = Some (sv1, Ok False)
      \<and> handle_tcp_frame join_server demo_draws sv1 1 8 0 f2 = Some (sv2, Ok False)
      \<and> hm_get (sv_egress sv2) 1 = Some (c1 # r1 # extra)
      \<and> complete_relay_join join_client True (sender_new TcTcp 76) [Ok c1, Ok r1] join_route []
          = Some (tx', [], Ok [\<lparr>ppi_steam_id64 = 76, ppi_display_name = Some [],
                                ppi_presence = WConnected, ppi_capabilities = 8\<rparr>])
      \<and> tx_connection_id tx' = Some 100"
proof -
  let ?j = "\<lparr>jb_control_peer = 1, jb_session = demo_session, jb_steam_id64 = 76, jb_display_name = Some [],
       jb_profile = Tcp, jb_capabilities = 8, jb_now = 0\<rparr>"
  let ?ch = "\<lparr>jc_challenge_id = [3], jc_pow_nonce = [4], jc_difficulty_bits = 0\<rparr>"
  have cfg: "pow_difficulty_bits demo_config = 0" "max_rooms demo_config = 256"
    "max_peers_per_room demo_config = 4" "tcp_egress_queue_capacity demo_config = 512"
    by (simp_all add: demo_config_def config_default_def)
  have st: "sv_state demo_server = state_new demo_config" "hm_get (sv_egress demo_server) 1 = Some []"
    by (simp_all add: demo_server_def tcp_connected_def)
  obtain st1 where b: "begin_join (sv_state demo_server) (dr_challenge demo_draws) (dr_nonce demo_draws) ?j
      = (st1, Ok ?ch)" and st1: "st1 = fst (begin_join (state_new demo_config) [3] [4] ?j)"
    by (simp add: st demo_draws_def begin_join_def validate_room_capacity_def state_new_def cfg Let_def hm_get_def)
  obtain st2 ready bc where c: "complete_join (env_sha256 join_server) (dr_ids demo_draws) (dr_resume demo_draws)
      (dr_path demo_draws) st1 1 (jc_challenge_id ?ch) [] 0 = Some (st2, Ok (ready, bc))"
    and ready: "jr_connection_id ready = 100" "jr_peers ready = [\<lparr>pw_steam_id64 = 76, pw_display_name = Some [],
      pw_presence = Connected, pw_capabilities = 8\<rparr>]"
    by (simp add: st1 state_new_def new_peer_def cfg join_eval demo_draws_def join_server_def room_views_def
        peer_view_def)
  have views: "peer_views (jr_peers ready) = [\<lparr>ppi_steam_id64 = 76, ppi_display_name = Some [],
      ppi_presence = WConnected, ppi_capabilities = 8\<rparr>]" by (simp add: ready peer_views_def)
  have "\<exists>f1 f2 c1 r1 extra sv1 sv2 tx'.
      handle_tcp_frame join_server demo_draws demo_server 1 8 0 f1 = Some (sv1, Ok False)
      \<and> handle_tcp_frame join_server demo_draws sv1 1 8 0 f2 = Some (sv2, Ok False)
      \<and> hm_get (sv_egress sv2) 1 = Some ([] @ c1 # r1 # extra) \<and> sv_state sv2 = st2
      \<and> complete_relay_join join_client True (sender_new TcTcp 76) [Ok c1, Ok r1] join_route []
          = Some (tx', [], Ok (peer_views (jr_peers ready)))
      \<and> tx_tcp tx' = tx_tcp (sender_new TcTcp 76) @ [f1, f2] \<and> tx_connection_id tx' = Some (jr_connection_id ready)
      \<and> tx_resume_credential tx' = Some (secret_of_bytes (env_to_base58 join_server) (jr_resume_key ready))"
  proof (rule client_join_completes [where ?st1.0 = st1 and ch = ?ch and pf = "[]" and bc = bc])
    show "begin_join (sv_state demo_server) (dr_challenge demo_draws) (dr_nonce demo_draws)
      \<lparr>jb_control_peer = 1, jb_session = ro_session_credential join_route,
       jb_steam_id64 = tx_from_steam_id64 (sender_new TcTcp 76), jb_display_name = Some [], jb_profile = Tcp,
       jb_capabilities = 8, jb_now = 0\<rparr> = (st1, Ok ?ch)"
      using b by (simp add: join_route_def sender_new_def)
    show "complete_join (env_sha256 join_server) (dr_ids demo_draws) (dr_resume demo_draws)
      (dr_path demo_draws) st1 1 (jc_challenge_id ?ch) [] 0 = Some (st2, Ok (ready, bc))" by (rule c)
  qed (auto simp: join_route_def sender_new_def st queue_capacity_def state_new_def cfg join_server_def
      join_client_def session_key_def decode_base58_16_def demo_session_def ok_or_def solve_pow_def
      decode_hex_16_def join_challenge_def join_ready_def ready peer_views_def secret_of_bytes_def
      intro!: fits_example)
  then show ?thesis unfolding views ready(1) append_Nil by blast
qed

end
