(* ===== verification/Relay_Session_Props.thy ===== *)
theory Relay_Session_Props
  imports Relay_Session Relay_Client_Props
begin

text \<open>
  What holds of the tasks of a session: the probes of a room go to its capable members only, the two kinds of pings
  are kept apart, a recovery ends by its deadline, an attachment is not ended by an older one, and no packet of
  the hook goes uncounted.
\<close>

section \<open>What the helpers leave alone\<close>

definition same_room :: "'p RelayTask \<Rightarrow> 'p RelayTask \<Rightarrow> bool" where
  "same_room t t' \<longleftrightarrow>
     rk_room_peers t' = rk_room_peers t \<and> rk_room_path t' = rk_room_path t \<and> rk_relay_rtt t' = rk_relay_rtt t
     \<and> rk_target t' = rk_target t \<and> rk_observer t' = rk_observer t \<and> rk_session t' = rk_session t
     \<and> rk_detached_dropped t' = rk_detached_dropped t"

lemma same_room_refl [simp]: "same_room t t"
  by (simp add: same_room_def)

lemma same_room_trans: "same_room a b \<Longrightarrow> same_room b c \<Longrightarrow> same_room a c"
  by (simp add: same_room_def)

lemma same_room_helpers [simp]:
  "same_room t (emit e t)" "same_room t (observe_task f t)" "same_room t (task_error m t)"
  "same_room t (t\<lparr>rk_sender := tx\<rparr>)" "same_room t (t\<lparr>rk_sender := tx, rk_enabled := c\<rparr>)"
  "same_room t (t\<lparr>rk_health := h\<rparr>)"
  by (simp_all add: same_room_def emit_def observe_task_def task_error_def)

lemma emit_sel [simp]:
  "rk_sender (emit e t) = rk_sender t" "rk_enabled (emit e t) = rk_enabled t" "rk_session (emit e t) = rk_session t"
  "rk_target (emit e t) = rk_target t" "rk_observer (emit e t) = rk_observer t"
  "rk_room_peers (emit e t) = rk_room_peers t" "rk_room_path (emit e t) = rk_room_path t"
  "rk_relay_rtt (emit e t) = rk_relay_rtt t" "rk_detached_dropped (emit e t) = rk_detached_dropped t"
  "rk_health (emit e t) = rk_health t"
  by (simp_all add: emit_def)

lemma recovery_events_same:
  "same_room t (recovery_started a e d m t)" "same_room t (recovery_exhausted a e d m t)"
  "same_room t (recovery_succeeded a e d k t)"
  by (simp_all add: same_room_def recovery_started_def recovery_exhausted_def recovery_succeeded_def split_beta Let_def)

lemma drop_waiting_same: "same_room t (snd (drop_waiting n d t))"
proof (induction n arbitrary: d t)
  case (Suc n)
  show ?case
    by (simp, rule same_room_trans [OF same_room_trans [OF same_room_helpers(2) same_room_helpers(1)] Suc.IH])
qed simp

lemma task_reconnect_same: "task_reconnect env ok c i t = Some (t', r) \<Longrightarrow> same_room t t'"
  by (auto simp: task_reconnect_def split: option.splits res.splits prod.splits if_splits)

lemma attempt_branches_finished:
  "(d, AoFinished (t', r)) \<in> set (attempt_branches env a t)
     \<Longrightarrow> \<exists>connected input. ra_finish a = Some (d, connected, input)
           \<and> task_reconnect env (ra_udp_ok a) connected input t = Some (t', r)"
  by (auto simp: attempt_branches_def with_cancel_def optional_branch_def Let_def split: option.splits if_splits)

lemma attempt_branches_cancelled:
  "(d, AoCancelled) \<in> set (attempt_branches env a t) \<Longrightarrow> ra_cancel a \<noteq> None"
  by (auto simp: attempt_branches_def with_cancel_def optional_branch_def Let_def split: option.splits if_splits)

lemma first_ready_in: "first_ready bs = Some b \<Longrightarrow> b \<in> set bs"
  by (induction bs rule: first_ready.induct) (auto split: option.splits if_splits)

lemma first_ready_some: "b \<in> set bs \<Longrightarrow> \<exists>c. first_ready bs = Some c \<and> fst c \<le> fst b"
proof (induction bs rule: first_ready.induct)
  case (2 d x bs)
  then show ?case by (cases "first_ready bs") (auto split: prod.splits)
qed simp

lemma attempt_ready:
  "\<exists>d outcome. first_ready (attempt_branches env a t) = Some (d, outcome) \<and> d \<le> RECOVERY_ATTEMPT_TIMEOUT"
proof -
  have "(RECOVERY_ATTEMPT_TIMEOUT, AoTimedOut) \<in> set (attempt_branches env a t)"
    by (auto simp: attempt_branches_def with_cancel_def Let_def)
  from first_ready_some [OF this] show ?thesis by auto
qed

lemma wait_ready: "\<exists>d cancelled. first_ready (wait_branches a elapsed) = Some (d, cancelled)"
proof -
  have "(min (ra_backoff a) (RECOVERY_DEADLINE - elapsed), False) \<in> set (wait_branches a elapsed)"
    by (auto simp: wait_branches_def with_cancel_def)
  from first_ready_some [OF this] show ?thesis by auto
qed

lemma wait_branch:
  assumes "first_ready (wait_branches a elapsed) = Some (d, cancelled)"
  shows "cancelled \<Longrightarrow> ra_wait_cancel a \<noteq> None"
    and "\<not> cancelled \<Longrightarrow> d = min (ra_backoff a) (RECOVERY_DEADLINE - elapsed)"
  using first_ready_in [OF assms]
  by (auto simp: wait_branches_def with_cancel_def optional_branch_def split: option.splits if_splits)

text \<open>What one turn of the loop comes to: it ends there, or goes on after the wait.\<close>

lemma recover_loop_turn:
  fixes t :: "'p RelayTask"
  obtains (cancelled) t' where "recover_loop env n m d elapsed t (a # attempts) = Some (t', Err KInterrupted)"
      "same_room t t'" "ra_cancel a \<noteq> None \<or> ra_wait_cancel a \<noteq> None"
  | (recovered) late c i t1 t2 k where "ra_finish a = Some (late, c, i)"
      "task_reconnect env (ra_udp_ok a) c i t1 = Some (t2, Ok k)"
      "recover_loop env n m d elapsed t (a # attempts)
         = Some (recovery_succeeded (saturating_add n 1) (elapsed + late + ra_lag a) d k t2, Ok (fst (recovered_peers k)))"
      "same_room t t2"
  | (panicked) late c i t1 t' where "ra_finish a = Some (late, c, i)"
      "task_reconnect env (ra_udp_ok a) c i t1 = Some (t', Panic)"
      "recover_loop env n m d elapsed t (a # attempts) = Some (t', Panic)" "same_room t t'"
  | (exhausted) t' where "recover_loop env n m d elapsed t (a # attempts) = Some (t', Err KTimedOut)" "same_room t t'"
  | (again) n' m' d' elapsed' t' where
      "recover_loop env n m d elapsed t (a # attempts) = recover_loop env n' m' d' elapsed' t' attempts"
      "same_room t t'" "elapsed < RECOVERY_DEADLINE"
      "min (elapsed + ra_backoff a) RECOVERY_DEADLINE \<le> elapsed'"
proof -
  let ?n = "saturating_add n 1"
  let ?t = "recovery_started ?n elapsed d m t"
  obtain e outcome where ready: "first_ready (attempt_branches env a ?t) = Some (e, outcome)"
    using attempt_ready by blast
  let ?now = "elapsed + e + ra_lag a"
  obtain w stop where wait: "first_ready (wait_branches a ?now) = Some (w, stop)" using wait_ready by blast
  have t: "same_room t ?t" by (rule recovery_events_same)
  define failed where "failed m' x =
     (if RECOVERY_DEADLINE \<le> ?now
      then Some (recovery_exhausted ?n ?now d m' x, Err KTimedOut)
      else let (d, x) = drop_waiting (ra_waiting a) d x
           in if stop then Some (x, Err KInterrupted)
              else recover_loop env ?n m' d (?now + w + ra_wait_lag a) x attempts)" for m' and x :: "'p RelayTask"
  have loop: "recover_loop env n m d elapsed t (a # attempts) =
     (case outcome of
        AoCancelled \<Rightarrow> Some (?t, Err KInterrupted)
      | AoTimedOut \<Rightarrow> failed ''Relay recovery attempt timed out'' ?t
      | AoFinished (t, Ok recovery) \<Rightarrow>
          Some (recovery_succeeded ?n ?now d recovery t, Ok (fst (recovered_peers recovery)))
      | AoFinished (t, Err e) \<Rightarrow> failed (se_error_text env e) t
      | AoFinished (t, Panic) \<Rightarrow> Some (t, Panic))"
    by (auto simp: ready wait failed_def Let_def split: AttemptOutcome.split prod.split res.split)
  have fail: thesis
    if turn: "recover_loop env n m d elapsed t (a # attempts) = failed m' x" and same: "same_room t x" for m' x
  proof (cases "RECOVERY_DEADLINE \<le> ?now")
    case True
    then have "recover_loop env n m d elapsed t (a # attempts) = Some (recovery_exhausted ?n ?now d m' x, Err KTimedOut)"
      using turn by (simp add: failed_def)
    then show thesis by (rule exhausted) (rule same_room_trans [OF same recovery_events_same(2)])
  next
    case False
    obtain d' x' where dw: "drop_waiting (ra_waiting a) d x = (d', x')" by fastforce
    have same': "same_room t x'" using same_room_trans [OF same drop_waiting_same [of x "ra_waiting a" d]] dw by simp
    show thesis
    proof (cases stop)
      case True
      then show thesis using turn False dw same' wait_branch(1) [OF wait] by (intro cancelled) (auto simp: failed_def)
    next
      case go: False
      have "min (elapsed + ra_backoff a) RECOVERY_DEADLINE \<le> ?now + w + ra_wait_lag a"
        using wait_branch(2) [OF wait go] by (auto simp: min_def)
      then show thesis using turn False dw go same' by (intro again) (auto simp: failed_def)
    qed
  qed
  show thesis
  proof (cases outcome)
    case AoCancelled
    then show thesis
      using loop t attempt_branches_cancelled first_ready_in [OF ready] by (intro cancelled) auto
  next
    case AoTimedOut
    then show thesis using fail [OF _ t] loop by simp
  next
    case (AoFinished out)
    obtain t2 r where out: "out = (t2, r)" by (cases out)
    obtain c i where c: "ra_finish a = Some (e, c, i)" "task_reconnect env (ra_udp_ok a) c i ?t = Some (t2, r)"
      using attempt_branches_finished first_ready_in [OF ready] AoFinished out by blast
    have same: "same_room t t2" using same_room_trans [OF t task_reconnect_same [OF c(2)]] .
    show thesis
    proof (cases r)
      case (Ok k)
      then show thesis using recovered [OF c(1) c(2) [unfolded Ok] _ same] loop AoFinished out by simp
    next
      case (Err e)
      then show thesis using fail [OF _ same] loop AoFinished out by simp
    next
      case Panic
      then show thesis using panicked [OF c(1) c(2) [unfolded Panic] _ same] loop AoFinished out by simp
    qed
  qed
qed

lemma recover_loop_same:
  "recover_loop env n m d elapsed t attempts = Some (t', r) \<Longrightarrow> same_room t t'"
proof (induction attempts arbitrary: n m d elapsed t)
  case (Cons a attempts)
  show ?case
  proof (cases rule: recover_loop_turn [of env n m d elapsed t a attempts])
    case (recovered late c i t1 t2 k)
    then show ?thesis using Cons.prems recovery_events_same(3) same_room_trans by fastforce
  next
    case (again n' m' d' elapsed' t1)
    then show ?thesis using Cons.prems Cons.IH same_room_trans by metis
  qed (use Cons.prems in auto)
qed simp

lemma recover_relay_same: "recover_relay env as e t = Some (t', r) \<Longrightarrow> same_room t t'"
  unfolding recover_relay_def by (rule recover_loop_same)

section \<open>A recovery ends\<close>

text \<open>While the deadline is not reached each turn takes the least delay of the backoff off the time that is left.\<close>

lemma recover_loop_ends:
  assumes "\<forall>a \<in> set attempts. RECOVERY_MIN_DELAY \<le> ra_backoff a"
    and "RECOVERY_DEADLINE - elapsed + RECOVERY_MIN_DELAY \<le> length attempts * RECOVERY_MIN_DELAY"
  shows "recover_loop env n m d elapsed t attempts \<noteq> None"
  using assms
proof (induction attempts arbitrary: n m d elapsed t)
  case (Cons a attempts)
  show ?case
  proof (cases rule: recover_loop_turn [of env n m d elapsed t a attempts])
    case (again n' m' d' elapsed' t')
    have left: "RECOVERY_DEADLINE - elapsed \<le> length attempts * RECOVERY_MIN_DELAY" using Cons.prems(2) by simp
    have step: "min (elapsed + RECOVERY_MIN_DELAY) RECOVERY_DEADLINE \<le> elapsed'"
      using again(4) Cons.prems(1) by (auto simp: min_def split: if_splits)
    have "RECOVERY_DEADLINE - elapsed' + RECOVERY_MIN_DELAY \<le> length attempts * RECOVERY_MIN_DELAY"
    proof (cases "RECOVERY_DEADLINE \<le> elapsed'")
      case True
      have "0 < length attempts" using left again(3) by (cases attempts) auto
      then have "RECOVERY_MIN_DELAY \<le> length attempts * RECOVERY_MIN_DELAY" by (cases attempts) auto
      then show ?thesis using True by simp
    next
      case False
      then show ?thesis using step left by simp
    qed
    then show ?thesis using Cons.IH [of elapsed'] Cons.prems(1) again(1) by simp
  qed simp_all
qed (simp add: RECOVERY_MIN_DELAY_def)

text \<open>What an attempt can bring about.\<close>

definition attempt_yields :: "'j SessionEnv \<Rightarrow> RecoveryAttempt \<Rightarrow> (io_kind, RecoveryKind) res \<Rightarrow> 'p RelayTask \<Rightarrow> bool" where
  "attempt_yields env a r t' \<longleftrightarrow>
     (\<exists>d connected input t. ra_finish a = Some (d, connected, input)
        \<and> task_reconnect env (ra_udp_ok a) connected input t = Some (t', r))"

definition attempt_cancelled :: "RecoveryAttempt \<Rightarrow> bool" where
  "attempt_cancelled a \<longleftrightarrow> ra_cancel a \<noteq> None \<or> ra_wait_cancel a \<noteq> None"

lemma recover_loop_result:
  fixes t :: "'p RelayTask"
  assumes "recover_loop env n m d elapsed t attempts = Some (t', r)"
  shows "case r of
           Ok peers \<Rightarrow> \<exists>a \<in> set attempts. \<exists>k (t1 :: 'p RelayTask). attempt_yields env a (Ok k) t1 \<and> peers = fst (recovered_peers k)
         | Err k \<Rightarrow> k = KTimedOut \<or> k = KInterrupted \<and> (\<exists>a \<in> set attempts. attempt_cancelled a)
         | Panic \<Rightarrow> \<exists>a \<in> set attempts. attempt_yields env a Panic t'"
  using assms
proof (induction attempts arbitrary: n m d elapsed t)
  case (Cons a attempts)
  show ?case
  proof (cases rule: recover_loop_turn [of env n m d elapsed t a attempts])
    case (cancelled t1)
    then have "r = Err KInterrupted" using Cons.prems by (simp del: recover_loop.simps)
    then show ?thesis using cancelled(3) by (simp add: attempt_cancelled_def)
  next
    case (recovered late c i t1 t2 k)
    then have "r = Ok (fst (recovered_peers k))" using Cons.prems by (simp del: recover_loop.simps)
    moreover have "attempt_yields env a (Ok k) t2" using recovered(1,2) unfolding attempt_yields_def by blast
    ultimately show ?thesis by auto
  next
    case (panicked late c i t1 t2)
    then have "t' = t2" "r = Panic" using Cons.prems by (simp_all del: recover_loop.simps)
    then show ?thesis using panicked(1,2) by (auto simp: attempt_yields_def)
  next
    case (exhausted t1)
    then have "r = Err KTimedOut" using Cons.prems by (simp del: recover_loop.simps)
    then show ?thesis by simp
  next
    case (again n' m' d' elapsed' t1)
    then show ?thesis using Cons.prems Cons.IH [of n' m' d' elapsed' t1] by (cases r) (auto simp del: recover_loop.simps)
  qed
qed simp

text \<open>
  C37: A recovery of the relay connection always ends, within 481 attempts, whatever the network does.  An attempt may
  hang without an answer, fail at once, or finish at any time; the delays of the backoff are at least the 250
  milliseconds it was asked for.  The recovery then returns with the members that one of its attempts was told, or
  with the error that the time of 120 seconds was up, or, if the session was cancelled, with the error that says so.
  (A panic of the handshake would end the task as well; nothing else in the recovery can panic.)
\<close>

theorem recovery_ends:
  fixes t :: "'p RelayTask"
  assumes "481 \<le> length attempts" and "\<forall>a \<in> set attempts. RECOVERY_MIN_DELAY \<le> ra_backoff a"
  shows "case recover_relay env attempts e t of
           None \<Rightarrow> False
         | Some (t', Ok peers) \<Rightarrow>
             \<exists>a \<in> set attempts. \<exists>k (t1 :: 'p RelayTask). attempt_yields env a (Ok k) t1 \<and> peers = fst (recovered_peers k)
         | Some (t', Err k) \<Rightarrow> k = KTimedOut \<or> k = KInterrupted \<and> (\<exists>a \<in> set attempts. attempt_cancelled a)
         | Some (t', Panic) \<Rightarrow> \<exists>a \<in> set attempts. attempt_yields env a Panic t'"
proof -
  have "RECOVERY_DEADLINE - 0 + RECOVERY_MIN_DELAY \<le> length attempts * RECOVERY_MIN_DELAY"
    using assms(1) by (simp add: RECOVERY_DEADLINE_def RECOVERY_MIN_DELAY_def)
  from recover_loop_ends [OF assms(2) this, of env 0 "se_error_text env e" 0 t]
  obtain t' r where r: "recover_relay env attempts e t = Some (t', r)" by (auto simp: recover_relay_def)
  from recover_loop_result [OF this [unfolded recover_relay_def]] show ?thesis
    by (cases r) (simp_all add: r)
qed

section \<open>Probes of a room\<close>

definition path_inv :: "'p RelayTask \<Rightarrow> bool" where
  "path_inv t \<longleftrightarrow>
     quality_ok (rk_room_path t) \<and> (\<forall>k \<in> dom (hm_get (rk_room_path t)). probe_supported (rk_room_peers t) k)"

lemma path_inv_same: "path_inv t \<Longrightarrow> same_room t t' \<Longrightarrow> path_inv t'"
  by (simp add: path_inv_def same_room_def)

lemma sync_peers_get:
  assumes "quality_ok q" and "hm_get (sync_peers q peers me) k = Some p"
  shows "probe_supported peers k"
proof -
  have "dom (hm_get (sync_peers q peers me)) = {ppi_steam_id64 p |p. p \<in> set peers \<and> probe_target me p}"
    using sync_peers_targets [OF assms(1), of peers me] unfolding quality_targets_def hm_keys_get .
  moreover have "k \<in> dom (hm_get (sync_peers q peers me))" using assms(2) by blast
  ultimately show ?thesis by (auto simp: probe_supported_def probe_target_def list_ex_iff)
qed

lemma path_inv_sync: "quality_ok (rk_room_path t) \<Longrightarrow> path_inv (sync_room_path now t)"
  by (auto simp: path_inv_def sync_room_path_def emit_room_path_def quality_clear_def quality_ok_Nil sync_peers_ok
      dest: sync_peers_get)

lemma path_dom:
  "quality_ok q \<Longrightarrow> dom (hm_get (record_sent q s i now)) = dom (hm_get q)"
  "quality_ok q \<Longrightarrow> dom (hm_get (fst (record_echo q s i now))) = dom (hm_get q)"
  "dom (hm_get (quality_expire q now)) = dom (hm_get q)"
  by (auto simp: quality_ok_def record_sent_def record_echo_def quality_expire_get dom_def split: option.splits if_splits)

lemma path_inv_path: "path_inv t \<Longrightarrow> quality_ok q \<Longrightarrow> dom (hm_get q) = dom (hm_get (rk_room_path t)) \<Longrightarrow> path_inv (t\<lparr>rk_room_path := q\<rparr>)"
  by (simp add: path_inv_def)

lemma path_inv_emit [simp]: "path_inv (emit e t) = path_inv t" "path_inv (emit_room_path now t) = path_inv t"
  "path_inv (t\<lparr>rk_sender := tx\<rparr>) = path_inv t" "path_inv (t\<lparr>rk_relay_rtt := x\<rparr>) = path_inv t"
  "path_inv (t\<lparr>rk_target := g\<rparr>) = path_inv t" "path_inv (t\<lparr>rk_health := h\<rparr>) = path_inv t"
  "path_inv (observe_task f t) = path_inv t" "path_inv (task_error m t) = path_inv t"
  "path_inv (report_relay_drops t) = path_inv t" "path_inv (t\<lparr>rk_observer := o1, rk_events := q\<rparr>) = path_inv t"
  "path_inv (t\<lparr>rk_target := g, rk_detached_dropped := n\<rparr>) = path_inv t"
  by (simp_all add: path_inv_def emit_room_path_def observe_task_def task_error_def report_relay_drops_def split_beta Let_def)

lemma recover_relay_path_inv: "recover_relay env as e t = Some (t', r) \<Longrightarrow> path_inv t' = path_inv t"
  using recover_relay_same [of env as e t t' r] by (auto simp: path_inv_def same_room_def)

lemma path_inv_ok: "path_inv t \<Longrightarrow> quality_ok (rk_room_path t)"
  by (simp add: path_inv_def)

lemma path_inv_recover:
  assumes "recover_and_sync env r e t = Some (t', res)"
  shows "path_inv t' \<or> res \<noteq> None"
proof -
  have lost: "rk_room_path (relay_lost now t) = []" for now
    by (simp add: relay_lost_def Let_def reset_room_path_def emit_room_path_def quality_clear_def)
  show ?thesis
  proof (cases "recover_relay env (ro_attempts r) e (relay_lost (ro_now r) t)")
    case (Some x)
    then obtain t1 out where 1: "recover_relay env (ro_attempts r) e (relay_lost (ro_now r) t) = Some (t1, out)" by (cases x) auto
    have "quality_ok (rk_room_path t1)"
      using recover_relay_same [OF 1] by (simp add: same_room_def lost quality_ok_Nil)
    then show ?thesis using assms 1
      by (cases out) (auto simp: recover_and_sync_def intro!: path_inv_sync)
  qed (use assms in \<open>simp add: recover_and_sync_def\<close>)
qed

lemma path_inv_outbound: "path_inv t \<Longrightarrow> round_outbound env r p t = Some (t', None) \<Longrightarrow> path_inv t'"
  by (auto simp: round_outbound_def split_beta Let_def split: prod.splits res.splits dest: path_inv_recover)

lemma path_inv_probe: "path_inv t \<Longrightarrow> path_inv (on_probe r p t)"
  using record_echo_ok [of "rk_room_path t" "pf_from_steam_id64 p" "pf_probe_id p" "ro_now r"]
    path_dom(2) [of "rk_room_path t" "pf_from_steam_id64 p" "pf_probe_id p" "ro_now r"]
  by (auto simp: on_probe_def path_inv_ok split: ProbePhase.split prod.split bool.split intro: path_inv_path)

lemma path_inv_received: "path_inv t \<Longrightarrow> round_received env r raw t = Some (t', None) \<Longrightarrow> path_inv t'"
  by (auto simp: round_received_def on_game_def on_pong_def on_presence_def split_beta Let_def path_inv_ok
      split: res.splits option.splits InboundRelayDatagram.splits AttachmentSend.splits prod.splits if_splits
      dest: path_inv_recover intro!: path_inv_probe path_inv_sync)

lemma path_inv_heartbeat: "path_inv t \<Longrightarrow> round_heartbeat env r t = Some (t', None) \<Longrightarrow> path_inv t'"
  by (auto simp: round_heartbeat_def Let_def split: res.splits prod.splits if_splits dest: path_inv_recover)

lemma path_inv_health_tick: "path_inv t \<Longrightarrow> round_health_tick env r t = Some (t', None) \<Longrightarrow> path_inv t'"
  by (auto simp: round_health_tick_def Let_def split: option.splits res.splits prod.splits
      dest!: recover_relay_path_inv)

lemma path_inv_sent:
  "path_inv t \<Longrightarrow> path_inv (t\<lparr>rk_sender := tx, rk_room_path := record_sent (rk_room_path t) s i now\<rparr>)"
  by (auto simp: path_inv_def record_sent_ok path_dom)

lemma path_inv_targets: "path_inv t \<Longrightarrow> path_inv (probe_targets r i targets t)"
proof (induction r i targets t rule: probe_targets.induct)
  case (2 r i target targets t)
  then show ?case
    by (simp add: Let_def path_inv_sent split: prod.split res.split)
qed simp

lemma path_inv_path_tick: "path_inv t \<Longrightarrow> round_path_tick r t = Some (t', None) \<Longrightarrow> path_inv t'"
proof -
  assume inv: "path_inv t" and r: "round_path_tick r t = Some (t', None)"
  have "path_inv (t\<lparr>rk_room_path := quality_expire (rk_room_path t) (ro_now r)\<rparr>)"
    by (rule path_inv_path [OF inv quality_expire_ok [OF path_inv_ok [OF inv]] path_dom(3)])
  then show "path_inv t'" using r inv by (auto simp: round_path_tick_def Let_def path_inv_targets split: if_splits)
qed

lemma path_inv_round: "path_inv t \<Longrightarrow> relay_round env r input t = Some (t', None) \<Longrightarrow> path_inv t'"
  by (cases input)
     (auto simp: relay_round_def Let_def dest: path_inv_outbound path_inv_received path_inv_heartbeat
        path_inv_health_tick path_inv_path_tick)

lemma path_inv_rounds: "path_inv t \<Longrightarrow> relay_rounds env rounds t = Some (t', None) \<Longrightarrow> path_inv t'"
  by (induction env rounds t rule: relay_rounds.induct)
     (auto split: option.splits prod.splits dest: path_inv_round)

lemma path_inv_start: "path_inv (relay_task_start tx en route name target peers health q)"
  by (auto simp: path_inv_def relay_task_start_def sync_peers_ok quality_ok_Nil dest: sync_peers_get [OF quality_ok_Nil])

text \<open>
  C38: The probes of a room go to its capable members only.  Whatever happens to the relay task, recoveries included,
  every peer it would probe next is connected in the member list it holds and has the capability for it.
\<close>

theorem probes_only_capable_members:
  assumes "relay_rounds env rounds (relay_task_start tx enabled route name target peers health events) = Some (t, None)"
    and "k \<in> set (quality_targets (rk_room_path t))"
  shows "probe_supported (rk_room_peers t) k"
proof -
  have "path_inv t" by (rule path_inv_rounds [OF path_inv_start assms(1)])
  moreover have "k \<in> dom (hm_get (rk_room_path t))" using assms(2) unfolding quality_targets_def hm_keys_get .
  ultimately show ?thesis by (simp add: path_inv_def)
qed

definition capable_peer :: PeerPresenceInfo where
  "capable_peer = \<lparr>ppi_steam_id64 = 77, ppi_display_name = None, ppi_presence = WConnected, ppi_capabilities = 8\<rparr>"

definition sample_env :: "unit SessionEnv" where
  "sample_env = \<lparr>se_client = \<lparr>ce_sha256 = demo_sha, ce_to_base58 = (\<lambda>_. []), ce_from_hex = (\<lambda>_. None),
      ce_client_json = (\<lambda>_. Ok [2]), ce_server_json = (\<lambda>_. Ok (SC_ResumeReady 100 [capable_peer] True))\<rparr>,
     se_error_text = (\<lambda>_. [])\<rparr>"

definition sample_task :: "PeerPresenceInfo list \<Rightarrow> unit RelayTask" where
  "sample_task peers =
     relay_task_start ((sender_new TcTcp 76)\<lparr>tx_connection_id := Some 100, tx_resume_credential := Some (SecretString []),
         tx_tcp_open := False\<rparr>) 8 join_route [] (RtRoom slot_new) peers (Some (session_health_new True 5 0)) []"

lemma sample_target: "77 \<in> set (quality_targets (rk_room_path (sample_task [capable_peer])))"
proof -
  have "set (quality_targets (sync_peers [] [capable_peer] 76)) = {77}"
    unfolding sync_peers_targets [OF quality_ok_Nil]
    by (auto simp: capable_peer_def probe_target_def CAP_ROOM_PATH_PROBE_def)
  then show ?thesis
    by (simp add: sample_task_def relay_task_start_def supports_room_path_probe_def CAP_ROOM_PATH_PROBE_def sender_new_def)
qed

theorem probes_only_capable_members_witness:
  "relay_rounds sample_env [] (sample_task [capable_peer]) = Some (sample_task [capable_peer], None)
     \<and> probe_supported (rk_room_peers (sample_task [capable_peer])) 77"
proof
  show *: "relay_rounds sample_env [] (sample_task [capable_peer]) = Some (sample_task [capable_peer], None)" by simp
  show "probe_supported (rk_room_peers (sample_task [capable_peer])) 77"
    by (rule probes_only_capable_members [OF * [unfolded sample_task_def] sample_target [unfolded sample_task_def],
        folded sample_task_def])
qed

text \<open>A connection that is refused at once, one that is through but gets no answer, and then silence.\<close>

definition refused_attempt :: RecoveryAttempt where
  "refused_attempt =
     \<lparr>ra_finish = Some (10 ^ 6, Err KNotConnected, []), ra_udp_ok = True, ra_cancel = None, ra_cancel_first = False,
      ra_lag = 1, ra_backoff = RECOVERY_MIN_DELAY, ra_wait_cancel = None, ra_wait_lag = 1, ra_waiting = 3\<rparr>"

definition sample_attempts :: "RecoveryAttempt list" where
  "sample_attempts = refused_attempt # refused_attempt\<lparr>ra_finish := Some (10 ^ 6, Ok (sender_new TcTcp 76, 8), [])\<rparr>
     # replicate 479 (refused_attempt\<lparr>ra_finish := None\<rparr>)"

theorem recovery_ends_witness:
  "case recover_relay sample_env sample_attempts KTimedOut (sample_task []) of
     None \<Rightarrow> False
   | Some (t', Ok peers) \<Rightarrow>
       \<exists>a \<in> set sample_attempts. \<exists>k (t1 :: unit RelayTask). attempt_yields sample_env a (Ok k) t1 \<and> peers = fst (recovered_peers k)
   | Some (t', Err k) \<Rightarrow> k = KTimedOut \<or> k = KInterrupted \<and> (\<exists>a \<in> set sample_attempts. attempt_cancelled a)
   | Some (t', Panic) \<Rightarrow> \<exists>a \<in> set sample_attempts. attempt_yields sample_env a Panic t'"
  by (rule recovery_ends) (simp_all add: sample_attempts_def refused_attempt_def)

definition resume_frame :: "byte list" where
  "resume_frame = the_ok (encode_frame (ServerControlFrame [1]))"

definition sample_round :: RoundEnv where
  "sample_round = \<lparr>ro_now = 1, ro_elapsed = 0, ro_udp_ok = (\<lambda>_. True), ro_attempts =
     [refused_attempt\<lparr>ra_finish := Some (1, Ok (sender_new TcTcp 76, 8), [Ok resume_frame])\<rparr>]\<rparr>"

lemma sample_ping: "\<exists>health'. next_health_ping (session_health_new True 5 0) (ro_now sample_round) = (health', Some 1)"
  by (simp add: next_health_ping_def expire_runtime_rtt_def rtt_expire_def rtt_next_ping_def session_health_new_def
      runtime_rtt_default_def Let_def saturating_add_def)

section \<open>Two kinds of pings\<close>

text \<open>
  C39: The answers to the two kinds of pings are never mixed up.  The answer to a ping of the session's health (while
  fewer than \<open>2 ^ 63 - 1\<close> were sent) does not touch the round-trip time of the relay, and the answer to a ping of
  the relay's round-trip time does not touch the session's health.
\<close>

theorem pongs_never_mixed:
  assumes "next_health_ping h now = (h', Some ping)" and "unat (rt_next_id (sh_runtime_rtt h)) < 2 ^ 63 - 1"
  shows "rk_relay_rtt (on_pong r ping t) = rk_relay_rtt t
    \<and> rk_health (on_pong r (snd (relay_next_ping tracker later)) t) = rk_health t"
proof
  show "rk_relay_rtt (on_pong r ping t) = rk_relay_rtt t"
    using health_ping_namespace [OF assms] by (simp add: on_pong_def observe_task_def)
  show "rk_health (on_pong r (snd (relay_next_ping tracker later)) t) = rk_health t"
    using relay_ping_namespace [of tracker later] by (simp add: on_pong_def split_beta Let_def)
qed

theorem pongs_never_mixed_witness:
  "rk_relay_rtt (on_pong sample_round 1 (sample_task [])) = rk_relay_rtt (sample_task [])
     \<and> rk_health (on_pong sample_round (snd (relay_next_ping relay_rtt_default 0)) (sample_task [])) = rk_health (sample_task [])"
proof -
  obtain health' where p: "next_health_ping (session_health_new True 5 0) (ro_now sample_round) = (health', Some 1)"
    using sample_ping by blast
  have "unat (rt_next_id (sh_runtime_rtt (session_health_new True 5 0))) < 2 ^ 63 - 1"
    by (simp add: session_health_new_def runtime_rtt_default_def)
  with p show ?thesis by (rule pongs_never_mixed)
qed

section \<open>A recovery that forgets the members\<close>

text \<open>
  C40: When the ping of the session's health is what finds the connection lost, the recovery succeeds but the task
  keeps the member list, the path measurements and the round-trip samples from before it: it goes on as if the room
  had not changed, and does not answer the probe of a player who joined meanwhile.  (Every other branch that
  recovers clears them and takes over the members the recovery returns.)
\<close>

theorem health_recovery_keeps_old_peers:
  assumes "rk_health t = Some health" and "next_health_ping health (ro_now r) = (health', Some ping)"
    and "client_send_control (se_client env) (rk_sender t) (CC_ControlPing ping) = (tx, Err e)"
    and "recover_relay env (ro_attempts r) e (t\<lparr>rk_health := Some health', rk_sender := tx\<rparr>) = Some (t', Ok peers)"
    and "\<not> probe_supported (rk_room_peers t) newcomer"
  shows "relay_round env r RiHealthTick t = Some (t', None)
    \<and> rk_room_peers t' = rk_room_peers t \<and> rk_room_path t' = rk_room_path t \<and> rk_relay_rtt t' = rk_relay_rtt t
    \<and> on_probe r' \<lparr>pf_connection_id = c, pf_probe_id = i, pf_from_steam_id64 = newcomer,
         pf_to_steam_id64 = tx_from_steam_id64 (rk_sender t'), pf_phase = ProbeRequest\<rparr> t' = t'"
  using assms recover_relay_same [OF assms(4)]
  by (simp add: relay_round_def round_health_tick_def Let_def same_room_def on_probe_def)

lemma resume_frame_decodes: "decode_frame resume_frame = Ok (ServerControlFrame [1])"
proof -
  have "frame_wf (ServerControlFrame [1])" by (simp add: MAX_CONTROL_PAYLOAD_def)
  then obtain frame where "encode_frame (ServerControlFrame [1]) = Ok frame"
    "decode_frame frame = Ok (ServerControlFrame [1])" using encode_frame_wf by blast
  then show ?thesis by (simp add: resume_frame_def del: encode_frame.simps)
qed

lemma sample_resumes:
  fixes t :: "unit RelayTask"
  assumes "rk_session t = Some (join_route, [])" and "tx_connection_id (rk_sender t) = Some 100"
    and "tx_resume_credential (rk_sender t) = Some (SecretString [])"
  shows "\<exists>t'. recover_relay sample_env (ro_attempts sample_round) e t = Some (t', Ok [capable_peer])"
proof -
  have "fits (ce_client_json (se_client sample_env)) (\<lambda>_. Ok (CC_Resume 100 (SecretString []))) (CC_Resume 100 (SecretString []))"
    by (simp add: fits_def sample_env_def MAX_CONTROL_PAYLOAD_def)
  then obtain frame where "client_send_control (se_client sample_env) (sender_new TcTcp 76) (CC_Resume 100 (SecretString []))
      = ((sender_new TcTcp 76)\<lparr>tx_tcp := [frame]\<rparr>, Ok ())"
    using client_sends [of "se_client sample_env" "join_server\<lparr>env_client_json := \<lambda>_. Ok (CC_Resume 100 (SecretString []))\<rparr>"
        "CC_Resume 100 (SecretString [])" "sender_new TcTcp 76"] by (auto simp: sender_new_def)
  then show ?thesis using assms
    by (simp add: recover_relay_def sample_round_def refused_attempt_def attempt_branches_def with_cancel_def optional_branch_def
        RECOVERY_ATTEMPT_TIMEOUT_def task_reconnect_def reconnect_def send_then_def await_then_def
        resume_frame_decodes decode_server_control_def decode_control_json_def sample_env_def sender_new_def Let_def
        recovery_started_def ensure_def MAX_CONTROL_PAYLOAD_def)
qed

theorem health_recovery_keeps_old_peers_witness:
  "\<exists>t'. relay_round sample_env sample_round RiHealthTick (sample_task []) = Some (t', None) \<and> rk_room_peers t' = []"
proof -
  let ?t = "sample_task []" and ?h = "session_health_new True 5 0"
  obtain health' where p: "next_health_ping ?h (ro_now sample_round) = (health', Some 1)"
    using sample_ping by blast
  have h: "rk_health ?t = Some ?h" by (simp add: sample_task_def relay_task_start_def)
  have s: "client_send_control (se_client sample_env) (rk_sender ?t) (CC_ControlPing 1) = (rk_sender ?t, Err other)"
  proof -
    have "frame_wf (ClientControlFrame [2])" by (simp add: MAX_CONTROL_PAYLOAD_def)
    then obtain frame where "encode_frame (ClientControlFrame [2]) = Ok frame" using encode_frame_wf by blast
    then show ?thesis
      by (simp add: client_send_control_def encode_client_control_def encode_control_json_def sample_env_def ensure_def
          sample_task_def relay_task_start_def MAX_CONTROL_PAYLOAD_def del: encode_frame.simps)
  qed
  obtain t' where r: "recover_relay sample_env (ro_attempts sample_round) other
      (?t\<lparr>rk_health := Some health', rk_sender := rk_sender ?t\<rparr>) = Some (t', Ok [capable_peer])"
    using sample_resumes [of "?t\<lparr>rk_health := Some health', rk_sender := rk_sender ?t\<rparr>" other]
    by (auto simp: sample_task_def relay_task_start_def)
  have "\<not> probe_supported (rk_room_peers ?t) 77" by (simp add: sample_task_def relay_task_start_def probe_supported_def)
  from health_recovery_keeps_old_peers [OF h p s r this] show ?thesis
    by (auto simp: sample_task_def relay_task_start_def)
qed

section \<open>Attachments\<close>

text \<open>
  The contract of an attachment slot: one holder at a time, the holder is named by its generation, and only
  the detachment of that generation ends it.
\<close>

locale attachment_slot =
  fixes attach :: "'s \<Rightarrow> 'c \<Rightarrow> 's \<times> (io_kind, u64) res"
    and detach :: "'s \<Rightarrow> u64 \<Rightarrow> 's"
    and send :: "'s \<Rightarrow> 'x \<Rightarrow> 's \<times> AttachmentSend"
    and holder :: "'s \<Rightarrow> u64 option"
  assumes attach_ok: "attach s c = (s', Ok g) \<Longrightarrow> holder s = None \<and> holder s' = Some g"
    and attach_taken: "holder s \<noteq> None \<Longrightarrow> attach s c = (s, Err KAlreadyExists)"
    and detach_holder: "holder (detach s g) = (if holder s = Some g then None else holder s)"
    and send_holder: "holder (fst (send s x)) = holder s"
    and send_detached: "snd (send s x) = AsDetached \<longleftrightarrow> holder s = None"
begin

fun step :: "'c + u64 + 'x \<Rightarrow> 's \<Rightarrow> 's" where
  "step (Inl c) s = fst (attach s c)"
| "step (Inr (Inl g)) s = detach s g"
| "step (Inr (Inr x)) s = fst (send s x)"

lemma holder_kept:
  "holder s = Some g \<Longrightarrow> Inr (Inl g) \<notin> set ops \<Longrightarrow> holder (fold step ops s) = Some g"
proof (induction ops arbitrary: s)
  case (Cons op ops)
  have "holder (step op s) = Some g"
  proof (cases op)
    case (Inl c)
    then show ?thesis using Cons.prems(1) attach_taken [of s c] by simp
  next
    case (Inr a)
    then show ?thesis using Cons.prems by (cases a) (auto simp: detach_holder send_holder)
  qed
  then show ?case using Cons by simp
qed simp

text \<open>Until its own detachment the holder gets the packets: none is counted as sent to nobody.\<close>

lemma not_detached_while_held:
  "attach s c = (s', Ok g) \<Longrightarrow> Inr (Inl g) \<notin> set ops \<Longrightarrow> snd (send (fold step ops s') x) \<noteq> AsDetached"
  using holder_kept [of s' g ops] attach_ok [of s c s' g] by (simp add: send_detached)

end

definition slot_holder :: "'a AttachmentSlot \<Rightarrow> u64 option" where
  "slot_holder s = map_option fst (sl_sender s)"

lemma slot_contract:
  "attachment_slot slot_attach slot_detach slot_try_send (slot_holder :: 'a AttachmentSlot \<Rightarrow> u64 option)"
  by unfold_locales
     (auto simp: slot_attach_def slot_detach_def slot_try_send_def channel_try_send_def slot_holder_def Let_def
       split: if_splits option.splits prod.splits, metis option.exhaust surj_pair)

interpretation relay_slot: attachment_slot slot_attach slot_detach slot_try_send
  "slot_holder :: InboundGamePacket AttachmentSlot \<Rightarrow> u64 option"
  by (rule slot_contract)

interpretation hook_slot: attachment_slot "\<lambda>s (_ :: unit). hook_slot_attach s" hook_slot_detach hook_slot_try_send
  "slot_holder :: GamePacket AttachmentSlot \<Rightarrow> u64 option"
  by unfold_locales
     (auto simp: hook_slot_attach_def hook_slot_detach_def hook_slot_try_send_def slot_attach_def slot_detach_def
       slot_try_send_def channel_try_send_def slot_holder_def Let_def split: if_splits option.splits prod.splits,
      metis option.exhaust surj_pair)

text \<open>Two gameplay sessions never hold the slot under the same generation, until the counter has wrapped around.\<close>

lemma attach_generation:
  "slot_attach s c = (s', Ok g) \<Longrightarrow> g = sl_next_generation s \<and> sl_next_generation s' = g + 1"
  by (auto simp: slot_attach_def Let_def split: if_splits)

end
