(* ===== verification/Join_Code.thy ===== *)
theory Join_Code
  imports Rust_Str Direct_Types Relay_Domain
begin

text \<open>
  Join codes (\<open>bridge-core/src/client/join_code.rs\<close>, \<open>join_code/relay.rs\<close>, \<open>join_code/lan.rs\<close>): the
  text a player copies to invite others, for a relay room or for a LAN session.  Base58 and SHA-256
  are parameters.  Indexing and slicing outside a buffer panics, as in the code.
\<close>

section \<open>Data\<close>

definition JOIN_CODE_MAGIC :: "byte list" where "JOIN_CODE_MAGIC = [0x54, 0x42]"
definition JOIN_CODE_PREFIX :: char where "JOIN_CODE_PREFIX = CHR ''T''"
definition JOIN_CODE_SUFFIX :: char where "JOIN_CODE_SUFFIX = CHR ''T''"
definition CHECKSUM_LEN :: usize where "CHECKSUM_LEN = 4"

definition RELAY_JOIN_CODE_VERSION :: byte where "RELAY_JOIN_CODE_VERSION = 5"
definition RELAY_FIXED_PAYLOAD_LEN :: usize where "RELAY_FIXED_PAYLOAD_LEN = 24"
definition RELAY_ID_PRESENT :: byte where "RELAY_ID_PRESENT = 1"
definition MAX_RELAY_ID_LEN :: usize where "MAX_RELAY_ID_LEN = 64"
definition MAX_RELAY_HOST_LEN :: usize where "MAX_RELAY_HOST_LEN = 255"

definition LAN_JOIN_CODE_VERSION :: byte where "LAN_JOIN_CODE_VERSION = 6"
definition LAN_DIRECT_ROUTE :: byte where "LAN_DIRECT_ROUTE = 1"
definition LAN_FIXED_PAYLOAD_LEN :: usize where "LAN_FIXED_PAYLOAD_LEN = 48"
definition CANDIDATE_LEN :: usize where "CANDIDATE_LEN = 24"
definition MAX_LAN_PAYLOAD_LEN :: usize where "MAX_LAN_PAYLOAD_LEN = 256"
definition IPV4_FAMILY :: byte where "IPV4_FAMILY = 4"
definition IPV6_FAMILY :: byte where "IPV6_FAMILY = 6"

lemmas join_code_consts =
  JOIN_CODE_MAGIC_def CHECKSUM_LEN_def RELAY_JOIN_CODE_VERSION_def
  RELAY_FIXED_PAYLOAD_LEN_def RELAY_ID_PRESENT_def MAX_RELAY_ID_LEN_def MAX_RELAY_HOST_LEN_def
  LAN_JOIN_CODE_VERSION_def LAN_DIRECT_ROUTE_def LAN_FIXED_PAYLOAD_LEN_def CANDIDATE_LEN_def
  MAX_LAN_PAYLOAD_LEN_def IPV4_FAMILY_def IPV6_FAMILY_def

text \<open>A session credential is an array of 16 bytes.\<close>

type_synonym SessionCredential = "byte list"

record RelayJoinCode =
  rj_relay_id :: "string option"
  rj_relay_host :: string
  rj_relay_port :: u16
  rj_session_credential :: SessionCredential

record LanJoinCode =
  lj_introducer :: PeerIdentity
  lj_control_endpoints :: "SocketAddr list"
  lj_session_credential :: SessionCredential

datatype JoinCode = ExternalRelay RelayJoinCode | LanDirect LanJoinCode

datatype JoinCodeError =
    JcLegacyV4 | JcMissingPrefix | JcMissingSuffix | JcInvalidEncoding | JcTruncated | JcTrailingBytes
  | JcPayloadTooLarge usize | JcBadMagic | JcUnsupportedVersion byte | JcUnsupportedRoute byte
  | JcUnsupportedFlags byte | JcNonZeroReserved | JcRelayIdTooLong | JcMissingRelayHost
  | JcRelayHostTooLong | JcInvalidRelayPort | JcInvalidRelayIdUtf8 | JcInvalidRelayHostUtf8
  | JcMissingLanCandidates | JcTooManyLanCandidates usize | JcDuplicateLanCandidate SocketAddr
  | JcInvalidLanCandidate CandidateValidationError | JcZeroIntroducerSteamId
  | JcZeroIntroducerInstanceId | JcUnsupportedAddressFamily byte | JcUnsupportedIpv6FlowInfo
  | JcNonZeroCandidateReserved | JcChecksumMismatch

section \<open>Buffers\<close>

definition byte_at :: "byte list \<Rightarrow> nat \<Rightarrow> (JoinCodeError, byte) res" where
  "byte_at bs i = (if i < length bs then Ok (bs ! i) else Panic)"

definition byte_slice :: "byte list \<Rightarrow> nat \<Rightarrow> nat \<Rightarrow> (JoinCodeError, byte list) res" where
  "byte_slice bs a b = (if a \<le> b \<and> b \<le> length bs then Ok (take (b - a) (drop a bs)) else Panic)"

definition word_be :: "byte list \<Rightarrow> 'a::len word" where
  "word_be bs = of_nat (be_dec bs)"

lemma byte_at_Ok [simp]: "byte_at bs i = Ok b \<longleftrightarrow> i < length bs \<and> b = bs ! i"
  by (auto simp: byte_at_def)

lemma slice_Ok [simp]:
  "byte_slice bs a b = Ok v \<longleftrightarrow> a \<le> b \<and> b \<le> length bs \<and> v = take (b - a) (drop a bs)"
  by (auto simp: byte_slice_def)

lemma byte_at_cases [simp]: "byte_at bs i \<noteq> Err e" "byte_at bs i = Panic \<longleftrightarrow> length bs \<le> i"
  by (auto simp: byte_at_def)

lemma slice_cases [simp]: "byte_slice bs a b \<noteq> Err e" "byte_slice bs a b = Panic \<longleftrightarrow> \<not> (a \<le> b \<and> b \<le> length bs)"
  by (auto simp: byte_slice_def)

section \<open>Checksum\<close>

type_synonym hash = "byte list \<Rightarrow> byte list"

definition join_checksum :: "hash \<Rightarrow> byte list \<Rightarrow> byte list" where
  "join_checksum sha256 payload = take CHECKSUM_LEN (sha256 payload)"

definition append_checksum :: "hash \<Rightarrow> byte list \<Rightarrow> byte list" where
  "append_checksum sha256 payload = payload @ join_checksum sha256 payload"

definition validate_checksum :: "hash \<Rightarrow> byte list \<Rightarrow> nat \<Rightarrow> (JoinCodeError, unit) res" where
  "validate_checksum sha256 bytes content_len =
     rbind (byte_slice bytes 0 content_len) (\<lambda>content.
     rbind (byte_slice bytes content_len (length bytes)) (\<lambda>rest.
     ensure (join_checksum sha256 content = rest) JcChecksumMismatch))"

section \<open>Relay codes\<close>

definition validate_fields :: "string \<Rightarrow> string \<Rightarrow> u16 \<Rightarrow> (JoinCodeError, unit) res" where
  "validate_fields relay_id relay_host relay_port =
     rbind (ensure (length relay_id \<le> MAX_RELAY_ID_LEN) JcRelayIdTooLong) (\<lambda>_.
     rbind (ensure (relay_host \<noteq> []) JcMissingRelayHost) (\<lambda>_.
     rbind (ensure (length relay_host \<le> MAX_RELAY_HOST_LEN) JcRelayHostTooLong) (\<lambda>_.
     ensure (relay_port \<noteq> 0) JcInvalidRelayPort)))"

definition u8_try_from :: "nat \<Rightarrow> 'e \<Rightarrow> ('e, byte) res" where
  "u8_try_from n e = (if n < 256 then Ok (of_nat n) else Err e)"

definition relay_encode_payload :: "hash \<Rightarrow> RelayJoinCode \<Rightarrow> (JoinCodeError, byte list) res" where
  "relay_encode_payload sha256 code =
     (let relay_id = trim (case rj_relay_id code of None \<Rightarrow> [] | Some i \<Rightarrow> i);
          relay_host = trim (rj_relay_host code) in
      rbind (validate_fields relay_id relay_host (rj_relay_port code)) (\<lambda>_.
      rbind (u8_try_from (length relay_id) JcRelayIdTooLong) (\<lambda>relay_id_len.
      rbind (u8_try_from (length relay_host) JcRelayHostTooLong) (\<lambda>relay_host_len.
      let flags = (if relay_id = [] then 0 else RELAY_ID_PRESENT) in
      Ok (append_checksum sha256
            (JOIN_CODE_MAGIC @ [RELAY_JOIN_CODE_VERSION, flags, relay_id_len, relay_host_len]
             @ put_u16 (rj_relay_port code) @ rj_session_credential code
             @ str_bytes relay_id @ str_bytes relay_host))))))"

definition relay_decode_payload :: "hash \<Rightarrow> byte list \<Rightarrow> (JoinCodeError, RelayJoinCode) res" where
  "relay_decode_payload sha256 bytes =
     rbind (ensure (RELAY_FIXED_PAYLOAD_LEN + CHECKSUM_LEN \<le> length bytes) JcTruncated) (\<lambda>_.
     rbind (byte_at bytes 3) (\<lambda>flags.
     rbind (ensure (flags AND NOT RELAY_ID_PRESENT = 0) (JcUnsupportedFlags flags)) (\<lambda>_.
     rbind (byte_at bytes 4) (\<lambda>id_len.
     rbind (byte_at bytes 5) (\<lambda>host_len.
     let relay_id_len = unat id_len; relay_host_len = unat host_len in
     rbind (ensure (relay_id_len \<le> MAX_RELAY_ID_LEN) JcRelayIdTooLong) (\<lambda>_.
     rbind (ensure (relay_host_len \<le> MAX_RELAY_HOST_LEN) JcRelayHostTooLong) (\<lambda>_.
     rbind (ensure ((flags AND RELAY_ID_PRESENT = 0) = (relay_id_len = 0)) (JcUnsupportedFlags flags)) (\<lambda>_.
     let expected_len = RELAY_FIXED_PAYLOAD_LEN + relay_id_len + relay_host_len + CHECKSUM_LEN in
     rbind (ensure (expected_len \<le> length bytes) JcTruncated) (\<lambda>_.
     rbind (ensure (length bytes = expected_len) JcTrailingBytes) (\<lambda>_.
     let content_len = expected_len - CHECKSUM_LEN in
     rbind (validate_checksum sha256 bytes content_len) (\<lambda>_.
     rbind (byte_slice bytes 6 8) (\<lambda>port.
     rbind (byte_slice bytes 8 RELAY_FIXED_PAYLOAD_LEN) (\<lambda>credential.
     let relay_id_end = RELAY_FIXED_PAYLOAD_LEN + relay_id_len in
     rbind (byte_slice bytes RELAY_FIXED_PAYLOAD_LEN relay_id_end) (\<lambda>id_bytes.
     rbind (ok_or (from_utf8 id_bytes) JcInvalidRelayIdUtf8) (\<lambda>relay_id.
     rbind (byte_slice bytes relay_id_end content_len) (\<lambda>host_bytes.
     rbind (ok_or (from_utf8 host_bytes) JcInvalidRelayHostUtf8) (\<lambda>relay_host.
     rbind (validate_fields relay_id relay_host (word_be port)) (\<lambda>_.
     Ok \<lparr>rj_relay_id = (if relay_id = [] then None else Some relay_id), rj_relay_host = relay_host,
         rj_relay_port = word_be port, rj_session_credential = credential\<rparr>))))))))))))))))))"

section \<open>LAN codes\<close>

definition validate_introducer :: "PeerIdentity \<Rightarrow> (JoinCodeError, unit) res" where
  "validate_introducer i =
     rbind (ensure (id_steam_id64 i \<noteq> 0) JcZeroIntroducerSteamId) (\<lambda>_.
     ensure (\<not> all_zero (id_instance_id i)) JcZeroIntroducerInstanceId)"

definition flow_free :: "SocketAddr \<Rightarrow> bool" where
  "flow_free e = (case e of SockV4 _ _ \<Rightarrow> True | SockV6 _ _ flow _ \<Rightarrow> flow = 0)"

fun endpoints_loop :: "SocketAddr list \<Rightarrow> SocketAddr list \<Rightarrow> (JoinCodeError, unit) res" where
  "endpoints_loop before [] = Ok ()"
| "endpoints_loop before (endpoint # rest) =
     rbind (map_err JcInvalidLanCandidate (candidate_new endpoint 1 0)) (\<lambda>_.
     rbind (ensure (endpoint \<notin> set before) (JcDuplicateLanCandidate endpoint)) (\<lambda>_.
     rbind (ensure (flow_free endpoint) JcUnsupportedIpv6FlowInfo) (\<lambda>_.
     endpoints_loop (before @ [endpoint]) rest)))"

definition validate_endpoints :: "SocketAddr list \<Rightarrow> (JoinCodeError, unit) res" where
  "validate_endpoints endpoints =
     rbind (ensure (endpoints \<noteq> []) JcMissingLanCandidates) (\<lambda>_.
     rbind (ensure (length endpoints \<le> MAX_CANDIDATES) (JcTooManyLanCandidates (length endpoints))) (\<lambda>_.
     endpoints_loop [] endpoints))"

fun encode_endpoint :: "SocketAddr \<Rightarrow> (JoinCodeError, byte list) res" where
  "encode_endpoint (SockV4 ip port) =
     Ok ([IPV4_FAMILY, 0] @ put_u16 port @ put_u32 0 @ put_u32 ip @ replicate 12 0)"
| "encode_endpoint (SockV6 ip port flow scope) =
     (if flow \<noteq> 0 then Err JcUnsupportedIpv6FlowInfo
      else Ok ([IPV6_FAMILY, 0] @ put_u16 port @ put_u32 scope @ be_enc 16 (unat ip)))"

fun encode_endpoints :: "SocketAddr list \<Rightarrow> (JoinCodeError, byte list) res" where
  "encode_endpoints [] = Ok []"
| "encode_endpoints (e # es) =
     rbind (encode_endpoint e) (\<lambda>b. rbind (encode_endpoints es) (\<lambda>rest. Ok (b @ rest)))"

definition decode_endpoint :: "byte list \<Rightarrow> (JoinCodeError, SocketAddr) res" where
  "decode_endpoint bytes =
     rbind (byte_at bytes 1) (\<lambda>reserved.
     rbind (ensure (reserved = 0) JcNonZeroCandidateReserved) (\<lambda>_.
     rbind (byte_slice bytes 2 4) (\<lambda>port.
     rbind (byte_slice bytes 4 8) (\<lambda>scope.
     rbind (byte_at bytes 0) (\<lambda>family.
     if family = IPV4_FAMILY then
       rbind (byte_slice bytes 12 CANDIDATE_LEN) (\<lambda>padding.
       rbind (ensure (word_be scope = (0 :: u32) \<and> all_zero padding) JcNonZeroCandidateReserved) (\<lambda>_.
       rbind (byte_slice bytes 8 12) (\<lambda>ip. Ok (SockV4 (word_be ip) (word_be port)))))
     else if family = IPV6_FAMILY then
       rbind (byte_slice bytes 8 CANDIDATE_LEN) (\<lambda>ip. Ok (SockV6 (word_be ip) (word_be port) 0 (word_be scope)))
     else Err (JcUnsupportedAddressFamily family))))))"

text \<open>\<open>chunks_exact\<close>\<close>

fun chunks_exact :: "nat \<Rightarrow> nat \<Rightarrow> byte list \<Rightarrow> byte list list" where
  "chunks_exact n 0 bs = []"
| "chunks_exact n (Suc k) bs =
     (if n \<le> length bs then take n bs # chunks_exact n k (drop n bs) else [])"

fun decode_endpoints :: "byte list list \<Rightarrow> (JoinCodeError, SocketAddr list) res" where
  "decode_endpoints [] = Ok []"
| "decode_endpoints (c # cs) =
     rbind (decode_endpoint c) (\<lambda>e. rbind (decode_endpoints cs) (\<lambda>es. Ok (e # es)))"

definition lan_encode_payload :: "hash \<Rightarrow> LanJoinCode \<Rightarrow> (JoinCodeError, byte list) res" where
  "lan_encode_payload sha256 code =
     rbind (validate_introducer (lj_introducer code)) (\<lambda>_.
     rbind (validate_endpoints (lj_control_endpoints code)) (\<lambda>_.
     let endpoints = lj_control_endpoints code in
     rbind (u8_try_from (length endpoints) (JcTooManyLanCandidates (length endpoints))) (\<lambda>candidate_count.
     let expected_len = LAN_FIXED_PAYLOAD_LEN + CANDIDATE_LEN * length endpoints + CHECKSUM_LEN in
     rbind (ensure (expected_len \<le> MAX_LAN_PAYLOAD_LEN) (JcPayloadTooLarge expected_len)) (\<lambda>_.
     rbind (encode_endpoints endpoints) (\<lambda>candidates.
     Ok (append_checksum sha256
           (JOIN_CODE_MAGIC @ [LAN_JOIN_CODE_VERSION, LAN_DIRECT_ROUTE, 0, candidate_count, 0, 0]
            @ lj_session_credential code @ put_u64 (id_steam_id64 (lj_introducer code))
            @ id_instance_id (lj_introducer code) @ candidates)))))))"

definition lan_decode_payload :: "hash \<Rightarrow> byte list \<Rightarrow> (JoinCodeError, LanJoinCode) res" where
  "lan_decode_payload sha256 bytes =
     rbind (ensure (length bytes \<le> MAX_LAN_PAYLOAD_LEN) (JcPayloadTooLarge (length bytes))) (\<lambda>_.
     rbind (ensure (LAN_FIXED_PAYLOAD_LEN + CANDIDATE_LEN + CHECKSUM_LEN \<le> length bytes) JcTruncated) (\<lambda>_.
     rbind (byte_at bytes 3) (\<lambda>route.
     rbind (ensure (route = LAN_DIRECT_ROUTE) (JcUnsupportedRoute route)) (\<lambda>_.
     rbind (byte_at bytes 4) (\<lambda>flags.
     rbind (ensure (flags = 0) (JcUnsupportedFlags flags)) (\<lambda>_.
     rbind (byte_slice bytes 6 8) (\<lambda>reserved.
     rbind (ensure (all_zero reserved) JcNonZeroReserved) (\<lambda>_.
     rbind (byte_at bytes 5) (\<lambda>c.
     let candidate_count = unat c in
     rbind (ensure (candidate_count \<noteq> 0) JcMissingLanCandidates) (\<lambda>_.
     rbind (ensure (candidate_count \<le> MAX_CANDIDATES) (JcTooManyLanCandidates candidate_count)) (\<lambda>_.
     let expected_len = LAN_FIXED_PAYLOAD_LEN + CANDIDATE_LEN * candidate_count + CHECKSUM_LEN in
     rbind (ensure (expected_len \<le> length bytes) JcTruncated) (\<lambda>_.
     rbind (ensure (length bytes = expected_len) JcTrailingBytes) (\<lambda>_.
     let content_len = expected_len - CHECKSUM_LEN in
     rbind (validate_checksum sha256 bytes content_len) (\<lambda>_.
     rbind (byte_slice bytes 8 24) (\<lambda>credential.
     rbind (byte_slice bytes 24 32) (\<lambda>steam_id64.
     rbind (byte_slice bytes 32 LAN_FIXED_PAYLOAD_LEN) (\<lambda>instance_id.
     let introducer = \<lparr>id_steam_id64 = word_be steam_id64, id_instance_id = instance_id\<rparr> in
     rbind (validate_introducer introducer) (\<lambda>_.
     rbind (byte_slice bytes LAN_FIXED_PAYLOAD_LEN content_len) (\<lambda>candidates.
     rbind (decode_endpoints (chunks_exact CANDIDATE_LEN (length candidates) candidates)) (\<lambda>control_endpoints.
     rbind (validate_endpoints control_endpoints) (\<lambda>_.
     Ok \<lparr>lj_introducer = introducer, lj_control_endpoints = control_endpoints,
         lj_session_credential = credential\<rparr>)))))))))))))))))))))"

section \<open>Codes\<close>

definition decode_payload :: "hash \<Rightarrow> byte list \<Rightarrow> (JoinCodeError, JoinCode) res" where
  "decode_payload sha256 bytes =
     rbind (ensure (length JOIN_CODE_MAGIC + 1 \<le> length bytes) JcTruncated) (\<lambda>_.
     rbind (byte_slice bytes 0 (length JOIN_CODE_MAGIC)) (\<lambda>magic.
     rbind (ensure (magic = JOIN_CODE_MAGIC) JcBadMagic) (\<lambda>_.
     rbind (byte_at bytes 2) (\<lambda>version.
     if version = RELAY_JOIN_CODE_VERSION then
       rbind (relay_decode_payload sha256 bytes) (\<lambda>code. Ok (ExternalRelay code))
     else if version = LAN_JOIN_CODE_VERSION then
       rbind (lan_decode_payload sha256 bytes) (\<lambda>code. Ok (LanDirect code))
     else Err (JcUnsupportedVersion version)))))"

fun join_encode :: "base58_encoder \<Rightarrow> hash \<Rightarrow> JoinCode \<Rightarrow> (JoinCodeError, string) res" where
  "join_encode to_base58 sha256 (ExternalRelay code) =
     rbind (relay_encode_payload sha256 code) (\<lambda>payload.
     Ok (JOIN_CODE_PREFIX # to_base58 payload @ [JOIN_CODE_SUFFIX]))"
| "join_encode to_base58 sha256 (LanDirect code) =
     rbind (lan_encode_payload sha256 code) (\<lambda>payload.
     Ok (JOIN_CODE_PREFIX # to_base58 payload @ [JOIN_CODE_SUFFIX]))"

definition join_decode :: "base58_decoder \<Rightarrow> hash \<Rightarrow> string \<Rightarrow> (JoinCodeError, JoinCode) res" where
  "join_decode from_base58 sha256 value =
     (let trimmed = trim value in
      if trimmed \<noteq> [] \<and> hd trimmed = CHR ''B'' \<and> last trimmed = CHR ''B'' then Err JcLegacyV4
      else if trimmed = [] \<or> hd trimmed \<noteq> JOIN_CODE_PREFIX then Err JcMissingPrefix
      else
        let inner = tl trimmed in
        if inner = [] \<or> last inner \<noteq> JOIN_CODE_SUFFIX then Err JcMissingSuffix
        else rbind (ok_or (from_base58 (butlast inner)) JcInvalidEncoding) (decode_payload sha256))"

section \<open>Reading back what was written\<close>

lemma slice_append:
  "length x = a \<Longrightarrow> length y = b - a \<Longrightarrow> a \<le> b \<Longrightarrow> byte_slice (x @ y @ z) a b = Ok y"
  by (simp add: byte_slice_def)

lemma slice_rest: "length x = a \<Longrightarrow> b = a + length y \<Longrightarrow> byte_slice (x @ y) a b = Ok y"
  by (simp add: byte_slice_def)

lemma word_be_put [simp]:
  "word_be (put_u16 p) = p" "word_be (put_u32 q) = q" "word_be (put_u64 r) = r"
  "word_be (be_enc 16 (unat (ip :: u128))) = ip"
  by (simp_all add: word_be_def put_u16_def put_u32_def put_u64_def of_nat_be_dec_enc)

lemma validate_checksum_appended:
  assumes "\<And>x. length (sha256 x) = 32" and "n = length content"
  shows "validate_checksum sha256 (append_checksum sha256 content) n = Ok ()"
proof -
  have "byte_slice (append_checksum sha256 content) 0 n = Ok content"
    using assms(2) slice_append [of "[]" 0 content n "join_checksum sha256 content"]
    by (simp add: append_checksum_def)
  moreover have "byte_slice (append_checksum sha256 content) n (length (append_checksum sha256 content))
      = Ok (join_checksum sha256 content)"
    using assms(2) by (simp add: append_checksum_def slice_rest)
  ultimately show ?thesis by (simp add: validate_checksum_def)
qed

lemma length_join_checksum [simp]:
  "(\<And>x. length (sha256 x) = 32) \<Longrightarrow> length (join_checksum sha256 content) = 4"
  by (simp add: join_checksum_def CHECKSUM_LEN_def)

lemma validate_fields_Ok [simp]:
  "validate_fields relay_id host port = Ok u \<longleftrightarrow>
     length relay_id \<le> 64 \<and> host \<noteq> [] \<and> length host \<le> 255 \<and> port \<noteq> 0"
  by (auto simp: validate_fields_def MAX_RELAY_ID_LEN_def MAX_RELAY_HOST_LEN_def)

text \<open>The layout of a relay payload without its checksum.\<close>

definition relay_content :: "string \<Rightarrow> string \<Rightarrow> u16 \<Rightarrow> SessionCredential \<Rightarrow> byte list" where
  "relay_content relay_id host port credential =
     [0x54, 0x42, 5, if relay_id = [] then 0 else 1, of_nat (length relay_id), of_nat (length host)]
     @ put_u16 port @ credential @ str_bytes relay_id @ str_bytes host"

lemma relay_encode_payload_Ok:
  "relay_encode_payload sha256 code = Ok payload \<longleftrightarrow>
     (let relay_id = trim (case rj_relay_id code of None \<Rightarrow> [] | Some i \<Rightarrow> i);
          host = trim (rj_relay_host code) in
      length relay_id \<le> 64 \<and> host \<noteq> [] \<and> length host \<le> 255 \<and> rj_relay_port code \<noteq> 0
      \<and> payload = append_checksum sha256
          (relay_content relay_id host (rj_relay_port code) (rj_session_credential code)))"
  by (auto simp: relay_encode_payload_def Let_def u8_try_from_def relay_content_def join_code_consts)

lemma relay_decode_content:
  assumes sha: "\<And>x. length (sha256 x) = 32" and "length credential = 16"
    and "length relay_id \<le> 64" "host \<noteq> []" "length host \<le> 255" "port \<noteq> 0"
    and "utf8_str relay_id" "utf8_str host"
  shows "relay_decode_payload sha256 (append_checksum sha256 (relay_content relay_id host port credential))
    = Ok \<lparr>rj_relay_id = (if relay_id = [] then None else Some relay_id), rj_relay_host = host,
          rj_relay_port = port, rj_session_credential = credential\<rparr>"
proof -
  define content where "content = relay_content relay_id host port credential"
  define head where "head = take 6 content"
  define c where "c = join_checksum sha256 content"
  let ?n = "length relay_id" and ?m = "length host"
  have c: "length c = 4" using sha by (simp add: c_def)
  have content: "content = head @ put_u16 port @ credential @ str_bytes relay_id @ str_bytes host"
    and head: "length head = 6" by (simp_all add: content_def head_def relay_content_def)
  have len: "length content = 24 + ?n + ?m" using assms(2) head by (simp add: content)
  have bytes: "append_checksum sha256 content = content @ c" by (simp add: append_checksum_def c_def)
  have at: "(content @ c) ! 3 = (if relay_id = [] then 0 else 1)" "(content @ c) ! 4 = of_nat ?n"
    "(content @ c) ! 5 = of_nat ?m"
    by (simp_all add: content_def relay_content_def)
  have small: "unat (of_nat ?n :: byte) = ?n" "unat (of_nat ?m :: byte) = ?m"
    using assms(3,5) by (simp_all add: unat_of_nat)
  have s1: "byte_slice (content @ c) 6 8 = Ok (put_u16 port)"
    using slice_append [of head 6 "put_u16 port" 8 "credential @ str_bytes relay_id @ str_bytes host @ c"] head
    by (simp add: content)
  have s2: "byte_slice (content @ c) 8 24 = Ok credential"
    using slice_append [of "head @ put_u16 port" 8 credential 24 "str_bytes relay_id @ str_bytes host @ c"]
      head assms(2) by (simp add: content)
  have s3: "byte_slice (content @ c) 24 (24 + ?n) = Ok (str_bytes relay_id)"
    using slice_append [of "head @ put_u16 port @ credential" 24 "str_bytes relay_id" "24 + ?n"
        "str_bytes host @ c"] head assms(2) by (simp add: content)
  have s4: "byte_slice (content @ c) (24 + ?n) (24 + ?n + ?m) = Ok (str_bytes host)"
    using slice_append [of "head @ put_u16 port @ credential @ str_bytes relay_id" "24 + ?n"
        "str_bytes host" "24 + ?n + ?m" c] head assms(2) by (simp add: content)
  have chk: "validate_checksum sha256 (content @ c) (24 + ?n + ?m) = Ok ()"
    using validate_checksum_appended [of sha256 "24 + ?n + ?m" content] sha len bytes by simp
  have b: "byte_at (content @ c) 3 = Ok (if relay_id = [] then 0 else 1)"
    "byte_at (content @ c) 4 = Ok (of_nat ?n)" "byte_at (content @ c) 5 = Ok (of_nat ?m)"
    using at len by (simp_all add: byte_at_def)
  show ?thesis
    unfolding content_def [symmetric] bytes relay_decode_payload_def join_code_consts
    using assms c len b small s1 s2 s3 s4 chk
    by (cases "relay_id = []") (simp_all add: Let_def from_utf8_def validate_fields_def
        MAX_RELAY_ID_LEN_def MAX_RELAY_HOST_LEN_def add.assoc
        del: slice_Ok byte_at_Ok rbind_eq_Ok)
qed

definition endpoints_ok :: "SocketAddr list \<Rightarrow> bool" where
  "endpoints_ok es \<longleftrightarrow> list_all (\<lambda>e. unicast_endpoint e \<and> flow_free e) es \<and> distinct es"

lemma endpoints_loop_Ok:
  "endpoints_loop before es = Ok u \<longleftrightarrow> endpoints_ok es \<and> set before \<inter> set es = {}"
  by (induction es arbitrary: before) (auto simp: endpoints_ok_def)

lemma validate_endpoints_Ok [simp]:
  "validate_endpoints es = Ok u \<longleftrightarrow> es \<noteq> [] \<and> length es \<le> 8 \<and> endpoints_ok es"
  by (auto simp: validate_endpoints_def endpoints_loop_Ok MAX_CANDIDATES_def)

lemma validate_introducer_Ok [simp]:
  "validate_introducer i = Ok u \<longleftrightarrow> id_steam_id64 i \<noteq> 0 \<and> \<not> all_zero (id_instance_id i)"
  by (auto simp: validate_introducer_def)

lemma encode_endpoint_read:
  "encode_endpoint e = Ok b \<Longrightarrow> length b = 24 \<and> decode_endpoint b = Ok e"
proof (cases e)
  case (SockV4 ip port)
  assume "encode_endpoint e = Ok b"
  then have b: "b = [4, 0] @ put_u16 port @ put_u32 0 @ put_u32 ip @ replicate 12 0"
    by (simp add: SockV4 IPV4_FAMILY_def)
  have len: "length b = 24" by (simp add: b)
  have s: "byte_slice b 2 4 = Ok (put_u16 port)" "byte_slice b 4 8 = Ok (put_u32 0)"
    "byte_slice b 8 12 = Ok (put_u32 ip)" "byte_slice b 12 24 = Ok (replicate 12 0)"
    using slice_append [of "[4, 0]" 2 "put_u16 port" 4]
      slice_append [of "[4, 0] @ put_u16 port" 4 "put_u32 0" 8]
      slice_append [of "[4, 0] @ put_u16 port @ put_u32 0" 8 "put_u32 ip" 12]
      slice_rest [of "[4, 0] @ put_u16 port @ put_u32 0 @ put_u32 ip" 12 24 "replicate 12 0"]
    unfolding b by simp_all
  have "b ! 0 = 4" "b ! 1 = 0" by (simp_all add: b)
  then show ?thesis using len s
    by (simp add: decode_endpoint_def byte_at_def IPV4_FAMILY_def CANDIDATE_LEN_def SockV4
        del: slice_Ok rbind_eq_Ok byte_at_Ok)
next
  case (SockV6 ip port flow scope)
  assume "encode_endpoint e = Ok b"
  then have b: "b = [6, 0] @ put_u16 port @ put_u32 scope @ be_enc 16 (unat ip)" and flow: "flow = 0"
    by (simp_all add: SockV6 IPV6_FAMILY_def split: if_splits)
  have len: "length b = 24" by (simp add: b)
  have s: "byte_slice b 2 4 = Ok (put_u16 port)" "byte_slice b 4 8 = Ok (put_u32 scope)"
    "byte_slice b 8 24 = Ok (be_enc 16 (unat ip))"
    using slice_append [of "[6, 0]" 2 "put_u16 port" 4]
      slice_append [of "[6, 0] @ put_u16 port" 4 "put_u32 scope" 8]
      slice_rest [of "[6, 0] @ put_u16 port @ put_u32 scope" 8 24 "be_enc 16 (unat ip)"]
    unfolding b by simp_all
  have "b ! 0 = 6" "b ! 1 = 0" by (simp_all add: b)
  then show ?thesis using len s flow
    by (simp add: decode_endpoint_def byte_at_def IPV4_FAMILY_def IPV6_FAMILY_def CANDIDATE_LEN_def SockV6
        del: slice_Ok rbind_eq_Ok byte_at_Ok)
qed

lemma encode_endpoints_read:
  "encode_endpoints es = Ok bs \<Longrightarrow> length es \<le> k \<Longrightarrow>
     length bs = 24 * length es \<and> decode_endpoints (chunks_exact 24 k bs) = Ok es"
proof (induction es arbitrary: bs k)
  case Nil
  then show ?case by (cases k) auto
next
  case (Cons e es)
  then obtain b r where b: "encode_endpoint e = Ok b" and r: "encode_endpoints es = Ok r" and "bs = b @ r"
    by auto
  obtain j where j: "k = Suc j" "length es \<le> j" using Cons.prems(2) by (cases k) auto
  show ?case using Cons.IH [OF r j(2)] encode_endpoint_read [OF b] \<open>bs = b @ r\<close> j(1) by simp
qed

lemma encode_endpoints_total:
  "list_all flow_free es \<Longrightarrow> \<exists>bs. encode_endpoints es = Ok bs"
proof (induction es)
  case (Cons e es)
  then show ?case by (cases e) (auto simp: flow_free_def)
qed simp

definition lan_content :: "LanJoinCode \<Rightarrow> byte list \<Rightarrow> byte list" where
  "lan_content code encoded =
     [0x54, 0x42, 6, 1, 0, of_nat (length (lj_control_endpoints code)), 0, 0]
     @ lj_session_credential code @ put_u64 (id_steam_id64 (lj_introducer code))
     @ id_instance_id (lj_introducer code) @ encoded"

definition lan_code_ok :: "LanJoinCode \<Rightarrow> bool" where
  "lan_code_ok code \<longleftrightarrow> id_steam_id64 (lj_introducer code) \<noteq> 0 \<and> \<not> all_zero (id_instance_id (lj_introducer code))
     \<and> lj_control_endpoints code \<noteq> [] \<and> length (lj_control_endpoints code) \<le> 8
     \<and> endpoints_ok (lj_control_endpoints code)"

lemma lan_encode_payload_Ok:
  "lan_encode_payload sha256 code = Ok payload \<longleftrightarrow>
     lan_code_ok code \<and> (\<exists>encoded. encode_endpoints (lj_control_endpoints code) = Ok encoded
       \<and> payload = append_checksum sha256 (lan_content code encoded))"
  by (auto simp: lan_encode_payload_def Let_def u8_try_from_def lan_content_def lan_code_ok_def
      join_code_consts)

lemma lan_decode_content:
  assumes sha: "\<And>x. length (sha256 x) = 32" and "length (lj_session_credential code) = 16"
    and "length (id_instance_id (lj_introducer code)) = 16" and ok: "lan_code_ok code"
    and cand: "encode_endpoints (lj_control_endpoints code) = Ok encoded"
  shows "lan_decode_payload sha256 (append_checksum sha256 (lan_content code encoded)) = Ok code"
proof -
  define content where "content = lan_content code encoded"
  define head where "head = take 8 content"
  define c where "c = join_checksum sha256 content"
  let ?cred = "lj_session_credential code" and ?i = "lj_introducer code"
  let ?n = "length (lj_control_endpoints code)"
  have c: "length c = 4" using sha by (simp add: c_def)
  have content: "content = head @ ?cred @ put_u64 (id_steam_id64 ?i) @ id_instance_id ?i @ encoded"
    and head: "length head = 8" by (simp_all add: content_def head_def lan_content_def)
  have n: "1 \<le> ?n" "?n \<le> 8" using ok by (auto simp: lan_code_ok_def Suc_le_eq)
  have ne: "lj_control_endpoints code \<noteq> []" using ok by (simp add: lan_code_ok_def)
  have cl: "length encoded = 24 * ?n" using encode_endpoints_read [OF cand order.refl] by blast
  have len: "length content = 48 + 24 * ?n" using assms(2,3) head cl by (simp add: content)
  have bytes: "append_checksum sha256 content = content @ c" by (simp add: append_checksum_def c_def)
  have small: "unat (of_nat ?n :: byte) = ?n" using n by (simp add: unat_of_nat)
  have b: "byte_at (content @ c) 3 = Ok 1" "byte_at (content @ c) 4 = Ok 0"
    "byte_at (content @ c) 5 = Ok (of_nat ?n)"
    by (simp_all add: content_def lan_content_def byte_at_def)
  have s0: "byte_slice (content @ c) 6 8 = Ok [0, 0]"
    using slice_append [of "take 6 head" 6 "[0, 0]" 8] head
    by (simp add: content_def lan_content_def head_def byte_slice_def)
  have s1: "byte_slice (content @ c) 8 24 = Ok ?cred"
    using slice_append [of head 8 ?cred 24] head assms(2) by (simp add: content)
  have s2: "byte_slice (content @ c) 24 32 = Ok (put_u64 (id_steam_id64 ?i))"
    using slice_append [of "head @ ?cred" 24 "put_u64 (id_steam_id64 ?i)" 32] head assms(2)
    by (simp add: content)
  have s3: "byte_slice (content @ c) 32 48 = Ok (id_instance_id ?i)"
    using slice_append [of "head @ ?cred @ put_u64 (id_steam_id64 ?i)" 32 "id_instance_id ?i" 48]
      head assms(2,3) by (simp add: content)
  have s4: "byte_slice (content @ c) 48 (48 + 24 * ?n) = Ok encoded"
    using slice_append [of "head @ ?cred @ put_u64 (id_steam_id64 ?i) @ id_instance_id ?i" 48 encoded
        "48 + 24 * ?n" c] head assms(2,3) cl by (simp add: content)
  have chk: "validate_checksum sha256 (content @ c) (48 + 24 * ?n) = Ok ()"
    using validate_checksum_appended [of sha256 "48 + 24 * ?n" content] sha len bytes by simp
  have es: "decode_endpoints (chunks_exact 24 (length encoded) encoded) = Ok (lj_control_endpoints code)"
    using encode_endpoints_read [OF cand, of "length encoded"] cl by simp
  have v: "validate_introducer ?i = Ok ()" "validate_endpoints (lj_control_endpoints code) = Ok ()"
    using ok by (simp_all add: lan_code_ok_def)
  have i: "\<lparr>id_steam_id64 = id_steam_id64 ?i, id_instance_id = id_instance_id ?i\<rparr> = ?i" by simp
  show ?thesis
    unfolding content_def [symmetric] bytes lan_decode_payload_def join_code_consts
    using c len b small n ne s0 s1 s2 s3 s4 chk es v
    by (simp add: Let_def i all_zero_def MAX_CANDIDATES_def 
        del: validate_endpoints_Ok validate_introducer_Ok slice_Ok byte_at_Ok rbind_eq_Ok)
qed

section \<open>Properties\<close>

text \<open>A code as the encoder normalises it: names trimmed, an empty relay id dropped.\<close>

fun normalized :: "JoinCode \<Rightarrow> JoinCode" where
  "normalized (ExternalRelay code) =
     (let relay_id = trim (case rj_relay_id code of None \<Rightarrow> [] | Some i \<Rightarrow> i) in
      ExternalRelay (code\<lparr>rj_relay_id := (if relay_id = [] then None else Some relay_id),
                          rj_relay_host := trim (rj_relay_host code)\<rparr>))"
| "normalized (LanDirect code) = LanDirect code"

text \<open>The sizes and the encoding the Rust types guarantee.\<close>

fun code_typed :: "JoinCode \<Rightarrow> bool" where
  "code_typed (ExternalRelay code) \<longleftrightarrow> length (rj_session_credential code) = 16
     \<and> utf8_str (rj_relay_host code)
     \<and> (case rj_relay_id code of None \<Rightarrow> True | Some i \<Rightarrow> utf8_str i)"
| "code_typed (LanDirect code) \<longleftrightarrow> length (lj_session_credential code) = 16
     \<and> length (id_instance_id (lj_introducer code)) = 16"

lemma append_checksum_take: "append_checksum sha256 content = content @ join_checksum sha256 content"
  by (simp add: append_checksum_def)

lemma decode_payload_read:
  assumes sha: "\<And>x. length (sha256 x) = 32" and "code_typed code"
    and "(case code of ExternalRelay c \<Rightarrow> relay_encode_payload sha256 c
                     | LanDirect c \<Rightarrow> lan_encode_payload sha256 c) = Ok payload"
  shows "decode_payload sha256 payload = Ok (normalized code)"
proof (cases code)
  case (ExternalRelay c)
  define relay_id where "relay_id = trim (case rj_relay_id c of None \<Rightarrow> [] | Some i \<Rightarrow> i)"
  define host where "host = trim (rj_relay_host c)"
  define content where "content = relay_content relay_id host (rj_relay_port c) (rj_session_credential c)"
  have enc: "length relay_id \<le> 64" "host \<noteq> []" "length host \<le> 255" "rj_relay_port c \<noteq> 0"
    "payload = append_checksum sha256 content"
    using assms(3) ExternalRelay
    by (simp_all add: relay_encode_payload_Ok Let_def relay_id_def host_def content_def)
  have "utf8_str relay_id" "utf8_str host"
    using assms(2) ExternalRelay utf8_trim
    by (auto simp: relay_id_def host_def split: option.splits)
  then have "relay_decode_payload sha256 payload
      = Ok \<lparr>rj_relay_id = (if relay_id = [] then None else Some relay_id), rj_relay_host = host,
          rj_relay_port = rj_relay_port c, rj_session_credential = rj_session_credential c\<rparr>"
    unfolding enc(5) content_def using assms(2) ExternalRelay enc(1-4) sha
    by (intro relay_decode_content) auto
  moreover have "take 2 payload = [0x54, 0x42]" "payload ! 2 = 5" "3 \<le> length payload"
    by (simp_all add: enc(5) append_checksum_def content_def relay_content_def)
  ultimately show ?thesis
    by (simp add: decode_payload_def byte_slice_def byte_at_def join_code_consts ExternalRelay
        relay_id_def host_def Let_def numeral_2_eq_2)
next
  case (LanDirect c)
  then obtain encoded where enc: "lan_code_ok c" "encode_endpoints (lj_control_endpoints c) = Ok encoded"
    "payload = append_checksum sha256 (lan_content c encoded)"
    using assms(3) by (auto simp: lan_encode_payload_Ok)
  have "lan_decode_payload sha256 payload = Ok c"
    unfolding enc(3) using assms(2) LanDirect enc(1,2) sha by (intro lan_decode_content) auto
  moreover have "take 2 payload = [0x54, 0x42]" "payload ! 2 = 6" "3 \<le> length payload"
    by (simp_all add: enc(3) append_checksum_def lan_content_def)
  ultimately show ?thesis
    by (simp add: decode_payload_def byte_slice_def byte_at_def join_code_consts LanDirect
        numeral_2_eq_2)
qed

text \<open>
  C20: A join code survives being shared.  Whatever code is encoded, the text decodes to the same
  code, with the names trimmed, also when it is pasted with any white space before and after it; this
  holds for relay and for LAN codes, for every Base58 codec that inverts itself and every hash of 32
  bytes.
\<close>

theorem join_code_roundtrip:
  assumes "\<And>b. from_base58 (to_base58 b) = Some b" and "\<And>x. length (sha256 x) = 32"
    and "code_typed code" and "join_encode to_base58 sha256 code = Ok text_code"
    and "list_all ws_char before" and "list_all ws_char after"
  shows "join_decode from_base58 sha256 (concat before @ text_code @ concat after) = Ok (normalized code)"
proof -
  obtain payload where p: "(case code of ExternalRelay c \<Rightarrow> relay_encode_payload sha256 c
        | LanDirect c \<Rightarrow> lan_encode_payload sha256 c) = Ok payload"
    and t: "text_code = JOIN_CODE_PREFIX # to_base58 payload @ [JOIN_CODE_SUFFIX]"
    using assms(4) by (cases code) auto
  have "plain (hd text_code)" "plain (last text_code)" "text_code \<noteq> []"
    by (simp_all add: t JOIN_CODE_PREFIX_def JOIN_CODE_SUFFIX_def plain_def)
  then have "trim (concat before @ text_code @ concat after) = text_code"
    by (intro trim_pasted assms)
  moreover have "decode_payload sha256 payload = Ok (normalized code)"
    using decode_payload_read [OF assms(2,3) p] .
  ultimately show ?thesis
    by (simp add: join_decode_def t JOIN_CODE_PREFIX_def JOIN_CODE_SUFFIX_def assms(1))
qed

definition sample_relay_code :: JoinCode where
  "sample_relay_code = ExternalRelay \<lparr>rj_relay_id = Some '' eu '', rj_relay_host = ''h.example'',
     rj_relay_port = 25910, rj_session_credential = replicate 16 9\<rparr>"

theorem join_code_roundtrip_witness:
  "join_decode (\<lambda>s. Some (str_bytes s)) (\<lambda>_. replicate 32 7)
     (concat ['' ''] @ the_ok (join_encode bytes_str (\<lambda>_. replicate 32 7) sample_relay_code) @ concat [])
   = Ok (ExternalRelay \<lparr>rj_relay_id = Some ''eu'', rj_relay_host = ''h.example'',
       rj_relay_port = 25910, rj_session_credential = replicate 16 9\<rparr>)"
proof -
  have t: "trim '' eu '' = ''eu''" "trim ''h.example'' = ''h.example''" by code_simp+
  have e: "join_encode bytes_str (\<lambda>_. replicate 32 7) sample_relay_code
      = Ok (the_ok (join_encode bytes_str (\<lambda>_. replicate 32 7) sample_relay_code))"
    by (simp add: sample_relay_code_def relay_encode_payload_def t u8_try_from_def validate_fields_def
        MAX_RELAY_ID_LEN_def MAX_RELAY_HOST_LEN_def Let_def)
  have u: "utf8_str '' eu ''" "utf8_str ''h.example''" by code_simp+
  have w: "list_all ws_char ['' '']" by (simp add: ws_char_def ws1_def)
  have ty: "code_typed sample_relay_code" using u by (simp add: sample_relay_code_def)
  have n: "normalized sample_relay_code = ExternalRelay \<lparr>rj_relay_id = Some ''eu'',
      rj_relay_host = ''h.example'', rj_relay_port = 25910, rj_session_credential = replicate 16 9\<rparr>"
    by (simp add: sample_relay_code_def t)
  have "join_decode (\<lambda>s. Some (str_bytes s)) (\<lambda>_. replicate 32 7)
     (concat ['' ''] @ the_ok (join_encode bytes_str (\<lambda>_. replicate 32 7) sample_relay_code) @ concat [])
     = Ok (normalized sample_relay_code)"
    by (rule join_code_roundtrip [OF _ _ ty e w]) simp_all
  then show ?thesis unfolding n .
qed

text \<open>What decoding accepts.\<close>

fun code_valid :: "JoinCode \<Rightarrow> bool" where
  "code_valid (ExternalRelay code) \<longleftrightarrow> rj_relay_host code \<noteq> [] \<and> length (rj_relay_host code) \<le> 255
     \<and> rj_relay_port code \<noteq> 0
     \<and> (case rj_relay_id code of None \<Rightarrow> True | Some i \<Rightarrow> i \<noteq> [] \<and> length i \<le> 64)"
| "code_valid (LanDirect code) \<longleftrightarrow> lan_code_ok code"

lemma validate_fields_no_Panic [simp]: "validate_fields i h p \<noteq> Panic"
  by (simp add: validate_fields_def rbind_eq_Panic)

lemma validate_introducer_no_Panic [simp]: "validate_introducer i \<noteq> Panic"
  by (simp add: validate_introducer_def rbind_eq_Panic)

lemma candidate_new_no_Panic [simp]: "candidate_new e p g \<noteq> Panic"
  by (simp add: candidate_new_def Let_def rbind_eq_Panic)

lemma validate_endpoints_no_Panic [simp]: "validate_endpoints es \<noteq> Panic"
proof -
  have "endpoints_loop before es \<noteq> Panic" for before
    by (induction es arbitrary: before) (simp_all add: rbind_eq_Panic)
  then show ?thesis by (simp add: validate_endpoints_def rbind_eq_Panic)
qed

lemma validate_checksum_no_Panic: "n \<le> length bytes \<Longrightarrow> validate_checksum sha256 bytes n \<noteq> Panic"
  by (simp add: validate_checksum_def rbind_eq_Panic)

lemma relay_decode_payload_safe:
  "relay_decode_payload sha256 bytes \<noteq> Panic"
  "relay_decode_payload sha256 bytes = Ok code \<Longrightarrow> code_valid (ExternalRelay code) \<and> code_typed (ExternalRelay code)"
  by (auto simp: relay_decode_payload_def rbind_eq_Panic Let_def validate_checksum_no_Panic join_code_consts)

lemma decode_endpoint_no_Panic: "length b = 24 \<Longrightarrow> decode_endpoint b \<noteq> Panic"
  by (auto simp: decode_endpoint_def rbind_eq_Panic CANDIDATE_LEN_def)

lemma decode_endpoints_no_Panic: "decode_endpoints (chunks_exact 24 k bs) \<noteq> Panic"
proof (induction k arbitrary: bs)
  case (Suc k)
  then show ?case by (simp add: rbind_eq_Panic decode_endpoint_no_Panic)
qed simp

lemma lan_decode_payload_safe:
  "lan_decode_payload sha256 bytes \<noteq> Panic"
  "lan_decode_payload sha256 bytes = Ok code \<Longrightarrow> code_valid (LanDirect code) \<and> code_typed (LanDirect code)"
  by (auto simp: lan_decode_payload_def rbind_eq_Panic Let_def validate_checksum_no_Panic join_code_consts
      decode_endpoints_no_Panic lan_code_ok_def)

text \<open>
  Decoding a pasted text never panics, whatever the text, the Base58 codec and the hash, and a
  code it accepts is valid: a non-empty host and a port for a relay, and for a LAN session a real
  introducer with one to eight distinct, usable endpoints.
\<close>

lemma join_decode_safe:
  "(case join_decode from_base58 sha256 value of
      Panic \<Rightarrow> False | Err _ \<Rightarrow> True | Ok code \<Rightarrow> code_valid code \<and> code_typed code)"
proof -
  have "decode_payload sha256 bytes \<noteq> Panic" for bytes
    by (auto simp: decode_payload_def rbind_eq_Panic JOIN_CODE_MAGIC_def relay_decode_payload_safe(1)
        lan_decode_payload_safe(1))
  moreover have "code_valid code \<and> code_typed code" if "decode_payload sha256 bytes = Ok code" for bytes code
    using that relay_decode_payload_safe(2) lan_decode_payload_safe(2)
    by (auto simp: decode_payload_def split: if_splits)
  ultimately show ?thesis
    by (auto simp: join_decode_def Let_def rbind_eq_Panic split: res.splits if_splits)
qed

end
