(* ===== verification/Lan_Path.thy ===== *)
theory Lan_Path
  imports Lan_Ledger Direct_Frame Direct_Control Packet_Flow
begin

text \<open>
  Direct paths between LAN peers (\<open>lan/path.rs\<close>, \<open>path/candidate.rs\<close>, \<open>path/lifecycle.rs\<close>,
  \<open>path/data.rs\<close>): candidate pairs are checked in both directions, the peer with the smaller identity
  nominates one, heartbeats keep it alive, and game packets travel over it.  Every critical section
  of the path lock is one function on \<open>PathManager\<close>.  What it sends, on control links and sockets, is
  returned as a list of effects; the clock, the random identifiers and the answers of the outbound
  channel and of the sockets are arguments.  Sums of priorities wrap, as in a release build.
\<close>

section \<open>Order of socket addresses\<close>

fun sock_key :: "SocketAddr \<Rightarrow> nat \<times> nat \<times> u16 \<times> u32 \<times> u32" where
  "sock_key (SockV4 ip port) = (0, unat ip, port, 0, 0)"
| "sock_key (SockV6 ip port flow scope) = (1, unat ip, port, flow, scope)"

lemma sock_key_inj: "sock_key a = sock_key b \<Longrightarrow> a = b"
  by (cases a; cases b) (auto simp: word_unat_eq_iff)

instantiation SocketAddr :: linorder
begin

definition less_eq_SocketAddr :: "SocketAddr \<Rightarrow> SocketAddr \<Rightarrow> bool" where
  "less_eq_SocketAddr a b \<longleftrightarrow> sock_key a \<le> sock_key b"

definition less_SocketAddr :: "SocketAddr \<Rightarrow> SocketAddr \<Rightarrow> bool" where
  "less_SocketAddr a b \<longleftrightarrow> sock_key a < sock_key b"

instance
  by standard (auto simp: less_eq_SocketAddr_def less_SocketAddr_def intro: sock_key_inj antisym)

end

section \<open>State\<close>

definition HEARTBEAT_INTERVAL :: duration where "HEARTBEAT_INTERVAL = secs 1"
definition PATH_LIVENESS_TIMEOUT :: duration where "PATH_LIVENESS_TIMEOUT = secs 3"
definition PATH_UNAVAILABLE_AFTER :: duration where "PATH_UNAVAILABLE_AFTER = secs 3"

datatype LanPeerPathStatus = PsChecking | PsUsable | PsUnavailable

record LanPeerPathState =
  st_peer :: PeerIdentity
  st_status :: LanPeerPathStatus
  st_local_endpoint :: "SocketAddr option"
  st_remote_endpoint :: "SocketAddr option"

record LocalCandidate =
  lc_wire :: HostCandidate
  lc_socket :: nat

record PathMaterial =
  mt_id :: PathId
  mt_token :: PathToken

record CheckState =
  ck_request_seen :: bool
  ck_response_seen :: bool

record PendingCheck =
  pk_peer :: PeerIdentity
  pk_local_endpoint :: SocketAddr
  pk_remote_endpoint :: SocketAddr

record NominatedPath =
  np_local_endpoint :: SocketAddr
  np_remote_endpoint :: SocketAddr
  np_last_seen :: instant

type_synonym pair_checks = "(SocketAddr \<times> SocketAddr, CheckState) bmap"

record PeerPath =
  pp_identity :: PeerIdentity
  pp_control :: nat
  pp_material :: "PathMaterial option"
  pp_remote_candidates :: "HostCandidate list"
  pp_checks :: pair_checks
  pp_nominated :: "NominatedPath option"
  pp_pending_nomination :: "(SocketAddr \<times> SocketAddr) option"
  pp_next_heartbeat_id :: u64
  pp_checking_since :: instant
  pp_next_frame_id :: u64
  pp_last_received_frame_id :: u64
  pp_key :: PeerDataKey
  pp_inbound :: "InboundGamePacket list"

record PathManager =
  pm_local :: PeerIdentity
  pm_candidates :: "LocalCandidate list"
  pm_peers :: "(PeerIdentity, PeerPath) hmap"
  pm_peer_order :: "PeerIdentity list"
  pm_latest_epochs :: "(PeerIdentity, PeerLifecycleEpoch) hmap"
  pm_latest_data_keys :: "(u64, PeerDataKey) hmap"
  pm_transactions :: "(TransactionId, PendingCheck) hmap"
  pm_ledger :: LedgerState
  pm_observed :: bool

datatype PathEffect =
    EfControl nat ControlMessage
  | EfDatagram nat SocketAddr "byte list"

definition path_manager_new :: "PeerIdentity \<Rightarrow> LocalCandidate list \<Rightarrow> PathManager" where
  "path_manager_new local cands =
     \<lparr>pm_local = local, pm_candidates = cands, pm_peers = [], pm_peer_order = [],
      pm_latest_epochs = [], pm_latest_data_keys = [], pm_transactions = [], pm_ledger = ledger_new,
      pm_observed = False\<rparr>"

definition set_path :: "PathManager \<Rightarrow> PeerIdentity \<Rightarrow> PeerPath \<Rightarrow> PathManager" where
  "set_path m peer path = m\<lparr>pm_peers := hm_insert peer path (pm_peers m)\<rparr>"

definition attach_send_observer :: "PathManager \<Rightarrow> PathManager \<times> bool" where
  "attach_send_observer m = (if pm_observed m then (m, False) else (m\<lparr>pm_observed := True\<rparr>, True))"

definition detach_send_observer :: "PathManager \<Rightarrow> PathManager" where
  "detach_send_observer m = m\<lparr>pm_observed := False\<rparr>"

definition socket_for :: "PathManager \<Rightarrow> SocketAddr \<Rightarrow> nat option" where
  "socket_for m endpoint =
     map_option lc_socket (find (\<lambda>c. hc_endpoint (lc_wire c) = endpoint) (pm_candidates m))"

section \<open>Candidates\<close>

definition path_offer :: "PeerIdentity \<Rightarrow> PathMaterial \<Rightarrow> LocalCandidate list \<Rightarrow> ControlMessage" where
  "path_offer local material cands =
     DPathOffer local (mt_id material) (mt_token material) (map lc_wire cands)"

text \<open>\<open>max_by_key\<close>: the last of the greatest elements.\<close>

fun max_by_key :: "('a \<Rightarrow> 'b::linorder) \<Rightarrow> 'a list \<Rightarrow> 'a option" where
  "max_by_key f [] = None"
| "max_by_key f (x # xs) =
     (case max_by_key f xs of None \<Rightarrow> Some x | Some y \<Rightarrow> if f y < f x then Some x else Some y)"

definition priority_of :: "(SocketAddr, u32) hmap \<Rightarrow> SocketAddr \<Rightarrow> u32" where
  "priority_of priorities endpoint = (case hm_get priorities endpoint of None \<Rightarrow> 0 | Some p \<Rightarrow> p)"

definition select_candidate_pair ::
  "pair_checks \<Rightarrow> (SocketAddr, u32) hmap \<Rightarrow> (SocketAddr, u32) hmap \<Rightarrow> (SocketAddr \<times> SocketAddr) option" where
  "select_candidate_pair checks local_priorities remote_priorities =
     map_option fst
       (max_by_key (\<lambda>((l, r), _). (priority_of local_priorities l + priority_of remote_priorities r, l, r))
          (filter (\<lambda>(_, check). ck_request_seen check \<and> ck_response_seen check) checks))"

definition priorities :: "HostCandidate list \<Rightarrow> (SocketAddr, u32) hmap" where
  "priorities cs = foldl (\<lambda>m c. hm_insert (hc_endpoint c) (hc_priority c) m) [] cs"

section \<open>Offers and checks\<close>

definition offer_section ::
  "PathManager \<Rightarrow> instant \<Rightarrow> PeerIdentity \<Rightarrow> PathMaterial \<Rightarrow> HostCandidate list
     \<Rightarrow> PathManager \<times> PathEffect list \<times> bool" where
  "offer_section m now peer material cands =
     (case hm_get (pm_peers m) peer of
        None \<Rightarrow> (m, [], False)
      | Some path \<Rightarrow>
          let restart = (\<lambda>path. path\<lparr>pp_remote_candidates := cands, pp_checks := [],
                pp_nominated := None, pp_pending_nomination := None, pp_checking_since := now\<rparr>)
          in case pp_material path of
               Some existing \<Rightarrow>
                 if mt_id existing \<noteq> mt_id material \<or> mt_token existing \<noteq> mt_token material
                 then (m, [], False)
                 else (set_path m peer (restart path), [], True)
             | None \<Rightarrow>
                 if pm_local m < peer then (m, [], False)
                 else (set_path m peer (restart (path\<lparr>pp_material := Some material\<rparr>)),
                       [EfControl (pp_control path) (path_offer (pm_local m) material (pm_candidates m))], True))"

definition path_context :: "PathManager \<Rightarrow> PathMaterial \<Rightarrow> PeerIdentity \<Rightarrow> PathContext" where
  "path_context m material peer =
     \<lparr>pc_path_id = mt_id material, pc_path_token = mt_token material, pc_from = pm_local m,
      pc_to_steam_id64 = id_steam_id64 peer\<rparr>"

text \<open>One check for every pair; \<open>draw\<close> gives the transaction identifiers.\<close>

fun check_loop ::
  "PathManager \<Rightarrow> PathMaterial \<Rightarrow> PeerIdentity \<Rightarrow> (nat \<Rightarrow> TransactionId)
     \<Rightarrow> (nat \<times> LocalCandidate \<times> HostCandidate) list \<Rightarrow> PathManager \<times> PathEffect list" where
  "check_loop m material peer draw [] = (m, [])"
| "check_loop m material peer draw ((n, local, remote) # rest) =
     (let transaction = draw n;
          m = m\<lparr>pm_transactions := hm_insert transaction
                  \<lparr>pk_peer = peer, pk_local_endpoint = hc_endpoint (lc_wire local),
                   pk_remote_endpoint = hc_endpoint remote\<rparr> (pm_transactions m)\<rparr>;
          frame = Check \<lparr>cf_path = path_context m material peer, cf_transaction_id = transaction,
                         cf_phase = CheckRequest\<rparr>;
          (m', effects) = check_loop m material peer draw rest
      in (m', (case direct_encode frame of
                 Ok payload \<Rightarrow> [EfDatagram (lc_socket local) (hc_endpoint remote) payload] | _ \<Rightarrow> []) @ effects))"

definition send_checks ::
  "PathManager \<Rightarrow> (nat \<Rightarrow> TransactionId) \<Rightarrow> PeerIdentity \<Rightarrow> PathManager \<times> PathEffect list" where
  "send_checks m draw peer =
     (let m = m\<lparr>pm_transactions := hm_retain (\<lambda>_ check. pk_peer check \<noteq> peer) (pm_transactions m)\<rparr> in
      case hm_get (pm_peers m) peer of
        None \<Rightarrow> (m, [])
      | Some path \<Rightarrow>
          case pp_material path of
            None \<Rightarrow> (m, [])
          | Some material \<Rightarrow>
              check_loop m material peer draw
                (enumerate 0 (List.product (pm_candidates m) (pp_remote_candidates path))))"

definition handle_offer ::
  "PathManager \<Rightarrow> instant \<Rightarrow> (nat \<Rightarrow> TransactionId) \<Rightarrow> PeerIdentity \<Rightarrow> PathMaterial \<Rightarrow> HostCandidate list
     \<Rightarrow> PathManager \<times> PathEffect list" where
  "handle_offer m now draw peer material cands =
     (let (m, reply, should_check) = offer_section m now peer material cands in
      if should_check then (let (m, sends) = send_checks m draw peer in (m, reply @ sends)) else (m, reply))"

section \<open>Nomination\<close>

definition checked_both :: "pair_checks \<Rightarrow> SocketAddr \<times> SocketAddr \<Rightarrow> bool" where
  "checked_both checks pair =
     (case bm_get checks pair of None \<Rightarrow> False | Some check \<Rightarrow> ck_request_seen check \<and> ck_response_seen check)"

definition has_path_id :: "PeerPath \<Rightarrow> PathId \<Rightarrow> bool" where
  "has_path_id path path_id = (case pp_material path of None \<Rightarrow> False | Some material \<Rightarrow> mt_id material = path_id)"

definition handle_nominate ::
  "PathManager \<Rightarrow> instant \<Rightarrow> PeerIdentity \<Rightarrow> PathId \<Rightarrow> SocketAddr \<Rightarrow> SocketAddr
     \<Rightarrow> PathManager \<times> PathEffect list" where
  "handle_nominate m now peer path_id controller_local controller_remote =
     (case hm_get (pm_peers m) peer of
        None \<Rightarrow> (m, [])
      | Some path \<Rightarrow>
          if pm_local m < peer \<or> \<not> has_path_id path path_id then (m, [])
          else if \<not> checked_both (pp_checks path) (controller_remote, controller_local) then (m, [])
          else (set_path m peer (path\<lparr>pp_nominated := Some \<lparr>np_local_endpoint = controller_remote,
                   np_remote_endpoint = controller_local, np_last_seen = now\<rparr>\<rparr>),
                [EfControl (pp_control path) (DNominateAck path_id)]))"

definition handle_nominate_ack :: "PathManager \<Rightarrow> instant \<Rightarrow> PeerIdentity \<Rightarrow> PathId \<Rightarrow> PathManager" where
  "handle_nominate_ack m now peer path_id =
     (case hm_get (pm_peers m) peer of
        None \<Rightarrow> m
      | Some path \<Rightarrow>
          if \<not> pm_local m < peer \<or> \<not> has_path_id path path_id then m
          else
            case pp_pending_nomination path of
              None \<Rightarrow> m
            | Some (local_endpoint, remote_endpoint) \<Rightarrow>
                set_path m peer (path\<lparr>pp_pending_nomination := None,
                  pp_nominated := Some \<lparr>np_local_endpoint = local_endpoint,
                    np_remote_endpoint = remote_endpoint, np_last_seen = now\<rparr>\<rparr>))"

definition maybe_nominate :: "PathManager \<Rightarrow> PeerIdentity \<Rightarrow> PathManager \<times> PathEffect list" where
  "maybe_nominate m peer =
     (case hm_get (pm_peers m) peer of
        None \<Rightarrow> (m, [])
      | Some path \<Rightarrow>
          if \<not> pm_local m < peer \<or> pp_nominated path \<noteq> None \<or> pp_pending_nomination path \<noteq> None then (m, [])
          else
            case pp_material path of
              None \<Rightarrow> (m, [])
            | Some material \<Rightarrow>
                case select_candidate_pair (pp_checks path) (priorities (map lc_wire (pm_candidates m)))
                       (priorities (pp_remote_candidates path)) of
                  None \<Rightarrow> (m, [])
                | Some (local_endpoint, remote_endpoint) \<Rightarrow>
                    (set_path m peer (path\<lparr>pp_pending_nomination := Some (local_endpoint, remote_endpoint)\<rparr>),
                     [EfControl (pp_control path) (DNominate (mt_id material) local_endpoint remote_endpoint)]))"

fun path_handle_control ::
  "PathManager \<Rightarrow> instant \<Rightarrow> (nat \<Rightarrow> TransactionId) \<Rightarrow> PeerIdentity \<Rightarrow> ControlMessage
     \<Rightarrow> PathManager \<times> PathEffect list \<times> bool" where
  "path_handle_control m now draw peer (DPathOffer sender path_id path_token data_candidates) =
     (if sender = peer
      then (let (m, effects) = handle_offer m now draw peer \<lparr>mt_id = path_id, mt_token = path_token\<rparr> data_candidates
            in (m, effects, True))
      else (m, [], False))"
| "path_handle_control m now draw peer (DNominate path_id local_endpoint remote_endpoint) =
     (let (m, effects) = handle_nominate m now peer path_id local_endpoint remote_endpoint in (m, effects, True))"
| "path_handle_control m now draw peer (DNominateAck path_id) = (handle_nominate_ack m now peer path_id, [], True)"
| "path_handle_control m now draw peer _ = (m, [], False)"

section \<open>Datagrams\<close>

definition check_entry :: "pair_checks \<Rightarrow> SocketAddr \<times> SocketAddr \<Rightarrow> CheckState" where
  "check_entry checks pair =
     (case bm_get checks pair of
        None \<Rightarrow> \<lparr>ck_request_seen = False, ck_response_seen = False\<rparr> | Some check \<Rightarrow> check)"

definition has_material :: "PeerPath \<Rightarrow> PathContext \<Rightarrow> bool" where
  "has_material path context =
     (case pp_material path of
        None \<Rightarrow> False
      | Some material \<Rightarrow> mt_id material = pc_path_id context \<and> mt_token material = pc_path_token context)"

definition check_accepted :: "PathManager \<Rightarrow> PeerPath \<Rightarrow> SocketAddr \<Rightarrow> SocketAddr \<Rightarrow> PathContext \<Rightarrow> bool" where
  "check_accepted m path local source context \<longleftrightarrow>
     pc_to_steam_id64 context = id_steam_id64 (pm_local m) \<and> has_material path context
     \<and> list_ex (\<lambda>c. hc_endpoint (lc_wire c) = local) (pm_candidates m)
     \<and> list_ex (\<lambda>c. hc_endpoint c = source) (pp_remote_candidates path)"

text \<open>The result: the response to send, and whether the handler goes on to nominate.\<close>

definition check_section ::
  "PathManager \<Rightarrow> SocketAddr \<Rightarrow> SocketAddr \<Rightarrow> CheckFrame \<Rightarrow> PathManager \<times> CheckFrame option \<times> bool" where
  "check_section m local source frame =
     (let peer = pc_from (cf_path frame) in
      case hm_get (pm_peers m) peer of
        None \<Rightarrow> (m, None, False)
      | Some path \<Rightarrow>
          if \<not> check_accepted m path local source (cf_path frame) then (m, None, False)
          else
            case cf_phase frame of
              CheckRequest \<Rightarrow>
                (set_path m peer (path\<lparr>pp_checks := bm_insert (local, source)
                   ((check_entry (pp_checks path) (local, source))\<lparr>ck_request_seen := True\<rparr>) (pp_checks path)\<rparr>),
                 Some \<lparr>cf_path = \<lparr>pc_path_id = pc_path_id (cf_path frame),
                         pc_path_token = pc_path_token (cf_path frame), pc_from = pm_local m,
                         pc_to_steam_id64 = id_steam_id64 peer\<rparr>,
                       cf_transaction_id = cf_transaction_id frame, cf_phase = CheckResponse\<rparr>, True)
            | CheckResponse \<Rightarrow>
                case hm_get (pm_transactions m) (cf_transaction_id frame) of
                  None \<Rightarrow> (m, None, False)
                | Some pending \<Rightarrow>
                    let m = m\<lparr>pm_transactions := hm_remove (cf_transaction_id frame) (pm_transactions m)\<rparr> in
                    if pk_peer pending \<noteq> peer \<or> pk_local_endpoint pending \<noteq> local
                       \<or> pk_remote_endpoint pending \<noteq> source
                    then (m, None, False)
                    else (set_path m peer (path\<lparr>pp_checks := bm_insert (local, source)
                            ((check_entry (pp_checks path) (local, source))\<lparr>ck_response_seen := True\<rparr>)
                            (pp_checks path)\<rparr>), None, True))"

definition send_response :: "PathManager \<Rightarrow> SocketAddr \<Rightarrow> SocketAddr \<Rightarrow> DirectFrame option \<Rightarrow> PathEffect list" where
  "send_response m local source response =
     (case (response, socket_for m local) of
        (Some frame, Some socket) \<Rightarrow>
          (case direct_encode frame of Ok payload \<Rightarrow> [EfDatagram socket source payload] | _ \<Rightarrow> [])
      | _ \<Rightarrow> [])"

definition handle_check ::
  "PathManager \<Rightarrow> SocketAddr \<Rightarrow> SocketAddr \<Rightarrow> CheckFrame \<Rightarrow> PathManager \<times> PathEffect list" where
  "handle_check m local source frame =
     (let (m, response, go_on) = check_section m local source frame in
      if go_on
      then (let effects = send_response m local source (map_option Check response);
                (m, nomination) = maybe_nominate m (pc_from (cf_path frame))
            in (m, effects @ nomination))
      else (m, []))"

definition handle_heartbeat ::
  "PathManager \<Rightarrow> instant \<Rightarrow> SocketAddr \<Rightarrow> SocketAddr \<Rightarrow> HeartbeatFrame \<Rightarrow> PathManager \<times> PathEffect list" where
  "handle_heartbeat m now local source frame =
     (let peer = pc_from (hf_path frame) in
      case hm_get (pm_peers m) peer of
        None \<Rightarrow> (m, [])
      | Some path \<Rightarrow>
          case pp_nominated path of
            None \<Rightarrow> (m, [])
          | Some nominated \<Rightarrow>
              if pc_to_steam_id64 (hf_path frame) \<noteq> id_steam_id64 (pm_local m)
                 \<or> np_local_endpoint nominated \<noteq> local \<or> np_remote_endpoint nominated \<noteq> source
                 \<or> \<not> has_material path (hf_path frame)
              then (m, [])
              else
                let m' = set_path m peer (path\<lparr>pp_nominated := Some (nominated\<lparr>np_last_seen := now\<rparr>)\<rparr>) in
                (m', if hf_phase frame = HeartbeatRequest
                     then send_response m' local source
                            (Some (Heartbeat \<lparr>hf_path = \<lparr>pc_path_id = pc_path_id (hf_path frame),
                                 pc_path_token = pc_path_token (hf_path frame), pc_from = pm_local m,
                                 pc_to_steam_id64 = id_steam_id64 peer\<rparr>,
                               hf_heartbeat_id = hf_heartbeat_id frame, hf_phase = HeartbeatResponse\<rparr>))
                     else []))"

section \<open>Maintenance\<close>

text \<open>One path, once per heartbeat interval: the path afterwards, the nomination to repeat, the
  heartbeat to send with its pair, and whether the candidate pairs are to be checked again.\<close>

definition maintain_path ::
  "PathManager \<Rightarrow> instant \<Rightarrow> PeerIdentity \<Rightarrow> PeerPath
     \<Rightarrow> PeerPath \<times> PathEffect list \<times> (NominatedPath \<times> HeartbeatFrame) list \<times> bool" where
  "maintain_path m now peer path =
     (case pp_nominated path of
        None \<Rightarrow>
          (path,
           (case (pp_material path, pp_pending_nomination path) of
              (Some material, Some (local_endpoint, remote_endpoint)) \<Rightarrow>
                [EfControl (pp_control path) (DNominate (mt_id material) local_endpoint remote_endpoint)]
            | _ \<Rightarrow> []),
           [], pp_material path \<noteq> None \<and> pp_remote_candidates path \<noteq> [])
      | Some nominated \<Rightarrow>
          if PATH_LIVENESS_TIMEOUT \<le> duration_since now (np_last_seen nominated) then
            (path\<lparr>pp_nominated := None, pp_pending_nomination := None, pp_checks := [],
                  pp_checking_since := now\<rparr>, [], [], True)
          else
            case pp_material path of
              None \<Rightarrow> (path, [], [], False)
            | Some material \<Rightarrow>
                let heartbeat_id = pp_next_heartbeat_id path in
                (path\<lparr>pp_next_heartbeat_id := (if heartbeat_id = - 1 then 1 else heartbeat_id + 1)\<rparr>, [],
                 [(nominated, \<lparr>hf_path = path_context m material peer, hf_heartbeat_id = heartbeat_id,
                               hf_phase = HeartbeatRequest\<rparr>)], False))"

definition maintain_section ::
  "PathManager \<Rightarrow> instant
     \<Rightarrow> PathManager \<times> PathEffect list \<times> (NominatedPath \<times> HeartbeatFrame) list \<times> PeerIdentity list" where
  "maintain_section m now =
     (let results = map (\<lambda>(peer, path). (peer, maintain_path m now peer path)) (pm_peers m) in
      (m\<lparr>pm_peers := map (\<lambda>(peer, path, _). (peer, path)) results\<rparr>,
       concat (map (\<lambda>(_, _, nominations, _, _). nominations) results),
       concat (map (\<lambda>(_, _, _, heartbeats, _). heartbeats) results),
       map fst (filter (\<lambda>(_, _, _, _, recheck). recheck) results)))"

fun recheck_loop ::
  "PathManager \<Rightarrow> (nat \<Rightarrow> nat \<Rightarrow> TransactionId) \<Rightarrow> nat \<Rightarrow> PeerIdentity list \<Rightarrow> PathManager \<times> PathEffect list" where
  "recheck_loop m draw n [] = (m, [])"
| "recheck_loop m draw n (peer # peers) =
     (let (m, effects) = send_checks m (draw n) peer;
          (m, more) = recheck_loop m draw (Suc n) peers
      in (m, effects @ more))"

definition maintain_paths ::
  "PathManager \<Rightarrow> instant \<Rightarrow> (nat \<Rightarrow> nat \<Rightarrow> TransactionId) \<Rightarrow> PathManager \<times> PathEffect list" where
  "maintain_paths m now draw =
     (let (m, nominations, heartbeats, recheck) = maintain_section m now;
          sends = concat (map (\<lambda>(nominated, heartbeat).
                    send_response m (np_local_endpoint nominated) (np_remote_endpoint nominated)
                      (Some (Heartbeat heartbeat))) heartbeats);
          (m, checks) = recheck_loop m draw 0 recheck
      in (m, nominations @ sends @ checks))"

definition path_state :: "instant \<Rightarrow> PeerIdentity \<times> PeerPath \<Rightarrow> LanPeerPathState" where
  "path_state now = (\<lambda>(peer, path).
     case pp_nominated path of
       None \<Rightarrow>
         \<lparr>st_peer = peer,
          st_status = (if PATH_UNAVAILABLE_AFTER \<le> duration_since now (pp_checking_since path)
                       then PsUnavailable else PsChecking),
          st_local_endpoint = None, st_remote_endpoint = None\<rparr>
     | Some nominated \<Rightarrow>
         \<lparr>st_peer = peer, st_status = PsUsable, st_local_endpoint = Some (np_local_endpoint nominated),
          st_remote_endpoint = Some (np_remote_endpoint nominated)\<rparr>)"

definition path_states :: "PathManager \<Rightarrow> instant \<Rightarrow> LanPeerPathState list" where
  "path_states m now = sort_key st_peer (map (path_state now) (pm_peers m))"

section \<open>Peers come and go\<close>

definition close_peer_data :: "PathManager \<Rightarrow> instant \<Rightarrow> PeerPath \<Rightarrow> LanDataDropReason \<Rightarrow> PathManager" where
  "close_peer_data m now path reason =
     m\<lparr>pm_ledger := ledger_close_epoch
         (record_dropped_batch (pm_ledger m) now (pp_key path) DirReceive StInboundQueue reason
            (of_nat (min (length (pp_inbound path)) (2 ^ 64 - 1))) 0) (pp_key path) now\<rparr>"

definition peer_path_new :: "instant \<Rightarrow> PeerIdentity \<Rightarrow> nat \<Rightarrow> PeerDataKey \<Rightarrow> PeerPath" where
  "peer_path_new now peer control key =
     \<lparr>pp_identity = peer, pp_control = control, pp_material = None, pp_remote_candidates = [],
      pp_checks = [], pp_nominated = None, pp_pending_nomination = None, pp_next_heartbeat_id = 1,
      pp_checking_since = now, pp_next_frame_id = 1, pp_last_received_frame_id = 0, pp_key = key,
      pp_inbound = []\<rparr>"

text \<open>\<open>fresh\<close>: the path material drawn when this peer is the one to offer.  The result names the
  path that was replaced.\<close>

definition connect_section ::
  "PathManager \<Rightarrow> instant \<Rightarrow> PathMaterial \<Rightarrow> PeerLifecycleEpoch \<Rightarrow> PeerIdentity \<Rightarrow> nat
     \<Rightarrow> PathManager \<times> PathEffect list \<times> PeerPath option" where
  "connect_section m now fresh epoch remote control =
     (if (case hm_get (pm_latest_epochs m) remote of None \<Rightarrow> False | Some latest \<Rightarrow> epoch \<le> latest)
      then (m, [], None)
      else
        let replaced = hm_get (pm_peers m) remote;
            (ledger, key) = ledger_activate (pm_ledger m) now remote epoch;
            path = peer_path_new now remote control key;
            offers = pm_local m < remote;
            path = (if offers then path\<lparr>pp_material := Some fresh\<rparr> else path)
        in (m\<lparr>pm_transactions := hm_retain (\<lambda>_ check. pk_peer check \<noteq> remote) (pm_transactions m),
              pm_ledger := ledger,
              pm_peers := hm_insert remote path (hm_remove remote (pm_peers m)),
              pm_latest_epochs := hm_insert remote epoch (pm_latest_epochs m),
              pm_latest_data_keys := hm_insert (id_steam_id64 remote) key (pm_latest_data_keys m),
              pm_peer_order := (if remote \<in> set (pm_peer_order m) then pm_peer_order m
                                else pm_peer_order m @ [remote])\<rparr>,
            (if offers then [EfControl control (path_offer (pm_local m) fresh (pm_candidates m))] else []),
            replaced))"

definition peer_connected ::
  "PathManager \<Rightarrow> instant \<Rightarrow> PathMaterial \<Rightarrow> PeerLifecycleEpoch \<Rightarrow> PeerDescriptor \<Rightarrow> nat
     \<Rightarrow> PathManager \<times> PathEffect list" where
  "peer_connected m now fresh epoch descriptor control =
     (let (m, offer, replaced) = connect_section m now fresh epoch (pd_identity descriptor) control in
      (case replaced of None \<Rightarrow> m | Some path \<Rightarrow> close_peer_data m now path DrGenerationClosed, offer))"

definition disconnect_section ::
  "PathManager \<Rightarrow> PeerIdentity \<Rightarrow> PeerLifecycleEpoch \<Rightarrow> PathManager \<times> PeerPath option" where
  "disconnect_section m peer epoch =
     (if (case hm_get (pm_latest_epochs m) peer of None \<Rightarrow> False | Some latest \<Rightarrow> epoch < latest) then (m, None)
      else
        let m = m\<lparr>pm_latest_epochs := hm_insert peer epoch (pm_latest_epochs m)\<rparr> in
        case hm_get (pm_peers m) peer of
          None \<Rightarrow> (m, None)
        | Some path \<Rightarrow>
            if dk_epoch (pp_key path) \<noteq> epoch then (m, None)
            else (m\<lparr>pm_transactions := hm_retain (\<lambda>_ check. pk_peer check \<noteq> peer) (pm_transactions m),
                     pm_peer_order := removeAll peer (pm_peer_order m),
                     pm_peers := hm_remove peer (pm_peers m)\<rparr>, Some path))"

definition peer_disconnected :: "PathManager \<Rightarrow> instant \<Rightarrow> PeerIdentity \<Rightarrow> PeerLifecycleEpoch \<Rightarrow> PathManager" where
  "peer_disconnected m now peer epoch =
     (let (m, removed) = disconnect_section m peer epoch in
      case removed of None \<Rightarrow> m | Some path \<Rightarrow> close_peer_data m now path DrGenerationClosed)"

fun record_closed :: "instant \<Rightarrow> LedgerState \<Rightarrow> (PeerDataKey \<times> u64) list \<Rightarrow> LedgerState" where
  "record_closed now ledger [] = ledger"
| "record_closed now ledger ((key, n) # rest) =
     record_closed now (record_dropped_batch ledger now key DirReceive StInboundQueue DrSessionClosed n 0) rest"

definition clear_inbound :: "PathManager \<Rightarrow> instant \<Rightarrow> PathManager" where
  "clear_inbound m now =
     (let dropped = map (\<lambda>(_, path). (pp_key path, of_nat (min (length (pp_inbound path)) (2 ^ 64 - 1))))
                      (filter (\<lambda>(_, path). pp_inbound path \<noteq> []) (pm_peers m))
      in m\<lparr>pm_peers := map (\<lambda>(peer, path). (peer, path\<lparr>pp_inbound := []\<rparr>)) (pm_peers m),
           pm_ledger := record_closed now (pm_ledger m) dropped\<rparr>)"

section \<open>Delivering inbound packets\<close>

text \<open>The search of \<open>pop_next_inbound\<close> over the peers from the cursor on, wrapping around.\<close>

fun pop_search :: "PathManager \<Rightarrow> nat \<Rightarrow> nat list \<Rightarrow> (nat \<times> PeerIdentity \<times> PeerPath \<times> InboundGamePacket) option" where
  "pop_search m cursor [] = None"
| "pop_search m cursor (offset # offsets) =
     (let index = (cursor + offset) mod length (pm_peer_order m);
          identity = pm_peer_order m ! index in
      case hm_get (pm_peers m) identity of
        None \<Rightarrow> pop_search m cursor offsets
      | Some path \<Rightarrow>
          case pp_inbound path of
            [] \<Rightarrow> pop_search m cursor offsets
          | packet # _ \<Rightarrow> Some (index, identity, path, packet))"

definition pop_next_inbound ::
  "PathManager \<Rightarrow> nat \<Rightarrow> PathManager \<times> nat \<times> (InboundGamePacket \<times> PeerDataKey) option" where
  "pop_next_inbound m cursor =
     (let peer_count = length (pm_peer_order m) in
      if peer_count = 0 then (m, 0, None)
      else
        let cursor = cursor mod peer_count in
        case pop_search m cursor [0..<peer_count] of
          None \<Rightarrow> (m, cursor, None)
        | Some (index, identity, path, packet) \<Rightarrow>
            let path = path\<lparr>pp_inbound := tl (pp_inbound path)\<rparr> in
            ((set_path m identity path)\<lparr>pm_ledger :=
                ledger_set_queue_depth (pm_ledger m) (pp_key path) DirReceive (length (pp_inbound path))\<rparr>,
             (index + 1) mod peer_count, Some (packet, pp_key path)))"

text \<open>The receipt of a delivered packet: accepted by the hook, dropped, or dropped unused.\<close>

definition complete_accepted :: "LedgerState \<Rightarrow> instant \<Rightarrow> PeerDataKey \<Rightarrow> LedgerState" where
  "complete_accepted ledger now key = ledger_record ledger now key DirReceive StHookQueue OcSucceeded None"

definition complete_dropped :: "LedgerState \<Rightarrow> instant \<Rightarrow> PeerDataKey \<Rightarrow> LanDataDropReason \<Rightarrow> LedgerState" where
  "complete_dropped ledger now key reason =
     (let ledger = ledger_record ledger now key DirReceive StHookQueue (OcDropped reason) None in
      if reason = DrGenerationClosed \<or> reason = DrSessionClosed then ledger_close_epoch ledger key now else ledger)"

definition receipt_drop :: "LedgerState \<Rightarrow> instant \<Rightarrow> PeerDataKey \<Rightarrow> bool \<Rightarrow> LedgerState" where
  "receipt_drop ledger now key completed =
     (if completed then ledger
      else ledger_record ledger now key DirReceive StHookQueue (OcDropped DrSessionClosed) None)"

section \<open>Game packets\<close>

datatype LanGameSendError = LgUnavailable u64 | LgQueueFull u64 | LgGenerationClosed u64

text \<open>What the outbound channel answers: taken, with the depth of its queue afterwards; full; closed.\<close>

datatype ChannelAnswer = ChSent usize | ChFull | ChClosed

text \<open>\<open>gate_open\<close>: whether the generation the packet was addressed to is still open when it is queued.\<close>

definition record_send ::
  "PathManager \<Rightarrow> instant \<Rightarrow> PeerDataKey \<Rightarrow> LanDataStage \<Rightarrow> LanDataOutcome \<Rightarrow> usize option \<Rightarrow> PathManager" where
  "record_send m now key stage outcome depth =
     m\<lparr>pm_ledger := ledger_record (pm_ledger m) now key DirSend stage outcome depth\<rparr>"

definition try_send_game ::
  "PathManager \<Rightarrow> instant \<Rightarrow> bool \<Rightarrow> ChannelAnswer \<Rightarrow> OutboundGamePacket
     \<Rightarrow> PathManager \<times> (LanGameSendError, unit) res" where
  "try_send_game m now gate_open answer packet =
     (let peer = og_to_steam_id64 packet in
      case find (\<lambda>path. id_steam_id64 (pp_identity path) = peer) (hm_values (pm_peers m)) of
        None \<Rightarrow>
          let (m, key) = (case hm_get (pm_latest_data_keys m) peer of
                            Some key \<Rightarrow> (m, key)
                          | None \<Rightarrow> let (ledger, key) = ledger_unattached (pm_ledger m) peer
                                    in (m\<lparr>pm_ledger := ledger\<rparr>, key))
          in (record_send m now key StOutboundQueue (OcDropped DrPeerUnavailable) (Some 0), Err (LgUnavailable peer))
      | Some path \<Rightarrow>
          let key = pp_key path in
          if \<not> gate_open
          then (record_send m now key StOutboundQueue (OcDropped DrGenerationClosed) (Some 0),
                Err (LgGenerationClosed peer))
          else case answer of
            ChSent depth \<Rightarrow> (record_send m now key StOutboundQueue OcQueued (Some depth), Ok ())
          | ChFull \<Rightarrow>
              (record_send m now key StOutboundQueue (OcDropped DrQueueFull) (Some PER_PEER_PACKET_QUEUE_CAPACITY),
               Err (LgQueueFull peer))
          | ChClosed \<Rightarrow>
              (record_send m now key StOutboundQueue (OcDropped DrQueueClosed) (Some 0),
               Err (LgGenerationClosed peer)))"

record LanGameSendSuccess =
  gs_peer :: u64
  gs_hook_sequence :: u32
  gs_delivery_sequence :: u64
  gs_channel :: i32
  gs_send_type :: i32
  gs_payload_bytes :: usize
  gs_wire_bytes :: usize

record PreparedOutbound =
  po_socket :: nat
  po_endpoint :: SocketAddr
  po_frame :: DirectData
  po_success :: LanGameSendSuccess

definition outbound_frame :: "PathManager \<Rightarrow> PeerPath \<Rightarrow> PathMaterial \<Rightarrow> OutboundGamePacket \<Rightarrow> DirectData" where
  "outbound_frame m path material packet =
     \<lparr>dd_path = path_context m material (pp_identity path), dd_frame_id = pp_next_frame_id path,
      dd_delivery_stream_id = og_delivery_stream_id packet,
      dd_delivery_sequence = og_delivery_sequence packet, dd_channel = og_channel packet,
      dd_send_type = og_send_type packet, dd_payload = og_payload packet\<rparr>"

definition prepare_outbound ::
  "PathManager \<Rightarrow> PeerDataKey \<Rightarrow> OutboundGamePacket \<Rightarrow> PathManager \<times> (LanDataDropReason, PreparedOutbound) res" where
  "prepare_outbound m key packet =
     (if DIRECT_MAX_PAYLOAD < length (og_payload packet) then (m, Err DrPayloadTooLarge)
      else
        case hm_get (pm_peers m) (dk_identity key) of
          None \<Rightarrow> (m, Err DrGenerationClosed)
        | Some path \<Rightarrow>
            if pp_key path \<noteq> key then (m, Err DrGenerationClosed)
            else
              case (pp_nominated path, pp_material path) of
                (Some nominated, Some material) \<Rightarrow>
                  (case socket_for m (np_local_endpoint nominated) of
                     None \<Rightarrow> (m, Err DrPeerUnavailable)
                   | Some socket \<Rightarrow>
                       let frame_id = pp_next_frame_id path in
                       (set_path m (dk_identity key)
                          (path\<lparr>pp_next_frame_id := (if frame_id = - 1 then 1 else frame_id + 1)\<rparr>),
                        Ok \<lparr>po_socket = socket, po_endpoint = np_remote_endpoint nominated,
                            po_frame = outbound_frame m path material packet,
                            po_success = \<lparr>gs_peer = og_to_steam_id64 packet,
                              gs_hook_sequence = og_hook_sequence packet,
                              gs_delivery_sequence = og_delivery_sequence packet,
                              gs_channel = og_channel packet, gs_send_type = og_send_type packet,
                              gs_payload_bytes = length (og_payload packet),
                              gs_wire_bytes = DIRECT_DATA_HEADER_LEN + length (og_payload packet)\<rparr>\<rparr>))
              | _ \<Rightarrow> (m, Err DrPeerUnavailable))"

text \<open>\<open>sent\<close>: whether the socket takes the datagram.  A successful send is reported to the observer.\<close>

definition send_outbound ::
  "PathManager \<Rightarrow> instant \<Rightarrow> PeerDataKey \<Rightarrow> bool \<Rightarrow> OutboundGamePacket
     \<Rightarrow> PathManager \<times> PathEffect list \<times> LanGameSendSuccess option" where
  "send_outbound m now key sent packet =
     (case prepare_outbound m key packet of
        (m, Ok prepared) \<Rightarrow>
          (case direct_encode (DirectDataF (po_frame prepared)) of
             Ok encoded \<Rightarrow>
               (record_send m now key StUdpSend (if sent then OcSucceeded else OcDropped DrSendFailed) None,
                if sent then [EfDatagram (po_socket prepared) (po_endpoint prepared) encoded] else [],
                if sent \<and> pm_observed m then Some (po_success prepared) else None)
           | _ \<Rightarrow> (record_send m now key StUdpSend (OcDropped DrEncodeFailed) None, [], None))
      | (m, Err reason) \<Rightarrow> (record_send m now key StUdpSend (OcDropped reason) None, [], None)
      | (m, Panic) \<Rightarrow> (m, [], None))"

definition drain_outbound :: "PathManager \<Rightarrow> instant \<Rightarrow> PeerDataKey \<Rightarrow> OutboundGamePacket list \<Rightarrow> PathManager" where
  "drain_outbound m now key queued =
     m\<lparr>pm_ledger := ledger_close_epoch
         (record_dropped_batch (pm_ledger m) now key DirSend StOutboundQueue DrGenerationClosed
            (foldl (\<lambda>n _. saturating_add n 1) 0 queued) 0) key now\<rparr>"

definition valid_data_path ::
  "u64 \<Rightarrow> PeerIdentity \<Rightarrow> SocketAddr \<Rightarrow> SocketAddr \<Rightarrow> NominatedPath \<Rightarrow> PathMaterial option \<Rightarrow> DirectData \<Rightarrow> bool" where
  "valid_data_path local_steam_id64 remote_identity local source nominated material frame \<longleftrightarrow>
     pc_to_steam_id64 (dd_path frame) = local_steam_id64 \<and> pc_from (dd_path frame) = remote_identity
     \<and> np_local_endpoint nominated = local \<and> np_remote_endpoint nominated = source
     \<and> (case material of
          None \<Rightarrow> False
        | Some material \<Rightarrow>
            mt_id material = pc_path_id (dd_path frame) \<and> mt_token material = pc_path_token (dd_path frame))"

definition direct_inbound :: "DirectData \<Rightarrow> InboundGamePacket" where
  "direct_inbound frame =
     \<lparr>ig_from_steam_id64 = id_steam_id64 (pc_from (dd_path frame)),
      ig_delivery_stream_id = dd_delivery_stream_id frame,
      ig_delivery_sequence = dd_delivery_sequence frame, ig_channel = dd_channel frame,
      ig_send_type = dd_send_type frame, ig_payload = dd_payload frame\<rparr>"

definition handle_data :: "PathManager \<Rightarrow> instant \<Rightarrow> SocketAddr \<Rightarrow> SocketAddr \<Rightarrow> DirectData \<Rightarrow> PathManager" where
  "handle_data m now local source frame =
     (let peer = pc_from (dd_path frame) in
      case hm_get (pm_peers m) peer of
        None \<Rightarrow> m
      | Some path \<Rightarrow>
          case pp_nominated path of
            None \<Rightarrow> m
          | Some nominated \<Rightarrow>
              if \<not> valid_data_path (id_steam_id64 (pm_local m)) (pp_identity path) local source nominated
                    (pp_material path) frame
                 \<or> dd_frame_id frame \<le> pp_last_received_frame_id path
              then m
              else
                let path = path\<lparr>pp_last_received_frame_id := dd_frame_id frame\<rparr>;
                    log = (\<lambda>outcome depth. ledger_record (pm_ledger m) now (pp_key path) DirReceive
                             StInboundQueue outcome (Some depth)) in
                if \<not> pm_observed m
                then (set_path m peer path)\<lparr>pm_ledger := log (OcDropped DrSessionClosed) (length (pp_inbound path))\<rparr>
                else if length (pp_inbound path) = PER_PEER_PACKET_QUEUE_CAPACITY
                then (set_path m peer path)\<lparr>pm_ledger := log (OcDropped DrQueueFull) (length (pp_inbound path))\<rparr>
                else
                  let path = path\<lparr>pp_inbound := pp_inbound path @ [direct_inbound frame]\<rparr> in
                  (set_path m peer path)\<lparr>pm_ledger := log OcQueued (length (pp_inbound path))\<rparr>)"

definition handle_datagram ::
  "PathManager \<Rightarrow> instant \<Rightarrow> SocketAddr \<Rightarrow> SocketAddr \<Rightarrow> byte list \<Rightarrow> PathManager \<times> PathEffect list" where
  "handle_datagram m now local source bytes =
     (case direct_decode bytes of
        Ok (Check check) \<Rightarrow> handle_check m local source check
      | Ok (Heartbeat heartbeat) \<Rightarrow> handle_heartbeat m now local source heartbeat
      | Ok (DirectDataF data) \<Rightarrow> (handle_data m now local source data, [])
      | _ \<Rightarrow> (m, []))"

end
