(* ===== verification/Lan_Path_Props.thy ===== *)
theory Lan_Path_Props
  imports Lan_Path
begin

text \<open>
  What the direct paths guarantee: the invariant of the path manager over every interleaving of its
  critical sections, and the properties that rest on it.
\<close>

section \<open>The invariant\<close>

definition path_ok :: "LocalCandidate list \<Rightarrow> PeerIdentity \<Rightarrow> PeerPath \<Rightarrow> bool" where
  "path_ok cands peer path \<longleftrightarrow>
     pp_identity path = peer \<and> dk_identity (pp_key path) = peer
     \<and> bm_wf (pp_checks path)
     \<and> (\<forall>l r. bm_get (pp_checks path) (l, r) \<noteq> None \<longrightarrow>
           l \<in> (hc_endpoint \<circ> lc_wire) ` set cands \<and> r \<in> hc_endpoint ` set (pp_remote_candidates path)
           \<and> pp_material path \<noteq> None)
     \<and> (\<forall>n. pp_nominated path = Some n \<longrightarrow>
           checked_both (pp_checks path) (np_local_endpoint n, np_remote_endpoint n))
     \<and> (\<forall>p. pp_pending_nomination path = Some p \<longrightarrow> checked_both (pp_checks path) p)
     \<and> length (pp_inbound path) \<le> 256"

definition manager_inv :: "PathManager \<Rightarrow> bool" where
  "manager_inv m \<longleftrightarrow> hm_wf (pm_peers m)
     \<and> (\<forall>peer path. hm_get (pm_peers m) peer = Some path \<longrightarrow>
           path_ok (pm_candidates m) peer path
           \<and> (\<exists>latest. hm_get (pm_latest_epochs m) peer = Some latest \<and> dk_epoch (pp_key path) \<le> latest))
     \<and> distinct (pm_peer_order m) \<and> set (pm_peer_order m) = dom (hm_get (pm_peers m))
     \<and> ledger_inv (pm_ledger m)"

text \<open>The critical sections.\<close>

inductive path_step :: "PathManager \<Rightarrow> PathManager \<Rightarrow> bool" where
  pstep_offer: "path_step m (fst (offer_section m now peer material cands))"
| pstep_checks: "path_step m (fst (send_checks m draw peer))"
| pstep_nominate: "path_step m (fst (handle_nominate m now peer path_id controller_local controller_remote))"
| pstep_ack: "path_step m (handle_nominate_ack m now peer path_id)"
| pstep_maybe: "path_step m (fst (maybe_nominate m peer))"
| pstep_check: "path_step m (fst (check_section m local source frame))"
| pstep_heartbeat: "path_step m (fst (handle_heartbeat m now local source beat))"
| pstep_maintain: "path_step m (fst (maintain_section m now))"
| pstep_connect: "path_step m (fst (connect_section m now fresh epoch remote control))"
| pstep_close: "path_step m (close_peer_data m now path reason)"
| pstep_disconnect: "path_step m (fst (disconnect_section m peer epoch))"
| pstep_clear: "path_step m (clear_inbound m now)"
| pstep_pop: "path_step m (fst (pop_next_inbound m cursor))"
| pstep_data: "path_step m (handle_data m now local source data)"
| pstep_send: "path_step m (fst (try_send_game m now gate_open answer packet))"
| pstep_outbound: "path_step m (fst (send_outbound m now key sent packet))"
| pstep_drain: "path_step m (drain_outbound m now key queued)"
| pstep_ledger: "ledger_step (pm_ledger m) ledger \<Longrightarrow> path_step m (m\<lparr>pm_ledger := ledger\<rparr>)"
| pstep_attach: "path_step m (fst (attach_send_observer m))"
| pstep_detach: "path_step m (detach_send_observer m)"

lemma manager_inv_frame [simp]:
  "manager_inv (m\<lparr>pm_transactions := t\<rparr>) = manager_inv m"
  "manager_inv (m\<lparr>pm_latest_data_keys := k\<rparr>) = manager_inv m"
  "manager_inv (m\<lparr>pm_observed := b\<rparr>) = manager_inv m"
  by (simp_all add: manager_inv_def)

lemma set_ledger_inv:
  "manager_inv m \<Longrightarrow> ledger_inv ledger \<Longrightarrow> manager_inv (m\<lparr>pm_ledger := ledger\<rparr>)"
  by (simp add: manager_inv_def)

lemma set_path_frame [simp]:
  "pm_candidates (set_path m peer path) = pm_candidates m" "pm_local (set_path m peer path) = pm_local m"
  "pm_ledger (set_path m peer path) = pm_ledger m" "pm_latest_epochs (set_path m peer path) = pm_latest_epochs m"
  "pm_peer_order (set_path m peer path) = pm_peer_order m" "pm_observed (set_path m peer path) = pm_observed m"
  "hm_get (pm_peers (set_path m peer path)) k = (if k = peer then Some path else hm_get (pm_peers m) k)"
  by (simp_all add: set_path_def)

lemma set_path_inv:
  assumes "manager_inv m" and "hm_get (pm_peers m) peer = Some old"
    and "path_ok (pm_candidates m) peer path" and "pp_key path = pp_key old"
  shows "manager_inv (set_path m peer path)"
proof -
  have "dom (hm_get (pm_peers (set_path m peer path))) = dom (hm_get (pm_peers m))"
    using assms(2) by (auto simp: set_path_def split: if_splits)
  then show ?thesis using assms by (auto simp: manager_inv_def set_path_def)
qed

lemma manager_path_ok:
  "manager_inv m \<Longrightarrow> hm_get (pm_peers m) peer = Some path \<Longrightarrow> path_ok (pm_candidates m) peer path"
  by (simp add: manager_inv_def)

lemma manager_ledger_ok: "manager_inv m \<Longrightarrow> ledger_inv (pm_ledger m)"
  by (simp add: manager_inv_def)

section \<open>The sections keep it\<close>

lemma offer_inv: "manager_inv m \<Longrightarrow> manager_inv (fst (offer_section m now peer material cands))"
  by (auto simp: offer_section_def Let_def path_ok_def dest: manager_path_ok
      intro!: set_path_inv split: option.splits)

lemma check_loop_frame:
  "\<exists>t. fst (check_loop m material peer draw ps) = m\<lparr>pm_transactions := t\<rparr>"
proof (induction m material peer draw ps rule: check_loop.induct)
  case (1 m material peer draw)
  show ?case by (intro exI [of _ "pm_transactions m"]) simp
next
  case (2 m material peer draw n local remote rest)
  then show ?case by (force simp: Let_def split_beta)
qed

lemma send_checks_frame: "\<exists>t. fst (send_checks m draw peer) = m\<lparr>pm_transactions := t\<rparr>"
  using check_loop_frame [of "m\<lparr>pm_transactions := hm_retain (\<lambda>_ check. pk_peer check \<noteq> peer) (pm_transactions m)\<rparr>"]
  by (fastforce simp: send_checks_def Let_def split: option.splits)

lemma send_checks_inv: "manager_inv m \<Longrightarrow> manager_inv (fst (send_checks m draw peer))"
  using send_checks_frame [of m draw peer] by auto

lemma nominate_inv:
  "manager_inv m \<Longrightarrow> manager_inv (fst (handle_nominate m now peer path_id controller_local controller_remote))"
  by (auto simp: handle_nominate_def path_ok_def dest: manager_path_ok intro!: set_path_inv split: option.splits)

lemma ack_inv: "manager_inv m \<Longrightarrow> manager_inv (handle_nominate_ack m now peer path_id)"
  by (auto simp: handle_nominate_ack_def path_ok_def dest: manager_path_ok intro!: set_path_inv split: option.splits)

lemma max_by_key_in: "max_by_key f xs = Some x \<Longrightarrow> x \<in> set xs"
  by (induction xs arbitrary: x) (auto split: option.splits if_splits)

lemma select_checked:
  assumes "bm_wf checks" and "select_candidate_pair checks lp rp = Some p"
  shows "checked_both checks p"
proof -
  obtain c where "(p, c) \<in> set checks" "ck_request_seen c" "ck_response_seen c"
    using assms(2) max_by_key_in by (fastforce simp: select_candidate_pair_def)
  then show ?thesis using assms(1) bm_get_eq_Some [of checks p c] by (simp add: checked_both_def)
qed

lemma maybe_inv: "manager_inv m \<Longrightarrow> manager_inv (fst (maybe_nominate m peer))"
proof -
  assume inv: "manager_inv m"
  then show ?thesis
    using select_checked
    by (auto simp: maybe_nominate_def path_ok_def dest: manager_path_ok intro!: set_path_inv
        split: option.splits)
qed

lemma checked_both_mono:
  assumes "checked_both checks p"
  shows "checked_both (bm_insert q ((check_entry checks q)\<lparr>ck_request_seen := True\<rparr>) checks) p"
    and "checked_both (bm_insert q ((check_entry checks q)\<lparr>ck_response_seen := True\<rparr>) checks) p"
  using assms by (auto simp: checked_both_def check_entry_def split: option.splits)

lemma path_ok_check:
  assumes "path_ok (pm_candidates m) peer path" and "check_accepted m path local source ctx"
  shows "path_ok (pm_candidates m) peer (path\<lparr>pp_checks := bm_insert (local, source)
           ((check_entry (pp_checks path) (local, source))\<lparr>ck_request_seen := True\<rparr>) (pp_checks path)\<rparr>)"
    and "path_ok (pm_candidates m) peer (path\<lparr>pp_checks := bm_insert (local, source)
           ((check_entry (pp_checks path) (local, source))\<lparr>ck_response_seen := True\<rparr>) (pp_checks path)\<rparr>)"
proof -
  have "local \<in> (hc_endpoint \<circ> lc_wire) ` set (pm_candidates m)"
    "source \<in> hc_endpoint ` set (pp_remote_candidates path)" "pp_material path \<noteq> None"
    using assms(2) by (auto simp: check_accepted_def has_material_def list_ex_iff split: option.splits)
  then show "path_ok (pm_candidates m) peer (path\<lparr>pp_checks := bm_insert (local, source)
           ((check_entry (pp_checks path) (local, source))\<lparr>ck_request_seen := True\<rparr>) (pp_checks path)\<rparr>)"
    and "path_ok (pm_candidates m) peer (path\<lparr>pp_checks := bm_insert (local, source)
           ((check_entry (pp_checks path) (local, source))\<lparr>ck_response_seen := True\<rparr>) (pp_checks path)\<rparr>)"
    using assms(1) checked_both_mono unfolding path_ok_def by auto
qed

lemma check_section_inv: "manager_inv m \<Longrightarrow> manager_inv (fst (check_section m local source frame))"
proof -
  assume inv: "manager_inv m"
  let ?peer = "pc_from (cf_path frame)"
  show ?thesis
  proof (cases "hm_get (pm_peers m) ?peer")
    case (Some path)
    have ok: "path_ok (pm_candidates m) ?peer path" using manager_path_ok [OF inv Some] .
    show ?thesis
    proof (cases "check_accepted m path local source (cf_path frame)")
      case True
      note c = path_ok_check [OF ok True]
      have r: "manager_inv (set_path (m\<lparr>pm_transactions := t\<rparr>) ?peer path')"
        if "path_ok (pm_candidates m) ?peer path'" "pp_key path' = pp_key path" for t path'
        using set_path_inv [of "m\<lparr>pm_transactions := t\<rparr>" ?peer path path'] inv Some that by simp
      show ?thesis
        using inv Some True set_path_inv [OF inv Some c(1)] r [OF c(2)]
        by (auto simp: check_section_def Let_def split: CheckPhase.splits option.splits)
    qed (use inv Some in \<open>simp add: check_section_def Let_def\<close>)
  qed (use inv in \<open>simp add: check_section_def Let_def\<close>)
qed

lemma heartbeat_inv: "manager_inv m \<Longrightarrow> manager_inv (fst (handle_heartbeat m now local source beat))"
  by (auto simp: handle_heartbeat_def Let_def path_ok_def dest: manager_path_ok intro!: set_path_inv
      split: option.splits)

lemma maintain_path_ok:
  "path_ok cands peer path \<Longrightarrow> path_ok cands peer (fst (maintain_path m now peer path))
     \<and> pp_key (fst (maintain_path m now peer path)) = pp_key path"
  by (auto simp: maintain_path_def Let_def path_ok_def split: option.splits)

lemma map_peers_get:
  "hm_get (map (\<lambda>(peer, path). (peer, f peer path)) ps) k = map_option (f k) (hm_get ps k)"
  by (induction ps) (auto simp: hm_get_def)

lemma map_peers_inv:
  assumes "manager_inv m"
    and "\<And>peer path. path_ok (pm_candidates m) peer path \<Longrightarrow>
           path_ok (pm_candidates m) peer (f peer path) \<and> pp_key (f peer path) = pp_key path"
  shows "manager_inv (m\<lparr>pm_peers := map (\<lambda>(peer, path). (peer, f peer path)) (pm_peers m)\<rparr>)"
proof -
  let ?ps = "map (\<lambda>(peer, path). (peer, f peer path)) (pm_peers m)"
  have wf: "hm_wf ?ps" using assms(1) by (simp add: manager_inv_def hm_wf_def comp_def split_beta)
  have "dom (hm_get ?ps) = dom (hm_get (pm_peers m))" by (auto simp: map_peers_get)
  then show ?thesis using assms wf by (auto simp: manager_inv_def map_peers_get)
qed

lemma maintain_section_inv: "manager_inv m \<Longrightarrow> manager_inv (fst (maintain_section m now))"
proof -
  assume inv: "manager_inv m"
  have "fst (maintain_section m now)
      = m\<lparr>pm_peers := map (\<lambda>(peer, path). (peer, fst (maintain_path m now peer path))) (pm_peers m)\<rparr>"
    by (simp add: maintain_section_def Let_def comp_def split_beta)
  with map_peers_inv [OF inv, of "\<lambda>peer path. fst (maintain_path m now peer path)"] maintain_path_ok
  show ?thesis by simp
qed

lemma record_closed_inv: "ledger_inv l \<Longrightarrow> ledger_inv (record_closed now l ds)"
  by (induction now l ds rule: record_closed.induct) (auto intro: record_dropped_batch_inv)

lemma clear_inbound_inv: "manager_inv m \<Longrightarrow> manager_inv (clear_inbound m now)"
proof -
  assume inv: "manager_inv m"
  have "manager_inv (m\<lparr>pm_peers := map (\<lambda>(peer, path). (peer, path\<lparr>pp_inbound := []\<rparr>)) (pm_peers m)\<rparr>)"
    using map_peers_inv [OF inv, of "\<lambda>_ path. path\<lparr>pp_inbound := []\<rparr>"] by (simp add: path_ok_def)
  from set_ledger_inv [OF this record_closed_inv [OF manager_ledger_ok [OF inv]]]
  show ?thesis by (simp add: clear_inbound_def Let_def)
qed

lemma close_peer_data_inv: "manager_inv m \<Longrightarrow> manager_inv (close_peer_data m now path reason)"
  unfolding close_peer_data_def
  using ledger_close_epoch_exact [OF record_dropped_batch_inv [OF manager_ledger_ok]]
  by (auto intro!: set_ledger_inv)

lemma connect_inv: "manager_inv m \<Longrightarrow> manager_inv (fst (connect_section m now fresh epoch remote control))"
proof (cases "case hm_get (pm_latest_epochs m) remote of None \<Rightarrow> False | Some latest \<Rightarrow> epoch \<le> latest")
  case False
  assume inv: "manager_inv m"
  obtain ledger key where a: "ledger_activate (pm_ledger m) now remote epoch = (ledger, key)" by fastforce
  have l: "ledger_inv ledger" using ledger_activate_inv [OF manager_ledger_ok [OF inv], of now remote epoch] a by simp
  have k: "dk_identity key = remote" "dk_epoch key = epoch"
    using a by (auto simp: ledger_activate_def Let_def split_beta)
  have ok: "path_ok cands remote (peer_path_new now remote control key)"
    "path_ok cands remote ((peer_path_new now remote control key)\<lparr>pp_material := Some fresh\<rparr>)" for cands
    using k by (simp_all add: path_ok_def peer_path_new_def)
  show ?thesis using inv l k ok False
    unfolding manager_inv_def connect_section_def Let_def a
    by (auto simp: peer_path_new_def split: if_splits)
qed (simp add: connect_section_def)

lemma disconnect_inv: "manager_inv m \<Longrightarrow> manager_inv (fst (disconnect_section m peer epoch))"
proof (cases "case hm_get (pm_latest_epochs m) peer of None \<Rightarrow> False | Some latest \<Rightarrow> epoch < latest")
  case False
  assume inv: "manager_inv m"
  have e: "dk_epoch (pp_key path) \<le> epoch" if "hm_get (pm_peers m) peer = Some path" for path
    using inv False that unfolding manager_inv_def by (fastforce split: option.splits)
  have 1: "manager_inv (m\<lparr>pm_latest_epochs := hm_insert peer epoch (pm_latest_epochs m)\<rparr>)"
    using inv e by (auto simp: manager_inv_def)
  have 2: "manager_inv (m'\<lparr>pm_peer_order := removeAll peer (pm_peer_order m'), pm_peers := hm_remove peer (pm_peers m')\<rparr>)"
    if "manager_inv m'" for m'
    using that by (auto simp: manager_inv_def distinct_removeAll split: if_splits)
  show ?thesis
    using False 1 2 [of "m\<lparr>pm_latest_epochs := hm_insert peer epoch (pm_latest_epochs m),
        pm_transactions := hm_retain (\<lambda>_ check. pk_peer check \<noteq> peer) (pm_transactions m)\<rparr>"]
    by (simp add: disconnect_section_def Let_def split: option.splits)
qed (simp add: disconnect_section_def)

lemma pop_search_Some:
  "pop_search m cursor offsets = Some (index, peer, path, packet) \<Longrightarrow>
     hm_get (pm_peers m) peer = Some path \<and> pp_inbound path \<noteq> [] \<and> packet = hd (pp_inbound path)"
  by (induction offsets) (auto simp: Let_def split: option.splits list.splits)

lemma path_ok_frame:
  "path_ok cands peer path \<Longrightarrow> path_ok cands peer (path\<lparr>pp_next_frame_id := f\<rparr>)"
  "path_ok cands peer path \<Longrightarrow> path_ok cands peer (path\<lparr>pp_last_received_frame_id := f\<rparr>)"
  "path_ok cands peer path \<Longrightarrow> length inbound \<le> 256 \<Longrightarrow> path_ok cands peer (path\<lparr>pp_inbound := inbound\<rparr>)"
  by (simp_all add: path_ok_def)

lemma set_path_ledger_inv:
  assumes "manager_inv m" and "hm_get (pm_peers m) peer = Some old"
    and "path_ok (pm_candidates m) peer path" and "pp_key path = pp_key old" and "ledger_inv ledger"
  shows "manager_inv ((set_path m peer path)\<lparr>pm_ledger := ledger\<rparr>)"
  using set_ledger_inv [OF set_path_inv [OF assms(1-4)] assms(5)] .

lemma pop_inv: "manager_inv m \<Longrightarrow> manager_inv (fst (pop_next_inbound m cursor))"
proof -
  assume inv: "manager_inv m"
  show ?thesis
  proof (cases "pop_search m (cursor mod length (pm_peer_order m)) [0..<length (pm_peer_order m)]")
    case (Some r)
    then obtain index peer path packet where r: "r = (index, peer, path, packet)" by (cases r)
    note p = pop_search_Some [OF Some [unfolded r]]
    have ok: "path_ok (pm_candidates m) peer path" using manager_path_ok [OF inv] p by blast
    then have "length (tl (pp_inbound path)) \<le> 256" by (auto simp: path_ok_def)
    then have "path_ok (pm_candidates m) peer (path\<lparr>pp_inbound := tl (pp_inbound path)\<rparr>)"
      using ok by (rule path_ok_frame(3) [rotated])
    then show ?thesis
      using inv p r Some ledger_set_queue_depth_inv [OF manager_ledger_ok [OF inv]]
      by (auto simp: pop_next_inbound_def Let_def intro!: set_path_ledger_inv)
  qed (use inv in \<open>simp add: pop_next_inbound_def Let_def\<close>)
qed

lemma handle_data_inv: "manager_inv m \<Longrightarrow> manager_inv (handle_data m now local source frame)"
proof -
  assume inv: "manager_inv m"
  let ?peer = "pc_from (dd_path frame)"
  note l = ledger_record_inv [OF manager_ledger_ok [OF inv]]
  show ?thesis
  proof (cases "hm_get (pm_peers m) ?peer")
    case (Some path)
    have ok: "path_ok (pm_candidates m) ?peer path" using manager_path_ok [OF inv Some] .
    have len: "length (pp_inbound path) \<noteq> 256 \<Longrightarrow> length (pp_inbound path @ [direct_inbound frame]) \<le> 256"
      using ok by (auto simp: path_ok_def)
    note ok1 = path_ok_frame(2) [OF ok, of "dd_frame_id frame"]
    show ?thesis
      using inv Some l ok1 path_ok_frame(3) [OF ok1, OF len]
      by (auto simp: handle_data_def Let_def PER_PEER_PACKET_QUEUE_CAPACITY_def
          intro!: set_path_ledger_inv split: option.splits)
  qed (use inv in \<open>simp add: handle_data_def Let_def\<close>)
qed

lemma record_send_inv: "manager_inv m \<Longrightarrow> manager_inv (record_send m now key stage outcome depth)"
  unfolding record_send_def using ledger_record_inv [OF manager_ledger_ok] by (auto intro: set_ledger_inv)

lemma try_send_inv: "manager_inv m \<Longrightarrow> manager_inv (fst (try_send_game m now gate_open answer packet))"
proof -
  assume inv: "manager_inv m"
  have "manager_inv (m\<lparr>pm_ledger := fst (ledger_unattached (pm_ledger m) peer)\<rparr>)" for peer
    using set_ledger_inv [OF inv ledger_unattached_inv [OF manager_ledger_ok [OF inv]]] .
  then show ?thesis using inv
    by (auto simp: try_send_game_def Let_def split_beta intro!: record_send_inv
        split: option.splits ChannelAnswer.splits)
qed

lemma prepare_inv: "manager_inv m \<Longrightarrow> manager_inv (fst (prepare_outbound m key packet))"
  by (auto simp: prepare_outbound_def Let_def intro!: set_path_inv path_ok_frame dest: manager_path_ok
      split: option.splits)

lemma send_outbound_inv: "manager_inv m \<Longrightarrow> manager_inv (fst (send_outbound m now key sent packet))"
proof -
  assume inv: "manager_inv m"
  obtain m' r where p: "prepare_outbound m key packet = (m', r)" by fastforce
  with prepare_inv [OF inv, of key packet] have "manager_inv m'" by simp
  then show ?thesis by (auto simp: send_outbound_def p intro!: record_send_inv split: res.splits)
qed

lemma drain_inv: "manager_inv m \<Longrightarrow> manager_inv (drain_outbound m now key queued)"
  unfolding drain_outbound_def
  using ledger_close_epoch_exact [OF record_dropped_batch_inv [OF manager_ledger_ok]]
  by (auto intro!: set_ledger_inv)

lemmas section_invs = offer_inv send_checks_inv nominate_inv ack_inv maybe_inv check_section_inv
  heartbeat_inv maintain_section_inv connect_inv close_peer_data_inv disconnect_inv clear_inbound_inv
  pop_inv handle_data_inv try_send_inv send_outbound_inv drain_inv

interpretation paths: invariant_system "\<lambda>m. \<exists>local cands. m = path_manager_new local cands" path_step manager_inv
proof (unfold_locales, goal_cases)
  case (1 m)
  have "ledger_inv ledger_new" by (rule ledger.inv_init) simp
  then show ?case using 1 by (auto simp: manager_inv_def path_manager_new_def)
next
  case (2 m m')
  from 2(2,1) show ?case
  proof cases
    case (pstep_ledger ledger)
    then show ?thesis using 2(1) set_ledger_inv ledger.inv_step manager_ledger_ok by blast
  qed (use 2(1) in \<open>simp_all add: section_invs attach_send_observer_def detach_send_observer_def\<close>)
qed

abbreviation path_reachable :: "PathManager \<Rightarrow> bool" where
  "path_reachable \<equiv> reachable_from (\<lambda>m. \<exists>local cands. m = path_manager_new local cands) path_step"

end
