(* ===== verification/Lan_Link.thy ===== *)
theory Lan_Link
  imports Lan_Path_Props Join_Code
begin

text \<open>
  The control links of a LAN room (\<open>lan/link.rs\<close>): admission of an inbound link, dialling an outbound
  one, the loop that serves a link, and the dialler.  A handler that holds one lock at a time is one
  function; what it sends on its own stream is returned as messages, what it queues for other links as
  effects.  Whether the stream takes a message, the answers of the other side, the clock and the
  identifiers drawn are arguments, and so are the JSON codec and SHA-256.
\<close>

section \<open>Shared state\<close>

definition SUPPORTED_PROTOCOLS :: "ProtocolRange list" where
  "SUPPORTED_PROTOCOLS = [\<lparr>pr_major = DIRECT_MAJOR, pr_min_minor = 0, pr_max_minor = DIRECT_MINOR\<rparr>]"

datatype LanIoKind =
    IkInvalidInput | IkPermissionDenied | IkTimedOut | IkUnexpectedEof | IkInvalidData
  | IkAlreadyExists | IkNotFound | IkAddrNotAvailable | IkOther

text \<open>The kind of an I/O error and its text; the text of wrapped errors is not carried.\<close>

datatype LanIoError = LanIo LanIoKind string

record ControlShared =
  cs_session_proof :: SessionProof
  cs_membership :: Membership
  cs_paths :: PathManager
  cs_dial_queue :: "PeerDescriptor list"

definition lan_send_control ::
  "(ControlMessage \<Rightarrow> ('j, byte list) res) \<Rightarrow> bool \<Rightarrow> ControlMessage \<Rightarrow> (LanIoError, byte list) res" where
  "lan_send_control to_vec stream_ok message =
     (case encode_control to_vec message of
        Ok payload \<Rightarrow> if stream_ok then Ok payload else Err (LanIo IkOther '''')
      | _ \<Rightarrow> Err (LanIo IkOther ''''))"

definition schedule_discovered :: "ControlShared \<Rightarrow> PeerDescriptor list \<Rightarrow> ControlShared" where
  "schedule_discovered shared peers = shared\<lparr>cs_dial_queue := cs_dial_queue shared @ peers\<rparr>"

definition shared_merge_hints :: "ControlShared \<Rightarrow> PeerDescriptor list \<Rightarrow> ControlShared \<times> PeerDescriptor list" where
  "shared_merge_hints shared peers =
     (let (membership, discovered) = merge_hints (cs_membership shared) peers
      in (shared\<lparr>cs_membership := membership\<rparr>, discovered))"

definition register_link ::
  "ControlShared \<Rightarrow> instant \<Rightarrow> PathMaterial \<Rightarrow> ActiveLink \<Rightarrow> ControlShared \<times> RegisterResult \<times> PathEffect list" where
  "register_link shared now fresh link =
     (let (membership, result) = register (cs_membership shared) link;
          shared = shared\<lparr>cs_membership := membership\<rparr>
      in case result of
           RrAccepted _ epoch \<Rightarrow>
             let (paths, effects) = peer_connected (cs_paths shared) now fresh epoch (al_descriptor link) (al_sender link)
             in (shared\<lparr>cs_paths := paths\<rparr>, result, effects)
         | _ \<Rightarrow> (shared, result, []))"

definition unregister_link ::
  "ControlShared \<Rightarrow> instant \<Rightarrow> PeerIdentity \<Rightarrow> LinkKey \<Rightarrow> bool \<Rightarrow> ControlShared \<times> bool" where
  "unregister_link shared now identity key graceful =
     (let (membership, removed) = remove_link (cs_membership shared) now identity key graceful;
          shared = shared\<lparr>cs_membership := membership\<rparr>
      in case removed of
           None \<Rightarrow> (shared, False)
         | Some epoch \<Rightarrow> (shared\<lparr>cs_paths := peer_disconnected (cs_paths shared) now identity epoch\<rparr>, True))"

definition broadcast_snapshot :: "ControlShared \<Rightarrow> PathEffect list" where
  "broadcast_snapshot shared =
     map (\<lambda>link. EfControl (al_sender link) (DPeerSnapshot (membership_snapshot (cs_membership shared))))
       (membership_links (cs_membership shared))"

section \<open>Admission\<close>

text \<open>What an admission leaves behind: the shared state, the reply, the messages queued for other
  links, the cancellation token of a link that was replaced, and the key of the link to serve.\<close>

record JoinResult =
  jr_shared :: ControlShared
  jr_reply :: "ControlMessage"
  jr_effects :: "PathEffect list"
  jr_cancelled :: "nat option"
  jr_running :: "LinkKey option"
  jr_result :: "(LanIoError, unit) res"

definition reject_join ::
  "(ControlMessage \<Rightarrow> ('j, byte list) res) \<Rightarrow> bool \<Rightarrow> ControlShared \<Rightarrow> DirectErrorCode \<Rightarrow> string \<Rightarrow> JoinResult" where
  "reject_join to_vec stream_ok shared code text =
     (let reply = DJoinRejected code text False
      in \<lparr>jr_shared = shared, jr_reply = reply, jr_effects = [], jr_cancelled = None, jr_running = None,
          jr_result = rbind (lan_send_control to_vec stream_ok reply) (\<lambda>_. Ok ())\<rparr>)"

record JoinFields =
  jf_link_id :: LinkId
  jf_peer :: PeerDescriptor
  jf_ranges :: "ProtocolRange list"
  jf_required :: u64
  jf_optional :: u64
  jf_proof :: SessionProof

definition join_key :: "JoinFields \<Rightarrow> LinkKey" where
  "join_key join = \<lparr>lk_link_id = jf_link_id join, lk_initiator = pd_identity (jf_peer join)\<rparr>"

definition admit_link ::
  "(ControlMessage \<Rightarrow> ('j, byte list) res) \<Rightarrow> bool \<Rightarrow> ControlShared \<Rightarrow> LinkKey \<Rightarrow> ProtocolVersion \<Rightarrow> u64
     \<Rightarrow> RegisterResult \<Rightarrow> PathEffect list \<Rightarrow> JoinResult" where
  "admit_link to_vec stream_ok shared key selected enabled result effects =
     (case result of
        RrAccepted replaced _ \<Rightarrow>
          let reply = DJoinAccepted selected enabled (membership_snapshot (cs_membership shared)) in
          (case lan_send_control to_vec stream_ok reply of
             Ok _ \<Rightarrow> \<lparr>jr_shared = shared, jr_reply = reply, jr_effects = effects @ broadcast_snapshot shared,
                      jr_cancelled = map_option al_cancellation replaced, jr_running = Some key, jr_result = Ok ()\<rparr>
           | Err e \<Rightarrow> \<lparr>jr_shared = shared, jr_reply = reply, jr_effects = effects,
                       jr_cancelled = map_option al_cancellation replaced, jr_running = None, jr_result = Err e\<rparr>
           | Panic \<Rightarrow> \<lparr>jr_shared = shared, jr_reply = reply, jr_effects = effects,
                       jr_cancelled = map_option al_cancellation replaced, jr_running = None, jr_result = Panic\<rparr>)
      | RrDuplicateLost \<Rightarrow>
          reject_join to_vec stream_ok shared DcInvalidState ''a preferred control link is already active''
      | RrDuplicateSteamIdentity \<Rightarrow>
          reject_join to_vec stream_ok shared DcDuplicateIdentity ''this Steam identity is already connected''
      | RrSelfConnection \<Rightarrow>
          reject_join to_vec stream_ok shared DcIdentityMismatch ''cannot connect a LAN peer to itself''
      | RrLifecycleExhausted \<Rightarrow>
          reject_join to_vec stream_ok shared DcInvalidState ''LAN peer lifecycle capacity is exhausted'')"

definition accept_inbound_join ::
  "(ControlMessage \<Rightarrow> ('j, byte list) res) \<Rightarrow> bool \<Rightarrow> ControlShared \<Rightarrow> instant \<Rightarrow> PathMaterial \<Rightarrow> nat \<Rightarrow> nat
     \<Rightarrow> JoinFields \<Rightarrow> JoinResult" where
  "accept_inbound_join to_vec stream_ok shared now fresh sender cancellation join =
     (if jf_proof join \<noteq> cs_session_proof shared
      then reject_join to_vec stream_ok shared DcInvalidCredential ''LAN session credential is invalid''
      else
        case direct_select_protocol SUPPORTED_PROTOCOLS (jf_ranges join) of
          Ok selected \<Rightarrow>
            (case direct_select_capabilities (jf_required join) (jf_optional join) DIRECT_CAPABILITIES of
               Ok enabled \<Rightarrow>
                 let key = join_key join;
                     (shared, result, effects) = register_link shared now fresh
                       \<lparr>al_key = key, al_descriptor = jf_peer join, al_sender = sender, al_cancellation = cancellation\<rparr>
                 in admit_link to_vec stream_ok shared key selected enabled result effects
             | _ \<Rightarrow> reject_join to_vec stream_ok shared DcUnsupportedProtocol
                      ''required direct capabilities are unavailable'')
        | _ \<Rightarrow> reject_join to_vec stream_ok shared DcUnsupportedProtocol ''no compatible direct protocol'')"

section \<open>Dialling\<close>

definition outbound_request :: "ControlShared \<Rightarrow> LinkId \<Rightarrow> ControlMessage" where
  "outbound_request shared link_id =
     DJoinRequest link_id (mb_local (cs_membership shared)) SUPPORTED_PROTOCOLS CAP_HOST_CANDIDATES
       DIRECT_CAPABILITIES (cs_session_proof shared)"

text \<open>What a peer that is dialled answers: whether it accepts the connection and the request, and
  the next item of its stream, \<open>None\<close> when the stream has ended.\<close>

record EndpointAnswers =
  ea_connected :: bool
  ea_stream_ok :: bool
  ea_response :: "byte list option option"
  ea_link_id :: LinkId
  ea_sender :: nat
  ea_cancellation :: nat

record DialResult =
  dr_shared :: ControlShared
  dr_effects :: "PathEffect list"
  dr_cancelled :: "nat option"
  dr_running :: "(LinkKey \<times> PeerDescriptor) option"
  dr_result :: "(LanIoError, unit) res"

definition dial_failed :: "ControlShared \<Rightarrow> LanIoKind \<Rightarrow> string \<Rightarrow> DialResult" where
  "dial_failed shared kind text =
     \<lparr>dr_shared = shared, dr_effects = [], dr_cancelled = None, dr_running = None, dr_result = Err (LanIo kind text)\<rparr>"

text \<open>The peers of an accepted admission.\<close>

fun admission_peers :: "ControlMessage \<Rightarrow> (LanIoError, PeerDescriptor list) res" where
  "admission_peers (DJoinAccepted _ _ peers) = Ok peers"
| "admission_peers (DJoinRejected _ text _) = Err (LanIo IkPermissionDenied text)"
| "admission_peers (DError _ text _) = Err (LanIo IkPermissionDenied text)"
| "admission_peers _ = Err (LanIo IkInvalidData ''unexpected LAN admission response'')"

definition admission_response ::
  "(byte list \<Rightarrow> ('j, ControlMessage) res) \<Rightarrow> byte list option option \<Rightarrow> (LanIoError, PeerDescriptor list) res" where
  "admission_response from_slice response =
     (case response of
        None \<Rightarrow> Err (LanIo IkUnexpectedEof ''LAN admission connection closed'')
      | Some None \<Rightarrow> Err (LanIo IkOther '''')
      | Some (Some payload) \<Rightarrow>
          (case decode_control from_slice payload of
             Ok message \<Rightarrow> admission_peers message
           | Err _ \<Rightarrow> Err (LanIo IkOther '''')
           | Panic \<Rightarrow> Panic))"

text \<open>From the accepted admission on there is no waiting: hints, registration, broadcast.\<close>

definition complete_outbound ::
  "ControlShared \<Rightarrow> instant \<Rightarrow> PathMaterial \<Rightarrow> EndpointAnswers \<Rightarrow> PeerDescriptor \<Rightarrow> PeerDescriptor list \<Rightarrow> DialResult" where
  "complete_outbound shared now fresh answers remote peers =
     (let local = mb_local (cs_membership shared);
          (shared, discovered) = shared_merge_hints shared peers;
          shared = schedule_discovered shared discovered;
          key = \<lparr>lk_link_id = ea_link_id answers, lk_initiator = pd_identity local\<rparr>;
          (shared, result, effects) = register_link shared now fresh
            \<lparr>al_key = key, al_descriptor = remote, al_sender = ea_sender answers, al_cancellation = ea_cancellation answers\<rparr>
      in case result of
           RrAccepted replaced _ \<Rightarrow>
             \<lparr>dr_shared = shared, dr_effects = effects @ broadcast_snapshot shared,
              dr_cancelled = map_option al_cancellation replaced, dr_running = Some (key, remote), dr_result = Ok ()\<rparr>
         | RrDuplicateLost \<Rightarrow>
             \<lparr>dr_shared = shared, dr_effects = [], dr_cancelled = None, dr_running = None, dr_result = Ok ()\<rparr>
         | RrDuplicateSteamIdentity \<Rightarrow> dial_failed shared IkAlreadyExists ''this Steam identity is already connected''
         | RrSelfConnection \<Rightarrow> dial_failed shared IkInvalidInput ''cannot connect a LAN peer to itself''
         | RrLifecycleExhausted \<Rightarrow> dial_failed shared IkOther ''LAN peer lifecycle capacity is exhausted'')"

definition establish_outbound_endpoint ::
  "(ControlMessage \<Rightarrow> ('j, byte list) res) \<Rightarrow> (byte list \<Rightarrow> ('j, ControlMessage) res)
     \<Rightarrow> ControlShared \<Rightarrow> instant \<Rightarrow> PathMaterial \<Rightarrow> PeerIdentity \<Rightarrow> EndpointAnswers \<Rightarrow> DialResult" where
  "establish_outbound_endpoint to_vec from_slice shared now fresh expected answers =
     (if \<not> ea_connected answers then dial_failed shared IkOther ''''
      else
        case lan_send_control to_vec (ea_stream_ok answers) (outbound_request shared (ea_link_id answers)) of
          Ok _ \<Rightarrow>
            (case admission_response from_slice (ea_response answers) of
               Ok peers \<Rightarrow>
                 (case find (\<lambda>peer. pd_identity peer = expected) peers of
                    None \<Rightarrow> dial_failed shared IkInvalidData ''LAN admission response omitted the expected peer''
                  | Some remote \<Rightarrow> complete_outbound shared now fresh answers remote peers)
             | Err (LanIo kind text) \<Rightarrow> dial_failed shared kind text
             | Panic \<Rightarrow> (dial_failed shared IkOther '''')\<lparr>dr_result := Panic\<rparr>)
        | Err (LanIo kind text) \<Rightarrow> dial_failed shared kind text
        | Panic \<Rightarrow> (dial_failed shared IkOther '''')\<lparr>dr_result := Panic\<rparr>)"

text \<open>The attempts on the endpoints of a peer, in order; \<open>None\<close> is one that timed out, which happens
  before the shared state changes.\<close>

fun establish_outbound_inner ::
  "(ControlMessage \<Rightarrow> ('j, byte list) res) \<Rightarrow> (byte list \<Rightarrow> ('j, ControlMessage) res)
     \<Rightarrow> ControlShared \<Rightarrow> instant \<Rightarrow> PathMaterial \<Rightarrow> PeerIdentity \<Rightarrow> LanIoError option
     \<Rightarrow> EndpointAnswers option list \<Rightarrow> DialResult" where
  "establish_outbound_inner to_vec from_slice shared now fresh expected last_error [] =
     (case last_error of
        None \<Rightarrow> dial_failed shared IkNotFound ''LAN peer has no control candidates''
      | Some (LanIo kind text) \<Rightarrow> dial_failed shared kind text)"
| "establish_outbound_inner to_vec from_slice shared now fresh expected last_error (None # rest) =
     establish_outbound_inner to_vec from_slice shared now fresh expected
       (Some (LanIo IkTimedOut ''LAN admission timed out'')) rest"
| "establish_outbound_inner to_vec from_slice shared now fresh expected last_error (Some answers # rest) =
     (let r = establish_outbound_endpoint to_vec from_slice shared now fresh expected answers in
      case dr_result r of
        Ok _ \<Rightarrow> r
      | Err e \<Rightarrow> establish_outbound_inner to_vec from_slice (dr_shared r) now fresh expected (Some e) rest
      | Panic \<Rightarrow> r)"

definition establish_outbound ::
  "(ControlMessage \<Rightarrow> ('j, byte list) res) \<Rightarrow> (byte list \<Rightarrow> ('j, ControlMessage) res)
     \<Rightarrow> ControlShared \<Rightarrow> instant \<Rightarrow> PathMaterial \<Rightarrow> PeerIdentity \<Rightarrow> EndpointAnswers option list \<Rightarrow> DialResult" where
  "establish_outbound to_vec from_slice shared now fresh expected attempts =
     (let (membership, begun) = begin_dial (cs_membership shared) expected;
          shared = shared\<lparr>cs_membership := membership\<rparr>
      in if \<not> begun
         then \<lparr>dr_shared = shared, dr_effects = [], dr_cancelled = None, dr_running = None, dr_result = Ok ()\<rparr>
         else
           let r = establish_outbound_inner to_vec from_slice shared now fresh expected None attempts;
               shared = dr_shared r
           in r\<lparr>dr_shared := shared\<lparr>cs_membership :=
                  end_dial (cs_membership shared) now expected (\<not> is_ok (dr_result r))\<rparr>\<rparr>)"

section \<open>Serving a link\<close>

text \<open>What \<open>run_link\<close> can wake up for; the flag says whether the stream takes what is sent.\<close>

datatype LinkEvent =
    LeShutdown bool
  | LeCancelled
  | LeOutbound "ControlMessage option" bool
  | LeIncoming "byte list option" bool
  | LeAntiEntropy bool

text \<open>One turn of the loop: the shared state, the messages sent on the link, those queued elsewhere,
  and, when the loop ends, whether the peer left gracefully.\<close>

type_synonym link_turn = "ControlShared \<times> ControlMessage list \<times> PathEffect list \<times> bool option"

definition link_send ::
  "(ControlMessage \<Rightarrow> ('j, byte list) res) \<Rightarrow> bool \<Rightarrow> ControlShared \<Rightarrow> ControlMessage \<Rightarrow> link_turn" where
  "link_send to_vec stream_ok shared message =
     (if is_ok (lan_send_control to_vec stream_ok message) then (shared, [message], [], None)
      else (shared, [], [], Some False))"

fun link_message ::
  "(ControlMessage \<Rightarrow> ('j, byte list) res) \<Rightarrow> bool \<Rightarrow> ControlShared \<Rightarrow> instant \<Rightarrow> (nat \<Rightarrow> TransactionId)
     \<Rightarrow> PeerDescriptor \<Rightarrow> LinkKey \<Rightarrow> ControlMessage \<Rightarrow> link_turn" where
  "link_message to_vec stream_ok shared now draw remote key (DPeerSnapshot peers) =
     (let (shared, discovered) = shared_merge_hints shared peers
      in (schedule_discovered shared discovered, [], [], None))"
| "link_message to_vec stream_ok shared now draw remote key DLeave = (shared, [], [], Some True)"
| "link_message to_vec stream_ok shared now draw remote key (DControlPing n) =
     link_send to_vec stream_ok shared (DControlPong n)"
| "link_message to_vec stream_ok shared now draw remote key (DControlPong n) = (shared, [], [], None)"
| "link_message to_vec stream_ok shared now draw remote key message =
     (if is_active_link (cs_membership shared) (pd_identity remote) key
      then (let (paths, effects, _) = path_handle_control (cs_paths shared) now draw (pd_identity remote) message
            in (shared\<lparr>cs_paths := paths\<rparr>, [], effects, None))
      else (shared, [], [], None))"

fun link_event ::
  "(ControlMessage \<Rightarrow> ('j, byte list) res) \<Rightarrow> (byte list \<Rightarrow> ('j, ControlMessage) res)
     \<Rightarrow> ControlShared \<Rightarrow> instant \<Rightarrow> (nat \<Rightarrow> TransactionId) \<Rightarrow> PeerDescriptor \<Rightarrow> LinkKey \<Rightarrow> LinkEvent \<Rightarrow> link_turn" where
  "link_event to_vec from_slice shared now draw remote key (LeShutdown stream_ok) =
     (shared, if is_ok (lan_send_control to_vec stream_ok DLeave) then [DLeave] else [], [], Some True)"
| "link_event to_vec from_slice shared now draw remote key LeCancelled = (shared, [], [], Some False)"
| "link_event to_vec from_slice shared now draw remote key (LeOutbound None stream_ok) = (shared, [], [], Some False)"
| "link_event to_vec from_slice shared now draw remote key (LeOutbound (Some message) stream_ok) =
     link_send to_vec stream_ok shared message"
| "link_event to_vec from_slice shared now draw remote key (LeIncoming None stream_ok) = (shared, [], [], Some False)"
| "link_event to_vec from_slice shared now draw remote key (LeIncoming (Some payload) stream_ok) =
     (case decode_control from_slice payload of
        Ok message \<Rightarrow> link_message to_vec stream_ok shared now draw remote key message
      | _ \<Rightarrow> (shared, [], [], Some False))"
| "link_event to_vec from_slice shared now draw remote key (LeAntiEntropy stream_ok) =
     link_send to_vec stream_ok shared (DPeerSnapshot (membership_snapshot (cs_membership shared)))"

definition link_end ::
  "ControlShared \<Rightarrow> instant \<Rightarrow> PeerDescriptor \<Rightarrow> LinkKey \<Rightarrow> bool \<Rightarrow> ControlShared \<times> PathEffect list" where
  "link_end shared now remote key graceful =
     (let (shared, removed) = unregister_link shared now (pd_identity remote) key graceful in
      if removed
      then (let effects = broadcast_snapshot shared
            in (if graceful then shared else schedule_discovered shared [remote], effects))
      else (shared, []))"

text \<open>The events of a link in the order it wakes up for them; the flag of the result says that the
  link is still served.\<close>

fun run_link ::
  "(ControlMessage \<Rightarrow> ('j, byte list) res) \<Rightarrow> (byte list \<Rightarrow> ('j, ControlMessage) res)
     \<Rightarrow> ControlShared \<Rightarrow> PeerDescriptor \<Rightarrow> LinkKey \<Rightarrow> (instant \<times> (nat \<Rightarrow> TransactionId) \<times> LinkEvent) list
     \<Rightarrow> ControlShared \<times> ControlMessage list \<times> PathEffect list \<times> bool" where
  "run_link to_vec from_slice shared remote key [] = (shared, [], [], True)"
| "run_link to_vec from_slice shared remote key ((now, draw, event) # events) =
     (let (shared, sent, effects, ended) = link_event to_vec from_slice shared now draw remote key event in
      case ended of
        Some graceful \<Rightarrow>
          (let (shared, more) = link_end shared now remote key graceful in (shared, sent, effects @ more, False))
      | None \<Rightarrow>
          let (shared, sent', effects', running) = run_link to_vec from_slice shared remote key events
          in (shared, sent @ sent', effects @ effects', running))"

section \<open>The dialler\<close>

definition dialer_maintenance :: "ControlShared \<Rightarrow> instant \<Rightarrow> ControlShared \<times> PeerDescriptor list" where
  "dialer_maintenance shared now =
     (let membership = membership_expire (cs_membership shared) now
      in (shared\<lparr>cs_membership := membership\<rparr>, retry_candidates membership now))"

definition dial_endpoints :: "PeerDescriptor \<Rightarrow> SocketAddr list" where
  "dial_endpoints peer = map hc_endpoint (pd_control_candidates peer)"

end
