(* ===== verification/Lan_Path_Guarantees.thy ===== *)
theory Lan_Path_Guarantees
  imports Lan_Path_Props
begin

text \<open>
  The properties of the direct paths: which pairs are nominated, that no datagram is delivered twice
  within a lifecycle of a peer, that what one player sends over a nominated path the other delivers
  unchanged, and that waiting packets are always found.
\<close>

section \<open>Progress of frame numbers and epochs\<close>

definition advances :: "PathManager \<Rightarrow> PathManager \<Rightarrow> bool" where
  "advances m m' \<longleftrightarrow> (\<forall>peer.
     (\<forall>l. hm_get (pm_latest_epochs m) peer = Some l \<longrightarrow>
        (\<exists>l'. hm_get (pm_latest_epochs m') peer = Some l' \<and> l \<le> l'))
     \<and> (\<forall>path'. hm_get (pm_peers m') peer = Some path' \<longrightarrow>
          (\<exists>path. hm_get (pm_peers m) peer = Some path \<and> pp_key path' = pp_key path
             \<and> pp_last_received_frame_id path \<le> pp_last_received_frame_id path')
          \<or> (case hm_get (pm_latest_epochs m) peer of None \<Rightarrow> True | Some l \<Rightarrow> l < dk_epoch (pp_key path'))))"

lemma advances_refl [simp, intro]: "advances m m"
  by (auto simp: advances_def)

lemma advances_frame [simp]:
  "advances m (m'\<lparr>pm_transactions := t\<rparr>) = advances m m'"
  "advances m (m'\<lparr>pm_latest_data_keys := k\<rparr>) = advances m m'"
  "advances m (m'\<lparr>pm_observed := b\<rparr>) = advances m m'"
  "advances m (m'\<lparr>pm_ledger := ledger\<rparr>) = advances m m'"
  "advances m (set_path (m\<lparr>pm_transactions := t\<rparr>) peer path) = advances m (set_path m peer path)"
  by (simp_all add: advances_def set_path_def)

lemma advances_set_path [intro]:
  "hm_get (pm_peers m) peer = Some old \<Longrightarrow> pp_key path = pp_key old \<Longrightarrow>
     pp_last_received_frame_id old \<le> pp_last_received_frame_id path \<Longrightarrow> advances m (set_path m peer path)"
  by (auto simp: advances_def)

lemma advances_map_peers:
  assumes "\<And>peer path. pp_key (f peer path) = pp_key path
      \<and> pp_last_received_frame_id path = pp_last_received_frame_id (f peer path)"
  shows "advances m (m\<lparr>pm_peers := map (\<lambda>(peer, path). (peer, f peer path)) (pm_peers m)\<rparr>)"
  using assms by (auto simp: advances_def map_peers_get)

lemma send_checks_advances: "advances m (fst (send_checks m draw peer))"
  using send_checks_frame [of m draw peer] by auto

lemma maintain_advances: "advances m (fst (maintain_section m now))"
proof -
  have "fst (maintain_section m now)
      = m\<lparr>pm_peers := map (\<lambda>(peer, path). (peer, fst (maintain_path m now peer path))) (pm_peers m)\<rparr>"
    by (simp add: maintain_section_def Let_def comp_def split_beta)
  then show ?thesis
    using advances_map_peers [of "\<lambda>peer path. fst (maintain_path m now peer path)" m]
    by (auto simp: maintain_path_def Let_def split: option.splits)
qed

lemma clear_advances: "advances m (clear_inbound m now)"
  using advances_map_peers [of "\<lambda>_ path. path\<lparr>pp_inbound := []\<rparr>" m] by (simp add: clear_inbound_def Let_def)

lemma connect_advances: "advances m (fst (connect_section m now fresh epoch remote control))"
proof -
  have "dk_epoch (snd (ledger_activate l now remote epoch)) = epoch" for l
    by (simp add: ledger_activate_def Let_def split_beta)
  then show ?thesis
    by (auto simp: connect_section_def Let_def split_beta advances_def peer_path_new_def
        split: option.splits if_splits)
qed

lemma disconnect_advances: "advances m (fst (disconnect_section m peer epoch))"
  by (auto simp: disconnect_section_def Let_def advances_def split: option.splits if_splits)

lemma pop_advances: "advances m (fst (pop_next_inbound m cursor))"
  by (auto simp: pop_next_inbound_def Let_def dest!: pop_search_Some split: option.splits)

lemma data_advances: "advances m (handle_data m now local source frame)"
  by (auto simp: handle_data_def Let_def split: option.splits)

lemma send_advances:
  "advances m (fst (try_send_game m now gate_open answer packet))"
  "advances m (fst (send_outbound m now key sent packet))"
  by (auto simp: try_send_game_def send_outbound_def prepare_outbound_def record_send_def Let_def split_beta
      split: option.splits ChannelAnswer.splits res.splits prod.splits if_splits)

lemma check_advances: "advances m (fst (check_section m local source frame))"
  by (auto simp: check_section_def Let_def split: option.splits CheckPhase.splits)

lemma path_step_advances: "path_step m m' \<Longrightarrow> advances m m'"
  by (induction rule: path_step.induct)
    (auto simp: send_checks_advances maintain_advances clear_advances connect_advances disconnect_advances
      pop_advances data_advances send_advances check_advances offer_section_def handle_nominate_def
      handle_nominate_ack_def maybe_nominate_def handle_heartbeat_def close_peer_data_def drain_outbound_def
      attach_send_observer_def detach_send_observer_def Let_def split: option.splits)

text \<open>From some point on, frame \<open>f\<close> of the lifecycle \<open>e\<close> of a peer has been seen.\<close>

definition frame_seen :: "PeerIdentity \<Rightarrow> PeerLifecycleEpoch \<Rightarrow> u64 \<Rightarrow> PathManager \<Rightarrow> bool" where
  "frame_seen peer e f m \<longleftrightarrow>
     (\<exists>l. hm_get (pm_latest_epochs m) peer = Some l \<and> e \<le> l)
     \<and> (\<forall>path. hm_get (pm_peers m) peer = Some path \<longrightarrow>
          dk_epoch (pp_key path) = e \<and> f \<le> pp_last_received_frame_id path \<or> e < dk_epoch (pp_key path))"

lemma frame_seen_step: "frame_seen peer e f m \<Longrightarrow> advances m m' \<Longrightarrow> frame_seen peer e f m'"
  unfolding frame_seen_def advances_def by (fastforce split: option.splits)

lemma frame_seen_steps: "path_step\<^sup>*\<^sup>* m m' \<Longrightarrow> frame_seen peer e f m \<Longrightarrow> frame_seen peer e f m'"
  by (induction rule: rtranclp_induct) (auto intro: frame_seen_step path_step_advances)

section \<open>Samples\<close>

definition sample_a :: PeerIdentity where
  "sample_a = \<lparr>id_steam_id64 = 1, id_instance_id = replicate 16 1\<rparr>"

definition sample_b :: PeerIdentity where
  "sample_b = \<lparr>id_steam_id64 = 2, id_instance_id = replicate 16 2\<rparr>"

definition end_a :: SocketAddr where "end_a = SockV4 1 100"
definition end_b :: SocketAddr where "end_b = SockV4 2 200"

definition sample_material :: PathMaterial where
  "sample_material = \<lparr>mt_id = replicate 16 7, mt_token = replicate 16 8\<rparr>"

definition sample_candidate :: "SocketAddr \<Rightarrow> HostCandidate" where
  "sample_candidate addr = \<lparr>hc_endpoint = addr, hc_priority = 5, hc_generation = 1\<rparr>"

definition sample_check :: "PeerIdentity \<Rightarrow> u64 \<Rightarrow> CheckPhase \<Rightarrow> CheckFrame" where
  "sample_check sender to phase = \<lparr>cf_path = \<lparr>pc_path_id = replicate 16 7, pc_path_token = replicate 16 8,
     pc_from = sender, pc_to_steam_id64 = to\<rparr>, cf_transaction_id = replicate 16 9, cf_phase = phase\<rparr>"

text \<open>A manager that has connected the other peer, exchanged offers and checked the pair.\<close>

definition checked_manager :: "PeerIdentity \<Rightarrow> SocketAddr \<Rightarrow> PeerIdentity \<Rightarrow> SocketAddr \<Rightarrow> PathManager" where
  "checked_manager me mine peer theirs =
     (let m0 = path_manager_new me [\<lparr>lc_wire = sample_candidate mine, lc_socket = 0\<rparr>];
          m1 = fst (attach_send_observer m0);
          m2 = fst (connect_section m1 0 sample_material 1 peer 0);
          m3 = fst (offer_section m2 0 peer sample_material [sample_candidate theirs]);
          m4 = fst (send_checks m3 (\<lambda>_. replicate 16 9) peer);
          m5 = fst (check_section m4 mine theirs (sample_check peer (id_steam_id64 me) CheckRequest))
      in fst (check_section m5 mine theirs (sample_check peer (id_steam_id64 me) CheckResponse)))"

lemma path_reach: "path_reachable m \<Longrightarrow> path_step m m' \<Longrightarrow> path_reachable m'"
  by (rule reach_step)

lemma checked_manager_reachable: "path_reachable (checked_manager me mine peer theirs)"
proof -
  have "path_reachable (path_manager_new me cands)" for cands by (rule reach_init) blast
  then show ?thesis unfolding checked_manager_def Let_def
    by (intro path_reach [OF _ pstep_check] path_reach [OF _ pstep_checks] path_reach [OF _ pstep_offer]
        path_reach [OF _ pstep_connect] path_reach [OF _ pstep_attach])
qed

lemma checked_manager_state:
  assumes "me \<noteq> peer"
  shows "pm_local (checked_manager me mine peer theirs) = me"
    and "pm_observed (checked_manager me mine peer theirs)"
    and "pm_candidates (checked_manager me mine peer theirs) = [\<lparr>lc_wire = sample_candidate mine, lc_socket = 0\<rparr>]"
    and "hm_get (pm_peers (checked_manager me mine peer theirs)) peer =
       Some \<lparr>pp_identity = peer, pp_control = 0, pp_material = Some sample_material,
         pp_remote_candidates = [sample_candidate theirs],
         pp_checks = [((mine, theirs), \<lparr>ck_request_seen = True, ck_response_seen = True\<rparr>)], pp_nominated = None,
         pp_pending_nomination = None, pp_next_heartbeat_id = 1, pp_checking_since = 0, pp_next_frame_id = 1,
         pp_last_received_frame_id = 0, pp_key = snd (ledger_activate ledger_new 0 peer 1), pp_inbound = []\<rparr>"
proof -
  let ?cands = "[\<lparr>lc_wire = sample_candidate mine, lc_socket = 0\<rparr>]"
  let ?act = "ledger_activate ledger_new 0 peer 1"
  define p0 where "p0 = (peer_path_new 0 peer 0 (snd ?act))\<lparr>pp_material := Some sample_material,
      pp_remote_candidates := [sample_candidate theirs]\<rparr>"
  define m3 where "m3 = fst (offer_section (fst (connect_section (fst (attach_send_observer (path_manager_new me ?cands)))
      0 sample_material 1 peer 0)) 0 peer sample_material [sample_candidate theirs])"
  have m3: "pm_local m3 = me" "pm_observed m3" "pm_candidates m3 = ?cands" "pm_transactions m3 = []"
    "hm_get (pm_peers m3) peer = Some p0"
    using assms by (simp_all add: m3_def path_manager_new_def attach_send_observer_def connect_section_def
        offer_section_def split_beta Let_def peer_path_new_def p0_def set_path_def hm_retain_def)
  define m4 where "m4 = fst (send_checks m3 (\<lambda>_. replicate 16 9) peer)"
  have m4: "pm_local m4 = me" "pm_observed m4" "pm_candidates m4 = ?cands"
    "hm_get (pm_peers m4) peer = Some p0"
    "hm_get (pm_transactions m4) (replicate 16 9)
       = Some \<lparr>pk_peer = peer, pk_local_endpoint = mine, pk_remote_endpoint = theirs\<rparr>"
    using m3 by (simp_all add: m4_def send_checks_def p0_def Let_def sample_candidate_def)
  define m5 where "m5 = fst (check_section m4 mine theirs (sample_check peer (id_steam_id64 me) CheckRequest))"
  have m5: "pm_local m5 = me" "pm_observed m5" "pm_candidates m5 = ?cands"
    "hm_get (pm_peers m5) peer
       = Some (p0\<lparr>pp_checks := [((mine, theirs), \<lparr>ck_request_seen = True, ck_response_seen = False\<rparr>)]\<rparr>)"
    "hm_get (pm_transactions m5) (replicate 16 9)
       = Some \<lparr>pk_peer = peer, pk_local_endpoint = mine, pk_remote_endpoint = theirs\<rparr>"
    using m4 by (simp_all add: m5_def check_section_def sample_check_def Let_def check_accepted_def has_material_def
        p0_def sample_material_def sample_candidate_def check_entry_def bm_get_def peer_path_new_def set_path_def)
  have e: "checked_manager me mine peer theirs
      = fst (check_section m5 mine theirs (sample_check peer (id_steam_id64 me) CheckResponse))"
    by (simp add: checked_manager_def Let_def m5_def m4_def m3_def)
  show "pm_local (checked_manager me mine peer theirs) = me"
    "pm_observed (checked_manager me mine peer theirs)"
    "pm_candidates (checked_manager me mine peer theirs) = ?cands"
    "hm_get (pm_peers (checked_manager me mine peer theirs)) peer =
       Some \<lparr>pp_identity = peer, pp_control = 0, pp_material = Some sample_material,
         pp_remote_candidates = [sample_candidate theirs],
         pp_checks = [((mine, theirs), \<lparr>ck_request_seen = True, ck_response_seen = True\<rparr>)], pp_nominated = None,
         pp_pending_nomination = None, pp_next_heartbeat_id = 1, pp_checking_since = 0, pp_next_frame_id = 1,
         pp_last_received_frame_id = 0, pp_key = snd (ledger_activate ledger_new 0 peer 1), pp_inbound = []\<rparr>"
    unfolding e using m5
    by (simp_all add: check_section_def sample_check_def Let_def check_accepted_def has_material_def p0_def
        sample_material_def sample_candidate_def check_entry_def bm_get_def peer_path_new_def set_path_def)
qed

definition sample_sender :: PathManager where
  "sample_sender = handle_nominate_ack (fst (maybe_nominate (checked_manager sample_a end_a sample_b end_b) sample_b))
     0 sample_b (replicate 16 7)"

definition sample_receiver :: PathManager where
  "sample_receiver = fst (handle_nominate (checked_manager sample_b end_b sample_a end_a) 0 sample_a (replicate 16 7) end_a end_b)"

lemma sample_managers_reachable: "path_reachable sample_sender" "path_reachable sample_receiver"
  unfolding sample_sender_def sample_receiver_def
  by (intro path_reach [OF _ pstep_ack] path_reach [OF _ pstep_maybe] path_reach [OF _ pstep_nominate]
      checked_manager_reachable)+

text \<open>The path of a sample manager once its pair is nominated.\<close>

definition sample_path :: "SocketAddr \<Rightarrow> PeerIdentity \<Rightarrow> SocketAddr \<Rightarrow> PeerPath" where
  "sample_path mine peer theirs =
     \<lparr>pp_identity = peer, pp_control = 0, pp_material = Some sample_material,
      pp_remote_candidates = [sample_candidate theirs],
      pp_checks = [((mine, theirs), \<lparr>ck_request_seen = True, ck_response_seen = True\<rparr>)],
      pp_nominated = Some \<lparr>np_local_endpoint = mine, np_remote_endpoint = theirs, np_last_seen = 0\<rparr>,
      pp_pending_nomination = None, pp_next_heartbeat_id = 1, pp_checking_since = 0, pp_next_frame_id = 1,
      pp_last_received_frame_id = 0, pp_key = snd (ledger_activate ledger_new 0 peer 1), pp_inbound = []\<rparr>"

lemma sample_order: "sample_a < sample_b" "\<not> sample_b < sample_a" "sample_a \<noteq> sample_b" "sample_b \<noteq> sample_a"
proof -
  show "sample_a < sample_b" by (simp add: sample_a_def sample_b_def less_PeerIdentity_ext_def)
  then show "\<not> sample_b < sample_a" "sample_a \<noteq> sample_b" "sample_b \<noteq> sample_a" by auto
qed

lemma sample_sender_state:
  "hm_get (pm_peers sample_sender) sample_b = Some (sample_path end_a sample_b end_b)"
  "pm_local sample_sender = sample_a" "pm_observed sample_sender"
  "pm_candidates sample_sender = [\<lparr>lc_wire = sample_candidate end_a, lc_socket = 0\<rparr>]"
  using checked_manager_state [of sample_a sample_b end_a end_b]
  by (simp_all add: sample_sender_def maybe_nominate_def handle_nominate_ack_def sample_order has_path_id_def
      select_candidate_pair_def sample_path_def sample_material_def)

lemma sample_receiver_state:
  "hm_get (pm_peers sample_receiver) sample_a = Some (sample_path end_b sample_a end_a)"
  "pm_local sample_receiver = sample_b" "pm_observed sample_receiver"
  "pm_candidates sample_receiver = [\<lparr>lc_wire = sample_candidate end_b, lc_socket = 0\<rparr>]"
  using checked_manager_state [of sample_b sample_a end_b end_a]
  by (simp_all add: sample_receiver_def handle_nominate_def sample_order has_path_id_def checked_both_def bm_get_def
      sample_path_def sample_material_def set_path_def)

section \<open>Properties\<close>

text \<open>
  C29: In every reachable path manager the maps are well formed, every path is filed under its own peer
  with a data key of that peer and an epoch the manager has handed on, the order of peers lists exactly
  the connected peers, once each, no inbound queue exceeds 256 packets, and the ledger is balanced.
\<close>

theorem path_manager_well_formed: "path_reachable m \<Longrightarrow> manager_inv m"
  by (rule paths.reachable_inv)

theorem path_manager_well_formed_witness:
  "manager_inv sample_sender \<and> hm_get (pm_peers sample_sender) sample_b = Some (sample_path end_a sample_b end_b)"
  using path_manager_well_formed [OF sample_managers_reachable(1)] sample_sender_state(1) by simp

text \<open>
  C26: A pair of endpoints is nominated only after a check on exactly this pair was seen in both
  directions; its local end is one of our candidates, its remote end one the peer offered, and the path has
  its number and token.
\<close>

theorem nominated_pair_checked:
  assumes "path_reachable m" and "hm_get (pm_peers m) peer = Some path" and "pp_nominated path = Some n"
  shows "checked_both (pp_checks path) (np_local_endpoint n, np_remote_endpoint n)
    \<and> np_local_endpoint n \<in> (hc_endpoint \<circ> lc_wire) ` set (pm_candidates m)
    \<and> np_remote_endpoint n \<in> hc_endpoint ` set (pp_remote_candidates path) \<and> pp_material path \<noteq> None"
proof -
  have ok: "path_ok (pm_candidates m) peer path" using manager_path_ok [OF paths.reachable_inv [OF assms(1)] assms(2)] .
  then have c: "checked_both (pp_checks path) (np_local_endpoint n, np_remote_endpoint n)"
    using assms(3) by (simp add: path_ok_def)
  then have "bm_get (pp_checks path) (np_local_endpoint n, np_remote_endpoint n) \<noteq> None"
    by (auto simp: checked_both_def split: option.splits)
  then show ?thesis using ok c unfolding path_ok_def by blast
qed

theorem nominated_pair_checked_witness:
  "checked_both (pp_checks (sample_path end_b sample_a end_a)) (end_b, end_a)
   \<and> end_b \<in> (hc_endpoint \<circ> lc_wire) ` set (pm_candidates sample_receiver)"
  using nominated_pair_checked [OF sample_managers_reachable(2) sample_receiver_state(1),
      of "\<lparr>np_local_endpoint = end_b, np_remote_endpoint = end_a, np_last_seen = 0\<rparr>"]
  by (simp add: sample_path_def)

lemma handle_data_seen:
  assumes inv: "manager_inv m" and path: "hm_get (pm_peers m) peer = Some path"
    and n: "pp_nominated path = Some nominated"
    and valid: "valid_data_path (id_steam_id64 (pm_local m)) (pp_identity path) local source nominated (pp_material path) frame"
  shows "frame_seen peer (dk_epoch (pp_key path)) (dd_frame_id frame) (handle_data m now local source frame)"
proof -
  have "pp_identity path = peer" using manager_path_ok [OF inv path] by (simp add: path_ok_def)
  then have f: "pc_from (dd_path frame) = peer" using valid by (simp add: valid_data_path_def)
  obtain l where l: "hm_get (pm_latest_epochs m) peer = Some l" "dk_epoch (pp_key path) \<le> l"
    using inv path unfolding manager_inv_def by blast
  show ?thesis using l path n valid
    by (auto simp: frame_seen_def handle_data_def f Let_def)
qed

text \<open>
  C27: Once a data frame has arrived over the nominated path of a peer, no copy of it, and no earlier
  frame, changes anything for as long as that lifecycle of the peer lasts, whatever the manager does in
  between and over whatever pair the copy arrives.
\<close>

theorem direct_no_replay:
  assumes "path_reachable m" and "hm_get (pm_peers m) peer = Some path" and "pp_nominated path = Some nominated"
    and "valid_data_path (id_steam_id64 (pm_local m)) (pp_identity path) local source nominated (pp_material path) frame"
    and "path_step\<^sup>*\<^sup>* (handle_data m now local source frame) m'"
    and "hm_get (pm_peers m') peer = Some path'" and "dk_epoch (pp_key path') = dk_epoch (pp_key path)"
    and "pc_from (dd_path copy) = peer" and "dd_frame_id copy \<le> dd_frame_id frame"
  shows "handle_data m' now' local' source' copy = m'"
proof -
  have "frame_seen peer (dk_epoch (pp_key path)) (dd_frame_id frame) m'"
    using frame_seen_steps [OF assms(5) handle_data_seen [OF paths.reachable_inv [OF assms(1)] assms(2-4)]] .
  then have "dd_frame_id frame \<le> pp_last_received_frame_id path'" using assms(6,7) by (auto simp: frame_seen_def)
  then have "dd_frame_id copy \<le> pp_last_received_frame_id path'" using assms(9) by simp
  then show ?thesis using assms(6) by (simp add: handle_data_def assms(8) Let_def split: option.split)
qed

definition sample_packet :: OutboundGamePacket where
  "sample_packet = \<lparr>og_to_steam_id64 = 2, og_hook_sequence = 4, og_delivery_stream_id = replicate 16 5,
     og_delivery_sequence = 6, og_channel = 0, og_send_type = 2, og_payload = [10, 20, 30]\<rparr>"

definition sample_data :: DirectData where
  "sample_data = outbound_frame sample_sender (sample_path end_a sample_b end_b) sample_material sample_packet"

theorem direct_no_replay_witness:
  "handle_data (handle_data sample_receiver 0 end_b end_a sample_data) 1 end_b end_a sample_data
     = handle_data sample_receiver 0 end_b end_a sample_data"
proof (rule direct_no_replay [OF sample_managers_reachable(2) sample_receiver_state(1), of _ end_b end_a sample_data 0])
  show "pp_nominated (sample_path end_b sample_a end_a)
      = Some \<lparr>np_local_endpoint = end_b, np_remote_endpoint = end_a, np_last_seen = 0\<rparr>"
    by (simp add: sample_path_def)
  show v: "valid_data_path (id_steam_id64 (pm_local sample_receiver)) (pp_identity (sample_path end_b sample_a end_a))
      end_b end_a \<lparr>np_local_endpoint = end_b, np_remote_endpoint = end_a, np_last_seen = 0\<rparr>
      (pp_material (sample_path end_b sample_a end_a)) sample_data"
    by (simp add: valid_data_path_def sample_data_def outbound_frame_def path_context_def sample_path_def
        sample_sender_state sample_receiver_state)
  have "advances sample_receiver (handle_data sample_receiver 0 end_b end_a sample_data)" by (rule data_advances)
  let ?m = "handle_data sample_receiver 0 end_b end_a sample_data"
  show "hm_get (pm_peers ?m) sample_a = Some (the (hm_get (pm_peers ?m) sample_a))"
    and "dk_epoch (pp_key (the (hm_get (pm_peers ?m) sample_a))) = dk_epoch (pp_key (sample_path end_b sample_a end_a))"
    using sample_receiver_state
    by (auto simp: handle_data_def Let_def sample_data_def outbound_frame_def path_context_def sample_sender_state
        split: option.split)
qed (simp_all add: sample_data_def outbound_frame_def path_context_def sample_sender_state)

text \<open>
  C25: A game packet sent over a nominated path reaches the other player.  When both players have
  nominated the same pair and share the path's secret, the datagram that the sender's socket is handed
  makes the receiver append exactly the packet, under the sender's identity, to the queue of that peer,
  provided the queue has room, the frame is newer than the last one seen, the receiver's data plane is being
  observed (\<open>pm_observed\<close>: the game side is attached to it), and the frame is one the codec can carry
  (\<open>direct_wf\<close>: its numbers are not zero and its payload is within the limit).
\<close>

theorem direct_packet_delivered:
  assumes "path_reachable s" and "hm_get (pm_peers s) (dk_identity key) = Some sp" and "pp_key sp = key"
    and "pp_nominated sp = Some sn" and "pp_material sp = Some material"
    and "socket_for s (np_local_endpoint sn) = Some socket"
    and "path_reachable r" and "pm_local r = dk_identity key" and "hm_get (pm_peers r) (pm_local s) = Some rp"
    and "pp_nominated rp = Some rn" and "np_local_endpoint rn = np_remote_endpoint sn"
    and "np_remote_endpoint rn = np_local_endpoint sn" and "pp_material rp = Some material"
    and "pm_observed r" and "length (pp_inbound rp) < 256"
    and "pp_last_received_frame_id rp < pp_next_frame_id sp"
    and "direct_wf (DirectDataF (outbound_frame s sp material packet))"
  shows "\<exists>s' bytes success r' rp'.
      send_outbound s now key True packet = (s', [EfDatagram socket (np_remote_endpoint sn) bytes], success)
      \<and> handle_datagram r now' (np_remote_endpoint sn) (np_local_endpoint sn) bytes = (r', [])
      \<and> hm_get (pm_peers r') (pm_local s) = Some rp'
      \<and> pp_inbound rp' = pp_inbound rp @ [\<lparr>ig_from_steam_id64 = id_steam_id64 (pm_local s),
            ig_delivery_stream_id = og_delivery_stream_id packet,
            ig_delivery_sequence = og_delivery_sequence packet, ig_channel = og_channel packet,
            ig_send_type = og_send_type packet, ig_payload = og_payload packet\<rparr>]"
proof -
  let ?frame = "outbound_frame s sp material packet"
  obtain bytes where b: "direct_encode (DirectDataF ?frame) = Ok bytes" "direct_decode bytes = Ok (DirectDataF ?frame)"
    using direct_codec.roundtrip [OF assms(17)] by blast
  have sid: "pp_identity sp = dk_identity key" and rid: "pp_identity rp = pm_local s"
    using manager_path_ok [OF paths.reachable_inv [OF assms(1)] assms(2)]
      manager_path_ok [OF paths.reachable_inv [OF assms(7)] assms(9)] by (simp_all add: path_ok_def)
  have len: "\<not> DIRECT_MAX_PAYLOAD < length (og_payload packet)"
    using assms(17) by (simp add: outbound_frame_def)
  have send: "\<exists>s' success. send_outbound s now key True packet
      = (s', [EfDatagram socket (np_remote_endpoint sn) bytes], success)"
    using assms(2-6) len b(1) by (simp add: send_outbound_def prepare_outbound_def Let_def)
  have valid: "valid_data_path (id_steam_id64 (pm_local r)) (pp_identity rp) (np_remote_endpoint sn)
      (np_local_endpoint sn) rn (pp_material rp) ?frame"
    using assms(8,11-13) sid rid by (simp add: valid_data_path_def outbound_frame_def path_context_def)
  have f: "pc_from (dd_path ?frame) = pm_local s" "dd_frame_id ?frame = pp_next_frame_id sp"
    "direct_inbound ?frame = \<lparr>ig_from_steam_id64 = id_steam_id64 (pm_local s),
            ig_delivery_stream_id = og_delivery_stream_id packet,
            ig_delivery_sequence = og_delivery_sequence packet, ig_channel = og_channel packet,
            ig_send_type = og_send_type packet, ig_payload = og_payload packet\<rparr>"
    by (simp_all add: outbound_frame_def path_context_def direct_inbound_def)
  have "\<exists>r' rp'. handle_datagram r now' (np_remote_endpoint sn) (np_local_endpoint sn) bytes = (r', [])
      \<and> hm_get (pm_peers r') (pm_local s) = Some rp' \<and> pp_inbound rp' = pp_inbound rp @ [direct_inbound ?frame]"
    using assms(9,10,14,15) assms(16) [unfolded not_le [symmetric]] valid
    by (simp add: handle_datagram_def b(2) handle_data_def f Let_def PER_PEER_PACKET_QUEUE_CAPACITY_def)
  with send f(3) show ?thesis by metis
qed

theorem direct_packet_delivered_witness:
  "\<exists>s' bytes success r' rp'.
      send_outbound sample_sender 0 (pp_key (sample_path end_a sample_b end_b)) True sample_packet
        = (s', [EfDatagram 0 end_b bytes], success)
      \<and> handle_datagram sample_receiver 0 end_b end_a bytes = (r', [])
      \<and> hm_get (pm_peers r') sample_a = Some rp'
      \<and> pp_inbound rp' = [\<lparr>ig_from_steam_id64 = 1, ig_delivery_stream_id = replicate 16 5,
            ig_delivery_sequence = 6, ig_channel = 0, ig_send_type = 2, ig_payload = [10, 20, 30]\<rparr>]"
proof -
  have key: "dk_identity (pp_key (sample_path end_a sample_b end_b)) = sample_b"
    by (simp add: sample_path_def ledger_activate_def Let_def split_beta)
  have wf: "direct_wf (DirectDataF (outbound_frame sample_sender (sample_path end_a sample_b end_b) sample_material sample_packet))"
    by (simp add: outbound_frame_def path_context_def path_wf_def sample_sender_state sample_a_def sample_b_def
        sample_material_def sample_path_def sample_packet_def all_zero_def list_all_iff direct_frame_consts)
  note state = sample_sender_state sample_receiver_state
  have "\<exists>s' bytes success r' rp'.
      send_outbound sample_sender 0 (pp_key (sample_path end_a sample_b end_b)) True sample_packet
        = (s', [EfDatagram 0 (np_remote_endpoint \<lparr>np_local_endpoint = end_a, np_remote_endpoint = end_b, np_last_seen = 0\<rparr>) bytes], success)
      \<and> handle_datagram sample_receiver 0 (np_remote_endpoint \<lparr>np_local_endpoint = end_a, np_remote_endpoint = end_b, np_last_seen = 0\<rparr>)
           (np_local_endpoint \<lparr>np_local_endpoint = end_a, np_remote_endpoint = end_b, np_last_seen = 0\<rparr>) bytes = (r', [])
      \<and> hm_get (pm_peers r') (pm_local sample_sender) = Some rp'
      \<and> pp_inbound rp' = pp_inbound (sample_path end_b sample_a end_a) @ [\<lparr>ig_from_steam_id64 = id_steam_id64 (pm_local sample_sender),
            ig_delivery_stream_id = og_delivery_stream_id sample_packet,
            ig_delivery_sequence = og_delivery_sequence sample_packet, ig_channel = og_channel sample_packet,
            ig_send_type = og_send_type sample_packet, ig_payload = og_payload sample_packet\<rparr>]"
    using sample_managers_reachable key wf
    by (intro direct_packet_delivered [where sp = "sample_path end_a sample_b end_b" and material = sample_material
          and rp = "sample_path end_b sample_a end_a"
          and rn = "\<lparr>np_local_endpoint = end_b, np_remote_endpoint = end_a, np_last_seen = 0\<rparr>"])
      (simp_all add: state, simp_all add: sample_path_def socket_for_def state sample_candidate_def)
  then show ?thesis by (simp add: state sample_packet_def sample_path_def) (simp add: sample_a_def)
qed

section \<open>Fair delivery\<close>

definition waits :: "PathManager \<Rightarrow> PeerIdentity \<Rightarrow> bool" where
  "waits m peer \<longleftrightarrow> (case hm_get (pm_peers m) peer of None \<Rightarrow> False | Some path \<Rightarrow> pp_inbound path \<noteq> [])"

lemma pop_search_first:
  assumes "pop_search m cursor [k..<j] = r" and "k \<le> d" and "d < j"
    and "waits m (pm_peer_order m ! ((cursor + d) mod length (pm_peer_order m)))"
  shows "\<exists>offset path. k \<le> offset \<and> offset \<le> d
    \<and> hm_get (pm_peers m) (pm_peer_order m ! ((cursor + offset) mod length (pm_peer_order m))) = Some path
    \<and> pp_inbound path \<noteq> []
    \<and> r = Some ((cursor + offset) mod length (pm_peer_order m),
          pm_peer_order m ! ((cursor + offset) mod length (pm_peer_order m)), path, hd (pp_inbound path))"
  using assms
proof (induction "d - k" arbitrary: k)
  case 0
  then show ?case by (auto simp: waits_def upt_conv_Cons Let_def split: option.splits list.splits)
next
  case (Suc n)
  show ?case
  proof (cases "waits m (pm_peer_order m ! ((cursor + k) mod length (pm_peer_order m)))")
    case True
    then show ?thesis using Suc.prems Suc.hyps(2)
      by (auto simp: waits_def upt_conv_Cons Let_def intro!: exI [of _ k] split: option.splits list.splits)
  next
    case False
    have n: "n = d - Suc k" "Suc k \<le> d" using Suc.hyps(2) by linarith+
    have r: "pop_search m cursor [Suc k..<j] = r" using Suc.prems Suc.hyps(2) False
      by (auto simp: waits_def upt_conv_Cons Let_def split: option.splits list.splits)
    from Suc.hyps(1) [OF n(1) r n(2) Suc.prems(3,4)]
    show ?thesis by (elim exE conjE) (intro exI conjI, auto)
  qed
qed

text \<open>The packets a receiver takes in \<open>n\<close> calls.\<close>

fun pops :: "nat \<Rightarrow> PathManager \<Rightarrow> nat \<Rightarrow> (InboundGamePacket \<times> PeerDataKey) list" where
  "pops 0 m cursor = []"
| "pops (Suc n) m cursor =
     (let (m', cursor', taken) = pop_next_inbound m cursor in
      (case taken of None \<Rightarrow> [] | Some p \<Rightarrow> [p]) @ pops n m' cursor')"

lemma cyclic_distance:
  assumes "c < n" and "i < n" and "d < (n :: nat)" and "(c + d) mod n = i" and "k < d"
  shows "(((c + k) mod n + 1) mod n + (d - Suc k)) mod n = i" and "(c + k) mod n \<noteq> i"
proof -
  have "(((c + k) mod n + 1) mod n + (d - Suc k)) mod n = (c + k + 1 + (d - Suc k)) mod n"
    by (simp add: mod_simps)
  also have "c + k + 1 + (d - Suc k) = c + d" using assms(5) by simp
  finally show "(((c + k) mod n + 1) mod n + (d - Suc k)) mod n = i" using assms(4) by simp
  show "(c + k) mod n \<noteq> i"
    using assms by (auto simp: mod_if split: if_splits)
qed

lemma pops_reach:
  assumes "hm_get (pm_peers m) (pm_peer_order m ! i) = Some path" and "pp_inbound path \<noteq> []"
    and "distinct (pm_peer_order m)" and "i < length (pm_peer_order m)" and "d < length (pm_peer_order m)"
    and "(cursor + d) mod length (pm_peer_order m) = i" and "d < n"
  shows "(hd (pp_inbound path), pp_key path) \<in> set (pops n m cursor)"
  using assms
proof (induction n arbitrary: m cursor d)
  case (Suc n)
  let ?len = "length (pm_peer_order m)" and ?c = "cursor mod length (pm_peer_order m)"
  have "0 < ?len" using Suc.prems(4) by linarith
  then have c: "?c < ?len" "(?c + d) mod ?len = i" using Suc.prems(6) by (simp_all add: mod_simps)
  have "waits m (pm_peer_order m ! ((?c + d) mod ?len))" using Suc.prems(1,2) c by (simp add: waits_def)
  from pop_search_first [OF refl le0 Suc.prems(5) this]
  obtain k q where k: "k \<le> d" and q: "hm_get (pm_peers m) (pm_peer_order m ! ((?c + k) mod ?len)) = Some q"
    and found: "pop_search m ?c [0..<?len] = Some ((?c + k) mod ?len, pm_peer_order m ! ((?c + k) mod ?len), q, hd (pp_inbound q))"
    by blast
  define m' where "m' = fst (pop_next_inbound m cursor)"
  have ne: "pm_peer_order m \<noteq> []" using \<open>0 < ?len\<close> by simp
  have pop: "pop_next_inbound m cursor = (m', ((?c + k) mod ?len + 1) mod ?len, Some (hd (pp_inbound q), pp_key q))"
    and peers: "pm_peers m' = hm_insert (pm_peer_order m ! ((?c + k) mod ?len)) (q\<lparr>pp_inbound := tl (pp_inbound q)\<rparr>) (pm_peers m)"
    and order: "pm_peer_order m' = pm_peer_order m"
    unfolding m'_def pop_next_inbound_def Let_def by (simp_all add: ne found set_path_def)
  show ?case
  proof (cases "k = d")
    case True
    then show ?thesis using pop c q Suc.prems(1) by simp
  next
    case False
    then have kd: "k < d" using k by simp
    note cyc = cyclic_distance [OF c(1) Suc.prems(4,5) c(2) kd]
    have "pm_peer_order m ! ((?c + k) mod ?len) \<noteq> pm_peer_order m ! i"
      using Suc.prems(3,4) cyc(2) mod_less_divisor [OF \<open>0 < ?len\<close>] by (subst nth_eq_iff_index_eq) auto
    then have "hm_get (pm_peers m') (pm_peer_order m' ! i) = Some path"
      using Suc.prems(1) by (simp add: peers order)
    from Suc.IH [OF this Suc.prems(2), of "d - Suc k" "((?c + k) mod ?len + 1) mod ?len"]
    have "(hd (pp_inbound path), pp_key path) \<in> set (pops n m' (((?c + k) mod ?len + 1) mod ?len))"
      using Suc.prems(3-7) kd cyc(1) by (simp add: order)
    then show ?thesis by (simp add: pop)
  qed
qed simp

text \<open>
  C28: Delivery to the game is fair: whatever the cursor, a packet that heads the queue of some peer is
  taken within as many calls as there are connected peers, however full the other queues are.
\<close>

theorem inbound_fair:
  assumes "path_reachable m" and "hm_get (pm_peers m) peer = Some path" and "pp_inbound path \<noteq> []"
  shows "(hd (pp_inbound path), pp_key path) \<in> set (pops (length (pm_peer_order m)) m cursor)"
proof -
  let ?n = "length (pm_peer_order m)"
  have inv: "manager_inv m" using paths.reachable_inv [OF assms(1)] .
  then have "peer \<in> set (pm_peer_order m)" and d: "distinct (pm_peer_order m)"
    using assms(2) by (auto simp: manager_inv_def)
  then obtain i where i: "i < ?n" "pm_peer_order m ! i = peer" by (auto simp: in_set_conv_nth)
  have "(cursor + (i + (?n - cursor mod ?n)) mod ?n) mod ?n = (cursor mod ?n + (i + (?n - cursor mod ?n))) mod ?n"
    by (simp add: mod_simps)
  also have "cursor mod ?n + (i + (?n - cursor mod ?n)) = i + ?n"
  proof -
    have "cursor mod ?n < ?n" by (rule mod_less_divisor) (use i(1) in linarith)
    then show ?thesis by linarith
  qed
  finally have "(cursor + (i + (?n - cursor mod ?n)) mod ?n) mod ?n = i" using i(1) by simp
  moreover have "(i + (?n - cursor mod ?n)) mod ?n < ?n" by (rule mod_less_divisor) (use i(1) in linarith)
  ultimately show ?thesis using pops_reach [OF _ assms(3) d i(1)] assms(2) i(2) by simp
qed

lemma sample_delivered:
  "hm_get (pm_peers (handle_data sample_receiver 0 end_b end_a sample_data)) sample_a
     = Some ((sample_path end_b sample_a end_a)\<lparr>pp_last_received_frame_id := 1, pp_inbound := [direct_inbound sample_data]\<rparr>)"
proof -
  have f: "pc_from (dd_path sample_data) = sample_a" "dd_frame_id sample_data = 1"
    by (simp_all add: sample_data_def outbound_frame_def path_context_def sample_sender_state sample_path_def)
  have v: "valid_data_path (id_steam_id64 sample_b) sample_a end_b end_a
      \<lparr>np_local_endpoint = end_b, np_remote_endpoint = end_a, np_last_seen = 0\<rparr> (Some sample_material) sample_data"
    by (simp add: valid_data_path_def sample_data_def outbound_frame_def path_context_def sample_sender_state
        sample_path_def)
  show ?thesis using sample_receiver_state v
    by (simp add: handle_data_def f Let_def sample_path_def PER_PEER_PACKET_QUEUE_CAPACITY_def)
qed

theorem inbound_fair_witness:
  "(direct_inbound sample_data, pp_key (sample_path end_b sample_a end_a))
     \<in> set (pops (length (pm_peer_order (handle_data sample_receiver 0 end_b end_a sample_data)))
         (handle_data sample_receiver 0 end_b end_a sample_data) 0)"
  using inbound_fair [OF path_reach [OF sample_managers_reachable(2) pstep_data] sample_delivered, of 0] by simp

end
