(* ===== verification/Lan_Room.thy ===== *)
theory Lan_Room
  imports Lan_Link Lan_Path_Guarantees
begin

text \<open>
  Membership and direct paths together.  \<open>register_link\<close> and \<open>remove_link\<close> of \<open>lan/link.rs\<close> change the
  membership under one lock and notify the path manager after releasing it, so the notifications of
  different links can arrive in any order.  A link is removed only by the task that serves it, which
  starts when its registration has returned: this is the one order the system keeps.
\<close>

section \<open>The system\<close>

datatype Notice = NtConnected ActiveLink PeerLifecycleEpoch | NtDisconnected PeerIdentity PeerLifecycleEpoch

record RoomState =
  rs_membership :: Membership
  rs_paths :: PathManager
  rs_notices :: "Notice list"

definition room_new :: "PeerDescriptor \<Rightarrow> LocalCandidate list \<Rightarrow> RoomState" where
  "room_new local cands =
     \<lparr>rs_membership = membership_new local, rs_paths = path_manager_new (pd_identity local) cands, rs_notices = []\<rparr>"

text \<open>The lifecycle of the path of a peer and the link it uses, and the latest epoch the manager knows.\<close>

definition path_life :: "PathManager \<Rightarrow> PeerIdentity \<Rightarrow> (PeerLifecycleEpoch \<times> nat) option" where
  "path_life m i = map_option (\<lambda>path. (dk_epoch (pp_key path), pp_control path)) (hm_get (pm_peers m) i)"

definition latest_epoch :: "PathManager \<Rightarrow> PeerIdentity \<Rightarrow> PeerLifecycleEpoch option" where
  "latest_epoch m i = hm_get (pm_latest_epochs m) i"

definition same_lives :: "PathManager \<Rightarrow> PathManager \<Rightarrow> bool" where
  "same_lives m m' \<longleftrightarrow> path_life m' = path_life m \<and> latest_epoch m' = latest_epoch m"

inductive room_step :: "RoomState \<Rightarrow> RoomState \<Rightarrow> bool" where
  room_register: "register (rs_membership s) link = (membership, RrAccepted replaced epoch) \<Longrightarrow>
     room_step s (s\<lparr>rs_membership := membership, rs_notices := NtConnected link epoch # rs_notices s\<rparr>)"
| room_connected: "NtConnected link epoch \<in> set (rs_notices s) \<Longrightarrow>
     room_step s (s\<lparr>rs_paths := fst (peer_connected (rs_paths s) now fresh epoch (al_descriptor link) (al_sender link)),
                   rs_notices := remove1 (NtConnected link epoch) (rs_notices s)\<rparr>)"
| room_remove: "hm_get (mb_active (rs_membership s)) i = Some r \<Longrightarrow>
     NtConnected (rl_link r) (rl_epoch r) \<notin> set (rs_notices s) \<Longrightarrow>
     remove_link (rs_membership s) now i key graceful = (membership, Some epoch) \<Longrightarrow>
     room_step s (s\<lparr>rs_membership := membership, rs_notices := NtDisconnected i epoch # rs_notices s\<rparr>)"
| room_disconnected: "NtDisconnected i epoch \<in> set (rs_notices s) \<Longrightarrow>
     room_step s (s\<lparr>rs_paths := peer_disconnected (rs_paths s) now i epoch,
                   rs_notices := remove1 (NtDisconnected i epoch) (rs_notices s)\<rparr>)"
| room_merge: "room_step s (s\<lparr>rs_membership := fst (merge_hints (rs_membership s) peers)\<rparr>)"
| room_begin_dial: "room_step s (s\<lparr>rs_membership := fst (begin_dial (rs_membership s) i)\<rparr>)"
| room_end_dial: "room_step s (s\<lparr>rs_membership := end_dial (rs_membership s) now i failed\<rparr>)"
| room_expire: "room_step s (s\<lparr>rs_membership := membership_expire (rs_membership s) now\<rparr>)"
| room_path: "path_step (rs_paths s) paths \<Longrightarrow> same_lives (rs_paths s) paths \<Longrightarrow>
     room_step s (s\<lparr>rs_paths := paths\<rparr>)"

section \<open>Handlers that leave the lifecycles alone\<close>

lemma same_lives_refl [simp, intro]: "same_lives m m"
  by (simp add: same_lives_def)

lemma life_frame [simp]:
  "path_life (m\<lparr>pm_transactions := t\<rparr>) = path_life m" "latest_epoch (m\<lparr>pm_transactions := t\<rparr>) = latest_epoch m"
  "path_life (m\<lparr>pm_ledger := l\<rparr>) = path_life m" "latest_epoch (m\<lparr>pm_ledger := l\<rparr>) = latest_epoch m"
  "path_life (m\<lparr>pm_observed := b\<rparr>) = path_life m" "latest_epoch (m\<lparr>pm_observed := b\<rparr>) = latest_epoch m"
  "latest_epoch (m\<lparr>pm_peers := p\<rparr>) = latest_epoch m" "latest_epoch (set_path m i path) = latest_epoch m"
  by (simp_all add: path_life_def [abs_def] latest_epoch_def [abs_def])

lemma same_lives_frame [simp]:
  "same_lives m (m'\<lparr>pm_transactions := t\<rparr>) = same_lives m m'" "same_lives m (m'\<lparr>pm_ledger := l\<rparr>) = same_lives m m'"
  "same_lives m (m'\<lparr>pm_observed := b\<rparr>) = same_lives m m'"
  "same_lives m (set_path (m\<lparr>pm_transactions := t\<rparr>) i path) = same_lives m (set_path m i path)"
proof -
  have "set_path (m\<lparr>pm_transactions := t\<rparr>) i path = (set_path m i path)\<lparr>pm_transactions := t\<rparr>"
    by (simp add: set_path_def)
  then show "same_lives m (set_path (m\<lparr>pm_transactions := t\<rparr>) i path) = same_lives m (set_path m i path)"
    by (simp add: same_lives_def)
qed (simp_all add: same_lives_def)

lemma same_lives_set_path [intro]:
  "hm_get (pm_peers m) i = Some old \<Longrightarrow> pp_key path = pp_key old \<Longrightarrow> pp_control path = pp_control old \<Longrightarrow>
     same_lives m (set_path m i path)"
  by (auto simp: same_lives_def path_life_def [abs_def])

lemma same_lives_map:
  "(\<And>i path. pp_key (f i path) = pp_key path \<and> pp_control (f i path) = pp_control path) \<Longrightarrow>
     same_lives m (m\<lparr>pm_peers := map (\<lambda>(i, path). (i, f i path)) (pm_peers m)\<rparr>)"
  by (simp add: same_lives_def path_life_def [abs_def] map_peers_get option.map_comp comp_def)

text \<open>Every handler of the path manager except the two notifications takes such a step.\<close>

lemma handlers_keep_lives:
  "same_lives m (fst (offer_section m now peer material cands))"
  "same_lives m (fst (send_checks m draw peer))"
  "same_lives m (fst (handle_nominate m now peer path_id cl cr))"
  "same_lives m (handle_nominate_ack m now peer path_id)"
  "same_lives m (fst (maybe_nominate m peer))"
  "same_lives m (fst (check_section m local source frame))"
  "same_lives m (fst (handle_heartbeat m now local source beat))"
  "same_lives m (handle_data m now local source data)"
  "same_lives m (fst (pop_next_inbound m cursor))"
  "same_lives m (fst (try_send_game m now gate_open answer packet))"
  "same_lives m (fst (send_outbound m now key sent packet))"
  by (auto simp: offer_section_def handle_nominate_def handle_nominate_ack_def maybe_nominate_def check_section_def
      handle_heartbeat_def handle_data_def Let_def pop_next_inbound_def try_send_game_def send_outbound_def
      prepare_outbound_def record_send_def split_beta dest!: pop_search_Some
      split: option.splits CheckPhase.splits ChannelAnswer.splits res.splits prod.splits if_splits)
    (use send_checks_frame [of m draw peer] in auto)

lemma maintenance_keeps_lives:
  "same_lives m (fst (maintain_section m now))" "same_lives m (clear_inbound m now)"
  "same_lives m (close_peer_data m now path reason)" "same_lives m (drain_outbound m now key queued)"
proof -
  have "fst (maintain_section m now)
      = m\<lparr>pm_peers := map (\<lambda>(peer, path). (peer, fst (maintain_path m now peer path))) (pm_peers m)\<rparr>"
    by (simp add: maintain_section_def Let_def comp_def split_beta)
  then show "same_lives m (fst (maintain_section m now))"
    using same_lives_map [of "\<lambda>peer path. fst (maintain_path m now peer path)" m]
    by (auto simp: maintain_path_def Let_def split: option.splits)
  show "same_lives m (clear_inbound m now)"
    using same_lives_map [of "\<lambda>_ path. path\<lparr>pp_inbound := []\<rparr>" m] by (simp add: clear_inbound_def Let_def)
qed (simp_all add: close_peer_data_def drain_outbound_def)

section \<open>What the notifications do\<close>

lemma life_close [simp]:
  "path_life (close_peer_data m now p r) = path_life m" "latest_epoch (close_peer_data m now p r) = latest_epoch m"
  using maintenance_keeps_lives(3) [of m now p r] by (simp_all add: same_lives_def)

lemma connect_life:
  assumes "case latest_epoch m i of None \<Rightarrow> True | Some l \<Rightarrow> l < e"
  shows "path_life (fst (connect_section m now fresh e i c)) = (path_life m)(i \<mapsto> (e, c))"
    and "latest_epoch (fst (connect_section m now fresh e i c)) = (latest_epoch m)(i \<mapsto> e)"
proof -
  have "\<not> (case hm_get (pm_latest_epochs m) i of None \<Rightarrow> False | Some latest \<Rightarrow> e \<le> latest)"
    using assms by (auto simp: latest_epoch_def split: option.splits)
  moreover have "dk_epoch (snd (ledger_activate l now i e)) = e" for l
    by (simp add: ledger_activate_def Let_def split_beta)
  ultimately show "path_life (fst (connect_section m now fresh e i c)) = (path_life m)(i \<mapsto> (e, c))"
    "latest_epoch (fst (connect_section m now fresh e i c)) = (latest_epoch m)(i \<mapsto> e)"
    by (auto simp: connect_section_def Let_def split_beta path_life_def latest_epoch_def peer_path_new_def)
qed

lemma connected_life:
  assumes "case latest_epoch m (pd_identity d) of None \<Rightarrow> True | Some l \<Rightarrow> l < e"
  shows "path_life (fst (peer_connected m now fresh e d c)) = (path_life m)(pd_identity d \<mapsto> (e, c))"
    and "latest_epoch (fst (peer_connected m now fresh e d c)) = (latest_epoch m)(pd_identity d \<mapsto> e)"
  using connect_life [OF assms, of now fresh c]
  by (simp_all add: peer_connected_def split_beta split: option.split)

lemma connected_stale:
  assumes "latest_epoch m (pd_identity d) = Some l" and "e \<le> l"
  shows "path_life (fst (peer_connected m now fresh e d c)) = path_life m"
    and "latest_epoch (fst (peer_connected m now fresh e d c)) = latest_epoch m"
  using assms by (simp_all add: peer_connected_def connect_section_def latest_epoch_def)

lemma disconnected_life:
  assumes "latest_epoch m i = Some l" and "e \<le> l"
    and "\<And>x c. path_life m i = Some (x, c) \<Longrightarrow> x = l"
  shows "path_life (peer_disconnected m now i e) = (if e = l then (path_life m)(i := None) else path_life m)"
    and "latest_epoch (peer_disconnected m now i e) = latest_epoch m"
proof -
  have "hm_get (pm_peers m) i = Some path \<Longrightarrow> dk_epoch (pp_key path) = l" for path
    using assms(3) by (simp add: path_life_def)
  then show "path_life (peer_disconnected m now i e) = (if e = l then (path_life m)(i := None) else path_life m)"
    "latest_epoch (peer_disconnected m now i e) = latest_epoch m"
    using assms(1,2)
    by (auto simp: peer_disconnected_def disconnect_section_def close_peer_data_def Let_def path_life_def
        latest_epoch_def fun_eq_iff split: option.splits)
qed

lemma connected_inv: "manager_inv m \<Longrightarrow> manager_inv (fst (peer_connected m now fresh e d c))"
  using connect_inv [of m now fresh e "pd_identity d" c]
  by (auto simp: peer_connected_def split_beta intro: close_peer_data_inv split: option.split)

lemma disconnected_inv: "manager_inv m \<Longrightarrow> manager_inv (peer_disconnected m now i e)"
  using disconnect_inv [of m i e]
  by (auto simp: peer_disconnected_def split_beta intro: close_peer_data_inv split: option.split)

section \<open>The invariant\<close>

abbreviation active_life :: "Membership \<Rightarrow> PeerIdentity \<Rightarrow> (PeerLifecycleEpoch \<times> nat) option" where
  "active_life m i \<equiv> map_option (\<lambda>r. (rl_epoch r, al_sender (rl_link r))) (hm_get (mb_active m) i)"

text \<open>Every epoch in use is older than the next one.\<close>

definition room_epochs :: "RoomState \<Rightarrow> bool" where
  "room_epochs s \<longleftrightarrow>
     (\<forall>l e. NtConnected l e \<in> set (rs_notices s) \<longrightarrow> epoch_after e (rs_membership s))
     \<and> (\<forall>i e. NtDisconnected i e \<in> set (rs_notices s) \<longrightarrow> epoch_after e (rs_membership s))
     \<and> (\<forall>i e. latest_epoch (rs_paths s) i = Some e \<longrightarrow> epoch_after e (rs_membership s))
     \<and> (\<forall>i r. hm_get (mb_active (rs_membership s)) i = Some r \<longrightarrow> epoch_after (rl_epoch r) (rs_membership s))"

text \<open>A live link has its path, or its notice is on the way and newer than anything the manager saw.\<close>

definition links_served :: "RoomState \<Rightarrow> bool" where
  "links_served s \<longleftrightarrow> (\<forall>i r. hm_get (mb_active (rs_membership s)) i = Some r \<longrightarrow>
     path_life (rs_paths s) i = Some (rl_epoch r, al_sender (rl_link r))
     \<or> NtConnected (rl_link r) (rl_epoch r) \<in> set (rs_notices s)
        \<and> (case latest_epoch (rs_paths s) i of None \<Rightarrow> True | Some l \<Rightarrow> l < rl_epoch r))"

text \<open>A path belongs to the live link, or a notice that ends or replaces it is on the way.\<close>

definition paths_owned :: "RoomState \<Rightarrow> bool" where
  "paths_owned s \<longleftrightarrow> (\<forall>i e c. path_life (rs_paths s) i = Some (e, c) \<longrightarrow>
     latest_epoch (rs_paths s) i = Some e
     \<and> ((\<exists>r. hm_get (mb_active (rs_membership s)) i = Some r \<and> rl_epoch r = e)
        \<or> NtDisconnected i e \<in> set (rs_notices s)
        \<or> (\<exists>l e'. NtConnected l e' \<in> set (rs_notices s) \<and> al_identity l = i \<and> e < e')))"

definition notices_ok :: "RoomState \<Rightarrow> bool" where
  "notices_ok s \<longleftrightarrow>
     (\<forall>l e. NtConnected l e \<in> set (rs_notices s) \<longrightarrow>
        (\<exists>r. hm_get (mb_active (rs_membership s)) (al_identity l) = Some r
           \<and> (e < rl_epoch r \<or> e = rl_epoch r \<and> l = rl_link r)
           \<and> NtConnected (rl_link r) (rl_epoch r) \<in> set (rs_notices s))
        \<or> (\<exists>x. latest_epoch (rs_paths s) (al_identity l) = Some x \<and> e \<le> x))
     \<and> (\<forall>i d. NtDisconnected i d \<in> set (rs_notices s) \<longrightarrow>
          (\<exists>x. latest_epoch (rs_paths s) i = Some x \<and> d \<le> x)
          \<and> (\<forall>r. hm_get (mb_active (rs_membership s)) i = Some r \<longrightarrow> d < rl_epoch r))"

definition room_inv :: "RoomState \<Rightarrow> bool" where
  "room_inv s \<longleftrightarrow> member_inv (rs_membership s) \<and> manager_inv (rs_paths s)
     \<and> room_epochs s \<and> links_served s \<and> paths_owned s \<and> notices_ok s"

lemmas room_inv_defs = room_inv_def room_epochs_def links_served_def paths_owned_def notices_ok_def

lemma room_path_inv:
  assumes "room_inv s" and "path_step (rs_paths s) paths" and "same_lives (rs_paths s) paths"
  shows "room_inv (s\<lparr>rs_paths := paths\<rparr>)"
  using assms paths.inv_step unfolding room_inv_defs same_lives_def by auto

lemma room_member_inv:
  assumes "room_inv s" and "member_step (rs_membership s) m" and "mb_active m = mb_active (rs_membership s)"
  shows "room_inv (s\<lparr>rs_membership := m\<rparr>)"
  using assms membership.inv_step epoch_after_step unfolding room_inv_defs by auto

lemma active_frame [simp]:
  "mb_active (fst (merge_hints m peers)) = mb_active m" "mb_active (fst (begin_dial m i)) = mb_active m"
  "mb_active (end_dial m now i failed) = mb_active m" "mb_active (membership_expire m now) = mb_active m"
proof -
  have "mb_active (fst (merge_loop m d peers)) = mb_active m" for d
    by (induction m d peers rule: merge_loop.induct) (simp_all add: Let_def)
  then show "mb_active (fst (merge_hints m peers)) = mb_active m" by (simp add: merge_hints_def split_beta)
  have "mb_active (foldl forget_peer m is) = mb_active m" for "is"
    by (induction "is" arbitrary: m) (simp_all add: forget_peer_def)
  then show "mb_active (membership_expire m now) = mb_active m" by (simp add: membership_expire_def)
qed (simp_all add: begin_dial_def end_dial_def Let_def)

lemma room_accepted:
  assumes "register m link = (m', RrAccepted replaced e)"
  shows "hm_get (mb_active m') i = (if i = al_identity link then Some \<lparr>rl_epoch = e, rl_link = link\<rparr> else hm_get (mb_active m) i)"
    and "mb_next_lifecycle_epoch m = Some e" and "epoch_after e m'"
  using assms by (auto simp: register_def Let_def epoch_after_def u64_next_less split: if_splits option.splits)

lemma room_register_inv:
  assumes inv: "room_inv s" and reg: "register (rs_membership s) link = (m, RrAccepted replaced e)"
  shows "room_inv (s\<lparr>rs_membership := m, rs_notices := NtConnected link e # rs_notices s\<rparr>)"
proof -
  let ?s = "s\<lparr>rs_membership := m, rs_notices := NtConnected link e # rs_notices s\<rparr>"
  have step: "member_step (rs_membership s) m" using step_register [of "rs_membership s" link] reg by simp
  note r = room_accepted [OF reg]
  have old: "epoch_after x (rs_membership s) \<Longrightarrow> x < e" for x using r(2) by (simp add: epoch_after_def)
  have ep: "room_epochs s" and sv: "links_served s" and po: "paths_owned s" and no: "notices_ok s"
    using inv by (simp_all add: room_inv_def)
  have "member_inv m" using inv step membership.inv_step by (auto simp: room_inv_def)
  moreover have "room_epochs ?s"
    using ep r epoch_after_step [OF step] unfolding room_epochs_def by auto
  moreover have "links_served ?s"
    using sv ep r old unfolding links_served_def room_epochs_def by (auto split: option.splits)
  moreover have "paths_owned ?s"
    unfolding paths_owned_def
  proof (intro allI impI)
    fix j x c assume "path_life (rs_paths ?s) j = Some (x, c)"
    then have l: "path_life (rs_paths s) j = Some (x, c)" by simp
    then have lat: "latest_epoch (rs_paths s) j = Some x" using po unfolding paths_owned_def by blast
    then have "x < e" using ep old unfolding room_epochs_def by blast
    then show "latest_epoch (rs_paths ?s) j = Some x
        \<and> ((\<exists>r. hm_get (mb_active (rs_membership ?s)) j = Some r \<and> rl_epoch r = x)
          \<or> NtDisconnected j x \<in> set (rs_notices ?s)
          \<or> (\<exists>l e'. NtConnected l e' \<in> set (rs_notices ?s) \<and> al_identity l = j \<and> x < e'))"
    proof (cases "j = al_identity link")
      case False
      have "(\<exists>r. hm_get (mb_active (rs_membership s)) j = Some r \<and> rl_epoch r = x) \<or> NtDisconnected j x \<in> set (rs_notices s)
          \<or> (\<exists>l e'. NtConnected l e' \<in> set (rs_notices s) \<and> al_identity l = j \<and> x < e')"
        using l po unfolding paths_owned_def by blast
      then show ?thesis using lat False r(1) by auto
    qed (use lat in auto)
  qed
  moreover have "notices_ok ?s"
    unfolding notices_ok_def
  proof (intro conjI allI impI)
    fix l x assume "NtConnected l x \<in> set (rs_notices ?s)"
    then consider "l = link" "x = e" | "NtConnected l x \<in> set (rs_notices s)" by auto
    then show "(\<exists>r. hm_get (mb_active (rs_membership ?s)) (al_identity l) = Some r
           \<and> (x < rl_epoch r \<or> x = rl_epoch r \<and> l = rl_link r) \<and> NtConnected (rl_link r) (rl_epoch r) \<in> set (rs_notices ?s))
        \<or> (\<exists>y. latest_epoch (rs_paths ?s) (al_identity l) = Some y \<and> x \<le> y)"
    proof cases
      case 2
      then have "x < e" using ep old by (auto simp: room_epochs_def)
      moreover have "(\<exists>r. hm_get (mb_active (rs_membership s)) (al_identity l) = Some r
           \<and> (x < rl_epoch r \<or> x = rl_epoch r \<and> l = rl_link r) \<and> NtConnected (rl_link r) (rl_epoch r) \<in> set (rs_notices s))
          \<or> (\<exists>y. latest_epoch (rs_paths s) (al_identity l) = Some y \<and> x \<le> y)"
        using no 2 unfolding notices_ok_def by blast
      ultimately show ?thesis using r(1) by (cases "al_identity l = al_identity link") auto
    qed (simp add: r(1))
  next
    fix i d assume "NtDisconnected i d \<in> set (rs_notices ?s)"
    then have d: "NtDisconnected i d \<in> set (rs_notices s)" by simp
    then show "\<exists>x. latest_epoch (rs_paths ?s) i = Some x \<and> d \<le> x" using no unfolding notices_ok_def by simp
    fix q assume q: "hm_get (mb_active (rs_membership ?s)) i = Some q"
    have "d < e" using d ep old by (auto simp: room_epochs_def)
    then show "d < rl_epoch q" using q no d r(1) unfolding notices_ok_def by (cases "i = al_identity link") auto
  qed
  ultimately show ?thesis using inv by (simp add: room_inv_def)
qed

lemma removed_link:
  assumes "remove_link m now i key graceful = (m', Some e)"
  shows "\<exists>r. hm_get (mb_active m) i = Some r \<and> rl_epoch r = e"
    and "hm_get (mb_active m') j = (if j = i then None else hm_get (mb_active m) j)"
  using assms by (auto simp: remove_link_def Let_def split: if_splits option.splits)

lemma room_remove_inv:
  assumes inv: "room_inv s" and r: "hm_get (mb_active (rs_membership s)) i = Some r"
    and quiet: "NtConnected (rl_link r) (rl_epoch r) \<notin> set (rs_notices s)"
    and rem: "remove_link (rs_membership s) now i key graceful = (m, Some e)"
  shows "room_inv (s\<lparr>rs_membership := m, rs_notices := NtDisconnected i e # rs_notices s\<rparr>)"
proof -
  let ?s = "s\<lparr>rs_membership := m, rs_notices := NtDisconnected i e # rs_notices s\<rparr>"
  have step: "member_step (rs_membership s) m" using step_remove [of "rs_membership s" now i key graceful] rem by simp
  have e: "e = rl_epoch r" and a: "\<And>j. hm_get (mb_active m) j = (if j = i then None else hm_get (mb_active (rs_membership s)) j)"
    using removed_link [OF rem] r by auto
  have ep: "room_epochs s" and sv: "links_served s" and po: "paths_owned s" and no: "notices_ok s"
    using inv by (simp_all add: room_inv_def)
  have life: "path_life (rs_paths s) i = Some (e, al_sender (rl_link r))" using sv r quiet e unfolding links_served_def by blast
  then have lat: "latest_epoch (rs_paths s) i = Some e" using po unfolding paths_owned_def by blast
  have stale: "x \<le> e" if "NtConnected l x \<in> set (rs_notices s)" and "al_identity l = i" for l x
    using no that r quiet lat unfolding notices_ok_def by (metis option.inject)
  have "member_inv m" using inv step membership.inv_step by (auto simp: room_inv_def)
  moreover have "room_epochs ?s"
    using ep a e r epoch_after_step [OF step] unfolding room_epochs_def by auto
  moreover have "links_served ?s" using sv a unfolding links_served_def by auto
  moreover have "paths_owned ?s" using po a life unfolding paths_owned_def by auto
  moreover have "notices_ok ?s" using no a lat stale unfolding notices_ok_def by auto
  ultimately show ?thesis using inv by (simp add: room_inv_def)
qed

lemma room_connected_fresh:
  assumes inv: "room_inv s" and n: "NtConnected link e \<in> set (rs_notices s)"
    and new: "case latest_epoch (rs_paths s) (al_identity link) of None \<Rightarrow> True | Some l \<Rightarrow> l < e"
  shows "room_inv (s\<lparr>rs_paths := fst (peer_connected (rs_paths s) now fresh e (al_descriptor link) (al_sender link)),
      rs_notices := remove1 (NtConnected link e) (rs_notices s)\<rparr>)"
proof -
  let ?i = "al_identity link" and ?m = "rs_membership s"
  let ?p = "fst (peer_connected (rs_paths s) now fresh e (al_descriptor link) (al_sender link))"
  let ?s = "s\<lparr>rs_paths := ?p, rs_notices := remove1 (NtConnected link e) (rs_notices s)\<rparr>"
  have ep: "room_epochs s" and sv: "links_served s" and po: "paths_owned s" and no: "notices_ok s"
    and mi: "member_inv ?m" and pi: "manager_inv ?p"
    using inv connected_inv by (simp_all add: room_inv_def)
  have keep: "x \<in> set (rs_notices s) \<Longrightarrow> x \<noteq> NtConnected link e \<Longrightarrow> x \<in> set (remove1 (NtConnected link e) (rs_notices s))" for x
    by (simp add: in_set_remove1)
  have sub: "x \<in> set (remove1 (NtConnected link e) (rs_notices s)) \<Longrightarrow> x \<in> set (rs_notices s)" for x
    using set_remove1_subset by fast
  note life = connected_life [OF new, of now fresh "al_sender link"]
  have newer: "l < e" if "latest_epoch (rs_paths s) ?i = Some l" for l using that new by simp
  obtain r where r: "hm_get (mb_active ?m) ?i = Some r" and er: "e < rl_epoch r \<or> e = rl_epoch r \<and> link = rl_link r"
    and nr: "NtConnected (rl_link r) (rl_epoch r) \<in> set (rs_notices s)"
    using no n newer unfolding notices_ok_def by (metis leD)
  have kr: "NtConnected (rl_link r) (rl_epoch r) \<in> set (remove1 (NtConnected link e) (rs_notices s))"
    if "e < rl_epoch r" by (rule keep [OF nr]) (use that in auto)
  have "room_epochs ?s" using ep n sub life unfolding room_epochs_def by auto
  moreover have "links_served ?s"
    unfolding links_served_def
  proof (intro allI impI)
    fix j q assume q: "hm_get (mb_active (rs_membership ?s)) j = Some q"
    show "path_life (rs_paths ?s) j = Some (rl_epoch q, al_sender (rl_link q))
      \<or> NtConnected (rl_link q) (rl_epoch q) \<in> set (rs_notices ?s)
        \<and> (case latest_epoch (rs_paths ?s) j of None \<Rightarrow> True | Some l \<Rightarrow> l < rl_epoch q)"
    proof (cases "j = ?i")
      case True
      then have "q = r" using q r by simp
      with er show ?thesis using True kr by (auto simp: life)
    next
      case False
      have "al_identity (rl_link q) = j" using mi q by (simp add: member_inv_defs)
      then have "NtConnected (rl_link q) (rl_epoch q) \<noteq> NtConnected link e" using False by auto
      with False q sv keep show ?thesis unfolding links_served_def by (auto simp: life)
    qed
  qed
  moreover have "paths_owned ?s"
    unfolding paths_owned_def
  proof (intro allI impI)
    fix j x c assume l: "path_life (rs_paths ?s) j = Some (x, c)"
    show "latest_epoch (rs_paths ?s) j = Some x
      \<and> ((\<exists>r. hm_get (mb_active (rs_membership ?s)) j = Some r \<and> rl_epoch r = x)
        \<or> NtDisconnected j x \<in> set (rs_notices ?s)
        \<or> (\<exists>l e'. NtConnected l e' \<in> set (rs_notices ?s) \<and> al_identity l = j \<and> x < e'))"
    proof (cases "j = ?i")
      case True
      have "al_identity (rl_link r) = ?i" using mi r by (simp add: member_inv_defs)
      moreover have "x = e" using l True by (simp add: life)
      ultimately show ?thesis unfolding \<open>x = e\<close> True using er kr by (simp add: life r) blast
    next
      case False
      then have l': "path_life (rs_paths s) j = Some (x, c)" using l by (simp add: life)
      have "latest_epoch (rs_paths s) j = Some x
        \<and> ((\<exists>r. hm_get (mb_active ?m) j = Some r \<and> rl_epoch r = x) \<or> NtDisconnected j x \<in> set (rs_notices s)
          \<or> (\<exists>l e'. NtConnected l e' \<in> set (rs_notices s) \<and> l \<noteq> link \<and> al_identity l = j \<and> x < e'))"
        using l' po False unfolding paths_owned_def by blast
      then show ?thesis using False by (auto simp: life)
    qed
  qed
  moreover have "notices_ok ?s"
    unfolding notices_ok_def
  proof (intro conjI allI impI)
    fix l x assume "NtConnected l x \<in> set (rs_notices ?s)"
    then have l: "NtConnected l x \<in> set (rs_notices s)" using sub by simp
    have c: "(\<exists>r. hm_get (mb_active ?m) (al_identity l) = Some r
         \<and> (x < rl_epoch r \<or> x = rl_epoch r \<and> l = rl_link r) \<and> NtConnected (rl_link r) (rl_epoch r) \<in> set (rs_notices s))
      \<or> (\<exists>y. latest_epoch (rs_paths s) (al_identity l) = Some y \<and> x \<le> y)"
      using no l unfolding notices_ok_def by blast
    show "(\<exists>r. hm_get (mb_active (rs_membership ?s)) (al_identity l) = Some r
         \<and> (x < rl_epoch r \<or> x = rl_epoch r \<and> l = rl_link r) \<and> NtConnected (rl_link r) (rl_epoch r) \<in> set (rs_notices ?s))
      \<or> (\<exists>y. latest_epoch (rs_paths ?s) (al_identity l) = Some y \<and> x \<le> y)"
    proof (cases "al_identity l = ?i")
      case True
      have "x < rl_epoch r \<or> x = rl_epoch r \<and> l = rl_link r \<or> x \<le> e"
      proof (cases "\<exists>y. latest_epoch (rs_paths s) ?i = Some y \<and> x \<le> y")
        case True
        then show ?thesis using newer by fastforce
      next
        case False
        then show ?thesis using c \<open>al_identity l = ?i\<close> r by auto
      qed
      then show ?thesis using True r er kr by (auto simp: life)
    next
      case False
      have "al_identity (rl_link q) \<noteq> ?i" if "hm_get (mb_active ?m) (al_identity l) = Some q" for q
        using mi that False by (simp add: member_inv_defs)
      then have "NtConnected (rl_link q) (rl_epoch q) \<noteq> NtConnected link e"
        if "hm_get (mb_active ?m) (al_identity l) = Some q" for q
        using that by blast
      with c False show ?thesis by (auto simp: life)
    qed
  next
    fix i d assume "NtDisconnected i d \<in> set (rs_notices ?s)"
    then have d: "NtDisconnected i d \<in> set (rs_notices s)" using sub by simp
    then show "\<exists>x. latest_epoch (rs_paths ?s) i = Some x \<and> d \<le> x"
      using no newer unfolding notices_ok_def by (fastforce simp: life)
    fix q assume "hm_get (mb_active (rs_membership ?s)) i = Some q"
    then show "d < rl_epoch q" using d no unfolding notices_ok_def by simp
  qed
  ultimately show ?thesis using mi pi by (simp add: room_inv_def)
qed

lemma room_connected_stale:
  assumes inv: "room_inv s" and n: "NtConnected link e \<in> set (rs_notices s)"
    and x: "latest_epoch (rs_paths s) (al_identity link) = Some x" "e \<le> x"
  shows "room_inv (s\<lparr>rs_paths := fst (peer_connected (rs_paths s) now fresh e (al_descriptor link) (al_sender link)),
      rs_notices := remove1 (NtConnected link e) (rs_notices s)\<rparr>)"
proof -
  let ?i = "al_identity link" and ?m = "rs_membership s"
  let ?p = "fst (peer_connected (rs_paths s) now fresh e (al_descriptor link) (al_sender link))"
  let ?s = "s\<lparr>rs_paths := ?p, rs_notices := remove1 (NtConnected link e) (rs_notices s)\<rparr>"
  have ep: "room_epochs s" and sv: "links_served s" and po: "paths_owned s" and no: "notices_ok s"
    and mi: "member_inv ?m" and pi: "manager_inv ?p"
    using inv connected_inv by (simp_all add: room_inv_def)
  have keep: "x \<in> set (rs_notices s) \<Longrightarrow> x \<noteq> NtConnected link e \<Longrightarrow> x \<in> set (remove1 (NtConnected link e) (rs_notices s))" for x
    by (simp add: in_set_remove1)
  have sub: "x \<in> set (remove1 (NtConnected link e) (rs_notices s)) \<Longrightarrow> x \<in> set (rs_notices s)" for x
    using set_remove1_subset by fast
  note life = connected_stale [OF x, of now fresh "al_sender link"]
  have "room_epochs ?s" using ep sub life unfolding room_epochs_def by auto
  moreover have "links_served ?s"
    unfolding links_served_def
  proof (intro allI impI)
    fix j q assume q: "hm_get (mb_active (rs_membership ?s)) j = Some q"
    then have "al_identity (rl_link q) = j" using mi by (simp add: member_inv_defs)
    moreover have "path_life (rs_paths s) j = Some (rl_epoch q, al_sender (rl_link q))
      \<or> NtConnected (rl_link q) (rl_epoch q) \<in> set (rs_notices s)
        \<and> (case latest_epoch (rs_paths s) j of None \<Rightarrow> True | Some l \<Rightarrow> l < rl_epoch q)"
      using sv q unfolding links_served_def by simp
    ultimately show "path_life (rs_paths ?s) j = Some (rl_epoch q, al_sender (rl_link q))
      \<or> NtConnected (rl_link q) (rl_epoch q) \<in> set (rs_notices ?s)
        \<and> (case latest_epoch (rs_paths ?s) j of None \<Rightarrow> True | Some l \<Rightarrow> l < rl_epoch q)"
      using x by (cases "NtConnected (rl_link q) (rl_epoch q) = NtConnected link e") (auto simp: life)
  qed
  moreover have "paths_owned ?s"
    unfolding paths_owned_def
  proof (intro allI impI)
    fix j y c assume "path_life (rs_paths ?s) j = Some (y, c)"
    then have "latest_epoch (rs_paths s) j = Some y
      \<and> ((\<exists>r. hm_get (mb_active ?m) j = Some r \<and> rl_epoch r = y) \<or> NtDisconnected j y \<in> set (rs_notices s)
        \<or> (\<exists>l e'. NtConnected l e' \<in> set (rs_notices s) \<and> al_identity l = j \<and> y < e'))"
      using po unfolding paths_owned_def by (simp add: life)
    then have "latest_epoch (rs_paths s) j = Some y
      \<and> ((\<exists>r. hm_get (mb_active ?m) j = Some r \<and> rl_epoch r = y) \<or> NtDisconnected j y \<in> set (rs_notices s)
        \<or> (\<exists>l e'. NtConnected l e' \<in> set (rs_notices s) \<and> NtConnected l e' \<noteq> NtConnected link e \<and> al_identity l = j \<and> y < e'))"
      using x by fastforce
    then show "latest_epoch (rs_paths ?s) j = Some y
      \<and> ((\<exists>r. hm_get (mb_active (rs_membership ?s)) j = Some r \<and> rl_epoch r = y) \<or> NtDisconnected j y \<in> set (rs_notices ?s)
        \<or> (\<exists>l e'. NtConnected l e' \<in> set (rs_notices ?s) \<and> al_identity l = j \<and> y < e'))"
      by (elim conjE disjE exE) (auto simp: life)
  qed
  moreover have "notices_ok ?s"
    unfolding notices_ok_def
  proof (intro conjI allI impI)
    fix l z assume "NtConnected l z \<in> set (rs_notices ?s)"
    then have "NtConnected l z \<in> set (rs_notices s)" using sub by simp
    then have c: "(\<exists>r. hm_get (mb_active ?m) (al_identity l) = Some r
         \<and> (z < rl_epoch r \<or> z = rl_epoch r \<and> l = rl_link r) \<and> NtConnected (rl_link r) (rl_epoch r) \<in> set (rs_notices s))
      \<or> (\<exists>y. latest_epoch (rs_paths s) (al_identity l) = Some y \<and> z \<le> y)"
      using no unfolding notices_ok_def by blast
    show "(\<exists>r. hm_get (mb_active (rs_membership ?s)) (al_identity l) = Some r
         \<and> (z < rl_epoch r \<or> z = rl_epoch r \<and> l = rl_link r) \<and> NtConnected (rl_link r) (rl_epoch r) \<in> set (rs_notices ?s))
      \<or> (\<exists>y. latest_epoch (rs_paths ?s) (al_identity l) = Some y \<and> z \<le> y)"
      proof (cases "\<exists>r. hm_get (mb_active ?m) (al_identity l) = Some r \<and> NtConnected (rl_link r) (rl_epoch r) = NtConnected link e")
      case True
      then obtain r where r: "hm_get (mb_active ?m) (al_identity l) = Some r" "rl_link r = link" "rl_epoch r = e" by auto
      have "al_identity (rl_link r) = al_identity l" using mi r(1) by (simp add: member_inv_defs)
      then have "latest_epoch (rs_paths s) (al_identity l) = Some x" using x r(2) by simp
      moreover from this have "z \<le> x" using c r x(2) by auto
      ultimately show ?thesis by (simp add: life)
    next
      case False
      then show ?thesis using c by (auto simp: life)
    qed
  next
    fix i d assume "NtDisconnected i d \<in> set (rs_notices ?s)"
    then have d: "NtDisconnected i d \<in> set (rs_notices s)" using sub by simp
    then show "\<exists>x. latest_epoch (rs_paths ?s) i = Some x \<and> d \<le> x"
      using no unfolding notices_ok_def by (simp add: life)
    fix q assume "hm_get (mb_active (rs_membership ?s)) i = Some q"
    then show "d < rl_epoch q" using d no unfolding notices_ok_def by simp
  qed
  ultimately show ?thesis using mi pi by (simp add: room_inv_def)
qed

lemma room_connected_inv:
  assumes inv: "room_inv s" and n: "NtConnected link e \<in> set (rs_notices s)"
  shows "room_inv (s\<lparr>rs_paths := fst (peer_connected (rs_paths s) now fresh e (al_descriptor link) (al_sender link)),
      rs_notices := remove1 (NtConnected link e) (rs_notices s)\<rparr>)"
proof (cases "case latest_epoch (rs_paths s) (al_identity link) of None \<Rightarrow> True | Some l \<Rightarrow> l < e")
  case False
  then obtain x where "latest_epoch (rs_paths s) (al_identity link) = Some x" "e \<le> x" by (auto split: option.splits)
  then show ?thesis by (rule room_connected_stale [OF assms])
qed (rule room_connected_fresh [OF assms])

lemma room_disconnected_inv:
  assumes inv: "room_inv s" and n: "NtDisconnected i e \<in> set (rs_notices s)"
  shows "room_inv (s\<lparr>rs_paths := peer_disconnected (rs_paths s) now i e,
      rs_notices := remove1 (NtDisconnected i e) (rs_notices s)\<rparr>)"
proof -
  let ?m = "rs_membership s"
  let ?s = "s\<lparr>rs_paths := peer_disconnected (rs_paths s) now i e, rs_notices := remove1 (NtDisconnected i e) (rs_notices s)\<rparr>"
  have ep: "room_epochs s" and sv: "links_served s" and po: "paths_owned s" and no: "notices_ok s"
    and mi: "member_inv ?m" and pi: "manager_inv (peer_disconnected (rs_paths s) now i e)"
    using inv disconnected_inv by (simp_all add: room_inv_def)
  obtain l where l: "latest_epoch (rs_paths s) i = Some l" "e \<le> l"
    and act: "\<And>r. hm_get (mb_active ?m) i = Some r \<Longrightarrow> e < rl_epoch r"
    using no n unfolding notices_ok_def by blast
  have own: "x = l" if "path_life (rs_paths s) i = Some (x, c)" for x c
    using po that l(1) unfolding paths_owned_def by fastforce
  note life = disconnected_life [OF l own]
  have sub: "x \<in> set (remove1 (NtDisconnected i e) (rs_notices s)) \<Longrightarrow> x \<in> set (rs_notices s)" for x
    using set_remove1_subset by fast
  have "room_epochs ?s" using ep unfolding room_epochs_def by (simp add: life) (blast dest: sub)
  moreover have "links_served ?s"
    unfolding links_served_def
  proof (intro allI impI)
    fix j q assume q: "hm_get (mb_active (rs_membership ?s)) j = Some q"
    then have "path_life (rs_paths s) j = Some (rl_epoch q, al_sender (rl_link q))
        \<or> NtConnected (rl_link q) (rl_epoch q) \<in> set (rs_notices s)
          \<and> (case latest_epoch (rs_paths s) j of None \<Rightarrow> True | Some l \<Rightarrow> l < rl_epoch q)"
      using sv unfolding links_served_def by simp
    then show "path_life (rs_paths ?s) j = Some (rl_epoch q, al_sender (rl_link q))
        \<or> NtConnected (rl_link q) (rl_epoch q) \<in> set (rs_notices ?s)
          \<and> (case latest_epoch (rs_paths ?s) j of None \<Rightarrow> True | Some l \<Rightarrow> l < rl_epoch q)"
      using act [of q] own [of "rl_epoch q" "al_sender (rl_link q)"] q by (cases "j = i") (auto simp: life)
  qed
  moreover have "paths_owned ?s"
    unfolding paths_owned_def
  proof (intro allI impI)
    fix j y c assume y: "path_life (rs_paths ?s) j = Some (y, c)"
    then have old: "path_life (rs_paths s) j = Some (y, c)" by (auto simp: life split: if_splits)
    then have "latest_epoch (rs_paths s) j = Some y
        \<and> ((\<exists>r. hm_get (mb_active ?m) j = Some r \<and> rl_epoch r = y) \<or> NtDisconnected j y \<in> set (rs_notices s)
          \<or> (\<exists>l e'. NtConnected l e' \<in> set (rs_notices s) \<and> al_identity l = j \<and> y < e'))"
      using po unfolding paths_owned_def by blast
    moreover have "NtDisconnected j y \<noteq> NtDisconnected i e" using y own [of y c] old by (auto simp: life)
    ultimately show "latest_epoch (rs_paths ?s) j = Some y
        \<and> ((\<exists>r. hm_get (mb_active (rs_membership ?s)) j = Some r \<and> rl_epoch r = y) \<or> NtDisconnected j y \<in> set (rs_notices ?s)
          \<or> (\<exists>l e'. NtConnected l e' \<in> set (rs_notices ?s) \<and> al_identity l = j \<and> y < e'))"
      by (auto simp: life)
  qed
  moreover have "notices_ok ?s" using no unfolding notices_ok_def by (simp add: life) (blast dest: sub)
  ultimately show ?thesis using mi pi by (simp add: room_inv_def)
qed

interpretation room: invariant_system "\<lambda>s. \<exists>local cands. s = room_new local cands" room_step room_inv
proof (unfold_locales, goal_cases)
  case (1 s)
  then obtain local cands where s: "s = room_new local cands" by blast
  have "member_inv (membership_new local)" by (rule membership.inv_init) blast
  moreover have "manager_inv (path_manager_new (pd_identity local) cands)" by (rule paths.inv_init) blast
  ultimately show ?case
    by (simp add: s room_new_def room_inv_defs path_life_def latest_epoch_def path_manager_new_def membership_new_def)
next
  case (2 s t)
  from 2(2,1) show ?case
    by cases (auto intro: room_register_inv room_connected_inv room_remove_inv room_disconnected_inv room_path_inv
        room_member_inv member_step.intros)
qed

abbreviation room_reachable :: "RoomState \<Rightarrow> bool" where
  "room_reachable \<equiv> reachable_from (\<lambda>s. \<exists>local cands. s = room_new local cands) room_step"

section \<open>Properties\<close>

text \<open>
  C31: Whatever order the notifications of links that come and go arrive in, once none is under way the
  room agrees with itself: a peer has a direct path exactly when it has a live control link, the path
  belongs to the same lifecycle, and it signals over that very link.
\<close>

theorem room_agrees_when_quiet:
  assumes "room_reachable s" and "rs_notices s = []"
  shows "map_option (\<lambda>path. (dk_epoch (pp_key path), pp_control path)) (hm_get (pm_peers (rs_paths s)) i)
    = map_option (\<lambda>r. (rl_epoch r, al_sender (rl_link r))) (hm_get (mb_active (rs_membership s)) i)"
proof -
  have inv: "room_inv s" using room.reachable_inv [OF assms(1)] .
  have served: "path_life (rs_paths s) i = Some (rl_epoch r, al_sender (rl_link r))"
    if "hm_get (mb_active (rs_membership s)) i = Some r" for r
    using inv that assms(2) unfolding room_inv_def links_served_def by simp
  have owned: "\<exists>r. hm_get (mb_active (rs_membership s)) i = Some r"
    if "path_life (rs_paths s) i = Some (e, c)" for e c
    using inv that assms(2) unfolding room_inv_def paths_owned_def by fastforce
  show ?thesis
  proof (cases "hm_get (mb_active (rs_membership s)) i")
    case None
    with owned show ?thesis unfolding path_life_def by (cases "hm_get (pm_peers (rs_paths s)) i") auto
  qed (use served in \<open>simp add: path_life_def\<close>)
qed

definition sample_room :: RoomState where
  "sample_room =
     (let s = room_new (sample_descriptor 1) [];
          s = s\<lparr>rs_membership := sample_membership, rs_notices := NtConnected (sample_link 3) 1 # rs_notices s\<rparr>
      in s\<lparr>rs_paths := fst (peer_connected (rs_paths s) 0 sample_material 1 (al_descriptor (sample_link 3)) (al_sender (sample_link 3))),
           rs_notices := remove1 (NtConnected (sample_link 3) 1) (rs_notices s)\<rparr>)"

lemma sample_room_quiet: "room_reachable sample_room" "rs_notices sample_room = []"
  "rs_membership sample_room = sample_membership"
proof -
  let ?s = "room_new (sample_descriptor 1) []"
  have "room_reachable ?s" by (rule reach_init) blast
  moreover have "room_step ?s (?s\<lparr>rs_membership := sample_membership, rs_notices := NtConnected (sample_link 3) 1 # rs_notices ?s\<rparr>)"
    by (rule room_register) (simp add: room_new_def sample_register_twice(1))
  ultimately have "room_reachable (?s\<lparr>rs_membership := sample_membership, rs_notices := NtConnected (sample_link 3) 1 # rs_notices ?s\<rparr>)"
    by (rule reach_step)
  then show "room_reachable sample_room"
    unfolding sample_room_def Let_def by (rule reach_step) (rule room_connected, simp)
qed (simp_all add: sample_room_def room_new_def Let_def)

theorem room_agrees_when_quiet_witness:
  "map_option (\<lambda>path. (dk_epoch (pp_key path), pp_control path))
     (hm_get (pm_peers (rs_paths sample_room)) (pd_identity (sample_descriptor 2))) = Some (1, al_sender (sample_link 3))"
  using room_agrees_when_quiet [OF sample_room_quiet(1,2), of "pd_identity (sample_descriptor 2)"]
  by (simp add: sample_room_quiet(3) sample_membership_active hm_get_def)

text \<open>
  C32: When the reply that admits a peer cannot be delivered, its link stays registered although no task
  serves it: it counts as live, and every later request of the same peer whose link key is not smaller
  is refused because of it.
\<close>

theorem lost_reply_keeps_link:
  fixes to_vec :: "ControlMessage \<Rightarrow> ('j, byte list) res"
  assumes "lan_reachable (cs_membership shared)" and "jf_proof join = cs_session_proof shared"
    and "direct_select_protocol SUPPORTED_PROTOCOLS (jf_ranges join) = Ok version"
    and "direct_select_capabilities (jf_required join) (jf_optional join) DIRECT_CAPABILITIES = Ok caps"
    and "snd (register (cs_membership shared) \<lparr>al_key = join_key join, al_descriptor = jf_peer join, al_sender = sender,
           al_cancellation = cancellation\<rparr>) = RrAccepted replaced e"
    and "jf_proof again = jf_proof join" and "jf_ranges again = jf_ranges join"
    and "jf_required again = jf_required join" and "jf_optional again = jf_optional join"
    and "pd_identity (jf_peer again) = pd_identity (jf_peer join)" and "jf_link_id join \<le> jf_link_id again"
  shows "let lost = accept_inbound_join to_vec False shared now fresh sender cancellation join in
     jr_running lost = None \<and> \<not> is_ok (jr_result lost)
     \<and> is_active_link (cs_membership (jr_shared lost)) (pd_identity (jf_peer join)) (join_key join)
     \<and> jr_reply (accept_inbound_join to_vec True (jr_shared lost) now' fresh' sender' cancellation' again)
         = DJoinRejected DcInvalidState ''a preferred control link is already active'' False"
proof -
  let ?link = "\<lparr>al_key = join_key join, al_descriptor = jf_peer join, al_sender = sender, al_cancellation = cancellation\<rparr>"
  obtain m where reg: "register (cs_membership shared) ?link = (m, RrAccepted replaced e)"
    using assms(5) by (cases "register (cs_membership shared) ?link") simp
  note act = room_accepted(1) [OF reg]
  let ?lost = "accept_inbound_join to_vec False shared now fresh sender cancellation join"
  have lost: "cs_membership (jr_shared ?lost) = m" "cs_session_proof (jr_shared ?lost) = cs_session_proof shared"
    "jr_running ?lost = None" "\<not> is_ok (jr_result ?lost)"
    using assms(2-4) reg
    by (simp_all add: accept_inbound_join_def register_link_def admit_link_def lan_send_control_def join_key_def split_beta Let_def
        split: res.split)
  have self: "\<not> (pd_identity (jf_peer join) = pd_identity (mb_local m)
      \<or> steam_of (pd_identity (jf_peer join)) = steam_of (pd_identity (mb_local m)))"
    using reg by (auto simp: register_def Let_def split: if_splits option.splits)
  have "member_inv m"
    using membership.inv_step [OF membership.reachable_inv [OF assms(1)] step_register [of _ ?link]] reg by simp
  then have ok: "active_ok m" by (simp add: member_inv_def)
  then have taken: "\<not> steam_taken m (pd_identity (jf_peer join))"
    using act [of "pd_identity (jf_peer join)", simplified] unfolding steam_taken_iff [OF ok] active_ok_def by blast
  have key: "join_key join \<le> join_key again"
    using assms(10,11) by (auto simp: join_key_def less_eq_LinkKey_ext_def)
  have "snd (register m \<lparr>al_key = join_key again, al_descriptor = jf_peer again, al_sender = sender', al_cancellation = cancellation'\<rparr>)
      = RrDuplicateLost"
    using self taken act [of "pd_identity (jf_peer join)"] key assms(10) by (simp add: register_def Let_def)
  then have "jr_reply (accept_inbound_join to_vec True (jr_shared ?lost) now' fresh' sender' cancellation' again)
         = DJoinRejected DcInvalidState ''a preferred control link is already active'' False"
    using assms(2-4,6-9) lost
    by (simp add: accept_inbound_join_def register_link_def admit_link_def reject_join_def join_key_def split_beta Let_def)
  then show ?thesis using lost act [of "pd_identity (jf_peer join)"] by (simp add: is_active_link_def Let_def)
qed

definition sample_join :: "byte \<Rightarrow> JoinFields" where
  "sample_join n = \<lparr>jf_link_id = replicate 16 n, jf_peer = sample_descriptor 2, jf_ranges = SUPPORTED_PROTOCOLS,
     jf_required = CAP_HOST_CANDIDATES, jf_optional = DIRECT_CAPABILITIES, jf_proof = replicate 32 9\<rparr>"

definition sample_shared :: ControlShared where
  "sample_shared = \<lparr>cs_session_proof = replicate 32 9, cs_membership = membership_new (sample_descriptor 1),
     cs_paths = path_manager_new (pd_identity (sample_descriptor 1)) [], cs_dial_queue = []\<rparr>"

theorem lost_reply_keeps_link_witness:
  "let lost = accept_inbound_join (\<lambda>_. Ok [1] :: (unit, byte list) res) False sample_shared 0 sample_material 0 0 (sample_join 3) in
     jr_running lost = None \<and> \<not> is_ok (jr_result lost)
     \<and> is_active_link (cs_membership (jr_shared lost)) (pd_identity (jf_peer (sample_join 3))) (join_key (sample_join 3))
     \<and> jr_reply (accept_inbound_join (\<lambda>_. Ok [1] :: (unit, byte list) res) True (jr_shared lost) 5 sample_material 1 1 (sample_join 4))
         = DJoinRejected DcInvalidState ''a preferred control link is already active'' False"
proof (rule lost_reply_keeps_link [where version = "\<lparr>pv_major = 2, pv_minor = 0\<rparr>" and caps = 7 and e = 1 and replaced = None])
  show "lan_reachable (cs_membership sample_shared)" by (simp add: sample_shared_def sample_new_reachable)
  show "direct_select_protocol SUPPORTED_PROTOCOLS (jf_ranges (sample_join 3)) = Ok \<lparr>pv_major = 2, pv_minor = 0\<rparr>"
    unfolding sample_join_def by code_simp
  show "direct_select_capabilities (jf_required (sample_join 3)) (jf_optional (sample_join 3)) DIRECT_CAPABILITIES = Ok 7"
    unfolding sample_join_def by code_simp
  show "snd (register (cs_membership sample_shared)
      \<lparr>al_key = join_key (sample_join 3), al_descriptor = jf_peer (sample_join 3), al_sender = 0, al_cancellation = 0\<rparr>)
      = RrAccepted None 1"
    by (simp add: sample_shared_def register_def membership_new_def steam_taken_def hm_values_def sample_join_def
        sample_descriptor_def hm_get_def Let_def)
  show "jf_link_id (sample_join 3) \<le> jf_link_id (sample_join 4)" unfolding sample_join_def by code_simp
qed (simp_all add: sample_join_def sample_shared_def)

end
