(* ===== verification/Lan_Adapter.thy ===== *)
theory Lan_Adapter
  imports BTree_Map Direct_Types "HOL-Library.Char_ord"
begin

text \<open>
  The choice of network addresses for a LAN room (\<open>lan/adapter.rs\<close>): which addresses of the machine
  are usable, how they are grouped by adapter, which adapters are chosen by default and which
  addresses of the chosen adapters are offered.  The interfaces the system reports are an argument.
\<close>

section \<open>Addresses\<close>

datatype IpAddr = IpV4 u32 | IpV6 u128

fun ip_key :: "IpAddr \<Rightarrow> nat \<times> nat" where
  "ip_key (IpV4 a) = (0, unat a)"
| "ip_key (IpV6 a) = (1, unat a)"

lemma ip_key_inj: "ip_key a = ip_key b \<Longrightarrow> a = b"
  by (cases a; cases b) (auto simp: word_unat_eq_iff)

instantiation IpAddr :: linorder
begin

definition less_eq_IpAddr :: "IpAddr \<Rightarrow> IpAddr \<Rightarrow> bool" where "less_eq_IpAddr a b \<longleftrightarrow> ip_key a \<le> ip_key b"
definition less_IpAddr :: "IpAddr \<Rightarrow> IpAddr \<Rightarrow> bool" where "less_IpAddr a b \<longleftrightarrow> ip_key a < ip_key b"

instance
  by standard (auto simp: less_eq_IpAddr_def less_IpAddr_def intro: ip_key_inj antisym)

end

text \<open>\<open>169.254.0.0/16\<close> and \<open>::1\<close>\<close>

definition v4_is_link_local :: "u32 \<Rightarrow> bool" where
  "v4_is_link_local ip = (drop_bit 16 ip = 0xA9FE)"

definition v6_is_loopback :: "u128 \<Rightarrow> bool" where
  "v6_is_loopback ip = (ip = 1)"

fun is_usable_unicast :: "IpAddr \<Rightarrow> bool" where
  "is_usable_unicast (IpV4 a) =
     (\<not> v4_is_unspecified a \<and> \<not> v4_is_loopback a \<and> \<not> v4_is_multicast a \<and> \<not> v4_is_broadcast a)"
| "is_usable_unicast (IpV6 a) = (\<not> v6_is_unspecified a \<and> \<not> v6_is_loopback a \<and> \<not> v6_is_multicast a)"

fun is_link_local :: "IpAddr \<Rightarrow> bool" where
  "is_link_local (IpV4 a) = v4_is_link_local a"
| "is_link_local (IpV6 a) = v6_is_unicast_link_local a"

definition is_ipv4 :: "IpAddr \<Rightarrow> bool" where "is_ipv4 a = (case a of IpV4 _ \<Rightarrow> True | IpV6 _ \<Rightarrow> False)"
definition is_ipv6 :: "IpAddr \<Rightarrow> bool" where "is_ipv6 a = (case a of IpV4 _ \<Rightarrow> False | IpV6 _ \<Rightarrow> True)"

section \<open>Adapters\<close>

definition MAX_SELECTED_LAN_ADAPTERS :: usize where "MAX_SELECTED_LAN_ADAPTERS = MAX_CANDIDATES"

record LanAdapterAddress =
  aa_adapter_id :: string
  aa_name :: string
  aa_address :: IpAddr
  aa_interface_index :: u32

record LanAdapter =
  la_adapter_id :: string
  la_name :: string
  la_interface_index :: u32
  la_addresses :: "LanAdapterAddress list"

datatype LanAdapterSelectionError = LaEmpty | LaTooMany usize

definition is_recommended :: "LanAdapter \<Rightarrow> bool" where
  "is_recommended adapter = list_ex (\<lambda>a. \<not> is_link_local (aa_address a)) (la_addresses adapter)"

text \<open>An interface of the machine; \<open>ni_label\<close> is the text \<open>index:name\<close> that identifies it.\<close>

record NetInterface =
  ni_index :: u32
  ni_name :: string
  ni_label :: string
  ni_internal :: bool
  ni_addr :: "IpAddr list"

fun address_loop ::
  "NetInterface \<Rightarrow> (u32 \<times> IpAddr) list \<Rightarrow> LanAdapterAddress list \<Rightarrow> IpAddr list
     \<Rightarrow> (u32 \<times> IpAddr) list \<times> LanAdapterAddress list" where
  "address_loop iface seen found [] = (seen, found)"
| "address_loop iface seen found (address # rest) =
     (if ni_internal iface \<or> \<not> is_usable_unicast address then address_loop iface seen found rest
      else if (ni_index iface, address) \<in> set seen then address_loop iface seen found rest
      else address_loop iface ((ni_index iface, address) # seen)
             (found @ [\<lparr>aa_adapter_id = ni_label iface, aa_name = ni_name iface, aa_address = address,
                        aa_interface_index = ni_index iface\<rparr>]) rest)"

definition enumerate_lan_adapter_addresses :: "NetInterface list \<Rightarrow> LanAdapterAddress list" where
  "enumerate_lan_adapter_addresses ifaces =
     sort_key (\<lambda>a. (aa_interface_index a, aa_address a))
       (snd (foldl (\<lambda>(seen, found) iface. address_loop iface seen found (ni_addr iface)) ([], []) ifaces))"

definition address_sort_key :: "LanAdapterAddress \<Rightarrow> nat \<times> IpAddr" where
  "address_sort_key a =
     (case aa_address a of
        IpV4 v \<Rightarrow> if \<not> v4_is_link_local v then 0 else 2
      | IpV6 v \<Rightarrow> if \<not> v6_is_unicast_link_local v then 1 else 3,
      aa_address a)"

definition group_entry ::
  "(u32 \<times> string \<times> string, LanAdapterAddress list) bmap \<Rightarrow> LanAdapterAddress
     \<Rightarrow> (u32 \<times> string \<times> string, LanAdapterAddress list) bmap" where
  "group_entry grouped a =
     (let key = (aa_interface_index a, aa_adapter_id a, aa_name a)
      in bm_insert key ((case bm_get grouped key of None \<Rightarrow> [] | Some as \<Rightarrow> as) @ [a]) grouped)"

definition group_lan_adapter_addresses :: "LanAdapterAddress list \<Rightarrow> LanAdapter list" where
  "group_lan_adapter_addresses addresses =
     map (\<lambda>((index, adapter_id, name), as).
            \<lparr>la_adapter_id = adapter_id, la_name = name, la_interface_index = index,
             la_addresses = sort_key address_sort_key as\<rparr>)
       (foldl group_entry [] addresses)"

definition enumerate_lan_adapters :: "NetInterface list \<Rightarrow> LanAdapter list" where
  "enumerate_lan_adapters ifaces = group_lan_adapter_addresses (enumerate_lan_adapter_addresses ifaces)"

definition default_lan_adapters :: "LanAdapter list \<Rightarrow> LanAdapter list" where
  "default_lan_adapters adapters =
     (let selected = take MAX_SELECTED_LAN_ADAPTERS (filter is_recommended adapters)
      in if selected = [] then take MAX_SELECTED_LAN_ADAPTERS adapters else selected)"

text \<open>The best address of each family, the better one first.\<close>

definition preferred_family_addresses :: "LanAdapter \<Rightarrow> LanAdapterAddress list" where
  "preferred_family_addresses adapter =
     (let ipv4 = sort_key address_sort_key (filter (\<lambda>a. is_ipv4 (aa_address a)) (la_addresses adapter));
          ipv6 = sort_key address_sort_key (filter (\<lambda>a. is_ipv6 (aa_address a)) (la_addresses adapter))
      in sort_key address_sort_key (take 1 ipv4 @ take 1 ipv6))"

definition lan_candidate_addresses ::
  "LanAdapter list \<Rightarrow> (LanAdapterSelectionError, LanAdapterAddress list) res" where
  "lan_candidate_addresses adapters =
     (if adapters = [] then Err LaEmpty
      else if MAX_SELECTED_LAN_ADAPTERS < length adapters then Err (LaTooMany (length adapters))
      else
        let choices = map preferred_family_addresses adapters;
            selected = concat (map (take 1) choices);
            alternatives = sort_key address_sort_key (concat (map (\<lambda>as. take 1 (drop 1 as)) choices))
        in Ok (selected @ take (MAX_CANDIDATES - length selected) alternatives))"

section \<open>What the plan guarantees\<close>

lemma address_loop_found:
  assumes "list_all (\<lambda>a. is_usable_unicast (aa_address a)) found"
    and "set seen = (\<lambda>a. (aa_interface_index a, aa_address a)) ` set found"
    and "distinct (map (\<lambda>a. (aa_interface_index a, aa_address a)) found)"
    and "address_loop iface seen found as = (seen', found')"
  shows "list_all (\<lambda>a. is_usable_unicast (aa_address a)) found'
    \<and> set seen' = (\<lambda>a. (aa_interface_index a, aa_address a)) ` set found'
    \<and> distinct (map (\<lambda>a. (aa_interface_index a, aa_address a)) found')"
  using assms by (induction iface seen found as rule: address_loop.induct) (auto split: if_splits)

lemma enumerate_usable:
  "list_all (\<lambda>a. is_usable_unicast (aa_address a)) (enumerate_lan_adapter_addresses ifaces)
   \<and> distinct (map (\<lambda>a. (aa_interface_index a, aa_address a)) (enumerate_lan_adapter_addresses ifaces))"
proof -
  let ?key = "\<lambda>a. (aa_interface_index a, aa_address a)"
  let ?f = "\<lambda>(seen, found) iface. address_loop iface seen found (ni_addr iface)"
  let ?ok = "\<lambda>(seen, found). list_all (\<lambda>a. is_usable_unicast (aa_address a)) found
      \<and> set seen = ?key ` set found \<and> distinct (map ?key found)"
  have "?ok (foldl ?f st ifaces)" if "?ok st" for st
    using that
  proof (induction ifaces arbitrary: st)
    case (Cons iface ifaces)
    obtain seen found where st: "st = (seen, found)" by fastforce
    obtain seen' found' where l: "address_loop iface seen found (ni_addr iface) = (seen', found')" by fastforce
    have "?ok (seen', found')" using address_loop_found [OF _ _ _ l] Cons.prems st by simp
    then show ?case using Cons.IH [of "(seen', found')"] st l by simp
  qed simp
  from this [of "([], [])"] obtain seen found where
    f: "foldl ?f ([], []) ifaces = (seen, found)" "?ok (seen, found)" by (cases "foldl ?f ([], []) ifaces") auto
  moreover have "distinct (map ?key (sort_key ?key found))"
    using f(2) by (simp add: distinct_map inj_on_def)
  ultimately show ?thesis by (simp add: enumerate_lan_adapter_addresses_def list_all_iff)
qed

lemma preferred_sub: "set (preferred_family_addresses adapter) \<subseteq> set (la_addresses adapter)"
  by (auto simp: preferred_family_addresses_def Let_def dest!: in_set_takeD)

lemma preferred_len: "length (preferred_family_addresses adapter) \<le> 2"
  by (simp add: preferred_family_addresses_def Let_def)

lemma preferred_nonempty: "la_addresses adapter \<noteq> [] \<Longrightarrow> preferred_family_addresses adapter \<noteq> []"
proof -
  assume "la_addresses adapter \<noteq> []"
  then obtain a where "a \<in> set (la_addresses adapter)" by (cases "la_addresses adapter") auto
  moreover have "is_ipv4 (aa_address a) \<or> is_ipv6 (aa_address a)"
    by (cases "aa_address a") (simp_all add: is_ipv4_def is_ipv6_def)
  ultimately have "filter (\<lambda>a. is_ipv4 (aa_address a)) (la_addresses adapter) \<noteq> []
      \<or> filter (\<lambda>a. is_ipv6 (aa_address a)) (la_addresses adapter) \<noteq> []"
    unfolding filter_empty_conv by blast
  moreover have "length (preferred_family_addresses adapter)
      = min 1 (length (filter (\<lambda>a. is_ipv4 (aa_address a)) (la_addresses adapter)))
        + min 1 (length (filter (\<lambda>a. is_ipv6 (aa_address a)) (la_addresses adapter)))"
    by (simp add: preferred_family_addresses_def Let_def min.commute)
  ultimately have "length (preferred_family_addresses adapter) \<noteq> 0" by (auto simp: min_def)
  then show ?thesis by simp
qed

text \<open>
  The addresses offered for a room fit the candidate budget, all belong to the chosen adapters, and
  every chosen adapter that has an address is represented.
\<close>

lemma candidate_plan_covers:
  assumes "lan_candidate_addresses adapters = Ok plan"
  shows "length plan \<le> MAX_CANDIDATES \<and> set plan \<subseteq> (\<Union>adapter \<in> set adapters. set (la_addresses adapter))
    \<and> list_all (\<lambda>adapter. la_addresses adapter = [] \<or> set (la_addresses adapter) \<inter> set plan \<noteq> {}) adapters"
proof -
  let ?selected = "concat (map (take 1) (map preferred_family_addresses adapters))"
  let ?alt = "sort_key address_sort_key (concat (map (\<lambda>as. take 1 (drop 1 as)) (map preferred_family_addresses adapters)))"
  have len: "length adapters \<le> MAX_CANDIDATES"
    and plan: "plan = ?selected @ take (MAX_CANDIDATES - length ?selected) ?alt"
    using assms by (auto simp: lan_candidate_addresses_def Let_def MAX_SELECTED_LAN_ADAPTERS_def split: if_splits)
  have sel: "length (concat (map (take 1) (map preferred_family_addresses as))) \<le> length as" for as
    by (induction as) (auto simp: min_def)
  have "length plan \<le> MAX_CANDIDATES" using sel [of adapters] len by (simp add: plan)
  moreover have "set plan \<subseteq> (\<Union>adapter \<in> set adapters. set (la_addresses adapter))"
    using preferred_sub by (fastforce simp: plan dest!: in_set_takeD dest: in_set_dropD)
  moreover have "set (la_addresses adapter) \<inter> set plan \<noteq> {}"
    if adapter: "adapter \<in> set adapters" and ne: "la_addresses adapter \<noteq> []" for adapter
  proof -
    obtain a as where p: "preferred_family_addresses adapter = a # as"
      using preferred_nonempty [OF ne] by (cases "preferred_family_addresses adapter") auto
    then have "a \<in> set (la_addresses adapter)" using preferred_sub [of adapter] by auto
    moreover have "a \<in> set ?selected" using adapter p by force
    ultimately show ?thesis by (auto simp: plan)
  qed
  ultimately show ?thesis by (auto simp: list_all_iff)
qed

end
