(* ===== verification/Lan_Control.thy ===== *)
theory Lan_Control
  imports Lan_Room Lan_Adapter
begin

text \<open>
  The control plane of a LAN room (\<open>lan/control.rs\<close>): creating a room on the chosen adapters, the
  invitation, joining and probing through it, the first message of an inbound connection, the states
  shown to the player, and the hand-over of the data plane to a game session.  Binding sockets, the
  JSON codec and SHA-256 are parameters.
\<close>

section \<open>State\<close>

definition CONTROL_ATTEMPT_TIMEOUT :: duration where "CONTROL_ATTEMPT_TIMEOUT = secs 1"
definition CONTROL_TOTAL_TIMEOUT :: duration where "CONTROL_TOTAL_TIMEOUT = secs 3"
definition MAX_PENDING_CONTROL_CONNECTIONS :: usize where "MAX_PENDING_CONTROL_CONNECTIONS = 32"

record LanProbeResult =
  pb_endpoint :: SocketAddr
  pb_local_address :: SocketAddr
  pb_selected_protocol :: ProtocolVersion
  pb_enabled_capabilities :: u64

datatype LanPeerConnectionState = CsDiscovered | CsConnected | CsReconnecting

record LanPeerState =
  lp_peer :: PeerDescriptor
  lp_connection :: LanPeerConnectionState

record LanControlPlane =
  cp_shared :: ControlShared
  cp_session_credential :: SessionCredential
  cp_control_endpoints :: "SocketAddr list"
  cp_cancelled :: bool
  cp_inbound :: bool

definition session_proof :: "(byte list \<Rightarrow> byte list) \<Rightarrow> SessionCredential \<Rightarrow> SessionProof" where
  "session_proof sha256 credential = sha256 (str_bytes ''tractor-beam-direct-session-proof-v1'' @ credential)"

definition scoped_address :: "LanAdapterAddress \<Rightarrow> u16 \<Rightarrow> SocketAddr" where
  "scoped_address adapter port =
     (case aa_address adapter of
        IpV4 address \<Rightarrow> SockV4 address port
      | IpV6 address \<Rightarrow> SockV6 address port 0 (aa_interface_index adapter))"

section \<open>Creating a room\<close>

text \<open>\<open>bind\<close> gives the endpoint a listener and a data socket were bound to.\<close>

fun bind_loop ::
  "(SocketAddr \<Rightarrow> (LanIoKind, SocketAddr) res) \<Rightarrow> SocketAddr list \<Rightarrow> SocketAddr list \<Rightarrow> LanIoKind option
     \<Rightarrow> LanAdapterAddress list \<Rightarrow> SocketAddr list \<times> LanIoKind option" where
  "bind_loop bind seen bound last_error [] = (bound, last_error)"
| "bind_loop bind seen bound last_error (adapter # rest) =
     (let bind_address = scoped_address adapter 0 in
      if bind_address \<in> set seen then bind_loop bind seen bound last_error rest
      else
        case bind bind_address of
          Ok endpoint \<Rightarrow> bind_loop bind (bind_address # seen) (bound @ [endpoint]) last_error rest
        | Err kind \<Rightarrow> bind_loop bind (bind_address # seen) bound (Some kind) rest
        | Panic \<Rightarrow> bind_loop bind (bind_address # seen) bound last_error rest)"

text \<open>The first endpoint gets the highest priority.\<close>

definition endpoint_priority :: "nat \<Rightarrow> nat \<Rightarrow> u32" where
  "endpoint_priority bound_count index =
     (let n = bound_count - index in max (if n < 2 ^ 32 then of_nat n else 1) 1)"

fun endpoint_candidates :: "nat \<Rightarrow> nat \<Rightarrow> SocketAddr list \<Rightarrow> (LanIoError, HostCandidate list) res" where
  "endpoint_candidates bound_count index [] = Ok []"
| "endpoint_candidates bound_count index (endpoint # rest) =
     (case candidate_new endpoint (endpoint_priority bound_count index) 0 of
        Ok candidate \<Rightarrow>
          rbind (endpoint_candidates bound_count (Suc index) rest) (\<lambda>cands. Ok (candidate # cands))
      | _ \<Rightarrow> Err (LanIo IkOther ''''))"

definition room_descriptor :: "PeerIdentity \<Rightarrow> string \<Rightarrow> HostCandidate list \<Rightarrow> PeerDescriptor" where
  "room_descriptor identity display_name cands =
     \<lparr>pd_identity = identity, pd_display_name = Some display_name, pd_control_candidates = cands,
      pd_capabilities = DIRECT_CAPABILITIES\<rparr>"

definition control_plane_create ::
  "(byte list \<Rightarrow> byte list) \<Rightarrow> (ControlMessage \<Rightarrow> ('j, byte list) res) \<Rightarrow> (SocketAddr \<Rightarrow> (LanIoKind, SocketAddr) res)
     \<Rightarrow> (HostCandidate list \<Rightarrow> LocalCandidate list) \<Rightarrow> PeerIdentity \<Rightarrow> string \<Rightarrow> SessionCredential
     \<Rightarrow> LanAdapterAddress list \<Rightarrow> (LanIoError, LanControlPlane) res" where
  "control_plane_create sha256 to_vec bind data_candidates identity display_name credential adapters =
     (if adapters = [] then Err (LanIo IkInvalidInput ''at least one LAN adapter address is required'')
      else if MAX_CANDIDATES < length adapters then Err (LanIo IkInvalidInput ''too many LAN adapter addresses'')
      else
        let (bound, last_error) = bind_loop bind [] [] None adapters in
        if bound = [] then
          Err (LanIo (case last_error of None \<Rightarrow> IkAddrNotAvailable | Some kind \<Rightarrow> kind)
                 ''none of the selected LAN adapter addresses is available'')
        else
          rbind (endpoint_candidates (length bound) 0 bound) (\<lambda>cands.
          let descriptor = room_descriptor identity display_name cands in
          if \<not> is_ok (encode_control to_vec (DPeerSnapshot [descriptor])) then Err (LanIo IkOther '''')
          else
            Ok \<lparr>cp_shared = \<lparr>cs_session_proof = session_proof sha256 credential,
                   cs_membership = membership_new descriptor,
                   cs_paths = path_manager_new identity (data_candidates cands), cs_dial_queue = []\<rparr>,
                cp_session_credential = credential, cp_control_endpoints = map hc_endpoint cands,
                cp_cancelled = False, cp_inbound = True\<rparr>))"

section \<open>The room\<close>

definition invitation :: "LanControlPlane \<Rightarrow> LanJoinCode" where
  "invitation plane =
     \<lparr>lj_introducer = pd_identity (mb_local (cs_membership (cp_shared plane))),
      lj_control_endpoints = cp_control_endpoints plane, lj_session_credential = cp_session_credential plane\<rparr>"

definition uses_credential :: "LanControlPlane \<Rightarrow> SessionCredential \<Rightarrow> bool" where
  "uses_credential plane credential = (cp_session_credential plane = credential)"

definition control_plane_join ::
  "(byte list \<Rightarrow> byte list) \<Rightarrow> (ControlMessage \<Rightarrow> ('j, byte list) res) \<Rightarrow> (byte list \<Rightarrow> ('j, ControlMessage) res)
     \<Rightarrow> LanControlPlane \<Rightarrow> instant \<Rightarrow> PathMaterial \<Rightarrow> LanJoinCode \<Rightarrow> SocketAddr \<Rightarrow> EndpointAnswers option
     \<Rightarrow> LanControlPlane \<times> (LanIoError, unit) res" where
  "control_plane_join sha256 to_vec from_slice plane now fresh code endpoint answers =
     (if endpoint \<notin> set (lj_control_endpoints code)
      then (plane, Err (LanIo IkInvalidInput ''selected Introducer endpoint is not in the LAN invitation''))
      else if session_proof sha256 (lj_session_credential code) \<noteq> cs_session_proof (cp_shared plane)
      then (plane, Err (LanIo IkPermissionDenied ''LAN invitation credential does not match the local room''))
      else
        let r = establish_outbound to_vec from_slice (cp_shared plane) now fresh (lj_introducer code) [answers]
        in (plane\<lparr>cp_shared := dr_shared r\<rparr>, dr_result r))"

definition peer_states :: "LanControlPlane \<Rightarrow> LanPeerState list" where
  "peer_states plane =
     (let membership = cs_membership (cp_shared plane);
          states = map (\<lambda>peer. \<lparr>lp_peer = peer, lp_connection = CsConnected\<rparr>) (connected_descriptors membership)
            @ map (\<lambda>peer. \<lparr>lp_peer = peer,
                 lp_connection = (if is_recovering membership (pd_identity peer) then CsReconnecting else CsDiscovered)\<rparr>)
               (hinted_descriptors membership)
      in sort_key (\<lambda>state. pd_identity (lp_peer state)) states)"

definition take_data_plane :: "LanControlPlane \<Rightarrow> LanControlPlane \<times> bool" where
  "take_data_plane plane =
     (if \<not> cp_inbound plane then (plane, False)
      else
        let (paths, attached) = attach_send_observer (cs_paths (cp_shared plane)) in
        if \<not> attached then (plane, False)
        else (plane\<lparr>cp_inbound := False, cp_shared := (cp_shared plane)\<lparr>cs_paths := paths\<rparr>\<rparr>, True))"

text \<open>Dropping the attachment gives the data plane back.\<close>

definition drop_attachment :: "LanControlPlane \<Rightarrow> instant \<Rightarrow> LanControlPlane" where
  "drop_attachment plane now =
     (let shared = cp_shared plane;
          paths = clear_inbound (detach_send_observer (cs_paths shared)) now
      in plane\<lparr>cp_shared := shared\<lparr>cs_paths := paths\<rparr>, cp_inbound := True\<rparr>)"

definition stop_plane :: "LanControlPlane \<Rightarrow> instant \<Rightarrow> LanControlPlane \<times> PathEffect list" where
  "stop_plane plane now =
     (let shared = cp_shared plane; paths = cs_paths shared
      in (plane\<lparr>cp_cancelled := True,
               cp_shared := shared\<lparr>cs_paths := paths\<lparr>pm_ledger := ledger_finish_all (pm_ledger paths) now\<rparr>\<rparr>\<rparr>,
          map (\<lambda>link. EfControl (al_sender link) DLeave) (membership_links (cs_membership shared))))"

section \<open>The first message of a connection\<close>

text \<open>The answer, and for a join request what admission leaves behind.\<close>

datatype InitialAnswer = IaReply ControlMessage | IaFailed LanIoError | IaJoin JoinResult

definition answer_probe ::
  "ControlShared \<Rightarrow> TransactionId \<Rightarrow> ProtocolRange list \<Rightarrow> u64 \<Rightarrow> u64 \<Rightarrow> InitialAnswer" where
  "answer_probe shared transaction_id ranges required optional =
     (case direct_select_protocol SUPPORTED_PROTOCOLS ranges of
        Ok selected \<Rightarrow>
          (case direct_select_capabilities required optional DIRECT_CAPABILITIES of
             Ok enabled \<Rightarrow>
               IaReply (DProbeResponse transaction_id (pd_identity (mb_local (cs_membership shared))) selected enabled)
           | _ \<Rightarrow> IaFailed (LanIo IkOther ''''))
      | _ \<Rightarrow> IaFailed (LanIo IkOther ''''))"

fun initial_message ::
  "(ControlMessage \<Rightarrow> ('j, byte list) res) \<Rightarrow> bool \<Rightarrow> ControlShared \<Rightarrow> instant \<Rightarrow> PathMaterial \<Rightarrow> nat \<Rightarrow> nat
     \<Rightarrow> ControlMessage \<Rightarrow> InitialAnswer" where
  "initial_message to_vec stream_ok shared now fresh sender cancellation
       (DProbeRequest transaction_id introducer ranges required optional proof) =
     (if introducer = pd_identity (mb_local (cs_membership shared)) \<and> proof = cs_session_proof shared
      then answer_probe shared transaction_id ranges required optional
      else IaReply (DError DcInvalidCredential ''LAN invitation is not valid for this peer'' False))"
| "initial_message to_vec stream_ok shared now fresh sender cancellation
       (DJoinRequest link_id peer ranges required optional proof) =
     IaJoin (accept_inbound_join to_vec stream_ok shared now fresh sender cancellation
       \<lparr>jf_link_id = link_id, jf_peer = peer, jf_ranges = ranges, jf_required = required, jf_optional = optional,
        jf_proof = proof\<rparr>)"
| "initial_message to_vec stream_ok shared now fresh sender cancellation _ =
     IaReply (DJoinRejected DcInvalidState ''expected LAN probe or join request'' False)"

text \<open>What the stream yields first: \<open>None\<close> when the wait ran out, \<open>Some None\<close> when it ended.\<close>

definition handle_initial_control ::
  "(ControlMessage \<Rightarrow> ('j, byte list) res) \<Rightarrow> (byte list \<Rightarrow> ('j, ControlMessage) res) \<Rightarrow> bool
     \<Rightarrow> ControlShared \<Rightarrow> instant \<Rightarrow> PathMaterial \<Rightarrow> nat \<Rightarrow> nat \<Rightarrow> byte list option option \<Rightarrow> InitialAnswer" where
  "handle_initial_control to_vec from_slice stream_ok shared now fresh sender cancellation first =
     (case first of
        None \<Rightarrow> IaFailed (LanIo IkTimedOut ''LAN control request timed out'')
      | Some None \<Rightarrow> IaFailed (LanIo IkUnexpectedEof ''LAN control connection closed'')
      | Some (Some payload) \<Rightarrow>
          (case decode_control from_slice payload of
             Ok message \<Rightarrow> initial_message to_vec stream_ok shared now fresh sender cancellation message
           | _ \<Rightarrow> IaFailed (LanIo IkOther '''')))"

section \<open>Probing\<close>

definition lan_probe_request :: "(byte list \<Rightarrow> byte list) \<Rightarrow> TransactionId \<Rightarrow> PeerIdentity \<Rightarrow> SessionCredential \<Rightarrow> ControlMessage" where
  "lan_probe_request sha256 transaction_id introducer credential =
     DProbeRequest transaction_id introducer SUPPORTED_PROTOCOLS CAP_HOST_CANDIDATES DIRECT_CAPABILITIES
       (session_proof sha256 credential)"

fun lan_probe_response ::
  "SocketAddr \<Rightarrow> SocketAddr \<Rightarrow> TransactionId \<Rightarrow> PeerIdentity \<Rightarrow> ControlMessage \<Rightarrow> (LanIoError, LanProbeResult) res" where
  "lan_probe_response endpoint local_address transaction_id introducer (DProbeResponse returned returned_introducer selected enabled) =
     (if returned = transaction_id \<and> returned_introducer = introducer
      then Ok \<lparr>pb_endpoint = endpoint, pb_local_address = local_address, pb_selected_protocol = selected,
               pb_enabled_capabilities = enabled\<rparr>
      else Err (LanIo IkPermissionDenied ''LAN probe response did not match the invitation''))"
| "lan_probe_response endpoint local_address transaction_id introducer _ =
     Err (LanIo IkPermissionDenied ''LAN probe response did not match the invitation'')"

text \<open>The results of the endpoints that answered before the time ran out, by endpoint.\<close>

definition probe :: "(LanIoError, LanProbeResult) res list option \<Rightarrow> LanProbeResult list" where
  "probe collected =
     (case collected of
        None \<Rightarrow> []
      | Some results \<Rightarrow>
          sort_key pb_endpoint (concat (map (\<lambda>r. case r of Ok result \<Rightarrow> [result] | _ \<Rightarrow> []) results)))"

section \<open>The snapshot names its author\<close>

lemma bm_insert_len: "length (bm_insert k v m) \<le> Suc (length m)"
  by (induction k v m rule: bm_insert.induct) auto

definition names_peer :: "PeerIdentity \<Rightarrow> (PeerIdentity, PeerDescriptor) bmap \<Rightarrow> bool" where
  "names_peer i peers \<longleftrightarrow> (\<exists>d. bm_get peers i = Some d \<and> pd_identity d = i)"

lemma names_peer_insert: "names_peer i peers \<Longrightarrow> names_peer i (bm_insert (pd_identity d) d peers)"
  by (auto simp: names_peer_def)

lemma active_fold:
  "names_peer i peers \<Longrightarrow>
     names_peer i (foldl (\<lambda>peers r. bm_insert (al_identity (rl_link r)) (al_descriptor (rl_link r)) peers) peers rs)"
  "length (foldl (\<lambda>peers r. bm_insert (al_identity (rl_link r)) (al_descriptor (rl_link r)) peers) peers rs)
     \<le> length peers + length rs"
proof (induction rs arbitrary: peers)
  case (Cons r rs)
  { case 1 then show ?case using Cons(1) names_peer_insert by simp }
  { case 2 show ?case
      using Cons(2) [of "bm_insert (al_identity (rl_link r)) (al_descriptor (rl_link r)) peers"]
        bm_insert_len [of "al_identity (rl_link r)" "al_descriptor (rl_link r)" peers] by simp }
qed simp_all

lemma hints_fold:
  "names_peer i peers \<Longrightarrow> names_peer i (snapshot_hints hints peers)"
  "length (snapshot_hints hints peers) \<le> length peers + length hints"
proof (induction hints arbitrary: peers)
  case (Cons h hints)
  obtain k d where h: "h = (k, d)" by fastforce
  { case 1
    then have "names_peer i (if bm_contains peers k then peers else bm_insert k d peers)"
      by (auto simp: names_peer_def bm_contains_def)
    then show ?case using Cons(1) h by (simp add: snapshot_hints_def) }
  { case 2 show ?case
      using Cons(2) [of "if bm_contains peers k then peers else bm_insert k d peers"] bm_insert_len [of k d peers] h
      by (simp add: snapshot_hints_def split: if_splits) }
qed (simp_all add: snapshot_hints_def)

lemma snapshot_names_local:
  assumes "length (mb_hints m) + length (mb_active m) < MAX_PEERS"
  shows "\<exists>d. find (\<lambda>peer. pd_identity peer = pd_identity (mb_local m)) (membership_snapshot m) = Some d
    \<and> pd_identity d = pd_identity (mb_local m)"
proof -
  let ?i = "pd_identity (mb_local m)"
  define p1 where "p1 = foldl (\<lambda>peers r. bm_insert (al_identity (rl_link r)) (al_descriptor (rl_link r)) peers)
      (bm_insert ?i (mb_local m) []) (hm_values (mb_active m))"
  have "names_peer ?i (bm_insert ?i (mb_local m) [])" by (simp add: names_peer_def bm_get_def)
  then have n: "names_peer ?i (snapshot_hints (mb_hints m) p1)" unfolding p1_def by (intro hints_fold(1) active_fold(1))
  have "length (snapshot_hints (mb_hints m) p1) \<le> MAX_PEERS"
    using hints_fold(2) [of "mb_hints m" p1] active_fold(2) [of "bm_insert ?i (mb_local m) []" "hm_values (mb_active m)"] assms
    by (simp add: p1_def hm_values_def)
  then have s: "membership_snapshot m = bm_values (snapshot_hints (mb_hints m) p1)"
    by (simp add: membership_snapshot_def Let_def p1_def bm_values_def)
  obtain d where d: "(?i, d) \<in> set (snapshot_hints (mb_hints m) p1)" "pd_identity d = ?i"
    using n map_of_SomeD unfolding names_peer_def bm_get_def by fast
  then have "d \<in> set (membership_snapshot m)" by (force simp: s bm_values_def)
  then show ?thesis using d(2) by (cases "find (\<lambda>peer. pd_identity peer = ?i) (membership_snapshot m)")
      (auto simp: find_None_iff find_Some_iff)
qed

section \<open>Properties\<close>

text \<open>When an admission runs a link, that link is live under the key of the request.\<close>

lemma admitted_link:
  assumes "jr_running (accept_inbound_join to_vec stream_ok b now fresh sender cancellation join) = Some key"
  defines "r \<equiv> accept_inbound_join to_vec stream_ok b now fresh sender cancellation join"
  shows "key = join_key join" "is_active_link (cs_membership (jr_shared r)) (pd_identity (jf_peer join)) key"
    and "\<exists>v c. jr_reply r = DJoinAccepted v c (membership_snapshot (cs_membership (jr_shared r)))"
    and "mb_local (cs_membership (jr_shared r)) = mb_local (cs_membership b)"
proof -
  let ?link = "\<lparr>al_key = join_key join, al_descriptor = jf_peer join, al_sender = sender, al_cancellation = cancellation\<rparr>"
  obtain m result where reg: "register (cs_membership b) ?link = (m, result)" by fastforce
  obtain replaced e where acc: "result = RrAccepted replaced e"
    using assms(1) reg
    by (auto simp: accept_inbound_join_def reject_join_def admit_link_def register_link_def split_beta Let_def
        split: if_splits res.splits RegisterResult.splits)
  note act = room_accepted(1) [OF reg [unfolded acc], of "pd_identity (jf_peer join)"]
  have "mb_local m = mb_local (cs_membership b)"
    using reg acc by (auto simp: register_def Let_def split: if_splits option.splits)
  then show "key = join_key join" "is_active_link (cs_membership (jr_shared r)) (pd_identity (jf_peer join)) key"
    "\<exists>v c. jr_reply r = DJoinAccepted v c (membership_snapshot (cs_membership (jr_shared r)))"
    "mb_local (cs_membership (jr_shared r)) = mb_local (cs_membership b)"
    using assms(1) reg acc act unfolding r_def
    by (auto simp: accept_inbound_join_def reject_join_def admit_link_def register_link_def split_beta Let_def is_active_link_def
        split: if_splits res.splits)
qed

lemma register_free:
  assumes "hm_get (mb_active m) i = None" and "\<not> steam_taken m i" and "steam_of i \<noteq> steam_of (pd_identity (mb_local m))"
    and "mb_next_lifecycle_epoch m = Some e" and "al_identity link = i"
  shows "\<exists>m'. register m link = (m', RrAccepted None e)"
  using assms by (auto simp: register_def Let_def)

lemma merge_frame:
  "mb_active (fst (merge_hints m peers)) = mb_active m" "mb_local (fst (merge_hints m peers)) = mb_local m"
  "mb_next_lifecycle_epoch (fst (merge_hints m peers)) = mb_next_lifecycle_epoch m"
proof -
  have "mb_local (fst (merge_loop m d peers)) = mb_local m" for d
    by (induction m d peers rule: merge_loop.induct) (simp_all add: Let_def)
  then show "mb_local (fst (merge_hints m peers)) = mb_local m" by (simp add: merge_hints_def split_beta)
qed simp_all

lemma complete_outbound_connects:
  assumes "hm_get (mb_active (cs_membership a)) (pd_identity remote) = None"
    and "\<not> steam_taken (cs_membership a) (pd_identity remote)"
    and "steam_of (pd_identity remote) \<noteq> steam_of (pd_identity (mb_local (cs_membership a)))"
    and "mb_next_lifecycle_epoch (cs_membership a) = Some e"
  shows "dr_result (complete_outbound a now fresh answers remote peers) = Ok ()
    \<and> is_active_link (cs_membership (dr_shared (complete_outbound a now fresh answers remote peers))) (pd_identity remote)
        \<lparr>lk_link_id = ea_link_id answers, lk_initiator = pd_identity (mb_local (cs_membership a))\<rparr>"
proof -
  let ?key = "\<lparr>lk_link_id = ea_link_id answers, lk_initiator = pd_identity (mb_local (cs_membership a))\<rparr>"
  let ?link = "\<lparr>al_key = ?key, al_descriptor = remote, al_sender = ea_sender answers, al_cancellation = ea_cancellation answers\<rparr>"
  let ?m = "fst (merge_hints (cs_membership a) peers)"
  have "steam_taken ?m = steam_taken (cs_membership a)" by (simp add: steam_taken_def fun_eq_iff merge_frame)
  then obtain m where reg: "register ?m ?link = (m, RrAccepted None e)"
    using register_free [of ?m "pd_identity remote" e ?link] assms by (auto simp: merge_frame)
  show ?thesis
    using room_accepted(1) [OF reg, of "pd_identity remote"] reg
    by (simp add: complete_outbound_def shared_merge_hints_def schedule_discovered_def register_link_def split_beta Let_def
        is_active_link_def)
qed

text \<open>
  C30: The admission handshake connects two players.  When a player dials a peer of the same room and
  the peer admits it, the answer makes the dialling side succeed, and both sides then hold a live link
  to each other under the same key.  The two players have different Steam identities, the dialling side
  has no link to that player yet, and the peer's room is small enough for its snapshot to be complete.
\<close>

theorem lan_handshake_connects:
  assumes "encode_control to_vec (outbound_request a (ea_link_id answers)) = Ok request"
    and "from_slice request = Ok (outbound_request a (ea_link_id answers))"
    and "handle_initial_control to_vec from_slice True b now fresh sender cancellation (Some (Some request)) = IaJoin r"
    and "jr_running r = Some key"
    and "encode_control to_vec (jr_reply r) = Ok reply" and "from_slice reply = Ok (jr_reply r)"
    and "length (mb_hints (cs_membership (jr_shared r))) + length (mb_active (cs_membership (jr_shared r))) < MAX_PEERS"
    and "ea_connected answers" and "ea_stream_ok answers" and "ea_response answers = Some (Some reply)"
    and "expected = pd_identity (mb_local (cs_membership b))"
    and "hm_get (mb_active (cs_membership a)) expected = None" and "\<not> steam_taken (cs_membership a) expected"
    and "steam_of expected \<noteq> steam_of (pd_identity (mb_local (cs_membership a)))"
    and "mb_next_lifecycle_epoch (cs_membership a) = Some e"
  shows "let d = establish_outbound_endpoint to_vec from_slice a now' fresh' expected answers in
     dr_result d = Ok () \<and> is_active_link (cs_membership (dr_shared d)) expected key
     \<and> is_active_link (cs_membership (jr_shared r)) (pd_identity (mb_local (cs_membership a))) key"
proof -
  let ?join = "\<lparr>jf_link_id = ea_link_id answers, jf_peer = mb_local (cs_membership a), jf_ranges = SUPPORTED_PROTOCOLS,
      jf_required = CAP_HOST_CANDIDATES, jf_optional = DIRECT_CAPABILITIES, jf_proof = cs_session_proof a\<rparr>"
  have dec: "decode_control from_slice request = Ok (outbound_request a (ea_link_id answers))"
    "decode_control from_slice reply = Ok (jr_reply r)"
    using assms(1,2,5,6) by (simp_all add: encode_control_Ok decode_control_Ok)
  have r: "r = accept_inbound_join to_vec True b now fresh sender cancellation ?join"
    using assms(3) dec(1) by (simp add: handle_initial_control_def outbound_request_def)
  note adm = admitted_link [of to_vec True b now fresh sender cancellation ?join key, folded r, OF assms(4)]
  obtain remote where remote: "find (\<lambda>peer. pd_identity peer = expected) (membership_snapshot (cs_membership (jr_shared r))) = Some remote"
    "pd_identity remote = expected"
    using snapshot_names_local [OF assms(7)] adm(4) assms(11) by auto
  have d: "establish_outbound_endpoint to_vec from_slice a now' fresh' expected answers
      = complete_outbound a now' fresh' answers remote (membership_snapshot (cs_membership (jr_shared r)))"
    using assms(1,8,9,10) dec(2) adm(3) remote(1)
    by (auto simp: establish_outbound_endpoint_def lan_send_control_def admission_response_def)
  show ?thesis
    using complete_outbound_connects [of a remote e now' fresh' answers "membership_snapshot (cs_membership (jr_shared r))"]
      assms(12-15) remote(2) adm(1,2)
    by (simp add: d Let_def join_key_def)
qed

definition room_peer :: "u64 \<Rightarrow> PeerDescriptor" where
  "room_peer n = \<lparr>pd_identity = \<lparr>id_steam_id64 = n, id_instance_id = replicate 16 1\<rparr>, pd_display_name = None,
     pd_control_candidates = [\<lparr>hc_endpoint = SockV4 0x0A000001 9, hc_priority = 1, hc_generation = 0\<rparr>], pd_capabilities = 0\<rparr>"

definition room_shared :: "u64 \<Rightarrow> ControlShared" where
  "room_shared n = \<lparr>cs_session_proof = replicate 32 9, cs_membership = membership_new (room_peer n),
     cs_paths = path_manager_new (pd_identity (room_peer n)) [], cs_dial_queue = []\<rparr>"

definition room_join :: JoinFields where
  "room_join = \<lparr>jf_link_id = replicate 16 3, jf_peer = room_peer 1, jf_ranges = SUPPORTED_PROTOCOLS,
     jf_required = CAP_HOST_CANDIDATES, jf_optional = DIRECT_CAPABILITIES, jf_proof = replicate 32 9\<rparr>"

definition room_to_vec :: "ControlMessage \<Rightarrow> (unit, byte list) res" where
  "room_to_vec message = (case message of DJoinRequest _ _ _ _ _ _ \<Rightarrow> Ok [1] | _ \<Rightarrow> Ok [2])"

definition room_admission :: JoinResult where
  "room_admission = accept_inbound_join room_to_vec True (room_shared 2) 0 sample_material 0 0 room_join"

definition room_from_slice :: "byte list \<Rightarrow> (unit, ControlMessage) res" where
  "room_from_slice payload =
     Ok (if payload = [1] then outbound_request (room_shared 1) (replicate 16 3) else jr_reply room_admission)"

definition room_answers :: EndpointAnswers where
  "room_answers = \<lparr>ea_connected = True, ea_stream_ok = True, ea_response = Some (Some [2]), ea_link_id = replicate 16 3,
     ea_sender = 0, ea_cancellation = 0\<rparr>"

lemma room_peer_ok: "n \<noteq> 0 \<Longrightarrow> descriptor_ok (room_peer n)"
  by (simp add: room_peer_def descriptor_ok_def identity_ok_def all_zero_def list_all_iff MAX_CANDIDATES_def
      candidates_ok_def v4_is_unspecified_def v4_is_multicast_def v4_is_broadcast_def bits_subset_def)

lemma room_register:
  "\<exists>m. register (membership_new (room_peer 2))
      \<lparr>al_key = join_key room_join, al_descriptor = room_peer 1, al_sender = 0, al_cancellation = 0\<rparr> = (m, RrAccepted None 1)
    \<and> membership_snapshot m = [room_peer 1, room_peer 2] \<and> length (mb_hints m) = 1 \<and> length (mb_active m) = 1"
  by (simp add: register_def membership_new_def Let_def steam_taken_def hm_values_def hm_get_def hm_insert_def hm_remove_def
      membership_snapshot_def snapshot_hints_def bm_retain_def bm_contains_def bm_get_def bm_values_def MAX_PEERS_def)
    (simp add: room_peer_def less_PeerIdentity_ext_def)

lemma room_admission_state:
  "jr_running room_admission = Some (join_key room_join)"
  "message_ok (jr_reply room_admission)" "room_to_vec (jr_reply room_admission) = Ok [2]"
  "length (mb_hints (cs_membership (jr_shared room_admission))) + length (mb_active (cs_membership (jr_shared room_admission))) < MAX_PEERS"
proof -
  have sel: "direct_select_protocol SUPPORTED_PROTOCOLS SUPPORTED_PROTOCOLS = Ok \<lparr>pv_major = 2, pv_minor = 0\<rparr>"
    "direct_select_capabilities CAP_HOST_CANDIDATES DIRECT_CAPABILITIES DIRECT_CAPABILITIES = Ok 7"
    by code_simp+
  obtain m where m: "register (membership_new (room_peer 2))
      \<lparr>al_key = join_key room_join, al_descriptor = room_peer 1, al_sender = 0, al_cancellation = 0\<rparr> = (m, RrAccepted None 1)"
    "membership_snapshot m = [room_peer 1, room_peer 2]" "length (mb_hints m) = 1" "length (mb_active m) = 1"
    using room_register by blast
  have ok: "message_ok (DJoinAccepted \<lparr>pv_major = 2, pv_minor = 0\<rparr> 7 [room_peer 1, room_peer 2])"
    using room_peer_ok [of 1] room_peer_ok [of 2]
    by (simp add: peers_ok_def MAX_PEERS_def) (simp add: room_peer_def bits_subset_def DIRECT_CAPABILITIES_def
        CAP_HOST_CANDIDATES_def CAP_DIRECT_UDP_def CAP_MEMBERSHIP_SNAPSHOT_def)
  then have enc: "encode_control room_to_vec (DJoinAccepted \<lparr>pv_major = 2, pv_minor = 0\<rparr> 7 [room_peer 1, room_peer 2]) = Ok [2]"
    by (simp add: encode_control_Ok room_to_vec_def MAX_CONTROL_PAYLOAD_def)
  show "jr_running room_admission = Some (join_key room_join)"
    "message_ok (jr_reply room_admission)" "room_to_vec (jr_reply room_admission) = Ok [2]"
    "length (mb_hints (cs_membership (jr_shared room_admission))) + length (mb_active (cs_membership (jr_shared room_admission))) < MAX_PEERS"
    using m sel enc ok
    by (simp_all add: room_admission_def accept_inbound_join_def room_join_def room_shared_def register_link_def admit_link_def
        lan_send_control_def split_beta Let_def room_to_vec_def MAX_PEERS_def)
qed

theorem lan_handshake_connects_witness:
  "let d = establish_outbound_endpoint room_to_vec room_from_slice (room_shared 1) 5 sample_material
         (pd_identity (room_peer 2)) room_answers in
     dr_result d = Ok () \<and> is_active_link (cs_membership (dr_shared d)) (pd_identity (room_peer 2)) (join_key room_join)
     \<and> is_active_link (cs_membership (jr_shared room_admission)) (pd_identity (mb_local (cs_membership (room_shared 1))))
         (join_key room_join)"
proof (rule lan_handshake_connects [where request = "[1]" and reply = "[2]" and e = 1 and now = 0 and fresh = sample_material
      and sender = 0 and cancellation = 0 and b = "room_shared 2"])
  have req: "message_ok (outbound_request (room_shared 1) (replicate 16 3))"
    using room_peer_ok [of 1]
    by (simp add: outbound_request_def room_shared_def membership_new_def SUPPORTED_PROTOCOLS_def ranges_ok_def
        range_inverted_def direct_frame_consts MAX_PROTOCOL_RANGES_def all_zero_def list_all_iff)
  then show enc: "encode_control room_to_vec (outbound_request (room_shared 1) (ea_link_id room_answers)) = Ok [1]"
    by (simp add: encode_control_Ok room_answers_def outbound_request_def room_to_vec_def MAX_CONTROL_PAYLOAD_def)
  show "room_from_slice [1] = Ok (outbound_request (room_shared 1) (ea_link_id room_answers))"
    by (simp add: room_from_slice_def room_answers_def)
  have "decode_control room_from_slice [1] = Ok (outbound_request (room_shared 1) (replicate 16 3))"
    using req by (simp add: decode_control_Ok room_from_slice_def MAX_CONTROL_PAYLOAD_def)
  then show "handle_initial_control room_to_vec room_from_slice True (room_shared 2) 0 sample_material 0 0 (Some (Some [1]))
      = IaJoin room_admission"
    by (simp add: handle_initial_control_def outbound_request_def room_admission_def room_join_def room_shared_def
        membership_new_def)
  show "encode_control room_to_vec (jr_reply room_admission) = Ok [2]"
    using room_admission_state by (simp add: encode_control_Ok MAX_CONTROL_PAYLOAD_def)
qed (use room_admission_state in \<open>simp_all add: room_from_slice_def room_answers_def room_shared_def membership_new_def
      steam_taken_def hm_values_def hm_get_def\<close>, simp_all add: room_peer_def)

text \<open>
  An invitation works: a player who probes a room with the invitation the room hands out gets an
  answer that the probe accepts, with the newest protocol version and every capability enabled.
\<close>

lemma invitation_probe_matches:
  assumes "control_plane_create sha256 to_vec bind data_candidates identity display_name credential adapters = Ok plane"
  shows "\<exists>reply. initial_message to_vec' stream_ok (cp_shared plane) now fresh sender cancellation
        (lan_probe_request sha256 transaction_id (lj_introducer (invitation plane)) (lj_session_credential (invitation plane))) = IaReply reply
    \<and> lan_probe_response endpoint local_address transaction_id (lj_introducer (invitation plane)) reply
        = Ok \<lparr>pb_endpoint = endpoint, pb_local_address = local_address,
              pb_selected_protocol = \<lparr>pv_major = DIRECT_MAJOR, pv_minor = DIRECT_MINOR\<rparr>,
              pb_enabled_capabilities = DIRECT_CAPABILITIES\<rparr>"
proof -
  have plane: "cs_session_proof (cp_shared plane) = session_proof sha256 (cp_session_credential plane)"
    using assms by (auto simp: control_plane_create_def Let_def split_beta split: if_splits)
  have sel: "direct_select_protocol SUPPORTED_PROTOCOLS SUPPORTED_PROTOCOLS = Ok \<lparr>pv_major = DIRECT_MAJOR, pv_minor = DIRECT_MINOR\<rparr>"
    "direct_select_capabilities CAP_HOST_CANDIDATES DIRECT_CAPABILITIES DIRECT_CAPABILITIES = Ok DIRECT_CAPABILITIES"
    by code_simp+
  show ?thesis by (simp add: lan_probe_request_def invitation_def plane answer_probe_def sel)
qed

definition sample_adapter :: LanAdapterAddress where
  "sample_adapter = \<lparr>aa_adapter_id = ''1:eth'', aa_name = ''eth'', aa_address = IpV4 0x0A000001, aa_interface_index = 1\<rparr>"

lemma invitation_probe_matches_witness:
  "\<exists>plane reply. control_plane_create (\<lambda>bytes. take 32 bytes) (\<lambda>_. Ok [1] :: (unit, byte list) res) (\<lambda>_. Ok (SockV4 0x0A000001 9))
       (\<lambda>_. []) (pd_identity (room_peer 1)) ''p'' (replicate 16 1) [sample_adapter] = Ok plane
   \<and> initial_message (\<lambda>_. Ok [1] :: (unit, byte list) res) True (cp_shared plane) 0 sample_material 0 0
       (lan_probe_request (\<lambda>bytes. take 32 bytes) (replicate 16 5) (lj_introducer (invitation plane))
         (lj_session_credential (invitation plane))) = IaReply reply"
proof -
  let ?c = "\<lparr>hc_endpoint = SockV4 0x0A000001 9, hc_priority = 1, hc_generation = 0\<rparr>"
  have cand: "endpoint_candidates 1 0 [SockV4 0x0A000001 9] = Ok [?c]"
    by (simp add: candidate_new_def candidate_validate_def v4_is_unspecified_def v4_is_multicast_def v4_is_broadcast_def
        endpoint_priority_def Let_def)
  have "message_ok (DPeerSnapshot [room_descriptor (pd_identity (room_peer 1)) ''p'' [?c]])"
    by (simp add: peers_ok_def MAX_PEERS_def room_descriptor_def room_peer_def descriptor_ok_def identity_ok_def all_zero_def
        list_all_iff MAX_CANDIDATES_def MAX_DISPLAY_NAME_LEN_def candidates_ok_def v4_is_unspecified_def v4_is_multicast_def
        v4_is_broadcast_def bits_subset_def)
  then have enc: "encode_control (\<lambda>_. Ok [1] :: (unit, byte list) res)
      (DPeerSnapshot [room_descriptor (pd_identity (room_peer 1)) ''p'' [?c]]) = Ok [1]"
    by (simp add: encode_control_Ok MAX_CONTROL_PAYLOAD_def)
  obtain plane where "control_plane_create (\<lambda>bytes. take 32 bytes) (\<lambda>_. Ok [1] :: (unit, byte list) res) (\<lambda>_. Ok (SockV4 0x0A000001 9))
       (\<lambda>_. []) (pd_identity (room_peer 1)) ''p'' (replicate 16 1) [sample_adapter] = Ok plane"
    using cand enc by (simp add: control_plane_create_def MAX_CANDIDATES_def Let_def)
  from this invitation_probe_matches [OF this, of "\<lambda>_. Ok [1] :: (unit, byte list) res" True 0 sample_material 0 0 "replicate 16 5"]
  show ?thesis by blast
qed

lemma endpoint_candidates_Ok:
  "endpoint_candidates n index endpoints = Ok cands \<Longrightarrow> map hc_endpoint cands = endpoints
     \<and> list_all unicast_endpoint endpoints"
  by (induction n index endpoints arbitrary: cands rule: endpoint_candidates.induct)
    (auto split: res.splits simp: rbind_eq_Ok)

lemma bind_loop_len: "length (fst (bind_loop bind seen bound last_error adapters)) \<le> length bound + length adapters"
proof (induction adapters arbitrary: seen bound last_error)
  case (Cons adapter rest)
  have le: "length (fst (bind_loop bind seen' bound' error' rest)) \<le> Suc (length bound + length rest)"
    if "length bound' \<le> Suc (length bound)" for seen' bound' error'
    using Cons.IH [of seen' bound' error'] that by linarith
  show ?case by (auto simp: Let_def intro!: le split: res.splits)
qed simp

text \<open>A room that is created has between one and eight endpoints, all of them unicast.\<close>

lemma create_endpoints:
  assumes "control_plane_create sha256 to_vec bind data_candidates identity display_name credential adapters = Ok plane"
  shows "cp_control_endpoints plane \<noteq> [] \<and> length (cp_control_endpoints plane) \<le> MAX_CANDIDATES
    \<and> list_all unicast_endpoint (cp_control_endpoints plane)"
proof -
  obtain bound last_error where b: "bind_loop bind [] [] None adapters = (bound, last_error)" by fastforce
  have len: "length adapters \<le> MAX_CANDIDATES" using assms by (auto simp: control_plane_create_def split: if_splits)
  obtain cands where c: "endpoint_candidates (length bound) 0 bound = Ok cands" "bound \<noteq> []"
    "cp_control_endpoints plane = map hc_endpoint cands"
    using assms b by (auto simp: control_plane_create_def Let_def rbind_eq_Ok split: if_splits)
  show ?thesis
    using endpoint_candidates_Ok [OF c(1)] c(2,3) bind_loop_len [of bind "[]" "[]" None adapters] b len
    by (auto simp: list_all_iff)
qed

end
