(* ===== verification/Client_Runtime.thy ===== *)
theory Client_Runtime
  imports Client_State Lan_Control Relay_Session
begin

text \<open>
  The bridge client itself (\<open>bridge-core/src/client/runtime.rs\<close>, \<open>runtime/maintenance.rs\<close> and
  \<open>input_delay.rs\<close>): the state the interface shows, the events that change it, and the operations that join and
  leave a room and start and stop the game.

  Whatever the client hears from outside is the function \<open>env\<close> of the moments of its life: what the receivers
  hold when they are polled, and the answers of the threads, the file system and the operating system.  A call that
  hears something from outside passes a moment (\<open>tick\<close>).  The build is the one for a system other than Linux,
  without the Proton sidecar.  A log sink is told each message and is not modelled.
\<close>

section \<open>The state\<close>

abbreviation KNotFound :: io_kind where "KNotFound \<equiv> KOther 3"

type_synonym io_error = "io_kind \<times> string"

datatype InputDelayOperation = IoRead | IoWrite

datatype InputDelayError =
  IeSessionNotRunning | IeUnsupportedMode | IeHookNotReady | IeHook ErrorCode | IeIo io_error

record InputDelayStatus =
  ids_operation :: InputDelayOperation
  ids_result :: "string + i32"
  ids_updated_at :: u64

datatype ClientError = ClConfig ConfigError | ClIo io_error | ClInputDelay InputDelayError

text \<open>The handle of a running session: its channels are the business of the moments.\<close>

record SessionHandle =
  sx_persistent :: bool
  sx_mode :: SessionMode

record 'p RuntimeState =
  ru_status :: SessionStatus
  ru_active_session_mode :: "SessionMode option"
  ru_counters :: Counters
  ru_detected_accounts :: "SteamIdentity list"
  ru_logs :: "LogEntry list"
  ru_readiness_probe_running :: bool
  ru_hook_probe_running :: bool
  ru_latest_readiness_probe :: "'p option"
  ru_latest_hook_receive_probe :: "HookReceiveProbeReport option"
  ru_latest_hook_receive_probe_error :: "string option"
  ru_latest_session_health :: "SessionHealthSnapshot option"
  ru_latest_session_health_summary :: "SessionHealthSnapshot option"
  ru_smoothness :: SmoothnessSnapshot
  ru_latest_input_delay_status :: "InputDelayStatus option"
  ru_hook_launch_parameters_path_written :: "string option"
  ru_hook_launch_parameters_cleanup :: "string option"
  ru_hook_startup :: HookStartupState
  ru_hook_ipc :: HookIpcState
  ru_hook_runtime_active :: bool
  ru_last_stop_reason :: "SessionStopReason option"
  ru_client_incidents :: "ClientIncidentSnapshot list"
  ru_light_ping_reports :: "LightPingReport list"
  ru_room_peers :: "PeerPresenceInfo list"
  ru_relay_room_steam_id64 :: "u64 option"
  ru_steam_identity_mismatch :: "SteamIdentityMismatch option"
  ru_missing_game_targets :: "u64 list"
  ru_room_path_quality :: "RoomPathQualitySnapshot list"
  ru_lan_peers :: "LanPeerState list"
  ru_lan_paths :: "LanPeerPathState list"
  ru_relay_link :: RelayLinkState
  ru_relay_rtt :: "duration option"

text \<open>The client extends the state it shows by what it keeps for itself; \<open>bc_moment\<close> counts the moments passed.\<close>

record 'p BridgeClient = "'p RuntimeState" +
  bc_session :: "SessionHandle option"
  bc_relay_room :: bool
  bc_active_log_context :: "ClientSessionLogContext option"
  bc_observed_game_targets :: "u64 list"
  bc_relay_peers_known :: bool
  bc_resume_gameplay_after_rejoin :: bool
  bc_readiness_probe :: bool
  bc_hook_receive_probe :: bool
  bc_light_ping_probe :: bool
  bc_next_request_id :: u32
  bc_moment :: nat

text \<open>
  An answer that is an \<open>io_error option\<close> is \<open>None\<close> when the call succeeded; a sum carries its error to the left.
\<close>

datatype Removal = RmRemoved | RmMissing | RmFailed string

record 'p Moment =
  mo_session :: "'p RuntimeEvent list"
  mo_room :: "'p RuntimeEvent list"
  mo_readiness :: "'p RuntimeEvent list"
  mo_hook_probe :: "'p RuntimeEvent list"
  mo_light_ping :: "'p RuntimeEvent list"
  mo_stopped :: "'p RuntimeEvent list"
  mo_detach :: "io_error option"
  mo_attach :: "io_error option"
  mo_room_join :: "io_error option"
  mo_room_attach :: "io_error option"
  mo_isaac_running :: bool
  mo_hook_paths :: "string + string \<times> string"
  mo_ipc_bind :: "io_error option"
  mo_hook_config :: "io_error + string"
  mo_launch :: "io_error option"
  mo_removed :: Removal
  mo_input_delay :: "u32 \<Rightarrow> InputDelayCommand \<Rightarrow> io_error + (ErrorCode + i32)"
  mo_accounts :: "SteamIdentity list"
  mo_unix_seconds :: u64
  mo_unix_ms :: u64

type_synonym 'p env = "nat \<Rightarrow> 'p Moment"

definition moment :: "'p env \<Rightarrow> 'p BridgeClient \<Rightarrow> 'p Moment" where
  "moment env c = env (bc_moment c)"

definition tick :: "'p BridgeClient \<Rightarrow> 'p BridgeClient" where
  "tick c = c\<lparr>bc_moment := Suc (bc_moment c)\<rparr>"

definition client_new :: "'p BridgeClient" where
  "client_new =
     \<lparr>ru_status = StIdle, ru_active_session_mode = None, ru_counters = counters_default, ru_detected_accounts = [],
      ru_logs = [], ru_readiness_probe_running = False, ru_hook_probe_running = False,
      ru_latest_readiness_probe = None, ru_latest_hook_receive_probe = None,
      ru_latest_hook_receive_probe_error = None, ru_latest_session_health = None,
      ru_latest_session_health_summary = None, ru_smoothness = smoothness_default,
      ru_latest_input_delay_status = None, ru_hook_launch_parameters_path_written = None,
      ru_hook_launch_parameters_cleanup = None, ru_hook_startup = hook_startup_default,
      ru_hook_ipc = hook_ipc_default, ru_hook_runtime_active = False, ru_last_stop_reason = None,
      ru_client_incidents = [], ru_light_ping_reports = [], ru_room_peers = [], ru_relay_room_steam_id64 = None,
      ru_steam_identity_mismatch = None, ru_missing_game_targets = [], ru_room_path_quality = [],
      ru_lan_peers = [], ru_lan_paths = [], ru_relay_link = RlInactive, ru_relay_rtt = None,
      bc_session = None, bc_relay_room = False, bc_active_log_context = None, bc_observed_game_targets = [],
      bc_relay_peers_known = False, bc_resume_gameplay_after_rejoin = False, bc_readiness_probe = False,
      bc_hook_receive_probe = False, bc_light_ping_probe = False, bc_next_request_id = 1, bc_moment = 0\<rparr>"

section \<open>Maintenance\<close>

definition push_log :: "'p env \<Rightarrow> LogLevel \<Rightarrow> string \<Rightarrow> 'p BridgeClient \<Rightarrow> 'p BridgeClient" where
  "push_log env level message c =
     c\<lparr>ru_logs := trim_logs (ru_logs c @ [log_entry (mo_unix_ms (moment env c)) level message])\<rparr>"

definition clear_logs :: "'p BridgeClient \<Rightarrow> 'p BridgeClient" where
  "clear_logs c = c\<lparr>ru_logs := []\<rparr>"

definition join_with :: "string \<Rightarrow> string list \<Rightarrow> string" where
  "join_with sep xs = (case xs of [] \<Rightarrow> [] | x # xs \<Rightarrow> x @ concat (map (\<lambda>y. sep @ y) xs))"

definition clear_gameplay_targets :: "'p BridgeClient \<Rightarrow> 'p BridgeClient" where
  "clear_gameplay_targets c = c\<lparr>bc_observed_game_targets := [], ru_missing_game_targets := []\<rparr>"

definition missing_targets :: "'p BridgeClient \<Rightarrow> u64 list" where
  "missing_targets c =
     filter (\<lambda>target. \<not> list_ex (\<lambda>peer. ppi_steam_id64 peer = target) (ru_room_peers c)) (bc_observed_game_targets c)"

definition refresh_missing_game_targets :: "'p env \<Rightarrow> 'p BridgeClient \<Rightarrow> 'p BridgeClient" where
  "refresh_missing_game_targets env c =
     (if ru_status c \<noteq> StRunning \<or> \<not> bc_relay_peers_known c then c
      else
        let missing = missing_targets c;
            newly_missing = filter (\<lambda>target. target \<notin> set (ru_missing_game_targets c)) missing;
            c = c\<lparr>ru_missing_game_targets := missing\<rparr>
        in if newly_missing = [] then c
           else push_log env LvWarn
             (''Game target SteamID is not in the current Relay room: ''
              @ join_with '','' (map decimal_word newly_missing)) c)"

definition observe_game_target :: "'p env \<Rightarrow> u64 \<Rightarrow> 'p BridgeClient \<Rightarrow> 'p BridgeClient" where
  "observe_game_target env target c =
     (if ru_status c \<noteq> StRunning then c
      else if target \<in> set (bc_observed_game_targets c) then c
      else refresh_missing_game_targets env
             (c\<lparr>bc_observed_game_targets := bc_observed_game_targets c @ [target]\<rparr>))"

definition refresh_smoothness :: "'p env \<Rightarrow> 'p BridgeClient \<Rightarrow> 'p BridgeClient" where
  "refresh_smoothness env c =
     c\<lparr>ru_smoothness := assess_smoothness (ru_latest_session_health c) (ru_room_path_quality c)
                          (mo_unix_seconds (moment env c))\<rparr>"

definition identity_mismatch :: "u64 option \<Rightarrow> u64 option \<Rightarrow> SteamIdentityMismatch option" where
  "identity_mismatch room game =
     (case (room, game) of
        (Some r, Some g) \<Rightarrow>
          if r \<noteq> g then Some \<lparr>im_room_steam_id64 = r, im_game_steam_id64 = g\<rparr> else None
      | _ \<Rightarrow> None)"

definition refresh_steam_identity_mismatch :: "'p env \<Rightarrow> 'p BridgeClient \<Rightarrow> 'p BridgeClient" where
  "refresh_steam_identity_mismatch env c =
     (let mismatch = identity_mismatch (ru_relay_room_steam_id64 c) (hi_game_steam_id64 (ru_hook_ipc c));
          c = (case mismatch of
                 Some m \<Rightarrow>
                   if mismatch \<noteq> ru_steam_identity_mismatch c then
                     push_log env LvWarn
                       (''Steam identity mismatch: Isaac uses '' @ decimal_word (im_game_steam_id64 m)
                        @ '' but the Relay room uses '' @ decimal_word (im_room_steam_id64 m)) c
                   else c
               | None \<Rightarrow> c)
      in c\<lparr>ru_steam_identity_mismatch := mismatch\<rparr>)"

definition startup_verdict :: "HookIpcState \<Rightarrow> HookStartupPhase \<times> bool \<times> string" where
  "startup_verdict ipc =
     (if hi_installation ipc = HiFailed then
        (HpFailed, False, case hi_last_error ipc of
           None \<Rightarrow> ''Native Hook startup failed; fully exit Isaac and try again'' | Some e \<Rightarrow> e)
      else case hi_connection ipc of
        IcFailed \<Rightarrow>
          (HpFailed, False, case hi_last_error ipc of
             None \<Rightarrow> ''Native Hook local IPC failed'' | Some e \<Rightarrow> ''Native Hook local IPC failed: '' @ e)
      | IcConnected \<Rightarrow>
          if hi_installation ipc = HiReady then (HpReady, True, ''Native Hook is ready'')
          else (HpEndpointReady, True, ''Native Hook connected; installing Steam networking hooks'')
      | _ \<Rightarrow> (HpWaitingForHookEndpoint, False, ''Injection succeeded; waiting for Native Hook''))"

definition reconcile_hook_startup :: "'p env \<Rightarrow> 'p BridgeClient \<Rightarrow> 'p BridgeClient" where
  "reconcile_hook_startup env c =
     (let startup = ru_hook_startup c
      in if \<not> hs_injected startup \<or> hs_phase startup \<in> {HpFailed, HpCancelled} then c
         else
           let (phase, endpoint_ready, message) = startup_verdict (ru_hook_ipc c)
           in c\<lparr>ru_hook_startup := startup\<lparr>hs_phase := phase, hs_endpoint_ready := endpoint_ready,
                 hs_message := Some message, hs_updated_at := mo_unix_seconds (moment env c)\<rparr>\<rparr>)"

definition apply_hook_startup_state :: "'p env \<Rightarrow> HookStartupState \<Rightarrow> 'p BridgeClient \<Rightarrow> 'p BridgeClient" where
  "apply_hook_startup_state env startup c =
     (let startup = (if hs_launch_parameters_path startup = None
                     then startup\<lparr>hs_launch_parameters_path := ru_hook_launch_parameters_path_written c\<rparr>
                     else startup)
      in reconcile_hook_startup env (c\<lparr>ru_hook_startup := startup\<rparr>))"

definition apply_hook_ipc_state :: "'p env \<Rightarrow> HookIpcState \<Rightarrow> 'p BridgeClient \<Rightarrow> 'p BridgeClient" where
  "apply_hook_ipc_state env ipc c =
     refresh_steam_identity_mismatch env (reconcile_hook_startup env (c\<lparr>ru_hook_ipc := ipc\<rparr>))"

definition is_game_exited :: "SessionStopReason \<Rightarrow> bool" where
  "is_game_exited r = (case r of SrGameExited _ _ \<Rightarrow> True | _ \<Rightarrow> False)"

definition finish_game_exit :: "'p BridgeClient \<Rightarrow> 'p BridgeClient" where
  "finish_game_exit c =
     (if \<not> (case ru_last_stop_reason c of Some r \<Rightarrow> is_game_exited r | None \<Rightarrow> False) then c
      else (clear_gameplay_targets
              (c\<lparr>ru_status := StIdle, ru_active_session_mode := None, ru_hook_runtime_active := False,
                 ru_hook_startup := hook_startup_default, ru_hook_ipc := hook_ipc_default,
                 ru_steam_identity_mismatch := None, bc_resume_gameplay_after_rejoin := False\<rparr>))
             \<lparr>bc_active_log_context := None\<rparr>)"

definition record_hook_startup_failure ::
  "'p env \<Rightarrow> (string \<times> string) option \<Rightarrow> string \<Rightarrow> 'p BridgeClient \<Rightarrow> 'p BridgeClient" where
  "record_hook_startup_failure env paths message c =
     (let startup = hook_startup_default
            \<lparr>hs_phase := HpFailed, hs_launch_parameters_path := ru_hook_launch_parameters_path_written c,
             hs_message := Some message, hs_updated_at := mo_unix_seconds (moment env c)\<rparr>;
          startup = (case paths of
             None \<Rightarrow> startup
           | Some (injector, hook) \<Rightarrow>
               startup\<lparr>hs_injector_path := Some injector, hs_hook_path := Some hook,
                       hs_endpoint := Some ''local IPC''\<rparr>)
      in push_log env LvError message (c\<lparr>ru_hook_startup := startup\<rparr>))"

definition starts_with :: "string \<Rightarrow> string \<Rightarrow> bool" where
  "starts_with s prefix \<longleftrightarrow> take (length prefix) s = prefix"

definition cleanup_finished :: "string option \<Rightarrow> bool" where
  "cleanup_finished status =
     (case status of None \<Rightarrow> False
      | Some s \<Rightarrow> starts_with s ''removed '' \<or> starts_with s ''already_missing '')"

definition cleanup_text :: "Removal \<Rightarrow> string \<Rightarrow> string \<Rightarrow> string" where
  "cleanup_text removal path reason =
     (case removal of
        RmRemoved \<Rightarrow> ''removed path='' @ path @ '' reason='' @ reason
      | RmMissing \<Rightarrow> ''already_missing path='' @ path @ '' reason='' @ reason
      | RmFailed e \<Rightarrow> ''remove_failed path='' @ path @ '' reason='' @ reason @ '' error='' @ e)"

definition cleanup_hook_launch_parameters :: "'p env \<Rightarrow> string \<Rightarrow> 'p BridgeClient \<Rightarrow> 'p BridgeClient" where
  "cleanup_hook_launch_parameters env reason c =
     (if cleanup_finished (ru_hook_launch_parameters_cleanup c) then c
      else case ru_hook_launch_parameters_path_written c of
        None \<Rightarrow> c
      | Some path \<Rightarrow>
          let status = cleanup_text (mo_removed (moment env c)) path reason;
              c = push_log env (if starts_with status ''remove_failed'' then LvWarn else LvInfo)
                    (''Native Hook launch parameters '' @ status) (tick c)
          in c\<lparr>ru_hook_launch_parameters_cleanup := Some status\<rparr>)"

definition prepare_gameplay_start ::
  "ClientSessionLogRoute \<Rightarrow> SessionMode \<Rightarrow> 'p BridgeClient \<Rightarrow> 'p BridgeClient" where
  "prepare_gameplay_start route mode c =
     (let c = c\<lparr>ru_last_stop_reason := None, ru_latest_hook_receive_probe := None,
                ru_latest_hook_receive_probe_error := None, ru_latest_session_health := None,
                ru_latest_session_health_summary := None, ru_smoothness := smoothness_default,
                ru_latest_input_delay_status := None, ru_active_session_mode := None, ru_client_incidents := [],
                bc_observed_game_targets := [], ru_missing_game_targets := []\<rparr>;
          c = (if bc_relay_room c then c
               else c\<lparr>bc_relay_peers_known := False, ru_room_peers := [], ru_room_path_quality := [],
                      ru_relay_link := RlInactive, ru_relay_rtt := None\<rparr>)
      in c\<lparr>bc_active_log_context := Some \<lparr>lc_route = route, lc_mode = mode\<rparr>\<rparr>)"

definition log_session_route :: "'p env \<Rightarrow> SessionConfig \<Rightarrow> 'p BridgeClient \<Rightarrow> 'p BridgeClient" where
  "log_session_route env config c =
     (if sc_mode config = SmOfficial then c
      else case sc_route config of
        RcExternalRelay route \<Rightarrow>
          let c = (case er_relay_name route of
                     None \<Rightarrow> c | Some name \<Rightarrow> push_log env LvInfo (''Relay preset: '' @ name) c);
              c = push_log env LvInfo (''Relay endpoint: '' @ relay_endpoint_display (er_relay route)) c
          in push_log env LvInfo (''Transport: '' @ transport_display (er_transport route)) c
      | RcLanDirect _ \<Rightarrow> push_log env LvInfo ''Session route: direct LAN'' c)"

section \<open>Events\<close>

definition apply_health_snapshot :: "'p env \<Rightarrow> SessionHealthSnapshot \<Rightarrow> 'p BridgeClient \<Rightarrow> 'p BridgeClient" where
  "apply_health_snapshot env snapshot c =
     (let (incidents, incident) =
            record_session_health_incident (ru_client_incidents c) (mo_unix_seconds (moment env c)) snapshot;
          c = c\<lparr>ru_client_incidents := incidents\<rparr>;
          c = (case incident of
                 None \<Rightarrow> c
               | Some i \<Rightarrow> push_log env LvWarn
                   (''Client incident '' @ incident_kind_display (in_kind i) @ '': '' @ in_summary i) c)
      in refresh_smoothness env (c\<lparr>ru_latest_session_health := Some snapshot\<rparr>))"

definition apply_health_summary :: "'p env \<Rightarrow> SessionHealthSnapshot \<Rightarrow> 'p BridgeClient \<Rightarrow> 'p BridgeClient" where
  "apply_health_summary env snapshot c =
     refresh_smoothness env
       (c\<lparr>ru_latest_session_health := Some snapshot, ru_latest_session_health_summary := Some snapshot\<rparr>)"

definition apply_session_ended :: "SessionStopReason \<Rightarrow> 'p BridgeClient \<Rightarrow> 'p BridgeClient" where
  "apply_session_ended reason c =
     (if is_game_exited reason \<or> ru_last_stop_reason c = None then c\<lparr>ru_last_stop_reason := Some reason\<rparr> else c)"

definition upsert_light_ping_report :: "LightPingReport \<Rightarrow> 'p BridgeClient \<Rightarrow> 'p BridgeClient" where
  "upsert_light_ping_report report c =
     (let same = (\<lambda>r. lp_endpoint (lr_target r) = lp_endpoint (lr_target report)
                     \<and> lp_transport (lr_target r) = lp_transport (lr_target report));
          before = takeWhile (\<lambda>r. \<not> same r) (ru_light_ping_reports c);
          after = dropWhile (\<lambda>r. \<not> same r) (ru_light_ping_reports c)
      in c\<lparr>ru_light_ping_reports := before @ [report] @ tl after\<rparr>)"

definition light_ping_message :: "LightPingReport \<Rightarrow> string" where
  "light_ping_message report =
     (let target = lr_target report; endpoint = relay_endpoint_display (lp_endpoint target)
      in ''Light ping '' @ (case lp_relay_name target of None \<Rightarrow> endpoint | Some name \<Rightarrow> name)
         @ '': relay='' @ endpoint @ '' '' @ latency_label report
         @ '' received='' @ decimal_word (lr_received report) @ ''/'' @ decimal_word (lr_sent report)
         @ '' median='' @ (case lr_median_rtt_ms report of None \<Rightarrow> ''-'' | Some ms \<Rightarrow> decimal ms) @ ''ms'')"

text \<open>What a pass over the events remembers for the end of the poll.\<close>

record PollFlags =
  pl_should_clear :: bool
  pl_readiness_finished :: bool
  pl_hook_probe_finished :: bool
  pl_exhausted :: "string option"
  pl_game_exited :: bool

definition poll_flags :: PollFlags where
  "poll_flags = \<lparr>pl_should_clear = False, pl_readiness_finished = False, pl_hook_probe_finished = False,
                 pl_exhausted = None, pl_game_exited = False\<rparr>"

definition link_drops_rtt :: "RelayLinkState \<Rightarrow> bool" where
  "link_drops_rtt link =
     (case link of RlReconnecting _ _ _ _ \<Rightarrow> True | RlRecoveryExhausted _ _ _ \<Rightarrow> True | RlInactive \<Rightarrow> True | _ \<Rightarrow> False)"

definition game_over :: "'p BridgeClient \<Rightarrow> 'p BridgeClient" where
  "game_over c =
     clear_gameplay_targets (c\<lparr>ru_status := StIdle, ru_active_session_mode := None, bc_active_log_context := None\<rparr>)"

fun apply_event :: "'p env \<Rightarrow> 'p RuntimeEvent \<Rightarrow> 'p BridgeClient \<times> PollFlags \<Rightarrow> 'p BridgeClient \<times> PollFlags" where
  "apply_event env (EvLog level message) (c, f) = (push_log env level message c, f)"
| "apply_event env (EvCounterDelta delta) (c, f) = (c\<lparr>ru_counters := counters_add (ru_counters c) delta\<rparr>, f)"
| "apply_event env (EvReadinessProbeFinished result) (c, f) =
     (let c = c\<lparr>ru_readiness_probe_running := False\<rparr>
      in (case result of
            Inr report \<Rightarrow> c\<lparr>ru_latest_readiness_probe := Some report\<rparr>
          | Inl message \<Rightarrow> push_log env LvError message c, f\<lparr>pl_readiness_finished := True\<rparr>))"
| "apply_event env (EvHookReceiveProbeFinished result) (c, f) =
     (let c = c\<lparr>ru_hook_probe_running := False\<rparr>
      in (case result of
            Inr report \<Rightarrow>
              c\<lparr>ru_latest_hook_receive_probe := Some report, ru_latest_hook_receive_probe_error := None\<rparr>
          | Inl message \<Rightarrow>
              push_log env LvError message
                (c\<lparr>ru_latest_hook_receive_probe := None, ru_latest_hook_receive_probe_error := Some message\<rparr>),
          f\<lparr>pl_hook_probe_finished := True\<rparr>))"
| "apply_event env (EvHookStartup startup) (c, f) = (apply_hook_startup_state env startup c, f)"
| "apply_event env (EvHookIpc ipc) (c, f) = (apply_hook_ipc_state env ipc c, f)"
| "apply_event env (EvSessionHealthSnapshot snapshot) (c, f) = (apply_health_snapshot env snapshot c, f)"
| "apply_event env (EvSessionHealthSummary snapshot) (c, f) = (apply_health_summary env snapshot c, f)"
| "apply_event env (EvSessionEnded reason) (c, f) =
     (apply_session_ended reason c, if is_game_exited reason then f\<lparr>pl_game_exited := True\<rparr> else f)"
| "apply_event env (EvHookTargetObserved target) (c, f) = (observe_game_target env target c, f)"
| "apply_event env EvGameplayStopped (c, f) = (game_over c, f)"
| "apply_event env EvStopped (c, f) =
     (game_over (c\<lparr>ru_hook_runtime_active := False\<rparr>), f\<lparr>pl_should_clear := True\<rparr>)"
| "apply_event env (EvLightPingFinished report) (c, f) =
     (upsert_light_ping_report report (push_log env LvInfo (light_ping_message report) c), f)"
| "apply_event env (EvRoomPeersUpdated peers) (c, f) =
     (refresh_missing_game_targets env (c\<lparr>ru_room_peers := peers, bc_relay_peers_known := True\<rparr>), f)"
| "apply_event env (EvRoomPathQualityUpdated quality) (c, f) =
     (refresh_smoothness env (c\<lparr>ru_room_path_quality := quality\<rparr>), f)"
| "apply_event env (EvRelayLinkChanged link) (c, f) =
     (let c = (if link_drops_rtt link then c\<lparr>ru_relay_rtt := None\<rparr> else c);
          f = (case link of RlRecoveryExhausted _ _ reason \<Rightarrow> f\<lparr>pl_exhausted := Some reason\<rparr> | _ \<Rightarrow> f)
      in (c\<lparr>ru_relay_link := link\<rparr>, f))"
| "apply_event env (EvRelayRttUpdated rtt) (c, f) = (c\<lparr>ru_relay_rtt := rtt\<rparr>, f)"

text \<open>The last events of a session that was stopped: those that only a running session means are passed over.\<close>

fun apply_stopped_event :: "'p env \<Rightarrow> 'p RuntimeEvent \<Rightarrow> 'p BridgeClient \<times> bool \<Rightarrow> 'p BridgeClient \<times> bool" where
  "apply_stopped_event env (EvLog level message) (c, x) = (push_log env level message c, x)"
| "apply_stopped_event env (EvCounterDelta delta) (c, x) = (c\<lparr>ru_counters := counters_add (ru_counters c) delta\<rparr>, x)"
| "apply_stopped_event env (EvSessionHealthSnapshot snapshot) (c, x) = (apply_health_snapshot env snapshot c, x)"
| "apply_stopped_event env (EvSessionHealthSummary snapshot) (c, x) = (apply_health_summary env snapshot c, x)"
| "apply_stopped_event env (EvHookStartup startup) (c, x) = (apply_hook_startup_state env startup c, x)"
| "apply_stopped_event env (EvHookIpc ipc) (c, x) = (apply_hook_ipc_state env ipc c, x)"
| "apply_stopped_event env (EvHookTargetObserved target) (c, x) = (observe_game_target env target c, x)"
| "apply_stopped_event env (EvSessionEnded reason) (c, x) =
     (apply_session_ended reason c, x \<or> is_game_exited reason)"
| "apply_stopped_event env event (c, x) = (c, x)"

definition apply_stopped_session_events ::
  "'p env \<Rightarrow> 'p RuntimeEvent list \<Rightarrow> 'p BridgeClient \<Rightarrow> 'p BridgeClient" where
  "apply_stopped_session_events env events c =
     (let (c, game_exited) = fold (apply_stopped_event env) events (c, False)
      in if game_exited then finish_game_exit c else c)"

section \<open>Polling and stopping\<close>

definition collect_events :: "'p env \<Rightarrow> 'p BridgeClient \<Rightarrow> 'p RuntimeEvent list" where
  "collect_events env c =
     (if bc_session c \<noteq> None then mo_session (moment env c) else [])
     @ (if bc_relay_room c then mo_room (moment env c) else [])
     @ (if bc_readiness_probe c then mo_readiness (moment env c) else [])
     @ (if bc_hook_receive_probe c then mo_hook_probe (moment env c) else [])
     @ (if bc_light_ping_probe c then mo_light_ping (moment env c) else [])"

definition end_session :: "'p BridgeClient \<Rightarrow> 'p BridgeClient" where
  "end_session c = c\<lparr>ru_status := StIdle, ru_active_session_mode := None, ru_hook_runtime_active := False,
                     bc_active_log_context := None\<rparr>"

text \<open>\<open>handle.stop()\<close> waits for the worker and returns the events it left.\<close>

definition take_session :: "'p env \<Rightarrow> 'p BridgeClient \<Rightarrow> 'p BridgeClient" where
  "take_session env c =
     apply_stopped_session_events env (mo_stopped (moment env c)) (tick (c\<lparr>bc_session := None\<rparr>))"

definition stop_session_runtime :: "'p env \<Rightarrow> string \<Rightarrow> 'p BridgeClient \<Rightarrow> 'p BridgeClient" where
  "stop_session_runtime env reason c =
     end_session (if bc_session c = None then c
                  else cleanup_hook_launch_parameters env reason (take_session env c))"

definition user_stopped :: "'p BridgeClient \<Rightarrow> 'p BridgeClient" where
  "user_stopped c =
     (if ru_last_stop_reason c = None then c\<lparr>ru_last_stop_reason := Some SrUserStopped\<rparr> else c)"

definition is_persistent :: "'p BridgeClient \<Rightarrow> bool" where
  "is_persistent c = (case bc_session c of None \<Rightarrow> False | Some s \<Rightarrow> sx_persistent s)"

text \<open>\<open>stop_session\<close> polls the events, and polling them can stop the session: the poll is an argument here.\<close>

definition stop_session_with ::
  "('p BridgeClient \<Rightarrow> 'p BridgeClient option) \<Rightarrow> 'p env \<Rightarrow> 'p BridgeClient \<Rightarrow> 'p BridgeClient option" where
  "stop_session_with poll env c =
     (let c = clear_gameplay_targets c
      in if hs_phase (ru_hook_startup c) = HpReady \<and> is_persistent c then
           let result = mo_detach (moment env c)
           in map_option (\<lambda>c.
                case result of
                  None \<Rightarrow>
                    let c = (user_stopped c)\<lparr>ru_status := StIdle, ru_active_session_mode := None,
                                             bc_active_log_context := None\<rparr>
                    in if bc_session c = None then c
                       else push_log env LvInfo ''Gameplay stopped; Native Hook remains ready'' c
                | Some (_, error) \<Rightarrow>
                    stop_session_runtime env ''gameplay detach failed''
                      (push_log env LvError (''Could not detach gameplay from Native Hook: '' @ error) c)) (poll (tick c))
         else
           let c = (if bc_session c = None then c
                    else cleanup_hook_launch_parameters env ''user stopped session''
                           (user_stopped (take_session env c)))
           in Some (push_log env LvInfo ''Session stopped'' (end_session c)))"

definition detach_on_mismatch ::
  "('p BridgeClient \<Rightarrow> 'p BridgeClient option) \<Rightarrow> 'p env \<Rightarrow> 'p BridgeClient \<Rightarrow> 'p BridgeClient option" where
  "detach_on_mismatch poll env c =
     (case ru_steam_identity_mismatch c of
        None \<Rightarrow> Some c
      | Some mismatch \<Rightarrow>
          if ru_status c = StRunning \<and> \<not> bc_resume_gameplay_after_rejoin c then
            stop_session_with poll env
              (push_log env LvWarn
                 (''Gameplay detached because Isaac uses SteamID '' @ decimal_word (im_game_steam_id64 mismatch)
                  @ '' but the Relay room uses '' @ decimal_word (im_room_steam_id64 mismatch))
                 (c\<lparr>bc_resume_gameplay_after_rejoin := True\<rparr>))
          else Some c)"

definition clear_ended_session :: "'p env \<Rightarrow> PollFlags \<Rightarrow> 'p BridgeClient \<Rightarrow> 'p BridgeClient" where
  "clear_ended_session env f c =
     (if pl_should_clear f then cleanup_hook_launch_parameters env ''session ended'' (c\<lparr>bc_session := None\<rparr>) else c)"

definition give_up_room ::
  "('p BridgeClient \<Rightarrow> 'p BridgeClient option) \<Rightarrow> 'p env \<Rightarrow> PollFlags \<Rightarrow> 'p BridgeClient \<Rightarrow> 'p BridgeClient option" where
  "give_up_room poll env f c =
     (case pl_exhausted f of
        None \<Rightarrow> Some c
      | Some reason \<Rightarrow>
          map_option (\<lambda>c. c\<lparr>bc_relay_room := False, ru_room_peers := [], ru_room_path_quality := []\<rparr>)
            (if bc_session c \<noteq> None
             then stop_session_with poll env
                    (c\<lparr>ru_last_stop_reason := Some (SrRuntimeEnded (''relay room recovery exhausted: '' @ reason))\<rparr>)
             else Some c))"

definition finish_probes :: "PollFlags \<Rightarrow> 'p BridgeClient \<Rightarrow> 'p BridgeClient" where
  "finish_probes f c =
     (let c = (if pl_readiness_finished f then c\<lparr>bc_readiness_probe := False\<rparr> else c)
      in if pl_hook_probe_finished f then c\<lparr>bc_hook_receive_probe := False\<rparr> else c)"

definition apply_events :: "'p env \<Rightarrow> 'p BridgeClient \<Rightarrow> 'p BridgeClient \<times> PollFlags" where
  "apply_events env c =
     (let (c, f) = fold (apply_event env) (collect_events env c) (tick c, poll_flags)
      in (if pl_game_exited f then finish_game_exit c else c, f))"

text \<open>
  The poll runs with fuel, the depth to which polls and stops may call each other; without any left it is
  \<open>None\<close>.
\<close>

primrec poll_client :: "'p env \<Rightarrow> nat \<Rightarrow> 'p BridgeClient \<Rightarrow> 'p BridgeClient option" where
  "poll_client env 0 = (\<lambda>c. None)"
| "poll_client env (Suc n) = (\<lambda>c.
     let (c, f) = apply_events env c
     in map_option (finish_probes f)
          (Option.bind (detach_on_mismatch (poll_client env n) env c)
             (\<lambda>c. give_up_room (poll_client env n) env f (clear_ended_session env f c))))"

definition poll_events :: "'p env \<Rightarrow> nat \<Rightarrow> 'p BridgeClient \<Rightarrow> ('p BridgeClient \<times> bool) option" where
  "poll_events env n c = map_option (\<lambda>c'. (c', collect_events env c \<noteq> [])) (poll_client env n c)"

definition stop_session :: "'p env \<Rightarrow> nat \<Rightarrow> 'p BridgeClient \<Rightarrow> 'p BridgeClient option" where
  "stop_session env n c = stop_session_with (poll_client env n) env c"

section \<open>Rooms\<close>

definition leave_relay_room :: "'p BridgeClient \<Rightarrow> 'p BridgeClient" where
  "leave_relay_room c =
     c\<lparr>bc_relay_room := False, bc_relay_peers_known := False, bc_observed_game_targets := [], ru_room_peers := [],
       ru_relay_room_steam_id64 := None, ru_steam_identity_mismatch := None, ru_missing_game_targets := [],
       ru_room_path_quality := [], ru_relay_link := RlInactive, ru_relay_rtt := None,
       bc_resume_gameplay_after_rejoin := False\<rparr>"

type_synonym client_result = "(ClientError, unit) res"

definition io_failure :: "io_kind \<Rightarrow> string \<Rightarrow> client_result" where
  "io_failure kind message = Err (ClIo (kind, message))"

definition join_steam_id :: "ExternalRelayConfig \<Rightarrow> string \<Rightarrow> (ClientError, u64) res" where
  "join_steam_id route steam_id64 =
     map_err ClConfig
       (rbind (relay_endpoint_validate (er_relay route)) (\<lambda>_.
        if trim steam_id64 = [] then Err CeMissingSteamId
        else if \<not> list_all is_ascii_digit steam_id64 then Err CeInvalidSteamId
        else case parse_u64_digits steam_id64 of None \<Rightarrow> Err CeInvalidSteamId | Some steam \<Rightarrow> Ok steam))"

definition join_relay_room ::
  "'p env \<Rightarrow> nat \<Rightarrow> ExternalRelayConfig \<Rightarrow> string \<Rightarrow> 'p BridgeClient \<Rightarrow> ('p BridgeClient \<times> client_result) option" where
  "join_relay_room env n route steam_id64 c =
     (case join_steam_id route steam_id64 of
        Err e \<Rightarrow> Some (c, Err e)
      | Panic \<Rightarrow> Some (c, Panic)
      | Ok steam \<Rightarrow>
          let answer = mo_room_join (moment env c); c = tick (leave_relay_room c)
          in case answer of
               Some e \<Rightarrow> Some (c, Err (ClIo e))
             | None \<Rightarrow>
                 map_option (\<lambda>c. (c, Ok ()))
                   (poll_client env n
                      (refresh_steam_identity_mismatch env
                         (c\<lparr>bc_relay_room := True, ru_relay_room_steam_id64 := Some steam\<rparr>))))"

section \<open>Starting the game\<close>

definition config_log_route :: "SessionConfig \<Rightarrow> ClientSessionLogRoute" where
  "config_log_route config =
     (case sc_route config of
        RcExternalRelay route \<Rightarrow> LrExternalRelay (er_relay_name route) (er_relay route) (er_transport route)
      | RcLanDirect _ \<Rightarrow> LrLanDirect)"

definition uses_relay :: "SessionConfig \<Rightarrow> bool" where
  "uses_relay config = (case sc_route config of RcExternalRelay _ \<Rightarrow> True | RcLanDirect _ \<Rightarrow> False)"

definition is_reusable_for :: "SessionHandle \<Rightarrow> SessionMode \<Rightarrow> bool" where
  "is_reusable_for s mode \<longleftrightarrow> sx_persistent s \<and> sx_mode s = mode"

definition start_gameplay :: "'p Moment \<Rightarrow> SessionHandle \<Rightarrow> SessionConfig \<Rightarrow> io_error option" where
  "start_gameplay m s config =
     (if sc_mode config \<noteq> sx_mode s
      then Some (KInvalidInput, ''Native Hook mode cannot change while Isaac is running'')
      else if \<not> sx_persistent s
      then Some (KUnsupported, ''This gameplay runtime cannot be reattached'')
      else mo_attach m)"

text \<open>The data plane of the room is taken when there is a room and the game uses a relay.\<close>

definition attach_room :: "'p env \<Rightarrow> bool \<Rightarrow> 'p BridgeClient \<Rightarrow> io_error option" where
  "attach_room env wanted c = (if wanted \<and> bc_relay_room c then mo_room_attach (moment env c) else None)"

definition resume_session ::
  "'p env \<Rightarrow> SessionHandle \<Rightarrow> SessionConfig \<Rightarrow> 'p BridgeClient \<Rightarrow> 'p BridgeClient \<times> client_result" where
  "resume_session env s config c =
     (if hs_phase (ru_hook_startup c) \<noteq> HpReady then (c, io_failure KWouldBlock ''Native Hook is still starting'')
      else if ru_status c \<noteq> StIdle then (c, io_failure KAlreadyExists ''Gameplay is already running'')
      else if \<not> is_reusable_for s (sc_mode config)
      then (c, io_failure KInvalidInput ''Fully exit Isaac before switching between Fallback and Pure mode'')
      else case attach_room env (uses_relay config) c of
        Some e \<Rightarrow> (tick c, Err (ClIo e))
      | None \<Rightarrow>
          let m = moment env c;
              c = prepare_gameplay_start (config_log_route config) (sc_mode config) (tick c)
          in case start_gameplay m s config of
               Some e \<Rightarrow> (c\<lparr>bc_active_log_context := None\<rparr>, Err (ClIo e))
             | None \<Rightarrow>
                 let c = c\<lparr>ru_status := StRunning, ru_active_session_mode := Some (sc_mode config),
                           bc_resume_gameplay_after_rejoin := False\<rparr>;
                     c = push_log env LvInfo
                           (''Reconnected '' @ mode_display (sc_mode config) @ '' gameplay without restarting Isaac'') c
                 in (log_session_route env config c, Ok ()))"

definition startup_failed ::
  "'p env \<Rightarrow> (string \<times> string) option \<Rightarrow> string \<Rightarrow> io_kind \<Rightarrow> 'p BridgeClient \<Rightarrow> 'p BridgeClient \<times> client_result" where
  "startup_failed env paths message kind c =
     ((record_hook_startup_failure env paths message c)\<lparr>bc_active_log_context := None\<rparr>, io_failure kind message)"

definition configured_startup :: "u64 \<Rightarrow> string \<times> string \<Rightarrow> string \<Rightarrow> HookStartupState" where
  "configured_startup now paths path =
     hook_startup_default\<lparr>hs_phase := HpConfigured, hs_injector_path := Some (fst paths),
       hs_hook_path := Some (snd paths), hs_launch_parameters_path := Some path,
       hs_endpoint := Some ''local IPC'', hs_message := Some (''Hook launch parameters written to '' @ path),
       hs_updated_at := now\<rparr>"

text \<open>The hook is prepared before the game is launched; \<open>Ok\<close> when the launch can go on.\<close>

definition prepare_hook :: "'p env \<Rightarrow> 'p BridgeClient \<Rightarrow> 'p BridgeClient \<times> client_result" where
  "prepare_hook env c =
     (let m = moment env c; c = tick c
      in if mo_isaac_running m then
           startup_failed env None ''Isaac is already running. Fully exit Isaac, then click Launch Game again.''
             KAlreadyExists c
         else case mo_hook_paths m of
           Inl e \<Rightarrow> startup_failed env None (''Native Hook artifact resolution failed: '' @ e) other c
         | Inr paths \<Rightarrow>
             (case mo_ipc_bind m of
                Some (kind, e) \<Rightarrow>
                  startup_failed env (Some paths) (''Native Hook local IPC bind failed: '' @ e) kind c
              | None \<Rightarrow>
                  (case mo_hook_config m of
                     Inl (kind, e) \<Rightarrow>
                       let message = ''Native Hook launch parameter write failed: '' @ e;
                           c = record_hook_startup_failure env (Some paths) message c;
                           c = cleanup_hook_launch_parameters env ''Native Hook launch parameter write failed'' c
                       in (c\<lparr>bc_active_log_context := None\<rparr>, io_failure kind message)
                   | Inr path \<Rightarrow>
                       let c = c\<lparr>ru_hook_launch_parameters_path_written := Some path,
                                 ru_hook_startup :=
                                   configured_startup (mo_unix_seconds (moment env c)) paths path\<rparr>
                       in (push_log env LvInfo (''Native Hook launch parameters written to '' @ path) c, Ok ()))))"

definition ISAAC_APP_ID :: nat where "ISAAC_APP_ID = 250900"

definition isaac_launch_uri :: string where
  "isaac_launch_uri = ''steam://rungameid/'' @ decimal ISAAC_APP_ID"

definition launch_session ::
  "'p env \<Rightarrow> SessionConfig \<Rightarrow> 'p BridgeClient \<Rightarrow> 'p BridgeClient \<times> client_result" where
  "launch_session env config c =
     (let hooked = sc_mode config \<noteq> SmOfficial;
          (c, prepared) = (if hooked then prepare_hook env c
                           else (c\<lparr>ru_hook_launch_parameters_path_written := None\<rparr>, Ok ()))
      in case prepared of
           Err e \<Rightarrow> (c, Err e)
         | Panic \<Rightarrow> (c, Panic)
         | Ok _ \<Rightarrow>
             (case attach_room env (hooked \<and> uses_relay config) c of
                Some e \<Rightarrow> (tick c, Err (ClIo e))
              | None \<Rightarrow>
                  (case mo_launch (moment env c) of
                     Some e \<Rightarrow>
                       ((cleanup_hook_launch_parameters env ''Steam launch failed'' (tick c))
                          \<lparr>bc_active_log_context := None\<rparr>, Err (ClIo e))
                   | None \<Rightarrow>
                       let c = (tick c)\<lparr>bc_session := Some \<lparr>sx_persistent = hooked, sx_mode = sc_mode config\<rparr>,
                                        ru_status := StRunning, ru_active_session_mode := Some (sc_mode config),
                                        ru_hook_runtime_active := hooked,
                                        bc_resume_gameplay_after_rejoin := False\<rparr>;
                           c = push_log env LvInfo (''Starting '' @ mode_display (sc_mode config) @ '' session'') c;
                           c = log_session_route env config c
                       in (push_log env LvInfo (''Steam launch URI: '' @ isaac_launch_uri) c, Ok ()))))"

definition fresh_session ::
  "'p env \<Rightarrow> SessionConfig \<Rightarrow> 'p BridgeClient \<Rightarrow> 'p BridgeClient \<times> client_result" where
  "fresh_session env config c =
     launch_session env config
       ((prepare_gameplay_start (config_log_route config) (sc_mode config) c)
          \<lparr>ru_hook_launch_parameters_path_written := None, ru_hook_launch_parameters_cleanup := None,
           ru_hook_startup := hook_startup_default, ru_hook_ipc := hook_ipc_default,
           ru_hook_runtime_active := False\<rparr>)"

definition start_session ::
  "'p env \<Rightarrow> nat \<Rightarrow> SessionConfig \<Rightarrow> 'p BridgeClient \<Rightarrow> ('p BridgeClient \<times> client_result) option" where
  "start_session env n config c =
     (case session_config_validate config of
        Err e \<Rightarrow> Some (c, Err (ClConfig e))
      | Panic \<Rightarrow> Some (c, Panic)
      | Ok _ \<Rightarrow>
          (case bc_session c of
             Some s \<Rightarrow>
               if sx_persistent s then Some (resume_session env s config c)
               else map_option (fresh_session env config) (stop_session env n c)
           | None \<Rightarrow> map_option (fresh_session env config) (stop_session env n c)))"

text \<open>After the join: the game goes on, if it was running or owed, unless the account is still another.\<close>

definition finish_rejoin ::
  "'p env \<Rightarrow> nat \<Rightarrow> SessionConfig \<Rightarrow> bool \<Rightarrow> client_result \<Rightarrow> 'p BridgeClient \<Rightarrow> ('p BridgeClient \<times> client_result) option" where
  "finish_rejoin env n config owed joined c =
     (case joined of
        Err e \<Rightarrow> Some (c, Err e)
      | Panic \<Rightarrow> Some (c, Panic)
      | Ok _ \<Rightarrow>
          if ru_steam_identity_mismatch c \<noteq> None
          then Some (c, io_failure KInvalidInput ''The selected Steam account does not match the account used by Isaac'')
          else
            Option.bind (if owed then start_session env n config c else Some (c, Ok ())) (\<lambda>(c, started).
            case started of
              Err e \<Rightarrow> Some (c, Err e)
            | Panic \<Rightarrow> Some (c, Panic)
            | Ok _ \<Rightarrow> Some (c\<lparr>bc_resume_gameplay_after_rejoin := False\<rparr>, Ok ())))"

definition rejoin_relay_room ::
  "'p env \<Rightarrow> nat \<Rightarrow> SessionConfig \<Rightarrow> 'p BridgeClient \<Rightarrow> ('p BridgeClient \<times> client_result) option" where
  "rejoin_relay_room env n config c =
     (case session_config_validate config of
        Err e \<Rightarrow> Some (c, Err (ClConfig e))
      | Panic \<Rightarrow> Some (c, Panic)
      | Ok _ \<Rightarrow>
     (case sc_route config of
        RcLanDirect _ \<Rightarrow> Some (c, io_failure KInvalidInput ''Relay room rejoin requires a Relay route'')
      | RcExternalRelay route \<Rightarrow>
          let running = ru_status c = StRunning; owed = running \<or> bc_resume_gameplay_after_rejoin c
          in if running \<and> hs_phase (ru_hook_startup c) \<noteq> HpReady
             then Some (c, io_failure KWouldBlock
                            ''Wait for Native Hook startup to finish before changing Relay settings'')
             else
               Option.bind (if running then stop_session env n c else Some c) (\<lambda>c.
               Option.bind (join_relay_room env n route (sc_steam_id64 config) c) (\<lambda>(c, joined).
               finish_rejoin env n config owed joined (c\<lparr>bc_resume_gameplay_after_rejoin := owed\<rparr>)))))"

section \<open>The rest of the interface\<close>

definition client_shutdown :: "'p env \<Rightarrow> 'p BridgeClient \<Rightarrow> 'p BridgeClient" where
  "client_shutdown env c =
     (let c = (if bc_session c \<noteq> None then user_stopped c else c);
          c = leave_relay_room (stop_session_runtime env ''client shutdown'' c)
      in c\<lparr>bc_readiness_probe := False, bc_hook_receive_probe := False, bc_light_ping_probe := False\<rparr>)"

fun config_error_display :: "ConfigError \<Rightarrow> string" where
  "config_error_display CeMissingRelayHost = ''relay host is required''"
| "config_error_display CeInvalidRelayPort = ''relay port is invalid''"
| "config_error_display CeMissingSteamId = ''SteamID64 is required''"
| "config_error_display CeInvalidSteamId = ''SteamID64 must contain digits only''"
| "config_error_display CeInvalidSessionHealth = ''session health config is invalid''"

definition READINESS_PROBE_SAMPLES_PER_CASE :: u64 where "READINESS_PROBE_SAMPLES_PER_CASE = 50"

definition readiness_started_message :: "RelayEndpoint \<Rightarrow> string" where
  "readiness_started_message relay =
     ''Readiness probe started: relay='' @ relay_endpoint_display relay
     @ '' samples_per_case='' @ decimal_word READINESS_PROBE_SAMPLES_PER_CASE
     @ '' payload_bytes=[512, 1024, '' @ decimal MAX_DATA_PAYLOAD
     @ ''] connection_profiles=['' @ join_with '', '' (map transport_display [TcTcp, TcUdp]) @ '']''"

text \<open>\<open>spawn_readiness_probe\<close> refuses an endpoint that is not valid before it starts a thread.\<close>

definition start_readiness_probe :: "'p env \<Rightarrow> RelayEndpoint \<Rightarrow> 'p BridgeClient \<Rightarrow> 'p BridgeClient \<times> client_result" where
  "start_readiness_probe env relay c =
     (if ru_readiness_probe_running c
      then (c, io_failure KAlreadyExists ''readiness probe is already running'')
      else case relay_endpoint_validate relay of
        Err e \<Rightarrow> (c, io_failure other (config_error_display e))
      | Panic \<Rightarrow> (c, Panic)
      | Ok _ \<Rightarrow> (push_log env LvInfo (readiness_started_message relay)
              (c\<lparr>bc_readiness_probe := True, ru_readiness_probe_running := True\<rparr>), Ok ()))"

definition start_hook_receive_probe :: "'p env \<Rightarrow> 'p BridgeClient \<Rightarrow> 'p BridgeClient \<times> client_result" where
  "start_hook_receive_probe env c =
     (if ru_hook_probe_running c
      then (c, io_failure KAlreadyExists ''hook receive probe is already running'')
      else (push_log env LvInfo ''Hook receive probe started''
              (c\<lparr>bc_hook_receive_probe := True, ru_hook_probe_running := True,
                 ru_latest_hook_receive_probe_error := None\<rparr>), Ok ()))"

definition start_light_ping_probes :: "'p env \<Rightarrow> LightPingTarget list \<Rightarrow> 'p BridgeClient \<Rightarrow> 'p BridgeClient" where
  "start_light_ping_probes env targets c =
     (if targets = [] then c
      else push_log env LvInfo (''Light ping probes started for '' @ decimal (length targets) @ '' relay(s)'')
             (c\<lparr>ru_light_ping_reports := [], bc_light_ping_probe := True\<rparr>))"

definition run_hook_receive_probe :: "'p env \<Rightarrow> 'p BridgeClient \<Rightarrow> 'p BridgeClient \<times> HookReceiveProbeReport" where
  "run_hook_receive_probe env c =
     (let report = hook_ipc_report (ru_hook_ipc c) in (push_log env LvInfo (hook_report_display report) c, report))"

definition update_lan_state :: "LanPeerState list \<Rightarrow> LanPeerPathState list \<Rightarrow> 'p BridgeClient \<Rightarrow> 'p BridgeClient" where
  "update_lan_state peers paths c = c\<lparr>ru_lan_peers := peers, ru_lan_paths := paths\<rparr>"

definition record_lan_stage :: "'p env \<Rightarrow> string \<Rightarrow> string \<Rightarrow> 'p BridgeClient \<Rightarrow> 'p BridgeClient" where
  "record_lan_stage env stage result c = push_log env LvInfo (''LAN stage='' @ stage @ '' result='' @ result) c"

definition refresh_steam_accounts :: "'p env \<Rightarrow> 'p BridgeClient \<Rightarrow> 'p BridgeClient" where
  "refresh_steam_accounts env c =
     (let accounts = mo_accounts (moment env c)
      in push_log env LvInfo (''Detected '' @ decimal (length accounts) @ '' Steam account(s)'')
           ((tick c)\<lparr>ru_detected_accounts := accounts\<rparr>))"

text \<open>The client at its start: the version label of the build, where the configuration came from, and the warnings.\<close>

definition with_config ::
  "'p env \<Rightarrow> string \<Rightarrow> string option \<Rightarrow> string list \<Rightarrow> string option \<Rightarrow> string list \<Rightarrow> 'p BridgeClient" where
  "with_config env version source config_warnings root sink_warnings =
     (let c = refresh_steam_accounts env client_new;
          c = push_log env LvInfo (''Bridge Client ready ('' @ version @ '')'') c;
          c = (case source of None \<Rightarrow> c
               | Some path \<Rightarrow> push_log env LvInfo (''Loaded client config from '' @ path) c);
          c = fold (push_log env LvWarn) config_warnings c;
          c = (case root of None \<Rightarrow> c | Some path \<Rightarrow> push_log env LvInfo (''Bridge Client logs: '' @ path) c)
      in fold (push_log env LvWarn) sink_warnings c)"

section \<open>The input delay of the game\<close>

datatype InputDelayEvidenceBlocker =
  EbSessionNotRunning | EbUnsupportedMode | EbHookNotReady | EbCurrentDelayUnknown | EbSmoothnessUnavailable

record InputDelayEvidence =
  ev_recommendation_possible :: bool
  ev_blocker :: "InputDelayEvidenceBlocker option"
  ev_current_delay :: "i32 option"
  ev_current_delay_observed_at :: "u64 option"
  ev_smoothness :: SmoothnessSnapshot

definition hooked_mode :: "'p BridgeClient \<Rightarrow> bool" where
  "hooked_mode c \<longleftrightarrow> ru_active_session_mode c = Some SmFallback \<or> ru_active_session_mode c = Some SmPure"

definition input_delay_evidence :: "'p BridgeClient \<Rightarrow> InputDelayEvidence" where
  "input_delay_evidence c =
     (let current = Option.bind (ru_latest_input_delay_status c)
                      (\<lambda>s. case ids_result s of Inr v \<Rightarrow> Some v | Inl _ \<Rightarrow> None);
          observed_at = (if current = None then None
                         else map_option ids_updated_at (ru_latest_input_delay_status c));
          blocker = (if ru_status c \<noteq> StRunning then Some EbSessionNotRunning
                     else if \<not> hooked_mode c then Some EbUnsupportedMode
                     else if hs_phase (ru_hook_startup c) \<noteq> HpReady then Some EbHookNotReady
                     else if current = None then Some EbCurrentDelayUnknown
                     else if sm_level (ru_smoothness c) = QuUnavailable then Some EbSmoothnessUnavailable
                     else None)
      in \<lparr>ev_recommendation_possible = (blocker = None), ev_blocker = blocker, ev_current_delay = current,
          ev_current_delay_observed_at = observed_at, ev_smoothness = ru_smoothness c\<rparr>)"

definition ensure_input_delay_available :: "'p BridgeClient \<Rightarrow> InputDelayError option" where
  "ensure_input_delay_available c =
     (if ru_status c \<noteq> StRunning then Some IeSessionNotRunning
      else if \<not> hooked_mode c then Some IeUnsupportedMode
      else if hs_phase (ru_hook_startup c) \<noteq> HpReady then Some IeHookNotReady
      else None)"

definition request_input_delay ::
  "'p env \<Rightarrow> u32 \<Rightarrow> InputDelayCommand \<Rightarrow> 'p BridgeClient \<Rightarrow> InputDelayError + i32" where
  "request_input_delay env request command c =
     (case bc_session c of
        None \<Rightarrow> Inl IeSessionNotRunning
      | Some s \<Rightarrow>
          if \<not> sx_persistent s then Inl (IeIo (KNotConnected, ''Native Hook local IPC is unavailable''))
          else case mo_input_delay (moment env c) request command of
            Inl e \<Rightarrow> Inl (IeIo e)
          | Inr (Inl code) \<Rightarrow> Inl (IeHook code)
          | Inr (Inr value) \<Rightarrow> Inr value)"

fun delay_operation_display :: "InputDelayOperation \<Rightarrow> string" where
  "delay_operation_display IoRead = ''read''"
| "delay_operation_display IoWrite = ''write''"

fun error_code_display :: "ErrorCode \<Rightarrow> string" where
  "error_code_display EcInvalidRequest = ''invalid_request''"
| "error_code_display EcTargetNotFound = ''target_not_found''"
| "error_code_display EcReadFailed = ''read_failed''"
| "error_code_display EcWriteFailed = ''write_failed''"
| "error_code_display EcInternalError = ''internal_error''"
| "error_code_display EcNotConnected = ''not_connected''"

fun input_delay_error_display :: "InputDelayError \<Rightarrow> string" where
  "input_delay_error_display IeSessionNotRunning = ''session is not running''"
| "input_delay_error_display IeUnsupportedMode = ''input delay is only available in Fallback or Pure mode''"
| "input_delay_error_display IeHookNotReady = ''Native Hook is not ready''"
| "input_delay_error_display (IeHook code) = ''Native Hook returned '' @ error_code_display code"
| "input_delay_error_display (IeIo (_, message)) = message"

definition record_input_delay_result ::
  "'p env \<Rightarrow> InputDelayOperation \<Rightarrow> InputDelayError + i32 \<Rightarrow> 'p BridgeClient \<Rightarrow> 'p BridgeClient" where
  "record_input_delay_result env operation result c =
     (let c = c\<lparr>ru_latest_input_delay_status := Some
                 \<lparr>ids_operation = operation, ids_result = map_sum input_delay_error_display id result,
                  ids_updated_at = mo_unix_seconds (moment env c)\<rparr>\<rparr>
      in case result of
           Inr value \<Rightarrow> push_log env LvInfo
             (''Input delay '' @ delay_operation_display operation @ '' succeeded value='' @ decimal_i32 value) c
         | Inl error \<Rightarrow> push_log env LvWarn
             (''Input delay '' @ delay_operation_display operation @ '' failed error=''
              @ input_delay_error_display error) c)"

fun delay_operation :: "InputDelayCommand \<Rightarrow> InputDelayOperation" where
  "delay_operation IdRead = IoRead"
| "delay_operation (IdWrite _) = IoWrite"

text \<open>The ids of the requests count up from one in all clients of the process; here there is one client.\<close>

definition run_input_delay ::
  "'p env \<Rightarrow> InputDelayCommand \<Rightarrow> 'p BridgeClient \<Rightarrow> 'p BridgeClient \<times> (InputDelayError + i32)" where
  "run_input_delay env command c =
     (case ensure_input_delay_available c of
        Some e \<Rightarrow> (c, Inl e)
      | None \<Rightarrow>
          let request = bc_next_request_id c; result = request_input_delay env request command c;
              c = (tick c)\<lparr>bc_next_request_id := request + 1\<rparr>
          in (record_input_delay_result env (delay_operation command) result c, result))"

section \<open>The client in use\<close>

datatype ClientOp =
    CoPoll
  | CoJoin ExternalRelayConfig string
  | CoRejoin SessionConfig
  | CoLeave
  | CoStart SessionConfig
  | CoStop
  | CoShutdown
  | CoInputDelay InputDelayCommand
  | CoReadinessProbe RelayEndpoint
  | CoHookProbe
  | CoHookReport
  | CoLightPing "LightPingTarget list"
  | CoLanState "LanPeerState list" "LanPeerPathState list"
  | CoLanStage string string
  | CoAccounts
  | CoClearLogs

fun client_op :: "'p env \<Rightarrow> nat \<Rightarrow> ClientOp \<Rightarrow> 'p BridgeClient \<Rightarrow> 'p BridgeClient option" where
  "client_op env n CoPoll c = map_option fst (poll_events env n c)"
| "client_op env n (CoJoin route steam) c = map_option fst (join_relay_room env n route steam c)"
| "client_op env n (CoRejoin config) c = map_option fst (rejoin_relay_room env n config c)"
| "client_op env n CoLeave c = Some (leave_relay_room c)"
| "client_op env n (CoStart config) c = map_option fst (start_session env n config c)"
| "client_op env n CoStop c = stop_session env n c"
| "client_op env n CoShutdown c = Some (client_shutdown env c)"
| "client_op env n (CoInputDelay command) c = Some (fst (run_input_delay env command c))"
| "client_op env n (CoReadinessProbe relay) c = Some (fst (start_readiness_probe env relay c))"
| "client_op env n CoHookProbe c = Some (fst (start_hook_receive_probe env c))"
| "client_op env n CoHookReport c = Some (fst (run_hook_receive_probe env c))"
| "client_op env n (CoLightPing targets) c = Some (start_light_ping_probes env targets c)"
| "client_op env n (CoLanState peers paths) c = Some (update_lan_state peers paths c)"
| "client_op env n (CoLanStage stage result) c = Some (record_lan_stage env stage result c)"
| "client_op env n CoAccounts c = Some (refresh_steam_accounts env c)"
| "client_op env n CoClearLogs c = Some (clear_logs c)"

text \<open>A client in use: made, then any operations, each with whatever fuel it takes.\<close>

definition client_start :: "'p env \<Rightarrow> 'p BridgeClient \<Rightarrow> bool" where
  "client_start env c \<longleftrightarrow>
     (\<exists>version source config_warnings root sink_warnings.
        c = with_config env version source config_warnings root sink_warnings)"

definition client_step :: "'p env \<Rightarrow> 'p BridgeClient \<Rightarrow> 'p BridgeClient \<Rightarrow> bool" where
  "client_step env c c' \<longleftrightarrow> (\<exists>n op. client_op env n op c = Some c')"

abbreviation client_reachable :: "'p env \<Rightarrow> 'p BridgeClient \<Rightarrow> bool" where
  "client_reachable env \<equiv> reachable_from (client_start env) (client_step env)"

end
