(* ===== verification/Client_Runtime_Props.thy ===== *)
theory Client_Runtime_Props
  imports Client_Runtime
begin

text \<open>
  What holds of the client through every operation: its state is consistent, it never goes on playing under an
  account other than the room's, and polling it always comes to an end.
\<close>

section \<open>What the helpers leave alone\<close>

lemma push_log_sel [simp]:
  "ru_status (push_log env l m c) = ru_status c"
  "ru_active_session_mode (push_log env l m c) = ru_active_session_mode c"
  "ru_hook_startup (push_log env l m c) = ru_hook_startup c"
  "ru_hook_ipc (push_log env l m c) = ru_hook_ipc c"
  "ru_last_stop_reason (push_log env l m c) = ru_last_stop_reason c"
  "ru_client_incidents (push_log env l m c) = ru_client_incidents c"
  "ru_room_peers (push_log env l m c) = ru_room_peers c"
  "ru_relay_room_steam_id64 (push_log env l m c) = ru_relay_room_steam_id64 c"
  "ru_steam_identity_mismatch (push_log env l m c) = ru_steam_identity_mismatch c"
  "ru_missing_game_targets (push_log env l m c) = ru_missing_game_targets c"
  "bc_session (push_log env l m c) = bc_session c"
  "bc_relay_room (push_log env l m c) = bc_relay_room c"
  "bc_observed_game_targets (push_log env l m c) = bc_observed_game_targets c"
  "bc_relay_peers_known (push_log env l m c) = bc_relay_peers_known c"
  "bc_resume_gameplay_after_rejoin (push_log env l m c) = bc_resume_gameplay_after_rejoin c"
  "bc_readiness_probe (push_log env l m c) = bc_readiness_probe c"
  "bc_hook_receive_probe (push_log env l m c) = bc_hook_receive_probe c"
  "bc_light_ping_probe (push_log env l m c) = bc_light_ping_probe c"
  "bc_moment (push_log env l m c) = bc_moment c"
  by (simp_all add: push_log_def)

lemma missing_targets_cong:
  "ru_room_peers c = ru_room_peers c' \<Longrightarrow> bc_observed_game_targets c = bc_observed_game_targets c'
     \<Longrightarrow> missing_targets c = missing_targets c'"
  by (simp add: missing_targets_def)

section \<open>A consistent client\<close>

definition client_fit :: "'p BridgeClient \<Rightarrow> bool" where
  "client_fit c \<longleftrightarrow>
     (ru_status c = StRunning \<longleftrightarrow> ru_active_session_mode c \<noteq> None)
     \<and> (ru_status c = StRunning \<longrightarrow>
          ru_missing_game_targets c = (if bc_relay_peers_known c then missing_targets c else []))
     \<and> distinct (bc_observed_game_targets c)
     \<and> (\<forall>m. ru_steam_identity_mismatch c = Some m \<longrightarrow>
          ru_relay_room_steam_id64 c = Some (im_room_steam_id64 m) \<and> im_game_steam_id64 m \<noteq> im_room_steam_id64 m)
     \<and> length (ru_logs c) \<le> MAX_IN_MEMORY_LOGS
     \<and> incidents_ok (ru_client_incidents c)"

text \<open>Two clients that agree on all that consistency is about.\<close>

definition same_core :: "'p BridgeClient \<Rightarrow> 'p BridgeClient \<Rightarrow> bool" where
  "same_core c c' \<longleftrightarrow>
     ru_status c' = ru_status c \<and> ru_active_session_mode c' = ru_active_session_mode c
     \<and> ru_missing_game_targets c' = ru_missing_game_targets c \<and> bc_relay_peers_known c' = bc_relay_peers_known c
     \<and> ru_room_peers c' = ru_room_peers c \<and> bc_observed_game_targets c' = bc_observed_game_targets c
     \<and> ru_steam_identity_mismatch c' = ru_steam_identity_mismatch c
     \<and> ru_relay_room_steam_id64 c' = ru_relay_room_steam_id64 c \<and> ru_logs c' = ru_logs c
     \<and> ru_client_incidents c' = ru_client_incidents c"

lemma same_core_fit: "same_core c c' \<Longrightarrow> client_fit c \<Longrightarrow> client_fit c'"
  unfolding same_core_def client_fit_def by (simp add: missing_targets_def)

lemma fit_push_log: "client_fit c \<Longrightarrow> client_fit (push_log env l m c)"
  by (simp add: client_fit_def missing_targets_def) (simp add: push_log_def logs_bounded)

lemma fit_tick: "client_fit c \<Longrightarrow> client_fit (tick c)"
  by (rule same_core_fit) (simp_all add: same_core_def tick_def)

lemma fit_clear_targets: "client_fit c \<Longrightarrow> client_fit (clear_gameplay_targets c)"
  by (simp add: client_fit_def clear_gameplay_targets_def missing_targets_def)

lemma fit_refresh_missing:
  assumes "client_fit (c\<lparr>ru_missing_game_targets := if bc_relay_peers_known c then missing_targets c else []\<rparr>)"
    and "\<not> bc_relay_peers_known c \<Longrightarrow> ru_status c = StRunning \<Longrightarrow> ru_missing_game_targets c = []"
  shows "client_fit (refresh_missing_game_targets env c)"
proof -
  have m: "missing_targets (c\<lparr>ru_missing_game_targets := xs\<rparr>) = missing_targets c" for xs
    by (simp add: missing_targets_def)
  show ?thesis
    using assms unfolding refresh_missing_game_targets_def
    by (auto simp: Let_def intro!: fit_push_log) (auto simp: client_fit_def m)
qed

lemma fit_observe_target: "client_fit c \<Longrightarrow> client_fit (observe_game_target env t c)"
  unfolding observe_game_target_def by (auto intro!: fit_refresh_missing) (auto simp: client_fit_def missing_targets_def)

lemma fit_refresh_identity: "client_fit c \<Longrightarrow> client_fit (refresh_steam_identity_mismatch env c)"
  unfolding refresh_steam_identity_mismatch_def Let_def
  by (auto simp: client_fit_def missing_targets_def identity_mismatch_def push_log_def logs_bounded
      split: option.splits if_splits)

lemma fit_reconcile: "client_fit c \<Longrightarrow> client_fit (reconcile_hook_startup env c)"
  by (rule same_core_fit) (simp_all add: same_core_def reconcile_hook_startup_def Let_def split: prod.split)

lemma fit_hook_startup: "client_fit c \<Longrightarrow> client_fit (apply_hook_startup_state env s c)"
  unfolding apply_hook_startup_state_def Let_def
  by (rule fit_reconcile, rule same_core_fit [of c]) (simp_all add: same_core_def)

lemma fit_hook_ipc: "client_fit c \<Longrightarrow> client_fit (apply_hook_ipc_state env s c)"
  unfolding apply_hook_ipc_state_def
  by (rule fit_refresh_identity, rule fit_reconcile, rule same_core_fit [of c]) (simp_all add: same_core_def)

lemma fit_smoothness: "client_fit c \<Longrightarrow> client_fit (refresh_smoothness env c)"
  by (rule same_core_fit) (simp_all add: same_core_def refresh_smoothness_def)

lemma fit_health_snapshot:
  assumes "client_fit c"
  shows "client_fit (apply_health_snapshot env s c)"
proof -
  obtain xs i where r: "record_session_health_incident (ru_client_incidents c) (mo_unix_seconds (moment env c)) s = (xs, i)"
    by (cases "record_session_health_incident (ru_client_incidents c) (mo_unix_seconds (moment env c)) s") blast
  then have "incidents_ok xs"
    using assms incident_records [of "ru_client_incidents c" "mo_unix_seconds (moment env c)" s]
    by (simp add: client_fit_def)
  then have 1: "client_fit (c\<lparr>ru_client_incidents := xs\<rparr>)"
    using assms by (simp add: client_fit_def missing_targets_def)
  have 2: "client_fit (x\<lparr>ru_latest_session_health := h\<rparr>)" if "client_fit x" for x :: "'a BridgeClient" and h
    by (rule same_core_fit [OF _ that]) (simp add: same_core_def)
  show ?thesis unfolding apply_health_snapshot_def Let_def r
    by (auto intro!: fit_smoothness 2 fit_push_log 1 split: option.split)
qed

lemma fit_health_summary: "client_fit c \<Longrightarrow> client_fit (apply_health_summary env s c)"
  unfolding apply_health_summary_def
  by (rule fit_smoothness, rule same_core_fit [of c]) (simp_all add: same_core_def)

lemma fit_session_ended: "client_fit c \<Longrightarrow> client_fit (apply_session_ended r c)"
  by (rule same_core_fit) (simp_all add: same_core_def apply_session_ended_def)

lemma fit_idle:
  "client_fit c \<Longrightarrow> client_fit (c\<lparr>ru_status := StIdle, ru_active_session_mode := None\<rparr>)"
  by (simp add: client_fit_def)

lemma fit_game_over: "client_fit c \<Longrightarrow> client_fit (game_over c)"
  unfolding game_over_def by (rule fit_clear_targets) (simp add: client_fit_def)

lemma fit_finish_exit: "client_fit c \<Longrightarrow> client_fit (finish_game_exit c)"
  unfolding finish_game_exit_def by (simp add: client_fit_def clear_gameplay_targets_def)

lemma fit_end_session: "client_fit c \<Longrightarrow> client_fit (end_session c)"
  by (simp add: client_fit_def end_session_def)

lemma fit_cleanup: "client_fit c \<Longrightarrow> client_fit (cleanup_hook_launch_parameters env r c)"
proof -
  have 1: "client_fit (x\<lparr>ru_hook_launch_parameters_cleanup := s\<rparr>)" if "client_fit x" for x :: "'a BridgeClient" and s
    by (rule same_core_fit [OF _ that]) (simp add: same_core_def)
  show "client_fit c \<Longrightarrow> client_fit (cleanup_hook_launch_parameters env r c)"
    unfolding cleanup_hook_launch_parameters_def Let_def
    by (auto intro!: 1 fit_push_log fit_tick split: option.split)
qed

lemma fit_upsert: "client_fit c \<Longrightarrow> client_fit (upsert_light_ping_report r c)"
  by (rule same_core_fit) (simp_all add: same_core_def upsert_light_ping_report_def Let_def)

lemmas fit_helpers = fit_push_log fit_tick fit_clear_targets fit_observe_target fit_refresh_identity fit_hook_startup
  fit_hook_ipc fit_smoothness fit_health_snapshot fit_health_summary fit_session_ended fit_game_over fit_finish_exit
  fit_end_session fit_cleanup fit_upsert

text \<open>A game is shown as running only over a session, in its mode; and none goes on while another start is owed.\<close>

definition client_linked :: "'p BridgeClient \<Rightarrow> bool" where
  "client_linked c \<longleftrightarrow>
     client_fit c \<and> (\<forall>m. ru_active_session_mode c = Some m \<longrightarrow> (\<exists>s. bc_session c = Some s \<and> sx_mode s = m))"

definition client_ok :: "'p BridgeClient \<Rightarrow> bool" where
  "client_ok c \<longleftrightarrow> client_linked c \<and> (ru_status c = StRunning \<longrightarrow> \<not> bc_resume_gameplay_after_rejoin c)"

lemma linkedD: "client_linked c \<Longrightarrow> client_fit c"
  by (simp add: client_linked_def)

lemma status_cases: "ru_status c = StIdle \<or> ru_status c = StRunning"
  by (cases "ru_status c") simp_all

lemma fit_idle_linked: "client_fit c \<Longrightarrow> ru_status c = StIdle \<Longrightarrow> client_linked c"
  by (simp add: client_linked_def client_fit_def)

lemma linked_no_session: "client_linked c \<Longrightarrow> bc_session c = None \<Longrightarrow> ru_status c = StIdle"
  using status_cases [of c] by (auto simp: client_linked_def client_fit_def)

text \<open>A client only calms down while it hears events: nothing starts, and room and session stay.\<close>

definition calmer :: "'p BridgeClient \<Rightarrow> 'p BridgeClient \<Rightarrow> bool" where
  "calmer c c' \<longleftrightarrow>
     (ru_status c' = ru_status c \<or> ru_status c' = StIdle)
     \<and> (ru_active_session_mode c' = ru_active_session_mode c \<or> ru_active_session_mode c' = None)
     \<and> (bc_resume_gameplay_after_rejoin c' = bc_resume_gameplay_after_rejoin c
         \<or> ru_status c' = StIdle \<and> \<not> bc_resume_gameplay_after_rejoin c')
     \<and> bc_session c' = bc_session c \<and> bc_relay_room c' = bc_relay_room c
     \<and> ru_relay_room_steam_id64 c' = ru_relay_room_steam_id64 c
     \<and> bc_moment c \<le> bc_moment c'"

lemma calmer_refl [simp]: "calmer c c"
  by (simp add: calmer_def)

lemma calmer_trans [trans]: "calmer a b \<Longrightarrow> calmer b c \<Longrightarrow> calmer a c"
  by (auto simp: calmer_def)

lemma calmer_sels:
  "ru_status c' = ru_status c \<Longrightarrow> ru_active_session_mode c' = ru_active_session_mode c
    \<Longrightarrow> bc_resume_gameplay_after_rejoin c' = bc_resume_gameplay_after_rejoin c \<Longrightarrow> bc_session c' = bc_session c
    \<Longrightarrow> bc_relay_room c' = bc_relay_room c \<Longrightarrow> ru_relay_room_steam_id64 c' = ru_relay_room_steam_id64 c
    \<Longrightarrow> bc_moment c \<le> bc_moment c' \<Longrightarrow> calmer c c'"
  by (simp add: calmer_def)

lemma calmer_push_log: "calmer c (push_log env l m c)"
  by (rule calmer_sels) simp_all

lemma calmer_tick: "calmer c (tick c)"
  by (rule calmer_sels) (simp_all add: tick_def)

lemma calmer_game_over: "calmer c (game_over c)"
  by (simp add: calmer_def game_over_def clear_gameplay_targets_def)

lemma calmer_finish_exit: "calmer c (finish_game_exit c)"
  by (simp add: calmer_def finish_game_exit_def clear_gameplay_targets_def)

lemma calmer_observe_target: "calmer c (observe_game_target env t c)"
  by (rule calmer_sels) (auto simp: observe_game_target_def refresh_missing_game_targets_def Let_def)

lemma calmer_hook_startup: "calmer c (apply_hook_startup_state env s c)"
  by (rule calmer_sels)
    (simp_all add: apply_hook_startup_state_def reconcile_hook_startup_def Let_def split_beta)

lemma calmer_hook_ipc: "calmer c (apply_hook_ipc_state env s c)"
  by (rule calmer_sels)
    (simp_all add: apply_hook_ipc_state_def refresh_steam_identity_mismatch_def reconcile_hook_startup_def Let_def
      split_beta split: option.split)

lemma calmer_health: "calmer c (apply_health_snapshot env s c)" "calmer c (apply_health_summary env s c)"
  by (rule calmer_sels; simp add: apply_health_snapshot_def apply_health_summary_def refresh_smoothness_def Let_def
      split_beta split: option.split)+

lemma calmer_session_ended: "calmer c (apply_session_ended r c)"
  by (rule calmer_sels) (simp_all add: apply_session_ended_def)

lemma calmer_cleanup: "calmer c (cleanup_hook_launch_parameters env r c)"
  by (rule calmer_sels) (simp_all add: cleanup_hook_launch_parameters_def Let_def tick_def split: option.split)

lemmas calmer_helpers = calmer_push_log calmer_tick calmer_game_over calmer_finish_exit calmer_observe_target
  calmer_hook_startup calmer_hook_ipc calmer_health calmer_session_ended calmer_cleanup

lemma calmer_event: "calmer c (fst (apply_event env e (c, f)))"
proof (cases e)
  case EvStopped
  then show ?thesis by (simp add: calmer_def game_over_def clear_gameplay_targets_def)
next
  case (EvRoomPeersUpdated ps)
  then show ?thesis by (simp add: calmer_def refresh_missing_game_targets_def Let_def)
qed (simp_all add: calmer_helpers Let_def split: sum.split,
  (auto simp: calmer_def refresh_smoothness_def upsert_light_ping_report_def Let_def split: sum.split)?)

lemma fit_event:
  assumes "client_fit c"
  shows "client_fit (fst (apply_event env e (c, f)))"
proof -
  have same: "client_fit x" if "same_core c x" for x using same_core_fit [OF that assms] .
  show ?thesis
  proof (cases e)
    case (EvReadinessProbeFinished r)
    then show ?thesis
      by (auto split: sum.split intro: same fit_push_log [OF same] simp: same_core_def Let_def)
  next
    case (EvHookReceiveProbeFinished r)
    then show ?thesis
      by (auto split: sum.split intro: same fit_push_log [OF same] simp: same_core_def Let_def)
  next
    case EvStopped
    then show ?thesis by simp (rule fit_game_over, rule same, simp add: same_core_def)
  next
    case (EvRoomPeersUpdated ps)
    then show ?thesis
      using assms by (auto intro!: fit_refresh_missing) (auto simp: client_fit_def missing_targets_def)
  next
    case (EvRoomPathQualityUpdated q)
    then show ?thesis by simp (rule fit_smoothness, rule same, simp add: same_core_def)
  next
    case (EvLightPingFinished r)
    then show ?thesis using assms by simp (rule fit_upsert, rule fit_push_log)
  qed (use assms in \<open>auto intro: fit_helpers same simp: same_core_def Let_def\<close>)
qed

lemma fold_event:
  assumes "client_fit c"
  shows "client_fit (fst (fold (apply_event env) es (c, f))) \<and> calmer c (fst (fold (apply_event env) es (c, f)))"
  using assms
proof (induction es arbitrary: c f)
  case (Cons e es)
  obtain c1 f1 where e: "apply_event env e (c, f) = (c1, f1)" by fastforce
  then have "client_fit c1" "calmer c c1"
    using fit_event [OF Cons.prems, of env e f] calmer_event [of c env e f] by simp_all
  then show ?case using Cons.IH [of c1 f1] calmer_trans [of c c1] e by auto
qed simp

lemma calmer_stopped_event: "calmer c (fst (apply_stopped_event env e (c, x)))"
  by (cases e) (simp_all add: calmer_helpers, simp add: calmer_def)

lemma fit_stopped_event:
  assumes "client_fit c"
  shows "client_fit (fst (apply_stopped_event env e (c, x)))"
proof -
  have same: "client_fit y" if "same_core c y" for y using same_core_fit [OF that assms] .
  show ?thesis
    by (cases e) (use assms in \<open>auto intro: fit_helpers same simp: same_core_def\<close>)
qed

lemma fold_stopped:
  assumes "client_fit c"
  shows "client_fit (fst (fold (apply_stopped_event env) es (c, x)))
    \<and> calmer c (fst (fold (apply_stopped_event env) es (c, x)))"
  using assms
proof (induction es arbitrary: c x)
  case (Cons e es)
  obtain c1 x1 where e: "apply_stopped_event env e (c, x) = (c1, x1)" by fastforce
  then have "client_fit c1" "calmer c c1"
    using fit_stopped_event [OF Cons.prems, of env e x] calmer_stopped_event [of c env e x] by simp_all
  then show ?case using Cons.IH [of c1 x1] calmer_trans [of c c1] e by auto
qed simp

section \<open>What a poll can change\<close>

text \<open>A game that still runs after a poll ran before it, in the same session; time only goes on.\<close>

definition softer :: "'p BridgeClient \<Rightarrow> 'p BridgeClient \<Rightarrow> bool" where
  "softer c c' \<longleftrightarrow>
     (ru_status c' = StRunning \<longrightarrow>
        ru_status c = StRunning \<and> bc_resume_gameplay_after_rejoin c' = bc_resume_gameplay_after_rejoin c
        \<and> bc_session c' = bc_session c)
     \<and> ru_relay_room_steam_id64 c' = ru_relay_room_steam_id64 c \<and> bc_moment c \<le> bc_moment c'"

lemma softer_refl [simp]: "softer c c"
  by (simp add: softer_def)

lemma softer_trans [trans]: "softer a b \<Longrightarrow> softer b c \<Longrightarrow> softer a c"
  by (auto simp: softer_def)

lemma calmer_softer: "calmer c c' \<Longrightarrow> softer c c'"
  using status_cases [of c] by (auto simp: calmer_def softer_def)

lemma calmer_linked: "calmer c c' \<Longrightarrow> client_linked c \<Longrightarrow> client_fit c' \<Longrightarrow> client_linked c'"
  by (auto simp: calmer_def client_linked_def)

lemma softer_idle:
  "ru_status c' = StIdle \<Longrightarrow> ru_relay_room_steam_id64 c' = ru_relay_room_steam_id64 c \<Longrightarrow> bc_moment c \<le> bc_moment c'
     \<Longrightarrow> softer c c'"
  by (simp add: softer_def)

lemma take_session_fit:
  assumes "client_fit c"
  shows "client_fit (take_session env c)"
    and "ru_relay_room_steam_id64 (take_session env c) = ru_relay_room_steam_id64 c"
    and "bc_moment c \<le> bc_moment (take_session env c)"
proof -
  let ?c = "tick (c\<lparr>bc_session := None\<rparr>)"
  have fit: "client_fit ?c" by (rule fit_tick, rule same_core_fit [OF _ assms]) (simp add: same_core_def)
  obtain c1 x where f: "fold (apply_stopped_event env) (mo_stopped (moment env c)) (?c, False) = (c1, x)" by fastforce
  then have c1: "client_fit c1" "calmer ?c c1" using fold_stopped [OF fit, of env "mo_stopped (moment env c)" False] by simp_all
  have t: "take_session env c = (if x then finish_game_exit c1 else c1)"
    by (simp add: take_session_def apply_stopped_session_events_def f)
  show "client_fit (take_session env c)" using c1(1) fit_finish_exit [OF c1(1)] by (simp add: t)
  have "calmer ?c (take_session env c)" using c1(2) calmer_trans [OF c1(2) calmer_finish_exit] by (simp add: t)
  then show "ru_relay_room_steam_id64 (take_session env c) = ru_relay_room_steam_id64 c"
    and "bc_moment c \<le> bc_moment (take_session env c)"
    by (simp_all add: calmer_def tick_def)
qed

lemma user_stopped_sel [simp]:
  "ru_status (user_stopped c) = ru_status c" "bc_session (user_stopped c) = bc_session c"
  "ru_relay_room_steam_id64 (user_stopped c) = ru_relay_room_steam_id64 c" "bc_moment (user_stopped c) = bc_moment c"
  by (simp_all add: user_stopped_def)

lemma fit_user_stopped: "client_fit c \<Longrightarrow> client_fit (user_stopped c)"
  by (rule same_core_fit) (simp_all add: same_core_def user_stopped_def)

text \<open>\<open>stopped c c'\<close>: the client \<open>c'\<close> is consistent and shows no game, and room and time are as they should be.\<close>

definition stopped_from :: "'p BridgeClient \<Rightarrow> 'p BridgeClient \<Rightarrow> bool" where
  "stopped_from c c' \<longleftrightarrow>
     client_fit c' \<and> ru_status c' = StIdle \<and> ru_relay_room_steam_id64 c' = ru_relay_room_steam_id64 c
     \<and> bc_moment c \<le> bc_moment c'"

lemma stopped_linked: "stopped_from c c' \<Longrightarrow> client_linked c' \<and> softer c c'"
  by (simp add: stopped_from_def fit_idle_linked softer_idle)

lemma stopped_end:
  "client_fit c' \<Longrightarrow> ru_relay_room_steam_id64 c' = ru_relay_room_steam_id64 c \<Longrightarrow> bc_moment c \<le> bc_moment c'
     \<Longrightarrow> stopped_from c (end_session c')"
  using fit_end_session [of c'] by (simp add: stopped_from_def end_session_def)

lemma stopped_push_log: "stopped_from c c' \<Longrightarrow> stopped_from c (push_log env l m c')"
  by (simp add: stopped_from_def fit_push_log)

lemma cleanup_sel [simp]:
  "ru_relay_room_steam_id64 (cleanup_hook_launch_parameters env r c) = ru_relay_room_steam_id64 c"
  "ru_status (cleanup_hook_launch_parameters env r c) = ru_status c"
  "bc_moment c \<le> bc_moment (cleanup_hook_launch_parameters env r c)"
  by (simp_all add: cleanup_hook_launch_parameters_def Let_def tick_def split: option.split)

lemma cleanup_time [simp]: "x \<le> bc_moment c \<Longrightarrow> x \<le> bc_moment (cleanup_hook_launch_parameters env r c)"
  using cleanup_sel(3) by (rule order_trans [rotated])

lemma stop_runtime:
  assumes "client_fit c"
  shows "stopped_from c (stop_session_runtime env r c)"
  unfolding stop_session_runtime_def
  using take_session_fit [OF assms, of env] assms
  by (auto intro!: stopped_end fit_cleanup)

lemma stop_with:
  assumes poll: "\<And>c1 c2. poll c1 = Some c2 \<Longrightarrow> client_linked c1 \<Longrightarrow> client_linked c2 \<and> softer c1 c2"
    and stop: "stop_session_with poll env c = Some c'" and linked: "client_linked c"
  shows "stopped_from c c'"
proof -
  let ?c = "clear_gameplay_targets c"
  have fit: "client_fit ?c" using linked by (simp add: linkedD fit_clear_targets)
  have room: "ru_relay_room_steam_id64 ?c = ru_relay_room_steam_id64 c" "bc_moment ?c = bc_moment c"
    by (simp_all add: clear_gameplay_targets_def)
  show ?thesis
  proof (cases "hs_phase (ru_hook_startup ?c) = HpReady \<and> is_persistent ?c")
    case True
    then obtain c2 where c2: "poll (tick ?c) = Some c2"
      and c': "c' = (case mo_detach (moment env ?c) of
          None \<Rightarrow> let c = (user_stopped c2)\<lparr>ru_status := StIdle, ru_active_session_mode := None, bc_active_log_context := None\<rparr>
                  in if bc_session c = None then c else push_log env LvInfo ''Gameplay stopped; Native Hook remains ready'' c
        | Some (_, error) \<Rightarrow> stop_session_runtime env ''gameplay detach failed''
            (push_log env LvError (''Could not detach gameplay from Native Hook: '' @ error) c2))"
      using stop by (auto simp: stop_session_with_def Let_def)
    have "client_linked (tick ?c)"
      using linked fit_tick [OF fit] by (simp add: client_linked_def tick_def clear_gameplay_targets_def)
    from poll [OF c2 this] have c2': "client_fit c2" "ru_relay_room_steam_id64 c2 = ru_relay_room_steam_id64 c"
      "bc_moment c \<le> bc_moment c2"
      by (simp_all add: linkedD softer_def tick_def clear_gameplay_targets_def)
    have 1: "stopped_from c ((user_stopped c2)\<lparr>ru_status := StIdle, ru_active_session_mode := None, bc_active_log_context := None\<rparr>)"
      using fit_user_stopped [OF c2'(1)] c2'(2,3) by (simp add: stopped_from_def client_fit_def)
    have 2: "stopped_from c (stop_session_runtime env r (push_log env l m c2))" for r l m
      using stop_runtime [OF fit_push_log [OF c2'(1), of env l m], of env r] c2'(2,3) by (simp add: stopped_from_def)
    show ?thesis unfolding c' Let_def using 1 2 stopped_push_log [OF 1] by (auto split: option.split)
  next
    case False
    have *: "stopped_from c (end_session x)"
      if "client_fit x" "ru_relay_room_steam_id64 x = ru_relay_room_steam_id64 c" "bc_moment c \<le> bc_moment x" for x
      using that by (rule stopped_end)
    note ts = take_session_fit [OF fit, of env]
    have "stopped_from c (end_session (cleanup_hook_launch_parameters env r (user_stopped (take_session env ?c))))" for r
      using ts room by (intro * fit_cleanup fit_user_stopped cleanup_time) simp_all
    moreover have "stopped_from c (end_session ?c)" using fit room by (intro *) simp_all
    ultimately show ?thesis
      using stop False by (auto simp: stop_session_with_def Let_def intro!: stopped_push_log split: if_splits)
  qed
qed

section \<open>The events of a poll\<close>

definition is_exhausted :: "'p RuntimeEvent \<Rightarrow> bool" where
  "is_exhausted e = (case e of EvRelayLinkChanged (RlRecoveryExhausted _ _ _) \<Rightarrow> True | _ \<Rightarrow> False)"

definition exhausts :: "'p env \<Rightarrow> nat \<Rightarrow> bool" where
  "exhausts env i \<longleftrightarrow>
     list_ex is_exhausted (mo_session (env i) @ mo_room (env i) @ mo_readiness (env i) @ mo_hook_probe (env i)
       @ mo_light_ping (env i))"

lemma event_flags:
  assumes "apply_event env e (c, f) = (c', f')"
  shows "pl_should_clear f' \<Longrightarrow> pl_should_clear f \<or> ru_status c' = StIdle"
    and "pl_exhausted f' \<noteq> None \<Longrightarrow> pl_exhausted f \<noteq> None \<or> is_exhausted e"
  using assms
  by (cases e; auto simp: Let_def game_over_def clear_gameplay_targets_def is_exhausted_def
      split: if_splits RelayLinkState.splits sum.splits)+

lemma fold_flags:
  assumes "pl_should_clear f \<longrightarrow> ru_status c = StIdle" and "fold (apply_event env) es (c, f) = (c', f')"
  shows "(pl_should_clear f' \<longrightarrow> ru_status c' = StIdle)
    \<and> (pl_exhausted f' \<noteq> None \<longrightarrow> pl_exhausted f \<noteq> None \<or> list_ex is_exhausted es)"
  using assms
proof (induction es arbitrary: c f)
  case (Cons e es)
  obtain c1 f1 where e: "apply_event env e (c, f) = (c1, f1)" by fastforce
  have "ru_status c = StIdle \<Longrightarrow> ru_status c1 = StIdle"
    using calmer_event [of c env e f] e by (auto simp: calmer_def)
  then have "pl_should_clear f1 \<longrightarrow> ru_status c1 = StIdle" using event_flags(1) [OF e] Cons.prems(1) by blast
  from Cons.IH [OF this] Cons.prems(2) e event_flags(2) [OF e] show ?case by auto
qed simp

lemma events_applied:
  assumes "client_linked c" and "apply_events env c = (c', f)"
  shows "client_linked c'" and "softer c c'" and "bc_moment c < bc_moment c'"
    and "pl_should_clear f \<Longrightarrow> ru_status c' = StIdle"
    and "pl_exhausted f \<noteq> None \<Longrightarrow> exhausts env (bc_moment c)"
proof -
  obtain c1 where fold: "fold (apply_event env) (collect_events env c) (tick c, poll_flags) = (c1, f)"
    and c': "c' = (if pl_game_exited f then finish_game_exit c1 else c1)"
    using assms(2) by (auto simp: apply_events_def Let_def split: prod.splits)
  have t: "client_fit (tick c)" "client_linked (tick c)"
    using assms(1) by (simp_all add: client_linked_def fit_tick) (simp add: tick_def)
  from fold_event [OF t(1), of env "collect_events env c" poll_flags] fold
  have c1: "client_fit c1" "calmer (tick c) c1" by simp_all
  then have 1: "client_fit c'" "calmer (tick c) c'"
    using calmer_trans [OF c1(2) calmer_finish_exit] fit_finish_exit by (auto simp: c')
  show "client_linked c'" using calmer_linked [OF 1(2) t(2) 1(1)] .
  show "softer c c'" using softer_trans [OF calmer_softer [OF calmer_tick] calmer_softer [OF 1(2)]] .
  show "bc_moment c < bc_moment c'" using 1(2) by (simp add: calmer_def tick_def)
  have fl: "(pl_should_clear f \<longrightarrow> ru_status c1 = StIdle)
      \<and> (pl_exhausted f \<noteq> None \<longrightarrow> pl_exhausted poll_flags \<noteq> None \<or> list_ex is_exhausted (collect_events env c))"
    by (rule fold_flags [OF _ fold]) (simp add: poll_flags_def)
  then show "pl_should_clear f \<Longrightarrow> ru_status c' = StIdle"
    by (auto simp: c' finish_game_exit_def clear_gameplay_targets_def)
  show "pl_exhausted f \<noteq> None \<Longrightarrow> exhausts env (bc_moment c)"
    using fl by (auto simp: poll_flags_def collect_events_def exhausts_def moment_def split: if_splits)
qed

lemma detach_result:
  assumes poll: "\<And>c1 c2. poll c1 = Some c2 \<Longrightarrow> client_linked c1 \<Longrightarrow> client_linked c2 \<and> softer c1 c2"
    and detach: "detach_on_mismatch poll env c = Some c'" and linked: "client_linked c"
  shows "client_linked c' \<and> softer c c'
    \<and> (ru_status c' = StRunning \<longrightarrow> ru_steam_identity_mismatch c' = None \<or> bc_resume_gameplay_after_rejoin c')"
proof (cases "ru_steam_identity_mismatch c \<noteq> None \<and> ru_status c = StRunning \<and> \<not> bc_resume_gameplay_after_rejoin c")
  case True
  then obtain m where m: "ru_steam_identity_mismatch c = Some m" by blast
  have link: "client_linked (push_log env l s (c\<lparr>bc_resume_gameplay_after_rejoin := True\<rparr>))" for l s
    using fit_push_log [OF same_core_fit [of c "c\<lparr>bc_resume_gameplay_after_rejoin := True\<rparr>"], of env l s] linked
    by (simp add: client_linked_def same_core_def)
  have "stopped_from c c'"
    using stop_with [OF poll _ link] detach True m by (fastforce simp: detach_on_mismatch_def stopped_from_def)
  then show ?thesis using stopped_linked by (simp add: stopped_from_def)
next
  case False
  then have "c' = c" using detach by (auto simp: detach_on_mismatch_def split: option.splits if_splits)
  then show ?thesis using False linked by auto
qed

lemma clear_ended_result:
  assumes "client_linked c" and "pl_should_clear f \<Longrightarrow> ru_status c = StIdle"
  shows "client_linked (clear_ended_session env f c) \<and> softer c (clear_ended_session env f c)
    \<and> (ru_status (clear_ended_session env f c) = StRunning \<longrightarrow> clear_ended_session env f c = c)"
proof (cases "pl_should_clear f")
  case True
  have "client_fit (c\<lparr>bc_session := None\<rparr>)" by (rule same_core_fit [OF _ linkedD [OF assms(1)]]) (simp add: same_core_def)
  then have "stopped_from c (clear_ended_session env f c)"
    using True assms(2) fit_cleanup by (simp add: clear_ended_session_def stopped_from_def)
  then show ?thesis using stopped_linked by (simp add: stopped_from_def)
qed (use assms in \<open>simp add: clear_ended_session_def\<close>)

lemma give_up_result:
  assumes poll: "\<And>c1 c2. poll c1 = Some c2 \<Longrightarrow> client_linked c1 \<Longrightarrow> client_linked c2 \<and> softer c1 c2"
    and give: "give_up_room poll env f c = Some c'" and linked: "client_linked c"
  shows "client_linked c' \<and> softer c c' \<and> (ru_status c' = StRunning \<longrightarrow> c' = c)"
proof (cases "pl_exhausted f")
  case None
  then show ?thesis using give linked by (simp add: give_up_room_def)
next
  case (Some reason)
  let ?drop = "\<lambda>c. c\<lparr>bc_relay_room := False, ru_room_peers := [], ru_room_path_quality := []\<rparr>"
  have drop: "stopped_from c (?drop x)" if "stopped_from c x" for x
    using that by (auto simp: stopped_from_def client_fit_def)
  have "\<exists>x. stopped_from c x \<and> c' = ?drop x"
  proof (cases "bc_session c = None")
    case True
    then have "stopped_from c c" using linked linked_no_session [OF linked] by (simp add: stopped_from_def linkedD)
    then show ?thesis using give Some True by (auto simp: give_up_room_def)
  next
    case False
    have link: "client_linked (c\<lparr>ru_last_stop_reason := r\<rparr>)" for r
      using same_core_fit [of c "c\<lparr>ru_last_stop_reason := r\<rparr>"] linked by (simp add: client_linked_def same_core_def)
    show ?thesis using stop_with [OF poll _ link] give Some False
      by (fastforce simp: give_up_room_def stopped_from_def)
  qed
  then have "stopped_from c c'" using drop by blast
  then show ?thesis using stopped_linked by (simp add: stopped_from_def)
qed

lemma finish_probes_result:
  "client_linked c \<Longrightarrow> client_linked (finish_probes f c)" "softer c (finish_probes f c)"
  "ru_status (finish_probes f c) = ru_status c"
  "ru_steam_identity_mismatch (finish_probes f c) = ru_steam_identity_mismatch c"
  "bc_resume_gameplay_after_rejoin (finish_probes f c) = bc_resume_gameplay_after_rejoin c"
  using same_core_fit [of c "finish_probes f c"]
  by (simp_all add: finish_probes_def client_linked_def same_core_def softer_def Let_def)

lemma poll_result:
  assumes "poll_client env n c = Some c'" and "client_linked c"
  shows "client_linked c' \<and> softer c c'
    \<and> (ru_status c' = StRunning \<longrightarrow> ru_steam_identity_mismatch c' = None \<or> bc_resume_gameplay_after_rejoin c')"
  using assms
proof (induction n arbitrary: c c')
  case (Suc n)
  obtain c0 f where ev: "apply_events env c = (c0, f)" by fastforce
  obtain c1 c3 where c1: "detach_on_mismatch (poll_client env n) env c0 = Some c1"
    and c3: "give_up_room (poll_client env n) env f (clear_ended_session env f c1) = Some c3"
    and c': "c' = finish_probes f c3"
    using Suc.prems(1) by (auto simp: ev bind_eq_Some_conv)
  note e = events_applied [OF Suc.prems(2) ev]
  have poll: "client_linked b \<and> softer a b" if "poll_client env n a = Some b" "client_linked a" for a b
    using Suc.IH [OF that] by blast
  note d = detach_result [OF poll c1 e(1)]
  have cl: "pl_should_clear f \<Longrightarrow> ru_status c1 = StIdle"
    using e(4) d status_cases [of c1] by (auto simp: softer_def)
  note l = clear_ended_result [OF conjunct1 [OF d] cl, of f env]
  note g = give_up_result [OF poll c3 conjunct1 [OF l]]
  have "softer c c'" unfolding c'
    using softer_trans [OF e(2) softer_trans [OF _ softer_trans [OF _ softer_trans [OF _ finish_probes_result(2)]]]] d l g
    by blast
  then show ?case using g l d finish_probes_result [where c = c3 and f = f] unfolding c' by auto
qed simp

lemma poll_ok: "poll_client env n c = Some c' \<Longrightarrow> client_ok c \<Longrightarrow> client_ok c'"
  using poll_result [of env n c c'] by (auto simp: client_ok_def softer_def)

text \<open>After a poll no game runs under an account that is not the room's.\<close>

lemma poll_no_mismatch:
  "poll_client env n c = Some c' \<Longrightarrow> client_ok c \<Longrightarrow> ru_status c' = StRunning \<Longrightarrow> ru_steam_identity_mismatch c' = None"
  using poll_result [of env n c c'] by (auto simp: client_ok_def softer_def)

section \<open>A poll comes to an end\<close>

text \<open>
  A poll that stops the session polls again: once for a mismatch, and once for each moment in which the room reports
  that its recovery is exhausted, which a room does when it ends.
\<close>

definition polls_owed :: "'p env \<Rightarrow> 'p BridgeClient \<Rightarrow> nat" where
  "polls_owed env c =
     card {i. exhausts env i \<and> bc_moment c \<le> i}
     + (if ru_status c = StRunning \<and> \<not> bc_resume_gameplay_after_rejoin c then 1 else 0)"

lemma owed_softer:
  assumes "finite {i. exhausts env i}" and "softer c c'"
  shows "polls_owed env c' \<le> polls_owed env c"
proof -
  have "card {i. exhausts env i \<and> bc_moment c' \<le> i} \<le> card {i. exhausts env i \<and> bc_moment c \<le> i}"
    by (rule card_mono) (use assms in \<open>auto simp: softer_def\<close>)
  then show ?thesis using assms(2) by (auto simp: polls_owed_def softer_def)
qed

lemma owed_exhausted:
  assumes fin: "finite {i. exhausts env i}" and soft: "softer c c'" and ex: "exhausts env m" "bc_moment c \<le> m" "m < bc_moment c'"
  shows "polls_owed env c' < polls_owed env c"
proof -
  let ?after = "{i. exhausts env i \<and> bc_moment c' \<le> i}" and ?before = "{i. exhausts env i \<and> bc_moment c \<le> i}"
  have "m \<in> ?before" "m \<notin> ?after" "?after \<subseteq> ?before" using ex soft by (auto simp: softer_def)
  then have "?after \<subset> ?before" by blast
  then have "card ?after < card ?before" by (rule psubset_card_mono [rotated]) (use fin in simp)
  then show ?thesis using soft by (auto simp: polls_owed_def softer_def)
qed

lemma stop_with_returns:
  "poll (tick (clear_gameplay_targets c)) \<noteq> None \<Longrightarrow> stop_session_with poll env c \<noteq> None"
  by (auto simp: stop_session_with_def Let_def)

lemma ticked_linked:
  assumes "client_linked c"
  shows "client_linked (tick (clear_gameplay_targets c))" and "softer c (tick (clear_gameplay_targets c))"
  using assms fit_tick [OF fit_clear_targets [OF linkedD [OF assms]]]
  by (simp_all add: client_linked_def softer_def tick_def clear_gameplay_targets_def)

lemma detach_returns:
  assumes fin: "finite {i. exhausts env i}" and linked: "client_linked c" and owed: "polls_owed env c \<le> n"
    and IH: "\<And>c. client_linked c \<Longrightarrow> polls_owed env c < n \<Longrightarrow> poll_client env n c \<noteq> None"
  shows "detach_on_mismatch (poll_client env n) env c \<noteq> None"
proof (cases "ru_steam_identity_mismatch c")
  case (Some m)
  show ?thesis
  proof (cases "ru_status c = StRunning \<and> \<not> bc_resume_gameplay_after_rejoin c")
    case True
    let ?c = "\<lambda>l s. push_log env l s (c\<lparr>bc_resume_gameplay_after_rejoin := True\<rparr>)"
    have link: "client_linked (?c l s)" for l s
      using fit_push_log [OF same_core_fit [of c "c\<lparr>bc_resume_gameplay_after_rejoin := True\<rparr>"], of env l s] linked
      by (simp add: client_linked_def same_core_def)
    have less: "polls_owed env (?c l s) < n" for l s
      using True owed by (simp add: polls_owed_def)
    have "poll_client env n (tick (clear_gameplay_targets (?c l s))) \<noteq> None" for l s
      using IH [OF ticked_linked(1) [OF link]] owed_softer [OF fin ticked_linked(2) [OF link]] less
      by (meson le_less_trans)
    then have "stop_session_with (poll_client env n) env (?c l s) \<noteq> None" for l s by (rule stop_with_returns)
    then show ?thesis unfolding detach_on_mismatch_def using Some True by (simp del: not_None_eq)
  qed (use Some in \<open>auto simp: detach_on_mismatch_def\<close>)
qed (simp add: detach_on_mismatch_def)

lemma give_up_returns:
  assumes fin: "finite {i. exhausts env i}" and linked: "client_linked c"
    and owed: "pl_exhausted f \<noteq> None \<Longrightarrow> polls_owed env c < n"
    and IH: "\<And>c. client_linked c \<Longrightarrow> polls_owed env c < n \<Longrightarrow> poll_client env n c \<noteq> None"
  shows "give_up_room (poll_client env n) env f c \<noteq> None"
proof (cases "pl_exhausted f")
  case (Some reason)
  let ?c = "\<lambda>r. c\<lparr>ru_last_stop_reason := r\<rparr>"
  have link: "client_linked (?c r)" for r
    using same_core_fit [of c "?c r"] linked by (simp add: client_linked_def same_core_def)
  have "polls_owed env (?c r) < n" for r using owed Some by (simp add: polls_owed_def)
  then have "poll_client env n (tick (clear_gameplay_targets (?c r))) \<noteq> None" for r
    using IH [OF ticked_linked(1) [OF link]] owed_softer [OF fin ticked_linked(2) [OF link]]
    by (meson le_less_trans)
  then have "stop_session_with (poll_client env n) env (?c r) \<noteq> None" for r by (rule stop_with_returns)
  then show ?thesis unfolding give_up_room_def using Some by (simp del: not_None_eq)
qed (simp add: give_up_room_def)

lemma poll_returns:
  assumes fin: "finite {i. exhausts env i}"
  shows "client_linked c \<Longrightarrow> polls_owed env c < n \<Longrightarrow> poll_client env n c \<noteq> None"
proof (induction n arbitrary: c)
  case (Suc n)
  obtain c0 f where ev: "apply_events env c = (c0, f)" by fastforce
  note e = events_applied [OF Suc.prems(1) ev]
  have poll: "client_linked b \<and> softer a b" if "poll_client env n a = Some b" "client_linked a" for a b
    using poll_result [OF that] by blast
  have "polls_owed env c0 \<le> n" using owed_softer [OF fin e(2)] Suc.prems(2) by simp
  then obtain c1 where c1: "detach_on_mismatch (poll_client env n) env c0 = Some c1"
    using detach_returns [OF fin e(1) _ Suc.IH] by blast
  note d = detach_result [OF poll c1 e(1)]
  have cl: "pl_should_clear f \<Longrightarrow> ru_status c1 = StIdle"
    using e(4) d status_cases [of c1] by (auto simp: softer_def)
  note l = clear_ended_result [OF conjunct1 [OF d] cl, of f env]
  let ?c2 = "clear_ended_session env f c1"
  have soft: "softer c0 ?c2" using d l softer_trans by blast
  have "polls_owed env ?c2 < n" if "pl_exhausted f \<noteq> None"
    using owed_exhausted [OF fin softer_trans [OF e(2) soft] e(5) [OF that] order_refl] e(3) soft Suc.prems(2)
    by (simp add: softer_def)
  then have "give_up_room (poll_client env n) env f ?c2 \<noteq> None"
    using give_up_returns [OF fin conjunct1 [OF l] _ Suc.IH] by blast
  then show ?case by (auto simp: ev c1)
qed simp

section \<open>The operations\<close>

lemma ok_linked: "client_ok c \<Longrightarrow> client_linked c"
  by (simp add: client_ok_def)

lemma ok_fit: "client_ok c \<Longrightarrow> client_fit c"
  by (simp add: client_ok_def linkedD)

lemma ok_same:
  "same_core c c' \<Longrightarrow> bc_session c' = bc_session c
     \<Longrightarrow> bc_resume_gameplay_after_rejoin c' = bc_resume_gameplay_after_rejoin c \<Longrightarrow> client_ok c \<Longrightarrow> client_ok c'"
  using same_core_fit [of c c'] by (auto simp: client_ok_def client_linked_def same_core_def)

lemma ok_idle: "client_fit c \<Longrightarrow> ru_status c = StIdle \<Longrightarrow> client_ok c"
  by (simp add: client_ok_def fit_idle_linked)

lemma ok_push_log: "client_ok c \<Longrightarrow> client_ok (push_log env l m c)"
  using fit_push_log [of c env l m] by (simp add: client_ok_def client_linked_def)

lemma ok_fold_log: "client_ok c \<Longrightarrow> client_ok (fold (push_log env l) ms c)"
  by (induction ms arbitrary: c) (simp_all add: ok_push_log)

lemma ok_tick: "client_ok c \<Longrightarrow> client_ok (tick c)"
  by (rule ok_same) (simp_all add: same_core_def tick_def)

lemma ok_leave: "client_ok c \<Longrightarrow> client_ok (leave_relay_room c)"
  by (auto simp: client_ok_def client_linked_def client_fit_def leave_relay_room_def)

lemma ok_log_route: "client_ok c \<Longrightarrow> client_ok (log_session_route env config c)"
  by (auto simp: log_session_route_def Let_def intro!: ok_push_log split: SessionRouteConfig.split option.split)

lemma refresh_identity_sel [simp]:
  "ru_status (refresh_steam_identity_mismatch env c) = ru_status c"
  "ru_active_session_mode (refresh_steam_identity_mismatch env c) = ru_active_session_mode c"
  "bc_session (refresh_steam_identity_mismatch env c) = bc_session c"
  "bc_resume_gameplay_after_rejoin (refresh_steam_identity_mismatch env c) = bc_resume_gameplay_after_rejoin c"
  by (simp_all add: refresh_steam_identity_mismatch_def Let_def split: option.split)

lemma ok_refresh_identity: "client_ok c \<Longrightarrow> client_ok (refresh_steam_identity_mismatch env c)"
  using fit_refresh_identity [of c env] by (simp add: client_ok_def client_linked_def)

lemma stopped_ok: "stopped_from c c' \<Longrightarrow> client_ok c'"
  by (simp add: stopped_from_def ok_idle)

lemma stop_session_stopped:
  assumes "stop_session env n c = Some c'" and "client_linked c"
  shows "stopped_from c c'"
  by (rule stop_with [OF _ _ assms(2)]) (use poll_result assms(1) in \<open>auto simp: stop_session_def\<close>)

lemma stop_session_ok: "stop_session env n c = Some c' \<Longrightarrow> client_ok c \<Longrightarrow> client_ok c' \<and> ru_status c' = StIdle"
  using stop_session_stopped [of env n c c'] stopped_ok [of c c'] ok_linked [of c] by (simp add: stopped_from_def)

lemma joined_ok:
  assumes "join_relay_room env n route steam c = Some (c', r)" and ok: "client_ok c"
  shows "client_ok c' \<and> (ru_status c' = StRunning \<longrightarrow> ru_status c = StRunning)"
proof -
  let ?left = "tick (leave_relay_room c)"
  let ?in = "\<lambda>id. refresh_steam_identity_mismatch env (?left\<lparr>bc_relay_room := True, ru_relay_room_steam_id64 := Some id\<rparr>)"
  have left: "client_ok ?left" using ok by (simp add: ok_leave ok_tick)
  have "client_ok (?left\<lparr>bc_relay_room := True, ru_relay_room_steam_id64 := Some id\<rparr>)" for id
    using left by (auto simp: client_ok_def client_linked_def client_fit_def missing_targets_def leave_relay_room_def tick_def)
  then have "client_ok (?in id)" for id by (rule ok_refresh_identity)
  moreover have "ru_status (?in id) = ru_status c" for id by (simp add: leave_relay_room_def tick_def)
  ultimately have 1: "client_ok c' \<and> (ru_status c' = StRunning \<longrightarrow> ru_status c = StRunning)"
    if "poll_client env n (?in id) = Some c'" for id
    using poll_ok [OF that] poll_result [OF that ok_linked] by (auto simp: softer_def)
  have 2: "ru_status ?left = ru_status c" by (simp add: leave_relay_room_def tick_def)
  show ?thesis
    using assms(1) 1 2 left ok by (auto simp: join_relay_room_def Let_def split: res.splits option.splits)
qed

text \<open>A client that shows no game and has no targets left over: one step from a running game.\<close>

definition ready_to_play :: "'p BridgeClient \<Rightarrow> bool" where
  "ready_to_play c \<longleftrightarrow>
     client_fit c \<and> ru_status c = StIdle \<and> bc_observed_game_targets c = [] \<and> ru_missing_game_targets c = []"

lemma ready_ok: "ready_to_play c \<Longrightarrow> client_ok c"
  by (simp add: ready_to_play_def ok_idle)

lemma ready_same: "same_core c c' \<Longrightarrow> ready_to_play c \<Longrightarrow> ready_to_play c'"
  using same_core_fit [of c c'] by (simp add: ready_to_play_def same_core_def)

lemma ready_push_log: "ready_to_play c \<Longrightarrow> ready_to_play (push_log env l m c)"
  by (simp add: ready_to_play_def fit_push_log)

lemma ready_tick: "ready_to_play c \<Longrightarrow> ready_to_play (tick c)"
  by (rule ready_same) (simp_all add: same_core_def tick_def)

lemma ready_prepare:
  "client_fit c \<Longrightarrow> ru_status c = StIdle \<Longrightarrow> ready_to_play (prepare_gameplay_start route mode c)"
  by (auto simp: ready_to_play_def client_fit_def prepare_gameplay_start_def Let_def incidents_ok_def)

lemma ready_cleanup: "ready_to_play c \<Longrightarrow> ready_to_play (cleanup_hook_launch_parameters env r c)"
proof -
  have 1: "ready_to_play (x\<lparr>ru_hook_launch_parameters_cleanup := s\<rparr>)" if "ready_to_play x" for x :: "'a BridgeClient" and s
    by (rule ready_same [OF _ that]) (simp add: same_core_def)
  show "ready_to_play c \<Longrightarrow> ready_to_play (cleanup_hook_launch_parameters env r c)"
    unfolding cleanup_hook_launch_parameters_def Let_def
    by (auto intro!: 1 ready_push_log ready_tick split: option.split)
qed

lemma ready_startup: "ready_to_play c \<Longrightarrow> ready_to_play (c\<lparr>ru_hook_startup := s\<rparr>)"
  and ready_context: "ready_to_play c \<Longrightarrow> ready_to_play (c\<lparr>bc_active_log_context := x\<rparr>)"
  and ready_written: "ready_to_play c \<Longrightarrow> ready_to_play (c\<lparr>ru_hook_launch_parameters_path_written := w\<rparr>)"
  by (rule ready_same [rotated]; simp add: same_core_def)+

lemma ready_failure: "ready_to_play c \<Longrightarrow> ready_to_play (record_hook_startup_failure env paths m c)"
  unfolding record_hook_startup_failure_def Let_def by (intro ready_push_log ready_startup)

lemmas ready_helpers = ready_push_log ready_tick ready_cleanup ready_startup ready_context ready_written ready_failure

lemma playing_ok:
  assumes "ready_to_play c"
  shows "sx_mode s = m \<Longrightarrow> client_ok (c\<lparr>bc_session := Some s, ru_status := StRunning, ru_active_session_mode := Some m,
      ru_hook_runtime_active := h, bc_resume_gameplay_after_rejoin := False\<rparr>)"
    and "bc_session c = Some s \<Longrightarrow> sx_mode s = m
      \<Longrightarrow> client_ok (c\<lparr>ru_status := StRunning, ru_active_session_mode := Some m, bc_resume_gameplay_after_rejoin := False\<rparr>)"
  using assms by (auto simp: ready_to_play_def client_ok_def client_linked_def client_fit_def missing_targets_def)

lemma resumed_ok:
  assumes "client_ok c" and "bc_session c = Some s"
  shows "client_ok (fst (resume_session env s config c))"
proof (cases "ru_status c = StIdle \<and> is_reusable_for s (sc_mode config)")
  case True
  let ?c = "prepare_gameplay_start (config_log_route config) (sc_mode config) (tick c)"
  have r: "ready_to_play ?c"
    using fit_tick [OF ok_fit [OF assms(1)]] True by (intro ready_prepare) (simp_all add: tick_def)
  have s: "bc_session ?c = Some s" using assms(2) by (simp add: prepare_gameplay_start_def tick_def Let_def)
  have m: "sx_mode s = sc_mode config" using True by (simp add: is_reusable_for_def)
  have play: "client_ok (log_session_route env config (push_log env l t (?c\<lparr>ru_status := StRunning,
      ru_active_session_mode := Some (sc_mode config), bc_resume_gameplay_after_rejoin := False\<rparr>)))" for l t
    by (intro ok_log_route ok_push_log playing_ok(2) [OF r s m])
  have dead: "client_ok (?c\<lparr>bc_active_log_context := x\<rparr>)" for x using ready_ok [OF ready_context [OF r]] .
  show ?thesis
    unfolding resume_session_def Let_def using assms(1) ok_tick [OF assms(1)] play dead by (auto split: option.split)
qed (use assms in \<open>auto simp: resume_session_def\<close>)

lemma hook_prepared:
  assumes "ready_to_play c"
  shows "ready_to_play (fst (prepare_hook env c))"
  unfolding prepare_hook_def startup_failed_def Let_def
  using assms by (auto intro!: ready_helpers split: sum.split option.split)

lemma launched_ok:
  assumes "ready_to_play c"
  shows "client_ok (fst (launch_session env config c))"
proof -
  obtain c1 p where prep: "(if sc_mode config \<noteq> SmOfficial then prepare_hook env c
      else (c\<lparr>ru_hook_launch_parameters_path_written := None\<rparr>, Ok ())) = (c1, p)" by fastforce
  then have r: "ready_to_play c1"
    using hook_prepared [OF assms, of env] ready_written [OF assms] by (auto split: if_splits)
  have run: "client_ok (push_log env l1 t1 (log_session_route env config (push_log env l2 t2
      ((tick c1)\<lparr>bc_session := Some \<lparr>sx_persistent = h, sx_mode = sc_mode config\<rparr>, ru_status := StRunning,
        ru_active_session_mode := Some (sc_mode config), ru_hook_runtime_active := h,
        bc_resume_gameplay_after_rejoin := False\<rparr>))))" for l1 t1 l2 t2 h
    by (intro ok_push_log ok_log_route playing_ok(1) [OF ready_tick [OF r]]) simp
  have dead: "client_ok ((cleanup_hook_launch_parameters env t (tick c1))\<lparr>bc_active_log_context := x\<rparr>)" for t x
    using ready_ok [OF ready_context [OF ready_cleanup [OF ready_tick [OF r]]]] .
  show ?thesis
    unfolding launch_session_def Let_def prep
    using run dead ready_ok [OF r] ready_ok [OF ready_tick [OF r]] by (auto split: res.split option.split)
qed

lemma started_ok:
  assumes "start_session env n config c = Some (c', r)" and ok: "client_ok c"
  shows "client_ok c'"
proof -
  have "client_ok (fst (fresh_session env config x))" if "stopped_from c x" for x
  proof -
    have "ready_to_play (prepare_gameplay_start (config_log_route config) (sc_mode config) x)"
      using that by (intro ready_prepare) (simp_all add: stopped_from_def)
    then show ?thesis unfolding fresh_session_def by (intro launched_ok, rule ready_same [rotated]) (simp add: same_core_def)
  qed
  then have fresh: "client_ok c'" if "map_option (fresh_session env config) (stop_session env n c) = Some (c', r)"
    using that stop_session_stopped [OF _ ok_linked [OF ok]] by (auto dest!: arg_cong [of _ _ fst]) 
  have resumed: "client_ok c'" if "bc_session c = Some s" "resume_session env s config c = (c', r)" for s
    using resumed_ok [OF ok that(1), of env config] that(2) by simp
  show ?thesis
    using assms(1) ok fresh resumed unfolding start_session_def
    by (auto split: res.splits option.splits if_splits)
qed

lemma ok_calm: "client_ok c \<Longrightarrow> client_ok (c\<lparr>bc_resume_gameplay_after_rejoin := False\<rparr>)"
  using same_core_fit [of c "c\<lparr>bc_resume_gameplay_after_rejoin := False\<rparr>"]
  by (simp add: client_ok_def client_linked_def same_core_def)

lemma ok_idle_resume:
  assumes "client_ok c" and "ru_status c = StIdle"
  shows "client_ok (c\<lparr>bc_resume_gameplay_after_rejoin := b\<rparr>)"
  using same_core_fit [OF _ ok_fit [OF assms(1)], of "c\<lparr>bc_resume_gameplay_after_rejoin := b\<rparr>"] assms(2)
  by (intro ok_idle) (simp_all add: same_core_def)

lemma finish_rejoin_ok:
  assumes "finish_rejoin env n config owed joined c = Some (c', r)" and ok: "client_ok c"
  shows "client_ok c'"
proof (cases "\<exists>u. joined = Ok u \<and> ru_steam_identity_mismatch c = None \<and> owed")
  case True
  then obtain c1 started where start: "start_session env n config c = Some (c1, started)"
    and rest: "(case started of Err e \<Rightarrow> Some (c1, Err e) | Panic \<Rightarrow> Some (c1, Panic)
      | Ok _ \<Rightarrow> Some (c1\<lparr>bc_resume_gameplay_after_rejoin := False\<rparr>, Ok ())) = Some (c', r)"
    using assms(1) by (auto simp: finish_rejoin_def bind_eq_Some_conv)
  then have c': "c' = c1 \<or> c' = c1\<lparr>bc_resume_gameplay_after_rejoin := False\<rparr>" by (cases started) auto
  show ?thesis using c' started_ok [OF start ok] ok_calm by blast
next
  case False
  then show ?thesis using assms ok_calm
    by (auto simp: finish_rejoin_def split: res.splits if_splits)
qed

lemma rejoined_ok:
  assumes "rejoin_relay_room env n config c = Some (c', r)" and ok: "client_ok c"
  shows "client_ok c'"
proof (cases "c' = c")
  case False
  then obtain route x y joined owed where
    x: "(if ru_status c = StRunning then stop_session env n c else Some c) = Some x"
    and y: "join_relay_room env n route (sc_steam_id64 config) x = Some (y, joined)"
    and c': "finish_rejoin env n config owed joined (y\<lparr>bc_resume_gameplay_after_rejoin := owed\<rparr>) = Some (c', r)"
    using assms(1) unfolding rejoin_relay_room_def
    by (auto simp: bind_eq_Some_conv Let_def split: res.splits SessionRouteConfig.splits if_split_asm)
  have "client_ok x \<and> ru_status x = StIdle"
    using x stop_session_ok [of env n c x] ok status_cases [of c] by (auto split: if_splits)
  then have "client_ok y" "ru_status y = StIdle" using joined_ok [OF y] status_cases [of y] by auto
  from finish_rejoin_ok [OF c' ok_idle_resume [OF this]] show ?thesis .
qed (use ok in simp)

lemma shutdown_ok:
  assumes "client_ok c"
  shows "client_ok (client_shutdown env c)"
proof -
  have probes: "client_ok (x\<lparr>bc_readiness_probe := False, bc_hook_receive_probe := False, bc_light_ping_probe := False\<rparr>)"
    if "client_ok x" for x :: "'a BridgeClient"
    by (rule ok_same [OF _ _ _ that]) (simp_all add: same_core_def)
  have "client_fit (if bc_session c \<noteq> None then user_stopped c else c)"
    using ok_fit [OF assms] fit_user_stopped by auto
  from stopped_ok [OF stop_runtime [OF this]] show ?thesis
    unfolding client_shutdown_def Let_def by (intro probes ok_leave)
qed

lemma input_delay_ok:
  assumes "client_ok c"
  shows "client_ok (fst (run_input_delay env command c))"
proof -
  have "client_ok ((tick c)\<lparr>bc_next_request_id := i, ru_latest_input_delay_status := s\<rparr>)" for i s
    by (rule ok_same [OF _ _ _ ok_tick [OF assms]]) (simp_all add: same_core_def)
  then show ?thesis
    using assms by (auto simp: run_input_delay_def record_input_delay_result_def Let_def intro!: ok_push_log
        split: option.split sum.split)
qed

lemma probes_ok:
  assumes "client_ok c"
  shows "client_ok (fst (start_readiness_probe env relay c))" and "client_ok (fst (start_hook_receive_probe env c))"
    and "client_ok (start_light_ping_probes env targets c)" and "client_ok (update_lan_state peers paths c)"
    and "client_ok (refresh_steam_accounts env c)" and "client_ok (clear_logs c)"
proof -
  have same: "client_ok x" if "same_core c x" "bc_session x = bc_session c"
    "bc_resume_gameplay_after_rejoin x = bc_resume_gameplay_after_rejoin c" for x
    using ok_same [OF that assms] .
  show "client_ok (fst (start_readiness_probe env relay c))"
    unfolding start_readiness_probe_def using assms
    by (auto intro!: ok_push_log same simp: same_core_def split: res.split)
  show "client_ok (fst (start_hook_receive_probe env c))"
    unfolding start_hook_receive_probe_def using assms by (auto intro!: ok_push_log same simp: same_core_def)
  show "client_ok (start_light_ping_probes env targets c)"
    unfolding start_light_ping_probes_def using assms by (auto intro!: ok_push_log same simp: same_core_def)
  show "client_ok (update_lan_state peers paths c)"
    by (rule same) (simp_all add: update_lan_state_def same_core_def)
  show "client_ok (refresh_steam_accounts env c)"
    unfolding refresh_steam_accounts_def Let_def
    by (intro ok_push_log, rule same) (simp_all add: same_core_def tick_def)
  show "client_ok (clear_logs c)"
    using assms by (simp add: client_ok_def client_linked_def client_fit_def clear_logs_def missing_targets_def MAX_IN_MEMORY_LOGS_def)
qed

lemma op_ok:
  assumes "client_op env n op c = Some c'" and ok: "client_ok c"
  shows "client_ok c'"
proof (cases op)
  case CoPoll
  then show ?thesis using assms poll_ok by (auto simp: poll_events_def)
next
  case (CoJoin route steam)
  then show ?thesis using assms joined_ok by fastforce
next
  case (CoRejoin config)
  then show ?thesis using assms rejoined_ok by fastforce
next
  case (CoStart config)
  then show ?thesis using assms started_ok by fastforce
next
  case CoStop
  then show ?thesis using assms stop_session_ok [of env n c c'] by simp
qed (use assms in \<open>auto simp: run_hook_receive_probe_def record_lan_stage_def Let_def
  intro: ok_leave shutdown_ok input_delay_ok probes_ok ok_push_log\<close>)

lemma client_new_ok: "client_ok client_new"
  by (simp add: client_ok_def client_linked_def client_fit_def client_new_def incidents_ok_def MAX_IN_MEMORY_LOGS_def
      MAX_CLIENT_INCIDENT_SNAPSHOTS_def)

lemma client_started_ok: "client_start env c \<Longrightarrow> client_ok c"
  unfolding client_start_def with_config_def Let_def
  by (auto intro!: ok_fold_log ok_push_log probes_ok client_new_ok split: option.split)

interpretation client: invariant_system "client_start env" "client_step env" client_ok
  by unfold_locales (auto simp: client_step_def intro: client_started_ok op_ok)

section \<open>What a user can rely on\<close>

text \<open>
  However the client was used, its state is consistent: a game is shown as running exactly with its mode, over a
  session in that mode; the missing targets are those that the game named and the room does not have; a shown mismatch
  is one with the account of the room; the logs and the incidents are bounded.
\<close>

lemma client_consistent: "client_reachable env c \<Longrightarrow> client_ok c"
  by (rule client.reachable_inv)

text \<open>After a poll no game runs over the room of another account.\<close>

lemma no_foreign_game:
  "client_reachable env c \<Longrightarrow> poll_client env n c = Some c' \<Longrightarrow> ru_status c' = StRunning
     \<Longrightarrow> ru_steam_identity_mismatch c' = None"
  using poll_no_mismatch client_consistent by blast

text \<open>Polling and stopping come to an end, though each calls the other, as rooms report their exhaustion finitely often.\<close>

lemma polling_ends:
  assumes "finite {i. exhausts env i}" and "client_reachable env c"
  shows "\<exists>n c'. poll_client env n c = Some c'"
  using poll_returns [OF assms(1) ok_linked [OF client_consistent [OF assms(2)]] lessI] by blast

text \<open>A room that was given up leaves its account behind, and later games are still compared with it.\<close>

lemma exhausted_room_keeps_account:
  assumes "give_up_room (poll_client env n) env f c = Some c'" and "client_linked c" and "pl_exhausted f \<noteq> None"
  shows "\<not> bc_relay_room c' \<and> ru_relay_room_steam_id64 c' = ru_relay_room_steam_id64 c"
proof -
  have "softer c c'" using give_up_result [OF _ assms(1,2)] poll_result by blast
  moreover have "\<not> bc_relay_room c'" using assms(1,3) by (auto simp: give_up_room_def split: if_splits)
  ultimately show ?thesis by (simp add: softer_def)
qed

text \<open>
  A fresh start forgets what the last hook said but not the mismatch that followed from it: the first poll that brings
  no news of the hook detaches the new game.
\<close>

lemma fresh_session_keeps_mismatch:
  assumes "fresh_session env config c = (c', Ok u)"
  shows "ru_steam_identity_mismatch c' = ru_steam_identity_mismatch c"
    and "sc_mode config \<noteq> SmOfficial \<Longrightarrow> hi_game_steam_id64 (ru_hook_ipc c') = None"
proof -
  let ?c = "(prepare_gameplay_start (config_log_route config) (sc_mode config) c)
     \<lparr>ru_hook_launch_parameters_path_written := None, ru_hook_launch_parameters_cleanup := None,
      ru_hook_startup := hook_startup_default, ru_hook_ipc := hook_ipc_default, ru_hook_runtime_active := False\<rparr>"
  have start: "ru_steam_identity_mismatch ?c = ru_steam_identity_mismatch c" "ru_hook_ipc ?c = hook_ipc_default"
    by (simp_all add: prepare_gameplay_start_def Let_def)
  have hook: "ru_steam_identity_mismatch x' = ru_steam_identity_mismatch x \<and> ru_hook_ipc x' = ru_hook_ipc x"
    if "prepare_hook env x = (x', Ok v)" for x x' :: "'a BridgeClient" and v
    using that by (auto simp: prepare_hook_def startup_failed_def io_failure_def tick_def Let_def split: sum.splits option.splits if_splits)
  have route: "ru_steam_identity_mismatch (log_session_route env config x) = ru_steam_identity_mismatch x
      \<and> ru_hook_ipc (log_session_route env config x) = ru_hook_ipc x" for x :: "'a BridgeClient"
    by (simp add: log_session_route_def Let_def split: SessionRouteConfig.split option.split)
  have "ru_steam_identity_mismatch c' = ru_steam_identity_mismatch ?c \<and> ru_hook_ipc c' = ru_hook_ipc ?c"
    using assms [unfolded fresh_session_def launch_session_def Let_def] hook [of ?c] route
    by (auto simp: tick_def split: prod.splits res.splits option.splits if_splits)
  then show "ru_steam_identity_mismatch c' = ru_steam_identity_mismatch c" "hi_game_steam_id64 (ru_hook_ipc c') = None"
    using start by (simp_all add: hook_ipc_default_def)
qed

end
