(* ===== verification/Spec2Isabelle.thy ===== *)
theory Spec2Isabelle
  imports Relay_Orphans Relay_Server_Props Relay_Config Direct_Frame Direct_Control Hook_Ipc Relay_Session_Props
    Join_Code Lan_Control Client_Runtime_Props
begin

text \<open>
  TractorBeam carries the packets of a game between players, over a relay or directly in a local network.  This
  development models its Rust crates under \<open>src/crates\<close> and proves what their users rely on.

  \<^bold>\<open>The program.\<close>  The native hook inside the game hands packets to the bridge client over local IPC (\<open>hook-ipc\<close>).  The
  client (\<open>bridge-core\<close>) sends them in frames of the relay protocol (\<open>relay-protocol\<close>) to the relay
  (\<open>bridge-relay\<close>), which forwards each to one player of the same room; or, in a LAN room, in frames of the direct
  protocol (\<open>direct-protocol\<close>) over a pair of addresses both players have checked.  On the way back the client numbers
  what it lost, measures the paths, and tells the user how well the game can go on.

  \<^bold>\<open>How it is modelled.\<close>  A struct is a record and an enum a datatype, with the fields and variants of the source; an
  integer has its width (\<open>u64\<close> is \<open>64 word\<close>), and \<open>saturating_add\<close> and its kin are written out; \<open>usize\<close> values that
  are lengths are natural numbers.  A method is a function from the state to the new state and its result.  A fallible
  result is \<open>Ok\<close>, \<open>Err\<close> or \<open>Panic\<close>, so that a panic of the source is a value; hash maps are association lists with
  distinct keys, ordered maps are kept in order.  The clock is an argument in nanoseconds, random draws are lists of
  draws, a socket is what it delivers and accepts, and each section under a lock is one function.  Interleavings are
  reachable states: \<open>reachable_from\<close> of a step relation, one step for each operation.

  \<^bold>\<open>The theories.\<close>

  \<^item> \<open>TB_Prelude\<close>: Rust types, results, byte buffers, hash maps, reachability.  \<open>BTree_Map\<close>, \<open>Net_Addr\<close>, \<open>Rust_Str\<close>: the
    ordered maps, socket addresses and strings of the standard library as far as they are used.

  \<^item> Wire formats: \<open>Frame_Header\<close> (the header both codecs share), \<open>Relay_Frame\<close> (\<open>relay-protocol/src/frame.rs\<close>),
    \<open>Direct_Frame\<close> (\<open>direct-protocol/src/frame.rs\<close>), \<open>Protocol_Negotiation\<close> and \<open>Relay_Bootstrap\<close> (versions and
    capabilities, \<open>bootstrap.rs\<close>, \<open>control.rs\<close>), \<open>Direct_Types\<close> and \<open>Direct_Control\<close> (\<open>types.rs\<close>, \<open>control.rs\<close>),
    \<open>Hook_Ipc\<close> (\<open>hook-ipc/src\<close>), \<open>Join_Code\<close> (\<open>client/join_code\<close>).

  \<^item> The relay: \<open>Frame_Id_Window\<close> (\<open>duplicate.rs\<close>), \<open>Relay_Budget\<close> (\<open>state/traffic_budget.rs\<close>), \<open>Relay_Domain\<close>
    (\<open>domain.rs\<close>), \<open>Relay_Config\<close> (\<open>config.rs\<close>), \<open>Relay_State\<close> (\<open>state.rs\<close>, \<open>state/routing.rs\<close>) with its invariant in
    \<open>Relay_Invariant\<close>, its transition system in \<open>Relay_System\<close> and what follows in \<open>Relay_Guarantees\<close> and
    \<open>Relay_Orphans\<close>; \<open>Relay_Server\<close> (\<open>server.rs\<close> and below) and \<open>Relay_Server_Props\<close>.

  \<^item> The relay side of the client: \<open>Packet_Flow\<close> (\<open>packet_flow.rs\<close>), \<open>Relay_Client\<close> and \<open>Relay_Client_Props\<close>
    (\<open>relay_transport.rs\<close> and below), \<open>Relay_Session\<close> and \<open>Relay_Session_Props\<close> (the tasks of a session,
    \<open>session/data_plane.rs\<close>).

  \<^item> The LAN side: \<open>Lan_Adapter\<close> (\<open>lan/adapter.rs\<close>), \<open>Lan_Membership\<close> (\<open>lan/membership.rs\<close>), \<open>Lan_Ledger\<close>
    (\<open>lan/path/data_plane.rs\<close>), \<open>Lan_Path\<close>, \<open>Lan_Path_Props\<close> and \<open>Lan_Path_Guarantees\<close> (\<open>lan/path.rs\<close> and below),
    \<open>Lan_Link\<close> (\<open>lan/link.rs\<close>), \<open>Lan_Room\<close> (membership and paths with the notifications between them), \<open>Lan_Control\<close>
    (\<open>lan/control.rs\<close>).

  \<^item> Measurements: \<open>Delivery_Stats\<close> and \<open>Health_Stats\<close> (\<open>session_health/stats.rs\<close>), \<open>Direct_Flow\<close>
    (\<open>session_health/direct.rs\<close>), \<open>Session_Health\<close> (\<open>session_health.rs\<close>), \<open>Path_Quality\<close> (\<open>room_path_quality.rs\<close>,
    \<open>smoothness.rs\<close>, \<open>session/relay_rtt.rs\<close>).

  \<^item> The client itself: \<open>Client_State\<close> (\<open>state.rs\<close>, \<open>session_config.rs\<close>, the reports of the probes), \<open>Client_Runtime\<close>
    and \<open>Client_Runtime_Props\<close> (\<open>runtime.rs\<close>, \<open>runtime/maintenance.rs\<close>, \<open>input_delay.rs\<close>).

  \<^bold>\<open>The interfaces.\<close>  \<open>hash_map\<close> states the laws of a map with its well-formedness, for hash maps (\<open>hm\<close>) and ordered maps
  (\<open>bm\<close>).  \<open>wire_codec\<close> states that encoding and decoding are total and inverse, for the relay's and the direct codec.
  \<open>version_selection\<close> states what both negotiations promise.  \<open>replay_filter\<close> compares a filter of frame ids with an
  ideal history.  \<open>invariant_system\<close> carries an invariant from the steps to the reachable states; it is interpreted on
  the relay, its server, the ledger, the membership, the path manager, the LAN room and the client.  \<open>health_counter\<close>
  adds up the windows of a counter, and \<open>attachment_slot\<close> says that an attachment is not replaced or dropped unasked.

  \<^bold>\<open>What is shown.\<close>  For the relay: the invariant of its state, no frame id routed twice, data kept to its room, player and
  transport, recovery within its deadline and not after, admission with the exact reply, bounded traffic, and a server
  that refines it.  For the wire formats and codes: round trips, totality, and which messages are accepted.  For the
  client on the relay: the handshake completes against the relay's answers, packets arrive unchanged, a recovery
  always ends, probes go to capable members, pings of two kinds are kept apart.  For the LAN: links settle the same way
  on both sides, memberships and paths agree when no notification is under way, only checked pairs are nominated,
  nothing takes effect twice, queues are served in turn, the ledger balances.  For the measurements: counts equal those
  of ideal sets, windows add up to totals, verdicts are exactly what the data justifies.  For the client itself, as
  lemmas of \<open>Client_Runtime_Props\<close>: its state is consistent through every operation, after a poll no game runs over the
  room of another account, and polling and stopping, which call each other, come to an end.  Some theorems show what
  the code should not do, each named as such where it stands: connections orphaned by a second join
  (\<open>Relay_Orphans\<close>), a live peer forgotten after a failed dial (\<open>Lan_Membership\<close>), a link kept after a lost reply
  (\<open>Lan_Room\<close>), incidents hidden by an old queue drop (\<open>Client_State\<close>), stale members after a recovery by the health
  ping (\<open>Relay_Session_Props\<close>), valid control messages refused because JSON drops flow information
  (\<open>Direct_Control\<close>), a mismatch kept over a fresh start (\<open>Client_Runtime_Props\<close>).

  \<^bold>\<open>Parameters.\<close>  Code outside the repository is an argument: \<open>serde_json\<close> (hypotheses on single messages: what was written
  is read back, but for the flow information of IPv6 addresses), SHA-256, base58 and hex, postcard with COBS, TOML, the
  operating system, the network and the clock.  What a theorem needs of one is among its hypotheses, and its witness
  gives a concrete function.  A \<open>select!\<close> takes the branch that is ready first; when two are ready at once, which one
  is part of the input.  The delays of the backoff are at least the 250 milliseconds the code asks for.

  \<^bold>\<open>Bounds and fuel.\<close>  A recovery of the relay connection reads a list of what happens to each attempt; 481 entries are
  enough, since the first turn to end past 120 seconds is the last, and each turn before takes 250 milliseconds or
  what is left until then.  A
  read of one message, a handshake and the blocking write read the answers of the stream, and return \<open>None\<close> when these
  run out; the theorems that they return say which answers suffice.  The poll of the client runs with fuel for the
  depth of polls inside stops; one more than the polls it can owe (one for a mismatch, one for each moment in which a
  room reports its exhaustion) is enough (\<open>poll_returns\<close>).  The search for a proof of work ends with
  the counters of 64 bits, by a measure.

  \<^bold>\<open>What is not modelled.\<close>  Threads, tasks and channels as such (their bodies are, as steps), socket loops and timers (what
  they deliver is input), logging, metrics and telemetry, the configuration file of the client, Steam and process
  discovery, the injector and the native hook (operating-system calls and game memory), the supervisor and the LAN
  route of a session, the application thread and both user interfaces.  Unguarded arithmetic wraps, as in a release build; only
  running out of counters in the proof of work is a panic.
\<close>

end
